(* ===== verification/Prelude.thy ===== *)
theory Prelude
  imports Main "HOL-Library.Sublist"
begin

text \<open>
  Shared ground of the development: the result type of a Go call, the error values the
  controllers build with \<^verbatim>\<open>errors.New\<close>, \<^verbatim>\<open>errors.Join\<close> and the API machinery, field
  errors of the admission webhooks, and the generic lemmas on them.

  A Go function that returns \<^verbatim>\<open>(T, error)\<close> becomes a value of \<open>'a go\<close>: \<open>Ret x\<close> for a nil
  error, \<open>Fail e\<close> for a returned error and \<open>Panic m\<close> for a panic.  A function that returns only
  an \<^verbatim>\<open>error\<close> and mutates its receiver returns the mutated receiver under \<open>Ret\<close>.
\<close>

named_theorems go_simps \<open>unfolding of the result combinators\<close>
named_theorems path_defs \<open>field paths\<close>

section \<open>Field errors of the admission webhooks\<close>

text \<open>
  A path of \<^verbatim>\<open>k8s.io/apimachinery/pkg/util/validation/field\<close> is built only by
  \<^verbatim>\<open>NewPath\<close>, \<^verbatim>\<open>Child\<close> and \<^verbatim>\<open>Index\<close>; here it is the list of these constructions, outermost
  first.  \<^verbatim>\<open>field.Required\<close> and \<^verbatim>\<open>field.Invalid\<close> are kept as the values they build.
\<close>

datatype path_elem = Child string | Index nat

type_synonym path = "path_elem list"

definition new_path :: "string \<Rightarrow> path" where
  "new_path s = [Child s]"

definition child :: "path \<Rightarrow> string \<Rightarrow> path" where
  "child p s = p @ [Child s]"

definition index :: "path \<Rightarrow> nat \<Rightarrow> path" where
  "index p i = p @ [Index i]"

lemmas path_simps [path_defs] = new_path_def child_def index_def

datatype field_error =
    Required path string
  | Invalid path "string option" string

section \<open>Errors\<close>

text \<open>
  \<open>Sentinel\<close> is an error variable compared by identity, \<open>ApiErr\<close> an error of the API server
  with its reason, the kind of its \<^verbatim>\<open>Status\<close> object and the name of its details, \<open>Text\<close> any other error, \<open>Joined\<close> the
  result of \<^verbatim>\<open>errors.Join\<close> and \<open>Aggregate\<close> a non-empty \<^verbatim>\<open>field.ErrorList\<close> as an error.
\<close>

datatype api_reason = NotFound | InvalidObject | AlreadyExists | OtherReason string

datatype gerr =
    Sentinel string
  | ApiErr api_reason string string
  | Text string
  | Joined "gerr list"
  | Aggregate "field_error list"

text \<open>\<^verbatim>\<open>errors.Is\<close> for a target that is an error variable: the error itself or one it joins.\<close>

fun errors_Is :: "gerr \<Rightarrow> gerr \<Rightarrow> bool" where
  "errors_Is (Joined es) t = (Joined es = t \<or> (\<exists>e \<in> set es. errors_Is e t))"
| "errors_Is e t = (e = t)"

definition errors_Join :: "gerr list \<Rightarrow> gerr" where
  "errors_Join es = Joined es"

lemma errors_Is_refl [simp]: "errors_Is e e"
  by (cases e) auto

lemma errors_Is_Join [simp]:
  "errors_Is (errors_Join es) (Sentinel s) \<longleftrightarrow> (\<exists>e \<in> set es. errors_Is e (Sentinel s))"
  by (simp add: errors_Join_def)

lemma errors_Is_Join_mono: "e \<in> set es \<Longrightarrow> errors_Is e t \<Longrightarrow> errors_Is (errors_Join es) t"
  by (auto simp: errors_Join_def)

text \<open>\<^verbatim>\<open>apierrs.IsNotFound\<close>, \<^verbatim>\<open>IsInvalid\<close> and \<^verbatim>\<open>IsAlreadyExists\<close> read the reason of the API error
  \<^verbatim>\<open>errors.As\<close> finds first.\<close>

fun reason_of :: "gerr \<Rightarrow> api_reason option" where
  "reason_of (ApiErr r _ _) = Some r"
| "reason_of (Joined es) = (case filter (\<lambda>r. r \<noteq> None) (map reason_of es) of [] \<Rightarrow> None | r # _ \<Rightarrow> r)"
| "reason_of _ = None"

definition IsNotFound :: "gerr \<Rightarrow> bool" where
  "IsNotFound e \<longleftrightarrow> reason_of e = Some NotFound"

definition IsInvalid :: "gerr \<Rightarrow> bool" where
  "IsInvalid e \<longleftrightarrow> reason_of e = Some InvalidObject"

definition IsAlreadyExists :: "gerr \<Rightarrow> bool" where
  "IsAlreadyExists e \<longleftrightarrow> reason_of e = Some AlreadyExists"

lemma reason_exclusive:
  "IsInvalid e \<Longrightarrow> \<not> IsAlreadyExists e" "IsNotFound e \<Longrightarrow> \<not> IsInvalid e"
  by (auto simp: IsInvalid_def IsAlreadyExists_def IsNotFound_def)

text \<open>\<^verbatim>\<open>apierrs.ReasonForError\<close>, printed.\<close>

definition ReasonForError :: "gerr \<Rightarrow> string" where
  "ReasonForError err = (case reason_of err of
     None \<Rightarrow> ''''
   | Some NotFound \<Rightarrow> ''NotFound''
   | Some InvalidObject \<Rightarrow> ''Invalid''
   | Some AlreadyExists \<Rightarrow> ''AlreadyExists''
   | Some (OtherReason r) \<Rightarrow> r)"

section \<open>Results of Go calls\<close>

datatype 'a go = Ret 'a | Fail gerr | Panic string

fun bind_go :: "'a go \<Rightarrow> ('a \<Rightarrow> 'b go) \<Rightarrow> 'b go" where
  "bind_go (Ret x) f = f x"
| "bind_go (Fail e) f = Fail e"
| "bind_go (Panic m) f = Panic m"

lemma bind_go_Ret_right [simp]: "bind_go g Ret = g"
  by (cases g) auto

lemma bind_go_assoc [simp]: "bind_go (bind_go g f) h = bind_go g (\<lambda>x. bind_go (f x) h)"
  by (cases g) auto

lemma bind_go_eq_Ret [go_simps]:
  "bind_go g f = Ret y \<longleftrightarrow> (\<exists>x. g = Ret x \<and> f x = Ret y)"
  by (cases g) auto

lemma bind_go_cong [fundef_cong]:
  "g = g' \<Longrightarrow> (\<And>x. g' = Ret x \<Longrightarrow> f x = f' x) \<Longrightarrow> bind_go g f = bind_go g' f'"
  by (cases g') auto

text \<open>A call returns when it ends in \<open>Ret\<close>, neither with an error nor by a panic.\<close>

definition returns :: "'a go \<Rightarrow> bool" where
  "returns g \<longleftrightarrow> (\<exists>x. g = Ret x)"

lemma returns_Ret [simp, intro]: "returns (Ret x)"
  by (simp add: returns_def)

lemma not_returns [simp]: "\<not> returns (Fail e)" "\<not> returns (Panic m)"
  by (auto simp: returns_def)

lemma returnsE: "returns g \<Longrightarrow> (\<And>x. g = Ret x \<Longrightarrow> P) \<Longrightarrow> P"
  by (auto simp: returns_def)

lemma returns_bind [intro]:
  "returns g \<Longrightarrow> (\<And>x. g = Ret x \<Longrightarrow> returns (f x)) \<Longrightarrow> returns (bind_go g f)"
  by (auto simp: returns_def)

text \<open>The loop \<^verbatim>\<open>for i := range xs { if err := f(&xs[i]); err != nil { return err } }\<close>.\<close>

fun mapM_go :: "('a \<Rightarrow> 'b go) \<Rightarrow> 'a list \<Rightarrow> 'b list go" where
  "mapM_go f [] = Ret []"
| "mapM_go f (x # xs) = bind_go (f x) (\<lambda>y. bind_go (mapM_go f xs) (\<lambda>ys. Ret (y # ys)))"

lemma mapM_go_Ret_iff [go_simps]:
  "mapM_go f xs = Ret ys \<longleftrightarrow> list_all2 (\<lambda>x y. f x = Ret y) xs ys"
  by (induction xs arbitrary: ys) (auto simp: bind_go_eq_Ret list_all2_Cons1)

lemma returns_mapM: "(\<And>x. x \<in> set xs \<Longrightarrow> returns (f x)) \<Longrightarrow> returns (mapM_go f xs)"
  by (induction xs) auto

lemma mapM_go_idem:
  assumes "\<And>x y. x \<in> set xs \<Longrightarrow> f x = Ret y \<Longrightarrow> f y = Ret y" and "mapM_go f xs = Ret ys"
  shows "mapM_go f ys = Ret ys"
  using assms(2,1) unfolding mapM_go_Ret_iff
  by (induction rule: list_all2_induct) auto

text \<open>The nil-guarded call \<^verbatim>\<open>if p != nil { if err := f(p); err != nil { return err } }\<close>.\<close>

fun option_go :: "('a \<Rightarrow> 'b go) \<Rightarrow> 'a option \<Rightarrow> 'b option go" where
  "option_go f None = Ret None"
| "option_go f (Some x) = bind_go (f x) (\<lambda>y. Ret (Some y))"

lemma returns_option: "(\<And>x. p = Some x \<Longrightarrow> returns (f x)) \<Longrightarrow> returns (option_go f p)"
  by (cases p) auto

lemma option_go_Ret_iff [go_simps]:
  "option_go f p = Ret q \<longleftrightarrow> (case p of None \<Rightarrow> q = None | Some x \<Rightarrow> (\<exists>y. f x = Ret y \<and> q = Some y))"
  by (cases p) (auto simp: bind_go_eq_Ret)

lemma option_go_idem:
  assumes "\<And>x y. p = Some x \<Longrightarrow> f x = Ret y \<Longrightarrow> f y = Ret y" and "option_go f p = Ret q"
  shows "option_go f q = Ret q"
  using assms by (cases p) (auto simp: bind_go_eq_Ret)

section \<open>Accumulating field errors\<close>

text \<open>
  \<^verbatim>\<open>errs = append(errs, f(...)...)\<close> repeated: the calls run in order, the first panic ends the
  function, otherwise their errors are concatenated.
\<close>

fun cat_errs :: "field_error list go list \<Rightarrow> field_error list go" where
  "cat_errs [] = Ret []"
| "cat_errs (g # gs) = bind_go g (\<lambda>es. bind_go (cat_errs gs) (\<lambda>fs. Ret (es @ fs)))"

definition indexed :: "(nat \<Rightarrow> 'a \<Rightarrow> 'b) \<Rightarrow> 'a list \<Rightarrow> 'b list" where
  "indexed f xs = map (\<lambda>(i, x). f i x) (zip [0..<length xs] xs)"

definition when_errs :: "bool \<Rightarrow> field_error list \<Rightarrow> field_error list go" where
  "when_errs b es = Ret (if b then es else [])"

definition opt_errs :: "'a option \<Rightarrow> ('a \<Rightarrow> field_error list go) \<Rightarrow> field_error list go" where
  "opt_errs p f = (case p of None \<Rightarrow> Ret [] | Some x \<Rightarrow> f x)"

text \<open>\<^verbatim>\<open>ErrorList.ToAggregate\<close>: nil for no error.\<close>

definition to_aggregate :: "field_error list \<Rightarrow> unit go" where
  "to_aggregate es = (if es = [] then Ret () else Fail (Aggregate es))"

declare cat_errs.simps(2) [simp del]

lemma cat_errs_Cons_no_error [simp]:
  "cat_errs (g # gs) = Ret [] \<longleftrightarrow> g = Ret [] \<and> cat_errs gs = Ret []"
  by (auto simp: cat_errs.simps bind_go_eq_Ret)

lemma cat_errs_no_error: "cat_errs gs = Ret [] \<longleftrightarrow> (\<forall>g \<in> set gs. g = Ret [])"
  by (induction gs) auto

lemma cat_errs_append:
  "cat_errs (gs @ hs) = bind_go (cat_errs gs) (\<lambda>es. bind_go (cat_errs hs) (\<lambda>fs. Ret (es @ fs)))"
  by (induction gs) (auto simp: cat_errs.simps)

lemma returns_cat_errs: "(\<And>g. g \<in> set gs \<Longrightarrow> returns g) \<Longrightarrow> returns (cat_errs gs)"
  by (induction gs) (auto simp: cat_errs.simps)

lemma set_indexed: "set (indexed f xs) = {f i (xs ! i) |i. i < length xs}"
  by (force simp: indexed_def set_zip image_iff)

lemma indexed_Nil [simp]: "indexed f [] = []"
  by (simp add: indexed_def)

lemma indexed_Cons [simp]: "indexed f (x # xs) = f 0 x # indexed (\<lambda>i. f (Suc i)) xs"
proof -
  have "zip [0..<length (x # xs)] (x # xs) = (0, x) # zip (map Suc [0..<length xs]) xs"
    by (simp add: upt_conv_Cons map_Suc_upt del: upt_Suc)
  then show ?thesis
    by (simp add: indexed_def zip_map1 case_prod_unfold comp_def)
qed

lemma all_indexed: "(\<forall>y \<in> set (indexed f xs). P y) \<longleftrightarrow> (\<forall>i < length xs. P (f i (xs ! i)))"
  by (auto simp: set_indexed)

lemma when_errs_no_error [simp]: "when_errs b es = Ret [] \<longleftrightarrow> b \<longrightarrow> es = []"
  by (simp add: when_errs_def)

lemma returns_when_errs [simp, intro]: "returns (when_errs b es)"
  by (simp add: when_errs_def)

lemma opt_errs_no_error: "opt_errs p f = Ret [] \<longleftrightarrow> (\<forall>x. p = Some x \<longrightarrow> f x = Ret [])"
  by (cases p) (auto simp: opt_errs_def)

lemma opt_errs_simps [simp]: "opt_errs None f = Ret []" "opt_errs (Some x) f = f x"
  by (auto simp: opt_errs_def)

lemma returns_opt_errs: "(\<And>x. p = Some x \<Longrightarrow> returns (f x)) \<Longrightarrow> returns (opt_errs p f)"
  by (cases p) (auto simp: opt_errs_def)

lemma to_aggregate_Ret [simp]: "to_aggregate es = Ret () \<longleftrightarrow> es = []"
  by (simp add: to_aggregate_def)

lemma to_aggregate_not_Panic [simp]: "to_aggregate es \<noteq> Panic m"
  by (simp add: to_aggregate_def)

lemma bind_to_aggregate_Ret:
  "bind_go g to_aggregate = Ret () \<longleftrightarrow> g = Ret []"
  by (cases g) auto

section \<open>Go strings\<close>

text \<open>\<^verbatim>\<open>strings.Join(xs, sep)\<close>.\<close>

fun join :: "string \<Rightarrow> string list \<Rightarrow> string" where
  "join sep [] = ''''"
| "join sep [x] = x"
| "join sep (x # y # xs) = x @ sep @ join sep (y # xs)"

text \<open>The \<^verbatim>\<open>%d\<close> verb of \<^verbatim>\<open>fmt\<close> on an integer.\<close>

fun digits :: "nat \<Rightarrow> string" where
  "digits n = (if n < 10 then [char_of (48 + n)] else digits (n div 10) @ [char_of (48 + n mod 10)])"

declare digits.simps [simp del]

definition fmt_d :: "int \<Rightarrow> string" where
  "fmt_d i = (if i < 0 then ''-'' @ digits (nat (- i)) else digits (nat i))"

lemma digits_nonempty [simp]: "digits n \<noteq> []"
  by (subst digits.simps) simp

lemma fmt_d_nonempty [simp]: "fmt_d i \<noteq> []"
  by (simp add: fmt_d_def)

text \<open>\<^verbatim>\<open>strings.ToLower\<close> and \<^verbatim>\<open>strings.ToUpper\<close> on the ASCII letters.\<close>

definition lower_char :: "char \<Rightarrow> char" where
  "lower_char c = (if 65 \<le> (of_char c :: nat) \<and> (of_char c :: nat) \<le> 90
     then char_of ((of_char c :: nat) + 32) else c)"

definition upper_char :: "char \<Rightarrow> char" where
  "upper_char c = (if 97 \<le> (of_char c :: nat) \<and> (of_char c :: nat) \<le> 122
     then char_of ((of_char c :: nat) - 32) else c)"

definition ToLower :: "string \<Rightarrow> string" where
  "ToLower s = map lower_char s"

definition ToUpper :: "string \<Rightarrow> string" where
  "ToUpper s = map upper_char s"

lemma ToLower_eq_Nil [simp]: "ToLower s = [] \<longleftrightarrow> s = []"
  by (simp add: ToLower_def)

end
