(* ===== verification/Kube.thy ===== *)
theory Kube
  imports Prelude
begin

text \<open>
  What every kind of the program shares: object metadata, the validation context of
  \<^verbatim>\<open>validation/stash.go\<close>, the defaults of \<^verbatim>\<open>internal/defaults\<close>, the annotation check of
  \<^verbatim>\<open>apis/annotations.go\<close>, and the contract every API kind has to meet: the locale \<open>defaulter\<close>
  for a value that is defaulted in place and \<open>admitted_kind\<close> for an object that is defaulted and
  then validated by its admission webhook.  The kinds interpret the two locales in their own
  theories.
\<close>

section \<open>Metadata and objects\<close>

text \<open>
  The fields of \<^verbatim>\<open>metav1.ObjectMeta\<close> the program reads or writes.  A nil map and an empty map are
  the same map here: the program only looks keys up.
\<close>

record ObjectMeta =
  om_Namespace :: string
  om_Name :: string
  om_GenerateName :: string
  om_UID :: string
  om_Generation :: int
  om_ResourceVersion :: string
  om_Labels :: "string \<rightharpoonup> string"
  om_Annotations :: "string \<rightharpoonup> string"
  om_OwnerReferences :: "string list"
  om_Finalizers :: "string list"
  om_CreationTimestamp :: int

text \<open>Times are nanoseconds since the Unix epoch; the zero time of Go is the start of year 1.\<close>

definition zero_time :: int where
  "zero_time = - 62135596800 * 1000000000"

definition blank_meta :: ObjectMeta where
  "blank_meta = \<lparr>om_Namespace = '''', om_Name = '''', om_GenerateName = '''', om_UID = '''',
     om_Generation = 0, om_ResourceVersion = '''', om_Labels = Map.empty,
     om_Annotations = Map.empty, om_OwnerReferences = [], om_Finalizers = [],
     om_CreationTimestamp = zero_time\<rparr>"

text \<open>Every API object is its metadata, a spec and a status.\<close>

record ('spec, 'status) resource =
  rs_Meta :: ObjectMeta
  rs_Spec :: 'spec
  rs_Status :: 'status

section \<open>The validation context\<close>

text \<open>
  \<^verbatim>\<open>StashResource\<close> puts the object under validation into the context, \<^verbatim>\<open>RetrieveResource\<close> reads it
  back with a type assertion that panics when nothing was stashed.  The process environment is
  part of the context because \<^verbatim>\<open>defaults.Namespace\<close> reads \<^verbatim>\<open>WA8S_NAMESPACE\<close>.
\<close>

record ctx =
  ctx_env_namespace :: string
  ctx_resource :: "ObjectMeta option"

definition StashResource :: "ctx \<Rightarrow> ObjectMeta \<Rightarrow> ctx" where
  "StashResource c o' = c\<lparr>ctx_resource := Some o'\<rparr>"

definition RetrieveResource :: "ctx \<Rightarrow> ObjectMeta go" where
  "RetrieveResource c = (case ctx_resource c of
     None \<Rightarrow> Panic ''interface conversion: interface is nil, not client.Object''
   | Some o' \<Rightarrow> Ret o')"

definition Namespace :: "ctx \<Rightarrow> string" where
  "Namespace c = (let namespace = ctx_env_namespace c in
     if namespace = '''' then ''wa8s-system'' else namespace)"

lemma RetrieveResource_Stash [simp]: "RetrieveResource (StashResource c o') = Ret o'"
  by (simp add: RetrieveResource_def StashResource_def)

lemma Stash_resource [simp]: "ctx_resource (StashResource c o') = Some o'"
  by (simp add: StashResource_def)

lemma Namespace_Stash [simp]: "Namespace (StashResource c o') = Namespace c"
  by (simp add: Namespace_def StashResource_def)

lemma Namespace_nonempty [simp]: "Namespace c \<noteq> ''''" "[] \<noteq> Namespace c"
  by (simp_all add: Namespace_def Let_def)

lemma RetrieveResource_Some: "ctx_resource c = Some o' \<Longrightarrow> RetrieveResource c = Ret o'"
  by (simp add: RetrieveResource_def)

lemma returns_Retrieve: "ctx_resource c \<noteq> None \<Longrightarrow> returns (RetrieveResource c)"
  by (auto simp: RetrieveResource_def)

section \<open>API versions\<close>

definition APIVersionForKind :: "string \<Rightarrow> string" where
  "APIVersionForKind kind = (
     if kind = ''Component'' then ''wa8s.reconciler.io/v1alpha1''
     else if kind = ''ClusterComponent'' then ''wa8s.reconciler.io/v1alpha1''
     else if kind = ''Composition'' then ''wa8s.reconciler.io/v1alpha1''
     else if kind = ''ConfigStore'' then ''wa8s.reconciler.io/v1alpha1''
     else if kind = ''ComponentContainerImage'' then ''containers.wa8s.reconciler.io/v1alpha1''
     else if kind = ''CronTrigger'' then ''containers.wa8s.reconciler.io/v1alpha1''
     else if kind = ''HttpTrigger'' then ''containers.wa8s.reconciler.io/v1alpha1''
     else if kind = ''WrpcTrigger'' then ''containers.wa8s.reconciler.io/v1alpha1''
     else if kind = ''ServiceTrigger'' then ''knative.wa8s.reconciler.io/v1alpha1''
     else if kind = ''Image'' then ''registries.wa8s.reconciler.io/v1alpha1''
     else if kind = ''ClusterImage'' then ''registries.wa8s.reconciler.io/v1alpha1''
     else if kind = ''Repository'' then ''registries.wa8s.reconciler.io/v1alpha1''
     else if kind = ''ClusterRepository'' then ''registries.wa8s.reconciler.io/v1alpha1''
     else if kind = ''ServiceClient'' then ''services.wa8s.reconciler.io/v1alpha1''
     else if kind = ''ServiceInstance'' then ''services.wa8s.reconciler.io/v1alpha1''
     else if kind = ''ServiceLifecycle'' then ''services.wa8s.reconciler.io/v1alpha1''
     else if kind = ''ClusterServiceLifecycle'' then ''services.wa8s.reconciler.io/v1alpha1''
     else '''')"

section \<open>Annotations\<close>

definition CreateChildComponentAnnotation :: string where
  "CreateChildComponentAnnotation = ''wa8s.reconciler.io/create-child-component''"

text \<open>The third value the message lists is the annotation's key, as in the source.\<close>

definition ValidateCommonAnnotations :: "path \<Rightarrow> ObjectMeta \<Rightarrow> field_error list" where
  "ValidateCommonAnnotations fldPath o' =
     (case om_Annotations o' CreateChildComponentAnnotation of
        None \<Rightarrow> []
      | Some createChild \<Rightarrow>
          if createChild \<noteq> ''true'' \<and> createChild \<noteq> ''false'' \<and> createChild \<noteq> ''auto''
          then [Invalid (child (child (child fldPath ''metadata'') ''annotations'')
                  CreateChildComponentAnnotation) (Some createChild)
                  (''must be one of: '' @ join '', '' [''true'', ''false'', CreateChildComponentAnnotation])]
          else [])"

lemma ValidateCommonAnnotations_no_error:
  "ValidateCommonAnnotations p o' = [] \<longleftrightarrow>
     om_Annotations o' CreateChildComponentAnnotation \<in> {None, Some ''true'', Some ''false'', Some ''auto''}"
  by (auto simp: ValidateCommonAnnotations_def split: option.split if_split)

section \<open>The contract of a defaulted value\<close>

text \<open>
  \<^verbatim>\<open>reconcilers.Defaulter\<close>: defaulting runs in the webhook and again in every reconcile, so it has
  to return for any value once an object is stashed, and defaulting a defaulted value must change
  nothing.
\<close>

locale defaulter =
  fixes dflt :: "ctx \<Rightarrow> 'a \<Rightarrow> 'a go"
  assumes dflt_returns: "ctx_resource c \<noteq> None \<Longrightarrow> returns (dflt c x)"
    and dflt_idem: "dflt c x = Ret y \<Longrightarrow> dflt c y = Ret y"
begin

lemma list_returns: "ctx_resource c \<noteq> None \<Longrightarrow> returns (mapM_go (dflt c) xs)"
  by (intro returns_mapM dflt_returns)

lemma list_idem: "mapM_go (dflt c) xs = Ret ys \<Longrightarrow> mapM_go (dflt c) ys = Ret ys"
  by (rule mapM_go_idem) (auto intro: dflt_idem)

lemma option_returns: "ctx_resource c \<noteq> None \<Longrightarrow> returns (option_go (dflt c) p)"
  by (intro returns_option dflt_returns)

lemma option_idem: "option_go (dflt c) p = Ret q \<Longrightarrow> option_go (dflt c) q = Ret q"
  by (rule option_go_idem) (auto intro: dflt_idem)

lemma no_panic: "ctx_resource c \<noteq> None \<Longrightarrow> dflt c x \<noteq> Panic m"
  using dflt_returns [of c x] by auto

end

text \<open>A defaulted value that its owner also validates.\<close>

locale validated = defaulter dflt for dflt :: "ctx \<Rightarrow> 'a \<Rightarrow> 'a go" +
  fixes vld :: "ctx \<Rightarrow> path \<Rightarrow> 'a \<Rightarrow> field_error list go"
  assumes vld_returns: "ctx_resource c \<noteq> None \<Longrightarrow> returns (vld c p x)"
begin

lemma opt_vld_returns: "ctx_resource c \<noteq> None \<Longrightarrow> returns (opt_errs q (vld c p))"
  by (intro returns_opt_errs vld_returns)

lemma list_vld_returns: "ctx_resource c \<noteq> None \<Longrightarrow>
  returns (cat_errs (indexed (\<lambda>i x. vld c (index p i) x) xs))"
  by (rule returns_cat_errs) (auto simp: set_indexed intro: vld_returns)

end

section \<open>The contract of an admitted kind\<close>

text \<open>
  The shape all \<^verbatim>\<open>ValidateCreate\<close> methods share: default the object, stash it, validate it at the
  root path, aggregate the errors.  It is used inside the locale only; each kind's own method is
  a definition of its theory, and the interpretation proves that it has this shape.
\<close>

definition admit :: "(ctx \<Rightarrow> 'o \<Rightarrow> 'o go) \<Rightarrow> ('o \<Rightarrow> ObjectMeta) \<Rightarrow>
    (ctx \<Rightarrow> path \<Rightarrow> 'o \<Rightarrow> field_error list go) \<Rightarrow> ctx \<Rightarrow> 'o \<Rightarrow> unit go" where
  "admit dflt meta vld c o' =
     bind_go (dflt c o') (\<lambda>o''. bind_go (vld (StashResource c (meta o'')) (new_path '''') o'') to_aggregate)"

locale admitted_kind =
  fixes dflt :: "ctx \<Rightarrow> 'o \<Rightarrow> 'o go"
    and meta :: "'o \<Rightarrow> ObjectMeta"
    and vld :: "ctx \<Rightarrow> path \<Rightarrow> 'o \<Rightarrow> field_error list go"
    and create :: "ctx \<Rightarrow> 'o \<Rightarrow> unit go"
  assumes obj_dflt_returns: "returns (dflt c o')"
    and obj_dflt_meta: "dflt c o' = Ret o'' \<Longrightarrow> meta o'' = meta o'"
    and obj_dflt_idem: "dflt c o' = Ret o'' \<Longrightarrow> dflt c o'' = Ret o''"
    and obj_vld_returns: "ctx_resource c \<noteq> None \<Longrightarrow> returns (vld c p o')"
    and obj_create: "create c o' = admit dflt meta vld c o'"
begin

text \<open>The webhook never panics: it admits the object or returns the aggregated field errors.\<close>

lemma create_no_panic: "create c o' \<noteq> Panic m"
proof -
  obtain o'' where d: "dflt c o' = Ret o''"
    using obj_dflt_returns [of c o'] by (auto elim: returnsE)
  obtain es where "vld (StashResource c (meta o'')) (new_path '''') o'' = Ret es"
    using obj_vld_returns [of "StashResource c (meta o'')" "new_path ''''" o''] by (auto elim: returnsE)
  with d show ?thesis
    by (simp add: obj_create admit_def)
qed

text \<open>What is admitted is exactly what the validation accepts after defaulting.\<close>

lemma create_iff: "create c o' = Ret () \<longleftrightarrow>
  (\<exists>o''. dflt c o' = Ret o'' \<and> vld (StashResource c (meta o')) (new_path '''') o'' = Ret [])"
  by (auto simp: obj_create admit_def bind_go_eq_Ret to_aggregate_def obj_dflt_meta split: if_splits)

text \<open>Re-admitting what defaulting produced gives the same verdict.\<close>

lemma create_dflt: "dflt c o' = Ret o'' \<Longrightarrow> create c o'' = create c o'"
  by (simp add: obj_create admit_def obj_dflt_idem)

end

section \<open>Kinds built from a spec\<close>

text \<open>
  Most kinds delegate to their spec.  If the spec meets its contract, so does the kind: this is
  what the interpretations of the single kinds rest on.
\<close>

lemma spec_default_idem:
  assumes "\<And>x y. g x = Ret y \<Longrightarrow> g y = Ret y"
    and "bind_go (g (rs_Spec r)) (\<lambda>s. Ret (r\<lparr>rs_Spec := s\<rparr>)) = Ret r'"
  shows "bind_go (g (rs_Spec r')) (\<lambda>s. Ret (r'\<lparr>rs_Spec := s\<rparr>)) = Ret r'" and "rs_Meta r' = rs_Meta r"
proof -
  from assms(2) obtain s where s: "g (rs_Spec r) = Ret s" and r': "r' = r\<lparr>rs_Spec := s\<rparr>"
    by (auto simp: bind_go_eq_Ret)
  from assms(1) [OF s] have "g s = Ret s" .
  with r' show "bind_go (g (rs_Spec r')) (\<lambda>s. Ret (r'\<lparr>rs_Spec := s\<rparr>)) = Ret r'" by simp
  from r' show "rs_Meta r' = rs_Meta r" by simp
qed

lemma admitted_kindI:
  assumes spec: "validated sd sv"
    and D: "\<And>c r. D c r =
      bind_go (sd (StashResource c (rs_Meta r)) (rs_Spec r)) (\<lambda>s. Ret (r\<lparr>rs_Spec := s\<rparr>))"
    and V: "\<And>c p r. V c p r =
      cat_errs [Ret (ValidateCommonAnnotations p (rs_Meta r)), sv c (child p ''spec'') (rs_Spec r)]"
    and C: "\<And>c r. C c r = admit D rs_Meta V c r"
  shows "admitted_kind D rs_Meta V C"
proof -
  from spec have d: "ctx_resource c \<noteq> None \<Longrightarrow> returns (sd c x)"
    and i: "sd c x = Ret y \<Longrightarrow> sd c y = Ret y"
    and v: "ctx_resource c \<noteq> None \<Longrightarrow> returns (sv c p x)" for c p x y
    unfolding validated_def validated_axioms_def defaulter_def by blast+
  show ?thesis
  proof unfold_locales
    fix c o' o'' p
    show "returns (D c o')"
      by (simp add: D returns_bind d)
    assume e: "D c o' = Ret o''"
    note idem = spec_default_idem [where g = "sd (StashResource c (rs_Meta o'))", OF i e [unfolded D]]
    show "rs_Meta o'' = rs_Meta o'" by (rule idem(2))
    show "D c o'' = Ret o''" using idem by (simp add: D)
  next
    fix c :: ctx and p o'
    assume "ctx_resource c \<noteq> None"
    then show "returns (V c p o')"
      unfolding V by (intro returns_cat_errs) (auto intro: v)
  qed (rule C)
qed

text \<open>A spec that is adjusted before it is defaulted still meets the contract when the adjustment
  does nothing to what defaulting returns.\<close>

lemma validated_adjusted:
  assumes "validated sd sv" and "\<And>c x y. sd c (adj c x) = Ret y \<Longrightarrow> adj c y = y"
  shows "validated (\<lambda>c x. sd c (adj c x)) sv"
  using assms unfolding validated_def validated_axioms_def defaulter_def by metis

section \<open>References across namespaces\<close>

text \<open>
  The rule the validations of namespaced references implement after defaulting: a blank namespace
  is filled with the one of the referring object, and the referring object reaches another
  namespace only from the namespace of the installation, or when it has no namespace itself.
\<close>

definition reference_allowed :: "ctx \<Rightarrow> string \<Rightarrow> string \<Rightarrow> bool" where
  "reference_allowed c own ref \<longleftrightarrow> (if ref = [] then own \<noteq> []
     else own = [] \<or> own = ref \<or> own = Namespace c)"

lemma reference_allowed_isolated:
  "reference_allowed c own ref \<Longrightarrow> own \<noteq> [] \<Longrightarrow> own \<noteq> Namespace c \<Longrightarrow> ref = [] \<or> ref = own"
  by (auto simp: reference_allowed_def split: if_splits)

text \<open>The webhook of a kind built from a spec admits an object iff its annotation is allowed and
  its defaulted spec is valid.\<close>

lemma admitted_spec_iff:
  assumes D: "\<And>c r. D c r =
      bind_go (sd (StashResource c (rs_Meta r)) (rs_Spec r)) (\<lambda>s. Ret (r\<lparr>rs_Spec := s\<rparr>))"
    and V: "\<And>c p r. V c p r =
      cat_errs [Ret (ValidateCommonAnnotations p (rs_Meta r)), sv c (child p ''spec'') (rs_Spec r)]"
    and C: "\<And>c r. C c r = admit D rs_Meta V c r"
  shows "C c r = Ret () \<longleftrightarrow> ValidateCommonAnnotations [] (rs_Meta r) = [] \<and>
    bind_go (sd (StashResource c (rs_Meta r)) (rs_Spec r))
      (sv (StashResource c (rs_Meta r)) (child (new_path []) ''spec'')) = Ret []"
proof (cases "sd (StashResource c (rs_Meta r)) (rs_Spec r)")
  case (Ret s)
  then show ?thesis
    by (simp add: C admit_def D V bind_to_aggregate_Ret ValidateCommonAnnotations_no_error)
qed (simp_all add: C admit_def D)

end
