(* ===== verification/Registries_Api.thy ===== *)
theory Registries_Api
  imports Kube
begin

text \<open>
  The \<^verbatim>\<open>registries\<close> API group (\<^verbatim>\<open>apis/registries/v1alpha1\<close>): repositories and images, their
  namespaced and cluster kinds, their defaulting and their admission webhooks.  The last section
  interprets the contracts of theory Kube for every kind and reference of the group.
\<close>

named_theorems registries_defs \<open>unfolding of the registries group\<close>

section \<open>Types\<close>

record RepositoryReference =
  rr_Kind :: string
  rr_Name :: string

record ServiceAccountReference =
  sa_Namespace :: string
  sa_Name :: string

record RepositorySpec =
  rps_Template :: string
  rps_ServiceAccountRef :: ServiceAccountReference

record ImageReference =
  ir_Kind :: string
  ir_Namespace :: string
  ir_Name :: string

record ImageSpec =
  is_RepositoryRef :: RepositoryReference
  is_Image :: string
  is_ServiceAccountRef :: ServiceAccountReference

type_synonym 'st Repository = "(RepositorySpec, 'st) resource"
type_synonym 'st ClusterRepository = "(RepositorySpec, 'st) resource"
type_synonym 'st Image = "(ImageSpec, 'st) resource"
type_synonym 'st ClusterImage = "(ImageSpec, 'st) resource"

section \<open>References\<close>

definition RepositoryReference_Default :: "ctx \<Rightarrow> RepositoryReference \<Rightarrow> RepositoryReference go" where
  "RepositoryReference_Default c r =
     (let r = (if r = \<lparr>rr_Kind = '''', rr_Name = ''''\<rparr>
               then \<lparr>rr_Kind = ''ClusterRepository'', rr_Name = ''default''\<rparr> else r);
          r = (if rr_Kind r \<noteq> ''ClusterRepository'' then r\<lparr>rr_Kind := ''Repository''\<rparr> else r);
          r = (if rr_Name r = '''' then r\<lparr>rr_Name := ''default''\<rparr> else r)
      in Ret r)"

definition RepositoryReference_Validate ::
    "ctx \<Rightarrow> path \<Rightarrow> RepositoryReference \<Rightarrow> field_error list go" where
  "RepositoryReference_Validate c p r = cat_errs [
     when_errs (rr_Kind r = '''') [Required (child p ''kind'') ''''],
     when_errs (rr_Kind r \<noteq> ''Repository'' \<and> rr_Kind r \<noteq> ''ClusterRepository'')
       [Invalid (child p ''kind'') (Some (rr_Kind r)) ''allowed values are Repository or ClusterRepository''],
     when_errs (rr_Name r = '''') [Required (child p ''name'') '''']]"

definition ServiceAccountReference_Default ::
    "ctx \<Rightarrow> ServiceAccountReference \<Rightarrow> ServiceAccountReference go" where
  "ServiceAccountReference_Default c r =
     bind_go (if sa_Namespace r = ''''
              then bind_go (RetrieveResource c) (\<lambda>o'. Ret (r\<lparr>sa_Namespace := om_Namespace o'\<rparr>))
              else Ret r)
       (\<lambda>r. Ret (if sa_Name r = '''' then r\<lparr>sa_Name := ''default''\<rparr> else r))"

text \<open>The namespace is read from the stashed object only when the reference names one.\<close>

definition ServiceAccountReference_Validate ::
    "ctx \<Rightarrow> path \<Rightarrow> ServiceAccountReference \<Rightarrow> field_error list go" where
  "ServiceAccountReference_Validate c p r = cat_errs [
     if sa_Namespace r = '''' then Ret [Required (child p ''namespace'') '''']
     else bind_go (RetrieveResource c) (\<lambda>o'. let ns = om_Namespace o' in
       when_errs (ns \<noteq> '''' \<and> ns \<noteq> sa_Namespace r \<and> ns \<noteq> Namespace c)
         [Invalid (child p ''namespace'') (Some (sa_Namespace r))
            ''cross namespace service accounts are not allowed'']),
     when_errs (sa_Name r = '''') [Required (child p ''name'') '''']]"

definition ImageReference_Default :: "ctx \<Rightarrow> ImageReference \<Rightarrow> ImageReference go" where
  "ImageReference_Default c r =
     (let r = (if ir_Kind r = '''' then r\<lparr>ir_Kind := ''Image''\<rparr> else r) in
      bind_go (if ir_Namespace r = '''' \<and> \<not> prefix ''Cluster'' (ir_Kind r)
               then bind_go (RetrieveResource c) (\<lambda>o'. Ret (r\<lparr>ir_Namespace := om_Namespace o'\<rparr>))
               else Ret r)
        (\<lambda>r. if ir_Name r = ''''
             then bind_go (RetrieveResource c) (\<lambda>o'. Ret (r\<lparr>ir_Name := om_Name o'\<rparr>))
             else Ret r))"

definition ImageReference_Validate :: "ctx \<Rightarrow> path \<Rightarrow> ImageReference \<Rightarrow> field_error list go" where
  "ImageReference_Validate c p r = cat_errs [
     if ir_Kind r = '''' then Ret [Required (child p ''kind'') '''']
     else when_errs (ir_Kind r \<noteq> ''Image'' \<and> ir_Kind r \<noteq> ''ClusterImage'')
       [Invalid (child p ''kind'') (Some (ir_Kind r)) ''must be one of Image or ClusterImage''],
     if \<not> prefix ''Cluster'' (ir_Kind r) then
       (if ir_Namespace r = '''' then Ret [Required (child p ''namespace'') '''']
        else bind_go (RetrieveResource c) (\<lambda>o'. let ns = om_Namespace o' in
          when_errs (ns \<noteq> '''' \<and> ns \<noteq> ir_Namespace r \<and> ns \<noteq> Namespace c)
            [Invalid (child p ''namespace'') (Some (ir_Namespace r))
               ''cross namespace images are not allowed'']))
     else Ret [],
     when_errs (ir_Name r = '''') [Required (child p ''name'') '''']]"

section \<open>Repositories\<close>

definition RepositorySpec_Default :: "ctx \<Rightarrow> RepositorySpec \<Rightarrow> RepositorySpec go" where
  "RepositorySpec_Default c r =
     bind_go (ServiceAccountReference_Default c (rps_ServiceAccountRef r))
       (\<lambda>sa. Ret (r\<lparr>rps_ServiceAccountRef := sa\<rparr>))"

definition RepositorySpec_Validate :: "ctx \<Rightarrow> path \<Rightarrow> RepositorySpec \<Rightarrow> field_error list go" where
  "RepositorySpec_Validate c p r = cat_errs [
     when_errs (rps_Template r = '''') [Required (child p ''template'') ''''],
     ServiceAccountReference_Validate c (child p ''serviceAccountRef'') (rps_ServiceAccountRef r)]"

definition Repository_Default :: "ctx \<Rightarrow> 'st Repository \<Rightarrow> 'st Repository go" where
  "Repository_Default c r = (let c = StashResource c (rs_Meta r) in
     bind_go (RepositorySpec_Default c (rs_Spec r)) (\<lambda>s. Ret (r\<lparr>rs_Spec := s\<rparr>)))"

text \<open>The cluster kind has no namespace of its own: its service account defaults to the namespace
  of the installation.\<close>

definition ClusterRepository_Default :: "ctx \<Rightarrow> 'st ClusterRepository \<Rightarrow> 'st ClusterRepository go" where
  "ClusterRepository_Default c r = (let c = StashResource c (rs_Meta r);
     sa = rps_ServiceAccountRef (rs_Spec r);
     sa = (if sa_Namespace sa = '''' then sa\<lparr>sa_Namespace := Namespace c\<rparr> else sa) in
     bind_go (RepositorySpec_Default c ((rs_Spec r)\<lparr>rps_ServiceAccountRef := sa\<rparr>))
       (\<lambda>s. Ret (r\<lparr>rs_Spec := s\<rparr>)))"

definition Repository_Validate :: "ctx \<Rightarrow> path \<Rightarrow> 'st Repository \<Rightarrow> field_error list go" where
  "Repository_Validate c p r = cat_errs [
     Ret (ValidateCommonAnnotations p (rs_Meta r)),
     RepositorySpec_Validate c (child p ''spec'') (rs_Spec r)]"

definition ClusterRepository_Validate :: "ctx \<Rightarrow> path \<Rightarrow> 'st ClusterRepository \<Rightarrow> field_error list go" where
  "ClusterRepository_Validate c p r = cat_errs [
     Ret (ValidateCommonAnnotations p (rs_Meta r)),
     RepositorySpec_Validate c (child p ''spec'') (rs_Spec r)]"

definition Repository_ValidateCreate :: "ctx \<Rightarrow> 'st Repository \<Rightarrow> unit go" where
  "Repository_ValidateCreate c obj = bind_go (Repository_Default c obj) (\<lambda>obj.
     bind_go (Repository_Validate (StashResource c (rs_Meta obj)) (new_path '''') obj) to_aggregate)"

definition ClusterRepository_ValidateCreate :: "ctx \<Rightarrow> 'st ClusterRepository \<Rightarrow> unit go" where
  "ClusterRepository_ValidateCreate c obj = bind_go (ClusterRepository_Default c obj) (\<lambda>obj.
     bind_go (ClusterRepository_Validate (StashResource c (rs_Meta obj)) (new_path '''') obj) to_aggregate)"

definition Repository_ValidateUpdate :: "ctx \<Rightarrow> 'st Repository \<Rightarrow> 'st Repository \<Rightarrow> unit go" where
  "Repository_ValidateUpdate c oldObj newObj = bind_go (Repository_Default c newObj) (\<lambda>newObj.
     bind_go (Repository_Validate (StashResource c (rs_Meta newObj)) (new_path '''') newObj) to_aggregate)"

definition ClusterRepository_ValidateUpdate ::
    "ctx \<Rightarrow> 'st ClusterRepository \<Rightarrow> 'st ClusterRepository \<Rightarrow> unit go" where
  "ClusterRepository_ValidateUpdate c oldObj newObj = bind_go (ClusterRepository_Default c newObj) (\<lambda>newObj.
     bind_go (ClusterRepository_Validate (StashResource c (rs_Meta newObj)) (new_path '''') newObj) to_aggregate)"

section \<open>Images\<close>

definition ImageSpec_Default :: "ctx \<Rightarrow> ImageSpec \<Rightarrow> ImageSpec go" where
  "ImageSpec_Default c r =
     bind_go (RepositoryReference_Default c (is_RepositoryRef r)) (\<lambda>rr.
     bind_go (ServiceAccountReference_Default c (is_ServiceAccountRef r)) (\<lambda>sa.
       Ret (r\<lparr>is_RepositoryRef := rr, is_ServiceAccountRef := sa\<rparr>)))"

definition ImageSpec_Validate :: "ctx \<Rightarrow> path \<Rightarrow> ImageSpec \<Rightarrow> field_error list go" where
  "ImageSpec_Validate c p r = cat_errs [
     RepositoryReference_Validate c (child p ''repositoryRef'') (is_RepositoryRef r),
     ServiceAccountReference_Validate c (child p ''serviceAccountRef'') (is_ServiceAccountRef r)]"

definition Image_Default :: "ctx \<Rightarrow> 'st Image \<Rightarrow> 'st Image go" where
  "Image_Default c r = (let c = StashResource c (rs_Meta r) in
     bind_go (ImageSpec_Default c (rs_Spec r)) (\<lambda>s. Ret (r\<lparr>rs_Spec := s\<rparr>)))"

definition ClusterImage_Default :: "ctx \<Rightarrow> 'st ClusterImage \<Rightarrow> 'st ClusterImage go" where
  "ClusterImage_Default c r = (let c = StashResource c (rs_Meta r);
     sa = is_ServiceAccountRef (rs_Spec r);
     sa = (if sa_Namespace sa = '''' then sa\<lparr>sa_Namespace := Namespace c\<rparr> else sa) in
     bind_go (ImageSpec_Default c ((rs_Spec r)\<lparr>is_ServiceAccountRef := sa\<rparr>))
       (\<lambda>s. Ret (r\<lparr>rs_Spec := s\<rparr>)))"

definition Image_Validate :: "ctx \<Rightarrow> path \<Rightarrow> 'st Image \<Rightarrow> field_error list go" where
  "Image_Validate c p r = cat_errs [
     Ret (ValidateCommonAnnotations p (rs_Meta r)),
     ImageSpec_Validate c (child p ''spec'') (rs_Spec r)]"

definition ClusterImage_Validate :: "ctx \<Rightarrow> path \<Rightarrow> 'st ClusterImage \<Rightarrow> field_error list go" where
  "ClusterImage_Validate c p r = cat_errs [
     Ret (ValidateCommonAnnotations p (rs_Meta r)),
     ImageSpec_Validate c (child p ''spec'') (rs_Spec r)]"

definition Image_ValidateCreate :: "ctx \<Rightarrow> 'st Image \<Rightarrow> unit go" where
  "Image_ValidateCreate c obj = bind_go (Image_Default c obj) (\<lambda>obj.
     bind_go (Image_Validate (StashResource c (rs_Meta obj)) (new_path '''') obj) to_aggregate)"

definition ClusterImage_ValidateCreate :: "ctx \<Rightarrow> 'st ClusterImage \<Rightarrow> unit go" where
  "ClusterImage_ValidateCreate c obj = bind_go (ClusterImage_Default c obj) (\<lambda>obj.
     bind_go (ClusterImage_Validate (StashResource c (rs_Meta obj)) (new_path '''') obj) to_aggregate)"

definition Image_ValidateUpdate :: "ctx \<Rightarrow> 'st Image \<Rightarrow> 'st Image \<Rightarrow> unit go" where
  "Image_ValidateUpdate c oldObj newObj = bind_go (Image_Default c newObj) (\<lambda>newObj.
     bind_go (Image_Validate (StashResource c (rs_Meta newObj)) (new_path '''') newObj) to_aggregate)"

definition ClusterImage_ValidateUpdate :: "ctx \<Rightarrow> 'st ClusterImage \<Rightarrow> 'st ClusterImage \<Rightarrow> unit go" where
  "ClusterImage_ValidateUpdate c oldObj newObj = bind_go (ClusterImage_Default c newObj) (\<lambda>newObj.
     bind_go (ClusterImage_Validate (StashResource c (rs_Meta newObj)) (new_path '''') newObj) to_aggregate)"

section \<open>The references meet the contracts\<close>

lemma RepositoryReference_Default_returns: "returns (RepositoryReference_Default c r)"
  by (simp add: RepositoryReference_Default_def Let_def)

lemma RepositoryReference_Default_idem:
  "RepositoryReference_Default c r = Ret r' \<Longrightarrow> RepositoryReference_Default c r' = Ret r'"
  by (cases r) (auto simp: RepositoryReference_Default_def Let_def split: if_splits)

lemma RepositoryReference_Validate_returns: "returns (RepositoryReference_Validate c p r)"
  unfolding RepositoryReference_Validate_def by (rule returns_cat_errs) auto

lemma ServiceAccountReference_Default_returns:
  "ctx_resource c \<noteq> None \<Longrightarrow> returns (ServiceAccountReference_Default c r)"
  by (auto simp: ServiceAccountReference_Default_def RetrieveResource_def)

lemma ServiceAccountReference_Default_idem:
  "ServiceAccountReference_Default c r = Ret r' \<Longrightarrow> ServiceAccountReference_Default c r' = Ret r'"
  by (cases "ctx_resource c")
    (auto simp: ServiceAccountReference_Default_def RetrieveResource_def split: if_splits)

lemma ServiceAccountReference_Validate_returns:
  "ctx_resource c \<noteq> None \<Longrightarrow> returns (ServiceAccountReference_Validate c p r)"
  unfolding ServiceAccountReference_Validate_def
  by (rule returns_cat_errs) (auto simp: Let_def intro!: returns_bind returns_Retrieve)

lemma ImageReference_Default_returns: "ctx_resource c \<noteq> None \<Longrightarrow> returns (ImageReference_Default c r)"
  by (auto simp: ImageReference_Default_def RetrieveResource_def Let_def)

lemma ImageReference_Default_idem:
  "ImageReference_Default c r = Ret r' \<Longrightarrow> ImageReference_Default c r' = Ret r'"
  by (cases "ctx_resource c")
    (auto simp: ImageReference_Default_def RetrieveResource_def Let_def split: if_splits)

lemma ImageReference_Validate_returns:
  "ctx_resource c \<noteq> None \<Longrightarrow> returns (ImageReference_Validate c p r)"
  unfolding ImageReference_Validate_def
  by (rule returns_cat_errs) (auto simp: Let_def intro!: returns_bind returns_Retrieve)

interpretation repository_ref: validated RepositoryReference_Default RepositoryReference_Validate
  by unfold_locales
    (auto intro: RepositoryReference_Default_returns RepositoryReference_Default_idem
       RepositoryReference_Validate_returns)

interpretation service_account_ref: validated ServiceAccountReference_Default ServiceAccountReference_Validate
  by unfold_locales
    (auto intro: ServiceAccountReference_Default_returns ServiceAccountReference_Default_idem
       ServiceAccountReference_Validate_returns)

interpretation image_ref: validated ImageReference_Default ImageReference_Validate
  by unfold_locales
    (auto intro: ImageReference_Default_returns ImageReference_Default_idem
       ImageReference_Validate_returns)

section \<open>The specs meet them\<close>

interpretation repository_spec: validated RepositorySpec_Default RepositorySpec_Validate
proof unfold_locales
  fix c :: ctx and x y :: RepositorySpec and p
  show "returns (RepositorySpec_Default c x)" if "ctx_resource c \<noteq> None"
    using that by (simp add: RepositorySpec_Default_def returns_bind service_account_ref.dflt_returns)
  assume "RepositorySpec_Default c x = Ret y"
  then obtain sa where "ServiceAccountReference_Default c (rps_ServiceAccountRef x) = Ret sa"
    and "y = x\<lparr>rps_ServiceAccountRef := sa\<rparr>"
    by (auto simp: RepositorySpec_Default_def bind_go_eq_Ret)
  then show "RepositorySpec_Default c y = Ret y"
    using service_account_ref.dflt_idem by (simp add: RepositorySpec_Default_def)
next
  fix c :: ctx and x :: RepositorySpec and p
  assume "ctx_resource c \<noteq> None"
  then show "returns (RepositorySpec_Validate c p x)"
    unfolding RepositorySpec_Validate_def
    by (intro returns_cat_errs) (auto intro: service_account_ref.vld_returns)
qed

interpretation image_spec: validated ImageSpec_Default ImageSpec_Validate
proof unfold_locales
  fix c :: ctx and x y :: ImageSpec and p
  show "returns (ImageSpec_Default c x)" if "ctx_resource c \<noteq> None"
    using that
    by (simp add: ImageSpec_Default_def returns_bind service_account_ref.dflt_returns
        repository_ref.dflt_returns)
  assume "ImageSpec_Default c x = Ret y"
  then obtain rr sa where "RepositoryReference_Default c (is_RepositoryRef x) = Ret rr"
    and "ServiceAccountReference_Default c (is_ServiceAccountRef x) = Ret sa"
    and "y = x\<lparr>is_RepositoryRef := rr, is_ServiceAccountRef := sa\<rparr>"
    by (auto simp: ImageSpec_Default_def bind_go_eq_Ret)
  then show "ImageSpec_Default c y = Ret y"
    using service_account_ref.dflt_idem repository_ref.dflt_idem by (simp add: ImageSpec_Default_def)
next
  fix c :: ctx and x :: ImageSpec and p
  assume "ctx_resource c \<noteq> None"
  then show "returns (ImageSpec_Validate c p x)"
    unfolding ImageSpec_Validate_def
    by (intro returns_cat_errs)
      (auto intro: service_account_ref.vld_returns repository_ref.vld_returns)
qed

section \<open>The four kinds are admitted kinds\<close>

text \<open>What the cluster kinds do to the service account before the spec is defaulted.\<close>

definition adjust_sa :: "ctx \<Rightarrow> ServiceAccountReference \<Rightarrow> ServiceAccountReference" where
  "adjust_sa c sa = (if sa_Namespace sa = [] then sa\<lparr>sa_Namespace := Namespace c\<rparr> else sa)"

lemma adjust_sa_defaulted:
  "ServiceAccountReference_Default c (adjust_sa c sa) = Ret sa' \<Longrightarrow> adjust_sa c sa' = sa'"
  by (auto simp: ServiceAccountReference_Default_def adjust_sa_def split: if_splits)

interpretation repository: admitted_kind Repository_Default rs_Meta Repository_Validate
  Repository_ValidateCreate
  by (rule admitted_kindI [OF repository_spec.validated_axioms])
    (simp_all add: Repository_Default_def Repository_Validate_def Repository_ValidateCreate_def admit_def)

interpretation cluster_repository: admitted_kind ClusterRepository_Default rs_Meta
  ClusterRepository_Validate ClusterRepository_ValidateCreate
proof (rule admitted_kindI [OF validated_adjusted [OF repository_spec.validated_axioms,
      where adj = "\<lambda>c s. s\<lparr>rps_ServiceAccountRef := adjust_sa c (rps_ServiceAccountRef s)\<rparr>"]])
  fix c :: ctx and x y :: RepositorySpec
  assume "RepositorySpec_Default c (x\<lparr>rps_ServiceAccountRef := adjust_sa c (rps_ServiceAccountRef x)\<rparr>) = Ret y"
  then have "adjust_sa c (rps_ServiceAccountRef y) = rps_ServiceAccountRef y"
    by (auto simp: RepositorySpec_Default_def bind_go_eq_Ret adjust_sa_defaulted)
  then show "y\<lparr>rps_ServiceAccountRef := adjust_sa c (rps_ServiceAccountRef y)\<rparr> = y" by simp
qed (simp_all add: ClusterRepository_Default_def ClusterRepository_Validate_def
    ClusterRepository_ValidateCreate_def admit_def Let_def adjust_sa_def)

interpretation image: admitted_kind Image_Default rs_Meta Image_Validate Image_ValidateCreate
  by (rule admitted_kindI [OF image_spec.validated_axioms])
    (simp_all add: Image_Default_def Image_Validate_def Image_ValidateCreate_def admit_def)

interpretation cluster_image: admitted_kind ClusterImage_Default rs_Meta ClusterImage_Validate
  ClusterImage_ValidateCreate
proof (rule admitted_kindI [OF validated_adjusted [OF image_spec.validated_axioms,
      where adj = "\<lambda>c s. s\<lparr>is_ServiceAccountRef := adjust_sa c (is_ServiceAccountRef s)\<rparr>"]])
  fix c :: ctx and x y :: ImageSpec
  assume "ImageSpec_Default c (x\<lparr>is_ServiceAccountRef := adjust_sa c (is_ServiceAccountRef x)\<rparr>) = Ret y"
  then have "adjust_sa c (is_ServiceAccountRef y) = is_ServiceAccountRef y"
    by (auto simp: ImageSpec_Default_def bind_go_eq_Ret adjust_sa_defaulted)
  then show "y\<lparr>is_ServiceAccountRef := adjust_sa c (is_ServiceAccountRef y)\<rparr> = y" by simp
qed (simp_all add: ClusterImage_Default_def ClusterImage_Validate_def
    ClusterImage_ValidateCreate_def admit_def Let_def adjust_sa_def)

section \<open>What the webhooks admit\<close>

lemma ServiceAccountReference_Default_stashed:
  "ServiceAccountReference_Default (StashResource c m) sa = Ret
     \<lparr>sa_Namespace = (if sa_Namespace sa = [] then om_Namespace m else sa_Namespace sa),
      sa_Name = (if sa_Name sa = [] then ''default'' else sa_Name sa)\<rparr>"
  by (cases sa) (simp add: ServiceAccountReference_Default_def)

lemma ServiceAccountReference_admitted:
  "bind_go (ServiceAccountReference_Default (StashResource c m) sa)
     (ServiceAccountReference_Validate (StashResource c m) p) = Ret [] \<longleftrightarrow> reference_allowed c (om_Namespace m) (sa_Namespace sa)"
  by (auto simp: ServiceAccountReference_Default_stashed ServiceAccountReference_Validate_def
      reference_allowed_def Let_def)

lemma RepositoryReference_admitted:
  "bind_go (RepositoryReference_Default c r) (RepositoryReference_Validate c' p) = Ret []"
  by (auto simp: RepositoryReference_Default_def RepositoryReference_Validate_def Let_def)

lemma RepositoryReference_defaulted_valid:
  "RepositoryReference_Default c r = Ret r' \<Longrightarrow> RepositoryReference_Validate c' p r' = Ret []"
  using RepositoryReference_admitted [of c r c' p] by simp

lemma image_spec_admitted:
  "bind_go (ImageSpec_Default (StashResource c m) s) (ImageSpec_Validate (StashResource c m) p)
     = Ret [] \<longleftrightarrow> reference_allowed c (om_Namespace m) (sa_Namespace (is_ServiceAccountRef s))"
proof -
  let ?c = "StashResource c m"
  obtain rr where rr: "RepositoryReference_Default ?c (is_RepositoryRef s) = Ret rr"
    by (metis RepositoryReference_Default_returns returns_def)
  from RepositoryReference_defaulted_valid [OF rr] show ?thesis
    using ServiceAccountReference_admitted [of c m "is_ServiceAccountRef s"]
    by (simp add: ImageSpec_Default_def rr ImageSpec_Validate_def ServiceAccountReference_Default_stashed)
qed

lemma image_admitted:
  "Image_ValidateCreate c o' = Ret () \<longleftrightarrow>
     ValidateCommonAnnotations [] (rs_Meta o') = [] \<and>
     reference_allowed c (om_Namespace (rs_Meta o')) (sa_Namespace (is_ServiceAccountRef (rs_Spec o')))"
  using admitted_spec_iff [OF _ _ image.obj_create, where sd = ImageSpec_Default
      and sv = ImageSpec_Validate]
  by (simp add: Image_Default_def Image_Validate_def Let_def image_spec_admitted)

lemma repository_spec_admitted:
  "bind_go (RepositorySpec_Default (StashResource c m) s) (RepositorySpec_Validate (StashResource c m) p)
     = Ret [] \<longleftrightarrow> rps_Template s \<noteq> [] \<and>
       reference_allowed c (om_Namespace m) (sa_Namespace (rps_ServiceAccountRef s))"
  using ServiceAccountReference_admitted [of c m "rps_ServiceAccountRef s"]
  by (auto simp: RepositorySpec_Default_def RepositorySpec_Validate_def
      ServiceAccountReference_Default_stashed)

lemma repository_admitted:
  "Repository_ValidateCreate c o' = Ret () \<longleftrightarrow>
     ValidateCommonAnnotations [] (rs_Meta o') = [] \<and> rps_Template (rs_Spec o') \<noteq> [] \<and>
     reference_allowed c (om_Namespace (rs_Meta o')) (sa_Namespace (rps_ServiceAccountRef (rs_Spec o')))"
  using admitted_spec_iff [OF _ _ repository.obj_create, where sd = RepositorySpec_Default
      and sv = RepositorySpec_Validate]
  by (simp add: Repository_Default_def Repository_Validate_def Let_def repository_spec_admitted)

lemma cluster_repository_admitted:
  "ClusterRepository_ValidateCreate c o' = Ret () \<longleftrightarrow>
     ValidateCommonAnnotations [] (rs_Meta o') = [] \<and> rps_Template (rs_Spec o') \<noteq> [] \<and>
     reference_allowed c (om_Namespace (rs_Meta o'))
       (sa_Namespace (adjust_sa c (rps_ServiceAccountRef (rs_Spec o'))))"
  using admitted_spec_iff [OF _ _ cluster_repository.obj_create, where c = c and r = o' and sv = RepositorySpec_Validate
      and sd = "\<lambda>c s. RepositorySpec_Default c
        (s\<lparr>rps_ServiceAccountRef := adjust_sa c (rps_ServiceAccountRef s)\<rparr>)"]
  by (simp add: ClusterRepository_Default_def ClusterRepository_Validate_def Let_def
      repository_spec_admitted adjust_sa_def)

lemma cluster_image_admitted:
  "ClusterImage_ValidateCreate c o' = Ret () \<longleftrightarrow>
     ValidateCommonAnnotations [] (rs_Meta o') = [] \<and>
     reference_allowed c (om_Namespace (rs_Meta o')) (sa_Namespace (adjust_sa c (is_ServiceAccountRef (rs_Spec o'))))"
  using admitted_spec_iff [OF _ _ cluster_image.obj_create, where c = c and r = o' and sv = ImageSpec_Validate
      and sd = "\<lambda>c s. ImageSpec_Default c
        (s\<lparr>is_ServiceAccountRef := adjust_sa c (is_ServiceAccountRef s)\<rparr>)"]
  by (simp add: ClusterImage_Default_def ClusterImage_Validate_def Let_def
      image_spec_admitted adjust_sa_def)

text \<open>The repository reference of an image, once defaulted, is always valid: a blank reference
  becomes the ClusterRepository named default, a reference of any kind but ClusterRepository becomes
  one of kind Repository, and a blank name becomes default.\<close>

theorem RepositoryReference_default_valid:
  "\<exists>r'. RepositoryReference_Default c r = Ret r' \<and> RepositoryReference_Validate c' p r' = Ret [] \<and>
     rr_Kind r' = (if r = \<lparr>rr_Kind = [], rr_Name = []\<rparr> \<or> rr_Kind r = ''ClusterRepository''
                   then ''ClusterRepository'' else ''Repository'') \<and>
     rr_Name r' = (if rr_Name r = [] then ''default'' else rr_Name r)"
  by (rule exI, intro conjI, simp add: RepositoryReference_Default_def Let_def,
      rule RepositoryReference_defaulted_valid [where c = c and r = r])
    (auto simp: RepositoryReference_Default_def Let_def)

text \<open>An image is admitted exactly when its create-child annotation has an allowed value and its
  service account, after defaulting, may be referenced from the namespace of the image: only an
  image in the namespace of the installation reaches service accounts of other namespaces.  Nothing
  else can make the webhook refuse an image, and it never panics.\<close>

theorem Image_admitted_iff:
  "(Image_ValidateCreate c o' = Ret () \<longleftrightarrow>
     ValidateCommonAnnotations [] (rs_Meta o') = [] \<and>
     reference_allowed c (om_Namespace (rs_Meta o')) (sa_Namespace (is_ServiceAccountRef (rs_Spec o'))))
   \<and> Image_ValidateCreate c o' \<noteq> Panic m"
  by (simp add: image.create_no_panic image_admitted)

text \<open>A repository is admitted exactly when it has a template, its create-child annotation has an
  allowed value, and its service account may be referenced from its namespace; the webhook of the
  cluster kind applies the same rule after filling a blank namespace with the one of the
  installation.\<close>

theorem Repository_admitted_iff:
  "(Repository_ValidateCreate c o' = Ret () \<longleftrightarrow>
     ValidateCommonAnnotations [] (rs_Meta o') = [] \<and> rps_Template (rs_Spec o') \<noteq> [] \<and>
     reference_allowed c (om_Namespace (rs_Meta o')) (sa_Namespace (rps_ServiceAccountRef (rs_Spec o')))) \<and>
   (ClusterRepository_ValidateCreate c o' = Ret () \<longleftrightarrow>
     ValidateCommonAnnotations [] (rs_Meta o') = [] \<and> rps_Template (rs_Spec o') \<noteq> [] \<and>
     reference_allowed c (om_Namespace (rs_Meta o'))
       (sa_Namespace (adjust_sa c (rps_ServiceAccountRef (rs_Spec o')))))"
  by (simp add: repository_admitted cluster_repository_admitted)

end
