(* ===== verification/Wit.thy ===== *)
theory Wit
  imports Prelude
begin

text \<open>
  The imports and exports of a component (\<^verbatim>\<open>wit/wit.go\<close>).  They are read off the textual WIT with
  the regular expression \<^verbatim>\<open>(import|export)\s+([^;]+);\<close>.  The package \<^verbatim>\<open>regexp\<close> is part of the Go
  library, so its leftmost-first semantics is modelled: the matches of an expression at a position,
  in the order in which a backtracking search would find them, of which the first is taken.
\<close>

section \<open>Regular expressions\<close>

datatype regexp = Lit string | Plus "char \<Rightarrow> bool" | Seq regexp regexp | Alt regexp regexp | Cap regexp

text \<open>A match is the text consumed, the captured groups and the text left.\<close>

type_synonym re_match = "string \<times> string list \<times> string"

fun matches :: "regexp \<Rightarrow> string \<Rightarrow> re_match list" where
  "matches (Lit w) s = (if prefix w s then [(w, [], drop (length w) s)] else [])"
| "matches (Plus p) s = map (\<lambda>k. (take k s, [], drop k s)) (rev [1..<Suc (length (takeWhile p s))])"
| "matches (Seq a b) s = concat (map (\<lambda>(u, cs, r). map (\<lambda>(v, ds, r'). (u @ v, cs @ ds, r')) (matches b r)) (matches a s))"
| "matches (Alt a b) s = matches a s @ matches b s"
| "matches (Cap a) s = map (\<lambda>(u, cs, r). (u, u # cs, r)) (matches a s)"

lemma matches_split: "(u, cs, r) \<in> set (matches e s) \<Longrightarrow> s = u @ r"
  by (induction e arbitrary: u cs r s) (fastforce elim: prefixE split: if_splits)+

text \<open>\<^verbatim>\<open>\s\<close> is the class of the ASCII white space without the vertical tab.\<close>

definition is_space :: "char \<Rightarrow> bool" where
  "is_space ch \<longleftrightarrow> (of_char ch :: nat) \<in> {9, 10, 12, 13, 32}"

definition imexRE :: regexp where
  "imexRE = Seq (Cap (Alt (Lit ''import'') (Lit ''export'')))
     (Seq (Plus is_space) (Seq (Cap (Plus (\<lambda>ch. ch \<noteq> CHR '';''))) (Lit '';'')))"

lemma imexRE_consumes: "(u, cs, r) \<in> set (matches imexRE s) \<Longrightarrow> u \<noteq> []"
  by (auto simp: imexRE_def split: if_splits)

lemma imexRE_shrinks:
  assumes "matches imexRE s = (u, cs, r) # ms"
  shows "length r < length s"
proof -
  from assms have "(u, cs, r) \<in> set (matches imexRE s)" by simp
  from matches_split [OF this] imexRE_consumes [OF this] show ?thesis by simp
qed

text \<open>\<^verbatim>\<open>FindAllStringSubmatch\<close>: the leftmost match, then again behind its end.\<close>

function FindAllStringSubmatch :: "string \<Rightarrow> string list list" where
  "FindAllStringSubmatch s = (case matches imexRE s of
     (u, cs, r) # _ \<Rightarrow> cs # FindAllStringSubmatch r
   | [] \<Rightarrow> (case s of [] \<Rightarrow> [] | _ # s' \<Rightarrow> FindAllStringSubmatch s'))"
  by pat_completeness auto
termination
  by (relation "measure length") (auto dest: imexRE_shrinks)

declare FindAllStringSubmatch.simps [simp del]

section \<open>Imports and exports\<close>

text \<open>The loop over the matches; the switch ignores any other keyword.\<close>

fun sort_matches :: "string list list \<Rightarrow> string list \<times> string list \<Rightarrow> string list \<times> string list" where
  "sort_matches [] (imports, exports) = (imports, exports)"
| "sort_matches (m # ms) (imports, exports) = sort_matches ms
     (if m ! 0 = ''import'' then (imports @ [m ! 1], exports)
      else if m ! 0 = ''export'' then (imports, exports @ [m ! 1])
      else (imports, exports))"

definition ImportsExports :: "string \<Rightarrow> string list \<times> string list" where
  "ImportsExports wit = sort_matches (FindAllStringSubmatch wit) ([], [])"

text \<open>\<^verbatim>\<open>wit.Extract\<close> hands the component to the plugin \<open>extractWIT\<close> and returns what it says.\<close>

definition Extract :: "('b \<Rightarrow> string go) \<Rightarrow> 'b \<Rightarrow> string go" where
  "Extract extractWIT component = extractWIT component"

section \<open>Soundness\<close>

definition is_keyword :: "string \<Rightarrow> bool" where
  "is_keyword kw \<longleftrightarrow> kw = ''import'' \<or> kw = ''export''"

lemma in_Plus:
  assumes "(u, cs, r) \<in> set (matches (Plus p) s)"
  shows "cs = [] \<and> s = u @ r \<and> u \<noteq> [] \<and> list_all p u"
proof -
  from assms obtain k where k: "0 < k" "k \<le> length (takeWhile p s)" "u = take k s" "r = drop k s" "cs = []"
    by (auto simp del: upt_Suc simp: less_Suc_eq_le Suc_le_eq)
  from k(2) have "take k (takeWhile p s @ dropWhile p s) = take k (takeWhile p s)"
    by (subst take_append) simp
  with k(3) have u: "u = take k (takeWhile p s)" by simp
  with k(1,2) have "u \<noteq> []" by auto
  moreover have "list_all p u"
    unfolding u list_all_iff by (auto dest: in_set_takeD set_takeWhileD)
  ultimately show ?thesis using k by simp
qed

lemma in_Seq:
  assumes "(u, cs, r) \<in> set (matches (Seq a b) s)"
  shows "\<exists>u1 c1 m u2 c2. (u1, c1, m) \<in> set (matches a s) \<and> (u2, c2, r) \<in> set (matches b m) \<and>
    u = u1 @ u2 \<and> cs = c1 @ c2"
proof -
  from assms obtain u1 c1 m u2 c2 where "(u1, c1, m) \<in> set (matches a s)" "(u2, c2, r) \<in> set (matches b m)"
    "u = u1 @ u2" "cs = c1 @ c2"
    by auto
  then show ?thesis by blast
qed

lemma in_Cap: "(u, cs, r) \<in> set (matches (Cap a) s) \<Longrightarrow> \<exists>c. cs = u # c \<and> (u, c, r) \<in> set (matches a s)"
  by auto

lemma in_Lit: "(u, cs, r) \<in> set (matches (Lit w) s) \<Longrightarrow> u = w \<and> cs = [] \<and> s = w @ r"
  by (auto split: if_splits elim: prefixE)

lemma match_shape:
  assumes "(u, cs, r) \<in> set (matches imexRE s)"
  shows "\<exists>kw ws n. cs = [kw, n] \<and> is_keyword kw \<and> s = kw @ ws @ n @ '';'' @ r \<and> ws \<noteq> [] \<and>
    list_all is_space ws \<and> n \<noteq> [] \<and> CHR '';'' \<notin> set n"
proof -
  from in_Seq [OF assms [unfolded imexRE_def]] obtain kw c1 m1 u1 d1 where
    kw: "(kw, c1, m1) \<in> set (matches (Cap (Alt (Lit ''import'') (Lit ''export''))) s)"
    and 1: "(u1, d1, r) \<in> set (matches (Seq (Plus is_space) (Seq (Cap (Plus (\<lambda>ch. ch \<noteq> CHR '';''))) (Lit '';''))) m1)"
    and cs: "cs = c1 @ d1" by blast
  from in_Seq [OF 1] obtain ws c2 m2 u2 d2 where ws: "(ws, c2, m2) \<in> set (matches (Plus is_space) m1)"
    and 2: "(u2, d2, r) \<in> set (matches (Seq (Cap (Plus (\<lambda>ch. ch \<noteq> CHR '';''))) (Lit '';'')) m2)"
    and d1: "d1 = c2 @ d2" by blast
  from in_Seq [OF 2] obtain n c3 m3 u3 d3 where n: "(n, c3, m3) \<in> set (matches (Cap (Plus (\<lambda>ch. ch \<noteq> CHR '';''))) m2)"
    and semi: "(u3, d3, r) \<in> set (matches (Lit '';'') m3)" and d2: "d2 = c3 @ d3" by blast
  from kw have "c1 = [kw] \<and> is_keyword kw \<and> s = kw @ m1"
    by (auto simp: is_keyword_def split: if_splits elim: prefixE)
  moreover from in_Plus [OF ws] have "c2 = [] \<and> m1 = ws @ m2 \<and> ws \<noteq> [] \<and> list_all is_space ws" .
  moreover from in_Cap [OF n] obtain c4 where "c3 = n # c4"
    and c4: "(n, c4, m3) \<in> set (matches (Plus (\<lambda>ch. ch \<noteq> CHR '';'')) m2)" by blast
  with in_Plus [OF c4] have "c3 = [n] \<and> m2 = n @ m3 \<and> n \<noteq> [] \<and> CHR '';'' \<notin> set n"
    by (auto simp: list_all_iff)
  moreover from in_Lit [OF semi] have "d3 = [] \<and> m3 = '';'' @ r" by simp
  ultimately have "cs = [kw, n] \<and> is_keyword kw \<and> s = kw @ ws @ n @ '';'' @ r \<and> ws \<noteq> [] \<and>
      list_all is_space ws \<and> n \<noteq> [] \<and> CHR '';'' \<notin> set n"
    using cs d1 d2 by simp
  then show ?thesis by blast
qed

lemma no_keyword_no_match: "\<not> prefix ''import'' s \<Longrightarrow> \<not> prefix ''export'' s \<Longrightarrow> matches imexRE s = []"
  by (simp add: imexRE_def)

definition declares :: "string \<Rightarrow> string \<Rightarrow> string \<Rightarrow> bool" where
  "declares s kw n \<longleftrightarrow> (\<exists>pre ws post. s = pre @ kw @ ws @ n @ '';'' @ post \<and> ws \<noteq> [] \<and>
     list_all is_space ws \<and> n \<noteq> [] \<and> CHR '';'' \<notin> set n)"

lemma declares_later: "declares s kw n \<Longrightarrow> declares (t @ s) kw n"
  unfolding declares_def by (metis append.assoc)

lemma FindAll_sound:
  "m \<in> set (FindAllStringSubmatch s) \<Longrightarrow> \<exists>kw n. m = [kw, n] \<and> is_keyword kw \<and> declares s kw n"
proof (induction s rule: FindAllStringSubmatch.induct)
  case (1 s)
  show ?case
  proof (cases "matches imexRE s")
    case Nil
    show ?thesis
    proof (cases s)
      case s: Nil
      with "1.prems" show ?thesis by (simp add: FindAllStringSubmatch.simps [of "[]"] imexRE_def)
    next
      case s: (Cons a s')
      with "1.prems" Nil have "m \<in> set (FindAllStringSubmatch s')"
        by (simp add: FindAllStringSubmatch.simps [of "a # s'"])
      from "1.IH"(1) [OF Nil s this] show ?thesis
        using declares_later [of s' _ _ "[a]"] s by auto
    qed
  next
    case (Cons x ms)
    obtain u cs r where x: "x = (u, cs, r)" by (cases x) auto
    from Cons x have m: "(u, cs, r) \<in> set (matches imexRE s)" by simp
    consider "m = cs" | "m \<in> set (FindAllStringSubmatch r)"
      using 1(3) Cons x by (auto simp: FindAllStringSubmatch.simps [of s])
    then show ?thesis
    proof cases
      case 1
      from match_shape [OF m] obtain kw ws n where "cs = [kw, n]" "is_keyword kw"
        "s = [] @ kw @ ws @ n @ '';'' @ r" "ws \<noteq> []" "list_all is_space ws" "n \<noteq> []" "CHR '';'' \<notin> set n"
        by auto
      then show ?thesis unfolding 1 declares_def by metis
    next
      case 2
      from "1.IH"(2) [OF Cons x [symmetric] refl 2] show ?thesis
        using matches_split [OF m] declares_later [of r _ _ u] by auto
    qed
  qed
qed

lemma sort_matches_filter:
  "sort_matches ms acc =
     (fst acc @ map (\<lambda>m. m ! 1) (filter (\<lambda>m. m ! 0 = ''import'') ms),
      snd acc @ map (\<lambda>m. m ! 1) (filter (\<lambda>m. m ! 0 = ''export'') ms))"
  by (induction ms acc rule: sort_matches.induct) auto

section \<open>Reading back a rendered world\<close>

definition first_is :: "regexp \<Rightarrow> string \<Rightarrow> re_match \<Rightarrow> bool" where
  "first_is e s x \<longleftrightarrow> (\<exists>ms. matches e s = x # ms)"

lemma first_Lit: "first_is (Lit w) (w @ r) (w, [], r)"
  by (simp add: first_is_def)

lemma first_Cap: "first_is e s (u, cs, r) \<Longrightarrow> first_is (Cap e) s (u, u # cs, r)"
  by (auto simp: first_is_def)

lemma first_Alt1: "first_is a s x \<Longrightarrow> first_is (Alt a b) s x"
  by (auto simp: first_is_def)

lemma first_Alt2: "matches a s = [] \<Longrightarrow> first_is b s x \<Longrightarrow> first_is (Alt a b) s x"
  by (auto simp: first_is_def)

lemma first_Seq: "first_is a s (u, cs, m) \<Longrightarrow> first_is b m (v, ds, r) \<Longrightarrow> first_is (Seq a b) s (u @ v, cs @ ds, r)"
  by (auto simp: first_is_def)

lemma first_Plus:
  assumes "u \<noteq> []" and "list_all p u" and "r = [] \<or> \<not> p (hd r)"
  shows "first_is (Plus p) (u @ r) (u, [], r)"
proof -
  have "takeWhile p (u @ r) = u"
    using assms by (cases r) (auto simp: list_all_iff)
  then have "matches (Plus p) (u @ r) =
      map (\<lambda>k. (take k (u @ r), [], drop k (u @ r))) (length u # rev [1..<length u])"
    using assms(1) by (cases u) simp_all
  then show ?thesis by (simp add: first_is_def)
qed

text \<open>A name that a rendered declaration can carry, and a text between declarations.\<close>

definition plain_name :: "string \<Rightarrow> bool" where
  "plain_name n \<longleftrightarrow> n \<noteq> [] \<and> \<not> is_space (hd n) \<and> CHR '';'' \<notin> set n"

definition quiet :: "string \<Rightarrow> bool" where
  "quiet g \<longleftrightarrow> \<not> sublist ''import'' g \<and> \<not> sublist ''export'' g \<and> (g = [] \<or> is_space (last g))"

lemma matches_declaration:
  assumes "is_keyword kw" and "plain_name n"
  shows "\<exists>u. first_is imexRE (kw @ '' '' @ n @ '';'' @ r) (u, [kw, n], r)"
proof -
  have kw: "first_is (Cap (Alt (Lit ''import'') (Lit ''export''))) (kw @ t) (kw, [kw], t)" for t
    using assms(1) by (auto simp: is_keyword_def first_is_def)
  have ws: "first_is (Plus is_space) ('' '' @ n @ '';'' @ r) ('' '', [], n @ '';'' @ r)"
    using assms(2) by (intro first_Plus) (auto simp: plain_name_def is_space_def)
  have nm: "first_is (Cap (Plus (\<lambda>ch. ch \<noteq> CHR '';''))) (n @ '';'' @ r) (n, [n], '';'' @ r)"
    using assms(2) by (intro first_Cap first_Plus) (auto simp: plain_name_def list_all_iff)
  from first_Seq [OF kw first_Seq [OF ws first_Seq [OF nm first_Lit]]] show ?thesis
    unfolding imexRE_def by auto
qed

lemma first_FindAll:
  "first_is imexRE s (u, cs, r) \<Longrightarrow> FindAllStringSubmatch s = cs # FindAllStringSubmatch r"
  by (auto simp: first_is_def FindAllStringSubmatch.simps [of s])

lemma quiet_no_prefix:
  assumes "quiet (c # g)" and "is_keyword kw"
  shows "\<not> prefix kw (c # g @ s)"
proof
  assume "prefix kw (c # g @ s)"
  then have "prefix kw ((c # g) @ s)" by simp
  then consider "prefix kw (c # g)" | t where "kw = (c # g) @ t"
    unfolding prefix_append by blast
  then show False
  proof cases
    case 1
    then have "sublist kw (c # g)" by (rule prefix_imp_sublist)
    with assms show False by (auto simp: quiet_def is_keyword_def)
  next
    case 2
    then have "last (c # g) \<in> set kw" by (metis in_set_conv_decomp append_butlast_last_id append.assoc list.discI append_Cons)
    moreover have "is_space (last (c # g))" using assms(1) by (simp add: quiet_def)
    ultimately show False using assms(2) by (auto simp: is_keyword_def is_space_def)
  qed
qed

lemma quiet_tl: "quiet (c # g) \<Longrightarrow> quiet g"
  by (auto simp: quiet_def sublist_Cons_right split: if_splits)

lemma FindAll_quiet: "quiet g \<Longrightarrow> FindAllStringSubmatch (g @ s) = FindAllStringSubmatch s"
proof (induction g)
  case (Cons c g)
  have "matches imexRE (c # g @ s) = []"
    by (intro no_keyword_no_match quiet_no_prefix [OF Cons.prems]) (simp_all add: is_keyword_def)
  with Cons.IH [OF quiet_tl [OF Cons.prems]] show ?case
    by (simp add: FindAllStringSubmatch.simps [of "c # g @ s"])
qed simp

text \<open>A world is a list of declarations, each behind a quiet text, and a quiet tail.\<close>

fun render :: "(string \<times> string \<times> string) list \<Rightarrow> string \<Rightarrow> string" where
  "render [] tail = tail"
| "render ((g, kw, n) # ds) tail = g @ kw @ '' '' @ n @ '';'' @ render ds tail"

definition renderable :: "(string \<times> string \<times> string) list \<Rightarrow> string \<Rightarrow> bool" where
  "renderable ds tail \<longleftrightarrow> quiet tail \<and> list_all (\<lambda>(g, kw, n). quiet g \<and> is_keyword kw \<and> plain_name n) ds"

lemma FindAll_render:
  "renderable ds tail \<Longrightarrow> FindAllStringSubmatch (render ds tail) = map (\<lambda>(g, kw, n). [kw, n]) ds"
proof (induction ds)
  case Nil
  then show ?case
    using FindAll_quiet [of tail "[]"]
    by (simp add: renderable_def FindAllStringSubmatch.simps [of "[]"] imexRE_def)
next
  case (Cons d ds)
  obtain g kw n where d: "d = (g, kw, n)" by (cases d) auto
  from Cons.prems d have "quiet g" "is_keyword kw" "plain_name n" "renderable ds tail"
    by (auto simp: renderable_def)
  then show ?case
    using matches_declaration [of kw n "render ds tail"] Cons.IH first_FindAll
    by (auto simp: d FindAll_quiet)
qed

section \<open>Properties\<close>

text \<open>C21: the imports and exports of a rendered world are read back exactly, in order, whatever quiet text
  stands between the declarations and whatever the names are made of, as long as a name does not
  begin with white space or contain a semicolon.\<close>

theorem ImportsExports_render:
  assumes "renderable ds tail"
  shows "ImportsExports (render ds tail) =
    (map (\<lambda>(g, kw, n). n) (filter (\<lambda>(g, kw, n). kw = ''import'') ds),
     map (\<lambda>(g, kw, n). n) (filter (\<lambda>(g, kw, n). kw = ''export'') ds))"
  using FindAll_render [OF assms]
  by (simp add: ImportsExports_def sort_matches_filter filter_map comp_def case_prod_unfold)

lemma ImportsExports_render_witness:
  "ImportsExports (render [(''world root { '', ''import'', ''wasi:cli/stdout@0.2.0''),
      ('' '', ''export'', ''wasi:http/incoming-handler''), ('' '', ''import'', ''exports'')] '' } '') =
    ([''wasi:cli/stdout@0.2.0'', ''exports''], [''wasi:http/incoming-handler''])"
proof -
  have "renderable [(''world root { '', ''import'', ''wasi:cli/stdout@0.2.0''),
      ('' '', ''export'', ''wasi:http/incoming-handler''), ('' '', ''import'', ''exports'')] '' } ''"
    by code_simp
  from ImportsExports_render [OF this] show ?thesis by simp
qed

text \<open>Nothing is invented: every import (export) that is reported stands in the text behind the keyword
  import (export) and white space and before a semicolon, is not blank and contains no semicolon.\<close>

theorem ImportsExports_sound:
  "(\<forall>n \<in> set (fst (ImportsExports wit)). declares wit ''import'' n) \<and>
   (\<forall>n \<in> set (snd (ImportsExports wit)). declares wit ''export'' n)"
  by (auto simp: ImportsExports_def sort_matches_filter dest: FindAll_sound)

lemma ImportsExports_sound_witness:
  "''a:b/c'' \<in> set (fst (ImportsExports ''import a:b/c;'')) \<and> declares ''import a:b/c;'' ''import'' ''a:b/c''"
proof -
  have "''a:b/c'' \<in> set (fst (ImportsExports ''import a:b/c;''))" by code_simp
  with ImportsExports_sound [of "''import a:b/c;''"] show ?thesis by blast
qed

end
