(* ===== verification/Oci.thy ===== *)
theory Oci
  imports Registries_Api Wit
begin

text \<open>
  Wasm images and the registry operations (\<^verbatim>\<open>registry/image.go\<close>, \<^verbatim>\<open>operations.go\<close>, \<^verbatim>\<open>keychain.go\<close>
  and \<^verbatim>\<open>transport.go\<close>).  The libraries behind them are parameters: the record \<open>oci_lib\<close> holds what is
  used of \<^verbatim>\<open>go-containerregistry\<close> (names, hashes, static layers, the text of a manifest) and of the
  text layer of \<^verbatim>\<open>encoding/json\<close> and \<^verbatim>\<open>time\<close>; the record \<open>remote\<close> a registry client over a world
  of type \<open>'w\<close>.  Bytes are strings.
\<close>

section \<open>JSON documents\<close>

datatype json = JNull | JStr string | JArr "json list" | JObj "(string \<times> json) list"

definition jfield :: "string \<Rightarrow> (string \<times> json) list \<Rightarrow> json option" where
  "jfield k fs = map_of (rev fs) k"

text \<open>An absent or null field leaves the zero value; a value of another type is an error.\<close>

definition jget_str :: "string \<Rightarrow> (string \<times> json) list \<Rightarrow> string option" where
  "jget_str k fs = (case jfield k fs of None \<Rightarrow> Some '''' | Some JNull \<Rightarrow> Some ''''
     | Some (JStr s) \<Rightarrow> Some s | Some _ \<Rightarrow> None)"

fun jstrings :: "json list \<Rightarrow> string list option" where
  "jstrings [] = Some []"
| "jstrings (JStr s # js) = map_option ((#) s) (jstrings js)"
| "jstrings _ = None"

definition jget_strs :: "string \<Rightarrow> (string \<times> json) list \<Rightarrow> string list option" where
  "jget_strs k fs = (case jfield k fs of None \<Rightarrow> Some [] | Some JNull \<Rightarrow> Some []
     | Some (JArr js) \<Rightarrow> jstrings js | Some _ \<Rightarrow> None)"

definition jget_ptr :: "string \<Rightarrow> (string \<times> json) list \<Rightarrow> string option option" where
  "jget_ptr k fs = (case jfield k fs of None \<Rightarrow> Some None | Some JNull \<Rightarrow> Some None
     | Some (JStr s) \<Rightarrow> Some (Some s) | Some _ \<Rightarrow> None)"

text \<open>A time in seconds since the epoch; the zero time is the start of year 1.\<close>

definition jget_time :: "(string \<Rightarrow> int option) \<Rightarrow> string \<Rightarrow> (string \<times> json) list \<Rightarrow> int option" where
  "jget_time parse k fs = (case jfield k fs of None \<Rightarrow> Some (- 62135596800) | Some JNull \<Rightarrow> Some (- 62135596800)
     | Some (JStr s) \<Rightarrow> parse s | Some _ \<Rightarrow> None)"

section \<open>The configuration file of a wasm image\<close>

record WasmConfigFileComponent =
  wcc_Exports :: "string list"
  wcc_Imports :: "string list"
  wcc_OptionalImports :: "string list"
  wcc_Target :: "string option"

record WasmConfigFile =
  wc_Created :: int
  wc_Author :: string
  wc_Architecture :: string
  wc_OS :: string
  wc_LayerDigests :: "string list"
  wc_Component :: WasmConfigFileComponent

text \<open>
  The struct tags: \<^verbatim>\<open>omitempty\<close> drops blank strings and empty slices, and has no effect on structs.
  The time is written and read by \<open>fmt\<close> and \<open>parse\<close>.
\<close>

definition omit_strs :: "string \<Rightarrow> string list \<Rightarrow> (string \<times> json) list" where
  "omit_strs k xs = (if xs = [] then [] else [(k, JArr (map JStr xs))])"

definition config_to_json :: "(int \<Rightarrow> string) \<Rightarrow> WasmConfigFile \<Rightarrow> json" where
  "config_to_json fmt c = JObj ([(''created'', JStr (fmt (wc_Created c)))] @
     (if wc_Author c = '''' then [] else [(''author'', JStr (wc_Author c))]) @
     [(''architecture'', JStr (wc_Architecture c)), (''os'', JStr (wc_OS c))] @
     omit_strs ''layerDigests'' (wc_LayerDigests c) @
     [(''component'', JObj (omit_strs ''exports'' (wcc_Exports (wc_Component c)) @
        omit_strs ''imports'' (wcc_Imports (wc_Component c)) @
        omit_strs ''optional_imports'' (wcc_OptionalImports (wc_Component c)) @
        [(''target'', case wcc_Target (wc_Component c) of None \<Rightarrow> JNull | Some t \<Rightarrow> JStr t)]))])"

fun component_of_json :: "json option \<Rightarrow> WasmConfigFileComponent option" where
  "component_of_json (Some (JObj fs)) =
     Option.bind (jget_strs ''exports'' fs) (\<lambda>ex. Option.bind (jget_strs ''imports'' fs) (\<lambda>im.
     Option.bind (jget_strs ''optional_imports'' fs) (\<lambda>oi. Option.bind (jget_ptr ''target'' fs) (\<lambda>t.
       Some \<lparr>wcc_Exports = ex, wcc_Imports = im, wcc_OptionalImports = oi, wcc_Target = t\<rparr>))))"
| "component_of_json None = Some \<lparr>wcc_Exports = [], wcc_Imports = [], wcc_OptionalImports = [], wcc_Target = None\<rparr>"
| "component_of_json (Some JNull) = Some \<lparr>wcc_Exports = [], wcc_Imports = [], wcc_OptionalImports = [], wcc_Target = None\<rparr>"
| "component_of_json _ = None"

fun config_of_json :: "(string \<Rightarrow> int option) \<Rightarrow> json \<Rightarrow> WasmConfigFile option" where
  "config_of_json parse (JObj fs) =
     Option.bind (jget_time parse ''created'' fs) (\<lambda>created.
     Option.bind (jget_str ''author'' fs) (\<lambda>au. Option.bind (jget_str ''architecture'' fs) (\<lambda>ar.
     Option.bind (jget_str ''os'' fs) (\<lambda>os. Option.bind (jget_strs ''layerDigests'' fs) (\<lambda>ld.
     Option.bind (component_of_json (jfield ''component'' fs)) (\<lambda>co.
       Some \<lparr>wc_Created = created, wc_Author = au, wc_Architecture = ar, wc_OS = os,
             wc_LayerDigests = ld, wc_Component = co\<rparr>))))))"
| "config_of_json parse _ = None"

lemma jstrings_map [simp]: "jstrings (map JStr xs) = Some xs"
  by (induction xs) auto

lemma config_json_roundtrip:
  "parse (fmt (wc_Created c)) = Some (wc_Created c) \<Longrightarrow> config_of_json parse (config_to_json fmt c) = Some c"
  by (cases c; cases "wc_Component c")
    (auto simp: config_to_json_def omit_strs_def jget_str_def jget_strs_def jget_ptr_def jget_time_def jfield_def
      split: option.splits)

section \<open>Libraries\<close>

record layer =
  ly_Digest :: string
  ly_DiffID :: string
  ly_MediaType :: string
  ly_Size :: nat
  ly_Uncompressed :: "string go"

record descriptor =
  ds_Digest :: string
  ds_MediaType :: string
  ds_Size :: nat

record manifest =
  mf_SchemaVersion :: nat
  mf_MediaType :: string
  mf_Config :: descriptor
  mf_Layers :: "descriptor list"

text \<open>
  \<open>lib_NewDigest\<close> and \<open>lib_NewTag\<close> parse a name with weak validation; \<open>lib_DigestString\<close> and
  \<open>lib_TagString\<close> print a reference as it was written, \<open>lib_DigestName\<close> and \<open>lib_TagName\<close> print it in
  full; \<open>lib_DigestStr\<close> is the digest part of a reference and \<open>lib_TagRepository\<close> the repository of a
  tag.
\<close>

record ('d, 't) oci_lib =
  lib_NewDigest :: "string \<Rightarrow> 'd go"
  lib_NewTag :: "string \<Rightarrow> 't go"
  lib_DigestString :: "'d \<Rightarrow> string"
  lib_DigestName :: "'d \<Rightarrow> string"
  lib_DigestStr :: "'d \<Rightarrow> string"
  lib_TagString :: "'t \<Rightarrow> string"
  lib_TagName :: "'t \<Rightarrow> string"
  lib_TagRepository :: "'t \<Rightarrow> string"
  lib_SHA256 :: "string \<Rightarrow> string"
  lib_NewLayer :: "string \<Rightarrow> string \<Rightarrow> layer"
  lib_manifest_text :: "manifest \<Rightarrow> string"
  lib_json_text :: "json \<Rightarrow> string"
  lib_json_parse :: "string \<Rightarrow> json option"
  lib_time_format :: "int \<Rightarrow> string"
  lib_time_parse :: "string \<Rightarrow> int option"

datatype ('d, 't) reference = RefDigest 'd | RefTag 't

definition ref_String :: "('d, 't) oci_lib \<Rightarrow> ('d, 't) reference \<Rightarrow> string" where
  "ref_String lib r = (case r of RefDigest d \<Rightarrow> lib_DigestString lib d | RefTag t \<Rightarrow> lib_TagString lib t)"

definition ref_Name :: "('d, 't) oci_lib \<Rightarrow> ('d, 't) reference \<Rightarrow> string" where
  "ref_Name lib r = (case r of RefDigest d \<Rightarrow> lib_DigestName lib d | RefTag t \<Rightarrow> lib_TagName lib t)"

section \<open>Wasm images\<close>

definition ImageManifestMediaType :: string where
  "ImageManifestMediaType = ''application/vnd.oci.image.manifest.v1+json''"

definition WasmManifestConfigMediaType :: string where
  "WasmManifestConfigMediaType = ''application/vnd.wasm.config.v0+json''"

definition WasmLayerMediaType :: string where
  "WasmLayerMediaType = ''application/wasm''"

record wasmImage =
  wi_component :: string
  wi_layer :: layer
  wi_config :: WasmConfigFile

text \<open>\<open>extractWIT\<close> is the plugin that prints the WIT of a component.\<close>

definition newWasmImage ::
    "('d, 't) oci_lib \<Rightarrow> (string \<Rightarrow> string go) \<Rightarrow> string \<Rightarrow> (wasmImage \<times> WasmConfigFile) go" where
  "newWasmImage lib extractWIT component =
     bind_go (Extract extractWIT component) (\<lambda>w.
     let (imports, exports) = ImportsExports w;
         h = lib_SHA256 lib component;
         config = \<lparr>wc_Created = 1, wc_Author = ''wa8s'', wc_Architecture = ''wasm'', wc_OS = ''wasip2'',
           wc_LayerDigests = [h],
           wc_Component = \<lparr>wcc_Exports = exports, wcc_Imports = imports, wcc_OptionalImports = [], wcc_Target = None\<rparr>\<rparr>
     in Ret (\<lparr>wi_component = component, wi_layer = lib_NewLayer lib component WasmLayerMediaType, wi_config = config\<rparr>,
             config))"

definition wasmImage_RawConfigFile :: "('d, 't) oci_lib \<Rightarrow> wasmImage \<Rightarrow> string" where
  "wasmImage_RawConfigFile lib w = lib_json_text lib (config_to_json (lib_time_format lib) (wi_config w))"

definition wasmImage_ConfigName :: "('d, 't) oci_lib \<Rightarrow> wasmImage \<Rightarrow> string" where
  "wasmImage_ConfigName lib w = lib_SHA256 lib (wasmImage_RawConfigFile lib w)"

definition wasmImage_Manifest :: "('d, 't) oci_lib \<Rightarrow> wasmImage \<Rightarrow> manifest" where
  "wasmImage_Manifest lib w = (let config = wasmImage_RawConfigFile lib w in
     \<lparr>mf_SchemaVersion = 2, mf_MediaType = ImageManifestMediaType,
      mf_Config = \<lparr>ds_Digest = lib_SHA256 lib config, ds_MediaType = WasmManifestConfigMediaType, ds_Size = length config\<rparr>,
      mf_Layers = [\<lparr>ds_Digest = ly_Digest (wi_layer w), ds_MediaType = ly_MediaType (wi_layer w),
                    ds_Size = ly_Size (wi_layer w)\<rparr>]\<rparr>)"

definition wasmImage_RawManifest :: "('d, 't) oci_lib \<Rightarrow> wasmImage \<Rightarrow> string" where
  "wasmImage_RawManifest lib w = lib_manifest_text lib (wasmImage_Manifest lib w)"

definition wasmImage_Digest :: "('d, 't) oci_lib \<Rightarrow> wasmImage \<Rightarrow> string" where
  "wasmImage_Digest lib w = lib_SHA256 lib (wasmImage_RawManifest lib w)"

definition wasmImage_Size :: "('d, 't) oci_lib \<Rightarrow> wasmImage \<Rightarrow> nat" where
  "wasmImage_Size lib w = length (wasmImage_RawManifest lib w)"

definition wasmImage_LayerByDigest :: "wasmImage \<Rightarrow> string \<Rightarrow> layer go" where
  "wasmImage_LayerByDigest w digest =
     (if digest \<noteq> ly_Digest (wi_layer w) then Fail (Text ''no layer found'') else Ret (wi_layer w))"

definition wasmImage_LayerByDiffID :: "wasmImage \<Rightarrow> string \<Rightarrow> layer go" where
  "wasmImage_LayerByDiffID w diffId =
     (if diffId \<noteq> ly_DiffID (wi_layer w) then Fail (Text ''no layer found'') else Ret (wi_layer w))"

definition wasmImage_Layers :: "wasmImage \<Rightarrow> layer list" where
  "wasmImage_Layers w = [wi_layer w]"

definition wasmImage_MediaType :: "wasmImage \<Rightarrow> string" where
  "wasmImage_MediaType w = ImageManifestMediaType"

section \<open>The registry client\<close>

text \<open>An image as the client returns it.\<close>

record image_view =
  iv_MediaType :: "string go"
  iv_Layers :: "layer list go"
  iv_RawConfigFile :: "string go"

definition wasmImage_view :: "('d, 't) oci_lib \<Rightarrow> wasmImage \<Rightarrow> image_view" where
  "wasmImage_view lib w = \<lparr>iv_MediaType = Ret (wasmImage_MediaType w), iv_Layers = Ret (wasmImage_Layers w),
     iv_RawConfigFile = Ret (wasmImage_RawConfigFile lib w)\<rparr>"

text \<open>
  \<open>'k\<close> is the type of the options (the credentials), \<open>'w\<close> the state of the registries, \<open>'desc\<close> the
  descriptor a puller hands to a pusher.  \<open>rm_transport\<close> is the outcome of building the transport.
\<close>

record ('d, 't, 'k, 'desc, 'w) remote =
  rm_transport :: "unit go"
  rm_Head :: "'k \<Rightarrow> 't \<Rightarrow> 'w \<Rightarrow> string go"
  rm_Get :: "'k \<Rightarrow> 'd \<Rightarrow> 'w \<Rightarrow> image_view go go"
  rm_Push :: "'k \<Rightarrow> ('d, 't) reference \<Rightarrow> wasmImage \<Rightarrow> 'w \<Rightarrow> 'w \<times> unit go"
  rm_clients :: "'k \<Rightarrow> unit go"
  rm_pull_desc :: "'k \<Rightarrow> 'd \<Rightarrow> 'w \<Rightarrow> 'desc go"
  rm_push_desc :: "'k \<Rightarrow> 't \<Rightarrow> 'desc \<Rightarrow> 'w \<Rightarrow> 'w \<times> unit go"

text \<open>\<^verbatim>\<open>MediaType.IsImage\<close>: the OCI image manifest and the Docker ones.\<close>

definition IsImage :: "string \<Rightarrow> bool" where
  "IsImage mt \<longleftrightarrow> mt = ImageManifestMediaType \<or> mt = ''application/vnd.docker.distribution.manifest.v2+json''"

definition IsIndex :: "string \<Rightarrow> bool" where
  "IsIndex mt \<longleftrightarrow> mt = ''application/vnd.oci.image.index.v1+json'' \<or>
     mt = ''application/vnd.docker.distribution.manifest.list.v2+json''"

definition at_digest :: "string \<Rightarrow> string \<Rightarrow> string" where
  "at_digest repo digest = repo @ ''@'' @ digest"

text \<open>The \<^verbatim>\<open>%q\<close> verb on a name, which has no character to escape.\<close>

definition fmt_q :: "string \<Rightarrow> string" where
  "fmt_q s = [CHR 0x22] @ s @ [CHR 0x22]"

definition ResolveDigest :: "('d, 't) oci_lib \<Rightarrow> ('d, 't, 'k, 'desc, 'w) remote \<Rightarrow> 'k \<Rightarrow> string \<Rightarrow> 'w \<Rightarrow> 'd go" where
  "ResolveDigest lib rm opts ref0 w = bind_go (rm_transport rm) (\<lambda>_.
     case lib_NewDigest lib ref0 of
       Ret ref \<Rightarrow> Ret ref
     | Panic m \<Rightarrow> Panic m
     | Fail _ \<Rightarrow> (case lib_NewTag lib ref0 of
           Fail err \<Rightarrow> Fail (Joined [Text (''failed to parse image name '' @ fmt_q ref0 @ '' into a tag''), err])
         | Panic m \<Rightarrow> Panic m
         | Ret tag \<Rightarrow> bind_go (rm_Head rm opts tag w) (\<lambda>digest.
             lib_NewDigest lib (at_digest (lib_TagRepository lib tag) digest))))"

definition Push :: "('d, 't) oci_lib \<Rightarrow> ('d, 't, 'k, 'desc, 'w) remote \<Rightarrow> (string \<Rightarrow> string go) \<Rightarrow> 'k \<Rightarrow>
    ('d, 't) reference \<Rightarrow> string \<Rightarrow> 'w \<Rightarrow> 'w \<times> ('d \<times> WasmConfigFile) go" where
  "Push lib rm extractWIT opts ref component w = (case rm_transport rm of
     Fail err \<Rightarrow> (w, Fail err)
   | Panic m \<Rightarrow> (w, Panic m)
   | Ret _ \<Rightarrow> (case newWasmImage lib extractWIT component of
        Fail err \<Rightarrow> (w, Fail err)
      | Panic m \<Rightarrow> (w, Panic m)
      | Ret (img, config) \<Rightarrow> (let digest = wasmImage_Digest lib img; (w', pushed) = rm_Push rm opts ref img w in
          (w', bind_go pushed (\<lambda>_. bind_go (lib_NewDigest lib (at_digest (ref_String lib ref) digest))
                 (\<lambda>published. Ret (published, config)))))))"

definition parse_config :: "('d, 't) oci_lib \<Rightarrow> image_view \<Rightarrow> WasmConfigFile go" where
  "parse_config lib img = bind_go (iv_RawConfigFile img) (\<lambda>raw.
     case Option.bind (lib_json_parse lib raw) (config_of_json (lib_time_parse lib)) of
       None \<Rightarrow> Fail (Text ''json'')
     | Some config \<Rightarrow> Ret config)"

definition Pull :: "('d, 't) oci_lib \<Rightarrow> ('d, 't, 'k, 'desc, 'w) remote \<Rightarrow> 'k \<Rightarrow> 'd \<Rightarrow> 'w \<Rightarrow>
    (string \<times> WasmConfigFile) go" where
  "Pull lib rm opts ref w = bind_go (rm_transport rm) (\<lambda>_.
     bind_go (rm_Get rm opts ref w) (\<lambda>d. bind_go d (\<lambda>img.
     bind_go (iv_MediaType img) (\<lambda>mediaType.
     if \<not> IsImage mediaType then Fail (Text (''expected image, found '' @ fmt_q mediaType)) else
     bind_go (iv_Layers img) (\<lambda>layers.
     if length layers \<noteq> 1 then Fail (Text ''must be exactly 1 layer'') else
     let layer = layers ! 0 in
     if ly_MediaType layer \<noteq> WasmLayerMediaType
     then Fail (Text (''layer must be of media type '' @ fmt_q WasmLayerMediaType @ '', found '' @ fmt_q (ly_MediaType layer))) else
     bind_go (ly_Uncompressed layer) (\<lambda>component.
     bind_go (parse_config lib img) (\<lambda>config. Ret (component, config))))))))"

definition PullConfig :: "('d, 't) oci_lib \<Rightarrow> ('d, 't, 'k, 'desc, 'w) remote \<Rightarrow> 'k \<Rightarrow> 'd \<Rightarrow> 'w \<Rightarrow>
    WasmConfigFile go" where
  "PullConfig lib rm opts ref w = bind_go (rm_transport rm) (\<lambda>_.
     bind_go (rm_Get rm opts ref w) (\<lambda>d. bind_go d (\<lambda>img.
     bind_go (iv_MediaType img) (\<lambda>mediaType.
     if \<not> IsImage mediaType then Fail (Text (''expected image, found '' @ fmt_q mediaType)) else
     parse_config lib img))))"

definition ParseReference :: "('d, 't) oci_lib \<Rightarrow> string \<Rightarrow> ('d, 't) reference go" where
  "ParseReference lib ref0 = (case lib_NewDigest lib ref0 of
     Ret ref \<Rightarrow> Ret (RefDigest ref)
   | Panic m \<Rightarrow> Panic m
   | Fail _ \<Rightarrow> bind_go (lib_NewTag lib ref0) (\<lambda>t. Ret (RefTag t)))"

text \<open>\<^verbatim>\<open>Copy\<close> resolves the source with its own transport and copies the manifest by digest.\<close>

definition Copy :: "('d, 't) oci_lib \<Rightarrow> ('d, 't, 'k, 'desc, 'w) remote \<Rightarrow> 'k \<Rightarrow> ('d, 't) reference \<Rightarrow> 't \<Rightarrow> 'w \<Rightarrow>
    'w \<times> 'd go" where
  "Copy lib rm opts from to w = (case bind_go (rm_transport rm) (\<lambda>_. bind_go (rm_clients rm opts) (\<lambda>_.
       bind_go (ResolveDigest lib rm opts (ref_Name lib from) w) (\<lambda>digest.
       bind_go (rm_pull_desc rm opts digest w) (\<lambda>desc. Ret (digest, desc))))) of
     Fail err \<Rightarrow> (w, Fail err)
   | Panic m \<Rightarrow> (w, Panic m)
   | Ret (digest, desc) \<Rightarrow> (let (w', pushed) = rm_push_desc rm opts to desc w in
       (w', bind_go pushed (\<lambda>_. lib_NewDigest lib (at_digest (lib_TagRepository lib to) (lib_DigestStr lib digest))))))"

section \<open>Appending a component to a base image\<close>

text \<open>
  \<open>tar\<close> holds the outcomes of writing the archive: the header, the content, closing it, and the
  bytes.  The deferred close replaces the error of the function, whatever it was.
\<close>

record tar_writer =
  tw_header :: "string \<Rightarrow> unit go"
  tw_copy :: "string \<Rightarrow> unit go"
  tw_close :: "string \<Rightarrow> unit go"
  tw_bytes :: "string \<Rightarrow> string"

definition componentAsLayer :: "tar_writer \<Rightarrow> (string \<Rightarrow> 'layer) \<Rightarrow> string \<Rightarrow> 'layer option go" where
  "componentAsLayer tar newStreamLayer component =
     (case bind_go (tw_header tar component) (\<lambda>_. tw_copy tar component) of
        Panic m \<Rightarrow> Panic m
      | Fail _ \<Rightarrow> bind_go (tw_close tar component) (\<lambda>_. Ret None)
      | Ret _ \<Rightarrow> bind_go (tw_close tar component) (\<lambda>_. Ret (Some (newStreamLayer (tw_bytes tar component)))))"

text \<open>A failed archive is not reported: only the error of closing the writer is.\<close>

lemma componentAsLayer_drops_error:
  "tw_header tar component = Fail err \<Longrightarrow> tw_close tar component = Ret () \<Longrightarrow>
     componentAsLayer tar newStreamLayer component = Ret None"
  by (simp add: componentAsLayer_def)

record ('plat) index_entry =
  ie_MediaType :: string
  ie_Digest :: string
  ie_Platform :: 'plat

text \<open>
  The base descriptor: its media type, whether it can be read as an index, the manifest of this index and its images
  by digest.  \<open>index_lib\<close> is what \<^verbatim>\<open>AppendComponent\<close> uses of \<^verbatim>\<open>go-containerregistry\<close> for indexes: reading the base,
  the layer made of an archive, adding a layer to an image, writing an index made of images and their platforms, and
  the digest of this index.
\<close>

record ('plat, 'img) base_desc =
  bd_MediaType :: string
  bd_ImageIndex :: "unit go"
  bd_IndexManifest :: "'plat index_entry list go"
  bd_Image :: "string \<Rightarrow> 'img go"

record ('plat, 'img, 'layer, 'd, 't, 'k, 'w) index_lib =
  ix_tar :: tar_writer
  ix_newLayer :: "string \<Rightarrow> 'layer"
  ix_Get :: "'k \<Rightarrow> ('d, 't) reference \<Rightarrow> 'w \<Rightarrow> ('plat, 'img) base_desc go"
  ix_AppendLayers :: "'img \<Rightarrow> 'layer option \<Rightarrow> 'img go"
  ix_WriteIndex :: "'k \<Rightarrow> 't \<Rightarrow> ('img \<times> 'plat) list \<Rightarrow> 'w \<Rightarrow> 'w \<times> unit go"
  ix_Digest :: "('img \<times> 'plat) list \<Rightarrow> string go"

definition append_entry :: "(string \<Rightarrow> 'img go) \<Rightarrow> ('img \<Rightarrow> 'layer option \<Rightarrow> 'img go) \<Rightarrow> 'layer option \<Rightarrow>
    'plat index_entry \<Rightarrow> ('img \<times> 'plat) go" where
  "append_entry getImage appendLayers layer m =
     bind_go (getImage (ie_Digest m)) (\<lambda>baseImage.
     bind_go (appendLayers baseImage layer) (\<lambda>img. Ret (img, ie_Platform m)))"

text \<open>The images of the new index: every image of the base, with the component as its last layer.\<close>

definition appended_images :: "('d, 't) oci_lib \<Rightarrow> ('plat, 'img, 'layer, 'd, 't, 'k, 'w) index_lib \<Rightarrow> 'k \<Rightarrow> ('d, 't) reference \<Rightarrow>
    string \<Rightarrow> 'w \<Rightarrow> ('img \<times> 'plat) list go" where
  "appended_images lib ix opts base component w =
     bind_go (ix_Get ix opts base w) (\<lambda>baseDesc.
     if \<not> IsIndex (bd_MediaType baseDesc)
     then Fail (Text (''expected '' @ ref_String lib base @ '' to be an index, got '' @ fmt_q (bd_MediaType baseDesc))) else
     bind_go (bd_ImageIndex baseDesc) (\<lambda>_.
     bind_go (bd_IndexManifest baseDesc) (\<lambda>manifests.
     bind_go (componentAsLayer (ix_tar ix) (ix_newLayer ix) component) (\<lambda>layer.
     mapM_go (append_entry (bd_Image baseDesc) (ix_AppendLayers ix) layer)
        (filter (\<lambda>m. IsImage (ie_MediaType m)) manifests)))))"

definition AppendComponent :: "('d, 't) oci_lib \<Rightarrow> ('d, 't, 'k, 'desc, 'w) remote \<Rightarrow> ('plat, 'img, 'layer, 'd, 't, 'k, 'w) index_lib \<Rightarrow>
    'k \<Rightarrow> ('d, 't) reference \<Rightarrow> 't \<Rightarrow> string \<Rightarrow> 'w \<Rightarrow> 'w \<times> 'd go" where
  "AppendComponent lib rm ix opts base target component w =
     (case bind_go (rm_transport rm) (\<lambda>_. appended_images lib ix opts base component w) of
        Fail err \<Rightarrow> (w, Fail err)
      | Panic m \<Rightarrow> (w, Panic m)
      | Ret adds \<Rightarrow> (let (w', written) = ix_WriteIndex ix opts target adds w in
          (w', bind_go written (\<lambda>_. bind_go (ix_Digest ix adds) (\<lambda>digest.
             lib_NewDigest lib (at_digest (lib_TagRepository lib target) digest))))))"

section \<open>Templates\<close>

definition defaultValue :: "string \<Rightarrow> string \<Rightarrow> string" where
  "defaultValue val defaultVal = (if val = '''' then defaultVal else val)"

definition newTemplateData :: "ObjectMeta \<Rightarrow> string \<Rightarrow> string \<Rightarrow> string \<rightharpoonup> string" where
  "newTemplateData obj grp kind = map_of [
     (''Namespace'', defaultValue (om_Namespace obj) ''unset-namespace''),
     (''Name'', defaultValue (om_Name obj) ''unset-name''),
     (''UID'', defaultValue (om_UID obj) ''unset-uid''),
     (''Generation'', defaultValue (fmt_d (om_Generation obj)) ''unset-generation''),
     (''ResourceVersion'', defaultValue (om_ResourceVersion obj) ''unset-resource-version''),
     (''Group'', defaultValue grp ''unset-group''),
     (''Kind'', defaultValue (ToLower kind) ''unset-kind'')]"

text \<open>\<open>template\<close> parses and executes a \<^verbatim>\<open>text/template\<close> on the data.\<close>

definition ApplyTemplate :: "('d, 't) oci_lib \<Rightarrow> (string \<Rightarrow> (string \<rightharpoonup> string) \<Rightarrow> string go) \<Rightarrow>
    string \<Rightarrow> ObjectMeta \<Rightarrow> string \<Rightarrow> string \<Rightarrow> 't go" where
  "ApplyTemplate lib template imageTemplate obj grp kind =
     bind_go (template imageTemplate (newTemplateData obj grp kind)) (lib_NewTag lib)"

section \<open>Credentials\<close>

record ServiceAccount =
  svc_Namespace :: string
  svc_ImagePullSecrets :: "string list"

text \<open>
  \<open>getServiceAccount\<close> and \<open>getSecret\<close> read by namespace and name and track what they read;
  \<open>fromPullSecrets\<close> builds the keychain.
\<close>

definition KeychainForServiceAccountRef :: "(string \<Rightarrow> string \<Rightarrow> ServiceAccount go) \<Rightarrow>
    (string \<Rightarrow> string \<Rightarrow> 'secret go) \<Rightarrow> ('secret list \<Rightarrow> 'kc go) \<Rightarrow> ServiceAccountReference \<Rightarrow> 'kc go" where
  "KeychainForServiceAccountRef getServiceAccount getSecret fromPullSecrets ref =
     bind_go (getServiceAccount (sa_Namespace ref) (sa_Name ref)) (\<lambda>serviceAccount.
     bind_go (mapM_go (\<lambda>n. getSecret (svc_Namespace serviceAccount) n) (svc_ImagePullSecrets serviceAccount)) (\<lambda>pullSecrets.
       fromPullSecrets pullSecrets))"

definition KeychainForRepo :: "(string \<Rightarrow> string \<Rightarrow> ServiceAccount go) \<Rightarrow>
    (string \<Rightarrow> string \<Rightarrow> 'secret go) \<Rightarrow> ('secret list \<Rightarrow> 'kc go) \<Rightarrow> RepositorySpec \<Rightarrow> 'kc go" where
  "KeychainForRepo getServiceAccount getSecret fromPullSecrets repo =
     KeychainForServiceAccountRef getServiceAccount getSecret fromPullSecrets (rps_ServiceAccountRef repo)"

record tls_secret =
  ts_Type :: string
  ts_Data :: "string \<rightharpoonup> string"

text \<open>The certificate authorities the transport trusts beside those of the system.\<close>

definition CustomTransport :: "(string \<Rightarrow> tls_secret list go) \<Rightarrow> ctx \<Rightarrow> string list go" where
  "CustomTransport listSecrets c = bind_go (listSecrets (Namespace c)) (\<lambda>items.
     Ret (List.map_filter (\<lambda>s. if ts_Type s \<noteq> ''kubernetes.io/tls'' then None else ts_Data s ''ca.crt'') items))"

section \<open>What the libraries promise\<close>

text \<open>A static layer is its content: both digests are the hash of the bytes.\<close>

definition static_layers :: "('d, 't) oci_lib \<Rightarrow> bool" where
  "static_layers lib \<longleftrightarrow> (\<forall>content mt. lib_NewLayer lib content mt =
     \<lparr>ly_Digest = lib_SHA256 lib content, ly_DiffID = lib_SHA256 lib content, ly_MediaType = mt,
      ly_Size = length content, ly_Uncompressed = Ret content\<rparr>)"

text \<open>A registry serves what was pushed, by digest.\<close>

definition push_visible :: "('d, 't) oci_lib \<Rightarrow> ('d, 't, 'k, 'desc, 'w) remote \<Rightarrow> bool" where
  "push_visible lib rm \<longleftrightarrow> (\<forall>opts ref img w w' d. rm_Push rm opts ref img w = (w', Ret ()) \<longrightarrow>
     lib_NewDigest lib (at_digest (ref_String lib ref) (wasmImage_Digest lib img)) = Ret d \<longrightarrow>
     rm_Get rm opts d w' = Ret (Ret (wasmImage_view lib img)))"

text \<open>What is printed as JSON or as a time reads back.\<close>

definition reads_back :: "('d, 't) oci_lib \<Rightarrow> WasmConfigFile \<Rightarrow> bool" where
  "reads_back lib c \<longleftrightarrow> (let j = config_to_json (lib_time_format lib) c in
     lib_json_parse lib (lib_json_text lib j) = Some j \<and>
     lib_time_parse lib (lib_time_format lib (wc_Created c)) = Some (wc_Created c))"

lemma newWasmImage_Ret:
  assumes "newWasmImage lib ext component = Ret (img, config)"
  shows "wi_config img = config" and "wi_component img = component"
    and "wi_layer img = lib_NewLayer lib component WasmLayerMediaType"
    and "wc_LayerDigests config = [lib_SHA256 lib component]"
    and "\<exists>wit. ext component = Ret wit \<and>
      (wcc_Imports (wc_Component config), wcc_Exports (wc_Component config)) = ImportsExports wit"
proof -
  from assms obtain wit where wit: "ext component = Ret wit"
    by (auto simp: newWasmImage_def Extract_def bind_go_eq_Ret)
  obtain ims exs where ie: "ImportsExports wit = (ims, exs)" by (cases "ImportsExports wit") auto
  from assms wit ie show "wi_config img = config" and "wi_component img = component"
    and "wi_layer img = lib_NewLayer lib component WasmLayerMediaType"
    and "wc_LayerDigests config = [lib_SHA256 lib component]"
    and "\<exists>wit. ext component = Ret wit \<and>
      (wcc_Imports (wc_Component config), wcc_Exports (wc_Component config)) = ImportsExports wit"
    by (auto simp: newWasmImage_def Extract_def Let_def)
qed

lemma parse_config_wasmImage:
  "reads_back lib (wi_config img) \<Longrightarrow> parse_config lib (wasmImage_view lib img) = Ret (wi_config img)"
  using config_json_roundtrip [of "lib_time_parse lib" "lib_time_format lib" "wi_config img"]
  by (simp add: parse_config_def wasmImage_view_def wasmImage_RawConfigFile_def reads_back_def Let_def)

section \<open>Properties\<close>

lemma push_pull:
  assumes "static_layers lib" and "push_visible lib rm"
    and pushed: "Push lib rm ext opts ref component w = (w', Ret (d, config))"
    and "reads_back lib config"
  shows "Pull lib rm opts d w' = Ret (component, config) \<and> PullConfig lib rm opts d w' = Ret config \<and>
    (\<exists>wit. ext component = Ret wit \<and>
      (wcc_Imports (wc_Component config), wcc_Exports (wc_Component config)) = ImportsExports wit)"
proof -
  from pushed obtain img where tr: "rm_transport rm = Ret ()"
    and img: "newWasmImage lib ext component = Ret (img, config)"
    and "rm_Push rm opts ref img w = (w', Ret ())"
    and "lib_NewDigest lib (at_digest (ref_String lib ref) (wasmImage_Digest lib img)) = Ret d"
    by (auto simp: Push_def Let_def bind_go_eq_Ret split: go.splits prod.splits)
  then have "rm_Get rm opts d w' = Ret (Ret (wasmImage_view lib img))"
    using assms(2) unfolding push_visible_def by blast
  moreover have "parse_config lib (wasmImage_view lib img) = Ret config"
    using parse_config_wasmImage [of lib img] assms(4) newWasmImage_Ret(1) [OF img] by simp
  moreover have "wi_layer img = lib_NewLayer lib component WasmLayerMediaType"
    by (rule newWasmImage_Ret(3) [OF img])
  ultimately show ?thesis
    using assms(1) newWasmImage_Ret(5) [OF img] tr
    by (simp add: Pull_def PullConfig_def wasmImage_view_def static_layers_def IsImage_def Let_def
        wasmImage_MediaType_def wasmImage_Layers_def)
qed

text \<open>C11: what is pushed can be pulled: when the push of a component succeeds, pulling the digest it returned
  gives back the same bytes and the same configuration, whose imports and exports are those of the
  WIT of the component.\<close>

theorem Push_Pull_roundtrip:
  assumes "static_layers lib" and "push_visible lib rm"
    and pushed: "Push lib rm ext opts ref component w = (w', Ret (d, config))"
    and "reads_back lib config"
  shows "Pull lib rm opts d w' = Ret (component, config) \<and> PullConfig lib rm opts d w' = Ret config \<and>
    (\<exists>wit. ext component = Ret wit \<and>
      (wcc_Imports (wc_Component config), wcc_Exports (wc_Component config)) = ImportsExports wit)"
  by (rule push_pull [OF assms])

text \<open>The manifest of a wasm image describes exactly its two blobs: the configuration and the component,
  each with the hash and the length of its bytes; the configuration lists the layer, the layer is
  found by this digest and by no other, and the image digest and size are those of the manifest.\<close>

theorem wasm_image_consistent:
  assumes "newWasmImage lib ext component = Ret (img, config)" and "static_layers lib"
  shows "ds_Digest (mf_Config (wasmImage_Manifest lib img)) = wasmImage_ConfigName lib img \<and>
    ds_Size (mf_Config (wasmImage_Manifest lib img)) = length (wasmImage_RawConfigFile lib img) \<and>
    mf_Layers (wasmImage_Manifest lib img) =
      [\<lparr>ds_Digest = lib_SHA256 lib component, ds_MediaType = WasmLayerMediaType, ds_Size = length component\<rparr>] \<and>
    wc_LayerDigests config = map ds_Digest (mf_Layers (wasmImage_Manifest lib img)) \<and>
    (\<exists>l. wasmImage_LayerByDigest img digest = Ret l) = (digest = lib_SHA256 lib component) \<and>
    (\<exists>l. wasmImage_LayerByDiffID img digest = Ret l) = (digest = lib_SHA256 lib component) \<and>
    wasmImage_Digest lib img = lib_SHA256 lib (lib_manifest_text lib (wasmImage_Manifest lib img)) \<and>
    wasmImage_Size lib img = length (lib_manifest_text lib (wasmImage_Manifest lib img))"
  using newWasmImage_Ret [OF assms(1)] assms(2)
  by (simp add: wasmImage_Manifest_def wasmImage_ConfigName_def static_layers_def wasmImage_LayerByDigest_def
      wasmImage_LayerByDiffID_def wasmImage_Digest_def wasmImage_Size_def wasmImage_RawManifest_def Let_def)

text \<open>Pulling never mistakes another artifact for a component: it succeeds only on an image manifest with
  exactly one layer, of the wasm media type, and returns the bytes of this layer and the decoded
  configuration.\<close>

theorem Pull_only_wasm:
  "Pull lib rm opts d w = Ret (component, config) \<longleftrightarrow>
     rm_transport rm = Ret () \<and> (\<exists>img l mt. rm_Get rm opts d w = Ret (Ret img) \<and> iv_MediaType img = Ret mt \<and>
       IsImage mt \<and> iv_Layers img = Ret [l] \<and> ly_MediaType l = WasmLayerMediaType \<and>
       ly_Uncompressed l = Ret component \<and> parse_config lib img = Ret config)"
proof
  assume "Pull lib rm opts d w = Ret (component, config)"
  then show "rm_transport rm = Ret () \<and> (\<exists>img l mt. rm_Get rm opts d w = Ret (Ret img) \<and> iv_MediaType img = Ret mt \<and>
       IsImage mt \<and> iv_Layers img = Ret [l] \<and> ly_MediaType l = WasmLayerMediaType \<and>
       ly_Uncompressed l = Ret component \<and> parse_config lib img = Ret config)"
    by (auto simp: Pull_def bind_go_eq_Ret Let_def length_Suc_conv split: if_splits)
next
  assume "rm_transport rm = Ret () \<and> (\<exists>img l mt. rm_Get rm opts d w = Ret (Ret img) \<and> iv_MediaType img = Ret mt \<and>
       IsImage mt \<and> iv_Layers img = Ret [l] \<and> ly_MediaType l = WasmLayerMediaType \<and>
       ly_Uncompressed l = Ret component \<and> parse_config lib img = Ret config)"
  then show "Pull lib rm opts d w = Ret (component, config)"
    by (auto simp: Pull_def)
qed

text \<open>A reference that is pinned to a digest is resolved without the registry: the answer does not depend
  on the options, the client or its state.\<close>

theorem ResolveDigest_pinned:
  assumes "lib_NewDigest lib s = Ret d" and "rm_transport rm = Ret ()" and "rm_transport rm' = Ret ()"
  shows "ResolveDigest lib rm opts s w = Ret d \<and> ResolveDigest lib rm' opts' s w' = Ret d"
  using assms by (simp add: ResolveDigest_def)

text \<open>The layer of a component: its archive, when the writer took the header and the bytes of exactly this component; otherwise
  there is none, and the error of the writer is lost.\<close>

definition component_layer :: "('plat, 'img, 'layer, 'd, 't, 'k, 'w) index_lib \<Rightarrow> string \<Rightarrow> 'layer option" where
  "component_layer ix component = (if tw_header (ix_tar ix) component = Ret () \<and> tw_copy (ix_tar ix) component = Ret ()
     then Some (ix_newLayer ix (tw_bytes (ix_tar ix) component)) else None)"

lemma componentAsLayer_layer:
  "componentAsLayer (ix_tar ix) (ix_newLayer ix) component = Ret layer \<Longrightarrow> layer = component_layer ix component"
  by (auto simp: componentAsLayer_def component_layer_def bind_go_eq_Ret split: go.splits)

text \<open>The images of an index made from a base: those of the base, each with the layer of the component as its last one.\<close>

definition index_over :: "('d, 't) oci_lib \<Rightarrow> ('plat, 'img, 'layer, 'd, 't, 'k, 'w) index_lib \<Rightarrow> 'k \<Rightarrow> ('d, 't) reference \<Rightarrow>
    string \<Rightarrow> 'w \<Rightarrow> ('img \<times> 'plat) list \<Rightarrow> bool" where
  "index_over lib ix opts base component w adds \<longleftrightarrow> (\<exists>desc ms. ix_Get ix opts base w = Ret desc \<and> IsIndex (bd_MediaType desc) \<and>
     bd_IndexManifest desc = Ret ms \<and>
     list_all2 (\<lambda>m (img, plat). plat = ie_Platform m \<and>
         (\<exists>b. bd_Image desc (ie_Digest m) = Ret b \<and> ix_AppendLayers ix b (component_layer ix component) = Ret img))
       (filter (\<lambda>m. IsImage (ie_MediaType m)) ms) adds)"

text \<open>Appending a component publishes an index that has one entry for each image of the base, in order and
  on the same platform, each the base image with the layer of the component as one more; entries that are
  not images are dropped and a base that is not an index is an error.\<close>

theorem AppendComponent_images:
  assumes "AppendComponent lib rm ix opts base target component w = (w', Ret d)"
  shows "\<exists>adds dg. index_over lib ix opts base component w adds \<and> ix_WriteIndex ix opts target adds w = (w', Ret ()) \<and>
    ix_Digest ix adds = Ret dg \<and> lib_NewDigest lib (at_digest (lib_TagRepository lib target) dg) = Ret d"
proof -
  from assms obtain adds dg where *: "appended_images lib ix opts base component w = Ret adds"
    "ix_WriteIndex ix opts target adds w = (w', Ret ())" "ix_Digest ix adds = Ret dg"
    "lib_NewDigest lib (at_digest (lib_TagRepository lib target) dg) = Ret d"
    by (auto simp: AppendComponent_def Let_def bind_go_eq_Ret split: go.splits prod.splits)
  from *(1) obtain desc ms layer where i: "ix_Get ix opts base w = Ret desc" "IsIndex (bd_MediaType desc)"
    "bd_IndexManifest desc = Ret ms" "componentAsLayer (ix_tar ix) (ix_newLayer ix) component = Ret layer"
    "mapM_go (append_entry (bd_Image desc) (ix_AppendLayers ix) layer) (filter (\<lambda>m. IsImage (ie_MediaType m)) ms) = Ret adds"
    by (auto simp: appended_images_def bind_go_eq_Ret split: if_splits)
  from i(5) have "list_all2 (\<lambda>m (img, plat). plat = ie_Platform m \<and>
        (\<exists>b. bd_Image desc (ie_Digest m) = Ret b \<and> ix_AppendLayers ix b layer = Ret img))
      (filter (\<lambda>m. IsImage (ie_MediaType m)) ms) adds"
    unfolding mapM_go_Ret_iff
    by (rule list_all2_mono) (auto simp: append_entry_def bind_go_eq_Ret split: prod.splits)
  with i(1-3) have "index_over lib ix opts base component w adds"
    unfolding index_over_def componentAsLayer_layer [OF i(4), symmetric] by blast
  with *(2-4) show ?thesis by blast
qed

text \<open>A copy keeps the digest: whenever it succeeds, the source was resolved to a digest, the manifest of
  this digest was pushed to the target, and the returned reference is the target's repository at
  the same digest.\<close>

theorem Copy_keeps_digest:
  assumes "Copy lib rm opts from to w = (w', Ret d')"
  shows "\<exists>d desc. ResolveDigest lib rm opts (ref_Name lib from) w = Ret d \<and> rm_pull_desc rm opts d w = Ret desc \<and>
    rm_push_desc rm opts to desc w = (w', Ret ()) \<and>
    lib_NewDigest lib (at_digest (lib_TagRepository lib to) (lib_DigestStr lib d)) = Ret d'"
  using assms by (auto simp: Copy_def bind_go_eq_Ret Let_def split: go.splits prod.splits)

lemma ran_map_of_subset: "ran (map_of kvs) \<subseteq> snd ` set kvs"
  by (force simp: ran_def dest: map_of_SomeD)

text \<open>A repository template always finds its seven values and none of them is blank, whatever the object.\<close>

theorem newTemplateData_complete:
  "dom (newTemplateData obj grp kind) =
     {''Namespace'', ''Name'', ''UID'', ''Generation'', ''ResourceVersion'', ''Group'', ''Kind''} \<and>
   '''' \<notin> ran (newTemplateData obj grp kind) \<and>
   newTemplateData obj grp kind ''Generation'' = Some (fmt_d (om_Generation obj))"
proof -
  let ?kvs = "[(''Namespace'', defaultValue (om_Namespace obj) ''unset-namespace''),
     (''Name'', defaultValue (om_Name obj) ''unset-name''),
     (''UID'', defaultValue (om_UID obj) ''unset-uid''),
     (''Generation'', defaultValue (fmt_d (om_Generation obj)) ''unset-generation''),
     (''ResourceVersion'', defaultValue (om_ResourceVersion obj) ''unset-resource-version''),
     (''Group'', defaultValue grp ''unset-group''),
     (''Kind'', defaultValue (ToLower kind) ''unset-kind'')]"
  have "ran (map_of ?kvs) \<subseteq> snd ` set ?kvs" by (rule ran_map_of_subset)
  moreover have "y \<noteq> [] \<Longrightarrow> [] \<noteq> defaultValue x y" for x y by (simp add: defaultValue_def)
  then have "[] \<notin> snd ` set ?kvs" by auto
  ultimately have "[] \<notin> ran (map_of ?kvs)" by blast
  moreover have "dom (map_of ?kvs) =
      {''Namespace'', ''Name'', ''UID'', ''Generation'', ''ResourceVersion'', ''Group'', ''Kind''}"
    by (simp add: dom_map_of_conv_image_fst)
  moreover have "map_of ?kvs ''Generation'' = Some (fmt_d (om_Generation obj))"
    by (simp add: defaultValue_def)
  ultimately show ?thesis unfolding newTemplateData_def by blast
qed

section \<open>Concrete instances\<close>

text \<open>A registry in memory: references are strings, a digest is the text behind a prefix.\<close>

definition demo_config :: WasmConfigFile where
  "demo_config = \<lparr>wc_Created = 1, wc_Author = ''wa8s'', wc_Architecture = ''wasm'', wc_OS = ''wasip2'',
     wc_LayerDigests = [''sha256:asm''],
     wc_Component = \<lparr>wcc_Exports = [], wcc_Imports = [''a:b/c''], wcc_OptionalImports = [], wcc_Target = None\<rparr>\<rparr>"

definition demo_lib :: "(string, string) oci_lib" where
  "demo_lib = \<lparr>lib_NewDigest = (\<lambda>s. if CHR ''@'' \<in> set s then Ret s else Fail (Text ''digest'')),
     lib_NewTag = Ret, lib_DigestString = id, lib_DigestName = id, lib_DigestStr = (\<lambda>s. tl (dropWhile (\<lambda>ch. ch \<noteq> CHR ''@'') s)),
     lib_TagString = id, lib_TagName = id, lib_TagRepository = id, lib_SHA256 = (\<lambda>s. ''sha256:'' @ s),
     lib_NewLayer = (\<lambda>content mt. \<lparr>ly_Digest = ''sha256:'' @ content, ly_DiffID = ''sha256:'' @ content,
        ly_MediaType = mt, ly_Size = length content, ly_Uncompressed = Ret content\<rparr>),
     lib_manifest_text = (\<lambda>m. ds_Digest (mf_Config m) @ concat (map ds_Digest (mf_Layers m))),
     lib_json_text = (\<lambda>_. ''{}''), lib_json_parse = (\<lambda>_. Some (config_to_json (\<lambda>_. ''t'') demo_config)),
     lib_time_format = (\<lambda>_. ''t''), lib_time_parse = (\<lambda>_. Some 1)\<rparr>"

definition demo_remote :: "(string, string, unit, string, string \<rightharpoonup> image_view) remote" where
  "demo_remote = \<lparr>rm_transport = Ret (), rm_Head = (\<lambda>_ t w. Fail (Text ''offline'')),
     rm_Get = (\<lambda>_ d w. case w d of None \<Rightarrow> Fail (ApiErr NotFound '''' '''') | Some v \<Rightarrow> Ret (Ret v)),
     rm_Push = (\<lambda>_ ref img w. (w(at_digest (ref_String demo_lib ref) (wasmImage_Digest demo_lib img)
        \<mapsto> wasmImage_view demo_lib img), Ret ())),
     rm_clients = (\<lambda>_. Ret ()), rm_pull_desc = (\<lambda>_ d w. Ret d),
     rm_push_desc = (\<lambda>_ t desc w. (w, Ret ()))\<rparr>"

lemma demo_static_layers: "static_layers demo_lib"
  by (simp add: static_layers_def demo_lib_def)

lemma demo_push_visible: "push_visible demo_lib demo_remote"
  by (auto simp: push_visible_def demo_remote_def demo_lib_def at_digest_def split: if_splits)

definition demo_ext :: "string \<Rightarrow> string go" where
  "demo_ext component = Ret ''world root { import a:b/c; }''"

lemma demo_image:
  "newWasmImage demo_lib demo_ext ''asm'' = Ret (\<lparr>wi_component = ''asm'',
     wi_layer = lib_NewLayer demo_lib ''asm'' WasmLayerMediaType, wi_config = demo_config\<rparr>, demo_config)"
proof -
  have "ImportsExports ''world root { import a:b/c; }'' = ([''a:b/c''], [])" by code_simp
  then show ?thesis
    by (simp add: newWasmImage_def Extract_def demo_ext_def demo_lib_def demo_config_def Let_def)
qed

lemma Push_Pull_roundtrip_witness:
  "\<exists>w' d. Push demo_lib demo_remote demo_ext () (RefTag ''r'') ''asm'' Map.empty = (w', Ret (d, demo_config)) \<and>
     Pull demo_lib demo_remote () d w' = Ret (''asm'', demo_config)"
proof -
  let ?img = "\<lparr>wi_component = ''asm'', wi_layer = lib_NewLayer demo_lib ''asm'' WasmLayerMediaType,
    wi_config = demo_config\<rparr>"
  let ?d = "at_digest ''r'' (wasmImage_Digest demo_lib ?img)"
  have "lib_NewDigest demo_lib ?d = Ret ?d" by (simp add: demo_lib_def at_digest_def)
  moreover have "ref_String demo_lib (RefTag ''r'') = ''r''" by (simp add: ref_String_def demo_lib_def)
  ultimately have push: "Push demo_lib demo_remote demo_ext () (RefTag ''r'') ''asm'' Map.empty =
      (Map.empty(?d \<mapsto> wasmImage_view demo_lib ?img), Ret (?d, demo_config))"
    by (simp add: Push_def demo_image demo_remote_def Let_def)
  have "reads_back demo_lib demo_config"
    by (simp add: reads_back_def demo_lib_def demo_config_def Let_def)
  from Push_Pull_roundtrip [OF demo_static_layers demo_push_visible push this] push show ?thesis by blast
qed

lemma wasm_image_consistent_witness:
  "\<exists>img. newWasmImage demo_lib demo_ext ''asm'' = Ret (img, demo_config) \<and>
     map ds_Size (mf_Layers (wasmImage_Manifest demo_lib img)) = [3]"
  using wasm_image_consistent [OF demo_image demo_static_layers, of "[]"] demo_image by auto

lemma ResolveDigest_pinned_witness:
  "ResolveDigest demo_lib demo_remote () ''r@sha256:0'' Map.empty = Ret ''r@sha256:0''"
  using ResolveDigest_pinned [of demo_lib "''r@sha256:0''" "''r@sha256:0''" demo_remote demo_remote "()" Map.empty
      "()" Map.empty]
  by (simp add: demo_lib_def demo_remote_def)

lemma Copy_keeps_digest_witness:
  "\<exists>d. Copy demo_lib demo_remote () (RefDigest ''r@sha256:0'') ''t'' Map.empty = (Map.empty, Ret d) \<and>
     lib_NewDigest demo_lib ''t@sha256:0'' = Ret d"
proof -
  have c: "Copy demo_lib demo_remote () (RefDigest ''r@sha256:0'') ''t'' Map.empty = (Map.empty, Ret ''t@sha256:0'')"
    by (simp add: Copy_def demo_lib_def demo_remote_def ResolveDigest_def ref_Name_def at_digest_def)
  from Copy_keeps_digest [OF c] obtain d where "ResolveDigest demo_lib demo_remote () ''r@sha256:0'' Map.empty = Ret d"
    and "lib_NewDigest demo_lib (at_digest (lib_TagRepository demo_lib ''t'') (lib_DigestStr demo_lib d)) = Ret ''t@sha256:0''"
    by (auto simp: ref_Name_def demo_lib_def)
  then have "lib_NewDigest demo_lib ''t@sha256:0'' = Ret ''t@sha256:0''"
    by (simp add: ResolveDigest_def demo_lib_def demo_remote_def at_digest_def split: if_splits)
  with c show ?thesis by blast
qed

text \<open>A base of one image for one platform beside an attestation.\<close>

definition demo_index :: "(string, string, string, string, string, 'k, 'w) index_lib" where
  "demo_index = \<lparr>ix_tar = \<lparr>tw_header = \<lambda>_. Ret (), tw_copy = \<lambda>_. Ret (), tw_close = \<lambda>_. Ret (), tw_bytes = id\<rparr>, ix_newLayer = id,
     ix_Get = (\<lambda>k base w. Ret \<lparr>bd_MediaType = ''application/vnd.oci.image.index.v1+json'', bd_ImageIndex = Ret (),
       bd_IndexManifest = Ret [\<lparr>ie_MediaType = ImageManifestMediaType, ie_Digest = ''a'', ie_Platform = ''linux/amd64''\<rparr>,
         \<lparr>ie_MediaType = ''application/x'', ie_Digest = ''b'', ie_Platform = ''none''\<rparr>],
       bd_Image = Ret\<rparr>),
     ix_AppendLayers = (\<lambda>img l. Ret (img @ ''+'' @ (case l of None \<Rightarrow> [] | Some x \<Rightarrow> x))),
     ix_WriteIndex = (\<lambda>k t adds w. (w, Ret ())), ix_Digest = (\<lambda>adds. Ret ''sha256:2'')\<rparr>"

lemma AppendComponent_images_witness:
  "index_over demo_lib demo_index () (RefTag ''base'') ''asm'' (Map.empty :: string \<rightharpoonup> image_view) [(''a+asm'', ''linux/amd64'')]"
proof -
  let ?w = "Map.empty :: string \<rightharpoonup> image_view"
  have adds: "appended_images demo_lib demo_index () (RefTag ''base'') ''asm'' ?w = Ret [(''a+asm'', ''linux/amd64'')]"
    by (simp add: appended_images_def demo_index_def componentAsLayer_def append_entry_def IsIndex_def IsImage_def ImageManifestMediaType_def)
  then have "AppendComponent demo_lib demo_remote demo_index () (RefTag ''base'') ''t'' ''asm'' ?w = (?w, Ret ''t@sha256:2'')"
  proof -
    have "rm_transport demo_remote = Ret ()" "ix_Digest (demo_index :: (string, string, string, string, string, unit, string \<rightharpoonup> image_view) index_lib) as = Ret ''sha256:2''" "ix_WriteIndex demo_index k t as v = (v, Ret ())"
      "lib_NewDigest demo_lib (at_digest (lib_TagRepository demo_lib ''t'') ''sha256:2'') = Ret ''t@sha256:2''"
      for k :: unit and t as and v :: "string \<rightharpoonup> image_view"
      by (simp_all add: demo_remote_def demo_index_def demo_lib_def at_digest_def)
    with adds show ?thesis by (simp add: AppendComponent_def Let_def)
  qed
  from AppendComponent_images [OF this] obtain adds dg where "index_over demo_lib demo_index () (RefTag ''base'') ''asm'' ?w adds" by blast
  then have "adds = [(''a+asm'', ''linux/amd64'')]"
    by (auto simp: index_over_def demo_index_def component_layer_def IsImage_def ImageManifestMediaType_def list_all2_Cons1)
  with \<open>index_over demo_lib demo_index () (RefTag ''base'') ''asm'' ?w adds\<close> show ?thesis by simp
qed

end
