(* ===== verification/Components_Api.thy ===== *)
theory Components_Api
  imports Registries_Api "HOL-Library.Char_ord" "HOL-Library.List_Lexorder"
begin

text \<open>
  The \<^verbatim>\<open>wa8s.reconciler.io\<close> API group (\<^verbatim>\<open>apis/components/v1alpha1\<close>): components, cluster
  components, config stores and compositions.  A composition nests compositions to any depth; its
  validation is proved to be a condition on every composition nested in it.
\<close>

section \<open>The component duck type\<close>

record GenericComponentSpec =
  gs_RepositoryRef :: RepositoryReference

record WIT =
  wit_Imports :: "string list"
  wit_Exports :: "string list"

text \<open>A component span is a tree; the fields are the source's, in its order.\<close>

datatype ComponentSpan = ComponentSpan
  (sp_Digest: string) (sp_UID: string) (sp_Group: string) (sp_Kind: string) (sp_Namespace: string)
  (sp_Name: string) (sp_Trace: "ComponentSpan list") (sp_CycleOmitted: bool)

record GenericComponentStatus =
  gst_Image :: string
  gst_WIT :: "WIT option"
  gst_Trace :: "ComponentSpan list"

definition GenericComponentSpec_Default :: "ctx \<Rightarrow> GenericComponentSpec \<Rightarrow> GenericComponentSpec go" where
  "GenericComponentSpec_Default c r =
     bind_go (RepositoryReference_Default c (gs_RepositoryRef r)) (\<lambda>rr. Ret (r\<lparr>gs_RepositoryRef := rr\<rparr>))"

definition GenericComponentSpec_Validate ::
    "ctx \<Rightarrow> path \<Rightarrow> GenericComponentSpec \<Rightarrow> field_error list go" where
  "GenericComponentSpec_Validate c p r = cat_errs [
     RepositoryReference_Validate c (child p ''repositoryRef'') (gs_RepositoryRef r)]"

section \<open>References to components\<close>

record ComponentReference =
  cr_APIVersion :: string
  cr_Kind :: string
  cr_Namespace :: string
  cr_Name :: string

record OCIReference =
  oci_Image :: string
  oci_ServiceAccountRef :: ServiceAccountReference

definition ComponentReference_Default :: "ctx \<Rightarrow> ComponentReference \<Rightarrow> ComponentReference go" where
  "ComponentReference_Default c r =
     (let r = (if cr_Kind r = '''' then r\<lparr>cr_Kind := ''Component''\<rparr> else r);
          r = (if cr_APIVersion r = '''' then r\<lparr>cr_APIVersion := APIVersionForKind (cr_Kind r)\<rparr> else r) in
      bind_go (if cr_Namespace r = '''' \<and> \<not> prefix ''Cluster'' (cr_Kind r)
               then bind_go (RetrieveResource c) (\<lambda>o'. Ret (r\<lparr>cr_Namespace := om_Namespace o'\<rparr>))
               else Ret r)
        (\<lambda>r. if cr_Name r = ''''
             then bind_go (RetrieveResource c) (\<lambda>o'. Ret (r\<lparr>cr_Name := om_Name o'\<rparr>))
             else Ret r))"

definition ComponentReference_Validate ::
    "ctx \<Rightarrow> path \<Rightarrow> ComponentReference \<Rightarrow> field_error list go" where
  "ComponentReference_Validate c p r = cat_errs [
     when_errs (cr_APIVersion r = '''') [Required (child p ''apiVersion'') ''''],
     when_errs (cr_Kind r = '''') [Required (child p ''kind'') ''''],
     if \<not> prefix ''Cluster'' (cr_Kind r) then
       (if cr_Namespace r = '''' then Ret [Required (child p ''namespace'') '''']
        else bind_go (RetrieveResource c) (\<lambda>o'. let ns = om_Namespace o' in
          when_errs (ns \<noteq> '''' \<and> ns \<noteq> cr_Namespace r \<and> ns \<noteq> Namespace c)
            [Invalid (child p ''namespace'') (Some (cr_Namespace r))
               ''cross namespace components are not allowed'']))
     else Ret [],
     when_errs (cr_Name r = '''') [Required (child p ''name'') '''']]"

definition OCIReference_Default :: "ctx \<Rightarrow> OCIReference \<Rightarrow> OCIReference go" where
  "OCIReference_Default c r =
     bind_go (ServiceAccountReference_Default c (oci_ServiceAccountRef r))
       (\<lambda>sa. Ret (r\<lparr>oci_ServiceAccountRef := sa\<rparr>))"

definition OCIReference_Validate :: "ctx \<Rightarrow> path \<Rightarrow> OCIReference \<Rightarrow> field_error list go" where
  "OCIReference_Validate c p r = cat_errs [
     when_errs (oci_Image r = '''') [Required (child p ''image'') ''''],
     ServiceAccountReference_Validate c (child p ''serviceAccountRef'') (oci_ServiceAccountRef r)]"

text \<open>
  \<^verbatim>\<open>NamespacedName\<close> and \<^verbatim>\<open>TypeMeta\<close> split a reference into the key and the type of the object
  it names.
\<close>

definition ComponentReference_NamespacedName :: "ComponentReference \<Rightarrow> string \<times> string" where
  "ComponentReference_NamespacedName r = (cr_Namespace r, cr_Name r)"

definition ComponentReference_TypeMeta :: "ComponentReference \<Rightarrow> string \<times> string" where
  "ComponentReference_TypeMeta r = (cr_APIVersion r, cr_Kind r)"

section \<open>Picking one of several fields\<close>

text \<open>
  The idiom of the validations of unions: the names of the set fields and of the unset ones are
  collected into two sets, and exactly one has to be picked.  The sets are listed in order.
\<close>

definition pick_one :: "path \<Rightarrow> (string \<times> bool) list \<Rightarrow> field_error list" where
  "pick_one p choices =
     (let picked = sort (map fst (filter snd choices));
          notPicked = sort (map fst (filter (\<lambda>x. \<not> snd x) choices));
          listed = (\<lambda>names. child p (''['' @ join '', '' names @ '']'')) in
      (if length picked = 0 then [Required (listed notPicked) ''pick one''] else []) @
      (if length picked > 1 then [Invalid (listed picked) None ''pick one''] else []))"

lemma pick_one_no_error: "pick_one p choices = [] \<longleftrightarrow> length (filter snd choices) = 1"
proof -
  have "length (map fst (filter snd choices)) = length (filter snd choices)" by simp
  then show ?thesis
    unfolding pick_one_def Let_def length_sort by (cases "filter snd choices") auto
qed

section \<open>Components\<close>

record ComponentSpec =
  cs_Generic :: GenericComponentSpec
  cs_OCI :: "OCIReference option"
  cs_Ref :: "ComponentReference option"

type_synonym Component = "(ComponentSpec, GenericComponentStatus) resource"
type_synonym ClusterComponent = "(ComponentSpec, GenericComponentStatus) resource"

definition ComponentSpec_Default :: "ctx \<Rightarrow> ComponentSpec \<Rightarrow> ComponentSpec go" where
  "ComponentSpec_Default c r =
     bind_go (GenericComponentSpec_Default c (cs_Generic r)) (\<lambda>g.
     bind_go (option_go (OCIReference_Default c) (cs_OCI r)) (\<lambda>oci.
     bind_go (option_go (ComponentReference_Default c) (cs_Ref r)) (\<lambda>ref.
       Ret (r\<lparr>cs_Generic := g, cs_OCI := oci, cs_Ref := ref\<rparr>))))"

definition ComponentSpec_Validate :: "ctx \<Rightarrow> path \<Rightarrow> ComponentSpec \<Rightarrow> field_error list go" where
  "ComponentSpec_Validate c p r = cat_errs [
     GenericComponentSpec_Validate c p (cs_Generic r),
     opt_errs (cs_OCI r) (OCIReference_Validate c (child p ''oci'')),
     opt_errs (cs_Ref r) (ComponentReference_Validate c (child p ''ref'')),
     Ret (pick_one p [(''oci'', cs_OCI r \<noteq> None), (''ref'', cs_Ref r \<noteq> None)])]"

definition Component_Default :: "ctx \<Rightarrow> Component \<Rightarrow> Component go" where
  "Component_Default c r = (let c = StashResource c (rs_Meta r) in
     bind_go (ComponentSpec_Default c (rs_Spec r)) (\<lambda>s. Ret (r\<lparr>rs_Spec := s\<rparr>)))"

definition ClusterComponent_Default :: "ctx \<Rightarrow> ClusterComponent \<Rightarrow> ClusterComponent go" where
  "ClusterComponent_Default c r = (let c = StashResource c (rs_Meta r) in
     bind_go (ComponentSpec_Default c (rs_Spec r)) (\<lambda>s. Ret (r\<lparr>rs_Spec := s\<rparr>)))"

definition Component_Validate :: "ctx \<Rightarrow> path \<Rightarrow> Component \<Rightarrow> field_error list go" where
  "Component_Validate c p r = cat_errs [
     Ret (ValidateCommonAnnotations p (rs_Meta r)),
     ComponentSpec_Validate c (child p ''spec'') (rs_Spec r)]"

definition ClusterComponent_Validate :: "ctx \<Rightarrow> path \<Rightarrow> ClusterComponent \<Rightarrow> field_error list go" where
  "ClusterComponent_Validate c p r = cat_errs [
     Ret (ValidateCommonAnnotations p (rs_Meta r)),
     ComponentSpec_Validate c (child p ''spec'') (rs_Spec r)]"

definition Component_ValidateCreate :: "ctx \<Rightarrow> Component \<Rightarrow> unit go" where
  "Component_ValidateCreate c obj = bind_go (Component_Default c obj) (\<lambda>obj.
     bind_go (Component_Validate (StashResource c (rs_Meta obj)) (new_path '''') obj) to_aggregate)"

definition Component_ValidateUpdate :: "ctx \<Rightarrow> Component \<Rightarrow> Component \<Rightarrow> unit go" where
  "Component_ValidateUpdate c oldObj newObj = bind_go (Component_Default c newObj) (\<lambda>newObj.
     bind_go (Component_Validate (StashResource c (rs_Meta newObj)) (new_path '''') newObj) to_aggregate)"

definition ClusterComponent_ValidateCreate :: "ctx \<Rightarrow> ClusterComponent \<Rightarrow> unit go" where
  "ClusterComponent_ValidateCreate c obj = bind_go (ClusterComponent_Default c obj) (\<lambda>obj.
     bind_go (ClusterComponent_Validate (StashResource c (rs_Meta obj)) (new_path '''') obj) to_aggregate)"

definition ClusterComponent_ValidateUpdate :: "ctx \<Rightarrow> ClusterComponent \<Rightarrow> ClusterComponent \<Rightarrow> unit go" where
  "ClusterComponent_ValidateUpdate c oldObj newObj = bind_go (ClusterComponent_Default c newObj) (\<lambda>newObj.
     bind_go (ClusterComponent_Validate (StashResource c (rs_Meta newObj)) (new_path '''') newObj) to_aggregate)"

definition Component_GetRepositoryReference :: "Component \<Rightarrow> RepositoryReference" where
  "Component_GetRepositoryReference r = gs_RepositoryRef (cs_Generic (rs_Spec r))"

definition Component_GetServiceAccountReference :: "Component \<Rightarrow> ServiceAccountReference option" where
  "Component_GetServiceAccountReference r = (case cs_OCI (rs_Spec r) of
     None \<Rightarrow> None | Some oci \<Rightarrow> Some (oci_ServiceAccountRef oci))"

definition ClusterComponent_GetServiceAccountReference ::
    "ClusterComponent \<Rightarrow> ServiceAccountReference option" where
  "ClusterComponent_GetServiceAccountReference r = (case cs_OCI (rs_Spec r) of
     None \<Rightarrow> None | Some oci \<Rightarrow> Some (oci_ServiceAccountRef oci))"

section \<open>Config stores\<close>

record ValueFrom =
  vf_Name :: string
  vf_Key :: string

record Value =
  vl_Name :: string
  vl_Value :: string
  vl_ValueFrom :: "ValueFrom option"

record ValuesFrom =
  vsf_Name :: string
  vsf_Prefix :: string

record GenericConfigStoreSpec =
  gcs_Values :: "Value list"
  gcs_ValuesFrom :: "ValuesFrom list"

record ConfigStoreSpec =
  css_Generic :: GenericComponentSpec
  css_Store :: GenericConfigStoreSpec

type_synonym ConfigStore = "(ConfigStoreSpec, GenericComponentStatus) resource"

definition ValueFrom_Default :: "ctx \<Rightarrow> ValueFrom \<Rightarrow> ValueFrom go" where
  "ValueFrom_Default c r =
     (if vf_Name r = '''' then bind_go (RetrieveResource c) (\<lambda>o'. Ret (r\<lparr>vf_Name := om_Name o'\<rparr>)) else Ret r)"

text \<open>An error of the nested default is dropped, as in the source; a panic is not.\<close>

definition Value_Default :: "ctx \<Rightarrow> Value \<Rightarrow> Value go" where
  "Value_Default c r = (case vl_ValueFrom r of
     None \<Rightarrow> Ret r
   | Some v \<Rightarrow> (case ValueFrom_Default c v of
        Ret v' \<Rightarrow> Ret (r\<lparr>vl_ValueFrom := Some v'\<rparr>)
      | Fail e \<Rightarrow> Ret r
      | Panic m \<Rightarrow> Panic m))"

definition ValuesFrom_Default :: "ctx \<Rightarrow> ValuesFrom \<Rightarrow> ValuesFrom go" where
  "ValuesFrom_Default c r =
     (if vsf_Name r = '''' then bind_go (RetrieveResource c) (\<lambda>o'. Ret (r\<lparr>vsf_Name := om_Name o'\<rparr>)) else Ret r)"

definition GenericConfigStoreSpec_Default ::
    "ctx \<Rightarrow> GenericConfigStoreSpec \<Rightarrow> GenericConfigStoreSpec go" where
  "GenericConfigStoreSpec_Default c r =
     bind_go (mapM_go (ValuesFrom_Default c) (gcs_ValuesFrom r)) (\<lambda>vsf.
     bind_go (mapM_go (Value_Default c) (gcs_Values r)) (\<lambda>vs.
       Ret (r\<lparr>gcs_Values := vs, gcs_ValuesFrom := vsf\<rparr>)))"

definition ConfigStoreSpec_Default :: "ctx \<Rightarrow> ConfigStoreSpec \<Rightarrow> ConfigStoreSpec go" where
  "ConfigStoreSpec_Default c r =
     bind_go (GenericComponentSpec_Default c (css_Generic r)) (\<lambda>g.
     bind_go (GenericConfigStoreSpec_Default c (css_Store r)) (\<lambda>s.
       Ret (r\<lparr>css_Generic := g, css_Store := s\<rparr>)))"

definition ConfigStore_Default :: "ctx \<Rightarrow> ConfigStore \<Rightarrow> ConfigStore go" where
  "ConfigStore_Default c r = (let c = StashResource c (rs_Meta r) in
     bind_go (ConfigStoreSpec_Default c (rs_Spec r)) (\<lambda>s. Ret (r\<lparr>rs_Spec := s\<rparr>)))"

definition ValueFrom_Validate :: "ctx \<Rightarrow> path \<Rightarrow> ValueFrom \<Rightarrow> field_error list go" where
  "ValueFrom_Validate c p r = cat_errs [
     when_errs (vf_Name r = '''') [Required (child p ''name'') ''''],
     when_errs (vf_Key r = '''') [Required (child p ''key'') '''']]"

definition Value_Validate :: "ctx \<Rightarrow> path \<Rightarrow> Value \<Rightarrow> field_error list go" where
  "Value_Validate c p r = cat_errs [
     when_errs (vl_Name r = '''') [Required (child p ''name'') ''''],
     when_errs (vl_Value r \<noteq> '''' \<and> vl_ValueFrom r \<noteq> None)
       [Invalid p None ''value and valueFrom are mutually exclusive''],
     opt_errs (vl_ValueFrom r) (ValueFrom_Validate c (child p ''valueFrom''))]"

definition ValuesFrom_Validate :: "ctx \<Rightarrow> path \<Rightarrow> ValuesFrom \<Rightarrow> field_error list go" where
  "ValuesFrom_Validate c p r = cat_errs [
     when_errs (vsf_Name r = '''') [Required (child p ''name'') '''']]"

definition GenericConfigStoreSpec_Validate ::
    "ctx \<Rightarrow> path \<Rightarrow> GenericConfigStoreSpec \<Rightarrow> field_error list go" where
  "GenericConfigStoreSpec_Validate c p r = cat_errs [
     cat_errs (indexed (\<lambda>i v. Value_Validate c (index (child p ''values'') i) v) (gcs_Values r)),
     cat_errs (indexed (\<lambda>i v. ValuesFrom_Validate c (index (child p ''valuesFrom'') i) v) (gcs_ValuesFrom r))]"

definition ConfigStoreSpec_Validate :: "ctx \<Rightarrow> path \<Rightarrow> ConfigStoreSpec \<Rightarrow> field_error list go" where
  "ConfigStoreSpec_Validate c p r = cat_errs [
     GenericComponentSpec_Validate c p (css_Generic r),
     GenericConfigStoreSpec_Validate c p (css_Store r)]"

definition ConfigStore_Validate :: "ctx \<Rightarrow> path \<Rightarrow> ConfigStore \<Rightarrow> field_error list go" where
  "ConfigStore_Validate c p r = cat_errs [
     Ret (ValidateCommonAnnotations p (rs_Meta r)),
     ConfigStoreSpec_Validate c (child p ''spec'') (rs_Spec r)]"

definition ConfigStore_ValidateCreate :: "ctx \<Rightarrow> ConfigStore \<Rightarrow> unit go" where
  "ConfigStore_ValidateCreate c obj = bind_go (ConfigStore_Default c obj) (\<lambda>obj.
     bind_go (ConfigStore_Validate (StashResource c (rs_Meta obj)) (new_path '''') obj) to_aggregate)"

definition ConfigStore_ValidateUpdate :: "ctx \<Rightarrow> ConfigStore \<Rightarrow> ConfigStore \<Rightarrow> unit go" where
  "ConfigStore_ValidateUpdate c oldObj newObj = bind_go (ConfigStore_Default c newObj) (\<lambda>newObj.
     bind_go (ConfigStore_Validate (StashResource c (rs_Meta newObj)) (new_path '''') newObj) to_aggregate)"

section \<open>Compositions\<close>

text \<open>
  A dependency is parametric in what it nests, so that the recursion of the source goes through
  one type: a composition nests dependencies that nest compositions.
\<close>

datatype CompositionPlug = CompositionPlug

datatype 'comp CompositionDependency = CompositionDependency
  (cd_Component: string) (cd_Ref: "ComponentReference option")
  (cd_Config: "GenericConfigStoreSpec option") (cd_OCI: "OCIReference option")
  (cd_Composition: "'comp option")

datatype GenericCompositionSpec = GenericCompositionSpec
  (co_WAC: string) (co_Plug: "CompositionPlug option")
  (co_Dependencies: "GenericCompositionSpec CompositionDependency list")

record CompositionSpec =
  cos_Generic :: GenericComponentSpec
  cos_Composition :: GenericCompositionSpec

record CompositionDependencyStatus =
  cds_Component :: string
  cds_Image :: string
  cds_WIT :: WIT

record CompositionStatus =
  cst_Generic :: GenericComponentStatus
  cst_Dependencies :: "CompositionDependencyStatus list"

type_synonym Composition = "(CompositionSpec, CompositionStatus) resource"

text \<open>The nested call of the source is the argument \<open>rec\<close> of the dependency's methods.\<close>

definition CompositionDependency_Default ::
    "ctx \<Rightarrow> ('comp \<Rightarrow> 'comp go) \<Rightarrow> 'comp CompositionDependency \<Rightarrow> 'comp CompositionDependency go" where
  "CompositionDependency_Default c rec d =
     bind_go (option_go (ComponentReference_Default c) (cd_Ref d)) (\<lambda>ref.
     bind_go (option_go (GenericConfigStoreSpec_Default c) (cd_Config d)) (\<lambda>cfg.
     bind_go (option_go (OCIReference_Default c) (cd_OCI d)) (\<lambda>oci.
     bind_go (option_go rec (cd_Composition d)) (\<lambda>comp.
       Ret (CompositionDependency (cd_Component d) ref cfg oci comp)))))"

definition CompositionPlug_Validate :: "ctx \<Rightarrow> path \<Rightarrow> CompositionPlug \<Rightarrow> field_error list go" where
  "CompositionPlug_Validate c p r = Ret []"

definition CompositionDependency_Validate :: "ctx \<Rightarrow> (path \<Rightarrow> 'comp \<Rightarrow> field_error list go) \<Rightarrow>
    path \<Rightarrow> 'comp CompositionDependency \<Rightarrow> field_error list go" where
  "CompositionDependency_Validate c rec p d = cat_errs [
     when_errs (cd_Component d = '''') [Required (child p ''component'') ''''],
     opt_errs (cd_Ref d) (ComponentReference_Validate c (child p ''ref'')),
     opt_errs (cd_Config d) (GenericConfigStoreSpec_Validate c (child p ''config'')),
     opt_errs (cd_OCI d) (OCIReference_Validate c (child p ''oci'')),
     opt_errs (cd_Composition d) (rec (child p ''composition'')),
     Ret (pick_one p [(''ref'', cd_Ref d \<noteq> None), (''config'', cd_Config d \<noteq> None),
        (''oci'', cd_OCI d \<noteq> None), (''composition'', cd_Composition d \<noteq> None)])]"

lemma option_go_cong [fundef_cong]:
  "p = q \<Longrightarrow> (\<And>x. q = Some x \<Longrightarrow> f x = g x) \<Longrightarrow> option_go f p = option_go g q"
  by (cases q) auto

lemma mapM_go_cong [fundef_cong]:
  "xs = ys \<Longrightarrow> (\<And>x. x \<in> set ys \<Longrightarrow> f x = g x) \<Longrightarrow> mapM_go f xs = mapM_go g ys"
  by (induction xs arbitrary: ys) auto

lemma indexed_cong [fundef_cong]:
  "xs = ys \<Longrightarrow> (\<And>i y. y \<in> set ys \<Longrightarrow> f i y = g i y) \<Longrightarrow> indexed f xs = indexed g ys"
  by (auto simp: indexed_def dest: set_zip_rightD)

lemma opt_errs_cong [fundef_cong]:
  "p = q \<Longrightarrow> (\<And>x. q = Some x \<Longrightarrow> f x = g x) \<Longrightarrow> opt_errs p f = opt_errs q g"
  by (cases q) auto

lemma CompositionDependency_Default_cong [fundef_cong]:
  "d = d' \<Longrightarrow> (\<And>x. x \<in> set_CompositionDependency d' \<Longrightarrow> f x = g x) \<Longrightarrow>
   CompositionDependency_Default c f d = CompositionDependency_Default c g d'"
  by (cases d') (auto simp: CompositionDependency_Default_def intro!: bind_go_cong option_go_cong)

lemma CompositionDependency_Validate_cong [fundef_cong]:
  "d = d' \<Longrightarrow> (\<And>q x. x \<in> set_CompositionDependency d' \<Longrightarrow> f q x = g q x) \<Longrightarrow>
   CompositionDependency_Validate c f p d = CompositionDependency_Validate c g p d'"
  by (cases d') (auto simp: CompositionDependency_Validate_def intro!: arg_cong [where f = cat_errs] opt_errs_cong)

lemma nested_size [termination_simp]:
  fixes y :: GenericCompositionSpec
  assumes "d \<in> set deps" and "y \<in> set_CompositionDependency d"
  shows "size y < Suc (size_list (size_CompositionDependency size) deps)"
proof -
  from assms(2) have "size y \<le> size_CompositionDependency size d" by (cases d) auto
  also from assms(1) have "\<dots> \<le> size_list (size_CompositionDependency size) deps"
    by (intro size_list_estimation') auto
  finally show ?thesis by simp
qed

fun GenericCompositionSpec_Default :: "ctx \<Rightarrow> GenericCompositionSpec \<Rightarrow> GenericCompositionSpec go" where
  "GenericCompositionSpec_Default c (GenericCompositionSpec wac plug deps) =
     bind_go (mapM_go (CompositionDependency_Default c (GenericCompositionSpec_Default c)) deps)
       (\<lambda>deps. Ret (GenericCompositionSpec wac
          (if plug = None \<and> wac = '''' then Some CompositionPlug else plug) deps))"

fun GenericCompositionSpec_Validate ::
    "ctx \<Rightarrow> path \<Rightarrow> GenericCompositionSpec \<Rightarrow> field_error list go" where
  "GenericCompositionSpec_Validate c p (GenericCompositionSpec wac plug deps) = cat_errs [
     opt_errs plug (CompositionPlug_Validate c (child p ''plug'')),
     Ret (pick_one p [(''plug'', plug \<noteq> None), (''wac'', wac \<noteq> '''')]),
     when_errs (length deps < 2) [Invalid (child p ''dependencies'') None ''at least two dependencies are required''],
     cat_errs (indexed (\<lambda>i d. CompositionDependency_Validate c (GenericCompositionSpec_Validate c)
        (index (child p ''dependencies'') i) d) deps)]"

definition CompositionSpec_Default :: "ctx \<Rightarrow> CompositionSpec \<Rightarrow> CompositionSpec go" where
  "CompositionSpec_Default c r =
     bind_go (GenericComponentSpec_Default c (cos_Generic r)) (\<lambda>g.
     bind_go (GenericCompositionSpec_Default c (cos_Composition r)) (\<lambda>s.
       Ret (r\<lparr>cos_Generic := g, cos_Composition := s\<rparr>)))"

definition CompositionSpec_Validate :: "ctx \<Rightarrow> path \<Rightarrow> CompositionSpec \<Rightarrow> field_error list go" where
  "CompositionSpec_Validate c p r = cat_errs [
     GenericComponentSpec_Validate c p (cos_Generic r),
     GenericCompositionSpec_Validate c p (cos_Composition r)]"

definition Composition_Default :: "ctx \<Rightarrow> Composition \<Rightarrow> Composition go" where
  "Composition_Default c r = (let c = StashResource c (rs_Meta r) in
     bind_go (CompositionSpec_Default c (rs_Spec r)) (\<lambda>s. Ret (r\<lparr>rs_Spec := s\<rparr>)))"

definition Composition_Validate :: "ctx \<Rightarrow> path \<Rightarrow> Composition \<Rightarrow> field_error list go" where
  "Composition_Validate c p r = cat_errs [
     Ret (ValidateCommonAnnotations p (rs_Meta r)),
     CompositionSpec_Validate c (child p ''spec'') (rs_Spec r)]"

text \<open>
  The raw object of the admission request is decoded a second time with unknown fields rejected,
  because the nested compositions carry no schema.  The request is \<open>None\<close> outside of an admission
  request; the strict decoder of \<^verbatim>\<open>sigs.k8s.io/json\<close> is the parameter \<open>unmarshalStrict\<close>: an error,
  or the list of its strict errors.
\<close>

definition Composition_validateNoUnknownFields ::
    "('raw \<Rightarrow> gerr + gerr list) \<Rightarrow> 'raw option \<Rightarrow> unit go" where
  "Composition_validateNoUnknownFields unmarshalStrict req = (case req of
     None \<Rightarrow> Ret ()
   | Some raw \<Rightarrow> (case unmarshalStrict raw of
        Inl err \<Rightarrow> Fail err
      | Inr strictErrors \<Rightarrow> if strictErrors = [] then Ret () else Fail (Joined strictErrors)))"

definition Composition_ValidateCreate ::
    "('raw \<Rightarrow> gerr + gerr list) \<Rightarrow> 'raw option \<Rightarrow> ctx \<Rightarrow> Composition \<Rightarrow> unit go" where
  "Composition_ValidateCreate unmarshalStrict req c obj =
     bind_go (Composition_validateNoUnknownFields unmarshalStrict req) (\<lambda>_.
     bind_go (Composition_Default c obj) (\<lambda>obj.
     bind_go (Composition_Validate (StashResource c (rs_Meta obj)) (new_path '''') obj) to_aggregate))"

definition Composition_ValidateUpdate ::
    "('raw \<Rightarrow> gerr + gerr list) \<Rightarrow> 'raw option \<Rightarrow> ctx \<Rightarrow> Composition \<Rightarrow> Composition \<Rightarrow> unit go" where
  "Composition_ValidateUpdate unmarshalStrict req c oldObj newObj =
     bind_go (Composition_validateNoUnknownFields unmarshalStrict req) (\<lambda>_.
     bind_go (Composition_Default c newObj) (\<lambda>newObj.
     bind_go (Composition_Validate (StashResource c (rs_Meta newObj)) (new_path '''') newObj) to_aggregate))"

section \<open>The parts of the specs meet their contracts\<close>

lemma ComponentReference_Default_stashed:
  "ComponentReference_Default (StashResource c m) r = Ret
     (let kind = (if cr_Kind r = [] then ''Component'' else cr_Kind r) in
      \<lparr>cr_APIVersion = (if cr_APIVersion r = [] then APIVersionForKind kind else cr_APIVersion r),
       cr_Kind = kind,
       cr_Namespace = (if cr_Namespace r = [] \<and> \<not> prefix ''Cluster'' kind then om_Namespace m
                       else cr_Namespace r),
       cr_Name = (if cr_Name r = [] then om_Name m else cr_Name r)\<rparr>)"
  by (cases r) (simp add: ComponentReference_Default_def Let_def)

lemma stash_again: "ctx_resource c = Some m \<Longrightarrow> StashResource c m = c"
  by (cases c) (simp add: StashResource_def)

lemma ComponentReference_Default_idem:
  assumes "ComponentReference_Default c r = Ret r'"
  shows "ComponentReference_Default c r' = Ret r'"
proof (cases "ctx_resource c")
  case None
  with assms show ?thesis
    by (auto simp: ComponentReference_Default_def RetrieveResource_def Let_def split: if_splits)
next
  case (Some m)
  with assms have "Ret r' = ComponentReference_Default (StashResource c m) r"
    by (simp add: stash_again)
  then have "ComponentReference_Default (StashResource c m) r' = Ret r'"
    by (auto simp: ComponentReference_Default_stashed Let_def)
  with Some show ?thesis by (simp add: stash_again)
qed

interpretation component_ref: validated ComponentReference_Default ComponentReference_Validate
proof unfold_locales
  fix c :: ctx and x :: ComponentReference and p
  assume "ctx_resource c \<noteq> None"
  then obtain m where m: "c = StashResource c m" by (metis stash_again not_None_eq)
  show "returns (ComponentReference_Default c x)"
    by (subst m) (simp add: ComponentReference_Default_stashed)
  show "returns (ComponentReference_Validate c p x)"
    unfolding ComponentReference_Validate_def using \<open>ctx_resource c \<noteq> None\<close>
    by (intro returns_cat_errs) (auto simp: Let_def intro!: returns_bind returns_Retrieve)
qed (rule ComponentReference_Default_idem)

interpretation oci_ref: validated OCIReference_Default OCIReference_Validate
proof unfold_locales
  fix c :: ctx and x y :: OCIReference and p
  show "returns (OCIReference_Default c x)" if "ctx_resource c \<noteq> None"
    using that by (simp add: OCIReference_Default_def returns_bind service_account_ref.dflt_returns)
  show "returns (OCIReference_Validate c p x)" if "ctx_resource c \<noteq> None"
    unfolding OCIReference_Validate_def using that
    by (intro returns_cat_errs) (auto intro: service_account_ref.vld_returns)
  assume "OCIReference_Default c x = Ret y"
  then obtain sa where "ServiceAccountReference_Default c (oci_ServiceAccountRef x) = Ret sa"
    and "y = x\<lparr>oci_ServiceAccountRef := sa\<rparr>"
    by (auto simp: OCIReference_Default_def bind_go_eq_Ret)
  then show "OCIReference_Default c y = Ret y"
    using service_account_ref.dflt_idem by (simp add: OCIReference_Default_def)
qed

interpretation generic_component: validated GenericComponentSpec_Default GenericComponentSpec_Validate
proof unfold_locales
  fix c :: ctx and x y :: GenericComponentSpec and p
  show "returns (GenericComponentSpec_Default c x)" if "ctx_resource c \<noteq> None"
    using that by (simp add: GenericComponentSpec_Default_def returns_bind repository_ref.dflt_returns)
  show "returns (GenericComponentSpec_Validate c p x)" if "ctx_resource c \<noteq> None"
    unfolding GenericComponentSpec_Validate_def using that
    by (intro returns_cat_errs) (auto intro: repository_ref.vld_returns)
  assume "GenericComponentSpec_Default c x = Ret y"
  then obtain rr where "RepositoryReference_Default c (gs_RepositoryRef x) = Ret rr"
    and "y = x\<lparr>gs_RepositoryRef := rr\<rparr>"
    by (auto simp: GenericComponentSpec_Default_def bind_go_eq_Ret)
  then show "GenericComponentSpec_Default c y = Ret y"
    using repository_ref.dflt_idem by (simp add: GenericComponentSpec_Default_def)
qed

interpretation component_spec: validated ComponentSpec_Default ComponentSpec_Validate
proof unfold_locales
  fix c :: ctx and x y :: ComponentSpec and p
  show "returns (ComponentSpec_Default c x)" if "ctx_resource c \<noteq> None"
    using that by (simp add: ComponentSpec_Default_def returns_bind generic_component.dflt_returns
        oci_ref.option_returns component_ref.option_returns)
  show "returns (ComponentSpec_Validate c p x)" if "ctx_resource c \<noteq> None"
    unfolding ComponentSpec_Validate_def using that
    by (intro returns_cat_errs)
      (auto intro: generic_component.vld_returns oci_ref.opt_vld_returns component_ref.opt_vld_returns)
  assume "ComponentSpec_Default c x = Ret y"
  then obtain g oci ref where "GenericComponentSpec_Default c (cs_Generic x) = Ret g"
    and "option_go (OCIReference_Default c) (cs_OCI x) = Ret oci"
    and "option_go (ComponentReference_Default c) (cs_Ref x) = Ret ref"
    and "y = x\<lparr>cs_Generic := g, cs_OCI := oci, cs_Ref := ref\<rparr>"
    by (auto simp: ComponentSpec_Default_def bind_go_eq_Ret)
  then show "ComponentSpec_Default c y = Ret y"
    using generic_component.dflt_idem oci_ref.option_idem component_ref.option_idem
    by (simp add: ComponentSpec_Default_def)
qed

interpretation component: admitted_kind Component_Default rs_Meta Component_Validate
  Component_ValidateCreate
  by (rule admitted_kindI [OF component_spec.validated_axioms])
    (simp_all add: Component_Default_def Component_Validate_def Component_ValidateCreate_def admit_def)

interpretation cluster_component: admitted_kind ClusterComponent_Default rs_Meta
  ClusterComponent_Validate ClusterComponent_ValidateCreate
  by (rule admitted_kindI [OF component_spec.validated_axioms])
    (simp_all add: ClusterComponent_Default_def ClusterComponent_Validate_def
      ClusterComponent_ValidateCreate_def admit_def)

interpretation value_from: validated ValueFrom_Default ValueFrom_Validate
proof unfold_locales
  fix c :: ctx and x y :: ValueFrom and p
  show "returns (ValueFrom_Default c x)" if "ctx_resource c \<noteq> None"
    using that by (auto simp: ValueFrom_Default_def intro!: returns_bind returns_Retrieve)
  show "returns (ValueFrom_Validate c p x)" if "ctx_resource c \<noteq> None"
    unfolding ValueFrom_Validate_def by (intro returns_cat_errs) auto
  assume "ValueFrom_Default c x = Ret y"
  then show "ValueFrom_Default c y = Ret y"
    by (cases "ctx_resource c") (auto simp: ValueFrom_Default_def RetrieveResource_def split: if_splits)
qed

interpretation values_from: validated ValuesFrom_Default ValuesFrom_Validate
proof unfold_locales
  fix c :: ctx and x y :: ValuesFrom and p
  show "returns (ValuesFrom_Default c x)" if "ctx_resource c \<noteq> None"
    using that by (auto simp: ValuesFrom_Default_def intro!: returns_bind returns_Retrieve)
  show "returns (ValuesFrom_Validate c p x)" if "ctx_resource c \<noteq> None"
    unfolding ValuesFrom_Validate_def by (intro returns_cat_errs) auto
  assume "ValuesFrom_Default c x = Ret y"
  then show "ValuesFrom_Default c y = Ret y"
    by (cases "ctx_resource c") (auto simp: ValuesFrom_Default_def RetrieveResource_def split: if_splits)
qed

lemma ValueFrom_Default_not_Fail: "ValueFrom_Default c v \<noteq> Fail e"
  by (cases "ctx_resource c") (auto simp: ValueFrom_Default_def RetrieveResource_def)

lemma Value_Default_eq: "Value_Default c r =
  bind_go (option_go (ValueFrom_Default c) (vl_ValueFrom r)) (\<lambda>v. Ret (r\<lparr>vl_ValueFrom := v\<rparr>))"
  using ValueFrom_Default_not_Fail
  by (cases r) (auto simp: Value_Default_def split: option.split go.split)

interpretation store_value: validated Value_Default Value_Validate
proof unfold_locales
  fix c :: ctx and x y :: Value and p
  show "returns (Value_Default c x)" if "ctx_resource c \<noteq> None"
    using that by (simp add: Value_Default_eq returns_bind value_from.option_returns)
  show "returns (Value_Validate c p x)" if "ctx_resource c \<noteq> None"
    unfolding Value_Validate_def using that
    by (intro returns_cat_errs) (auto intro: value_from.opt_vld_returns)
  assume "Value_Default c x = Ret y"
  then obtain v where "option_go (ValueFrom_Default c) (vl_ValueFrom x) = Ret v"
    and "y = x\<lparr>vl_ValueFrom := v\<rparr>"
    by (auto simp: Value_Default_eq bind_go_eq_Ret)
  then show "Value_Default c y = Ret y"
    using value_from.option_idem by (simp add: Value_Default_eq)
qed

interpretation config_spec: validated GenericConfigStoreSpec_Default GenericConfigStoreSpec_Validate
proof unfold_locales
  fix c :: ctx and x y :: GenericConfigStoreSpec and p
  show "returns (GenericConfigStoreSpec_Default c x)" if "ctx_resource c \<noteq> None"
    using that by (simp add: GenericConfigStoreSpec_Default_def returns_bind store_value.list_returns
        values_from.list_returns)
  show "returns (GenericConfigStoreSpec_Validate c p x)" if "ctx_resource c \<noteq> None"
    unfolding GenericConfigStoreSpec_Validate_def using that
    by (intro returns_cat_errs) (auto intro: store_value.list_vld_returns values_from.list_vld_returns)
  assume "GenericConfigStoreSpec_Default c x = Ret y"
  then obtain vsf vs where "mapM_go (ValuesFrom_Default c) (gcs_ValuesFrom x) = Ret vsf"
    and "mapM_go (Value_Default c) (gcs_Values x) = Ret vs"
    and "y = x\<lparr>gcs_Values := vs, gcs_ValuesFrom := vsf\<rparr>"
    by (auto simp: GenericConfigStoreSpec_Default_def bind_go_eq_Ret)
  then show "GenericConfigStoreSpec_Default c y = Ret y"
    using store_value.list_idem values_from.list_idem by (simp add: GenericConfigStoreSpec_Default_def)
qed

interpretation config_store_spec: validated ConfigStoreSpec_Default ConfigStoreSpec_Validate
proof unfold_locales
  fix c :: ctx and x y :: ConfigStoreSpec and p
  show "returns (ConfigStoreSpec_Default c x)" if "ctx_resource c \<noteq> None"
    using that by (simp add: ConfigStoreSpec_Default_def returns_bind generic_component.dflt_returns
        config_spec.dflt_returns)
  show "returns (ConfigStoreSpec_Validate c p x)" if "ctx_resource c \<noteq> None"
    unfolding ConfigStoreSpec_Validate_def using that
    by (intro returns_cat_errs) (auto intro: generic_component.vld_returns config_spec.vld_returns)
  assume "ConfigStoreSpec_Default c x = Ret y"
  then obtain g s where "GenericComponentSpec_Default c (css_Generic x) = Ret g"
    and "GenericConfigStoreSpec_Default c (css_Store x) = Ret s"
    and "y = x\<lparr>css_Generic := g, css_Store := s\<rparr>"
    by (auto simp: ConfigStoreSpec_Default_def bind_go_eq_Ret)
  then show "ConfigStoreSpec_Default c y = Ret y"
    using generic_component.dflt_idem config_spec.dflt_idem by (simp add: ConfigStoreSpec_Default_def)
qed

interpretation config_store: admitted_kind ConfigStore_Default rs_Meta ConfigStore_Validate
  ConfigStore_ValidateCreate
  by (rule admitted_kindI [OF config_store_spec.validated_axioms])
    (simp_all add: ConfigStore_Default_def ConfigStore_Validate_def ConfigStore_ValidateCreate_def admit_def)

section \<open>Compositions meet the contract at every depth\<close>

text \<open>A dependency meets the contract when what it nests does.\<close>

lemma dependency_default_returns:
  assumes "ctx_resource c \<noteq> None" and "\<And>x. cd_Composition d = Some x \<Longrightarrow> returns (f x)"
  shows "returns (CompositionDependency_Default c f d)"
  using assms
  by (simp add: CompositionDependency_Default_def returns_bind returns_option component_ref.option_returns
      config_spec.option_returns oci_ref.option_returns)

lemma dependency_default_idem:
  assumes "\<And>x y. cd_Composition d = Some x \<Longrightarrow> f x = Ret y \<Longrightarrow> f y = Ret y"
    and "CompositionDependency_Default c f d = Ret d'"
  shows "CompositionDependency_Default c f d' = Ret d'"
proof -
  from assms(2) obtain ref cfg oci comp where d': "d' = CompositionDependency (cd_Component d) ref cfg oci comp"
    and "option_go (ComponentReference_Default c) (cd_Ref d) = Ret ref"
    and "option_go (GenericConfigStoreSpec_Default c) (cd_Config d) = Ret cfg"
    and "option_go (OCIReference_Default c) (cd_OCI d) = Ret oci"
    and "option_go f (cd_Composition d) = Ret comp"
    by (auto simp: CompositionDependency_Default_def bind_go_eq_Ret)
  then have "option_go (ComponentReference_Default c) ref = Ret ref"
    and "option_go (GenericConfigStoreSpec_Default c) cfg = Ret cfg"
    and "option_go (OCIReference_Default c) oci = Ret oci"
    and "option_go f comp = Ret comp"
    by (blast intro: component_ref.option_idem config_spec.option_idem oci_ref.option_idem
        option_go_idem assms(1))+
  then show ?thesis by (simp add: CompositionDependency_Default_def d')
qed

lemma nested_member: "cd_Composition d = Some x \<Longrightarrow> x \<in> set_CompositionDependency d"
  by (cases d) auto

lemma composition_default_returns:
  "ctx_resource c \<noteq> None \<Longrightarrow> returns (GenericCompositionSpec_Default c s)"
proof (induction s)
  case (GenericCompositionSpec wac plug deps)
  then show ?case
    by (auto intro!: returns_bind returns_mapM dependency_default_returns dest: nested_member)
qed

lemma composition_default_idem:
  "GenericCompositionSpec_Default c s = Ret s' \<Longrightarrow> GenericCompositionSpec_Default c s' = Ret s'"
proof (induction s arbitrary: s')
  case (GenericCompositionSpec wac plug deps)
  from GenericCompositionSpec.prems obtain deps' where
    deps: "mapM_go (CompositionDependency_Default c (GenericCompositionSpec_Default c)) deps = Ret deps'"
    and s': "s' = GenericCompositionSpec wac
      (if plug = None \<and> wac = [] then Some CompositionPlug else plug) deps'"
    by (auto simp: bind_go_eq_Ret)
  have "mapM_go (CompositionDependency_Default c (GenericCompositionSpec_Default c)) deps' = Ret deps'"
    by (rule mapM_go_idem [OF _ deps], rule dependency_default_idem)
      (auto intro: GenericCompositionSpec.IH dest: nested_member)
  with s' show ?case by simp
qed

lemma composition_validate_returns:
  "ctx_resource c \<noteq> None \<Longrightarrow> returns (GenericCompositionSpec_Validate c p s)"
proof (induction s arbitrary: p)
  case (GenericCompositionSpec wac plug deps)
  have "returns (CompositionDependency_Validate c (GenericCompositionSpec_Validate c) q d)"
    if "d \<in> set deps" for q d
    unfolding CompositionDependency_Validate_def using that GenericCompositionSpec
    by (intro returns_cat_errs)
      (auto intro!: component_ref.vld_returns config_spec.vld_returns oci_ref.vld_returns
        returns_opt_errs dest: nested_member)
  then show ?case
    by (auto simp: set_indexed CompositionPlug_Validate_def intro!: returns_cat_errs returns_opt_errs)
qed

interpretation composition_body: validated GenericCompositionSpec_Default GenericCompositionSpec_Validate
  by unfold_locales
    (auto intro: composition_default_returns composition_default_idem composition_validate_returns)

interpretation composition_spec: validated CompositionSpec_Default CompositionSpec_Validate
proof unfold_locales
  fix c :: ctx and x y :: CompositionSpec and p
  show "returns (CompositionSpec_Default c x)" if "ctx_resource c \<noteq> None"
    using that by (simp add: CompositionSpec_Default_def returns_bind generic_component.dflt_returns
        composition_body.dflt_returns)
  show "returns (CompositionSpec_Validate c p x)" if "ctx_resource c \<noteq> None"
    unfolding CompositionSpec_Validate_def using that
    by (intro returns_cat_errs) (auto intro: generic_component.vld_returns composition_body.vld_returns)
  assume "CompositionSpec_Default c x = Ret y"
  then obtain g s where "GenericComponentSpec_Default c (cos_Generic x) = Ret g"
    and "GenericCompositionSpec_Default c (cos_Composition x) = Ret s"
    and "y = x\<lparr>cos_Generic := g, cos_Composition := s\<rparr>"
    by (auto simp: CompositionSpec_Default_def bind_go_eq_Ret)
  then show "CompositionSpec_Default c y = Ret y"
    using generic_component.dflt_idem composition_body.dflt_idem by (simp add: CompositionSpec_Default_def)
qed

text \<open>Outside of an admission request there is nothing to decode and the webhook has the common shape.\<close>

interpretation composition: admitted_kind Composition_Default rs_Meta Composition_Validate
  "Composition_ValidateCreate unmarshalStrict None" for unmarshalStrict
  by (rule admitted_kindI [OF composition_spec.validated_axioms])
    (simp_all add: Composition_Default_def Composition_Validate_def Composition_ValidateCreate_def
      Composition_validateNoUnknownFields_def admit_def)

end
