(* ===== verification/Trace.thy ===== *)
theory Trace
  imports Components_Api
begin

text \<open>
  Component traces (\<^verbatim>\<open>SynthesizeSpan\<close> and \<^verbatim>\<open>DetectTraceCycle\<close> of
  \<^verbatim>\<open>controllers/duck_controller.go\<close>).  The status of a component records the tree of the components
  it was built from; a component that finds its own UID in the trace it is about to publish would
  reference itself, so its reconciler stops and publishes a trace cut at these spans.
\<close>

section \<open>Spans of an object\<close>

record GroupVersionKind =
  gvk_Group :: string
  gvk_Version :: string
  gvk_Kind :: string

text \<open>
  What the function can read of an object: the generic status of a \<^verbatim>\<open>ComponentLike\<close>, the image and
  trace of any other object that \<^verbatim>\<open>duck.Convert\<close> could turn into a component, or nothing.
\<close>

datatype span_source = ComponentLike GenericComponentStatus | Converted string "ComponentSpan list" | NotConverted

text \<open>
  \<open>newDigest\<close> stands for \<^verbatim>\<open>name.NewDigest\<close> followed by \<^verbatim>\<open>DigestStr\<close>, whose error is ignored;
  \<open>gvkFor\<close> for the lookup of the object's kind in the scheme, whose error is a panic.
\<close>

definition SynthesizeSpan :: "(string \<Rightarrow> string) \<Rightarrow> GroupVersionKind go \<Rightarrow> ObjectMeta \<Rightarrow> span_source \<Rightarrow> ComponentSpan go" where
  "SynthesizeSpan digestStr gvkFor resource src =
     (let (img, trace) = (case src of
            ComponentLike st \<Rightarrow> (gst_Image st, gst_Trace st)
          | Converted img trace \<Rightarrow> (img, trace)
          | NotConverted \<Rightarrow> ('''', []))
      in case gvkFor of
           Fail err \<Rightarrow> Panic ''GroupVersionKindFor''
         | Panic m \<Rightarrow> Panic m
         | Ret gvk \<Rightarrow> Ret (ComponentSpan (digestStr img) (om_UID resource) (gvk_Group gvk) (gvk_Kind gvk)
             (om_Namespace resource) (om_Name resource) trace False))"

text \<open>A span names the object it was made of and carries the trace of its status unchanged; an object
  that is not known to the scheme is a panic.\<close>

lemma SynthesizeSpan_Ret:
  "SynthesizeSpan digestStr gvkFor resource src = Ret s \<Longrightarrow>
     sp_UID s = om_UID resource \<and> sp_CycleOmitted s = False \<and>
     sp_Trace s = (case src of ComponentLike st \<Rightarrow> gst_Trace st | Converted _ tr \<Rightarrow> tr | NotConverted \<Rightarrow> [])"
  by (cases gvkFor) (auto simp: SynthesizeSpan_def split: span_source.splits)

section \<open>Cycles\<close>

text \<open>A nil and an empty trace are the same list here; the source returns them unchanged.\<close>

function DetectTraceCycle :: "ComponentSpan list \<Rightarrow> ObjectMeta \<Rightarrow> bool \<times> ComponentSpan list" where
  "DetectTraceCycle [] component = (False, [])"
| "DetectTraceCycle (ComponentSpan digest uid grp kind ns name trace omitted # rest) component =
     (let same = (uid = om_UID component);
          trace' = (if same then [] else trace);
          omitted' = (if same then True else omitted);
          (hc, st) = DetectTraceCycle trace' component;
          trace'' = (if hc then st else trace');
          (hasCycle, sanitized) = DetectTraceCycle rest component
      in (same \<or> hc \<or> hasCycle,
          ComponentSpan digest uid grp kind ns name trace'' omitted' # sanitized))"
  by pat_completeness auto
termination
  by (relation "measure (\<lambda>(trace, _). size_list size trace)") auto

text \<open>The specification: every span with the UID, at any depth, loses its trace and is flagged.\<close>

fun prune :: "string \<Rightarrow> ComponentSpan \<Rightarrow> ComponentSpan" where
  "prune u (ComponentSpan digest uid grp kind ns name trace omitted) =
     (if uid = u then ComponentSpan digest uid grp kind ns name [] True
      else ComponentSpan digest uid grp kind ns name (map (prune u) trace) omitted)"

fun span_uids :: "ComponentSpan \<Rightarrow> string set" where
  "span_uids (ComponentSpan digest uid grp kind ns name trace omitted) =
     insert uid (\<Union> (span_uids ` set trace))"

inductive in_trace :: "ComponentSpan \<Rightarrow> ComponentSpan list \<Rightarrow> bool" where
  here: "s \<in> set trace \<Longrightarrow> in_trace s trace"
| deeper: "s \<in> set trace \<Longrightarrow> in_trace t (sp_Trace s) \<Longrightarrow> in_trace t trace"

lemma prune_absent: "u \<notin> span_uids s \<Longrightarrow> prune u s = s"
  by (induction u s rule: prune.induct) (auto intro: map_idI)

lemma DetectTraceCycle_spec:
  "DetectTraceCycle trace component =
     (om_UID component \<in> (\<Union> (span_uids ` set trace)), map (prune (om_UID component)) trace)"
proof (induction trace component rule: DetectTraceCycle.induct)
  case (2 digest uid grp kind ns name trace omitted rest component)
  have IH: "DetectTraceCycle (if uid = om_UID component then [] else trace) component =
      (om_UID component \<in> (\<Union> (span_uids ` set (if uid = om_UID component then [] else trace))),
       map (prune (om_UID component)) (if uid = om_UID component then [] else trace))"
    by (rule 2) auto
  have rest: "DetectTraceCycle rest component =
      (om_UID component \<in> (\<Union> (span_uids ` set rest)), map (prune (om_UID component)) rest)"
    by (rule 2) (auto simp: IH)
  show ?case
  proof (cases "uid = om_UID component")
    case True
    with IH rest show ?thesis by simp
  next
    case False
    have "map (prune (om_UID component)) trace = trace" if "om_UID component \<notin> \<Union> (span_uids ` set trace)"
      using that by (intro map_idI prune_absent) auto
    with False IH rest show ?thesis by (auto simp: Let_def)
  qed
qed simp

lemma prune_idem: "prune u (prune u s) = prune u s"
  by (induction u s rule: prune.induct) auto

lemma prune_uid [simp]: "sp_UID (prune u s) = sp_UID s"
  by (cases s) simp

lemma prune_same: "sp_UID s = u \<Longrightarrow> sp_Trace (prune u s) = [] \<and> sp_CycleOmitted (prune u s)"
  by (cases s) simp

lemma sp_Trace_prune: "sp_Trace (prune u s) = (if sp_UID s = u then [] else map (prune u) (sp_Trace s))"
  by (cases s) simp

lemma in_pruned: "in_trace t (map (prune u) trace) \<Longrightarrow> sp_UID t = u \<Longrightarrow> sp_Trace t = [] \<and> sp_CycleOmitted t"
proof (induction t "map (prune u) trace" arbitrary: trace rule: in_trace.induct)
  case (here s)
  then obtain s' where "s = prune u s'" by auto
  with here.prems prune_same [of s' u] show ?case by simp
next
  case (deeper s t)
  from deeper.hyps(1) obtain s' where s': "s = prune u s'" by auto
  then show ?case
    using deeper by (auto simp: sp_Trace_prune split: if_splits elim: in_trace.cases)
qed

lemma in_trace_iff: "in_trace t trace \<longleftrightarrow> (\<exists>s \<in> set trace. t = s \<or> in_trace t (sp_Trace s))"
  by (metis in_trace.cases here deeper)

lemma span_uids_below: "span_uids s = insert (sp_UID s) (sp_UID ` {t. in_trace t (sp_Trace s)})"
proof (induction s)
  case (ComponentSpan digest uid grp kind ns name trace omitted)
  have "sp_UID ` {t. in_trace t trace} = (\<Union>s \<in> set trace. insert (sp_UID s) (sp_UID ` {t. in_trace t (sp_Trace s)}))"
    by (subst in_trace_iff) auto
  with ComponentSpan show ?case by simp
qed

lemma span_uids_in_trace: "(u \<in> \<Union> (span_uids ` set trace)) \<longleftrightarrow> (\<exists>t. in_trace t trace \<and> sp_UID t = u)"
  unfolding in_trace_iff [of _ trace] span_uids_below by blast

section \<open>Properties\<close>

text \<open>C1: cycle detection reports a cycle exactly when the UID of the component occurs in the trace at any
  depth, and the sanitized trace is the given one with every such span, and only these, cut off
  and flagged; without a cycle it is the trace itself.\<close>

theorem DetectTraceCycle_correct:
  "(fst (DetectTraceCycle trace component) \<longleftrightarrow> (\<exists>t. in_trace t trace \<and> sp_UID t = om_UID component)) \<and>
   snd (DetectTraceCycle trace component) = map (prune (om_UID component)) trace \<and>
   (\<not> fst (DetectTraceCycle trace component) \<longrightarrow> snd (DetectTraceCycle trace component) = trace)"
  using prune_absent [of "om_UID component"]
  by (auto simp: DetectTraceCycle_spec span_uids_in_trace [symmetric] intro: map_idI)

text \<open>In the sanitized trace no span of the component keeps a trace of its own, whatever its depth, each is
  flagged, and sanitizing again changes nothing: the published trace of a cyclic component does
  not grow with the number of reconciles.\<close>

theorem sanitized_trace_is_cut:
  "(in_trace t (snd (DetectTraceCycle trace component)) \<longrightarrow> sp_UID t = om_UID component \<longrightarrow>
      sp_Trace t = [] \<and> sp_CycleOmitted t) \<and>
   snd (DetectTraceCycle (snd (DetectTraceCycle trace component)) component) =
     snd (DetectTraceCycle trace component)"
  using in_pruned by (auto simp: DetectTraceCycle_spec prune_idem)

section \<open>Concrete instances\<close>

definition span_of :: "string \<Rightarrow> ComponentSpan list \<Rightarrow> ComponentSpan" where
  "span_of uid tr = ComponentSpan ''sha256:0'' uid ''wa8s.reconciler.io'' ''Component'' ''apps'' uid tr False"

lemma DetectTraceCycle_correct_witness:
  "let tr = [span_of ''a'' [span_of ''b'' []]] in
   snd (DetectTraceCycle tr (blank_meta\<lparr>om_UID := ''c''\<rparr>)) = tr \<and>
   fst (DetectTraceCycle tr (blank_meta\<lparr>om_UID := ''b''\<rparr>))"
proof -
  let ?tr = "[span_of ''a'' [span_of ''b'' []]]"
  have "\<not> fst (DetectTraceCycle ?tr (blank_meta\<lparr>om_UID := ''c''\<rparr>))"
    and "fst (DetectTraceCycle ?tr (blank_meta\<lparr>om_UID := ''b''\<rparr>))" by code_simp+
  then show ?thesis
    using DetectTraceCycle_correct [of ?tr "blank_meta\<lparr>om_UID := ''c''\<rparr>"] unfolding Let_def by blast
qed

lemma sanitized_trace_is_cut_witness:
  "in_trace (ComponentSpan ''sha256:0'' ''b'' ''wa8s.reconciler.io'' ''Component'' ''apps'' ''b'' [] True)
     (snd (DetectTraceCycle [span_of ''a'' [span_of ''b'' [span_of ''d'' []]]] (blank_meta\<lparr>om_UID := ''b''\<rparr>))) \<and>
   sp_Trace (ComponentSpan ''sha256:0'' ''b'' ''wa8s.reconciler.io'' ''Component'' ''apps'' ''b'' [] True) = []"
proof -
  let ?t = "ComponentSpan ''sha256:0'' ''b'' ''wa8s.reconciler.io'' ''Component'' ''apps'' ''b'' [] True"
  let ?tr = "[span_of ''a'' [span_of ''b'' [span_of ''d'' []]]]" and ?c = "blank_meta\<lparr>om_UID := ''b''\<rparr>"
  have "snd (DetectTraceCycle ?tr ?c) = [span_of ''a'' [?t]]" by code_simp
  moreover have "in_trace ?t [span_of ''a'' [?t]]"
    by (rule deeper [OF _ here, of "span_of ''a'' [?t]"]) (simp_all add: span_of_def)
  ultimately have "in_trace ?t (snd (DetectTraceCycle ?tr ?c))"
    by simp
  moreover have "sp_UID ?t = om_UID ?c" by simp
  ultimately show ?thesis using sanitized_trace_is_cut [of ?t ?tr ?c] by blast
qed

end
