(* ===== verification/Components_Admission.thy ===== *)
theory Components_Admission
  imports Components_Api
begin

text \<open>
  What the webhooks of the \<^verbatim>\<open>wa8s.reconciler.io\<close> group accept, stated without paths and error
  lists: rules for references, config stores and dependencies, and the rule for a composition as
  a condition on every composition nested in it.
\<close>

section \<open>Rules for the leaves\<close>

text \<open>The referring object \<open>m\<close> may name an object of namespace \<open>ns\<close>.\<close>

definition in_reach :: "ctx \<Rightarrow> ObjectMeta \<Rightarrow> string \<Rightarrow> bool" where
  "in_reach c m ns \<longleftrightarrow> ns \<noteq> [] \<and> (om_Namespace m = [] \<or> om_Namespace m = ns \<or> om_Namespace m = Namespace c)"

definition component_ref_rule :: "ctx \<Rightarrow> ObjectMeta \<Rightarrow> ComponentReference \<Rightarrow> bool" where
  "component_ref_rule c m r \<longleftrightarrow> cr_APIVersion r \<noteq> [] \<and> cr_Kind r \<noteq> [] \<and> cr_Name r \<noteq> [] \<and>
     (prefix ''Cluster'' (cr_Kind r) \<or> in_reach c m (cr_Namespace r))"

definition oci_rule :: "ctx \<Rightarrow> ObjectMeta \<Rightarrow> OCIReference \<Rightarrow> bool" where
  "oci_rule c m r \<longleftrightarrow> oci_Image r \<noteq> [] \<and> sa_Name (oci_ServiceAccountRef r) \<noteq> [] \<and>
     in_reach c m (sa_Namespace (oci_ServiceAccountRef r))"

definition value_rule :: "Value \<Rightarrow> bool" where
  "value_rule v \<longleftrightarrow> vl_Name v \<noteq> [] \<and> (case vl_ValueFrom v of None \<Rightarrow> True
     | Some f \<Rightarrow> vl_Value v = [] \<and> vf_Name f \<noteq> [] \<and> vf_Key f \<noteq> [])"

definition config_rule :: "GenericConfigStoreSpec \<Rightarrow> bool" where
  "config_rule s \<longleftrightarrow> list_all value_rule (gcs_Values s) \<and>
     list_all (\<lambda>v. vsf_Name v \<noteq> []) (gcs_ValuesFrom s)"

lemma ComponentReference_Validate_rule:
  "ComponentReference_Validate (StashResource c m) p r = Ret [] \<longleftrightarrow> component_ref_rule c m r"
  by (auto simp: ComponentReference_Validate_def component_ref_rule_def in_reach_def Let_def)

lemma OCIReference_Validate_rule:
  "OCIReference_Validate (StashResource c m) p r = Ret [] \<longleftrightarrow> oci_rule c m r"
  by (auto simp: OCIReference_Validate_def ServiceAccountReference_Validate_def oci_rule_def
      in_reach_def Let_def)

lemma Value_Validate_rule: "Value_Validate c p v = Ret [] \<longleftrightarrow> value_rule v"
  by (auto simp: Value_Validate_def ValueFrom_Validate_def value_rule_def split: option.split)

lemma GenericConfigStoreSpec_Validate_rule:
  "GenericConfigStoreSpec_Validate c p s = Ret [] \<longleftrightarrow> config_rule s"
  by (simp add: GenericConfigStoreSpec_Validate_def config_rule_def cat_errs_no_error all_indexed
      Value_Validate_rule ValuesFrom_Validate_def list_all_length)

section \<open>The rule for compositions\<close>

inductive nested_in :: "GenericCompositionSpec \<Rightarrow> GenericCompositionSpec \<Rightarrow> bool" where
  nested_refl: "nested_in s s"
| nested_step: "d \<in> set (co_Dependencies s) \<Longrightarrow> cd_Composition d = Some s' \<Longrightarrow> nested_in s' t \<Longrightarrow> nested_in s t"

definition one_source :: "'comp CompositionDependency \<Rightarrow> bool" where
  "one_source d \<longleftrightarrow> length (filter id [cd_Ref d \<noteq> None, cd_Config d \<noteq> None, cd_OCI d \<noteq> None,
     cd_Composition d \<noteq> None]) = 1"

definition dependency_rule :: "ctx \<Rightarrow> ObjectMeta \<Rightarrow> 'comp CompositionDependency \<Rightarrow> bool" where
  "dependency_rule c m d \<longleftrightarrow> cd_Component d \<noteq> [] \<and> one_source d \<and>
     pred_option (component_ref_rule c m) (cd_Ref d) \<and> pred_option config_rule (cd_Config d) \<and>
     pred_option (oci_rule c m) (cd_OCI d)"

definition composition_rule :: "ctx \<Rightarrow> ObjectMeta \<Rightarrow> GenericCompositionSpec \<Rightarrow> bool" where
  "composition_rule c m s \<longleftrightarrow> (co_Plug s = None) \<noteq> (co_WAC s = []) \<and> 2 \<le> length (co_Dependencies s) \<and>
     list_all (dependency_rule c m) (co_Dependencies s)"

lemma one_source_pick: "pick_one p [(''ref'', cd_Ref d \<noteq> None), (''config'', cd_Config d \<noteq> None),
    (''oci'', cd_OCI d \<noteq> None), (''composition'', cd_Composition d \<noteq> None)] = [] \<longleftrightarrow> one_source d"
  unfolding pick_one_no_error one_source_def by simp

lemma CompositionDependency_Validate_rule:
  "CompositionDependency_Validate (StashResource c m) f p d = Ret [] \<longleftrightarrow>
     dependency_rule c m d \<and> (\<forall>s. cd_Composition d = Some s \<longrightarrow> f (child p ''composition'') s = Ret [])"
  unfolding CompositionDependency_Validate_def cat_errs_Cons_no_error go.inject one_source_pick
    opt_errs_no_error dependency_rule_def ComponentReference_Validate_rule OCIReference_Validate_rule
    GenericConfigStoreSpec_Validate_rule pred_option_def elem_set
  by auto

lemma nested_in_unfold: "(\<forall>t. nested_in s t \<longrightarrow> P t) \<longleftrightarrow>
  P s \<and> (\<forall>d \<in> set (co_Dependencies s). \<forall>s'. cd_Composition d = Some s' \<longrightarrow> (\<forall>t. nested_in s' t \<longrightarrow> P t))"
proof (intro iffI conjI ballI allI impI)
  fix t
  assume "P s \<and> (\<forall>d \<in> set (co_Dependencies s). \<forall>s'. cd_Composition d = Some s' \<longrightarrow> (\<forall>t. nested_in s' t \<longrightarrow> P t))"
    and "nested_in s t"
  then show "P t" by (auto elim: nested_in.cases)
qed (auto intro: nested_refl nested_step)

lemma composition_valid_iff_nested:
  "GenericCompositionSpec_Validate (StashResource c m) p s = Ret [] \<longleftrightarrow>
     (\<forall>t. nested_in s t \<longrightarrow> composition_rule c m t)"
proof (induction s arbitrary: p)
  case (GenericCompositionSpec wac plug deps)
  have IH: "d \<in> set deps \<Longrightarrow> cd_Composition d = Some s' \<Longrightarrow>
      GenericCompositionSpec_Validate (StashResource c m) q s' = Ret [] \<longleftrightarrow>
        (\<forall>t. nested_in s' t \<longrightarrow> composition_rule c m t)" for d s' q
    using GenericCompositionSpec.IH nested_member by fast
  have choice: "pick_one p [(''plug'', plug \<noteq> None), (''wac'', wac \<noteq> [])] = [] \<longleftrightarrow> (plug = None) \<noteq> (wac = [])"
    by (auto simp: pick_one_no_error)
  have step: "CompositionDependency_Validate (StashResource c m)
        (GenericCompositionSpec_Validate (StashResource c m)) q d = Ret [] \<longleftrightarrow> dependency_rule c m d \<and>
          (\<forall>s'. cd_Composition d = Some s' \<longrightarrow> (\<forall>t. nested_in s' t \<longrightarrow> composition_rule c m t))"
    if "d \<in> set deps" for q d
    unfolding CompositionDependency_Validate_rule using IH [OF that] by (cases "cd_Composition d") simp_all
  have deps_valid: "cat_errs (indexed (\<lambda>i d. CompositionDependency_Validate (StashResource c m)
          (GenericCompositionSpec_Validate (StashResource c m)) (index (child p ''dependencies'') i) d) deps) = Ret []
      \<longleftrightarrow> (\<forall>d \<in> set deps. dependency_rule c m d \<and>
            (\<forall>s'. cd_Composition d = Some s' \<longrightarrow> (\<forall>t. nested_in s' t \<longrightarrow> composition_rule c m t)))"
    unfolding cat_errs_no_error all_indexed all_set_conv_all_nth [of deps] by (simp add: step)
  have "opt_errs plug (CompositionPlug_Validate (StashResource c m) q) = Ret []" for q
    by (cases plug) (simp_all add: CompositionPlug_Validate_def)
  then have "GenericCompositionSpec_Validate (StashResource c m) p (GenericCompositionSpec wac plug deps) = Ret []
      \<longleftrightarrow> (plug = None) \<noteq> (wac = []) \<and> 2 \<le> length deps \<and> (\<forall>d \<in> set deps. dependency_rule c m d \<and>
            (\<forall>s'. cd_Composition d = Some s' \<longrightarrow> (\<forall>t. nested_in s' t \<longrightarrow> composition_rule c m t)))"
    unfolding GenericCompositionSpec_Validate.simps cat_errs_Cons_no_error go.inject choice deps_valid
      when_errs_no_error by (simp add: not_less)
  then show ?case
    unfolding nested_in_unfold [of "GenericCompositionSpec wac plug deps"] composition_rule_def [of _ _
      "GenericCompositionSpec wac plug deps"] list_all_iff GenericCompositionSpec.sel ball_conj_distrib
    by simp
qed

lemma list_all2_source: "list_all2 P xs ys \<Longrightarrow> y \<in> set ys \<Longrightarrow> \<exists>x \<in> set xs. P x y"
  by (induction rule: list_all2_induct) auto

text \<open>Defaulting chooses how to compose, at every depth.\<close>

lemma composition_defaulted_chooses:
  "GenericCompositionSpec_Default c s = Ret s' \<Longrightarrow> nested_in s' t \<Longrightarrow> co_Plug t \<noteq> None \<or> co_WAC t \<noteq> []"
proof (induction s arbitrary: s')
  case (GenericCompositionSpec wac plug deps)
  from GenericCompositionSpec.prems(1) obtain deps' where
    deps: "list_all2 (\<lambda>d d'. CompositionDependency_Default c (GenericCompositionSpec_Default c) d = Ret d') deps deps'"
    and s': "s' = GenericCompositionSpec wac
      (if plug = None \<and> wac = [] then Some CompositionPlug else plug) deps'"
    by (auto simp: bind_go_eq_Ret mapM_go_Ret_iff)
  from GenericCompositionSpec.prems(2) show ?case
  proof (cases rule: nested_in.cases)
    case nested_refl
    with s' show ?thesis by (cases plug) auto
  next
    case (nested_step d' n')
    with s' have "d' \<in> set deps'" by simp
    from list_all2_source [OF deps this] obtain d where "d \<in> set deps"
      and "CompositionDependency_Default c (GenericCompositionSpec_Default c) d = Ret d'"
      by blast
    moreover from this(2) \<open>cd_Composition d' = Some n'\<close> obtain n where
      "cd_Composition d = Some n" and "GenericCompositionSpec_Default c n = Ret n'"
      by (cases "cd_Composition d") (auto simp: CompositionDependency_Default_def bind_go_eq_Ret)
    ultimately show ?thesis
      by (intro GenericCompositionSpec.IH [OF _ _ _ \<open>nested_in n' t\<close>] nested_member)
  qed
qed

section \<open>What the webhooks admit\<close>

definition component_ref_admissible :: "ctx \<Rightarrow> ObjectMeta \<Rightarrow> ComponentReference \<Rightarrow> bool" where
  "component_ref_admissible c m r \<longleftrightarrow> (let kind = (if cr_Kind r = [] then ''Component'' else cr_Kind r) in
     (cr_APIVersion r \<noteq> [] \<or> APIVersionForKind kind \<noteq> []) \<and> (cr_Name r \<noteq> [] \<or> om_Name m \<noteq> []) \<and>
     (prefix ''Cluster'' kind \<or> reference_allowed c (om_Namespace m) (cr_Namespace r)))"

definition oci_admissible :: "ctx \<Rightarrow> ObjectMeta \<Rightarrow> OCIReference \<Rightarrow> bool" where
  "oci_admissible c m r \<longleftrightarrow> oci_Image r \<noteq> [] \<and>
     reference_allowed c (om_Namespace m) (sa_Namespace (oci_ServiceAccountRef r))"

lemma ComponentReference_admitted:
  assumes "ComponentReference_Default (StashResource c m) r = Ret r'"
  shows "component_ref_rule c m r' \<longleftrightarrow> component_ref_admissible c m r"
proof -
  define kind where "kind = (if cr_Kind r = [] then ''Component'' else cr_Kind r)"
  have "kind \<noteq> []" by (simp add: kind_def)
  with assms have r': "cr_Kind r' = kind" "kind \<noteq> []"
    "cr_APIVersion r' \<noteq> [] \<longleftrightarrow> cr_APIVersion r \<noteq> [] \<or> APIVersionForKind kind \<noteq> []"
    "cr_Name r' \<noteq> [] \<longleftrightarrow> cr_Name r \<noteq> [] \<or> om_Name m \<noteq> []"
    "\<not> prefix ''Cluster'' kind \<Longrightarrow>
      in_reach c m (cr_Namespace r') \<longleftrightarrow> reference_allowed c (om_Namespace m) (cr_Namespace r)"
    by (auto simp: ComponentReference_Default_stashed Let_def kind_def [symmetric] in_reach_def
        reference_allowed_def split: if_splits)
  show ?thesis
    unfolding component_ref_rule_def component_ref_admissible_def kind_def [symmetric] Let_def r'(1)
    using r'(2-5) by blast
qed

lemma OCIReference_admitted:
  assumes "OCIReference_Default (StashResource c m) r = Ret r'"
  shows "oci_rule c m r' \<longleftrightarrow> oci_admissible c m r"
  using assms
  by (auto simp: OCIReference_Default_def ServiceAccountReference_Default_stashed oci_rule_def
      oci_admissible_def in_reach_def reference_allowed_def split: if_splits)

lemma GenericComponentSpec_admitted:
  "GenericComponentSpec_Default c g = Ret g' \<Longrightarrow> GenericComponentSpec_Validate c' p g' = Ret []"
  by (auto simp: GenericComponentSpec_Default_def GenericComponentSpec_Validate_def bind_go_eq_Ret
      intro: RepositoryReference_defaulted_valid)

definition component_source_admissible :: "ctx \<Rightarrow> ObjectMeta \<Rightarrow> ComponentSpec \<Rightarrow> bool" where
  "component_source_admissible c m s = (case (cs_OCI s, cs_Ref s) of
     (Some oci, None) \<Rightarrow> oci_admissible c m oci
   | (None, Some ref) \<Rightarrow> component_ref_admissible c m ref
   | _ \<Rightarrow> False)"

lemma pick_source: "pick_one p [(''oci'', x \<noteq> None), (''ref'', y \<noteq> None)] = [] \<longleftrightarrow> (x = None) \<noteq> (y = None)"
  by (auto simp: pick_one_no_error)

lemma component_spec_admitted:
  "bind_go (ComponentSpec_Default (StashResource c m) s) (ComponentSpec_Validate (StashResource c m) p)
     = Ret [] \<longleftrightarrow> component_source_admissible c m s"
proof -
  let ?c = "StashResource c m"
  obtain g oci ref where g: "GenericComponentSpec_Default ?c (cs_Generic s) = Ret g"
    and oci: "option_go (OCIReference_Default ?c) (cs_OCI s) = Ret oci"
    and ref: "option_go (ComponentReference_Default ?c) (cs_Ref s) = Ret ref"
    using generic_component.dflt_returns [of ?c "cs_Generic s"] oci_ref.option_returns [of ?c "cs_OCI s"]
      component_ref.option_returns [of ?c "cs_Ref s"] by (auto simp: returns_def)
  have "bind_go (ComponentSpec_Default ?c s) (ComponentSpec_Validate ?c p) = Ret [] \<longleftrightarrow>
    opt_errs oci (OCIReference_Validate ?c (child p ''oci'')) = Ret [] \<and>
    opt_errs ref (ComponentReference_Validate ?c (child p ''ref'')) = Ret [] \<and> (oci = None) \<noteq> (ref = None)"
    unfolding ComponentSpec_Default_def ComponentSpec_Validate_def g oci ref bind_go.simps
      cat_errs_Cons_no_error go.inject ComponentSpec.simps pick_source
    using GenericComponentSpec_admitted [OF g] by simp
  also have "\<dots> \<longleftrightarrow> component_source_admissible c m s"
    using oci ref
    by (cases "cs_OCI s"; cases "cs_Ref s")
      (auto simp: component_source_admissible_def bind_go_eq_Ret ComponentReference_Validate_rule
        OCIReference_Validate_rule OCIReference_admitted ComponentReference_admitted)
  finally show ?thesis .
qed

lemma component_admitted:
  "Component_ValidateCreate c o' = Ret () \<longleftrightarrow> ValidateCommonAnnotations [] (rs_Meta o') = [] \<and>
     component_source_admissible c (rs_Meta o') (rs_Spec o')"
  using admitted_spec_iff [OF _ _ component.obj_create, where sd = ComponentSpec_Default
      and sv = ComponentSpec_Validate and c = c and r = o']
  by (simp add: Component_Default_def Component_Validate_def Let_def component_spec_admitted)

lemma cluster_component_admitted: "ClusterComponent_ValidateCreate = Component_ValidateCreate"
  by (simp add: ClusterComponent_ValidateCreate_def Component_ValidateCreate_def fun_eq_iff
      ClusterComponent_Default_def Component_Default_def ClusterComponent_Validate_def Component_Validate_def)

text \<open>C17: a component is admitted exactly when its annotation is allowed and it names exactly one source
  that may be reached from its namespace: an image with a service account in reach, or another
  component whose API version can be told and which is cluster scoped or in reach.  Everything else
  the webhook checks has been filled in by defaulting, and it never panics.\<close>

theorem Component_admitted_iff:
  "(Component_ValidateCreate c o' = Ret () \<longleftrightarrow> ValidateCommonAnnotations [] (rs_Meta o') = [] \<and>
      component_source_admissible c (rs_Meta o') (rs_Spec o')) \<and>
   Component_ValidateCreate c o' \<noteq> Panic m"
  by (simp add: component_admitted component.create_no_panic)

text \<open>A cluster component that pulls from a registry and does not name the namespace of its service
  account is always refused, although the same reference of a cluster image is filled with the
  namespace of the installation and raises no error.\<close>

theorem ClusterComponent_needs_namespace:
  assumes "om_Namespace (rs_Meta o') = []" and "cs_OCI (rs_Spec o') = Some oci"
    and "sa_Namespace (oci_ServiceAccountRef oci) = []"
    and "om_Namespace (rs_Meta i) = []" and "is_ServiceAccountRef (rs_Spec i) = oci_ServiceAccountRef oci"
    and "ValidateCommonAnnotations [] (rs_Meta i) = []"
  shows "ClusterComponent_ValidateCreate c o' \<noteq> Ret () \<and> ClusterImage_ValidateCreate c i = Ret ()"
proof
  from assms show "ClusterComponent_ValidateCreate c o' \<noteq> Ret ()"
    unfolding cluster_component_admitted component_admitted
    by (auto simp: component_source_admissible_def oci_admissible_def reference_allowed_def
        split: option.split)
  from assms show "ClusterImage_ValidateCreate c i = Ret ()"
    by (simp add: cluster_image_admitted reference_allowed_def adjust_sa_def)
qed

text \<open>C3: the validation of a composition accepts it exactly when every composition nested in it, at any
  depth, picks one of plug and wac, has at least two dependencies, and each of them is named, has
  exactly one source and a valid one.\<close>

theorem composition_validated_at_every_depth:
  "GenericCompositionSpec_Validate (StashResource c m) p s = Ret [] \<longleftrightarrow>
     (\<forall>t. nested_in s t \<longrightarrow> composition_rule c m t)"
  by (rule composition_valid_iff_nested)

text \<open>C23: defaulting a composition returns for any depth of nesting, changes nothing when repeated, and
  leaves no nested composition without a way to compose: each has a plug or a wac script.\<close>

theorem composition_default_total:
  "\<exists>s'. GenericCompositionSpec_Default (StashResource c m) s = Ret s' \<and>
        GenericCompositionSpec_Default (StashResource c m) s' = Ret s' \<and>
        (\<forall>t. nested_in s' t \<longrightarrow> co_Plug t \<noteq> None \<or> co_WAC t \<noteq> [])"
proof -
  obtain s' where "GenericCompositionSpec_Default (StashResource c m) s = Ret s'"
    using composition_default_returns [of "StashResource c m" s] by (auto simp: returns_def)
  then show ?thesis
    using composition_default_idem composition_defaulted_chooses by auto
qed

section \<open>Concrete instances\<close>

definition sample_ctx :: ctx where
  "sample_ctx = \<lparr>ctx_env_namespace = '''', ctx_resource = None\<rparr>"

definition sample_meta :: "string \<Rightarrow> ObjectMeta" where
  "sample_meta ns = blank_meta\<lparr>om_Namespace := ns, om_Name := ''sample''\<rparr>"

definition sample_oci :: OCIReference where
  "sample_oci = \<lparr>oci_Image = ''example.com/app'', oci_ServiceAccountRef = \<lparr>sa_Namespace = '''', sa_Name = ''''\<rparr>\<rparr>"

definition sample_status :: GenericComponentStatus where
  "sample_status = \<lparr>gst_Image = '''', gst_WIT = None, gst_Trace = []\<rparr>"

lemma ClusterComponent_needs_namespace_witness:
  "ClusterComponent_ValidateCreate sample_ctx
     \<lparr>rs_Meta = sample_meta '''',
      rs_Spec = \<lparr>cs_Generic = \<lparr>gs_RepositoryRef = \<lparr>rr_Kind = '''', rr_Name = ''''\<rparr>\<rparr>,
                 cs_OCI = Some sample_oci, cs_Ref = None\<rparr>,
      rs_Status = sample_status\<rparr> \<noteq> Ret () \<and>
   ClusterImage_ValidateCreate sample_ctx
     \<lparr>rs_Meta = sample_meta '''',
      rs_Spec = \<lparr>is_RepositoryRef = \<lparr>rr_Kind = '''', rr_Name = ''''\<rparr>, is_Image = ''example.com/app'',
                 is_ServiceAccountRef = \<lparr>sa_Namespace = '''', sa_Name = ''''\<rparr>\<rparr>,
      rs_Status = ()\<rparr> = Ret ()"
  by (rule ClusterComponent_needs_namespace [where oci = sample_oci])
    (simp_all add: sample_meta_def sample_oci_def blank_meta_def ValidateCommonAnnotations_no_error)

text \<open>Two levels: a plugged composition of an image and of a nested composition of two config stores.\<close>

definition sample_config :: GenericConfigStoreSpec where
  "sample_config = \<lparr>gcs_Values = [\<lparr>vl_Name = ''k'', vl_Value = ''v'', vl_ValueFrom = None\<rparr>],
     gcs_ValuesFrom = []\<rparr>"

definition sample_nested :: GenericCompositionSpec where
  "sample_nested = GenericCompositionSpec ''package a:b;'' None
     [CompositionDependency ''x'' None (Some sample_config) None None,
      CompositionDependency ''y'' None (Some sample_config) None None]"

definition sample_composition :: GenericCompositionSpec where
  "sample_composition = GenericCompositionSpec '''' (Some CompositionPlug)
     [CompositionDependency ''a'' (Some \<lparr>cr_APIVersion = ''v1'', cr_Kind = ''Component'',
        cr_Namespace = ''apps'', cr_Name = ''c''\<rparr>) None None None,
      CompositionDependency ''b'' None None None (Some sample_nested)]"

lemma composition_validated_at_every_depth_witness:
  "GenericCompositionSpec_Validate (StashResource sample_ctx (sample_meta ''apps'')) (new_path '''')
     sample_composition = Ret [] \<and> nested_in sample_composition sample_nested \<and>
   composition_rule sample_ctx (sample_meta ''apps'') sample_nested"
proof -
  have valid: "GenericCompositionSpec_Validate (StashResource sample_ctx (sample_meta ''apps''))
     (new_path '''') sample_composition = Ret []"
    by code_simp
  have nested: "nested_in sample_composition sample_nested"
    by (rule nested_step [OF _ _ nested_refl,
          of "CompositionDependency ''b'' None None None (Some sample_nested)"])
      (simp_all add: sample_composition_def)
  from valid nested show ?thesis
    unfolding composition_validated_at_every_depth by blast
qed

lemma composition_default_total_witness:
  "\<exists>s'. GenericCompositionSpec_Default (StashResource sample_ctx (sample_meta ''apps'')) sample_composition = Ret s' \<and>
     (co_Plug s' \<noteq> None \<or> co_WAC s' \<noteq> [])"
  using composition_default_total [of sample_ctx "sample_meta ''apps''" sample_composition] nested_refl by blast

end
