(* ===== verification/Containers_Api.thy ===== *)
theory Containers_Api
  imports Components_Admission
begin

text \<open>
  The \<^verbatim>\<open>containers.wa8s.reconciler.io\<close> API group (\<^verbatim>\<open>apis/containers/v1alpha1\<close>): the generic container,
  the host capabilities and the wasmtime arguments they become, container images of components and
  the cron, HTTP and wRPC triggers.
\<close>

section \<open>Host capabilities\<close>

record HostEnvVar =
  hev_Name :: string
  hev_Value :: "string option"

record HostEnv =
  he_Inherit :: bool
  he_Vars :: "HostEnvVar list"

record HostConfigVar =
  hcv_Name :: string
  hcv_Value :: string

record HostConfig =
  hc_Vars :: "HostConfigVar list"

record HostNetwork =
  hn_Inherit :: bool
  hn_IPNameLookup :: bool

record HostCapabilities =
  cap_Env :: "HostEnv option"
  cap_Config :: "HostConfig option"
  cap_Network :: "HostNetwork option"

definition HostEnvVar_WasmtimeArgs :: "HostEnvVar \<Rightarrow> string list" where
  "HostEnvVar_WasmtimeArgs c = (case hev_Value c of
     Some v \<Rightarrow> [''--env='' @ hev_Name c @ ''='' @ v]
   | None \<Rightarrow> [''--env='' @ hev_Name c])"

definition HostEnv_WasmtimeArgs :: "HostEnv \<Rightarrow> string list" where
  "HostEnv_WasmtimeArgs c = (if he_Inherit c then [''-Sinherit-env=y''] else []) @
     concat (map HostEnvVar_WasmtimeArgs (he_Vars c))"

definition HostConfigVar_WasmtimeArgs :: "HostConfigVar \<Rightarrow> string list" where
  "HostConfigVar_WasmtimeArgs c = [''-Sconfig-var='' @ hcv_Name c @ ''='' @ hcv_Value c]"

definition HostConfig_WasmtimeArgs :: "HostConfig \<Rightarrow> string list" where
  "HostConfig_WasmtimeArgs c = [''-Sconfig=y''] @ concat (map HostConfigVar_WasmtimeArgs (hc_Vars c))"

definition HostNetwork_WasmtimeArgs :: "HostNetwork \<Rightarrow> string list" where
  "HostNetwork_WasmtimeArgs c = (if hn_Inherit c then [''-Sinherit-network=y''] else []) @
     (if hn_IPNameLookup c then [''-Sallow-ip-name-lookup=y''] else [])"

definition HostCapabilities_WasmtimeArgs :: "HostCapabilities \<Rightarrow> string list" where
  "HostCapabilities_WasmtimeArgs c =
     (case cap_Env c of None \<Rightarrow> [] | Some e \<Rightarrow> HostEnv_WasmtimeArgs e) @
     (case cap_Config c of None \<Rightarrow> [] | Some e \<Rightarrow> HostConfig_WasmtimeArgs e) @
     (case cap_Network c of None \<Rightarrow> [] | Some e \<Rightarrow> HostNetwork_WasmtimeArgs e)"

definition HostCapabilities_WrpcWasmtimeArgs :: "HostCapabilities \<Rightarrow> string list" where
  "HostCapabilities_WrpcWasmtimeArgs c = []"

definition HostEnvVar_Default :: "ctx \<Rightarrow> HostEnvVar \<Rightarrow> HostEnvVar go" where
  "HostEnvVar_Default c r = Ret r"

definition HostEnv_Default :: "ctx \<Rightarrow> HostEnv \<Rightarrow> HostEnv go" where
  "HostEnv_Default c r = bind_go (mapM_go (HostEnvVar_Default c) (he_Vars r)) (\<lambda>vs. Ret (r\<lparr>he_Vars := vs\<rparr>))"

definition HostConfigVar_Default :: "ctx \<Rightarrow> HostConfigVar \<Rightarrow> HostConfigVar go" where
  "HostConfigVar_Default c r = Ret r"

definition HostConfig_Default :: "ctx \<Rightarrow> HostConfig \<Rightarrow> HostConfig go" where
  "HostConfig_Default c r = bind_go (mapM_go (HostConfigVar_Default c) (hc_Vars r)) (\<lambda>vs. Ret (r\<lparr>hc_Vars := vs\<rparr>))"

definition HostNetwork_Default :: "ctx \<Rightarrow> HostNetwork \<Rightarrow> HostNetwork go" where
  "HostNetwork_Default c r = Ret r"

definition HostCapabilities_Default :: "ctx \<Rightarrow> HostCapabilities \<Rightarrow> HostCapabilities go" where
  "HostCapabilities_Default c r =
     bind_go (option_go (HostEnv_Default c) (cap_Env r)) (\<lambda>e.
     bind_go (option_go (HostConfig_Default c) (cap_Config r)) (\<lambda>cf.
     bind_go (option_go (HostNetwork_Default c) (cap_Network r)) (\<lambda>n.
       Ret (r\<lparr>cap_Env := e, cap_Config := cf, cap_Network := n\<rparr>))))"

definition HostEnvVar_Validate :: "ctx \<Rightarrow> path \<Rightarrow> HostEnvVar \<Rightarrow> field_error list go" where
  "HostEnvVar_Validate c p r = cat_errs [when_errs (hev_Name r = '''') [Required (child p ''name'') '''']]"

definition HostEnv_Validate :: "ctx \<Rightarrow> path \<Rightarrow> HostEnv \<Rightarrow> field_error list go" where
  "HostEnv_Validate c p r =
     cat_errs (indexed (\<lambda>i v. HostEnvVar_Validate c (index (child p ''vars'') i) v) (he_Vars r))"

definition HostConfigVar_Validate :: "ctx \<Rightarrow> path \<Rightarrow> HostConfigVar \<Rightarrow> field_error list go" where
  "HostConfigVar_Validate c p r = cat_errs [when_errs (hcv_Name r = '''') [Required (child p ''name'') '''']]"

definition HostConfig_Validate :: "ctx \<Rightarrow> path \<Rightarrow> HostConfig \<Rightarrow> field_error list go" where
  "HostConfig_Validate c p r =
     cat_errs (indexed (\<lambda>i v. HostConfigVar_Validate c (index (child p ''vars'') i) v) (hc_Vars r))"

definition HostNetwork_Validate :: "ctx \<Rightarrow> path \<Rightarrow> HostNetwork \<Rightarrow> field_error list go" where
  "HostNetwork_Validate c p r = Ret []"

definition HostCapabilities_Validate :: "ctx \<Rightarrow> path \<Rightarrow> HostCapabilities \<Rightarrow> field_error list go" where
  "HostCapabilities_Validate c p r = cat_errs [
     opt_errs (cap_Env r) (HostEnv_Validate c (child p ''env'')),
     opt_errs (cap_Config r) (HostConfig_Validate c (child p ''config'')),
     opt_errs (cap_Network r) (HostNetwork_Validate c (child p ''network''))]"

section \<open>Generic containers\<close>

record GenericContainerSpec =
  gc_Generic :: GenericComponentSpec
  gc_Ref :: ComponentReference
  gc_ServiceAccountRef :: ServiceAccountReference
  gc_HostCapabilities :: HostCapabilities

text \<open>A container without a repository goes to the external one.\<close>

definition GenericContainerSpec_Default :: "ctx \<Rightarrow> GenericContainerSpec \<Rightarrow> GenericContainerSpec go" where
  "GenericContainerSpec_Default c r =
     (let g = gc_Generic r;
          g = (if gs_RepositoryRef g = \<lparr>rr_Kind = '''', rr_Name = ''''\<rparr>
               then g\<lparr>gs_RepositoryRef := \<lparr>rr_Kind = ''ClusterRepository'', rr_Name = ''external''\<rparr>\<rparr> else g) in
      bind_go (GenericComponentSpec_Default c g) (\<lambda>g.
      bind_go (ComponentReference_Default c (gc_Ref r)) (\<lambda>ref.
      bind_go (ServiceAccountReference_Default c (gc_ServiceAccountRef r)) (\<lambda>sa.
      bind_go (HostCapabilities_Default c (gc_HostCapabilities r)) (\<lambda>h.
        Ret (r\<lparr>gc_Generic := g, gc_Ref := ref, gc_ServiceAccountRef := sa, gc_HostCapabilities := h\<rparr>))))))"

definition GenericContainerSpec_Validate :: "ctx \<Rightarrow> path \<Rightarrow> GenericContainerSpec \<Rightarrow> field_error list go" where
  "GenericContainerSpec_Validate c p r = cat_errs [
     GenericComponentSpec_Validate c p (gc_Generic r),
     ComponentReference_Validate c (child p ''ref'') (gc_Ref r),
     ServiceAccountReference_Validate c (child p ''serviceAccountRef'') (gc_ServiceAccountRef r),
     HostCapabilities_Validate c (child p ''hostCapabilities'') (gc_HostCapabilities r)]"

section \<open>Container images of components\<close>

record ComponentContainerImageSpec =
  cci_Generic :: GenericComponentSpec
  cci_Ref :: ComponentReference
  cci_ImageRef :: ImageReference

type_synonym ComponentContainerImage = "(ComponentContainerImageSpec, GenericComponentStatus) resource"

definition ComponentContainerImageSpec_Default ::
    "ctx \<Rightarrow> ComponentContainerImageSpec \<Rightarrow> ComponentContainerImageSpec go" where
  "ComponentContainerImageSpec_Default c r =
     bind_go (GenericComponentSpec_Default c (cci_Generic r)) (\<lambda>g.
     bind_go (ComponentReference_Default c (cci_Ref r)) (\<lambda>ref.
     let i = (if cci_ImageRef r = \<lparr>ir_Kind = '''', ir_Namespace = '''', ir_Name = ''''\<rparr>
              then \<lparr>ir_Kind = ''ClusterImage'', ir_Namespace = '''', ir_Name = ''wasmtime''\<rparr>
              else cci_ImageRef r) in
     bind_go (ImageReference_Default c i) (\<lambda>i.
       Ret (r\<lparr>cci_Generic := g, cci_Ref := ref, cci_ImageRef := i\<rparr>))))"

definition ComponentContainerImageSpec_Validate ::
    "ctx \<Rightarrow> path \<Rightarrow> ComponentContainerImageSpec \<Rightarrow> field_error list go" where
  "ComponentContainerImageSpec_Validate c p r = cat_errs [
     GenericComponentSpec_Validate c p (cci_Generic r),
     ComponentReference_Validate c (child p ''ref'') (cci_Ref r),
     ImageReference_Validate c (child p ''imageRef'') (cci_ImageRef r)]"

definition ComponentContainerImage_Default :: "ctx \<Rightarrow> ComponentContainerImage \<Rightarrow> ComponentContainerImage go" where
  "ComponentContainerImage_Default c r = (let c = StashResource c (rs_Meta r) in
     bind_go (ComponentContainerImageSpec_Default c (rs_Spec r)) (\<lambda>s. Ret (r\<lparr>rs_Spec := s\<rparr>)))"

definition ComponentContainerImage_Validate :: "ctx \<Rightarrow> path \<Rightarrow> ComponentContainerImage \<Rightarrow> field_error list go" where
  "ComponentContainerImage_Validate c p r = cat_errs [
     Ret (ValidateCommonAnnotations p (rs_Meta r)),
     ComponentContainerImageSpec_Validate c (child p ''spec'') (rs_Spec r)]"

definition ComponentContainerImage_ValidateCreate :: "ctx \<Rightarrow> ComponentContainerImage \<Rightarrow> unit go" where
  "ComponentContainerImage_ValidateCreate c obj = bind_go (ComponentContainerImage_Default c obj) (\<lambda>obj.
     bind_go (ComponentContainerImage_Validate (StashResource c (rs_Meta obj)) (new_path '''') obj) to_aggregate)"

definition ComponentContainerImage_ValidateUpdate :: "ctx \<Rightarrow> ComponentContainerImage \<Rightarrow> ComponentContainerImage \<Rightarrow> unit go" where
  "ComponentContainerImage_ValidateUpdate c oldObj newObj = bind_go (ComponentContainerImage_Default c newObj) (\<lambda>newObj.
     bind_go (ComponentContainerImage_Validate (StashResource c (rs_Meta newObj)) (new_path '''') newObj) to_aggregate)"

section \<open>Triggers\<close>

record GenericContainerStatus =
  gct_Component :: GenericComponentStatus

record CronTriggerSpec =
  ct_Container :: GenericContainerSpec
  ct_Schedule :: string
  ct_TimeZone :: "string option"
  ct_RestartPolicy :: string

type_synonym CronTrigger = "(CronTriggerSpec, GenericContainerStatus) resource"

record HttpTriggerSpec =
  ht_Container :: GenericContainerSpec

record HttpTriggerStatus =
  hts_Container :: GenericContainerStatus
  hts_URL :: string

type_synonym HttpTrigger = "(HttpTriggerSpec, HttpTriggerStatus) resource"

record WrpcTriggerSpec =
  wt_Container :: GenericContainerSpec

record WrpcTriggerStatus =
  wts_Container :: GenericContainerStatus
  wts_URL :: string

type_synonym WrpcTrigger = "(WrpcTriggerSpec, WrpcTriggerStatus) resource"

definition CronTriggerSpec_Default :: "ctx \<Rightarrow> CronTriggerSpec \<Rightarrow> CronTriggerSpec go" where
  "CronTriggerSpec_Default c r =
     bind_go (GenericContainerSpec_Default c (ct_Container r)) (\<lambda>g. Ret (r\<lparr>ct_Container := g\<rparr>))"

definition CronTriggerSpec_Validate :: "ctx \<Rightarrow> path \<Rightarrow> CronTriggerSpec \<Rightarrow> field_error list go" where
  "CronTriggerSpec_Validate c p r = cat_errs [
     GenericContainerSpec_Validate c p (ct_Container r),
     when_errs (ct_Schedule r = '''') [Required (child p ''schedule'') ''''],
     when_errs (ct_RestartPolicy r = '''') [Required (child p ''restartPolicy'') '''']]"

definition HttpTriggerSpec_Default :: "ctx \<Rightarrow> HttpTriggerSpec \<Rightarrow> HttpTriggerSpec go" where
  "HttpTriggerSpec_Default c r =
     bind_go (GenericContainerSpec_Default c (ht_Container r)) (\<lambda>g. Ret (r\<lparr>ht_Container := g\<rparr>))"

definition HttpTriggerSpec_Validate :: "ctx \<Rightarrow> path \<Rightarrow> HttpTriggerSpec \<Rightarrow> field_error list go" where
  "HttpTriggerSpec_Validate c p r = cat_errs [GenericContainerSpec_Validate c p (ht_Container r)]"

definition WrpcTriggerSpec_Default :: "ctx \<Rightarrow> WrpcTriggerSpec \<Rightarrow> WrpcTriggerSpec go" where
  "WrpcTriggerSpec_Default c r =
     bind_go (GenericContainerSpec_Default c (wt_Container r)) (\<lambda>g. Ret (r\<lparr>wt_Container := g\<rparr>))"

definition WrpcTriggerSpec_Validate :: "ctx \<Rightarrow> path \<Rightarrow> WrpcTriggerSpec \<Rightarrow> field_error list go" where
  "WrpcTriggerSpec_Validate c p r = cat_errs [GenericContainerSpec_Validate c p (wt_Container r)]"

definition CronTrigger_Default :: "ctx \<Rightarrow> CronTrigger \<Rightarrow> CronTrigger go" where
  "CronTrigger_Default c r = (let c = StashResource c (rs_Meta r) in
     bind_go (CronTriggerSpec_Default c (rs_Spec r)) (\<lambda>s. Ret (r\<lparr>rs_Spec := s\<rparr>)))"

definition CronTrigger_Validate :: "ctx \<Rightarrow> path \<Rightarrow> CronTrigger \<Rightarrow> field_error list go" where
  "CronTrigger_Validate c p r = cat_errs [
     Ret (ValidateCommonAnnotations p (rs_Meta r)),
     CronTriggerSpec_Validate c (child p ''spec'') (rs_Spec r)]"

definition CronTrigger_ValidateCreate :: "ctx \<Rightarrow> CronTrigger \<Rightarrow> unit go" where
  "CronTrigger_ValidateCreate c obj = bind_go (CronTrigger_Default c obj) (\<lambda>obj.
     bind_go (CronTrigger_Validate (StashResource c (rs_Meta obj)) (new_path '''') obj) to_aggregate)"

definition CronTrigger_ValidateUpdate :: "ctx \<Rightarrow> CronTrigger \<Rightarrow> CronTrigger \<Rightarrow> unit go" where
  "CronTrigger_ValidateUpdate c oldObj newObj = bind_go (CronTrigger_Default c newObj) (\<lambda>newObj.
     bind_go (CronTrigger_Validate (StashResource c (rs_Meta newObj)) (new_path '''') newObj) to_aggregate)"

definition HttpTrigger_Default :: "ctx \<Rightarrow> HttpTrigger \<Rightarrow> HttpTrigger go" where
  "HttpTrigger_Default c r = (let c = StashResource c (rs_Meta r) in
     bind_go (HttpTriggerSpec_Default c (rs_Spec r)) (\<lambda>s. Ret (r\<lparr>rs_Spec := s\<rparr>)))"

definition HttpTrigger_Validate :: "ctx \<Rightarrow> path \<Rightarrow> HttpTrigger \<Rightarrow> field_error list go" where
  "HttpTrigger_Validate c p r = cat_errs [
     Ret (ValidateCommonAnnotations p (rs_Meta r)),
     HttpTriggerSpec_Validate c (child p ''spec'') (rs_Spec r)]"

definition HttpTrigger_ValidateCreate :: "ctx \<Rightarrow> HttpTrigger \<Rightarrow> unit go" where
  "HttpTrigger_ValidateCreate c obj = bind_go (HttpTrigger_Default c obj) (\<lambda>obj.
     bind_go (HttpTrigger_Validate (StashResource c (rs_Meta obj)) (new_path '''') obj) to_aggregate)"

definition HttpTrigger_ValidateUpdate :: "ctx \<Rightarrow> HttpTrigger \<Rightarrow> HttpTrigger \<Rightarrow> unit go" where
  "HttpTrigger_ValidateUpdate c oldObj newObj = bind_go (HttpTrigger_Default c newObj) (\<lambda>newObj.
     bind_go (HttpTrigger_Validate (StashResource c (rs_Meta newObj)) (new_path '''') newObj) to_aggregate)"

definition WrpcTrigger_Default :: "ctx \<Rightarrow> WrpcTrigger \<Rightarrow> WrpcTrigger go" where
  "WrpcTrigger_Default c r = (let c = StashResource c (rs_Meta r) in
     bind_go (WrpcTriggerSpec_Default c (rs_Spec r)) (\<lambda>s. Ret (r\<lparr>rs_Spec := s\<rparr>)))"

definition WrpcTrigger_Validate :: "ctx \<Rightarrow> path \<Rightarrow> WrpcTrigger \<Rightarrow> field_error list go" where
  "WrpcTrigger_Validate c p r = cat_errs [
     Ret (ValidateCommonAnnotations p (rs_Meta r)),
     WrpcTriggerSpec_Validate c (child p ''spec'') (rs_Spec r)]"

definition WrpcTrigger_ValidateCreate :: "ctx \<Rightarrow> WrpcTrigger \<Rightarrow> unit go" where
  "WrpcTrigger_ValidateCreate c obj = bind_go (WrpcTrigger_Default c obj) (\<lambda>obj.
     bind_go (WrpcTrigger_Validate (StashResource c (rs_Meta obj)) (new_path '''') obj) to_aggregate)"

definition WrpcTrigger_ValidateUpdate :: "ctx \<Rightarrow> WrpcTrigger \<Rightarrow> WrpcTrigger \<Rightarrow> unit go" where
  "WrpcTrigger_ValidateUpdate c oldObj newObj = bind_go (WrpcTrigger_Default c newObj) (\<lambda>newObj.
     bind_go (WrpcTrigger_Validate (StashResource c (rs_Meta newObj)) (new_path '''') newObj) to_aggregate)"

section \<open>The specs meet their contracts\<close>

lemma mapM_Ret [simp]: "mapM_go Ret xs = Ret xs"
  by (induction xs) auto

lemma option_Ret [simp]: "option_go Ret p = Ret p"
  by (cases p) auto

text \<open>Defaulting leaves the capabilities alone.\<close>

lemma HostCapabilities_Default_id [simp]: "HostCapabilities_Default c h = Ret h"
proof -
  have vars: "HostEnvVar_Default c = Ret" "HostConfigVar_Default c = Ret"
    by (auto simp: fun_eq_iff HostEnvVar_Default_def HostConfigVar_Default_def)
  have env: "HostEnv_Default c = Ret" and config: "HostConfig_Default c = Ret" and net: "HostNetwork_Default c = Ret"
    by (intro ext; simp add: HostEnv_Default_def HostConfig_Default_def HostNetwork_Default_def vars)+
  show ?thesis by (simp add: HostCapabilities_Default_def env config net)
qed

definition capabilities_rule :: "HostCapabilities \<Rightarrow> bool" where
  "capabilities_rule h \<longleftrightarrow>
     (case cap_Env h of None \<Rightarrow> True | Some e \<Rightarrow> list_all (\<lambda>v. hev_Name v \<noteq> []) (he_Vars e)) \<and>
     (case cap_Config h of None \<Rightarrow> True | Some e \<Rightarrow> list_all (\<lambda>v. hcv_Name v \<noteq> []) (hc_Vars e))"

lemma HostCapabilities_Validate_rule: "HostCapabilities_Validate c p h = Ret [] \<longleftrightarrow> capabilities_rule h"
  by (auto simp: HostCapabilities_Validate_def capabilities_rule_def HostEnv_Validate_def HostConfig_Validate_def
      HostNetwork_Validate_def HostEnvVar_Validate_def HostConfigVar_Validate_def cat_errs_no_error all_indexed
      list_all_length opt_errs_def split: option.split)

lemma HostCapabilities_Validate_returns: "returns (HostCapabilities_Validate c p h)"
  unfolding HostCapabilities_Validate_def HostEnv_Validate_def HostConfig_Validate_def HostNetwork_Validate_def
    HostEnvVar_Validate_def HostConfigVar_Validate_def
  by (intro returns_cat_errs) (auto simp: set_indexed intro!: returns_opt_errs returns_cat_errs)

text \<open>The repository a container gets before the generic defaults.\<close>

lemma RepositoryReference_Default_named: "RepositoryReference_Default c r = Ret r' \<Longrightarrow> rr_Name r' \<noteq> []"
  by (cases r) (auto simp: RepositoryReference_Default_def Let_def split: if_splits)

lemma GenericComponentSpec_Default_named:
  assumes "GenericComponentSpec_Default c g = Ret g'"
  shows "gs_RepositoryRef g' \<noteq> \<lparr>rr_Kind = [], rr_Name = []\<rparr>"
proof -
  from assms obtain r r' where "RepositoryReference_Default c r = Ret r'" and g': "gs_RepositoryRef g' = r'"
    by (auto simp: GenericComponentSpec_Default_def bind_go_eq_Ret)
  from RepositoryReference_Default_named [OF this(1)] g' show ?thesis by auto
qed

interpretation container_spec: validated GenericContainerSpec_Default GenericContainerSpec_Validate
proof unfold_locales
  fix c :: ctx and x y :: GenericContainerSpec and p
  show "returns (GenericContainerSpec_Default c x)" if "ctx_resource c \<noteq> None"
    using that by (simp add: GenericContainerSpec_Default_def Let_def returns_bind
        generic_component.dflt_returns component_ref.dflt_returns service_account_ref.dflt_returns)
  show "returns (GenericContainerSpec_Validate c p x)" if "ctx_resource c \<noteq> None"
    unfolding GenericContainerSpec_Validate_def using that
    by (intro returns_cat_errs) (auto intro: generic_component.vld_returns component_ref.vld_returns
        service_account_ref.vld_returns HostCapabilities_Validate_returns)
  assume "GenericContainerSpec_Default c x = Ret y"
  then obtain g0 g ref sa where g: "GenericComponentSpec_Default c g0 = Ret g"
    and "ComponentReference_Default c (gc_Ref x) = Ret ref"
    and "ServiceAccountReference_Default c (gc_ServiceAccountRef x) = Ret sa"
    and "y = x\<lparr>gc_Generic := g, gc_Ref := ref, gc_ServiceAccountRef := sa\<rparr>"
    by (cases x) (auto simp: GenericContainerSpec_Default_def Let_def bind_go_eq_Ret)
  then show "GenericContainerSpec_Default c y = Ret y"
    using generic_component.dflt_idem [OF g] GenericComponentSpec_Default_named [OF g]
      component_ref.dflt_idem service_account_ref.dflt_idem
    by (simp add: GenericContainerSpec_Default_def)
qed

lemma ImageReference_Default_blank:
  assumes "ImageReference_Default c i = Ret i'"
  shows "i' \<noteq> \<lparr>ir_Kind = [], ir_Namespace = [], ir_Name = []\<rparr>"
proof -
  from assms have "ir_Kind i' \<noteq> []"
    by (cases "ctx_resource c") (auto simp: ImageReference_Default_def RetrieveResource_def Let_def split: if_splits)
  then show ?thesis by auto
qed

interpretation container_image_spec: validated ComponentContainerImageSpec_Default ComponentContainerImageSpec_Validate
proof unfold_locales
  fix c :: ctx and x y :: ComponentContainerImageSpec and p
  show "returns (ComponentContainerImageSpec_Default c x)" if "ctx_resource c \<noteq> None"
    using that by (simp add: ComponentContainerImageSpec_Default_def Let_def returns_bind
        generic_component.dflt_returns component_ref.dflt_returns image_ref.dflt_returns)
  show "returns (ComponentContainerImageSpec_Validate c p x)" if "ctx_resource c \<noteq> None"
    unfolding ComponentContainerImageSpec_Validate_def using that
    by (intro returns_cat_errs) (auto intro: generic_component.vld_returns component_ref.vld_returns
        image_ref.vld_returns)
  assume "ComponentContainerImageSpec_Default c x = Ret y"
  then obtain g ref i0 i where "GenericComponentSpec_Default c (cci_Generic x) = Ret g"
    and "ComponentReference_Default c (cci_Ref x) = Ret ref"
    and i: "ImageReference_Default c i0 = Ret i"
    and "y = x\<lparr>cci_Generic := g, cci_Ref := ref, cci_ImageRef := i\<rparr>"
    by (auto simp: ComponentContainerImageSpec_Default_def Let_def bind_go_eq_Ret)
  then show "ComponentContainerImageSpec_Default c y = Ret y"
    using generic_component.dflt_idem component_ref.dflt_idem image_ref.dflt_idem [OF i]
      ImageReference_Default_blank [OF i]
    by (simp add: ComponentContainerImageSpec_Default_def)
qed

text \<open>The triggers wrap a container.\<close>

lemma wrapped_validated:
  assumes "validated d v"
    and D: "\<And>c x. D c x = bind_go (d c (get x)) (\<lambda>g. Ret (put g x))"
    and laws: "\<And>g x. get (put g x) = g" "\<And>g h x. put g (put h x) = put g x"
    and V: "\<And>c p x. V c p x = cat_errs (v c p (get x) # extra p x)"
    and ex: "\<And>p x e. e \<in> set (extra p x) \<Longrightarrow> returns e"
  shows "validated D V"
  unfolding validated_def validated_axioms_def defaulter_def
proof (intro conjI allI impI)
  have d: "ctx_resource c \<noteq> None \<Longrightarrow> returns (d c x)" and i: "d c x = Ret y \<Longrightarrow> d c y = Ret y"
    and vr: "ctx_resource c \<noteq> None \<Longrightarrow> returns (v c p x)" for c p x y
    using assms(1) unfolding validated_def validated_axioms_def defaulter_def by blast+
  fix c x y p
  show "returns (D c x)" if "ctx_resource c \<noteq> None"
    using d [OF that] by (auto simp: D)
  show "returns (V c p x)" if "ctx_resource c \<noteq> None"
    unfolding V using vr [OF that] ex by (intro returns_cat_errs) auto
  assume "D c x = Ret y"
  then obtain g where "d c (get x) = Ret g" and "y = put g x" by (auto simp: D bind_go_eq_Ret)
  with i show "D c y = Ret y" by (simp add: D laws)
qed

interpretation cron_trigger_spec: validated CronTriggerSpec_Default CronTriggerSpec_Validate
  by (rule wrapped_validated [OF container_spec.validated_axioms CronTriggerSpec_Default_def _ _
        CronTriggerSpec_Validate_def]) auto

interpretation http_trigger_spec: validated HttpTriggerSpec_Default HttpTriggerSpec_Validate
  by (rule wrapped_validated [OF container_spec.validated_axioms HttpTriggerSpec_Default_def _ _
        HttpTriggerSpec_Validate_def]) auto

interpretation wrpc_trigger_spec: validated WrpcTriggerSpec_Default WrpcTriggerSpec_Validate
  by (rule wrapped_validated [OF container_spec.validated_axioms WrpcTriggerSpec_Default_def _ _
        WrpcTriggerSpec_Validate_def]) auto

interpretation container_image: admitted_kind ComponentContainerImage_Default rs_Meta ComponentContainerImage_Validate ComponentContainerImage_ValidateCreate
  by (rule admitted_kindI [OF container_image_spec.validated_axioms])
    (simp_all add: ComponentContainerImage_Default_def ComponentContainerImage_Validate_def ComponentContainerImage_ValidateCreate_def admit_def)

interpretation cron_trigger: admitted_kind CronTrigger_Default rs_Meta CronTrigger_Validate CronTrigger_ValidateCreate
  by (rule admitted_kindI [OF cron_trigger_spec.validated_axioms])
    (simp_all add: CronTrigger_Default_def CronTrigger_Validate_def CronTrigger_ValidateCreate_def admit_def)

interpretation http_trigger: admitted_kind HttpTrigger_Default rs_Meta HttpTrigger_Validate HttpTrigger_ValidateCreate
  by (rule admitted_kindI [OF http_trigger_spec.validated_axioms])
    (simp_all add: HttpTrigger_Default_def HttpTrigger_Validate_def HttpTrigger_ValidateCreate_def admit_def)

interpretation wrpc_trigger: admitted_kind WrpcTrigger_Default rs_Meta WrpcTrigger_Validate WrpcTrigger_ValidateCreate
  by (rule admitted_kindI [OF wrpc_trigger_spec.validated_axioms])
    (simp_all add: WrpcTrigger_Default_def WrpcTrigger_Validate_def WrpcTrigger_ValidateCreate_def admit_def)

end
