(* ===== verification/Services_Api.thy ===== *)
theory Services_Api
  imports Containers_Api "HOL-Library.Word" "HOL-Library.Signed_Division"
begin

text \<open>
  The \<^verbatim>\<open>services.wa8s.reconciler.io\<close> API group (\<^verbatim>\<open>integrations/services/apis/services/v1alpha1\<close>):
  service lifecycles, instances, bindings, clients and resource definitions.  Durations are signed
  64-bit numbers of nanoseconds, as in the package \<^verbatim>\<open>time\<close>; their arithmetic wraps.  Lists stand
  for nil and for empty slices alike.
\<close>

section \<open>Durations\<close>

type_synonym duration = "64 word"

definition minute :: duration where
  "minute = 60000000000"

definition hour :: duration where
  "hour = 3600000000000"

text \<open>\<^verbatim>\<open>d / n\<close> of Go truncates towards zero.\<close>

definition duration_div :: "duration \<Rightarrow> int \<Rightarrow> duration" where
  "duration_div d n = word_of_int (sint d sdiv n)"

text \<open>\<^verbatim>\<open>Duration.String\<close>, which the webhooks print.\<close>

fun pad_digits :: "nat \<Rightarrow> nat \<Rightarrow> string" where
  "pad_digits 0 n = ''''"
| "pad_digits (Suc k) n = pad_digits k (n div 10) @ [char_of (48 + n mod 10)]"

definition fmt_frac :: "nat \<Rightarrow> nat \<Rightarrow> string" where
  "fmt_frac prec n = (let s = rev (dropWhile (\<lambda>ch. ch = CHR ''0'') (rev (pad_digits prec (n mod 10 ^ prec))))
     in if s = '''' then '''' else CHR ''.'' # s)"

definition duration_String :: "duration \<Rightarrow> string" where
  "duration_String d = (let u = nat \<bar>sint d\<bar>; sign = (if sint d < 0 then ''-'' else '''') in
     sign @ (if u = 0 then ''0s''
     else if u < 1000 then digits u @ ''ns''
     else if u < 1000000 then digits (u div 10 ^ 3) @ fmt_frac 3 u @ [char_of (194::nat), char_of (181::nat)] @ ''s''
     else if u < 1000000000 then digits (u div 10 ^ 6) @ fmt_frac 6 u @ ''ms''
     else (let secs = u div 10 ^ 9; mins = secs div 60; hours = mins div 60 in
       (if hours > 0 then digits hours @ ''h'' else '''') @
       (if mins > 0 then digits (mins mod 60) @ ''m'' else '''') @
       digits (secs mod 60) @ fmt_frac 9 u @ ''s'')))"

section \<open>Types\<close>

record ServiceLifecycleReference =
  slr_Kind :: string
  slr_Namespace :: string
  slr_Name :: string

record ServiceLifecycleSpec =
  sl_Container :: GenericContainerSpec
  sl_ClientRef :: ComponentReference

record ServiceLifecycleStatus =
  sls_Component :: GenericComponentStatus
  sls_URL :: string

type_synonym ServiceLifecycle = "(ServiceLifecycleSpec, ServiceLifecycleStatus) resource"
type_synonym ClusterServiceLifecycle = "(ServiceLifecycleSpec, ServiceLifecycleStatus) resource"

record ServiceInstanceReference =
  sir_Name :: string

record ServiceInstanceRequest =
  srq_Key :: string
  srq_Value :: string

record ServiceInstanceSpec =
  si_Ref :: ServiceLifecycleReference
  si_Type :: string
  si_Tier :: string
  si_Requests :: "ServiceInstanceRequest list"

record ServiceInstanceStatus =
  sis_ServiceInstanceId :: string

type_synonym ServiceInstance = "(ServiceInstanceSpec, ServiceInstanceStatus) resource"

record ServiceBindingSpec =
  sb_Ref :: ServiceInstanceReference
  sb_Scopes :: "string list"
  sb_Duration :: duration

record ServiceBindingStatus =
  sbs_Component :: GenericComponentStatus
  sbs_ServiceBindingId :: string
  sbs_Binding :: string
  sbs_ExpiresAfter :: int
  sbs_Expired :: bool

type_synonym ServiceBinding = "(ServiceBindingSpec, ServiceBindingStatus) resource"

record ServiceClientSpec =
  sc_Ref :: ServiceInstanceReference
  sc_Scopes :: "string list"
  sc_Duration :: duration
  sc_RenewBefore :: duration
  sc_RenewBeforePercentage :: "32 word"

record ServiceClientStatus =
  scs_Component :: GenericComponentStatus
  scs_ServiceBindingId :: string
  scs_Binding :: string
  scs_RenewsAfter :: int
  scs_ExpiresAfter :: int

type_synonym ServiceClient = "(ServiceClientSpec, ServiceClientStatus) resource"

record ServiceResourceDefinitionNames =
  srn_Plural :: string
  srn_ShortNames :: "string list"
  srn_Kind :: string
  srn_Categories :: "string list"

record ServiceResourceDefinitionSpec =
  srd_Group :: string
  srd_InstanceNames :: ServiceResourceDefinitionNames
  srd_ClientNames :: ServiceResourceDefinitionNames
  srd_Lifecycle :: ServiceLifecycleSpec

type_synonym ServiceResourceDefinition = "(ServiceResourceDefinitionSpec, unit) resource"

section \<open>Lifecycles\<close>

definition ServiceLifecycleReference_Default ::
    "ctx \<Rightarrow> ServiceLifecycleReference \<Rightarrow> ServiceLifecycleReference go" where
  "ServiceLifecycleReference_Default c r =
     (let r = (if slr_Kind r = '''' then r\<lparr>slr_Kind := ''ClusterServiceLifecycle''\<rparr> else r) in
      if slr_Namespace r = '''' \<and> slr_Kind r \<noteq> ''ClusterServiceLifecycle''
      then bind_go (RetrieveResource c) (\<lambda>o'. Ret (r\<lparr>slr_Namespace := om_Namespace o'\<rparr>)) else Ret r)"

definition ServiceLifecycleReference_Validate ::
    "ctx \<Rightarrow> path \<Rightarrow> ServiceLifecycleReference \<Rightarrow> field_error list go" where
  "ServiceLifecycleReference_Validate c p r = cat_errs [
     when_errs (slr_Kind r = '''') [Required (child p ''kind'') ''''],
     when_errs (slr_Kind r \<noteq> ''ServiceLifecycle'' \<and> slr_Kind r \<noteq> ''ClusterServiceLifecycle'')
       [Invalid (child p ''kind'') (Some (slr_Kind r)) ''allowed values are ServiceLifecycle or ClusterServiceLifecycle''],
     when_errs (slr_Name r = '''') [Required (child p ''name'') '''']]"

definition ServiceLifecycleSpec_Default :: "ctx \<Rightarrow> ServiceLifecycleSpec \<Rightarrow> ServiceLifecycleSpec go" where
  "ServiceLifecycleSpec_Default c r =
     bind_go (GenericContainerSpec_Default c (sl_Container r)) (\<lambda>g.
     bind_go (ComponentReference_Default c (sl_ClientRef r)) (\<lambda>cr.
       Ret (r\<lparr>sl_Container := g, sl_ClientRef := cr\<rparr>)))"

definition ServiceLifecycleSpec_Validate :: "ctx \<Rightarrow> path \<Rightarrow> ServiceLifecycleSpec \<Rightarrow> field_error list go" where
  "ServiceLifecycleSpec_Validate c p r = cat_errs [
     GenericContainerSpec_Validate c p (sl_Container r),
     ComponentReference_Validate c (child p ''clientRef'') (sl_ClientRef r)]"

definition ServiceLifecycle_Default :: "ctx \<Rightarrow> ServiceLifecycle \<Rightarrow> ServiceLifecycle go" where
  "ServiceLifecycle_Default c r = (let c = StashResource c (rs_Meta r) in
     bind_go (ServiceLifecycleSpec_Default c (rs_Spec r)) (\<lambda>s. Ret (r\<lparr>rs_Spec := s\<rparr>)))"

definition ServiceLifecycle_Validate :: "ctx \<Rightarrow> path \<Rightarrow> ServiceLifecycle \<Rightarrow> field_error list go" where
  "ServiceLifecycle_Validate c p r = cat_errs [
     Ret (ValidateCommonAnnotations p (rs_Meta r)),
     ServiceLifecycleSpec_Validate c (child p ''spec'') (rs_Spec r)]"

definition ServiceLifecycle_ValidateCreate :: "ctx \<Rightarrow> ServiceLifecycle \<Rightarrow> unit go" where
  "ServiceLifecycle_ValidateCreate c obj = bind_go (ServiceLifecycle_Default c obj) (\<lambda>obj.
     bind_go (ServiceLifecycle_Validate (StashResource c (rs_Meta obj)) (new_path '''') obj) to_aggregate)"

definition ServiceLifecycle_ValidateUpdate :: "ctx \<Rightarrow> ServiceLifecycle \<Rightarrow> ServiceLifecycle \<Rightarrow> unit go" where
  "ServiceLifecycle_ValidateUpdate c oldObj newObj = bind_go (ServiceLifecycle_Default c newObj) (\<lambda>newObj.
     bind_go (ServiceLifecycle_Validate (StashResource c (rs_Meta newObj)) (new_path '''') newObj) to_aggregate)"

definition ClusterServiceLifecycle_Default :: "ctx \<Rightarrow> ClusterServiceLifecycle \<Rightarrow> ClusterServiceLifecycle go" where
  "ClusterServiceLifecycle_Default c r = (let c = StashResource c (rs_Meta r) in
     bind_go (ServiceLifecycleSpec_Default c (rs_Spec r)) (\<lambda>s. Ret (r\<lparr>rs_Spec := s\<rparr>)))"

definition ClusterServiceLifecycle_Validate :: "ctx \<Rightarrow> path \<Rightarrow> ClusterServiceLifecycle \<Rightarrow> field_error list go" where
  "ClusterServiceLifecycle_Validate c p r = cat_errs [
     Ret (ValidateCommonAnnotations p (rs_Meta r)),
     ServiceLifecycleSpec_Validate c (child p ''spec'') (rs_Spec r)]"

definition ClusterServiceLifecycle_ValidateCreate :: "ctx \<Rightarrow> ClusterServiceLifecycle \<Rightarrow> unit go" where
  "ClusterServiceLifecycle_ValidateCreate c obj = bind_go (ClusterServiceLifecycle_Default c obj) (\<lambda>obj.
     bind_go (ClusterServiceLifecycle_Validate (StashResource c (rs_Meta obj)) (new_path '''') obj) to_aggregate)"

definition ClusterServiceLifecycle_ValidateUpdate :: "ctx \<Rightarrow> ClusterServiceLifecycle \<Rightarrow> ClusterServiceLifecycle \<Rightarrow> unit go" where
  "ClusterServiceLifecycle_ValidateUpdate c oldObj newObj = bind_go (ClusterServiceLifecycle_Default c newObj) (\<lambda>newObj.
     bind_go (ClusterServiceLifecycle_Validate (StashResource c (rs_Meta newObj)) (new_path '''') newObj) to_aggregate)"

section \<open>Instances\<close>

definition ServiceInstanceReference_Default ::
    "ctx \<Rightarrow> ServiceInstanceReference \<Rightarrow> ServiceInstanceReference go" where
  "ServiceInstanceReference_Default c r = Ret r"

definition ServiceInstanceReference_Validate ::
    "ctx \<Rightarrow> path \<Rightarrow> ServiceInstanceReference \<Rightarrow> field_error list go" where
  "ServiceInstanceReference_Validate c p r = cat_errs [
     when_errs (sir_Name r = '''') [Required (child p ''name'') '''']]"

definition ServiceInstanceRequest_Default ::
    "ctx \<Rightarrow> ServiceInstanceRequest \<Rightarrow> ServiceInstanceRequest go" where
  "ServiceInstanceRequest_Default c r = Ret r"

definition ServiceInstanceRequest_Validate ::
    "ctx \<Rightarrow> path \<Rightarrow> ServiceInstanceRequest \<Rightarrow> field_error list go" where
  "ServiceInstanceRequest_Validate c p r = cat_errs [
     when_errs (srq_Key r = '''') [Required (child p ''key'') ''''],
     when_errs (srq_Value r = '''') [Required (child p ''value'') '''']]"

definition ServiceInstanceSpec_Default :: "ctx \<Rightarrow> ServiceInstanceSpec \<Rightarrow> ServiceInstanceSpec go" where
  "ServiceInstanceSpec_Default c r =
     bind_go (ServiceLifecycleReference_Default c (si_Ref r)) (\<lambda>ref.
     bind_go (mapM_go (ServiceInstanceRequest_Default c) (si_Requests r)) (\<lambda>rs.
       Ret (r\<lparr>si_Ref := ref, si_Requests := rs\<rparr>)))"

definition ServiceInstanceSpec_Validate :: "ctx \<Rightarrow> path \<Rightarrow> ServiceInstanceSpec \<Rightarrow> field_error list go" where
  "ServiceInstanceSpec_Validate c p r = cat_errs [
     ServiceLifecycleReference_Validate c (child p ''ref'') (si_Ref r),
     when_errs (si_Type r = '''') [Required (child p ''type'') ''''],
     cat_errs (indexed (\<lambda>i v. ServiceInstanceRequest_Validate c (index (child p ''requests'') i) v) (si_Requests r))]"

definition ServiceInstance_Default :: "ctx \<Rightarrow> ServiceInstance \<Rightarrow> ServiceInstance go" where
  "ServiceInstance_Default c r = (let c = StashResource c (rs_Meta r) in
     bind_go (ServiceInstanceSpec_Default c (rs_Spec r)) (\<lambda>s. Ret (r\<lparr>rs_Spec := s\<rparr>)))"

definition ServiceInstance_Validate :: "ctx \<Rightarrow> path \<Rightarrow> ServiceInstance \<Rightarrow> field_error list go" where
  "ServiceInstance_Validate c p r = cat_errs [
     Ret (ValidateCommonAnnotations p (rs_Meta r)),
     ServiceInstanceSpec_Validate c (child p ''spec'') (rs_Spec r)]"

definition ServiceInstance_ValidateCreate :: "ctx \<Rightarrow> ServiceInstance \<Rightarrow> unit go" where
  "ServiceInstance_ValidateCreate c obj = bind_go (ServiceInstance_Default c obj) (\<lambda>obj.
     bind_go (ServiceInstance_Validate (StashResource c (rs_Meta obj)) (new_path '''') obj) to_aggregate)"

definition ServiceInstance_ValidateUpdate :: "ctx \<Rightarrow> ServiceInstance \<Rightarrow> ServiceInstance \<Rightarrow> unit go" where
  "ServiceInstance_ValidateUpdate c oldObj newObj = bind_go (ServiceInstance_Default c oldObj) (\<lambda>oldObj. bind_go (ServiceInstance_Default c newObj) (\<lambda>newObj.
     if rs_Spec newObj \<noteq> rs_Spec oldObj then Fail (Text ''.spec updates are disallowed'')
     else if sis_ServiceInstanceId (rs_Status oldObj) \<noteq> '''' \<and> sis_ServiceInstanceId (rs_Status newObj) \<noteq> sis_ServiceInstanceId (rs_Status oldObj)
     then Fail (Text ''.status.serviceInstanceId is immutable once set'')
     else bind_go (ServiceInstance_Validate (StashResource c (rs_Meta newObj)) (new_path '''') newObj) to_aggregate))"

section \<open>Bindings\<close>

definition ServiceBindingSpec_Default :: "ctx \<Rightarrow> ServiceBindingSpec \<Rightarrow> ServiceBindingSpec go" where
  "ServiceBindingSpec_Default c r =
     bind_go (ServiceInstanceReference_Default c (sb_Ref r)) (\<lambda>ref. Ret (r\<lparr>sb_Ref := ref\<rparr>))"

definition ServiceBindingSpec_Validate :: "ctx \<Rightarrow> path \<Rightarrow> ServiceBindingSpec \<Rightarrow> field_error list go" where
  "ServiceBindingSpec_Validate c p r = cat_errs [
     ServiceInstanceReference_Validate c (child p ''ref'') (sb_Ref r),
     cat_errs (indexed (\<lambda>i scope. when_errs (scope = '''')
       [Invalid (index (child p ''scopes'') i) (Some scope) ''may not be empty'']) (sb_Scopes r)),
     when_errs (sint (sb_Duration r) < sint hour)
       [Invalid (child p ''duration'') (Some (duration_String (sb_Duration r))) ''minimum duration 1h'']]"

definition ServiceBinding_Default :: "ctx \<Rightarrow> ServiceBinding \<Rightarrow> ServiceBinding go" where
  "ServiceBinding_Default c r = (let c = StashResource c (rs_Meta r) in
     bind_go (ServiceBindingSpec_Default c (rs_Spec r)) (\<lambda>s. Ret (r\<lparr>rs_Spec := s\<rparr>)))"

definition ServiceBinding_Validate :: "ctx \<Rightarrow> path \<Rightarrow> ServiceBinding \<Rightarrow> field_error list go" where
  "ServiceBinding_Validate c p r = cat_errs [
     Ret (ValidateCommonAnnotations p (rs_Meta r)),
     ServiceBindingSpec_Validate c (child p ''spec'') (rs_Spec r)]"

definition ServiceBinding_ValidateCreate :: "ctx \<Rightarrow> ServiceBinding \<Rightarrow> unit go" where
  "ServiceBinding_ValidateCreate c obj = bind_go (ServiceBinding_Default c obj) (\<lambda>obj.
     bind_go (ServiceBinding_Validate (StashResource c (rs_Meta obj)) (new_path '''') obj) to_aggregate)"

definition ServiceBinding_ValidateUpdate :: "ctx \<Rightarrow> ServiceBinding \<Rightarrow> ServiceBinding \<Rightarrow> unit go" where
  "ServiceBinding_ValidateUpdate c oldObj newObj = bind_go (ServiceBinding_Default c oldObj) (\<lambda>oldObj. bind_go (ServiceBinding_Default c newObj) (\<lambda>newObj.
     if rs_Spec newObj \<noteq> rs_Spec oldObj then Fail (Text ''.spec updates are disallowed'')
     else if sbs_ServiceBindingId (rs_Status oldObj) \<noteq> '''' \<and> sbs_ServiceBindingId (rs_Status newObj) \<noteq> sbs_ServiceBindingId (rs_Status oldObj)
     then Fail (Text ''.status.serviceBindingId is immutable once set'')
     else bind_go (ServiceBinding_Validate (StashResource c (rs_Meta newObj)) (new_path '''') newObj) to_aggregate))"

section \<open>Clients\<close>

definition ServiceClientSpec_Default :: "ctx \<Rightarrow> ServiceClientSpec \<Rightarrow> ServiceClientSpec go" where
  "ServiceClientSpec_Default c r =
     bind_go (ServiceInstanceReference_Default c (sc_Ref r)) (\<lambda>ref.
     let r = r\<lparr>sc_Ref := ref\<rparr>;
         r = (if sc_Duration r = 0 then r\<lparr>sc_Duration := 90 * 24 * hour\<rparr> else r) in
     Ret (if sc_RenewBefore r = 0 then
       (let r = (if sc_RenewBeforePercentage r = 0 then r\<lparr>sc_RenewBeforePercentage := 33\<rparr> else r);
            r = r\<lparr>sc_RenewBefore := duration_div (sc_Duration r * scast (sc_RenewBeforePercentage r)) 100\<rparr>
        in if sint (sc_RenewBefore r) < sint (5 * minute) then r\<lparr>sc_RenewBefore := 5 * minute\<rparr> else r)
       else r))"

definition ServiceClientSpec_Validate :: "ctx \<Rightarrow> path \<Rightarrow> ServiceClientSpec \<Rightarrow> field_error list go" where
  "ServiceClientSpec_Validate c p r = cat_errs [
     ServiceInstanceReference_Validate c (child p ''ref'') (sc_Ref r),
     cat_errs (indexed (\<lambda>i scope. when_errs (scope = '''')
       [Invalid (index (child p ''scopes'') i) (Some scope) ''may not be empty'']) (sc_Scopes r)),
     when_errs (sint (sc_Duration r) < sint hour)
       [Invalid (child p ''duration'') (Some (duration_String (sc_Duration r))) ''minimum duration 1h''],
     when_errs (sint (sc_RenewBefore r) < sint (5 * minute))
       [Invalid (child p ''renewBefore'') (Some (duration_String (sc_RenewBefore r))) ''minimum duration 5m''],
     when_errs (sint (sc_RenewBeforePercentage r) < 0 \<or> sint (sc_RenewBeforePercentage r) > 100)
       [Invalid (child p ''renewBeforePercentage'') (Some (duration_String (sc_Duration r))) ''must be within 0-100'']]"

definition ServiceClient_Default :: "ctx \<Rightarrow> ServiceClient \<Rightarrow> ServiceClient go" where
  "ServiceClient_Default c r = (let c = StashResource c (rs_Meta r) in
     bind_go (ServiceClientSpec_Default c (rs_Spec r)) (\<lambda>s. Ret (r\<lparr>rs_Spec := s\<rparr>)))"

definition ServiceClient_Validate :: "ctx \<Rightarrow> path \<Rightarrow> ServiceClient \<Rightarrow> field_error list go" where
  "ServiceClient_Validate c p r = cat_errs [
     Ret (ValidateCommonAnnotations p (rs_Meta r)),
     ServiceClientSpec_Validate c (child p ''spec'') (rs_Spec r)]"

definition ServiceClient_ValidateCreate :: "ctx \<Rightarrow> ServiceClient \<Rightarrow> unit go" where
  "ServiceClient_ValidateCreate c obj = bind_go (ServiceClient_Default c obj) (\<lambda>obj.
     bind_go (ServiceClient_Validate (StashResource c (rs_Meta obj)) (new_path '''') obj) to_aggregate)"

definition ServiceClient_ValidateUpdate :: "ctx \<Rightarrow> ServiceClient \<Rightarrow> ServiceClient \<Rightarrow> unit go" where
  "ServiceClient_ValidateUpdate c oldObj newObj = bind_go (ServiceClient_Default c newObj) (\<lambda>newObj.
     bind_go (ServiceClient_Validate (StashResource c (rs_Meta newObj)) (new_path '''') newObj) to_aggregate)"

section \<open>Resource definitions\<close>

text \<open>The check is for \<^verbatim>\<open>wa8s-services\<close>, the value appended is \<^verbatim>\<open>services\<close>, as in the source.\<close>

definition ServiceResourceDefinitionNames_Default ::
    "ctx \<Rightarrow> ServiceResourceDefinitionNames \<Rightarrow> ServiceResourceDefinitionNames go" where
  "ServiceResourceDefinitionNames_Default c r = (let categories = set (srn_Categories r);
     r = (if ''wa8s'' \<notin> categories then r\<lparr>srn_Categories := srn_Categories r @ [''wa8s'']\<rparr> else r);
     r = (if ''wa8s-services'' \<notin> categories then r\<lparr>srn_Categories := srn_Categories r @ [''services'']\<rparr> else r)
     in Ret r)"

text \<open>The slice \<^verbatim>\<open>r.Kind[0:1]\<close> of a blank kind is out of bounds.  Letter case is that of ASCII.\<close>

definition ServiceResourceDefinitionNames_Validate ::
    "ctx \<Rightarrow> path \<Rightarrow> ServiceResourceDefinitionNames \<Rightarrow> field_error list go" where
  "ServiceResourceDefinitionNames_Validate c p r = cat_errs [
     when_errs (srn_Kind r = '''') [Required (child p ''kind'') ''''],
     (if length (srn_Kind r) < 1 then Panic ''slice bounds out of range [:1] with length 0''
      else when_errs (ToUpper (take 1 (srn_Kind r)) \<noteq> take 1 (srn_Kind r))
        [Invalid (child p ''kind'') (Some (srn_Kind r)) ''must be camel case'']),
     when_errs (srn_Plural r = '''') [Required (child p ''plural'') ''''],
     when_errs (ToLower (srn_Plural r) \<noteq> srn_Plural r)
       [Invalid (child p ''kind'') (Some (srn_Kind r)) ''must be lower case'']]"

definition ServiceResourceDefinitionSpec_Default ::
    "ctx \<Rightarrow> ServiceResourceDefinitionSpec \<Rightarrow> ServiceResourceDefinitionSpec go" where
  "ServiceResourceDefinitionSpec_Default c r =
     bind_go (ServiceResourceDefinitionNames_Default c (srd_InstanceNames r)) (\<lambda>i.
     bind_go (ServiceResourceDefinitionNames_Default c (srd_ClientNames r)) (\<lambda>cl.
     bind_go (ServiceLifecycleSpec_Default c (srd_Lifecycle r)) (\<lambda>l.
       Ret (r\<lparr>srd_InstanceNames := i, srd_ClientNames := cl, srd_Lifecycle := l\<rparr>))))"

definition ServiceResourceDefinitionSpec_Validate ::
    "ctx \<Rightarrow> path \<Rightarrow> ServiceResourceDefinitionSpec \<Rightarrow> field_error list go" where
  "ServiceResourceDefinitionSpec_Validate c p r = cat_errs [
     ServiceResourceDefinitionNames_Validate c (child p ''instanceNames'') (srd_InstanceNames r),
     ServiceResourceDefinitionNames_Validate c (child p ''clientNames'') (srd_ClientNames r),
     ServiceLifecycleSpec_Validate c (child p ''lifecycle'') (srd_Lifecycle r)]"

definition ServiceResourceDefinition_Default :: "ctx \<Rightarrow> ServiceResourceDefinition \<Rightarrow> ServiceResourceDefinition go" where
  "ServiceResourceDefinition_Default c r = (let c = StashResource c (rs_Meta r) in
     bind_go (ServiceResourceDefinitionSpec_Default c (rs_Spec r)) (\<lambda>s. Ret (r\<lparr>rs_Spec := s\<rparr>)))"

definition ServiceResourceDefinition_Validate :: "ctx \<Rightarrow> path \<Rightarrow> ServiceResourceDefinition \<Rightarrow> field_error list go" where
  "ServiceResourceDefinition_Validate c p r = cat_errs [
     Ret (ValidateCommonAnnotations p (rs_Meta r)),
     ServiceResourceDefinitionSpec_Validate c (child p ''spec'') (rs_Spec r)]"

definition ServiceResourceDefinition_ValidateCreate :: "ctx \<Rightarrow> ServiceResourceDefinition \<Rightarrow> unit go" where
  "ServiceResourceDefinition_ValidateCreate c obj = bind_go (ServiceResourceDefinition_Default c obj) (\<lambda>obj.
     bind_go (ServiceResourceDefinition_Validate (StashResource c (rs_Meta obj)) (new_path '''') obj) to_aggregate)"

definition ServiceResourceDefinition_ValidateUpdate :: "ctx \<Rightarrow> ServiceResourceDefinition \<Rightarrow> ServiceResourceDefinition \<Rightarrow> unit go" where
  "ServiceResourceDefinition_ValidateUpdate c oldObj newObj = bind_go (ServiceResourceDefinition_Default c newObj) (\<lambda>newObj.
     bind_go (ServiceResourceDefinition_Validate (StashResource c (rs_Meta newObj)) (new_path '''') newObj) to_aggregate)"

end
