(* ===== verification/Reconcile.thy ===== *)
theory Reconcile
  imports Oci Trace Services_Api
begin

text \<open>
  What all reconcilers share: conditions and the log of the marks a reconciler sets, the stash of
  \<^verbatim>\<open>controllers/utils.go\<close> and of the two \<^verbatim>\<open>internal/controllers/utils.go\<close>, the sentinel errors they
  return, and the state one reconcile request threads through its sub reconcilers.  A sub
  reconciler is a function from a state to a state and a result.

  The condition manager, the stasher and the combinators of \<^verbatim>\<open>reconciler.io/runtime\<close> are not part of
  the repository.  A mark is recorded as the call it is; a stashed value is a cell of the state, as
  the documentation of the stasher has it; what reads the conditions of another object is the
  parameter \<open>cond_lib\<close>.
\<close>

named_theorems act_simps \<open>unfolding of sub reconcilers\<close>
named_theorems stashers \<open>the cells of the stash\<close>

section \<open>Conditions\<close>

record condition =
  cn_Type :: string
  cn_Status :: string
  cn_Reason :: string
  cn_Message :: string

record apis_Status =
  as_ObservedGeneration :: int
  as_Conditions :: "condition list"

text \<open>
  \<open>cl_Initialize deps\<close> is \<^verbatim>\<open>InitializeConditions\<close> of the living condition set with these dependents,
  \<open>cl_Get\<close> is \<^verbatim>\<open>GetCondition\<close>, the last three are \<^verbatim>\<open>ConditionIsTrue\<close>, \<^verbatim>\<open>ConditionIsFalse\<close> and
  \<^verbatim>\<open>ConditionIsUnknown\<close>; nil is \<open>None\<close>.
\<close>

record cond_lib =
  cl_Initialize :: "string list \<Rightarrow> apis_Status \<Rightarrow> apis_Status"
  cl_Get :: "apis_Status \<Rightarrow> string \<Rightarrow> condition option"
  cl_IsTrue :: "condition option \<Rightarrow> bool"
  cl_IsFalse :: "condition option \<Rightarrow> bool"
  cl_IsUnknown :: "condition option \<Rightarrow> bool"

text \<open>Documented: an initialized status has a Ready condition.\<close>

definition initializes_ready :: "cond_lib \<Rightarrow> bool" where
  "initializes_ready cl \<longleftrightarrow> (\<forall>deps st. cl_Get cl (cl_Initialize cl deps st) ''Ready'' \<noteq> None)"

definition RepositoryConditions :: "string list" where
  "RepositoryConditions = [''CredentialsResolved'', ''Authenticated'']"

definition ImageConditions :: "string list" where
  "ImageConditions = [''RepositoryReady'', ''ImageCopied'']"

definition ComponentConditions :: "string list" where
  "ComponentConditions = [''RepositoryReady'', ''ComponentCopied'']"

definition RepositoryStatus_InitializeConditions :: "cond_lib \<Rightarrow> apis_Status \<Rightarrow> apis_Status" where
  "RepositoryStatus_InitializeConditions cl = cl_Initialize cl RepositoryConditions"

definition ImageStatus_InitializeConditions :: "cond_lib \<Rightarrow> apis_Status \<Rightarrow> apis_Status" where
  "ImageStatus_InitializeConditions cl = cl_Initialize cl ImageConditions"

definition ComponentStatus_InitializeConditions :: "cond_lib \<Rightarrow> apis_Status \<Rightarrow> apis_Status" where
  "ComponentStatus_InitializeConditions cl = cl_Initialize cl ComponentConditions"

datatype mark_status = CTrue | CFalse | CUnknown

datatype mark = Mark (mk_Type: string) (mk_Status: mark_status) (mk_Reason: string) (mk_Message: string)

section \<open>Errors\<close>

definition ErrQuiet :: gerr where
  "ErrQuiet = Sentinel ''ErrQuiet''"

definition ErrHaltSubReconcilers :: gerr where
  "ErrHaltSubReconcilers = Sentinel ''ErrHaltSubReconcilers''"

definition ErrSkipStatusUpdate :: gerr where
  "ErrSkipStatusUpdate = Sentinel ''ErrSkipStatusUpdate''"

definition ErrTransient :: gerr where
  "ErrTransient = errors_Join [ErrQuiet, ErrHaltSubReconcilers]"

definition ErrDurable :: gerr where
  "ErrDurable = Sentinel ''ErrDurable''"

definition ErrGenerationMismatch :: gerr where
  "ErrGenerationMismatch = errors_Join [ErrTransient, ErrSkipStatusUpdate]"

definition ErrUpdateStatusBeforeContinuingReconcile :: gerr where
  "ErrUpdateStatusBeforeContinuingReconcile =
     errors_Join [Sentinel ''UpdateStatusBeforeContinuingReconcile'', ErrDurable]"

definition ErrNotComponent :: gerr where
  "ErrNotComponent = Sentinel ''referenced apiVersion kind is not a component''"

lemmas sentinel_defs = ErrQuiet_def ErrHaltSubReconcilers_def ErrSkipStatusUpdate_def ErrTransient_def
  ErrDurable_def ErrGenerationMismatch_def ErrUpdateStatusBeforeContinuingReconcile_def ErrNotComponent_def

section \<open>The stash\<close>

record 'd ResolvedComponent =
  rc_Name :: string
  rc_Image :: 'd
  rc_Component :: string
  rc_WIT :: WIT

record ('kc, 'd, 't) stash =
  st_Component :: "string option"
  st_Config :: "WasmConfigFile option"
  st_Trace :: "ComponentSpan list option"
  st_Digest :: "'d option"
  st_Tag :: "'t option"
  st_Keychain :: "'kc option"
  st_RemoteImage :: "'d option"
  st_ConfigStore :: "(string \<rightharpoonup> string) option"
  st_Dependencies :: "'d ResolvedComponent list option"
  st_LifecycleComposition :: "string option"
  st_LifecycleAddress :: "string option"
  st_LifecycleReference :: "ServiceLifecycleReference option"
  st_BindingId :: "string option"
  st_InstanceId :: "string option"

text \<open>A stasher is a typed key: how it reads its cell and how it writes it.\<close>

record ('st, 'v) stasher =
  sh_get :: "'st \<Rightarrow> 'v option"
  sh_put :: "'v option \<Rightarrow> 'st \<Rightarrow> 'st"

definition ComponentStasher :: "(('kc, 'd, 't) stash, string) stasher" where
  [stashers]: "ComponentStasher = \<lparr>sh_get = st_Component, sh_put = (\<lambda>v s. s\<lparr>st_Component := v\<rparr>)\<rparr>"

definition ComponentConfigStasher :: "(('kc, 'd, 't) stash, WasmConfigFile) stasher" where
  [stashers]: "ComponentConfigStasher = \<lparr>sh_get = st_Config, sh_put = (\<lambda>v s. s\<lparr>st_Config := v\<rparr>)\<rparr>"

definition ComponentTraceStasher :: "(('kc, 'd, 't) stash, ComponentSpan list) stasher" where
  [stashers]: "ComponentTraceStasher = \<lparr>sh_get = st_Trace, sh_put = (\<lambda>v s. s\<lparr>st_Trace := v\<rparr>)\<rparr>"

definition RepositoryDigestStasher :: "(('kc, 'd, 't) stash, 'd) stasher" where
  [stashers]: "RepositoryDigestStasher = \<lparr>sh_get = st_Digest, sh_put = (\<lambda>v s. s\<lparr>st_Digest := v\<rparr>)\<rparr>"

definition RepositoryTagStasher :: "(('kc, 'd, 't) stash, 't) stasher" where
  [stashers]: "RepositoryTagStasher = \<lparr>sh_get = st_Tag, sh_put = (\<lambda>v s. s\<lparr>st_Tag := v\<rparr>)\<rparr>"

definition RepositoryKeychainStasher :: "(('kc, 'd, 't) stash, 'kc) stasher" where
  [stashers]: "RepositoryKeychainStasher = \<lparr>sh_get = st_Keychain, sh_put = (\<lambda>v s. s\<lparr>st_Keychain := v\<rparr>)\<rparr>"

definition RemoteImageStasher :: "(('kc, 'd, 't) stash, 'd) stasher" where
  [stashers]: "RemoteImageStasher = \<lparr>sh_get = st_RemoteImage, sh_put = (\<lambda>v s. s\<lparr>st_RemoteImage := v\<rparr>)\<rparr>"

definition ConfigStoreStasher :: "(('kc, 'd, 't) stash, string \<rightharpoonup> string) stasher" where
  [stashers]: "ConfigStoreStasher = \<lparr>sh_get = st_ConfigStore, sh_put = (\<lambda>v s. s\<lparr>st_ConfigStore := v\<rparr>)\<rparr>"

definition CompositionDependenciesStasher :: "(('kc, 'd, 't) stash, 'd ResolvedComponent list) stasher" where
  [stashers]: "CompositionDependenciesStasher =
     \<lparr>sh_get = st_Dependencies, sh_put = (\<lambda>v s. s\<lparr>st_Dependencies := v\<rparr>)\<rparr>"

definition ServiceLifecycleCompositionStasher :: "(('kc, 'd, 't) stash, string) stasher" where
  [stashers]: "ServiceLifecycleCompositionStasher =
     \<lparr>sh_get = st_LifecycleComposition, sh_put = (\<lambda>v s. s\<lparr>st_LifecycleComposition := v\<rparr>)\<rparr>"

definition ServiceLifecycleAddressStasher :: "(('kc, 'd, 't) stash, string) stasher" where
  [stashers]: "ServiceLifecycleAddressStasher =
     \<lparr>sh_get = st_LifecycleAddress, sh_put = (\<lambda>v s. s\<lparr>st_LifecycleAddress := v\<rparr>)\<rparr>"

definition ServiceLifecycleReferenceStasher :: "(('kc, 'd, 't) stash, ServiceLifecycleReference) stasher" where
  [stashers]: "ServiceLifecycleReferenceStasher =
     \<lparr>sh_get = st_LifecycleReference, sh_put = (\<lambda>v s. s\<lparr>st_LifecycleReference := v\<rparr>)\<rparr>"

definition ServiceBindingIdStasher :: "(('kc, 'd, 't) stash, string) stasher" where
  [stashers]: "ServiceBindingIdStasher = \<lparr>sh_get = st_BindingId, sh_put = (\<lambda>v s. s\<lparr>st_BindingId := v\<rparr>)\<rparr>"

definition ServiceInstanceIdStasher :: "(('kc, 'd, 't) stash, string) stasher" where
  [stashers]: "ServiceInstanceIdStasher = \<lparr>sh_get = st_InstanceId, sh_put = (\<lambda>v s. s\<lparr>st_InstanceId := v\<rparr>)\<rparr>"

definition empty_stash :: "('kc, 'd, 't) stash" where
  "empty_stash = \<lparr>st_Component = None, st_Config = None, st_Trace = None, st_Digest = None, st_Tag = None,
     st_Keychain = None, st_RemoteImage = None, st_ConfigStore = None, st_Dependencies = None,
     st_LifecycleComposition = None, st_LifecycleAddress = None, st_LifecycleReference = None,
     st_BindingId = None, st_InstanceId = None\<rparr>"

section \<open>The state of a request\<close>

text \<open>
  When a request is to be made again: at once, or after a delay.  The runtime combines the results
  the sub reconcilers of a request return; here they are logged.
\<close>

record Result =
  res_Requeue :: bool
  res_RequeueAfter :: duration

record ('r, 'kc, 'd, 't, 'w) rstate =
  rx_Resource :: 'r
  rx_Marks :: "mark list"
  rx_Events :: "(string \<times> string) list"
  rx_Results :: "Result list"
  rx_Stash :: "('kc, 'd, 't) stash"
  rx_World :: 'w

type_synonym ('s, 'a) act = "'s \<Rightarrow> 's \<times> 'a go"

definition act_ret :: "'a \<Rightarrow> ('s, 'a) act" where
  [act_simps]: "act_ret x s = (s, Ret x)"

definition act_fail :: "gerr \<Rightarrow> ('s, 'a) act" where
  [act_simps]: "act_fail e s = (s, Fail e)"

definition act_lift :: "'a go \<Rightarrow> ('s, 'a) act" where
  [act_simps]: "act_lift g s = (s, g)"

definition act_bind :: "('s, 'a) act \<Rightarrow> ('a \<Rightarrow> ('s, 'b) act) \<Rightarrow> ('s, 'b) act" where
  "act_bind m f s = (case m s of (s', Ret x) \<Rightarrow> f x s' | (s', Fail e) \<Rightarrow> (s', Fail e) | (s', Panic p) \<Rightarrow> (s', Panic p))"

definition act_then :: "('s, unit) act \<Rightarrow> ('s, 'b) act \<Rightarrow> ('s, 'b) act" where
  [act_simps]: "act_then m n = act_bind m (\<lambda>_. n)"

text \<open>A call and the two branches on its error: \<^verbatim>\<open>x, err := g; if err != nil { ... }; ...\<close>.\<close>

definition act_try :: "'a go \<Rightarrow> (gerr \<Rightarrow> ('s, 'b) act) \<Rightarrow> ('a \<Rightarrow> ('s, 'b) act) \<Rightarrow> ('s, 'b) act" where
  "act_try g h k s = (case g of Ret x \<Rightarrow> k x s | Fail e \<Rightarrow> h e s | Panic m \<Rightarrow> (s, Panic m))"

definition get_resource :: "(('r, 'kc, 'd, 't, 'w) rstate, 'r) act" where
  [act_simps]: "get_resource s = (s, Ret (rx_Resource s))"

definition set_resource :: "('r \<Rightarrow> 'r) \<Rightarrow> (('r, 'kc, 'd, 't, 'w) rstate, unit) act" where
  [act_simps]: "set_resource f s = (s\<lparr>rx_Resource := f (rx_Resource s)\<rparr>, Ret ())"

definition mark_as :: "string \<Rightarrow> mark_status \<Rightarrow> string \<Rightarrow> string \<Rightarrow> (('r, 'kc, 'd, 't, 'w) rstate, unit) act" where
  [act_simps]: "mark_as type status reason msg s = (s\<lparr>rx_Marks := rx_Marks s @ [Mark type status reason msg]\<rparr>, Ret ())"

definition eventf :: "string \<Rightarrow> string \<Rightarrow> (('r, 'kc, 'd, 't, 'w) rstate, unit) act" where
  [act_simps]: "eventf reason msg s = (s\<lparr>rx_Events := rx_Events s @ [(reason, msg)]\<rparr>, Ret ())"

definition requeue :: "Result \<Rightarrow> (('r, 'kc, 'd, 't, 'w) rstate, unit) act" where
  [act_simps]: "requeue r s = (s\<lparr>rx_Results := rx_Results s @ [r]\<rparr>, Ret ())"

definition stash_Store :: "(('kc, 'd, 't) stash, 'v) stasher \<Rightarrow> 'v \<Rightarrow> (('r, 'kc, 'd, 't, 'w) rstate, unit) act" where
  [act_simps]: "stash_Store sh v s = (s\<lparr>rx_Stash := sh_put sh (Some v) (rx_Stash s)\<rparr>, Ret ())"

definition stash_Clear :: "(('kc, 'd, 't) stash, 'v) stasher \<Rightarrow> (('r, 'kc, 'd, 't, 'w) rstate, unit) act" where
  [act_simps]: "stash_Clear sh s = (s\<lparr>rx_Stash := sh_put sh None (rx_Stash s)\<rparr>, Ret ())"

definition stash_Retrieve :: "(('kc, 'd, 't) stash, 'v) stasher \<Rightarrow> (('r, 'kc, 'd, 't, 'w) rstate, 'v option) act" where
  [act_simps]: "stash_Retrieve sh s = (s, Ret (sh_get sh (rx_Stash s)))"

definition stash_RetrieveOrDie :: "(('kc, 'd, 't) stash, 'v) stasher \<Rightarrow> (('r, 'kc, 'd, 't, 'w) rstate, 'v) act" where
  [act_simps]: "stash_RetrieveOrDie sh s = (s, case sh_get sh (rx_Stash s) of
     None \<Rightarrow> Panic ''value not found for key'' | Some v \<Rightarrow> Ret v)"

definition stash_RetrieveOrError :: "(('kc, 'd, 't) stash, 'v) stasher \<Rightarrow> (('r, 'kc, 'd, 't, 'w) rstate, 'v) act" where
  [act_simps]: "stash_RetrieveOrError sh s = (s, case sh_get sh (rx_Stash s) of
     None \<Rightarrow> Fail (Sentinel ''value not found for key'') | Some v \<Rightarrow> Ret v)"

definition stash_RetrieveOrEmpty :: "(('kc, 'd, 't) stash, 'v list) stasher \<Rightarrow> (('r, 'kc, 'd, 't, 'w) rstate, 'v list) act" where
  [act_simps]: "stash_RetrieveOrEmpty sh s = (s, Ret (case sh_get sh (rx_Stash s) of None \<Rightarrow> [] | Some v \<Rightarrow> v))"

lemma act_bind_simps [simp]:
  "m s = (s', Ret x) \<Longrightarrow> act_bind m f s = f x s'"
  "m s = (s', Fail e) \<Longrightarrow> act_bind m f s = (s', Fail e)"
  "m s = (s', Panic p) \<Longrightarrow> act_bind m f s = (s', Panic p)"
  by (simp_all add: act_bind_def)

lemma act_try_simps [simp]:
  "act_try (Ret x) h k s = k x s" "act_try (Fail e) h k s = h e s" "act_try (Panic m) h k s = (s, Panic m)"
  by (simp_all add: act_try_def)

section \<open>The contract of a stasher\<close>

text \<open>What the sub reconcilers rely on when they pass values to each other.\<close>

locale stash_cell =
  fixes sh :: "('st, 'v) stasher"
  assumes get_put: "sh_get sh (sh_put sh v s) = v"
    and put_put: "sh_put sh v (sh_put sh v' s) = sh_put sh v s"
begin

lemma retrieve_stored: "sh_get sh (sh_put sh (Some v) s) = Some v"
  by (rule get_put)

lemma retrieve_cleared: "sh_get sh (sh_put sh None s) = None"
  by (rule get_put)

lemma restore_same: "sh_put sh v (sh_put sh v s) = sh_put sh v s"
  by (rule put_put)

end

interpretation component_cell: stash_cell ComponentStasher
  by unfold_locales (simp_all add: stashers)

interpretation config_cell: stash_cell ComponentConfigStasher
  by unfold_locales (simp_all add: stashers)

interpretation trace_cell: stash_cell ComponentTraceStasher
  by unfold_locales (simp_all add: stashers)

interpretation digest_cell: stash_cell RepositoryDigestStasher
  by unfold_locales (simp_all add: stashers)

interpretation tag_cell: stash_cell RepositoryTagStasher
  by unfold_locales (simp_all add: stashers)

interpretation keychain_cell: stash_cell RepositoryKeychainStasher
  by unfold_locales (simp_all add: stashers)

interpretation remote_image_cell: stash_cell RemoteImageStasher
  by unfold_locales (simp_all add: stashers)

interpretation config_store_cell: stash_cell ConfigStoreStasher
  by unfold_locales (simp_all add: stashers)

interpretation dependencies_cell: stash_cell CompositionDependenciesStasher
  by unfold_locales (simp_all add: stashers)

interpretation lifecycle_composition_cell: stash_cell ServiceLifecycleCompositionStasher
  by unfold_locales (simp_all add: stashers)

interpretation lifecycle_address_cell: stash_cell ServiceLifecycleAddressStasher
  by unfold_locales (simp_all add: stashers)

interpretation lifecycle_reference_cell: stash_cell ServiceLifecycleReferenceStasher
  by unfold_locales (simp_all add: stashers)

interpretation binding_id_cell: stash_cell ServiceBindingIdStasher
  by unfold_locales (simp_all add: stashers)

interpretation instance_id_cell: stash_cell ServiceInstanceIdStasher
  by unfold_locales (simp_all add: stashers)

section \<open>Weakest preconditions of sub reconcilers\<close>

text \<open>
  \<open>wpe m Q E s\<close>: run from \<open>s\<close>, \<open>m\<close> does not panic, it ends in \<open>Q\<close> when it returns nil and in \<open>E\<close>
  when it returns an error.  The rules compute it along the code.
\<close>

named_theorems wpe_simps \<open>weakest preconditions of the basic steps\<close>

definition wpe :: "('s, 'a) act \<Rightarrow> ('a \<Rightarrow> 's \<Rightarrow> bool) \<Rightarrow> ('s \<Rightarrow> bool) \<Rightarrow> 's \<Rightarrow> bool" where
  "wpe m Q E s = (case m s of (s', Ret x) \<Rightarrow> Q x s' | (s', Fail e) \<Rightarrow> E s' | (s', Panic p) \<Rightarrow> False)"

lemma wpe_bind [wpe_simps]: "wpe (act_bind m f) Q E s = wpe m (\<lambda>x. wpe (f x) Q E) E s"
  by (cases "m s"; cases "snd (m s)") (auto simp: wpe_def act_bind_def)

lemma wpe_then [wpe_simps]: "wpe (act_then m n) Q E s = wpe m (\<lambda>_. wpe n Q E) E s"
  by (simp add: act_then_def wpe_bind)

lemma wpe_ret [wpe_simps]: "wpe (act_ret x) Q E s = Q x s"
  by (simp add: wpe_def act_ret_def)

lemma wpe_fail [wpe_simps]: "wpe (act_fail e) Q E s = E s"
  by (simp add: wpe_def act_fail_def)

lemma wpe_lift [wpe_simps]: "wpe (act_lift g) Q E s = (case g of Ret x \<Rightarrow> Q x s | Fail e \<Rightarrow> E s | Panic p \<Rightarrow> False)"
  by (simp add: wpe_def act_lift_def split: go.split)

lemma wpe_try [wpe_simps]: "wpe (act_try g h k) Q E s =
    (case g of Ret x \<Rightarrow> wpe (k x) Q E s | Fail e \<Rightarrow> wpe (h e) Q E s | Panic p \<Rightarrow> False)"
  by (simp add: wpe_def act_try_def split: go.split)

lemma wpe_get [wpe_simps]: "wpe get_resource Q E s = Q (rx_Resource s) s"
  by (simp add: wpe_def get_resource_def)

lemma wpe_set [wpe_simps]: "wpe (set_resource f) Q E s = Q () (s\<lparr>rx_Resource := f (rx_Resource s)\<rparr>)"
  by (simp add: wpe_def set_resource_def)

lemma wpe_mark [wpe_simps]: "wpe (mark_as type status reason msg) Q E s =
    Q () (s\<lparr>rx_Marks := rx_Marks s @ [Mark type status reason msg]\<rparr>)"
  by (simp add: wpe_def mark_as_def)

lemma wpe_eventf [wpe_simps]: "wpe (eventf reason msg) Q E s = Q () (s\<lparr>rx_Events := rx_Events s @ [(reason, msg)]\<rparr>)"
  by (simp add: wpe_def eventf_def)

lemma wpe_requeue [wpe_simps]: "wpe (requeue r) Q E s = Q () (s\<lparr>rx_Results := rx_Results s @ [r]\<rparr>)"
  by (simp add: wpe_def requeue_def)

lemma wpe_stash [wpe_simps]:
  "wpe (stash_Store sh v) Q E s = Q () (s\<lparr>rx_Stash := sh_put sh (Some v) (rx_Stash s)\<rparr>)"
  "wpe (stash_Clear sh) Q E s = Q () (s\<lparr>rx_Stash := sh_put sh None (rx_Stash s)\<rparr>)"
  "wpe (stash_Retrieve sh) R E s = R (sh_get sh (rx_Stash s)) s"
  "wpe (stash_RetrieveOrDie sh) R' E s = (case sh_get sh (rx_Stash s) of None \<Rightarrow> False | Some v \<Rightarrow> R' v s)"
  "wpe (stash_RetrieveOrError sh) R' E s = (case sh_get sh (rx_Stash s) of None \<Rightarrow> E s | Some v \<Rightarrow> R' v s)"
  by (auto simp: wpe_def act_simps split: option.split)

lemma wpe_empty [wpe_simps]: "wpe (stash_RetrieveOrEmpty sh) Q E s =
    Q (case sh_get sh (rx_Stash s) of None \<Rightarrow> [] | Some v \<Rightarrow> v) s"
  by (simp add: wpe_def stash_RetrieveOrEmpty_def)

lemma wpe_let [wpe_simps]: "wpe (Let x f) Q E s = wpe (f x) Q E s"
  by simp

lemma wpe_if [wpe_simps]: "wpe (if b then m else n) Q E s = (if b then wpe m Q E s else wpe n Q E s)"
  by simp

lemma wpe_option [wpe_simps]: "wpe (case p of None \<Rightarrow> m | Some x \<Rightarrow> f x) Q E s =
    (case p of None \<Rightarrow> wpe m Q E s | Some x \<Rightarrow> wpe (f x) Q E s)"
  by (simp split: option.split)

lemma wpe_prod [wpe_simps]: "wpe (case p of (x, y) \<Rightarrow> f x y) Q E s = (case p of (x, y) \<Rightarrow> wpe (f x y) Q E s)"
  by (simp split: prod.split)

lemma wpe_mono:
  "wpe m Q E s \<Longrightarrow> (\<And>x s'. Q x s' \<Longrightarrow> Q' x s') \<Longrightarrow> (\<And>s'. E s' \<Longrightarrow> E' s') \<Longrightarrow> wpe m Q' E' s"
  by (cases "m s"; cases "snd (m s)") (auto simp: wpe_def)

lemma wpe_no_panic: "wpe m Q E s \<Longrightarrow> snd (m s) \<noteq> Panic p"
  by (cases "m s"; cases "snd (m s)") (auto simp: wpe_def)

lemma wpe_Ret: "wpe m Q E s \<Longrightarrow> m s = (s', Ret x) \<Longrightarrow> Q x s'"
  by (simp add: wpe_def)

lemma wpe_iff_Ret: "wpe m Q E s \<Longrightarrow> (\<exists>s' x. m s = (s', Ret x) \<and> Q x s') \<or> (\<exists>s' e. m s = (s', Fail e) \<and> E s')"
  by (cases "m s"; cases "snd (m s)") (auto simp: wpe_def)

section \<open>Sequence and Always\<close>

text \<open>
  The combinators of the runtime, as documented.  \<^verbatim>\<open>Sequence\<close> calls its sub reconcilers in order and
  skips the rest when one of them errs; \<^verbatim>\<open>Always\<close> calls each of them whatever the others return and
  joins the errors.
\<close>

definition sequences :: "(('s, unit) act list \<Rightarrow> ('s, unit) act) \<Rightarrow> bool" where
  "sequences sq \<longleftrightarrow> (\<forall>s. sq [] s = (s, Ret ())) \<and> (\<forall>r rs. sq (r # rs) = act_then r (sq rs))"

definition calls_all :: "(('s, unit) act list \<Rightarrow> ('s, unit) act) \<Rightarrow> bool" where
  "calls_all al \<longleftrightarrow> (\<forall>s. al [] s = (s, Ret ())) \<and> (\<forall>r rs s s1 g1. r s = (s1, g1) \<longrightarrow>
     (case g1 of
        Panic p \<Rightarrow> al (r # rs) s = (s1, Panic p)
      | Ret _ \<Rightarrow> al (r # rs) s = al rs s1
      | Fail e \<Rightarrow> fst (al (r # rs) s) = fst (al rs s1) \<and>
          (case snd (al rs s1) of Panic p \<Rightarrow> snd (al (r # rs) s) = Panic p
           | _ \<Rightarrow> (\<exists>e'. snd (al (r # rs) s) = Fail e'))))"

lemma wpe_sequence:
  assumes "sequences sq"
  shows "wpe (sq []) Q E s = Q () s" "wpe (sq (r # rs)) Q E s = wpe r (\<lambda>_. wpe (sq rs) Q E) E s"
  using assms by (simp_all add: sequences_def wpe_then) (simp add: wpe_def)

lemma wpe_always:
  assumes "calls_all al"
  shows "wpe (al []) Q E s = Q () s"
    "wpe (al (r # rs)) Q E s = wpe r (\<lambda>_. wpe (al rs) Q E) (wpe (al rs) (\<lambda>_. E) E) s"
proof -
  from assms show "wpe (al []) Q E s = Q () s" by (simp add: calls_all_def wpe_def)
  obtain s1 g1 where r: "r s = (s1, g1)" by (cases "r s")
  from assms have *: "case g1 of
        Panic p \<Rightarrow> al (r # rs) s = (s1, Panic p)
      | Ret _ \<Rightarrow> al (r # rs) s = al rs s1
      | Fail e \<Rightarrow> fst (al (r # rs) s) = fst (al rs s1) \<and>
          (case snd (al rs s1) of Panic p \<Rightarrow> snd (al (r # rs) s) = Panic p
           | _ \<Rightarrow> (\<exists>e'. snd (al (r # rs) s) = Fail e'))"
    unfolding calls_all_def using r by blast
  show "wpe (al (r # rs)) Q E s = wpe r (\<lambda>_. wpe (al rs) Q E) (wpe (al rs) (\<lambda>_. E) E) s"
  proof (cases g1)
    case (Fail e)
    obtain s2 g2 where "al rs s1 = (s2, g2)" by (cases "al rs s1")
    with * r Fail show ?thesis
      by (cases "al (r # rs) s"; cases g2) (auto simp: wpe_def)
  qed (use * r in \<open>auto simp: wpe_def split: go.splits\<close>)
qed

lemma calls_all_steps:
  assumes "calls_all al" "r s = (s1, g)"
  shows "g = Ret u \<Longrightarrow> al (r # rs) s = al rs s1" "g = Panic p \<Longrightarrow> al (r # rs) s = (s1, Panic p)"
    "g = Fail e \<Longrightarrow> snd (al rs s1) = Panic p \<Longrightarrow> snd (al (r # rs) s) = Panic p"
proof -
  from assms have "case g of
        Panic p \<Rightarrow> al (r # rs) s = (s1, Panic p)
      | Ret _ \<Rightarrow> al (r # rs) s = al rs s1
      | Fail e \<Rightarrow> fst (al (r # rs) s) = fst (al rs s1) \<and>
          (case snd (al rs s1) of Panic p \<Rightarrow> snd (al (r # rs) s) = Panic p
           | _ \<Rightarrow> (\<exists>e'. snd (al (r # rs) s) = Fail e'))"
    unfolding calls_all_def by blast
  then show "g = Ret u \<Longrightarrow> al (r # rs) s = al rs s1" "g = Panic p \<Longrightarrow> al (r # rs) s = (s1, Panic p)"
    "g = Fail e \<Longrightarrow> snd (al rs s1) = Panic p \<Longrightarrow> snd (al (r # rs) s) = Panic p"
    by simp_all
qed

text \<open>Two functions with these laws, used by the concrete instances.\<close>

fun run_sequence :: "('s, unit) act list \<Rightarrow> ('s, unit) act" where
  "run_sequence [] = act_ret ()"
| "run_sequence (r # rs) = act_then r (run_sequence rs)"

fun run_always :: "('s, unit) act list \<Rightarrow> ('s, unit) act" where
  "run_always [] s = (s, Ret ())"
| "run_always (r # rs) s = (case r s of
     (s1, Panic p) \<Rightarrow> (s1, Panic p)
   | (s1, Ret _) \<Rightarrow> run_always rs s1
   | (s1, Fail e) \<Rightarrow> (case run_always rs s1 of
        (s2, Panic p) \<Rightarrow> (s2, Panic p)
      | (s2, Ret _) \<Rightarrow> (s2, Fail (errors_Join [e]))
      | (s2, Fail e') \<Rightarrow> (s2, Fail (errors_Join [e, e']))))"

lemma run_sequence_law: "sequences run_sequence"
  by (simp add: sequences_def act_ret_def)

lemma run_always_law: "calls_all run_always"
  by (auto simp: calls_all_def split: go.splits prod.splits)

end
