(* ===== verification/Plugins.thy ===== *)
theory Plugins
  imports Reconcile "HOL-Library.Multiset"
begin

text \<open>
  The calls into the embedded wasm plugins (\<^verbatim>\<open>components/components.go\<close>).  \<open>get\<close> is what the pool
  returns: a plugin, or a panic when it cannot be started; a plugin maps the name of its function and
  the input to the output.  Every call recovers from a panic.
\<close>

type_synonym plugin = "string \<Rightarrow> string \<Rightarrow> string go"

text \<open>The pool starts a plugin when it has none to give; \<open>started\<close> is \<^verbatim>\<open>bootstrapPlugin\<close>, whose error becomes a panic.\<close>

definition bootstrapPool :: "(gerr \<Rightarrow> string) \<Rightarrow> plugin go \<Rightarrow> plugin go" where
  "bootstrapPool errText started = (case started of Fail err \<Rightarrow> Panic (errText err) | g \<Rightarrow> g)"

definition recovered :: "string \<Rightarrow> 'a go \<Rightarrow> 'a go" where
  "recovered what g = (case g of Panic m \<Rightarrow> Fail (Text (''panic calling '' @ what @ '': '' @ m)) | _ \<Rightarrow> g)"

definition ExtractWIT :: "plugin go \<Rightarrow> string \<Rightarrow> string go" where
  "ExtractWIT get component = recovered ''ExtractWIT'' (bind_go get (\<lambda>plugin. plugin ''extract'' component))"

text \<open>
  A Go map is iterated in any order: \<open>entries\<close> is the order of this call.  \<open>text_of\<close> prints a JSON
  document.  The pairs are sorted by key before they are handed over.
\<close>

definition ComponentizeConfigStore :: "plugin go \<Rightarrow> (json \<Rightarrow> string) \<Rightarrow> (string \<times> string) list \<Rightarrow> string go" where
  "ComponentizeConfigStore get text_of entries = recovered ''ComponentizeConfigStore''
     (bind_go get (\<lambda>plugin. let c = sort_key fst entries in
        plugin ''build_component'' (text_of (JArr (map (\<lambda>(k, v). JArr [JStr k, JStr v]) c)))))"

text \<open>\<open>b64\<close> is the encoding of bytes in JSON.\<close>

definition wac_input :: "(json \<Rightarrow> string) \<Rightarrow> (string \<Rightarrow> string) \<Rightarrow> string \<Rightarrow> 'd ResolvedComponent list \<Rightarrow> string" where
  "wac_input text_of b64 script dependencies = text_of (JObj [(''script'', JStr script),
     (''dependencies'', JArr (map (\<lambda>d. JObj [(''name'', JStr (rc_Name d)), (''component'', JStr (b64 (rc_Component d)))])
        dependencies))])"

definition WACCompose :: "plugin go \<Rightarrow> (json \<Rightarrow> string) \<Rightarrow> (string \<Rightarrow> string) \<Rightarrow> string \<Rightarrow> 'd ResolvedComponent list \<Rightarrow> string go" where
  "WACCompose get text_of b64 wac dependencies = recovered ''WACCompose''
     (bind_go get (\<lambda>plugin. plugin ''compose'' (wac_input text_of b64 wac dependencies)))"

definition WACPlug :: "plugin go \<Rightarrow> (json \<Rightarrow> string) \<Rightarrow> (string \<Rightarrow> string) \<Rightarrow> 'd ResolvedComponent list \<Rightarrow> string go" where
  "WACPlug get text_of b64 dependencies = recovered ''WACPlug''
     (bind_go get (\<lambda>plugin. plugin ''plug'' (wac_input text_of b64 '''' dependencies)))"

lemma recovered_not_Panic [simp]: "recovered what g \<noteq> Panic m"
  by (cases g) (simp_all add: recovered_def)

lemma sort_entries_unique:
  assumes "distinct (map fst xs)" "distinct (map fst ys)" "map_of xs = map_of ys"
  shows "sort_key fst xs = sort_key fst (ys :: (string \<times> string) list)"
proof -
  have "set xs = set ys"
    using assms by (metis map_of_eqI map_of_is_SomeI map_of_SomeD subrelI subset_antisym)
  moreover have "distinct xs" "distinct ys" using assms by (auto simp: distinct_map)
  ultimately have "mset xs = mset ys" by (simp add: set_eq_iff_mset_eq_distinct)
  moreover have "inj_on fst (set xs)" using assms by (simp add: distinct_map)
  ultimately show ?thesis
    by (intro sort_key_inj_key_eq) (simp_all add: sorted_sort_key)
qed

text \<open>The component built from a config store depends on the configuration only: whatever order the Go
  map is iterated in, the plugin gets the same document, with the entries in the order of their keys.\<close>

theorem ComponentizeConfigStore_deterministic:
  assumes "distinct (map fst entries)" "distinct (map fst entries')" "map_of entries = map_of entries'"
  shows "ComponentizeConfigStore get text_of entries = ComponentizeConfigStore get text_of entries'"
  using sort_entries_unique [OF assms] by (simp add: ComponentizeConfigStore_def)

lemma ComponentizeConfigStore_deterministic_witness:
  "ComponentizeConfigStore (Ret (\<lambda>f x. Ret x)) (\<lambda>j. if j = JArr [JArr [JStr ''a'', JStr ''1''], JArr [JStr ''b'', JStr ''2'']]
       then ''sorted'' else ''unsorted'') [(''b'', ''2''), (''a'', ''1'')] = Ret ''sorted''"
proof -
  let ?text = "\<lambda>j. if j = JArr [JArr [JStr ''a'', JStr ''1''], JArr [JStr ''b'', JStr ''2'']] then ''sorted'' else ''unsorted''"
  have "map_of [(''b'', ''2''), (''a'', ''1'')] = map_of [(''a'', ''1''), (''b'', ''2'')]" by auto
  then have "ComponentizeConfigStore (Ret (\<lambda>f x. Ret x)) ?text [(''b'', ''2''), (''a'', ''1'')] =
      ComponentizeConfigStore (Ret (\<lambda>f x. Ret x)) ?text [(''a'', ''1''), (''b'', ''2'')]"
    by (intro ComponentizeConfigStore_deterministic) auto
  also have "\<dots> = Ret ''sorted''" by code_simp
  finally show ?thesis .
qed

text \<open>A plugin that cannot be started fails the call and not the manager.\<close>

lemma plugin_not_started:
  "ExtractWIT (bootstrapPool errText (Fail err)) component = Fail (Text (''panic calling ExtractWIT: '' @ errText err))"
  "ComponentizeConfigStore (bootstrapPool errText (Fail err)) text_of entries =
     Fail (Text (''panic calling ComponentizeConfigStore: '' @ errText err))"
  "WACCompose (bootstrapPool errText (Fail err)) text_of b64 wac dependencies = Fail (Text (''panic calling WACCompose: '' @ errText err))"
  "WACPlug (bootstrapPool errText (Fail err)) text_of b64 dependencies = Fail (Text (''panic calling WACPlug: '' @ errText err))"
  by (simp_all add: bootstrapPool_def recovered_def ExtractWIT_def ComponentizeConfigStore_def WACCompose_def WACPlug_def)

text \<open>No plugin call panics, whatever the plugin or its start does: a panic becomes an error.\<close>

theorem plugin_calls_never_panic:
  "ExtractWIT get component \<noteq> Panic m \<and> ComponentizeConfigStore get text_of entries \<noteq> Panic m \<and>
   WACCompose get text_of b64 wac dependencies \<noteq> Panic m \<and> WACPlug get text_of b64 dependencies \<noteq> Panic m"
  by (simp add: ExtractWIT_def ComponentizeConfigStore_def WACCompose_def WACPlug_def)

end
