(* ===== verification/Duck_Controllers.thy ===== *)
theory Duck_Controllers
  imports Plugins Containers_Api
begin

text \<open>
  The sub reconcilers every controller is built from (\<^verbatim>\<open>controllers/duck_controller.go\<close>): resolving an
  image, a repository or a keychain, pushing a component, managing the child component, reflecting
  the status, and managing the container image of a trigger.
\<close>

section \<open>What the reconcilers read\<close>

record ComponentDuckStatus =
  cdk_Status :: apis_Status
  cdk_Generic :: GenericComponentStatus

type_synonym ComponentDuck = "(GenericComponentSpec, ComponentDuckStatus) resource"

record ImageStatus =
  ist_Status :: apis_Status
  ist_Image :: string

text \<open>
  The API server as the tracking client shows it, the scheme, and the libraries.  \<open>cx_GVKFor\<close> looks
  up the kind of an object by its Go type and its type meta, \<open>cx_entries\<close> is the order in which a Go
  map is iterated, \<open>cx_base64\<close> the encoding of bytes in JSON, \<open>cx_Convert\<close> is \<^verbatim>\<open>duck.Convert\<close> of an
  image into a component, \<open>cx_errText\<close> the text of an error.
\<close>

record ('kc, 'd, 't, 'desc, 'sec, 'w) cluster =
  cx_ctx :: ctx
  cx_lib :: "('d, 't) oci_lib"
  cx_NewDigestStrict :: "string \<Rightarrow> 'd go"
  cx_remote :: "('d, 't, 'kc, 'desc, 'w) remote"
  cx_witToolsPool :: "plugin go"
  cx_staticConfigPool :: "plugin go"
  cx_wacPool :: "plugin go"
  cx_base64 :: "string \<Rightarrow> string"
  cx_entries :: "(string \<rightharpoonup> string) \<Rightarrow> (string \<times> string) list"
  cx_conds :: cond_lib
  cx_Repository :: "string \<Rightarrow> string \<Rightarrow> apis_Status Repository go"
  cx_ClusterRepository :: "string \<Rightarrow> apis_Status ClusterRepository go"
  cx_Image :: "string \<Rightarrow> string \<Rightarrow> ImageStatus Image go"
  cx_ClusterImage :: "string \<Rightarrow> ImageStatus ClusterImage go"
  cx_Component :: "string \<times> string \<Rightarrow> string \<times> string \<Rightarrow> ComponentDuck go"
  cx_ConfigMap :: "string \<Rightarrow> string \<Rightarrow> (string \<rightharpoonup> string) go"
  cx_ServiceAccount :: "string \<Rightarrow> string \<Rightarrow> ServiceAccount go"
  cx_Secret :: "string \<Rightarrow> string \<Rightarrow> 'sec go"
  cx_FromPullSecrets :: "'sec list \<Rightarrow> 'kc go"
  cx_MultiKeychain :: "'kc \<Rightarrow> 'kc \<Rightarrow> 'kc"
  cx_template :: "string \<Rightarrow> (string \<rightharpoonup> string) \<Rightarrow> string go"
  cx_GVKFor :: "string \<Rightarrow> string \<times> string \<Rightarrow> GroupVersionKind go"
  cx_Convert :: "ImageStatus Image \<Rightarrow> span_source"
  cx_errText :: "gerr \<Rightarrow> string"

type_synonym ('r, 'kc, 'd, 't, 'w, 'a) handler = "(('r, 'kc, 'd, 't, 'w) rstate, 'a) act"

text \<open>The digest part of an image reference; an image that is not a digest has none.\<close>

definition digest_part :: "('d, 't) oci_lib \<Rightarrow> string \<Rightarrow> string" where
  "digest_part lib img = (case lib_NewDigest lib img of Ret d \<Rightarrow> lib_DigestStr lib d | _ \<Rightarrow> '''')"

text \<open>An object that publishes a component: how its parts are read and written.\<close>

record 'r component_like =
  ck_Meta :: "'r \<Rightarrow> ObjectMeta"
  ck_GVK :: "GroupVersionKind go"
  ck_GetGenericComponentSpec :: "'r \<Rightarrow> GenericComponentSpec"
  ck_GetGenericComponentStatus :: "'r \<Rightarrow> GenericComponentStatus"
  ck_put_status :: "GenericComponentStatus \<Rightarrow> 'r \<Rightarrow> 'r"

section \<open>References\<close>

text \<open>The duck client reports a type it does not know with its own sentinel.\<close>

definition ErrUnknownDuck :: gerr where
  "ErrUnknownDuck = Sentinel ''ErrUnknownDuck''"

definition ResolveComponentReference ::
    "('kc, 'd, 't, 'desc, 'sec, 'w) cluster \<Rightarrow> ComponentReference \<Rightarrow> ComponentDuck go" where
  "ResolveComponentReference cx ref =
     (case cx_Component cx (ComponentReference_TypeMeta ref) (ComponentReference_NamespacedName ref) of
        Fail err \<Rightarrow> if errors_Is err ErrUnknownDuck then Fail ErrNotComponent else Fail err
      | g \<Rightarrow> g)"

section \<open>Repositories\<close>

text \<open>
  The check both resolvers make before they use an object: its generation is observed and it is
  ready.  \<open>what\<close> names the object in the message.
\<close>

definition check_ready :: "cond_lib \<Rightarrow> string \<Rightarrow> string \<Rightarrow> string \<Rightarrow> (apis_Status \<Rightarrow> apis_Status) \<Rightarrow> int \<Rightarrow>
    apis_Status \<Rightarrow> ('r, 'kc, 'd, 't, 'w, unit) handler" where
  "check_ready cl conditionType notReady what initialize generation status =
     (if generation \<noteq> as_ObservedGeneration status
      then act_then (mark_as conditionType CUnknown ''Blocked'' (''waiting for '' @ what @ '' to reconcile''))
             (act_fail ErrGenerationMismatch)
      else let ready = cl_Get cl (initialize status) ''Ready'' in
        if cl_IsTrue cl ready then act_ret ()
        else case ready of
            None \<Rightarrow> act_lift (Panic ''nil pointer dereference'')
          | Some r \<Rightarrow> act_then (mark_as conditionType (if cl_IsFalse cl ready then CFalse else CUnknown) notReady
                       (cn_Reason r @ '': '' @ cn_Message r))
                     (act_fail ErrDurable))"

definition fetch_repository :: "('kc, 'd, 't, 'desc, 'sec, 'w) cluster \<Rightarrow> string \<Rightarrow> RepositoryReference \<Rightarrow>
    apis_Status Repository go" where
  "fetch_repository cx namespace ref = (if rr_Kind ref = ''ClusterRepository''
     then cx_ClusterRepository cx (rr_Name ref) else cx_Repository cx namespace (rr_Name ref))"

definition default_repository :: "ctx \<Rightarrow> RepositoryReference \<Rightarrow> apis_Status Repository \<Rightarrow> apis_Status Repository go" where
  "default_repository c ref r = (if rr_Kind ref = ''ClusterRepository''
     then ClusterRepository_Default c r else Repository_Default c r)"

text \<open>The keychain of the repository goes before the one that is stashed already.\<close>

definition stash_keychain :: "('kc, 'd, 't, 'desc, 'sec, 'w) cluster \<Rightarrow> 'kc \<Rightarrow> ('r, 'kc, 'd, 't, 'w, unit) handler" where
  "stash_keychain cx keychain = act_bind (stash_Retrieve RepositoryKeychainStasher) (\<lambda>kc.
     stash_Store RepositoryKeychainStasher (case kc of None \<Rightarrow> keychain | Some k \<Rightarrow> cx_MultiKeychain cx keychain k))"

definition repository_keychain :: "('kc, 'd, 't, 'desc, 'sec, 'w) cluster \<Rightarrow> RepositorySpec \<Rightarrow> 'kc go" where
  "repository_keychain cx = KeychainForRepo (cx_ServiceAccount cx) (cx_Secret cx) (cx_FromPullSecrets cx)"

text \<open>The part \<^verbatim>\<open>ResolveImage\<close> and \<^verbatim>\<open>ResolveRepository\<close> share: from the reference to the stashed keychain.\<close>

definition use_repository :: "('kc, 'd, 't, 'desc, 'sec, 'w) cluster \<Rightarrow> string \<Rightarrow> string \<Rightarrow> RepositoryReference \<Rightarrow>
    ('r, 'kc, 'd, 't, 'w, apis_Status Repository) handler" where
  "use_repository cx conditionType namespace ref =
     act_try (fetch_repository cx namespace ref)
       (\<lambda>err. if IsNotFound err
          then act_then (mark_as conditionType CFalse ''RepositoryNotFound'' (rr_Kind ref @ '' '' @ rr_Name ref @ '' not found''))
                 (act_fail ErrDurable)
          else act_fail err)
       (\<lambda>repository. act_then (check_ready (cx_conds cx) conditionType ''RepositoryNotReady''
            (rr_Kind ref @ '' '' @ rr_Name ref) (RepositoryStatus_InitializeConditions (cx_conds cx))
            (om_Generation (rs_Meta repository)) (rs_Status repository))
          (act_try (default_repository (cx_ctx cx) ref repository) act_fail
       (\<lambda>repository. act_try (repository_keychain cx (rs_Spec repository))
            (\<lambda>err. act_fail (errors_Join [err, ErrTransient]))
       (\<lambda>keychain. act_then (stash_keychain cx keychain) (act_ret repository)))))"

definition template_tag :: "('kc, 'd, 't, 'desc, 'sec, 'w) cluster \<Rightarrow> string \<Rightarrow> ObjectMeta \<Rightarrow> GroupVersionKind go \<Rightarrow> 't go" where
  "template_tag cx template obj gvk = (case gvk of
     Ret g \<Rightarrow> ApplyTemplate (cx_lib cx) (cx_template cx) template obj (gvk_Group g) (gvk_Kind g)
   | Fail _ \<Rightarrow> ApplyTemplate (cx_lib cx) (cx_template cx) template obj '''' ''''
   | Panic m \<Rightarrow> Panic m)"

definition ResolveRepository :: "('kc, 'd, 't, 'desc, 'sec, 'w) cluster \<Rightarrow> ('r \<Rightarrow> ObjectMeta) \<Rightarrow> GroupVersionKind go \<Rightarrow>
    ('r \<Rightarrow> RepositoryReference) \<Rightarrow> string \<Rightarrow> ('r, 'kc, 'd, 't, 'w, unit) handler" where
  "ResolveRepository cx meta gvk GetRepositoryReference conditionType =
     act_bind get_resource (\<lambda>resource.
     act_bind (use_repository cx conditionType (om_Namespace (meta resource)) (GetRepositoryReference resource)) (\<lambda>repository.
     act_try (template_tag cx (rps_Template (rs_Spec repository)) (meta resource) gvk) act_fail (\<lambda>tagRef.
     act_then (stash_Store RepositoryTagStasher tagRef)
       (mark_as conditionType CTrue ''Ready'' ''''))))"

section \<open>Traces\<close>

text \<open>
  \<^verbatim>\<open>ReflectTrace\<close> writes the trace into the status of an object that publishes a component, and
  patches any other object; \<open>patch\<close> is the JSON patch.
\<close>

definition ReflectTrace :: "'r component_like option \<Rightarrow> (ComponentSpan list \<Rightarrow> 'r \<Rightarrow> 'r go) \<Rightarrow> ComponentSpan list \<Rightarrow> 'r \<Rightarrow> 'r go" where
  "ReflectTrace like patch trace resource = (case like of
     Some ck \<Rightarrow> Ret (ck_put_status ck ((ck_GetGenericComponentStatus ck resource)\<lparr>gst_Trace := trace\<rparr>) resource)
   | None \<Rightarrow> patch trace resource)"

text \<open>
  The step all reconcilers take when they have found what they build on: append its span to the
  trace and stop on a cycle, with the message \<open>msg\<close>.
\<close>

definition extend_trace :: "ComponentSpan go \<Rightarrow> ObjectMeta \<Rightarrow> string \<Rightarrow> string \<Rightarrow>
    (ComponentSpan list \<Rightarrow> ('r, 'kc, 'd, 't, 'w, unit) handler) \<Rightarrow> ('r, 'kc, 'd, 't, 'w, unit) handler" where
  "extend_trace span obj conditionType msg reflect =
     act_bind (stash_RetrieveOrEmpty ComponentTraceStasher) (\<lambda>before.
     act_bind (act_lift span) (\<lambda>s. let trace = before @ [s] in
     act_then (stash_Store ComponentTraceStasher trace)
       (let (hasCycle, sanitizedTrace) = DetectTraceCycle trace obj in
        if hasCycle then
          act_then (mark_as conditionType CFalse ''CycleDetected'' msg)
            (act_then (reflect sanitizedTrace) (act_fail ErrDurable))
        else act_ret ())))"

section \<open>Images\<close>

definition fetch_image :: "('kc, 'd, 't, 'desc, 'sec, 'w) cluster \<Rightarrow> string \<Rightarrow> ImageReference \<Rightarrow> ImageStatus Image go" where
  "fetch_image cx namespace ref = (if ir_Kind ref = ''ClusterImage''
     then cx_ClusterImage cx (ir_Name ref) else cx_Image cx namespace (ir_Name ref))"

definition default_image :: "ctx \<Rightarrow> ImageReference \<Rightarrow> ImageStatus Image \<Rightarrow> ImageStatus Image go" where
  "default_image c ref r = (if ir_Kind ref = ''ClusterImage'' then ClusterImage_Default c r else Image_Default c r)"

text \<open>The namespace of the image reference is not used: an image is looked up beside the resource.\<close>

definition ResolveImage :: "('kc, 'd, 't, 'desc, 'sec, 'w) cluster \<Rightarrow> ('r \<Rightarrow> ObjectMeta) \<Rightarrow> ('r \<Rightarrow> ImageReference) \<Rightarrow>
    (ComponentSpan list \<Rightarrow> 'r \<Rightarrow> 'r go) \<Rightarrow> string \<Rightarrow> ('r, 'kc, 'd, 't, 'w, unit) handler" where
  "ResolveImage cx meta GetImageReference reflectTrace conditionType =
     act_bind get_resource (\<lambda>resource.
     let imageRef = GetImageReference resource; namespace = om_Namespace (meta resource);
         what = ir_Kind imageRef @ '' '' @ ir_Name imageRef in
     act_try (fetch_image cx namespace imageRef)
       (\<lambda>err. if IsNotFound err
          then act_then (mark_as conditionType CFalse ''ImageNotFound'' (what @ '' not found'')) (act_fail ErrDurable)
          else act_fail err)
       (\<lambda>img. act_then (extend_trace
            (SynthesizeSpan (digest_part (cx_lib cx))
               (cx_GVKFor cx (if ir_Kind imageRef = ''ClusterImage'' then ''ClusterImage'' else ''Image'') ('''', ''''))
               (rs_Meta img) (cx_Convert cx img))
            (meta resource) conditionType ''components may not reference themselves directly or transitively''
            (\<lambda>sanitized. case reflectTrace sanitized resource of
                 Ret r \<Rightarrow> set_resource (\<lambda>_. r)
               | Fail err \<Rightarrow> act_lift (Panic (cx_errText cx err))
               | Panic m \<Rightarrow> act_lift (Panic m)))
          (act_then (check_ready (cx_conds cx) conditionType ''ImageNotReady'' what
               (ImageStatus_InitializeConditions (cx_conds cx)) (om_Generation (rs_Meta img)) (ist_Status (rs_Status img)))
          (act_try (default_image (cx_ctx cx) imageRef img) act_fail
       (\<lambda>img. act_bind (use_repository cx conditionType namespace (is_RepositoryRef (rs_Spec img)))
       (\<lambda>_. act_try (cx_NewDigestStrict cx (ist_Image (rs_Status img))) act_fail
       (\<lambda>imageDigest. act_then (stash_Store RemoteImageStasher imageDigest)
          (mark_as conditionType CTrue ''Ready'' ''''))))))))"

section \<open>Credentials of a service account\<close>

text \<open>
  \<^verbatim>\<open>err.(apierrs.APIStatus).Status()\<close>: the kind that is reported is the one of the \<^verbatim>\<open>Status\<close> object itself, not the one of the
  object that was not found.  The assertion panics for an error that only wraps one of the API server, which \<^verbatim>\<open>IsNotFound\<close> accepts.
\<close>

fun api_status :: "gerr \<Rightarrow> (string \<times> string) go" where
  "api_status (ApiErr _ kind name) = Ret (kind, name)"
| "api_status _ = Panic ''interface conversion: error is not errors.APIStatus''"

definition ResolveKeychain :: "('kc, 'd, 't, 'desc, 'sec, 'w) cluster \<Rightarrow> ('r \<Rightarrow> ServiceAccountReference option) \<Rightarrow>
    string \<Rightarrow> ('r, 'kc, 'd, 't, 'w, unit) handler" where
  "ResolveKeychain cx GetServiceAccountReference conditionType =
     act_bind get_resource (\<lambda>resource. case GetServiceAccountReference resource of
       None \<Rightarrow> act_ret ()
     | Some ref \<Rightarrow> act_try (KeychainForServiceAccountRef (cx_ServiceAccount cx) (cx_Secret cx) (cx_FromPullSecrets cx) ref)
         (\<lambda>err. if IsNotFound err
            then act_bind (act_lift (api_status err)) (\<lambda>(kind, name).
                   act_then (mark_as conditionType CFalse (kind @ ''NotFound'') (kind @ '' '' @ name @ '' not found''))
                     (act_fail ErrDurable))
            else act_fail err)
         (\<lambda>keychain. stash_keychain cx keychain))"

section \<open>Pushing\<close>

text \<open>A step of the world: the registries of a request are part of its state.\<close>

definition act_world :: "('w \<Rightarrow> 'w \<times> 'a go) \<Rightarrow> ('r, 'kc, 'd, 't, 'w, 'a) handler" where
  [act_simps]: "act_world f s = (let (w', g) = f (rx_World s) in (s\<lparr>rx_World := w'\<rparr>, g))"

text \<open>The same with both branches of the error, as in \<open>act_try\<close>.\<close>

definition act_world_try :: "('w \<Rightarrow> 'w \<times> 'a go) \<Rightarrow> (gerr \<Rightarrow> ('r, 'kc, 'd, 't, 'w, 'b) handler) \<Rightarrow>
    ('a \<Rightarrow> ('r, 'kc, 'd, 't, 'w, 'b) handler) \<Rightarrow> ('r, 'kc, 'd, 't, 'w, 'b) handler" where
  "act_world_try f h k s = (let (w', g) = f (rx_World s) in act_try g h k (s\<lparr>rx_World := w'\<rparr>))"

definition PushComponent :: "('kc, 'd, 't, 'desc, 'sec, 'w) cluster \<Rightarrow> string \<Rightarrow> ('r, 'kc, 'd, 't, 'w, unit) handler" where
  "PushComponent cx conditionType =
     act_bind (stash_RetrieveOrDie ComponentStasher) (\<lambda>component.
     act_bind (stash_RetrieveOrDie RepositoryTagStasher) (\<lambda>tagRef.
     act_bind (stash_RetrieveOrDie RepositoryKeychainStasher) (\<lambda>keychain.
     act_world_try (Push (cx_lib cx) (cx_remote cx) (ExtractWIT (cx_witToolsPool cx)) keychain (RefTag tagRef) component)
       (\<lambda>err. act_then (eventf ''PushFailed'' (cx_errText cx err))
          (act_then (mark_as conditionType CFalse ''PushFailed''
               (''failed to push component to '' @ fmt_q (lib_TagName (cx_lib cx) tagRef)))
             (act_fail err)))
       (\<lambda>(digestRef, config). act_then (mark_as conditionType CTrue ''Pushed'' '''')
          (act_then (stash_Store RepositoryDigestStasher digestRef)
             (stash_Store ComponentConfigStasher config))))))"

section \<open>The child component\<close>

definition ChildComponentShouldExist :: "ObjectMeta \<Rightarrow> bool" where
  "ChildComponentShouldExist resource =
     (if om_Annotations resource CreateChildComponentAnnotation = Some ''true'' then True
      else if om_Annotations resource CreateChildComponentAnnotation = Some ''false'' then False
      else om_OwnerReferences resource = [])"

text \<open>\<^verbatim>\<open>MergeMaps\<close>: later maps win.\<close>

definition child_meta :: "ObjectMeta \<Rightarrow> string \<Rightarrow> string \<Rightarrow> string \<Rightarrow> ObjectMeta" where
  "child_meta parent childLabelKey name generateName = blank_meta
     \<lparr>om_Namespace := om_Namespace parent, om_Name := name, om_GenerateName := generateName,
      om_Labels := (om_Labels parent)(childLabelKey \<mapsto> om_Name parent)\<rparr>"

definition gvk_GroupVersion :: "GroupVersionKind \<Rightarrow> string" where
  "gvk_GroupVersion g = (if gvk_Group g = '''' then gvk_Version g else gvk_Group g @ ''/'' @ gvk_Version g)"

definition ComponentChild_DesiredChild :: "'r component_like \<Rightarrow> string \<Rightarrow> 'r \<Rightarrow> (ObjectMeta \<times> ComponentSpec) option go" where
  "ComponentChild_DesiredChild ck childLabelKey resource =
     (if \<not> ChildComponentShouldExist (ck_Meta ck resource) then Ret None else
      bind_go (ck_GVK ck) (\<lambda>gvk. let m = ck_Meta ck resource in
        Ret (Some (child_meta m childLabelKey (om_Name m) '''',
          \<lparr>cs_Generic = ck_GetGenericComponentSpec ck resource, cs_OCI = None,
           cs_Ref = Some \<lparr>cr_APIVersion = gvk_GroupVersion gvk, cr_Kind = gvk_Kind gvk,
             cr_Namespace = om_Namespace m, cr_Name = om_Name m\<rparr>\<rparr>))))"

text \<open>The merge of all updating child managers: labels and spec of the desired child, the rest is kept.\<close>

definition MergeBeforeUpdate :: "ObjectMeta \<times> 'spec \<Rightarrow> ObjectMeta \<times> 'spec \<Rightarrow> ObjectMeta \<times> 'spec" where
  "MergeBeforeUpdate current desired = ((fst current)\<lparr>om_Labels := om_Labels (fst desired)\<rparr>, snd desired)"

definition ComponentChild_Reflect :: "('kc, 'd, 't, 'desc, 'sec, 'w) cluster \<Rightarrow> ('r \<Rightarrow> ObjectMeta) \<Rightarrow> string \<Rightarrow>
    'child option \<Rightarrow> gerr option \<Rightarrow> ('r, 'kc, 'd, 't, 'w, unit) handler" where
  "ComponentChild_Reflect cx meta conditionType ch err =
     act_bind get_resource (\<lambda>parent. case err of
       Some e \<Rightarrow>
         (if IsInvalid e then act_then (mark_as conditionType CFalse ''Invalid'' (cx_errText cx e))
               (act_fail (errors_Join [e, ErrTransient]))
          else if IsAlreadyExists e then act_then (mark_as conditionType CFalse ''AlreadyExists''
                 (''another Component already exists with name '' @ om_Name (meta parent))) (act_fail ErrDurable)
          else act_then (mark_as conditionType CUnknown ''Unknown'' '''') (act_fail (errors_Join [e, ErrTransient])))
     | None \<Rightarrow> (case ch of
         None \<Rightarrow> if \<not> ChildComponentShouldExist (meta parent)
                 then mark_as conditionType CTrue ''NotNeeded'' ''''
                 else act_then (mark_as conditionType CFalse ''Missing'' '''') (act_fail ErrDurable)
       | Some _ \<Rightarrow> mark_as conditionType CTrue ''Exists'' ''''))"

section \<open>Reflecting the component\<close>

definition ReflectComponentableStatus :: "('kc, 'd, 't, 'desc, 'sec, 'w) cluster \<Rightarrow> 'r component_like \<Rightarrow>
    ('r, 'kc, 'd, 't, 'w, unit) handler" where
  "ReflectComponentableStatus cx ck =
     act_bind (stash_RetrieveOrDie RepositoryDigestStasher) (\<lambda>digestRef.
     act_bind (stash_RetrieveOrEmpty ComponentTraceStasher) (\<lambda>trace.
     act_bind (stash_Retrieve ComponentConfigStasher) (\<lambda>config.
     set_resource (\<lambda>r. ck_put_status ck ((ck_GetGenericComponentStatus ck r)
       \<lparr>gst_Image := lib_DigestName (cx_lib cx) digestRef, gst_Trace := trace,
        gst_WIT := (case config of None \<Rightarrow> None
          | Some cfg \<Rightarrow> Some \<lparr>wit_Imports = wcc_Imports (wc_Component cfg), wit_Exports = wcc_Exports (wc_Component cfg)\<rparr>)\<rparr>) r))))"

section \<open>The container image of a trigger\<close>

text \<open>A container: its metadata, its generic spec and the component status inside its own.\<close>

record 'r container_like =
  kc_Meta :: "'r \<Rightarrow> ObjectMeta"
  kc_GetGenericContainerSpec :: "'r \<Rightarrow> GenericContainerSpec"
  kc_put_status :: "GenericComponentStatus \<Rightarrow> 'r \<Rightarrow> 'r"

definition ContainerImageChild_DesiredChild :: "'r container_like \<Rightarrow> string \<Rightarrow> ImageReference \<Rightarrow> 'r \<Rightarrow>
    (ObjectMeta \<times> ComponentContainerImageSpec) option go" where
  "ContainerImageChild_DesiredChild k childLabelKey imageRef resource =
     (let m = kc_Meta k resource; spec = kc_GetGenericContainerSpec k resource in
      Ret (Some (child_meta m childLabelKey '''' (om_Name m @ ''-''),
        \<lparr>cci_Generic = gc_Generic spec, cci_Ref = gc_Ref spec, cci_ImageRef = imageRef\<rparr>)))"

type_synonym image_child = "(ComponentContainerImageSpec, ComponentDuckStatus) resource"

definition ContainerImageChild_Reflect :: "('kc, 'd, 't, 'desc, 'sec, 'w) cluster \<Rightarrow> 'r container_like \<Rightarrow> string \<Rightarrow>
    image_child option \<Rightarrow> gerr option \<Rightarrow> ('r, 'kc, 'd, 't, 'w, unit) handler" where
  "ContainerImageChild_Reflect cx k conditionType ch err =
     (case err of
       Some e \<Rightarrow> act_then (if IsInvalid e then mark_as conditionType CFalse ''Invalid'' (cx_errText cx e)
                           else mark_as conditionType CUnknown ''Unknown'' '''')
                   (act_fail (errors_Join [e, ErrTransient]))
     | None \<Rightarrow> (case ch of
         None \<Rightarrow> act_then (mark_as conditionType CFalse ''Missing'' '''') (act_fail ErrDurable)
       | Some c \<Rightarrow> let st = cdk_Status (rs_Status c); gen = cdk_Generic (rs_Status c); nm = om_Name (rs_Meta c);
                       ready = cl_Get (cx_conds cx) st ''Ready'' in
           if om_Generation (rs_Meta c) \<noteq> as_ObservedGeneration st
           then act_then (mark_as conditionType CUnknown ''Blocked'' (''waiting for ComponentContainerImage '' @ nm @ '' to reconcile''))
                  (act_fail ErrGenerationMismatch)
           else if \<not> cl_IsTrue (cx_conds cx) ready
           then act_then (mark_as conditionType CUnknown ''NotReady'' (''ComponentContainerImage '' @ nm @ '' is not ready''))
                  (act_fail ErrDurable)
           else if gst_Image gen = ''''
           then act_then (mark_as conditionType CFalse ''ImageMissing'' (''ComponentContainerImage '' @ nm @ '' is missing image''))
                  (act_fail ErrDurable)
           else act_bind (act_lift (SynthesizeSpan (digest_part (cx_lib cx)) (cx_GVKFor cx ''ComponentContainerImage'' ('''', ''''))
                    (rs_Meta c) (ComponentLike gen))) (\<lambda>span.
                act_then (set_resource (kc_put_status k (gen\<lparr>gst_Trace := [span]\<rparr>)))
                  (mark_as conditionType CTrue ''Ready'' ''''))))"

end
