(* ===== verification/Duck_Rules.thy ===== *)
theory Duck_Rules
  imports Duck_Controllers
begin

text \<open>
  What the shared sub reconcilers promise: when the API server and the libraries do not panic, none
  of them panics except where a stashed value is missing, and each leaves what the next one takes from the
  stash.
\<close>

section \<open>Calls that do not panic\<close>

definition quiet_go :: "'a go \<Rightarrow> bool" where
  "quiet_go g \<longleftrightarrow> (\<forall>m. g \<noteq> Panic m)"

lemma quiet_simps [simp]: "quiet_go (Ret x)" "quiet_go (Fail e)" "\<not> quiet_go (Panic m)"
  by (auto simp: quiet_go_def)

lemma quiet_bind [simp]: "quiet_go (bind_go g f) \<longleftrightarrow> quiet_go g \<and> (\<forall>x. g = Ret x \<longrightarrow> quiet_go (f x))"
  by (cases g) auto

lemma quiet_mapM: "(\<And>x. x \<in> set xs \<Longrightarrow> quiet_go (f x)) \<Longrightarrow> quiet_go (mapM_go f xs)"
  by (induction xs) auto

lemma quiet_returns: "returns g \<Longrightarrow> quiet_go g"
  by (auto simp: returns_def)

lemma quiet_case: "quiet_go g \<Longrightarrow>
    (case g of Ret x \<Rightarrow> P x | Fail e \<Rightarrow> R e | Panic m \<Rightarrow> False) \<longleftrightarrow> (\<forall>x. g = Ret x \<longrightarrow> P x) \<and> (\<forall>e. g = Fail e \<longrightarrow> R e)"
  by (cases g) auto

lemma quiet_plugins [simp]:
  "quiet_go (ExtractWIT get c)" "quiet_go (ComponentizeConfigStore get text_of es)"
  "quiet_go (WACCompose get text_of b64 wac ds)" "quiet_go (WACPlug get text_of b64 ds)"
  by (simp_all add: quiet_go_def ExtractWIT_def ComponentizeConfigStore_def WACCompose_def WACPlug_def)

definition calm_view :: "image_view \<Rightarrow> bool" where
  "calm_view v \<longleftrightarrow> quiet_go (iv_MediaType v) \<and> quiet_go (iv_Layers v) \<and> quiet_go (iv_RawConfigFile v) \<and>
     (\<forall>ls. iv_Layers v = Ret ls \<longrightarrow> (\<forall>l \<in> set ls. quiet_go (ly_Uncompressed l)))"

definition calm_lib :: "('d, 't) oci_lib \<Rightarrow> bool" where
  "calm_lib lib \<longleftrightarrow> (\<forall>s. quiet_go (lib_NewDigest lib s) \<and> quiet_go (lib_NewTag lib s))"

definition calm_remote :: "('d, 't, 'k, 'desc, 'w) remote \<Rightarrow> bool" where
  "calm_remote rm \<longleftrightarrow> quiet_go (rm_transport rm) \<and> (\<forall>k t w. quiet_go (rm_Head rm k t w)) \<and>
     (\<forall>k d w. quiet_go (rm_Get rm k d w) \<and> (\<forall>g. rm_Get rm k d w = Ret g \<longrightarrow> quiet_go g \<and> (\<forall>v. g = Ret v \<longrightarrow> calm_view v))) \<and>
     (\<forall>k r i w. quiet_go (snd (rm_Push rm k r i w))) \<and> (\<forall>k. quiet_go (rm_clients rm k)) \<and>
     (\<forall>k d w. quiet_go (rm_pull_desc rm k d w)) \<and> (\<forall>k t x w. quiet_go (snd (rm_push_desc rm k t x w)))"

text \<open>An error that reports a missing object is the one of the API server, not one that wraps it.\<close>

definition bare :: "'a go \<Rightarrow> bool" where
  "bare g \<longleftrightarrow> (\<forall>e. g = Fail e \<longrightarrow> IsNotFound e \<longrightarrow> (\<exists>r k n. e = ApiErr r k n))"

lemma bare_bind: "bare g \<Longrightarrow> (\<And>x. bare (f x)) \<Longrightarrow> bare (bind_go g f)"
  by (cases g) (simp_all add: bare_def)

lemma bare_mapM: "(\<And>x. bare (f x)) \<Longrightarrow> bare (mapM_go f xs)"
proof (induction xs)
  case (Cons x xs)
  have "bare (Ret z)" for z :: "'b list" by (simp add: bare_def)
  with Cons show ?case by (simp add: bare_bind)
qed (simp add: bare_def)

text \<open>The cluster is calm: no read and no library call panics, a missing condition is not false, an
  initialized status has a Ready condition, the scheme knows its kinds, and the API server reports what is missing itself.\<close>

definition calm :: "('kc, 'd, 't, 'desc, 'sec, 'w) cluster \<Rightarrow> bool" where
  "calm cx \<longleftrightarrow> calm_lib (cx_lib cx) \<and> calm_remote (cx_remote cx) \<and> (\<not> cl_IsFalse (cx_conds cx) None) \<and>
     (\<forall>s. quiet_go (cx_NewDigestStrict cx s)) \<and> initializes_ready (cx_conds cx) \<and>
     (\<forall>ns n. quiet_go (cx_Repository cx ns n)) \<and> (\<forall>n. quiet_go (cx_ClusterRepository cx n)) \<and>
     (\<forall>ns n. quiet_go (cx_Image cx ns n)) \<and> (\<forall>n. quiet_go (cx_ClusterImage cx n)) \<and>
     (\<forall>t k. quiet_go (cx_Component cx t k)) \<and> (\<forall>ns n. quiet_go (cx_ConfigMap cx ns n)) \<and>
     (\<forall>ns n. quiet_go (cx_ServiceAccount cx ns n)) \<and> (\<forall>ns n. quiet_go (cx_Secret cx ns n)) \<and>
     (\<forall>ss. quiet_go (cx_FromPullSecrets cx ss)) \<and> (\<forall>s m. quiet_go (cx_template cx s m)) \<and>
     (\<forall>t k. returns (cx_GVKFor cx t k)) \<and> (\<forall>ns n. bare (cx_ServiceAccount cx ns n)) \<and> (\<forall>ns n. bare (cx_Secret cx ns n)) \<and>
     (\<forall>ss. bare (cx_FromPullSecrets cx ss))"

lemma quiet_case_go [simp]:
  "quiet_go (case g of Ret x \<Rightarrow> a x | Fail e \<Rightarrow> b e | Panic m \<Rightarrow> Panic m) \<longleftrightarrow>
     quiet_go g \<and> (\<forall>x. g = Ret x \<longrightarrow> quiet_go (a x)) \<and> (\<forall>e. g = Fail e \<longrightarrow> quiet_go (b e))"
  "quiet_go (snd (case g of Ret x \<Rightarrow> a' x | Fail e \<Rightarrow> b' e | Panic m \<Rightarrow> (w, Panic m))) \<longleftrightarrow>
     quiet_go g \<and> (\<forall>x. g = Ret x \<longrightarrow> quiet_go (snd (a' x))) \<and> (\<forall>e. g = Fail e \<longrightarrow> quiet_go (snd (b' e)))"
  by (cases g; simp)+

lemma calm_libD: "calm_lib lib \<Longrightarrow> quiet_go (lib_NewDigest lib s)" "calm_lib lib \<Longrightarrow> quiet_go (lib_NewTag lib s)"
  by (simp_all add: calm_lib_def)

lemma calm_remoteD:
  assumes "calm_remote rm"
  shows "quiet_go (rm_transport rm)" "quiet_go (rm_Head rm k t w)" "quiet_go (rm_Get rm k d w)"
    "rm_Get rm k d w = Ret g \<Longrightarrow> quiet_go g" "rm_Get rm k d w = Ret (Ret v) \<Longrightarrow> calm_view v"
    "quiet_go (snd (rm_Push rm k r i w))" "quiet_go (rm_clients rm k)" "quiet_go (rm_pull_desc rm k d w)"
    "quiet_go (snd (rm_push_desc rm k t x w))"
  using assms by (simp_all add: calm_remote_def)

lemma quiet_ResolveDigest:
  assumes "calm_lib lib" "calm_remote rm"
  shows "quiet_go (ResolveDigest lib rm k s w)"
  using assms by (simp add: ResolveDigest_def calm_libD calm_remoteD)

lemma quiet_ImagePush:
  assumes "calm_lib lib" "calm_remote rm" "\<And>s. quiet_go (ext s)"
  shows "quiet_go (snd (Push lib rm ext k r c w))"
proof -
  have "quiet_go (newWasmImage lib ext c)"
    using assms(3) by (simp add: newWasmImage_def Extract_def Let_def split: prod.split)
  then show ?thesis
    using assms calm_remoteD(6) [OF assms(2)] calm_remoteD(1) [OF assms(2)]
    by (simp add: Push_def Let_def calm_libD case_prod_unfold)
qed

lemma quiet_parse: "quiet_go (iv_RawConfigFile v) \<Longrightarrow> quiet_go (parse_config lib v)"
  by (simp add: parse_config_def split: option.split)

lemma quiet_PullConfig:
  assumes "calm_remote rm"
  shows "quiet_go (PullConfig lib rm k d w)"
  using calm_remoteD [OF assms]
  by (auto simp: PullConfig_def calm_view_def intro!: quiet_parse)

lemma quiet_Pull:
  assumes "calm_remote rm"
  shows "quiet_go (Pull lib rm k d w)"
  using calm_remoteD [OF assms]
  by (auto simp: Pull_def calm_view_def Let_def intro!: quiet_parse)

lemma quiet_Copy:
  assumes "calm_lib lib" "calm_remote rm"
  shows "quiet_go (snd (Copy lib rm k r t w))"
  using calm_remoteD [OF assms(2)] assms
  by (auto simp: Copy_def quiet_ResolveDigest calm_libD case_prod_unfold Let_def)

lemma quiet_KeychainForServiceAccountRef:
  assumes "\<And>ns n. quiet_go (gsa ns n)" "\<And>ns n. quiet_go (gs ns n)" "\<And>ss. quiet_go (fps ss)"
  shows "quiet_go (KeychainForServiceAccountRef gsa gs fps ref)"
  using assms by (auto simp: KeychainForServiceAccountRef_def intro!: quiet_mapM)

lemma bare_KeychainForServiceAccountRef:
  assumes "\<And>ns n. bare (gsa ns n)" "\<And>ns n. bare (gs ns n)" "\<And>ss. bare (fps ss)"
  shows "bare (KeychainForServiceAccountRef gsa gs fps ref)"
  using assms by (auto simp: KeychainForServiceAccountRef_def intro!: bare_bind bare_mapM)

lemma calmD:
  assumes "calm cx"
  shows "calm_lib (cx_lib cx)" "calm_remote (cx_remote cx)" "\<not> cl_IsFalse (cx_conds cx) None"
    "quiet_go (cx_NewDigestStrict cx c)" "initializes_ready (cx_conds cx)" "quiet_go (cx_Component cx t k)"
    "quiet_go (cx_ConfigMap cx ns n)" "quiet_go (cx_template cx c m)" "returns (cx_GVKFor cx n t)"
    "quiet_go (fetch_repository cx ns ref)" "quiet_go (fetch_image cx ns iref)" "quiet_go (repository_keychain cx spec)"
    "quiet_go (KeychainForServiceAccountRef (cx_ServiceAccount cx) (cx_Secret cx) (cx_FromPullSecrets cx) sref)"
    "bare (KeychainForServiceAccountRef (cx_ServiceAccount cx) (cx_Secret cx) (cx_FromPullSecrets cx) sref)"
    "bare (repository_keychain cx spec)"
  using assms
  by (simp_all add: calm_def bare_KeychainForServiceAccountRef fetch_repository_def fetch_image_def repository_keychain_def KeychainForRepo_def
      quiet_KeychainForServiceAccountRef del: split_paired_All)

lemma quiet_template_tag:
  assumes "calm cx" "quiet_go gvk"
  shows "quiet_go (template_tag cx tmpl obj gvk)"
  using assms by (simp add: template_tag_def ApplyTemplate_def calmD calm_libD)

lemma returns_default_repository: "returns (default_repository c ref r)"
  by (simp add: default_repository_def repository.obj_dflt_returns cluster_repository.obj_dflt_returns)

lemma returns_default_image: "returns (default_image c ref r)"
  by (simp add: default_image_def image.obj_dflt_returns cluster_image.obj_dflt_returns)

section \<open>Weakest preconditions of the shared steps\<close>

lemma wpe_check_ready:
  assumes "initializes_ready cl" and "init = cl_Initialize cl deps"
  shows "wpe (check_ready cl ct nr what init gen st) Q E s \<longleftrightarrow>
    (if gen = as_ObservedGeneration st \<and> cl_IsTrue cl (cl_Get cl (init st) ''Ready'') then Q () s
     else E (s\<lparr>rx_Marks := rx_Marks s @ [
       if gen \<noteq> as_ObservedGeneration st then Mark ct CUnknown ''Blocked'' (''waiting for '' @ what @ '' to reconcile'')
       else Mark ct (if cl_IsFalse cl (cl_Get cl (init st) ''Ready'') then CFalse else CUnknown) nr
         (cn_Reason (the (cl_Get cl (init st) ''Ready'')) @ '': '' @ cn_Message (the (cl_Get cl (init st) ''Ready'')))]\<rparr>))"
proof -
  from assms obtain r where "cl_Get cl (init st) ''Ready'' = Some r"
    by (auto simp: initializes_ready_def)
  then show ?thesis
    by (auto simp: check_ready_def wpe_simps Let_def)
qed

lemma wpe_use_repository:
  assumes "calm cx"
    and "\<And>r0 r kc. fetch_repository cx ns ref = Ret r0 \<Longrightarrow> default_repository (cx_ctx cx) ref r0 = Ret r \<Longrightarrow>
      om_Generation (rs_Meta r0) = as_ObservedGeneration (rs_Status r0) \<Longrightarrow>
      cl_IsTrue (cx_conds cx) (cl_Get (cx_conds cx) (RepositoryStatus_InitializeConditions (cx_conds cx) (rs_Status r0)) ''Ready'') \<Longrightarrow>
      repository_keychain cx (rs_Spec r) = Ret kc \<Longrightarrow>
      Q r (s\<lparr>rx_Stash := sh_put RepositoryKeychainStasher
          (Some (case sh_get RepositoryKeychainStasher (rx_Stash s) of None \<Rightarrow> kc | Some k \<Rightarrow> cx_MultiKeychain cx kc k)) (rx_Stash s)\<rparr>)"
    and "E s" and "\<And>mk. mk_Type mk = ct \<Longrightarrow> mk_Status mk \<noteq> CTrue \<Longrightarrow> E (s\<lparr>rx_Marks := rx_Marks s @ [mk]\<rparr>)"
  shows "wpe (use_repository cx ct ns ref) Q E s"
proof -
  note ready = wpe_check_ready [OF calmD(5) [OF assms(1)], of "RepositoryStatus_InitializeConditions (cx_conds cx)" RepositoryConditions,
      unfolded RepositoryStatus_InitializeConditions_def, OF refl]
  have q: "quiet_go (fetch_repository cx ns ref)" by (rule calmD(10) [OF assms(1)])
  show ?thesis
  proof (cases "fetch_repository cx ns ref")
    case (Ret r0)
    obtain r where r: "default_repository (cx_ctx cx) ref r0 = Ret r"
      by (rule returnsE [OF returns_default_repository])
    have qk: "quiet_go (repository_keychain cx (rs_Spec r))" by (rule calmD(12) [OF assms(1)])
    show ?thesis
    proof (cases "om_Generation (rs_Meta r0) = as_ObservedGeneration (rs_Status r0) \<and>
        cl_IsTrue (cx_conds cx) (cl_Get (cx_conds cx) (RepositoryStatus_InitializeConditions (cx_conds cx) (rs_Status r0)) ''Ready'')")
      case True
      then show ?thesis
        using Ret r qk assms(2) [OF Ret r] assms(3)
        by (cases "repository_keychain cx (rs_Spec r)")
          (auto simp: use_repository_def wpe_simps ready RepositoryStatus_InitializeConditions_def stash_keychain_def)
    next
      case False
      then show ?thesis
        using Ret assms(4)
        by (auto simp: use_repository_def wpe_simps ready RepositoryStatus_InitializeConditions_def)
    qed
  qed (use q assms(3,4) in \<open>auto simp: use_repository_def wpe_simps\<close>)
qed

lemma wpe_ResolveRepository:
  assumes "calm cx" "quiet_go gvk"
    and "\<And>r0 r kc tag. let ref = rr (rx_Resource s); ns = om_Namespace (meta (rx_Resource s)) in
      fetch_repository cx ns ref = Ret r0 \<and> default_repository (cx_ctx cx) ref r0 = Ret r \<and>
      om_Generation (rs_Meta r0) = as_ObservedGeneration (rs_Status r0) \<and>
      cl_IsTrue (cx_conds cx) (cl_Get (cx_conds cx) (RepositoryStatus_InitializeConditions (cx_conds cx) (rs_Status r0)) ''Ready'') \<and>
      repository_keychain cx (rs_Spec r) = Ret kc \<and>
      template_tag cx (rps_Template (rs_Spec r)) (meta (rx_Resource s)) gvk = Ret tag \<Longrightarrow>
      Q () (s\<lparr>rx_Stash := (rx_Stash s)\<lparr>
          st_Keychain := Some (case st_Keychain (rx_Stash s) of None \<Rightarrow> kc | Some k \<Rightarrow> cx_MultiKeychain cx kc k),
          st_Tag := Some tag\<rparr>,
        rx_Marks := rx_Marks s @ [Mark ct CTrue ''Ready'' '''']\<rparr>)"
    and "\<And>new kc. new = [] \<or> (\<exists>mk. new = [mk] \<and> mk_Type mk = ct \<and> mk_Status mk \<noteq> CTrue) \<Longrightarrow>
      E (s\<lparr>rx_Marks := rx_Marks s @ new, rx_Stash := (rx_Stash s)\<lparr>st_Keychain := kc\<rparr>\<rparr>)"
  shows "wpe (ResolveRepository cx meta gvk rr ct) Q E s"
  unfolding ResolveRepository_def wpe_simps
proof (rule wpe_use_repository [OF assms(1)], goal_cases)
  case (1 r0 r kc)
  have "quiet_go (template_tag cx (rps_Template (rs_Spec r)) (meta (rx_Resource s)) gvk)"
    by (rule quiet_template_tag [OF assms(1,2)])
  then show ?case
  proof (cases "template_tag cx (rps_Template (rs_Spec r)) (meta (rx_Resource s)) gvk")
    case (Ret tag)
    with 1 assms(3) [of r0 r kc tag] show ?thesis by (simp add: Let_def stashers)
  next
    case (Fail e)
    with assms(4) [of "[]"] show ?thesis by (simp add: stashers)
  qed simp
next
  case 2
  from assms(4) [of "[]" "st_Keychain (rx_Stash s)"] show ?case by simp
next
  case (3 mk)
  with assms(4) [of "[mk]" "st_Keychain (rx_Stash s)"] show ?case by simp
qed

lemma wpe_ResolveKeychain:
  assumes "calm cx"
    and "\<And>kc. (kc = None \<longrightarrow> st_Keychain (rx_Stash s) = None) \<Longrightarrow>
      Q () (s\<lparr>rx_Stash := (rx_Stash s)\<lparr>st_Keychain := kc\<rparr>\<rparr>)"
    and "\<And>new. new = [] \<or> (\<exists>mk. new = [mk] \<and> mk_Type mk = ct \<and> mk_Status mk = CFalse) \<Longrightarrow>
      E (s\<lparr>rx_Marks := rx_Marks s @ new\<rparr>)"
  shows "wpe (ResolveKeychain cx sar ct) Q E s"
proof (cases "sar (rx_Resource s)")
  case None
  with assms(2) [of "st_Keychain (rx_Stash s)"] show ?thesis by (simp add: ResolveKeychain_def wpe_simps)
next
  case (Some ref)
  have "quiet_go (KeychainForServiceAccountRef (cx_ServiceAccount cx) (cx_Secret cx) (cx_FromPullSecrets cx) ref)"
    by (rule calmD(13) [OF assms(1)])
  moreover have "bare (KeychainForServiceAccountRef (cx_ServiceAccount cx) (cx_Secret cx) (cx_FromPullSecrets cx) ref)"
    by (rule calmD(14) [OF assms(1)])
  ultimately show ?thesis
    using Some assms(2) [of "Some x" for x] assms(3) [of "[]"] assms(3) [of "[m]" for m]
    by (cases "KeychainForServiceAccountRef (cx_ServiceAccount cx) (cx_Secret cx) (cx_FromPullSecrets cx) ref")
      (auto simp: ResolveKeychain_def wpe_simps stash_keychain_def stashers bare_def)
qed

lemma wpe_world_try [wpe_simps]: "wpe (act_world_try f h k) Q E s =
    (case snd (f (rx_World s)) of Ret x \<Rightarrow> wpe (k x) Q E (s\<lparr>rx_World := fst (f (rx_World s))\<rparr>)
     | Fail e \<Rightarrow> wpe (h e) Q E (s\<lparr>rx_World := fst (f (rx_World s))\<rparr>) | Panic p \<Rightarrow> False)"
  by (cases "f (rx_World s)") (simp add: wpe_def act_world_try_def act_try_def split: go.split)

lemma wpe_PushComponent:
  assumes "calm cx" "st_Component (rx_Stash s) = Some component" "st_Tag (rx_Stash s) = Some tag"
    and "st_Keychain (rx_Stash s) = Some kc"
    and "\<And>w d config. Push (cx_lib cx) (cx_remote cx) (ExtractWIT (cx_witToolsPool cx)) kc (RefTag tag) component (rx_World s) = (w, Ret (d, config)) \<Longrightarrow>
      Q () (s\<lparr>rx_World := w, rx_Marks := rx_Marks s @ [Mark ct CTrue ''Pushed'' ''''],
        rx_Stash := (rx_Stash s)\<lparr>st_Digest := Some d, st_Config := Some config\<rparr>\<rparr>)"
    and "\<And>w msg ev. E (s\<lparr>rx_World := w, rx_Events := rx_Events s @ [ev],
        rx_Marks := rx_Marks s @ [Mark ct CFalse ''PushFailed'' msg]\<rparr>)"
  shows "wpe (PushComponent cx ct) Q E s"
proof -
  have "quiet_go (snd (Push (cx_lib cx) (cx_remote cx) (ExtractWIT (cx_witToolsPool cx)) kc (RefTag tag) component (rx_World s)))"
    by (intro quiet_ImagePush calmD(1,2) assms(1) quiet_plugins)
  moreover obtain w g where p: "Push (cx_lib cx) (cx_remote cx) (ExtractWIT (cx_witToolsPool cx)) kc (RefTag tag) component (rx_World s) = (w, g)"
    by (cases "Push (cx_lib cx) (cx_remote cx) (ExtractWIT (cx_witToolsPool cx)) kc (RefTag tag) component (rx_World s)")
  ultimately show ?thesis
    using assms(2-6) by (cases g) (auto simp: PushComponent_def wpe_simps stashers)
qed

lemma wpe_ReflectComponentableStatus:
  "wpe (ReflectComponentableStatus cx ck) Q E s \<longleftrightarrow>
     (\<exists>d. st_Digest (rx_Stash s) = Some d \<and>
       Q () (s\<lparr>rx_Resource := ck_put_status ck ((ck_GetGenericComponentStatus ck (rx_Resource s))
         \<lparr>gst_Image := lib_DigestName (cx_lib cx) d,
          gst_Trace := (case st_Trace (rx_Stash s) of None \<Rightarrow> [] | Some tr \<Rightarrow> tr),
          gst_WIT := map_option (\<lambda>cfg. \<lparr>wit_Imports = wcc_Imports (wc_Component cfg), wit_Exports = wcc_Exports (wc_Component cfg)\<rparr>)
            (st_Config (rx_Stash s))\<rparr>) (rx_Resource s)\<rparr>))"
  by (cases "st_Digest (rx_Stash s)"; cases "st_Config (rx_Stash s)")
    (simp_all add: ReflectComponentableStatus_def wpe_simps stashers)

end
