(* ===== verification/Core_Controllers.thy ===== *)
theory Core_Controllers
  imports Duck_Rules
begin

text \<open>
  The controllers of repositories, images, components, config stores, container images and
  compositions (\<^verbatim>\<open>internal/controllers\<close>).  A controller is a sequence of sub reconcilers; the
  combinators \<open>sq\<close> (\<^verbatim>\<open>Sequence\<close>) and \<open>al\<close> (\<^verbatim>\<open>Always\<close>) of the runtime are parameters.
  \<^verbatim>\<open>SuppressTransientErrors\<close> and \<^verbatim>\<open>ResourceReconciler\<close> wrap the sequences and only decide what is done
  with the result.
\<close>

text \<open>The idiom of the reconcilers: set the condition and return the error.\<close>

definition stop_with :: "string \<Rightarrow> mark_status \<Rightarrow> string \<Rightarrow> string \<Rightarrow> gerr \<Rightarrow> ('r, 'kc, 'd, 't, 'w, 'a) handler" where
  "stop_with conditionType status reason msg err = act_then (mark_as conditionType status reason msg) (act_fail err)"

lemma wpe_stop_with [wpe_simps]: "wpe (stop_with ct st reason msg err) Q E s =
    E (s\<lparr>rx_Marks := rx_Marks s @ [Mark ct st reason msg]\<rparr>)"
  by (simp add: stop_with_def wpe_simps)

text \<open>A call that reads the registries.\<close>

definition act_registry_try :: "('w \<Rightarrow> 'a go) \<Rightarrow> (gerr \<Rightarrow> ('r, 'kc, 'd, 't, 'w, 'b) handler) \<Rightarrow>
    ('a \<Rightarrow> ('r, 'kc, 'd, 't, 'w, 'b) handler) \<Rightarrow> ('r, 'kc, 'd, 't, 'w, 'b) handler" where
  "act_registry_try f h k s = act_try (f (rx_World s)) h k s"

lemma wpe_registry_try [wpe_simps]: "wpe (act_registry_try f h k) Q E s =
    (case f (rx_World s) of Ret x \<Rightarrow> wpe (k x) Q E s | Fail e \<Rightarrow> wpe (h e) Q E s | Panic p \<Rightarrow> False)"
  by (simp add: wpe_def act_registry_try_def act_try_def split: go.split)

section \<open>Repositories\<close>

type_synonym repository_object = "apis_Status Repository"

definition RepositoryKeychain :: "('kc, 'd, 't, 'desc, 'sec, 'w) cluster \<Rightarrow>
    (repository_object, 'kc, 'd, 't, 'w, unit) handler" where
  "RepositoryKeychain cx = act_bind get_resource (\<lambda>resource.
     act_try (repository_keychain cx (rs_Spec resource))
       (\<lambda>err. if IsNotFound err
          then act_bind (act_lift (api_status err)) (\<lambda>(kind, name).
                 stop_with ''CredentialsResolved'' CFalse (kind @ ''NotFound'') (kind @ '' '' @ name @ '' not found'') ErrDurable)
          else act_fail err)
       (\<lambda>keychain. act_then (stash_Store RepositoryKeychainStasher keychain)
          (mark_as ''CredentialsResolved'' CTrue ''Resolved'' '''')))"

text \<open>\<open>checkPush\<close> is \<^verbatim>\<open>remote.CheckPushPermission\<close>.\<close>

definition CheckRepositoryAuthentication :: "('kc, 'd, 't, 'desc, 'sec, 'w) cluster \<Rightarrow> GroupVersionKind go \<Rightarrow>
    ('t \<Rightarrow> 'kc \<Rightarrow> 'w \<Rightarrow> unit go) \<Rightarrow> (repository_object, 'kc, 'd, 't, 'w, unit) handler" where
  "CheckRepositoryAuthentication cx gvk checkPush =
     act_bind (stash_Retrieve RepositoryKeychainStasher) (\<lambda>kc. case kc of
       None \<Rightarrow> act_fail (errors_Join [Sentinel ''value not found for key'', ErrTransient])
     | Some keychain \<Rightarrow> act_bind get_resource (\<lambda>resource.
         act_try (template_tag cx (rps_Template (rs_Spec resource)) (rs_Meta resource) gvk)
           (\<lambda>err. stop_with ''Authenticated'' CFalse ''InvalidTemplate'' (cx_errText cx err) ErrDurable)
           (\<lambda>ref. act_try (rm_transport (cx_remote cx)) act_fail (\<lambda>_.
              act_registry_try (checkPush ref keychain)
                (\<lambda>err. stop_with ''Authenticated'' CFalse ''Unauthorized'' (cx_errText cx err) ErrDurable)
                (\<lambda>_. mark_as ''Authenticated'' CTrue ''Authenticated'' '''')))))"

definition genericRepositoryReconciler ::
    "((repository_object, 'kc, 'd, 't, 'w, unit) handler list \<Rightarrow> (repository_object, 'kc, 'd, 't, 'w, unit) handler) \<Rightarrow>
     ('kc, 'd, 't, 'desc, 'sec, 'w) cluster \<Rightarrow> GroupVersionKind go \<Rightarrow> ('t \<Rightarrow> 'kc \<Rightarrow> 'w \<Rightarrow> unit go) \<Rightarrow>
     (repository_object, 'kc, 'd, 't, 'w, unit) handler" where
  "genericRepositoryReconciler sq cx gvk checkPush =
     sq [RepositoryKeychain cx, CheckRepositoryAuthentication cx gvk checkPush]"

section \<open>Images\<close>

type_synonym image_object = "ImageStatus Image"

definition Image_GetRepositoryReference :: "image_object \<Rightarrow> RepositoryReference" where
  "Image_GetRepositoryReference r = is_RepositoryRef (rs_Spec r)"

definition Image_GetServiceAccountReference :: "image_object \<Rightarrow> ServiceAccountReference option" where
  "Image_GetServiceAccountReference r = Some (is_ServiceAccountRef (rs_Spec r))"

definition CopyImage :: "('kc, 'd, 't, 'desc, 'sec, 'w) cluster \<Rightarrow> (image_object, 'kc, 'd, 't, 'w, unit) handler" where
  "CopyImage cx =
     act_bind (stash_RetrieveOrDie RepositoryKeychainStasher) (\<lambda>keychain.
     act_bind (stash_RetrieveOrDie RepositoryTagStasher) (\<lambda>tagRef.
     act_bind get_resource (\<lambda>resource.
     act_registry_try (ResolveDigest (cx_lib cx) (cx_remote cx) keychain (is_Image (rs_Spec resource))) act_fail (\<lambda>source.
     act_world_try (Copy (cx_lib cx) (cx_remote cx) keychain (RefDigest source) tagRef)
       (\<lambda>err. act_then (eventf ''CopyFailed'' (cx_errText cx err))
          (stop_with ''ImageCopied'' CFalse ''CopyFailed'' (''failed to copy image to '' @ fmt_q (lib_TagName (cx_lib cx) tagRef)) err))
       (\<lambda>digestRef. act_then (mark_as ''ImageCopied'' CTrue ''Copied'' '''')
          (set_resource (\<lambda>r. r\<lparr>rs_Status := (rs_Status r)\<lparr>ist_Image := lib_DigestName (cx_lib cx) digestRef\<rparr>\<rparr>)))))))"

definition genericImageReconciler ::
    "((image_object, 'kc, 'd, 't, 'w, unit) handler list \<Rightarrow> (image_object, 'kc, 'd, 't, 'w, unit) handler) \<Rightarrow>
     ((image_object, 'kc, 'd, 't, 'w, unit) handler list \<Rightarrow> (image_object, 'kc, 'd, 't, 'w, unit) handler) \<Rightarrow>
     ('kc, 'd, 't, 'desc, 'sec, 'w) cluster \<Rightarrow> GroupVersionKind go \<Rightarrow> (image_object, 'kc, 'd, 't, 'w, unit) handler" where
  "genericImageReconciler sq al cx gvk =
     sq [al [ResolveRepository cx rs_Meta gvk Image_GetRepositoryReference ''RepositoryReady'',
             ResolveKeychain cx Image_GetServiceAccountReference ''ImageCopied''],
         CopyImage cx]"

section \<open>Components\<close>

definition Component_ComponentLike :: "GroupVersionKind go \<Rightarrow> Component component_like" where
  "Component_ComponentLike gvk = \<lparr>ck_Meta = rs_Meta, ck_GVK = gvk,
     ck_GetGenericComponentSpec = (\<lambda>r. cs_Generic (rs_Spec r)), ck_GetGenericComponentStatus = rs_Status,
     ck_put_status = (\<lambda>st r. r\<lparr>rs_Status := st\<rparr>)\<rparr>"

text \<open>The span of a component another object refers to.\<close>

definition duck_span :: "('kc, 'd, 't, 'desc, 'sec, 'w) cluster \<Rightarrow> ComponentReference \<Rightarrow> ComponentDuck \<Rightarrow> ComponentSpan go" where
  "duck_span cx ref component = SynthesizeSpan (digest_part (cx_lib cx))
     (cx_GVKFor cx ''ComponentDuck'' (ComponentReference_TypeMeta ref)) (rs_Meta component)
     (ComponentLike (cdk_Generic (rs_Status component)))"

definition cycle_message :: string where
  "cycle_message = ''components may not reference themselves directly or transitively''"

text \<open>What is copied when the component refers to another one: the branch of \<^verbatim>\<open>CopyComponent\<close> for a reference.\<close>

definition referenced_source :: "('kc, 'd, 't, 'desc, 'sec, 'w) cluster \<Rightarrow> Component \<Rightarrow> ComponentReference \<Rightarrow>
    (Component, 'kc, 'd, 't, 'w, 'd) handler" where
  "referenced_source cx resource ref = (let what = ''component '' @ cr_Kind ref @ '' '' @ cr_Name ref in
     act_try (ResolveComponentReference cx ref)
       (\<lambda>err. if errors_Is err ErrNotComponent
          then stop_with ''ComponentCopied'' CFalse ''NotComponent''
                 (cr_APIVersion ref @ '' '' @ cr_Kind ref @ '' is not a component'') ErrHaltSubReconcilers
          else if IsNotFound err
          then stop_with ''ComponentCopied'' CUnknown ''ComponentNotFound'' (what @ '' not found'') ErrDurable
          else act_fail err)
       (\<lambda>component. act_then (extend_trace (duck_span cx ref component) (rs_Meta resource) ''ComponentCopied'' cycle_message
            (\<lambda>sanitized. set_resource (\<lambda>r. r\<lparr>rs_Status := (rs_Status r)\<lparr>gst_Trace := sanitized\<rparr>\<rparr>)))
          (let ready = cl_Get (cx_conds cx) (cdk_Status (rs_Status component)) ''Ready'';
               img = gst_Image (cdk_Generic (rs_Status component)) in
           if cl_IsFalse (cx_conds cx) ready then (case ready of
               None \<Rightarrow> act_lift (Panic ''nil pointer dereference'')
             | Some r \<Rightarrow> stop_with ''ComponentCopied'' CFalse ''Blocked''
                 (what @ '' not ready: '' @ cn_Reason r @ '' '' @ cn_Message r) ErrDurable)
           else if cl_IsUnknown (cx_conds cx) ready
           then stop_with ''ComponentCopied'' CUnknown ''Blocked'' (what @ '' not ready'') ErrDurable
           else if img = '''' then stop_with ''ComponentCopied'' CUnknown ''Blocked'' (what @ '' missing image'') ErrDurable
           else act_try (lib_NewDigest (cx_lib cx) img)
             (\<lambda>err. stop_with ''ComponentCopied'' CFalse ''InvalidImage'' (what @ '' has invalid image: '' @ img) ErrDurable)
             act_ret)))"

definition copy_failed :: "('kc, 'd, 't, 'desc, 'sec, 'w) cluster \<Rightarrow> 't \<Rightarrow> gerr \<Rightarrow> (Component, 'kc, 'd, 't, 'w, unit) handler" where
  "copy_failed cx tagRef err = act_then (eventf ''CopyFailed'' (cx_errText cx err))
     (stop_with ''ComponentCopied'' CFalse ''CopyFailed''
        (''failed to copy component to '' @ fmt_q (lib_TagName (cx_lib cx) tagRef)) err)"

definition CopyComponent :: "('kc, 'd, 't, 'desc, 'sec, 'w) cluster \<Rightarrow> (Component, 'kc, 'd, 't, 'w, unit) handler" where
  "CopyComponent cx =
     act_bind (stash_RetrieveOrDie RepositoryKeychainStasher) (\<lambda>keychain.
     act_bind (stash_RetrieveOrDie RepositoryTagStasher) (\<lambda>tagRef.
     act_bind get_resource (\<lambda>resource.
     act_bind (case cs_OCI (rs_Spec resource) of
         Some oci \<Rightarrow> act_registry_try (ResolveDigest (cx_lib cx) (cx_remote cx) keychain (oci_Image oci)) act_fail act_ret
       | None \<Rightarrow> (case cs_Ref (rs_Spec resource) of
           Some ref \<Rightarrow> referenced_source cx resource ref
         | None \<Rightarrow> act_lift (Panic ''image or ref must be defined''))) (\<lambda>source.
     act_world_try (Copy (cx_lib cx) (cx_remote cx) keychain (RefDigest source) tagRef) (copy_failed cx tagRef) (\<lambda>digestRef.
     act_registry_try (PullConfig (cx_lib cx) (cx_remote cx) keychain digestRef) (copy_failed cx tagRef) (\<lambda>config.
     act_then (mark_as ''ComponentCopied'' CTrue ''Copied'' '''')
       (act_then (stash_Store RepositoryDigestStasher digestRef)
          (stash_Store ComponentConfigStasher config))))))))"

definition genericComponentReconciler ::
    "((Component, 'kc, 'd, 't, 'w, unit) handler list \<Rightarrow> (Component, 'kc, 'd, 't, 'w, unit) handler) \<Rightarrow>
     ((Component, 'kc, 'd, 't, 'w, unit) handler list \<Rightarrow> (Component, 'kc, 'd, 't, 'w, unit) handler) \<Rightarrow>
     ('kc, 'd, 't, 'desc, 'sec, 'w) cluster \<Rightarrow> GroupVersionKind go \<Rightarrow> (Component, 'kc, 'd, 't, 'w, unit) handler" where
  "genericComponentReconciler sq al cx gvk =
     sq [al [ResolveRepository cx rs_Meta gvk Component_GetRepositoryReference ''RepositoryReady'',
             ResolveKeychain cx Component_GetServiceAccountReference ''ComponentCopied''],
         CopyComponent cx,
         ReflectComponentableStatus cx (Component_ComponentLike gvk)]"

section \<open>Config stores\<close>

text \<open>The keys of a config map behind a prefix; different keys stay different.\<close>

definition with_prefix :: "string \<Rightarrow> (string \<rightharpoonup> string) \<Rightarrow> string \<rightharpoonup> string" where
  "with_prefix p m = (\<lambda>k. if prefix p k then m (drop (length p) k) else None)"

definition config_map :: "('kc, 'd, 't, 'desc, 'sec, 'w) cluster \<Rightarrow> string \<Rightarrow> string \<Rightarrow>
    ((string \<rightharpoonup> string) \<Rightarrow> (ConfigStore, 'kc, 'd, 't, 'w, 'a) handler) \<Rightarrow> (ConfigStore, 'kc, 'd, 't, 'w, 'a) handler" where
  "config_map cx namespace name k = act_try (cx_ConfigMap cx namespace name)
     (\<lambda>err. if IsNotFound err
        then stop_with ''ConfigResolved'' CFalse ''ConfigMapNotFound'' (''ConfigMap '' @ name @ '' not found'') ErrDurable
        else act_fail err) k"

fun collect_values_from :: "('kc, 'd, 't, 'desc, 'sec, 'w) cluster \<Rightarrow> string \<Rightarrow> ValuesFrom list \<Rightarrow> (string \<rightharpoonup> string) \<Rightarrow>
    (ConfigStore, 'kc, 'd, 't, 'w, string \<rightharpoonup> string) handler" where
  "collect_values_from cx ns [] config = act_ret config"
| "collect_values_from cx ns (v # vs) config = config_map cx ns (vsf_Name v) (\<lambda>data.
     collect_values_from cx ns vs (config ++ with_prefix (vsf_Prefix v) data))"

fun collect_values :: "('kc, 'd, 't, 'desc, 'sec, 'w) cluster \<Rightarrow> string \<Rightarrow> Value list \<Rightarrow> (string \<rightharpoonup> string) \<Rightarrow>
    (ConfigStore, 'kc, 'd, 't, 'w, string \<rightharpoonup> string) handler" where
  "collect_values cx ns [] config = act_ret config"
| "collect_values cx ns (v # vs) config = (case vl_ValueFrom v of
     Some from \<Rightarrow> config_map cx ns (vf_Name from) (\<lambda>data. case data (vf_Key from) of
         Some x \<Rightarrow> collect_values cx ns vs (config(vl_Name v \<mapsto> x))
       | None \<Rightarrow> stop_with ''ConfigResolved'' CFalse ''KeyNotFound''
                   (''key '' @ fmt_q (vf_Key from) @ '' not found in ConfigMap '' @ vf_Name from) ErrDurable)
   | None \<Rightarrow> collect_values cx ns vs (config(vl_Name v \<mapsto> vl_Value v)))"

definition CollectConfig :: "('kc, 'd, 't, 'desc, 'sec, 'w) cluster \<Rightarrow> (ConfigStore, 'kc, 'd, 't, 'w, unit) handler" where
  "CollectConfig cx = act_bind get_resource (\<lambda>resource.
     let ns = om_Namespace (rs_Meta resource); spec = css_Store (rs_Spec resource) in
     act_bind (collect_values_from cx ns (gcs_ValuesFrom spec) Map.empty) (\<lambda>config.
     act_bind (collect_values cx ns (gcs_Values spec) config) (\<lambda>config.
     act_then (stash_Store ConfigStoreStasher config)
       (mark_as ''ConfigResolved'' CTrue ''Resolved'' ''''))))"

definition ComponentizeConfig :: "('kc, 'd, 't, 'desc, 'sec, 'w) cluster \<Rightarrow> (ConfigStore, 'kc, 'd, 't, 'w, unit) handler" where
  "ComponentizeConfig cx = act_bind (stash_RetrieveOrDie ConfigStoreStasher) (\<lambda>config.
     act_try (ComponentizeConfigStore (cx_staticConfigPool cx) (lib_json_text (cx_lib cx)) (cx_entries cx config))
       (\<lambda>err. act_then (eventf ''ComponentizeFailed'' (cx_errText cx err)) (act_fail err))
       (\<lambda>component. stash_Store ComponentStasher component))"

text \<open>The child component is not among the conditions a config store lives by.\<close>

definition ConfigStoreConditions :: "string list" where
  "ConfigStoreConditions = [''RepositoryReady'', ''ConfigResolved'', ''ComponentPushed'']"

definition ConfigStore_ComponentLike :: "GroupVersionKind go \<Rightarrow> ConfigStore component_like" where
  "ConfigStore_ComponentLike gvk = \<lparr>ck_Meta = rs_Meta, ck_GVK = gvk,
     ck_GetGenericComponentSpec = (\<lambda>r. css_Generic (rs_Spec r)), ck_GetGenericComponentStatus = rs_Status,
     ck_put_status = (\<lambda>st r. r\<lparr>rs_Status := st\<rparr>)\<rparr>"

definition ConfigStore_GetRepositoryReference :: "ConfigStore \<Rightarrow> RepositoryReference" where
  "ConfigStore_GetRepositoryReference r = gs_RepositoryRef (css_Generic (rs_Spec r))"

text \<open>
  The child reconciler of the runtime computes the desired child, makes the cluster match it and
  reflects what happened: \<open>manage\<close> is the part in the middle.
\<close>

definition child_reconciler :: "('r \<Rightarrow> 'c option go) \<Rightarrow> ('c option \<Rightarrow> 'w \<Rightarrow> 'w \<times> ('k option \<times> gerr option) go) \<Rightarrow>
    ('k option \<Rightarrow> gerr option \<Rightarrow> ('r, 'kc, 'd, 't, 'w, unit) handler) \<Rightarrow> ('r, 'kc, 'd, 't, 'w, unit) handler" where
  "child_reconciler desired manage reflect = act_bind get_resource (\<lambda>resource.
     act_bind (act_lift (desired resource)) (\<lambda>c.
     act_bind (act_world (manage c)) (\<lambda>(k, err). reflect k err)))"

text \<open>The branch on the error of a child, which most reconcilers of children share.\<close>

definition child_failed :: "string \<Rightarrow> gerr \<Rightarrow> ('r, 'kc, 'd, 't, 'w, unit) handler" where
  "child_failed conditionType err = act_then
     (if IsInvalid err then mark_as conditionType CFalse ''Invalid'' (ReasonForError err)
      else mark_as conditionType CUnknown ''Unknown'' '''')
     (act_fail (errors_Join [err, ErrTransient]))"

definition ConfigStoreReconciler ::
    "((ConfigStore, 'kc, 'd, 't, 'w, unit) handler list \<Rightarrow> (ConfigStore, 'kc, 'd, 't, 'w, unit) handler) \<Rightarrow>
     ((ConfigStore, 'kc, 'd, 't, 'w, unit) handler list \<Rightarrow> (ConfigStore, 'kc, 'd, 't, 'w, unit) handler) \<Rightarrow>
     ('kc, 'd, 't, 'desc, 'sec, 'w) cluster \<Rightarrow> GroupVersionKind go \<Rightarrow>
     ((ObjectMeta \<times> ComponentSpec) option \<Rightarrow> 'w \<Rightarrow> 'w \<times> (Component option \<times> gerr option) go) \<Rightarrow>
     (ConfigStore, 'kc, 'd, 't, 'w, unit) handler" where
  "ConfigStoreReconciler sq al cx gvk manage = (let ck = ConfigStore_ComponentLike gvk;
       childLabelKey = ''wa8s.reconciler.io/config-store'' in
     sq [al [CollectConfig cx,
             ResolveRepository cx rs_Meta gvk ConfigStore_GetRepositoryReference ''RepositoryReady'',
             child_reconciler (ComponentChild_DesiredChild ck childLabelKey) manage
               (ComponentChild_Reflect cx rs_Meta ''ChildComponent'')],
         ComponentizeConfig cx,
         PushComponent cx ''ComponentPushed'',
         ReflectComponentableStatus cx ck])"

end
