(* ===== verification/Core_Rules.thy ===== *)
theory Core_Rules
  imports Core_Controllers
begin

text \<open>
  What the controllers of repositories, images, components and config stores promise: the values one
  sub reconciler stashes are there when the next retrieves them, so no request panics; only
  conditions of the kind are set; and a request that returns nil has done its work.
\<close>

section \<open>Marks\<close>

text \<open>Between two states only conditions of the set were marked.\<close>

definition only_marks :: "string set \<Rightarrow> ('r, 'kc, 'd, 't, 'w) rstate \<Rightarrow> ('r, 'kc, 'd, 't, 'w) rstate \<Rightarrow> bool" where
  "only_marks cs s s' \<longleftrightarrow> (\<exists>new. rx_Marks s' = rx_Marks s @ new \<and> mk_Type ` set new \<subseteq> cs)"

lemma only_marksI: "rx_Marks s' = rx_Marks s @ new \<Longrightarrow> mk_Type ` set new \<subseteq> cs \<Longrightarrow> only_marks cs s s'"
  by (auto simp: only_marks_def)

lemma only_marks_refl [simp]: "rx_Marks s' = rx_Marks s \<Longrightarrow> only_marks cs s s'"
  by (auto simp: only_marks_def)

lemma only_marks_one [simp]: "rx_Marks s' = rx_Marks s @ [mk] \<Longrightarrow> only_marks cs s s' \<longleftrightarrow> mk_Type mk \<in> cs"
  by (auto simp: only_marks_def)

lemma only_marks_trans: "only_marks cs s s' \<Longrightarrow> only_marks cs s' s'' \<Longrightarrow> only_marks cs s s''"
  by (auto simp: only_marks_def image_subset_iff)

lemma only_marks_cong: "rx_Marks t = rx_Marks s' \<Longrightarrow> only_marks cs s t = only_marks cs s s'"
  by (simp add: only_marks_def)

lemma stash_gets:
  "sh_get RepositoryKeychainStasher st = st_Keychain st" "sh_get RepositoryTagStasher st = st_Tag st"
  "sh_get ComponentStasher st = st_Component st" "sh_get RemoteImageStasher st = st_RemoteImage st"
  "sh_get ConfigStoreStasher st = st_ConfigStore st" "sh_get CompositionDependenciesStasher st = st_Dependencies st"
  by (simp_all add: stashers)

section \<open>Traces\<close>

lemma wpe_fail_eta: "wpe (act_fail e) Q E = E"
  by (simp add: fun_eq_iff wpe_fail)

lemma wpe_extend_trace:
  assumes "span = Ret sp"
  shows "wpe (extend_trace span obj ct msg reflect) Q E s \<longleftrightarrow>
    (let tr = (case st_Trace (rx_Stash s) of None \<Rightarrow> [] | Some x \<Rightarrow> x) @ [sp];
         s1 = s\<lparr>rx_Stash := (rx_Stash s)\<lparr>st_Trace := Some tr\<rparr>\<rparr> in
     if fst (DetectTraceCycle tr obj)
     then wpe (reflect (snd (DetectTraceCycle tr obj))) (\<lambda>_. E) E
            (s1\<lparr>rx_Marks := rx_Marks s1 @ [Mark ct CFalse ''CycleDetected'' msg]\<rparr>)
     else Q () s1)"
  using assms by (simp add: extend_trace_def wpe_simps wpe_fail_eta stashers Let_def case_prod_unfold)

lemma duck_span_Ret:
  assumes "calm cx"
  obtains sp where "duck_span cx ref component = Ret sp"
proof -
  obtain g where "cx_GVKFor cx ''ComponentDuck'' (ComponentReference_TypeMeta ref) = Ret g"
    by (rule returnsE [OF calmD(9) [OF assms]])
  then show ?thesis using that by (simp add: duck_span_def SynthesizeSpan_def)
qed

lemma quiet_ResolveComponentReference:
  assumes "calm cx"
  shows "quiet_go (ResolveComponentReference cx ref)"
  using calmD(6) [OF assms, of "ComponentReference_TypeMeta ref" "ComponentReference_NamespacedName ref"]
  by (cases "cx_Component cx (ComponentReference_TypeMeta ref) (ComponentReference_NamespacedName ref)")
    (simp_all add: ResolveComponentReference_def)

section \<open>The repository a request writes to\<close>

text \<open>The tag of a resource with this metadata in the repository it refers to, which is observed and ready.\<close>

definition target_tag :: "('kc, 'd, 't, 'desc, 'sec, 'w) cluster \<Rightarrow> GroupVersionKind go \<Rightarrow> ObjectMeta \<Rightarrow> RepositoryReference \<Rightarrow> 't \<Rightarrow> bool" where
  "target_tag cx gvk m ref tag \<longleftrightarrow> (\<exists>r0 r. fetch_repository cx (om_Namespace m) ref = Ret r0 \<and>
     om_Generation (rs_Meta r0) = as_ObservedGeneration (rs_Status r0) \<and>
     cl_IsTrue (cx_conds cx) (cl_Get (cx_conds cx) (RepositoryStatus_InitializeConditions (cx_conds cx) (rs_Status r0)) ''Ready'') \<and>
     default_repository (cx_ctx cx) ref r0 = Ret r \<and> template_tag cx (rps_Template (rs_Spec r)) m gvk = Ret tag)"

lemma wpe_target:
  assumes "calm cx" "quiet_go gvk"
    and "\<And>kc tag. target_tag cx gvk (meta (rx_Resource s)) (rr (rx_Resource s)) tag \<Longrightarrow>
      Q () (s\<lparr>rx_Stash := (rx_Stash s)\<lparr>st_Keychain := Some kc, st_Tag := Some tag\<rparr>,
        rx_Marks := rx_Marks s @ [Mark ct CTrue ''Ready'' '''']\<rparr>)"
    and "\<And>new kc. new = [] \<or> (\<exists>mk. new = [mk] \<and> mk_Type mk = ct \<and> mk_Status mk \<noteq> CTrue) \<Longrightarrow>
      E (s\<lparr>rx_Marks := rx_Marks s @ new, rx_Stash := (rx_Stash s)\<lparr>st_Keychain := kc\<rparr>\<rparr>)"
  shows "wpe (ResolveRepository cx meta gvk rr ct) Q E s"
proof (rule wpe_ResolveRepository [OF assms(1,2)], goal_cases)
  case (1 r0 r kc tag)
  then show ?case by (intro assms(3)) (auto simp: target_tag_def Let_def)
next
  case (2 new kc)
  then show ?case by (rule assms(4))
qed

section \<open>Copying a component\<close>

text \<open>What a component is copied from: the image its spec names, or what the ready component it refers to publishes.\<close>

definition component_source :: "('kc, 'd, 't, 'desc, 'sec, 'w) cluster \<Rightarrow> ComponentSpec \<Rightarrow> 'kc \<Rightarrow> 'w \<Rightarrow> 'd \<Rightarrow> bool" where
  "component_source cx spec kc w src \<longleftrightarrow> (case cs_OCI spec of
     Some oci \<Rightarrow> ResolveDigest (cx_lib cx) (cx_remote cx) kc (oci_Image oci) w = Ret src
   | None \<Rightarrow> (\<exists>ref c. cs_Ref spec = Some ref \<and> ResolveComponentReference cx ref = Ret c \<and>
       \<not> cl_IsFalse (cx_conds cx) (cl_Get (cx_conds cx) (cdk_Status (rs_Status c)) ''Ready'') \<and>
       \<not> cl_IsUnknown (cx_conds cx) (cl_Get (cx_conds cx) (cdk_Status (rs_Status c)) ''Ready'') \<and>
       lib_NewDigest (cx_lib cx) (gst_Image (cdk_Generic (rs_Status c))) = Ret src))"

text \<open>The trace a request publishes does not go through the resource itself, once it started without one.\<close>

definition trace_kept :: "ObjectMeta \<Rightarrow> ComponentSpan list option \<Rightarrow> ComponentSpan list \<Rightarrow> bool" where
  "trace_kept m before tr \<longleftrightarrow> (before = None \<longrightarrow> \<not> fst (DetectTraceCycle tr m))"
lemma wpe_referenced_source:
  assumes "calm cx"
    and "\<And>d c tr. ResolveComponentReference cx ref = Ret c \<Longrightarrow> lib_NewDigest (cx_lib cx) (gst_Image (cdk_Generic (rs_Status c))) = Ret d \<Longrightarrow>
      \<not> cl_IsFalse (cx_conds cx) (cl_Get (cx_conds cx) (cdk_Status (rs_Status c)) ''Ready'') \<Longrightarrow>
      \<not> cl_IsUnknown (cx_conds cx) (cl_Get (cx_conds cx) (cdk_Status (rs_Status c)) ''Ready'') \<Longrightarrow>
      \<not> fst (DetectTraceCycle tr (rs_Meta resource)) \<Longrightarrow> Q d (s\<lparr>rx_Stash := (rx_Stash s)\<lparr>st_Trace := Some tr\<rparr>\<rparr>)"
    and "\<And>s' . only_marks {''ComponentCopied''} s s' \<Longrightarrow> E s'"
  shows "wpe (referenced_source cx resource ref) Q E s"
proof (cases "ResolveComponentReference cx ref")
  case (Ret c)
  obtain sp where sp: "duck_span cx ref c = Ret sp" by (rule duck_span_Ret [OF assms(1)])
  have nil: "\<not> cl_IsFalse (cx_conds cx) None" by (rule calmD(3) [OF assms(1)])
  have q: "quiet_go (lib_NewDigest (cx_lib cx) (gst_Image (cdk_Generic (rs_Status c))))"
    by (intro calm_libD calmD assms(1))
  show ?thesis
    using Ret sp nil q assms(2) [OF Ret] assms(3)
    by (cases "lib_NewDigest (cx_lib cx) (gst_Image (cdk_Generic (rs_Status c)))")
      (auto simp: referenced_source_def wpe_simps wpe_extend_trace [OF refl] Let_def split: option.split)
next
  case (Fail e)
  then show ?thesis using assms(3) by (auto simp: referenced_source_def wpe_simps Let_def)
next
  case (Panic m)
  with quiet_ResolveComponentReference [OF assms(1), of ref] show ?thesis by simp
qed

lemma wpe_CopyComponent:
  assumes "calm cx" "st_Keychain (rx_Stash s) = Some kc" "st_Tag (rx_Stash s) = Some tag"
    and "cs_OCI (rs_Spec (rx_Resource s)) \<noteq> None \<or> cs_Ref (rs_Spec (rx_Resource s)) \<noteq> None"
    and "\<And>s' src d cfg. rx_Resource s' = rx_Resource s \<Longrightarrow> only_marks {''ComponentCopied''} s s' \<Longrightarrow>
      Mark ''ComponentCopied'' CTrue ''Copied'' '''' \<in> set (rx_Marks s') \<Longrightarrow>
      component_source cx (rs_Spec (rx_Resource s)) kc (rx_World s) src \<Longrightarrow>
      Copy (cx_lib cx) (cx_remote cx) kc (RefDigest src) tag (rx_World s) = (rx_World s', Ret d) \<Longrightarrow>
      PullConfig (cx_lib cx) (cx_remote cx) kc d (rx_World s') = Ret cfg \<Longrightarrow>
      st_Trace (rx_Stash s') = st_Trace (rx_Stash s) \<or> (\<exists>tr. st_Trace (rx_Stash s') = Some tr \<and> \<not> fst (DetectTraceCycle tr (rs_Meta (rx_Resource s)))) \<Longrightarrow>
      st_Digest (rx_Stash s') = Some d \<Longrightarrow> st_Config (rx_Stash s') = Some cfg \<Longrightarrow> Q () s'"
    and "\<And>s' . only_marks {''ComponentCopied''} s s' \<Longrightarrow> E s'"
  shows "wpe (CopyComponent cx) Q E s"
proof -
  let ?rest = "\<lambda>source. act_world_try (Copy (cx_lib cx) (cx_remote cx) kc (RefDigest source) tag) (copy_failed cx tag) (\<lambda>digestRef.
     act_registry_try (PullConfig (cx_lib cx) (cx_remote cx) kc digestRef) (copy_failed cx tag) (\<lambda>config.
     act_then (mark_as ''ComponentCopied'' CTrue ''Copied'' '''')
       (act_then (stash_Store RepositoryDigestStasher digestRef) (stash_Store ComponentConfigStasher config))))"
  have rest: "wpe (?rest src) Q E (s\<lparr>rx_Stash := st\<rparr>)"
    if src: "component_source cx (rs_Spec (rx_Resource s)) kc (rx_World s) src"
      and tr: "st_Trace st = st_Trace (rx_Stash s) \<or> (\<exists>tr. st_Trace st = Some tr \<and> \<not> fst (DetectTraceCycle tr (rs_Meta (rx_Resource s))))"
    for src st
  proof -
    obtain w g where c: "Copy (cx_lib cx) (cx_remote cx) kc (RefDigest src) tag (rx_World s) = (w, g)"
      by (cases "Copy (cx_lib cx) (cx_remote cx) kc (RefDigest src) tag (rx_World s)")
    have "quiet_go g"
      using quiet_Copy [OF calmD(1) [OF assms(1)] calmD(2) [OF assms(1)], of kc "RefDigest src" tag "rx_World s"] c by simp
    then show ?thesis
    proof (cases g)
      case (Ret d)
      have "quiet_go (PullConfig (cx_lib cx) (cx_remote cx) kc d w)"
        by (intro quiet_PullConfig calmD assms(1))
      with Ret c tr assms(5) [OF _ _ _ src, where d = d] assms(6) show ?thesis
        by (cases "PullConfig (cx_lib cx) (cx_remote cx) kc d w")
          (simp_all add: wpe_simps copy_failed_def stashers)
    qed (use c assms(6) in \<open>simp_all add: wpe_simps copy_failed_def\<close>)
  qed
  show ?thesis
  proof (cases "cs_OCI (rs_Spec (rx_Resource s))")
    case (Some oci)
    have "quiet_go (ResolveDigest (cx_lib cx) (cx_remote cx) kc (oci_Image oci) (rx_World s))"
      by (intro quiet_ResolveDigest calmD assms(1))
    then show ?thesis
      using Some assms(2,3,6) rest [of _ "rx_Stash s"]
      by (cases "ResolveDigest (cx_lib cx) (cx_remote cx) kc (oci_Image oci) (rx_World s)")
        (simp_all add: CopyComponent_def component_source_def wpe_simps stashers)
  next
    case None
    with assms(4) obtain ref where "cs_Ref (rs_Spec (rx_Resource s)) = Some ref" by auto
    with None assms(2,3) show ?thesis
      unfolding CopyComponent_def
      by (simp add: wpe_bind wpe_stash wpe_get stash_gets)
        (rule wpe_referenced_source [OF assms(1)], rule rest, auto simp: component_source_def intro: assms(6))
  qed
qed

text \<open>What every sub reconciler keeps, \<^verbatim>\<open>Always\<close> keeps.\<close>

definition keeps :: "('s \<Rightarrow> bool) \<Rightarrow> ('s, unit) act \<Rightarrow> bool" where
  "keeps I h \<longleftrightarrow> (\<forall>s. I s \<longrightarrow> wpe h (\<lambda>_. I) I s)"

lemma always_keeps:
  assumes "calls_all al" "\<And>h. h \<in> set hs \<Longrightarrow> keeps I h" "I s"
  shows "wpe (al hs) (\<lambda>_. I) I s"
  using assms(2,3)
proof (induction hs arbitrary: s)
  case (Cons h hs)
  from Cons.prems have "wpe h (\<lambda>_. I) I s" by (simp add: keeps_def)
  then show ?case
    unfolding wpe_always(2) [OF assms(1)] using Cons by (elim wpe_mono) auto
qed (simp add: wpe_always(1) [OF assms(1)])

lemma keeps_ResolveRepository:
  "calm cx \<Longrightarrow> quiet_go gvk \<Longrightarrow> ct \<in> cs \<Longrightarrow> keeps (only_marks cs s) (ResolveRepository cx meta gvk rr ct)"
  unfolding keeps_def
  by (auto intro!: wpe_ResolveRepository elim!: only_marks_trans simp: only_marks_def)

lemma keeps_ResolveKeychain:
  "calm cx \<Longrightarrow> ct \<in> cs \<Longrightarrow> keeps (only_marks cs s) (ResolveKeychain cx sar ct)"
  unfolding keeps_def
  by (auto intro!: wpe_ResolveKeychain simp: only_marks_def)

section \<open>The pipeline of components\<close>

text \<open>
  A request that began with registries \<open>w\<close> and left \<open>w'\<close> has copied the source of the component to the tag of the
  component in its repository; the status names the digest of the copy and the imports and exports of its configuration.
\<close>

definition publishes_copy :: "('kc, 'd, 't, 'desc, 'sec, 'w) cluster \<Rightarrow> GroupVersionKind go \<Rightarrow> Component \<Rightarrow> 'w \<Rightarrow> 'w \<Rightarrow>
    GenericComponentStatus \<Rightarrow> bool" where
  "publishes_copy cx gvk r w w' st \<longleftrightarrow> (\<exists>kc tag src d cfg.
     target_tag cx gvk (rs_Meta r) (Component_GetRepositoryReference r) tag \<and> component_source cx (rs_Spec r) kc w src \<and>
     Copy (cx_lib cx) (cx_remote cx) kc (RefDigest src) tag w = (w', Ret d) \<and>
     PullConfig (cx_lib cx) (cx_remote cx) kc d w' = Ret cfg \<and> gst_Image st = lib_DigestName (cx_lib cx) d \<and>
     gst_WIT st = Some \<lparr>wit_Imports = wcc_Imports (wc_Component cfg), wit_Exports = wcc_Exports (wc_Component cfg)\<rparr>)"

lemma publishes_copyI:
  "target_tag cx gvk (rs_Meta r) (Component_GetRepositoryReference r) tag \<Longrightarrow> component_source cx (rs_Spec r) kc w src \<Longrightarrow>
   Copy (cx_lib cx) (cx_remote cx) kc (RefDigest src) tag w = (w', Ret d) \<Longrightarrow>
   PullConfig (cx_lib cx) (cx_remote cx) kc d w' = Ret cfg \<Longrightarrow>
   publishes_copy cx gvk r w w' (st\<lparr>gst_Image := lib_DigestName (cx_lib cx) d, gst_Trace := tr,
     gst_WIT := Some \<lparr>wit_Imports = wcc_Imports (wc_Component cfg), wit_Exports = wcc_Exports (wc_Component cfg)\<rparr>\<rparr>)"
  unfolding publishes_copy_def
  by (rule exI [of _ kc], rule exI [of _ tag], rule exI [of _ src], rule exI [of _ d], rule exI [of _ cfg]) simp

lemma no_cycle_Nil [simp]: "\<not> fst (DetectTraceCycle [] m)"
  by (simp add: DetectTraceCycle_spec)

lemma wpe_component_pipeline:
  fixes s :: "(Component, 'kc, 'd, 't, 'w) rstate"
  assumes "calm cx" "quiet_go gvk" "sequences sq" "calls_all al"
    and "cs_OCI (rs_Spec (rx_Resource s)) \<noteq> None \<or> cs_Ref (rs_Spec (rx_Resource s)) \<noteq> None"
  shows "wpe (genericComponentReconciler sq al cx gvk)
    (\<lambda>_ s'. only_marks {''RepositoryReady'', ''ComponentCopied''} s s' \<and>
       Mark ''RepositoryReady'' CTrue ''Ready'' '''' \<in> set (rx_Marks s') \<and>
       Mark ''ComponentCopied'' CTrue ''Copied'' '''' \<in> set (rx_Marks s') \<and>
       publishes_copy cx gvk (rx_Resource s) (rx_World s) (rx_World s') (rs_Status (rx_Resource s')) \<and>
       trace_kept (rs_Meta (rx_Resource s)) (st_Trace (rx_Stash s)) (gst_Trace (rs_Status (rx_Resource s'))))
    (\<lambda>s'. only_marks {''RepositoryReady'', ''ComponentCopied''} s s') s"
    (is "wpe _ ?Q ?E s")
proof -
  let ?cs = "{''RepositoryReady'', ''ComponentCopied''}"
  have up: "only_marks {''ComponentCopied''} t t' \<Longrightarrow> only_marks ?cs t t'" for t t' :: "(Component, 'kc, 'd, 't, 'w) rstate"
    by (auto simp: only_marks_def)
  let ?found = "\<lambda>s1 tag kc. rx_Resource s1 = rx_Resource s \<and> rx_World s1 = rx_World s \<and> st_Trace (rx_Stash s1) = st_Trace (rx_Stash s) \<and>
      st_Tag (rx_Stash s1) = Some tag \<and> st_Keychain (rx_Stash s1) = Some kc \<and>
      target_tag cx gvk (rs_Meta (rx_Resource s)) (Component_GetRepositoryReference (rx_Resource s)) tag \<and>
      only_marks ?cs s s1 \<and> Mark ''RepositoryReady'' CTrue ''Ready'' '''' \<in> set (rx_Marks s1)"
  have copy: "wpe (CopyComponent cx) (\<lambda>_. wpe (ReflectComponentableStatus cx (Component_ComponentLike gvk)) ?Q ?E) ?E s1"
    if f: "?found s1 tag kc" for s1 tag kc
  proof (rule wpe_CopyComponent [where kc = kc and tag = tag, OF assms(1)], goal_cases)
    case (4 s' src d cfg)
    have "only_marks ?cs s s'" using up [OF 4(2)] f by (blast intro: only_marks_trans)
    moreover have "Mark ''RepositoryReady'' CTrue ''Ready'' '''' \<in> set (rx_Marks s')"
      using 4(2) f by (auto simp: only_marks_def)
    moreover have "publishes_copy cx gvk (rx_Resource s) (rx_World s) (rx_World s') (st\<lparr>gst_Image := lib_DigestName (cx_lib cx) d, gst_Trace := tr,
       gst_WIT := Some \<lparr>wit_Imports = wcc_Imports (wc_Component cfg), wit_Exports = wcc_Exports (wc_Component cfg)\<rparr>\<rparr>)" for st tr
      by (rule publishes_copyI [where tag = tag and kc = kc and src = src]) (use f 4(4-6) in simp_all)
    ultimately show ?case
      using 4(1,3,7-9) f
      by (auto simp: wpe_ReflectComponentableStatus Component_ComponentLike_def trace_kept_def split: option.split cong: only_marks_cong)
  next
    case (5 s')
    then show ?case using up f by (blast intro: only_marks_trans)
  qed (use assms(5) f in simp_all)
  have keychain: "wpe (ResolveKeychain cx Component_GetServiceAccountReference ''ComponentCopied'')
      (\<lambda>_. wpe (CopyComponent cx) (\<lambda>_. wpe (ReflectComponentableStatus cx (Component_ComponentLike gvk)) ?Q ?E) ?E) ?E s1"
    if f: "?found s1 tag kc" for s1 tag kc
  proof (rule wpe_ResolveKeychain [OF assms(1)], goal_cases)
    case (1 kc')
    with f obtain k where "kc' = Some k" by auto
    with f show ?case by (intro copy [where tag = tag and kc = k]) (auto simp: only_marks_def)
  next
    case (2 new)
    have "only_marks ?cs s1 (s1\<lparr>rx_Marks := rx_Marks s1 @ new\<rparr>)" using 2 by (intro only_marksI) auto
    with f show ?case by (blast intro: only_marks_trans)
  qed
  have failed: "wpe (ResolveKeychain cx Component_GetServiceAccountReference ''ComponentCopied'') (\<lambda>_. ?E) ?E s1"
    if "?E s1" for s1
    using keeps_ResolveKeychain [OF assms(1), of "''ComponentCopied''" ?cs s] that by (simp add: keeps_def)
  have eta: "wpe (sq []) ?Q ?E = ?Q ()" "wpe (al []) Q' E' = Q' ()" for Q' E'
    using wpe_sequence(1) [OF assms(3)] wpe_always(1) [OF assms(4)] by (auto simp: fun_eq_iff)
  show ?thesis
    unfolding genericComponentReconciler_def wpe_sequence(2) [OF assms(3)] wpe_always(2) [OF assms(4)] eta
    by (rule wpe_target [OF assms(1,2)], rule keychain, simp, rule failed) (auto simp: only_marks_def)
qed

section \<open>Config stores\<close>

text \<open>The specification of a collected configuration: the last entry for a key wins, and the values win over
  the config maps.\<close>

definition value_of :: "('kc, 'd, 't, 'desc, 'sec, 'w) cluster \<Rightarrow> string \<Rightarrow> Value \<Rightarrow> string option" where
  "value_of cx ns v = (case vl_ValueFrom v of
     None \<Rightarrow> Some (vl_Value v)
   | Some from \<Rightarrow> (case cx_ConfigMap cx ns (vf_Name from) of Ret data \<Rightarrow> data (vf_Key from) | _ \<Rightarrow> None))"

definition data_of :: "('kc, 'd, 't, 'desc, 'sec, 'w) cluster \<Rightarrow> string \<Rightarrow> string \<Rightarrow> ValuesFrom \<Rightarrow> string option" where
  "data_of cx ns k v = (case cx_ConfigMap cx ns (vsf_Name v) of
     Ret data \<Rightarrow> with_prefix (vsf_Prefix v) data k | _ \<Rightarrow> None)"

definition configured :: "('kc, 'd, 't, 'desc, 'sec, 'w) cluster \<Rightarrow> string \<Rightarrow> GenericConfigStoreSpec \<Rightarrow> string \<Rightarrow> string option" where
  "configured cx ns spec k = (case find (\<lambda>v. vl_Name v = k) (rev (gcs_Values spec)) of
     Some v \<Rightarrow> value_of cx ns v
   | None \<Rightarrow> (case find (\<lambda>v. data_of cx ns k v \<noteq> None) (rev (gcs_ValuesFrom spec)) of
       Some v \<Rightarrow> data_of cx ns k v | None \<Rightarrow> None))"

lemma find_append: "find P (xs @ ys) = (case find P xs of None \<Rightarrow> find P ys | Some x \<Rightarrow> Some x)"
  by (induction xs) auto

lemma config_map_Ret: "config_map cx ns n f s = (s', Ret x) \<longleftrightarrow> (\<exists>data. cx_ConfigMap cx ns n = Ret data \<and> f data s = (s', Ret x))"
  by (auto simp: config_map_def act_try_def stop_with_def act_simps act_bind_def split: go.split if_split)

lemma collect_values_from_Ret:
  "collect_values_from cx ns vs config s = (s', Ret config') \<Longrightarrow>
     s' = s \<and> config' k = (case find (\<lambda>v. data_of cx ns k v \<noteq> None) (rev vs) of Some v \<Rightarrow> data_of cx ns k v | None \<Rightarrow> config k)"
proof (induction cx ns vs config rule: collect_values_from.induct)
  case (2 cx ns v vs config)
  from "2.prems" obtain data where d: "cx_ConfigMap cx ns (vsf_Name v) = Ret data"
    and r: "collect_values_from cx ns vs (config ++ with_prefix (vsf_Prefix v) data) s = (s', Ret config')"
    by (auto simp: config_map_Ret)
  have "data_of cx ns k v = with_prefix (vsf_Prefix v) data k" by (simp add: data_of_def d)
  with "2.IH" [OF r] show ?case
    by (auto simp: find_append map_add_def split: option.splits)
qed (simp add: act_ret_def)

lemma collect_values_Ret:
  "collect_values cx ns vs config s = (s', Ret config') \<Longrightarrow>
     s' = s \<and> config' k = (case find (\<lambda>v. vl_Name v = k) (rev vs) of Some v \<Rightarrow> value_of cx ns v | None \<Rightarrow> config k)"
proof (induction cx ns vs config rule: collect_values.induct)
  case (2 cx ns v vs config)
  show ?case
  proof (cases "vl_ValueFrom v")
    case None
    with "2.prems" have r: "collect_values cx ns vs (config(vl_Name v \<mapsto> vl_Value v)) s = (s', Ret config')" by simp
    have "value_of cx ns v = Some (vl_Value v)" by (simp add: value_of_def None)
    with "2.IH"(1) [OF None r] show ?thesis by (auto simp: find_append split: option.splits)
  next
    case (Some f)
    with "2.prems" obtain data x where d: "cx_ConfigMap cx ns (vf_Name f) = Ret data" "data (vf_Key f) = Some x"
      and r: "collect_values cx ns vs (config(vl_Name v \<mapsto> x)) s = (s', Ret config')"
      by (auto simp: config_map_Ret stop_with_def act_simps act_bind_def split: option.splits)
    have "value_of cx ns v = Some x" by (simp add: value_of_def Some d)
    from "2.IH"(2) [where x = data, OF Some d(2) r] \<open>value_of cx ns v = Some x\<close> show ?thesis
      by (auto simp: find_append split: option.splits)
  qed
qed (simp add: act_ret_def)

lemma act_bind_Ret: "act_bind m f s = (s', Ret y) \<longleftrightarrow> (\<exists>x s1. m s = (s1, Ret x) \<and> f x s1 = (s', Ret y))"
  by (auto simp: act_bind_def split: go.splits prod.splits)

lemma CollectConfig_config:
  assumes "CollectConfig cx s = (s', Ret ())"
  shows "s' = s\<lparr>rx_Stash := (rx_Stash s)
      \<lparr>st_ConfigStore := Some (configured cx (om_Namespace (rs_Meta (rx_Resource s))) (css_Store (rs_Spec (rx_Resource s))))\<rparr>,
      rx_Marks := rx_Marks s @ [Mark ''ConfigResolved'' CTrue ''Resolved'' '''']\<rparr>"
proof -
  let ?ns = "om_Namespace (rs_Meta (rx_Resource s))" and ?spec = "css_Store (rs_Spec (rx_Resource s))"
  from assms obtain c0 s1 c1 s2 where
    1: "collect_values_from cx ?ns (gcs_ValuesFrom ?spec) Map.empty s = (s1, Ret c0)" and
    2: "collect_values cx ?ns (gcs_Values ?spec) c0 s1 = (s2, Ret c1)" and
    3: "act_then (stash_Store ConfigStoreStasher c1) (mark_as ''ConfigResolved'' CTrue ''Resolved'' '''') s2 = (s', Ret ())"
    by (auto simp: CollectConfig_def act_bind_Ret get_resource_def Let_def)
  have "s1 = s" "s2 = s1" using collect_values_from_Ret [OF 1] collect_values_Ret [OF 2] by auto
  moreover have "c1 = configured cx ?ns ?spec"
  proof
    fix k
    show "c1 k = configured cx ?ns ?spec k"
      using collect_values_from_Ret [OF 1, of k] collect_values_Ret [OF 2, of k]
      by (auto simp: configured_def split: option.splits)
  qed
  ultimately show ?thesis
    using 3 by (simp add: act_then_def act_bind_def stash_Store_def mark_as_def stashers)
qed

text \<open>C19: the configuration a store publishes is the one its spec describes: when collecting returns, the
  stashed map gives for every key the last value of this name, or else the last config map entry
  behind its prefix, and nothing for other keys; the condition is marked resolved and nothing else
  changes.\<close>

theorem CollectConfig_lookup:
  assumes "CollectConfig cx s = (s', Ret ())"
  shows "\<exists>config. s' = s\<lparr>rx_Stash := (rx_Stash s)\<lparr>st_ConfigStore := Some config\<rparr>,
      rx_Marks := rx_Marks s @ [Mark ''ConfigResolved'' CTrue ''Resolved'' '''']\<rparr> \<and>
    config = configured cx (om_Namespace (rs_Meta (rx_Resource s))) (css_Store (rs_Spec (rx_Resource s)))"
  using CollectConfig_config [OF assms] by blast

lemma wpe_config_map:
  assumes "calm cx" "\<And>data. wpe (f data) Q E s" "\<And>s'. only_marks {''ConfigResolved''} s s' \<Longrightarrow> E s'"
  shows "wpe (config_map cx ns n f) Q E s"
  using calmD(7) [OF assms(1), of ns n] assms(2,3)
  by (cases "cx_ConfigMap cx ns n") (auto simp: config_map_def wpe_simps)

lemma wpe_collect_values_from:
  assumes "calm cx" "\<And>c. Q c s" "\<And>s'. only_marks {''ConfigResolved''} s s' \<Longrightarrow> E s'"
  shows "wpe (collect_values_from cx ns vs config) Q E s"
  using assms by (induction vs arbitrary: config) (auto simp: wpe_simps intro!: wpe_config_map)

lemma wpe_collect_values:
  assumes "calm cx" "\<And>c. Q c s" "\<And>s'. only_marks {''ConfigResolved''} s s' \<Longrightarrow> E s'"
  shows "wpe (collect_values cx ns vs config) Q E s"
  using assms by (induction vs arbitrary: config) (auto simp: wpe_simps intro!: wpe_config_map split: option.split)

lemma wpe_CollectConfig_quiet:
  assumes "calm cx" "\<And>s'. only_marks {''ConfigResolved''} s s' \<Longrightarrow> E s'"
  shows "wpe (CollectConfig cx) (\<lambda>_ _. True) E s"
proof -
  let ?Q = "\<lambda>_ _. True"
  let ?ns = "om_Namespace (rs_Meta (rx_Resource s))" and ?spec = "css_Store (rs_Spec (rx_Resource s))"
  have "wpe (collect_values cx ?ns (gcs_Values ?spec) c) (\<lambda>x. wpe (act_then (stash_Store ConfigStoreStasher x)
      (mark_as ''ConfigResolved'' CTrue ''Resolved'' [])) ?Q E) E s" for c
    using assms by (intro wpe_collect_values) (auto simp: wpe_simps stashers)
  then show ?thesis
    using assms by (simp add: CollectConfig_def wpe_simps Let_def) (rule wpe_collect_values_from, simp_all add: wpe_bind)
qed

lemma wpe_CollectConfig:
  assumes "calm cx"
    and "Q () (s\<lparr>rx_Stash := (rx_Stash s)
        \<lparr>st_ConfigStore := Some (configured cx (om_Namespace (rs_Meta (rx_Resource s))) (css_Store (rs_Spec (rx_Resource s))))\<rparr>,
      rx_Marks := rx_Marks s @ [Mark ''ConfigResolved'' CTrue ''Resolved'' '''']\<rparr>)"
    and "\<And>s'. only_marks {''ConfigResolved''} s s' \<Longrightarrow> E s'"
  shows "wpe (CollectConfig cx) Q E s"
proof (cases "CollectConfig cx s")
  case (Pair s' g)
  have *: "wpe (CollectConfig cx) (\<lambda>_ _. True) E s" by (rule wpe_CollectConfig_quiet [OF assms(1,3)])
  show ?thesis
  proof (cases g)
    case (Ret x)
    with Pair have "CollectConfig cx s = (s', Ret ())" by simp
    with CollectConfig_config [OF this] assms(2) show ?thesis by (auto simp: wpe_def)
  qed (use Pair * in \<open>simp_all add: wpe_def\<close>)
qed

lemma wpe_ComponentizeConfig:
  assumes "st_ConfigStore (rx_Stash s) = Some c"
    and "\<And>b. ComponentizeConfigStore (cx_staticConfigPool cx) (lib_json_text (cx_lib cx)) (cx_entries cx c) = Ret b \<Longrightarrow>
      Q () (s\<lparr>rx_Stash := (rx_Stash s)\<lparr>st_Component := Some b\<rparr>\<rparr>)"
    and "\<And>s'. rx_Marks s' = rx_Marks s \<Longrightarrow> E s'"
  shows "wpe (ComponentizeConfig cx) Q E s"
  using quiet_plugins(2) [of "cx_staticConfigPool cx" "lib_json_text (cx_lib cx)" "cx_entries cx c"] assms
  by (cases "ComponentizeConfigStore (cx_staticConfigPool cx) (lib_json_text (cx_lib cx)) (cx_entries cx c)")
    (simp_all add: ComponentizeConfig_def wpe_simps stashers)

lemma wpe_world [wpe_simps]: "wpe (act_world f) Q E s =
    (case snd (f (rx_World s)) of Ret x \<Rightarrow> Q x (s\<lparr>rx_World := fst (f (rx_World s))\<rparr>)
     | Fail e \<Rightarrow> E (s\<lparr>rx_World := fst (f (rx_World s))\<rparr>) | Panic p \<Rightarrow> False)"
  by (cases "f (rx_World s)") (simp add: wpe_def act_world_def split: go.split)

lemma quiet_ComponentChild: "quiet_go (ck_GVK ck) \<Longrightarrow> quiet_go (ComponentChild_DesiredChild ck key r)"
  by (simp add: ComponentChild_DesiredChild_def Let_def)

lemma wpe_component_child:
  assumes "quiet_go (ck_GVK ck)" "\<And>c w. quiet_go (snd (manage c w))"
    and "\<And>w mk. mk_Type mk = ct \<Longrightarrow> Q () (s\<lparr>rx_World := w, rx_Marks := rx_Marks s @ [mk]\<rparr>)"
    and "\<And>s'. only_marks {ct} s s' \<Longrightarrow> E s'"
  shows "wpe (child_reconciler (ComponentChild_DesiredChild ck key) manage (ComponentChild_Reflect cx meta ct)) Q E s"
proof (cases "ComponentChild_DesiredChild ck key (rx_Resource s)")
  case (Ret c)
  show ?thesis
  proof (cases "snd (manage c (rx_World s))")
    case r: (Ret ke)
    then show ?thesis
      using Ret assms(3,4)
      by (cases ke) (auto simp: child_reconciler_def wpe_simps ComponentChild_Reflect_def split: option.split)
  next
    case (Panic m)
    with assms(2) [of c "rx_World s"] show ?thesis by simp
  qed (use Ret assms(4) in \<open>auto simp: child_reconciler_def wpe_simps\<close>)
next
  case (Panic m)
  with quiet_ComponentChild [OF assms(1), of key "rx_Resource s"] show ?thesis by simp
qed (use assms(4) in \<open>auto simp: child_reconciler_def wpe_simps\<close>)

section \<open>Repositories\<close>

text \<open>The pull secrets of the service account of a repository may push to the tag its template gives the repository itself.\<close>

definition may_push :: "('kc, 'd, 't, 'desc, 'sec, 'w) cluster \<Rightarrow> GroupVersionKind go \<Rightarrow> ('t \<Rightarrow> 'kc \<Rightarrow> 'w \<Rightarrow> unit go) \<Rightarrow>
    repository_object \<Rightarrow> 'w \<Rightarrow> bool" where
  "may_push cx gvk checkPush r w \<longleftrightarrow> (\<exists>kc tag. repository_keychain cx (rs_Spec r) = Ret kc \<and>
     template_tag cx (rps_Template (rs_Spec r)) (rs_Meta r) gvk = Ret tag \<and> rm_transport (cx_remote cx) = Ret () \<and>
     checkPush tag kc w = Ret ())"

definition repository_marks :: "mark list" where
  "repository_marks = [Mark ''CredentialsResolved'' CTrue ''Resolved'' '''', Mark ''Authenticated'' CTrue ''Authenticated'' '''']"

lemma wpe_repository:
  fixes s :: "(repository_object, 'kc, 'd, 't, 'w) rstate"
  assumes "calm cx" "quiet_go gvk" "sequences sq" "\<And>tag kc w. quiet_go (checkPush tag kc w)"
  shows "wpe (genericRepositoryReconciler sq cx gvk checkPush)
    (\<lambda>_ s'. may_push cx gvk checkPush (rx_Resource s) (rx_World s) \<and> rx_Marks s' = rx_Marks s @ repository_marks \<and>
       rx_Resource s' = rx_Resource s \<and> rx_World s' = rx_World s)
    (\<lambda>s'. \<not> may_push cx gvk checkPush (rx_Resource s) (rx_World s) \<and> only_marks (set RepositoryConditions) s s' \<and>
       rx_Resource s' = rx_Resource s \<and> rx_World s' = rx_World s) s"
    (is "wpe _ ?Q ?E s")
proof -
  let ?r = "rx_Resource s" and ?seq = "genericRepositoryReconciler sq cx gvk checkPush"
  let ?tag = "template_tag cx (rps_Template (rs_Spec ?r)) (rs_Meta ?r) gvk"
  note rules = genericRepositoryReconciler_def wpe_sequence [OF assms(3)] RepositoryKeychain_def CheckRepositoryAuthentication_def
    may_push_def repository_marks_def only_marks_def RepositoryConditions_def wpe_simps
  have quiet: "quiet_go (repository_keychain cx (rs_Spec ?r))" "bare (repository_keychain cx (rs_Spec ?r))"
    "quiet_go ?tag" "quiet_go (rm_transport (cx_remote cx))"
    by (simp_all add: calmD [OF assms(1)] calm_remoteD [OF calmD(2) [OF assms(1)]] quiet_template_tag [OF assms(1,2)])
  show ?thesis
  proof (cases "repository_keychain cx (rs_Spec ?r)")
    case (Fail e)
    with quiet(2) show ?thesis by (auto simp: rules bare_def)
  next
    case keychain: (Ret kc)
    show ?thesis
    proof (cases ?tag)
      case (Ret tag)
      with keychain quiet(4) assms(4) [of tag kc "rx_World s"] show ?thesis
        by (cases "rm_transport (cx_remote cx)"; cases "checkPush tag kc (rx_World s)") (simp_all add: rules stashers)
    qed (use keychain quiet(3) in \<open>simp_all add: rules stashers\<close>)
  qed (use quiet(1) in simp)
qed

section \<open>The pipelines of config stores and images\<close>

lemma keeps_component_child:
  assumes "quiet_go (ck_GVK ck)" "\<And>c w. quiet_go (snd (manage c w))" "ct \<in> cs"
  shows "keeps (only_marks cs s)
    (child_reconciler (ComponentChild_DesiredChild ck key) manage (ComponentChild_Reflect cx meta ct))"
  unfolding keeps_def
proof (intro allI impI wpe_component_child assms(1,2))
  fix s1 w mk
  assume "only_marks cs s s1"
  { assume "mk_Type mk = ct"
    with \<open>only_marks cs s s1\<close> assms(3) show "only_marks cs s (s1\<lparr>rx_World := w, rx_Marks := rx_Marks s1 @ [mk]\<rparr>)"
      by (auto simp: only_marks_def) }
  fix s' assume "only_marks {ct} s1 s'"
  with \<open>only_marks cs s s1\<close> assms(3) show "only_marks cs s s'" by (auto simp: only_marks_def image_subset_iff)
qed

text \<open>
  The component was pushed to the tag of the resource in its repository, which left the registries \<open>w'\<close>; the status
  names the digest the push returned and the imports and exports of its configuration.
\<close>

definition publishes_push :: "('kc, 'd, 't, 'desc, 'sec, 'w) cluster \<Rightarrow> GroupVersionKind go \<Rightarrow> ObjectMeta \<Rightarrow> RepositoryReference \<Rightarrow>
    string \<Rightarrow> 'w \<Rightarrow> GenericComponentStatus \<Rightarrow> bool" where
  "publishes_push cx gvk m ref component w' st \<longleftrightarrow> (\<exists>kc tag w d cfg. target_tag cx gvk m ref tag \<and>
     Push (cx_lib cx) (cx_remote cx) (ExtractWIT (cx_witToolsPool cx)) kc (RefTag tag) component w = (w', Ret (d, cfg)) \<and>
     gst_Image st = lib_DigestName (cx_lib cx) d \<and>
     gst_WIT st = Some \<lparr>wit_Imports = wcc_Imports (wc_Component cfg), wit_Exports = wcc_Exports (wc_Component cfg)\<rparr>)"

lemma publishes_pushI:
  "target_tag cx gvk m ref tag \<Longrightarrow>
   Push (cx_lib cx) (cx_remote cx) (ExtractWIT (cx_witToolsPool cx)) kc (RefTag tag) component w = (w', Ret (d, cfg)) \<Longrightarrow>
   publishes_push cx gvk m ref component w' (st\<lparr>gst_Image := lib_DigestName (cx_lib cx) d, gst_Trace := tr,
     gst_WIT := Some \<lparr>wit_Imports = wcc_Imports (wc_Component cfg), wit_Exports = wcc_Exports (wc_Component cfg)\<rparr>\<rparr>)"
  unfolding publishes_push_def
  by (rule exI [of _ kc], rule exI [of _ tag], rule exI [of _ w], rule exI [of _ d], rule exI [of _ cfg]) simp

lemma wpe_push_and_reflect:
  assumes "calm cx" "only_marks cs s s1" "ct \<in> cs"
    and "st_Component (rx_Stash s1) = Some component" "st_Tag (rx_Stash s1) = Some tag" "st_Keychain (rx_Stash s1) = Some kc"
    and "target_tag cx gvk m ref tag"
    and "\<And>r. ck_GetGenericComponentStatus ck r = rs_Status r" "\<And>st r. ck_put_status ck st r = r\<lparr>rs_Status := st\<rparr>"
  shows "wpe (PushComponent cx ct) (\<lambda>_. wpe (ReflectComponentableStatus cx ck)
      (\<lambda>_ s'. only_marks cs s s' \<and> Mark ct CTrue ''Pushed'' '''' \<in> set (rx_Marks s') \<and>
        publishes_push cx gvk m ref component (rx_World s') (rs_Status (rx_Resource s'))) (only_marks cs s)) (only_marks cs s) s1"
proof (rule wpe_PushComponent [OF assms(1,4-6)], goal_cases)
  case (1 w d config)
  with assms publishes_pushI [OF assms(7) 1] show ?case
    by (auto simp: wpe_ReflectComponentableStatus only_marks_def)
next
  case (2 w msg ev)
  with assms(2,3) show ?case by (auto simp: only_marks_def)
qed

text \<open>What is pushed for a config store is the static configuration made of what its spec describes.\<close>

definition publishes_config :: "('kc, 'd, 't, 'desc, 'sec, 'w) cluster \<Rightarrow> GroupVersionKind go \<Rightarrow> ConfigStore \<Rightarrow> 'w \<Rightarrow>
    GenericComponentStatus \<Rightarrow> bool" where
  "publishes_config cx gvk r w' st \<longleftrightarrow> (\<exists>component.
     ComponentizeConfigStore (cx_staticConfigPool cx) (lib_json_text (cx_lib cx))
       (cx_entries cx (configured cx (om_Namespace (rs_Meta r)) (css_Store (rs_Spec r)))) = Ret component \<and>
     publishes_push cx gvk (rs_Meta r) (ConfigStore_GetRepositoryReference r) component w' st)"

lemma wpe_configstore_pipeline:
  assumes "calm cx" "quiet_go gvk" "sequences sq" "calls_all al" "\<And>c w. quiet_go (snd (manage c w))"
  defines "cs \<equiv> insert ''ChildComponent'' (set ConfigStoreConditions)"
  shows "wpe (ConfigStoreReconciler sq al cx gvk manage)
    (\<lambda>_ s'. only_marks cs s s' \<and> Mark ''ComponentPushed'' CTrue ''Pushed'' '''' \<in> set (rx_Marks s') \<and>
       publishes_config cx gvk (rx_Resource s) (rx_World s') (rs_Status (rx_Resource s')))
    (only_marks cs s) s"
    (is "wpe _ ?Q ?E s")
proof -
  let ?ck = "ConfigStore_ComponentLike gvk" and ?key = "''wa8s.reconciler.io/config-store''"
  let ?config = "configured cx (om_Namespace (rs_Meta (rx_Resource s))) (css_Store (rs_Spec (rx_Resource s)))"
  let ?child = "child_reconciler (ComponentChild_DesiredChild ?ck ?key) manage (ComponentChild_Reflect cx rs_Meta ''ChildComponent'')"
  let ?repo = "ResolveRepository cx rs_Meta gvk ConfigStore_GetRepositoryReference ''RepositoryReady''"
  let ?rest = "\<lambda>_. wpe (ComponentizeConfig cx) (\<lambda>_. wpe (PushComponent cx ''ComponentPushed'')
      (\<lambda>_. wpe (ReflectComponentableStatus cx ?ck) ?Q ?E) ?E) ?E"
  let ?found = "\<lambda>s1 tag kc. only_marks cs s s1 \<and> st_ConfigStore (rx_Stash s1) = Some ?config \<and>
      st_Tag (rx_Stash s1) = Some tag \<and> st_Keychain (rx_Stash s1) = Some kc \<and>
      target_tag cx gvk (rs_Meta (rx_Resource s)) (ConfigStore_GetRepositoryReference (rx_Resource s)) tag"
  have cs: "''ConfigResolved'' \<in> cs" "''RepositoryReady'' \<in> cs" "''ChildComponent'' \<in> cs" "''ComponentPushed'' \<in> cs"
    by (simp_all add: cs_def ConfigStoreConditions_def)
  have gvk: "quiet_go (ck_GVK ?ck)" using assms(2) by (simp add: ConfigStore_ComponentLike_def)
  have k1: "keeps ?E ?repo" by (rule keeps_ResolveRepository [OF assms(1,2) cs(2)])
  have k2: "keeps ?E ?child" by (rule keeps_component_child [OF gvk assms(5) cs(3)])
  have rest: "?rest () s1" if f: "?found s1 tag kc" for s1 tag kc
  proof (rule wpe_ComponentizeConfig [where c = ?config], goal_cases)
    case (2 b)
    let ?s2 = "s1\<lparr>rx_Stash := (rx_Stash s1)\<lparr>st_Component := Some b\<rparr>\<rparr>"
    have "only_marks cs s ?s2" using f by (auto simp: only_marks_def)
    from wpe_push_and_reflect [OF assms(1) this cs(4), where component = b and tag = tag and kc = kc and ck = ?ck and gvk = gvk
        and m = "rs_Meta (rx_Resource s)" and ref = "ConfigStore_GetRepositoryReference (rx_Resource s)"] f 2
    show ?case
      by (auto simp: ConfigStore_ComponentLike_def publishes_config_def elim!: wpe_mono)
  next
    case (3 s')
    with f show ?case by (auto simp: only_marks_def)
  qed (use f in simp)
  have child: "wpe ?child ?rest ?E s1" if f: "?found s1 tag kc" for s1 tag kc
  proof (rule wpe_component_child [OF gvk assms(5)], goal_cases)
    case (1 w mk)
    with f cs(3) show ?case by (intro rest [of _ tag kc]) (auto simp: only_marks_def)
  next
    case (2 s')
    with f cs(3) show ?case by (auto simp: only_marks_def image_subset_iff)
  qed
  have eta: "wpe (sq []) ?Q ?E = ?Q ()" "wpe (al []) Q' E' = Q' ()" for Q' E'
    using wpe_sequence(1) [OF assms(3)] wpe_always(1) [OF assms(4)] by (auto simp: fun_eq_iff)
  have one: "wpe ?child (\<lambda>_. ?E) ?E s1" if "?E s1" for s1
    using k2 that by (simp add: keeps_def)
  show ?thesis
    unfolding ConfigStoreReconciler_def Let_def wpe_sequence(2) [OF assms(3)] wpe_always(2) [OF assms(4)] eta
  proof (rule wpe_CollectConfig [OF assms(1)], goal_cases)
    case 1
    show ?case
    proof (rule wpe_target [OF assms(1,2)], goal_cases)
      case (1 kc tag)
      then show ?case by (intro child) (use cs in \<open>auto simp: only_marks_def\<close>)
    next
      case (2 new kc)
      then show ?case by (intro one) (use cs in \<open>auto simp: only_marks_def\<close>)
    qed
  next
    case (2 s')
    then have "?E s'" using cs by (auto simp: only_marks_def image_subset_iff)
    with k1 have "wpe ?repo (\<lambda>_. ?E) ?E s'" by (simp add: keeps_def)
    then show ?case by (rule wpe_mono) (auto intro: one)
  qed
qed

lemma wpe_CopyImage:
  assumes "calm cx" "st_Keychain (rx_Stash s) = Some kc" "st_Tag (rx_Stash s) = Some tag"
    and "\<And>src w d. Copy (cx_lib cx) (cx_remote cx) kc (RefDigest src) tag (rx_World s) = (w, Ret d) \<Longrightarrow>
      ResolveDigest (cx_lib cx) (cx_remote cx) kc (is_Image (rs_Spec (rx_Resource s))) (rx_World s) = Ret src \<Longrightarrow>
      Q () (s\<lparr>rx_World := w, rx_Marks := rx_Marks s @ [Mark ''ImageCopied'' CTrue ''Copied'' ''''],
        rx_Resource := (rx_Resource s)\<lparr>rs_Status := (rs_Status (rx_Resource s))\<lparr>ist_Image := lib_DigestName (cx_lib cx) d\<rparr>\<rparr>\<rparr>)"
    and "\<And>s'. only_marks {''ImageCopied''} s s' \<Longrightarrow> E s'"
  shows "wpe (CopyImage cx) Q E s"
proof -
  have q1: "quiet_go (ResolveDigest (cx_lib cx) (cx_remote cx) kc (is_Image (rs_Spec (rx_Resource s))) (rx_World s))"
    by (intro quiet_ResolveDigest calmD assms(1))
  show ?thesis
  proof (cases "ResolveDigest (cx_lib cx) (cx_remote cx) kc (is_Image (rs_Spec (rx_Resource s))) (rx_World s)")
    case (Ret src)
    have q2: "quiet_go (snd (Copy (cx_lib cx) (cx_remote cx) kc (RefDigest src) tag (rx_World s)))"
      by (intro quiet_Copy calmD assms(1))
    obtain w g where c: "Copy (cx_lib cx) (cx_remote cx) kc (RefDigest src) tag (rx_World s) = (w, g)"
      by (cases "Copy (cx_lib cx) (cx_remote cx) kc (RefDigest src) tag (rx_World s)")
    with Ret q2 assms(2-5) show ?thesis
      by (cases g) (auto simp: CopyImage_def wpe_simps stashers)
  qed (use q1 assms(2,3,5) in \<open>auto simp: CopyImage_def wpe_simps stashers\<close>)
qed

text \<open>
  A request that began with registries \<open>w\<close> and left \<open>w'\<close> has copied the image its spec names to the tag of the
  resource in its repository, and the status names the digest of the copy.
\<close>

definition publishes_image :: "('kc, 'd, 't, 'desc, 'sec, 'w) cluster \<Rightarrow> GroupVersionKind go \<Rightarrow> image_object \<Rightarrow> 'w \<Rightarrow> 'w \<Rightarrow>
    ImageStatus \<Rightarrow> bool" where
  "publishes_image cx gvk r w w' st \<longleftrightarrow> (\<exists>kc tag src d.
     target_tag cx gvk (rs_Meta r) (Image_GetRepositoryReference r) tag \<and>
     ResolveDigest (cx_lib cx) (cx_remote cx) kc (is_Image (rs_Spec r)) w = Ret src \<and>
     Copy (cx_lib cx) (cx_remote cx) kc (RefDigest src) tag w = (w', Ret d) \<and> ist_Image st = lib_DigestName (cx_lib cx) d)"

lemma wpe_image_pipeline:
  fixes s :: "(image_object, 'kc, 'd, 't, 'w) rstate"
  assumes "calm cx" "quiet_go gvk" "sequences sq" "calls_all al"
  defines "cs \<equiv> {''RepositoryReady'', ''ImageCopied''}"
  shows "wpe (genericImageReconciler sq al cx gvk)
    (\<lambda>_ s'. only_marks cs s s' \<and> Mark ''RepositoryReady'' CTrue ''Ready'' '''' \<in> set (rx_Marks s') \<and>
       Mark ''ImageCopied'' CTrue ''Copied'' '''' \<in> set (rx_Marks s') \<and>
       publishes_image cx gvk (rx_Resource s) (rx_World s) (rx_World s') (rs_Status (rx_Resource s')))
    (only_marks cs s) s"
    (is "wpe _ ?Q ?E s")
proof -
  let ?found = "\<lambda>s1 tag kc. rx_Resource s1 = rx_Resource s \<and> rx_World s1 = rx_World s \<and>
      st_Tag (rx_Stash s1) = Some tag \<and> st_Keychain (rx_Stash s1) = Some kc \<and>
      target_tag cx gvk (rs_Meta (rx_Resource s)) (Image_GetRepositoryReference (rx_Resource s)) tag \<and>
      only_marks cs s s1 \<and> Mark ''RepositoryReady'' CTrue ''Ready'' '''' \<in> set (rx_Marks s1)"
  have copy: "wpe (CopyImage cx) ?Q ?E s1" if f: "?found s1 tag kc" for s1 tag kc
  proof (rule wpe_CopyImage [where kc = kc and tag = tag, OF assms(1)], goal_cases)
    case (3 src w d)
    have "publishes_image cx gvk (rx_Resource s) (rx_World s) w (st\<lparr>ist_Image := lib_DigestName (cx_lib cx) d\<rparr>)" for st
      unfolding publishes_image_def
      by (rule exI [of _ kc], rule exI [of _ tag], rule exI [of _ src], rule exI [of _ d]) (use f 3 in simp)
    with f show ?case by (auto simp: only_marks_def cs_def)
  next
    case (4 s')
    with f show ?case by (auto simp: only_marks_def cs_def image_subset_iff)
  qed (use f in simp_all)
  have keychain: "wpe (ResolveKeychain cx Image_GetServiceAccountReference ''ImageCopied'') (\<lambda>_. wpe (CopyImage cx) ?Q ?E) ?E s1"
    if f: "?found s1 tag kc" for s1 tag kc
  proof (rule wpe_ResolveKeychain [OF assms(1)], goal_cases)
    case (1 kc')
    with f obtain k where "kc' = Some k" by auto
    with f show ?case by (intro copy [where tag = tag and kc = k]) (auto simp: only_marks_def)
  next
    case (2 new)
    with f show ?case by (auto simp: only_marks_def cs_def)
  qed
  have eta: "wpe (sq []) ?Q ?E = ?Q ()" "wpe (al []) Q' E' = Q' ()" for Q' E'
    using wpe_sequence(1) [OF assms(3)] wpe_always(1) [OF assms(4)] by (auto simp: fun_eq_iff)
  have keep: "keeps ?E (ResolveKeychain cx Image_GetServiceAccountReference ''ImageCopied'')"
    by (rule keeps_ResolveKeychain [OF assms(1)]) (simp add: cs_def)
  show ?thesis
    unfolding genericImageReconciler_def wpe_sequence(2) [OF assms(3)] wpe_always(2) [OF assms(4)] eta
  proof (rule wpe_target [OF assms(1,2)], goal_cases)
    case (1 kc tag)
    then show ?case by (intro keychain) (auto simp: only_marks_def cs_def)
  next
    case (2 new kc)
    then have "?E (s\<lparr>rx_Marks := rx_Marks s @ new, rx_Stash := (rx_Stash s)\<lparr>st_Keychain := kc\<rparr>\<rparr>)"
      by (auto simp: only_marks_def cs_def)
    with keep show ?case by (simp add: keeps_def)
  qed
qed

section \<open>Children\<close>

lemma wpe_child_reconciler:
  assumes "quiet_go (desired (rx_Resource s))" "\<And>c. quiet_go (snd (manage c (rx_World s)))"
    and "\<And>c w' k err. manage c (rx_World s) = (w', Ret (k, err)) \<Longrightarrow> wpe (reflect k err) Q E (s\<lparr>rx_World := w'\<rparr>)"
    and "\<And>c w' e. manage c (rx_World s) = (w', Fail e) \<Longrightarrow> E (s\<lparr>rx_World := w'\<rparr>)" "E s"
  shows "wpe (child_reconciler desired manage reflect) Q E s"
proof (cases "desired (rx_Resource s)")
  case (Ret c)
  show ?thesis
  proof (cases "manage c (rx_World s)")
    case (Pair w' g)
    with Ret assms(2) [of c] assms(3,4) [of c w'] show ?thesis
      by (cases g) (auto simp: child_reconciler_def wpe_simps)
  qed
qed (use assms(1,5) in \<open>auto simp: child_reconciler_def wpe_simps\<close>)

lemma wpe_child_failed [wpe_simps]: "wpe (child_failed ct e) Q E s =
    E (s\<lparr>rx_Marks := rx_Marks s @ [if IsInvalid e then Mark ct CFalse ''Invalid'' (ReasonForError e) else Mark ct CUnknown ''Unknown'' '''']\<rparr>)"
  by (simp add: child_failed_def wpe_simps)

end
