(* ===== verification/Compose_Controllers.thy ===== *)
theory Compose_Controllers
  imports Core_Rules
begin

text \<open>
  The controllers that build on other components: container images
  (\<^verbatim>\<open>internal/controllers/componentcontainerimage_controller.go\<close>) and compositions
  (\<^verbatim>\<open>composition_controller.go\<close>).  Both look up the components they refer to, pull them with the
  credentials of their repository, and publish what they make of them.
\<close>

section \<open>Building on a component\<close>

text \<open>
  What both controllers do with a reference until the component can be pulled; \<open>pos\<close> is the
  position a composition adds to its messages.
\<close>

definition initializing :: "condition option \<Rightarrow> condition option" where
  "initializing ready = (case ready of
     None \<Rightarrow> Some \<lparr>cn_Type = '''', cn_Status = '''', cn_Reason = ''Initializing'', cn_Message = ''''\<rparr>
   | Some r \<Rightarrow> Some r)"

definition ready_component :: "('kc, 'd, 't, 'desc, 'sec, 'w) cluster \<Rightarrow> ObjectMeta \<Rightarrow>
    (ComponentSpan list \<Rightarrow> ('r, 'kc, 'd, 't, 'w, unit) handler) \<Rightarrow> string \<Rightarrow> string \<Rightarrow> ComponentReference \<Rightarrow>
    ('r, 'kc, 'd, 't, 'w, ComponentDuck) handler" where
  "ready_component cx obj reflect conditionType pos ref = (let what = cr_Kind ref @ '' '' @ cr_Name ref in
     act_try (ResolveComponentReference cx ref)
       (\<lambda>err. if errors_Is err ErrNotComponent
          then stop_with conditionType CFalse ''NotComponent''
                 (cr_APIVersion ref @ '' '' @ cr_Kind ref @ '' is not a component'') ErrHaltSubReconcilers
          else if IsNotFound err
          then stop_with conditionType CFalse ''ComponentNotFound'' (what @ '' not found'' @ pos) ErrDurable
          else act_fail err)
       (\<lambda>component. act_then (extend_trace (duck_span cx ref component) obj conditionType (cycle_message @ pos) reflect)
          (act_try (GenericComponentSpec_Default (cx_ctx cx) (rs_Spec component)) act_fail
       (\<lambda>spec. let component = component\<lparr>rs_Spec := spec\<rparr>; st = cdk_Status (rs_Status component);
                   ready = cl_Get (cx_conds cx) st ''Ready'' in
          if om_Generation (rs_Meta component) \<noteq> as_ObservedGeneration st
          then stop_with conditionType CUnknown ''Blocked'' (''waiting for '' @ what @ '' to reconcile'' @ pos) ErrGenerationMismatch
          else if \<not> cl_IsTrue (cx_conds cx) ready
          then stop_with conditionType (if cl_IsFalse (cx_conds cx) (initializing ready) then CFalse else CUnknown) ''NotReady''
                 (what @ '' is not ready'' @ pos) ErrDurable
          else if gst_Image (cdk_Generic (rs_Status component)) = ''''
          then stop_with conditionType CFalse ''ImageMissing'' (what @ '' is missing image'' @ pos) ErrDurable
          else act_ret component))))"

text \<open>
  A sub reconciler that is run on another object: it shares the stash and the registries; what it
  marks is lost, because a duck has no place for its conditions.
\<close>

definition with_resource :: "'q \<Rightarrow> ('q, 'kc, 'd, 't, 'w, 'a) handler \<Rightarrow> ('r, 'kc, 'd, 't, 'w, 'a) handler" where
  "with_resource x m s = (let (s', g) = m \<lparr>rx_Resource = x, rx_Marks = [], rx_Events = [], rx_Results = [], rx_Stash = rx_Stash s,
       rx_World = rx_World s\<rparr>
     in (s\<lparr>rx_Stash := rx_Stash s', rx_World := rx_World s'\<rparr>, g))"

definition ComponentDuck_GetRepositoryReference :: "ComponentDuck \<Rightarrow> RepositoryReference" where
  "ComponentDuck_GetRepositoryReference r = gs_RepositoryRef (rs_Spec r)"

text \<open>The keychain of the component's repository alone: the stashed one is cleared first.\<close>

definition component_keychain :: "('kc, 'd, 't, 'desc, 'sec, 'w) cluster \<Rightarrow> string \<Rightarrow> ComponentReference \<Rightarrow> ComponentDuck \<Rightarrow>
    ('r, 'kc, 'd, 't, 'w, 'kc) handler" where
  "component_keychain cx conditionType ref component =
     act_then (stash_Clear RepositoryKeychainStasher)
       (act_then (with_resource component (ResolveRepository cx rs_Meta
            (cx_GVKFor cx ''ComponentDuck'' (ComponentReference_TypeMeta ref)) ComponentDuck_GetRepositoryReference conditionType))
          (stash_RetrieveOrError RepositoryKeychainStasher))"

section \<open>Container images\<close>

definition CCI_put_trace :: "ComponentSpan list \<Rightarrow> ComponentContainerImage \<Rightarrow> ComponentContainerImage" where
  "CCI_put_trace tr r = r\<lparr>rs_Status := (rs_Status r)\<lparr>gst_Trace := tr\<rparr>\<rparr>"

definition ResolveComponent :: "('kc, 'd, 't, 'desc, 'sec, 'w) cluster \<Rightarrow>
    (ComponentContainerImage, 'kc, 'd, 't, 'w, unit) handler" where
  "ResolveComponent cx = act_bind get_resource (\<lambda>resource. let ref = cci_Ref (rs_Spec resource) in
     act_bind (ready_component cx (rs_Meta resource) (\<lambda>sanitized. set_resource (CCI_put_trace sanitized))
        ''ComponentPulled'' '''' ref) (\<lambda>component.
     act_bind (component_keychain cx ''ComponentPulled'' ref component) (\<lambda>keychain.
     act_then (stash_Clear RepositoryKeychainStasher)
       (act_try (lib_NewDigest (cx_lib cx) (gst_Image (cdk_Generic (rs_Status component)))) act_fail (\<lambda>digest.
        act_registry_try (Pull (cx_lib cx) (cx_remote cx) keychain digest) act_fail (\<lambda>(componentBytes, config).
        act_then (mark_as ''ComponentPulled'' CTrue ''Resolved'' '''')
          (act_then (stash_Store ComponentStasher componentBytes)
             (stash_Store ComponentConfigStasher config))))))))"

text \<open>The \<^verbatim>\<open>Sync\<close> of the sub reconciler \<^verbatim>\<open>AppendComponent\<close>, around the function of this name in \<^verbatim>\<open>registry\<close>.\<close>

definition AppendComponent_Sync :: "('kc, 'd, 't, 'desc, 'sec, 'w) cluster \<Rightarrow> ('plat, 'img, 'layer, 'd, 't, 'kc, 'w) index_lib \<Rightarrow>
    (ComponentContainerImage, 'kc, 'd, 't, 'w, unit) handler" where
  "AppendComponent_Sync cx ix =
     act_bind (stash_RetrieveOrDie RepositoryKeychainStasher) (\<lambda>keychain.
     act_bind (stash_RetrieveOrDie RepositoryTagStasher) (\<lambda>tagRef.
     act_bind (stash_RetrieveOrDie ComponentStasher) (\<lambda>component.
     act_bind (stash_RetrieveOrDie RemoteImageStasher) (\<lambda>img.
     act_world_try (AppendComponent (cx_lib cx) (cx_remote cx) ix keychain (RefDigest img) tagRef component) act_fail (\<lambda>digestRef.
     act_then (mark_as ''Pushed'' CTrue ''Pushed'' '''')
       (stash_Store RepositoryDigestStasher digestRef))))))"

definition ComponentContainerImageConditions :: "string list" where
  "ComponentContainerImageConditions = [''ImageReady'', ''RepositoryReady'', ''ComponentPulled'', ''Pushed'']"

definition ComponentContainerImage_ComponentLike :: "GroupVersionKind go \<Rightarrow> ComponentContainerImage component_like" where
  "ComponentContainerImage_ComponentLike gvk = \<lparr>ck_Meta = rs_Meta, ck_GVK = gvk,
     ck_GetGenericComponentSpec = (\<lambda>r. cci_Generic (rs_Spec r)), ck_GetGenericComponentStatus = rs_Status,
     ck_put_status = (\<lambda>st r. r\<lparr>rs_Status := st\<rparr>)\<rparr>"

definition ComponentContainerImage_GetRepositoryReference :: "ComponentContainerImage \<Rightarrow> RepositoryReference" where
  "ComponentContainerImage_GetRepositoryReference r = gs_RepositoryRef (cci_Generic (rs_Spec r))"

definition ComponentContainerImage_GetImageReference :: "ComponentContainerImage \<Rightarrow> ImageReference" where
  "ComponentContainerImage_GetImageReference r = cci_ImageRef (rs_Spec r)"

definition ComponentContainerImageReconciler ::
    "((ComponentContainerImage, 'kc, 'd, 't, 'w, unit) handler list \<Rightarrow> (ComponentContainerImage, 'kc, 'd, 't, 'w, unit) handler) \<Rightarrow>
     ((ComponentContainerImage, 'kc, 'd, 't, 'w, unit) handler list \<Rightarrow> (ComponentContainerImage, 'kc, 'd, 't, 'w, unit) handler) \<Rightarrow>
     ('kc, 'd, 't, 'desc, 'sec, 'w) cluster \<Rightarrow> GroupVersionKind go \<Rightarrow>
     (ComponentSpan list \<Rightarrow> ComponentContainerImage \<Rightarrow> ComponentContainerImage go) \<Rightarrow>
     ('plat, 'img, 'layer, 'd, 't, 'kc, 'w) index_lib \<Rightarrow>
     (ComponentContainerImage, 'kc, 'd, 't, 'w, unit) handler" where
  "ComponentContainerImageReconciler sq al cx gvk patch ix = (let ck = ComponentContainerImage_ComponentLike gvk in
     sq [al [ResolveComponent cx,
             ResolveImage cx rs_Meta ComponentContainerImage_GetImageReference (ReflectTrace (Some ck) patch) ''ImageReady'',
             ResolveRepository cx rs_Meta gvk ComponentContainerImage_GetRepositoryReference ''RepositoryReady''],
         AppendComponent_Sync cx ix,
         ReflectComponentableStatus cx ck])"

section \<open>The children of a composition\<close>

definition dependency_annotation :: string where
  "dependency_annotation = ''wa8s.reconciler.io/composition-dependency''"

definition dependency_meta :: "ObjectMeta \<Rightarrow> string \<Rightarrow> string \<Rightarrow> ObjectMeta" where
  "dependency_meta parent childLabelKey component =
     (child_meta parent childLabelKey '''' (om_Name parent @ ''-''))\<lparr>om_Annotations := Map.empty(dependency_annotation \<mapsto> component)\<rparr>"

text \<open>The generic component spec of a child is the zero value.\<close>

definition blank_component_spec :: GenericComponentSpec where
  "blank_component_spec = \<lparr>gs_RepositoryRef = \<lparr>rr_Kind = '''', rr_Name = ''''\<rparr>\<rparr>"

definition ManageConfigStore_DesiredChildren :: "string \<Rightarrow> Composition \<Rightarrow> (ObjectMeta \<times> ConfigStoreSpec) list" where
  "ManageConfigStore_DesiredChildren childLabelKey resource = List.map_filter (\<lambda>d. case cd_Config d of
     None \<Rightarrow> None
   | Some config \<Rightarrow> Some (dependency_meta (rs_Meta resource) childLabelKey (cd_Component d),
       \<lparr>css_Generic = blank_component_spec, css_Store = config\<rparr>))
     (co_Dependencies (cos_Composition (rs_Spec resource)))"

definition ManageOci_DesiredChildren :: "string \<Rightarrow> Composition \<Rightarrow> (ObjectMeta \<times> ComponentSpec) list" where
  "ManageOci_DesiredChildren childLabelKey resource = List.map_filter (\<lambda>d. case cd_OCI d of
     None \<Rightarrow> None
   | Some oci \<Rightarrow> Some (dependency_meta (rs_Meta resource) childLabelKey (cd_Component d),
       \<lparr>cs_Generic = blank_component_spec, cs_OCI = Some oci, cs_Ref = None\<rparr>))
     (co_Dependencies (cos_Composition (rs_Spec resource)))"

definition ManageComposition_DesiredChildren :: "string \<Rightarrow> Composition \<Rightarrow> (ObjectMeta \<times> CompositionSpec) list" where
  "ManageComposition_DesiredChildren childLabelKey resource = List.map_filter (\<lambda>d. case cd_Composition d of
     None \<Rightarrow> None
   | Some nested \<Rightarrow> Some (dependency_meta (rs_Meta resource) childLabelKey (cd_Component d),
       \<lparr>cos_Generic = blank_component_spec, cos_Composition = nested\<rparr>))
     (co_Dependencies (cos_Composition (rs_Spec resource)))"

definition ManageOci_OurChild :: "ObjectMeta \<Rightarrow> bool" where
  "ManageOci_OurChild ch \<longleftrightarrow> om_Annotations ch dependency_annotation \<noteq> None"

definition Composition_ourChild :: "ObjectMeta \<Rightarrow> bool" where
  "Composition_ourChild ch \<longleftrightarrow> om_Annotations ch dependency_annotation = None"

definition IdentifyChild :: "ObjectMeta \<Rightarrow> string" where
  "IdentifyChild ch = (case om_Annotations ch dependency_annotation of None \<Rightarrow> '''' | Some c \<Rightarrow> c)"

definition MergeDependency :: "ObjectMeta \<times> 'spec \<Rightarrow> ObjectMeta \<times> 'spec \<Rightarrow> ObjectMeta \<times> 'spec" where
  "MergeDependency current desired =
     ((fst current)\<lparr>om_Labels := om_Labels (fst desired), om_Annotations := om_Annotations (fst desired)\<rparr>, snd desired)"

definition set_ref :: "string \<Rightarrow> string \<times> ObjectMeta option \<Rightarrow> 'comp CompositionDependency \<Rightarrow> 'comp CompositionDependency" where
  "set_ref kind r d = (case r of (i, ch) \<Rightarrow> if i \<noteq> cd_Component d then d else (case ch of
     None \<Rightarrow> d
   | Some m \<Rightarrow> CompositionDependency (cd_Component d)
       (Some \<lparr>cr_APIVersion = ''wa8s.reconciler.io/v1alpha1'', cr_Kind = kind, cr_Namespace = om_Namespace m, cr_Name = om_Name m\<rparr>)
       (cd_Config d) (cd_OCI d) (cd_Composition d)))"

definition put_dependencies :: "GenericCompositionSpec CompositionDependency list \<Rightarrow> Composition \<Rightarrow> Composition" where
  "put_dependencies deps r = r\<lparr>rs_Spec := (rs_Spec r)\<lparr>cos_Composition :=
     GenericCompositionSpec (co_WAC (cos_Composition (rs_Spec r))) (co_Plug (cos_Composition (rs_Spec r))) deps\<rparr>\<rparr>"

definition ReflectChildren :: "string \<Rightarrow> (string \<times> ObjectMeta option) list \<Rightarrow> Composition \<Rightarrow> Composition" where
  "ReflectChildren kind results r = put_dependencies
     (fold (\<lambda>res. map (set_ref kind res)) results (co_Dependencies (cos_Composition (rs_Spec r)))) r"

text \<open>
  \<^verbatim>\<open>ChildSetReconciler\<close>: the desired children are managed, the results reflected, and then the errors
  of the single children returned.
\<close>

definition child_set_reconciler :: "('r \<Rightarrow> 'c list) \<Rightarrow> ('c list \<Rightarrow> 'w \<Rightarrow> 'w \<times> ('res list \<times> gerr option)) \<Rightarrow>
    ('res list \<Rightarrow> 'r \<Rightarrow> 'r) \<Rightarrow> ('r, 'kc, 'd, 't, 'w, unit) handler" where
  "child_set_reconciler desired manage reflect = act_bind get_resource (\<lambda>resource.
     act_bind (act_world (\<lambda>w. let (w', r) = manage (desired resource) w in (w', Ret r))) (\<lambda>(results, err).
     act_then (set_resource (reflect results))
       (case err of None \<Rightarrow> act_ret () | Some e \<Rightarrow> act_fail e)))"

section \<open>Resolving the dependencies\<close>

definition position :: "nat \<Rightarrow> nat \<Rightarrow> string" where
  "position i n = '' ('' @ fmt_d (int i + 1) @ '' of '' @ fmt_d (int n) @ '')''"

definition put_component_trace :: "ComponentSpan list \<Rightarrow> Composition \<Rightarrow> Composition" where
  "put_component_trace tr r = r\<lparr>rs_Status := (rs_Status r)\<lparr>cst_Generic := (cst_Generic (rs_Status r))\<lparr>gst_Trace := tr\<rparr>\<rparr>\<rparr>"

definition ResolveDependency :: "('kc, 'd, 't, 'desc, 'sec, 'w) cluster \<Rightarrow> nat \<Rightarrow> nat \<Rightarrow>
    GenericCompositionSpec CompositionDependency \<Rightarrow> (Composition, 'kc, 'd, 't, 'w, unit) handler" where
  "ResolveDependency cx i n item = act_bind get_resource (\<lambda>resource. case cd_Ref item of
     None \<Rightarrow> act_lift (Panic ''nil pointer dereference'')
   | Some ref \<Rightarrow>
     act_bind (ready_component cx (rs_Meta resource) (\<lambda>sanitized. set_resource (put_component_trace sanitized))
        ''DependenciesResolved'' (position i n) ref) (\<lambda>component.
     act_bind (component_keychain cx ''DependenciesResolved'' ref component) (\<lambda>keychain.
     act_try (lib_NewDigest (cx_lib cx) (gst_Image (cdk_Generic (rs_Status component)))) act_fail (\<lambda>digest.
     act_registry_try (Pull (cx_lib cx) (cx_remote cx) keychain digest) act_fail (\<lambda>(componentBytes, config).
     act_bind (stash_RetrieveOrEmpty CompositionDependenciesStasher) (\<lambda>dependencies.
     act_bind (act_lift (case gst_WIT (cdk_Generic (rs_Status component)) of
         None \<Rightarrow> Panic ''nil pointer dereference'' | Some w \<Rightarrow> Ret w)) (\<lambda>w.
     act_then (stash_Store CompositionDependenciesStasher (dependencies @
          [\<lparr>rc_Name = cd_Component item, rc_Image = digest, rc_Component = componentBytes, rc_WIT = w\<rparr>]))
       (mark_as ''DependenciesResolved'' CTrue ''Resolved'' (''resolved '' @ fmt_d (int i + 1) @ '' component dependencies'')))))))))"

text \<open>\<^verbatim>\<open>ForEach\<close> runs its reconciler on the items in order and stops at the first error, as a sequence does.\<close>

definition ResolveDependencies ::
    "((Composition, 'kc, 'd, 't, 'w, unit) handler list \<Rightarrow> (Composition, 'kc, 'd, 't, 'w, unit) handler) \<Rightarrow>
     ('kc, 'd, 't, 'desc, 'sec, 'w) cluster \<Rightarrow> (Composition, 'kc, 'd, 't, 'w, unit) handler" where
  "ResolveDependencies sq cx = act_bind get_resource (\<lambda>resource.
     let items = co_Dependencies (cos_Composition (rs_Spec resource)) in
     sq (indexed (\<lambda>i item. ResolveDependency cx i (length items) item) items))"

definition ReflectDependenciesStatus :: "('kc, 'd, 't, 'desc, 'sec, 'w) cluster \<Rightarrow> (Composition, 'kc, 'd, 't, 'w, unit) handler" where
  "ReflectDependenciesStatus cx = act_bind (stash_RetrieveOrEmpty CompositionDependenciesStasher) (\<lambda>dependencies.
     set_resource (\<lambda>r. r\<lparr>rs_Status := (rs_Status r)\<lparr>cst_Dependencies := map (\<lambda>d.
       \<lparr>cds_Component = rc_Name d, cds_Image = lib_DigestName (cx_lib cx) (rc_Image d), cds_WIT = rc_WIT d\<rparr>) dependencies\<rparr>\<rparr>))"

definition ComposeComponents :: "('kc, 'd, 't, 'desc, 'sec, 'w) cluster \<Rightarrow> (Composition, 'kc, 'd, 't, 'w, unit) handler" where
  "ComposeComponents cx =
     act_bind (stash_RetrieveOrDie CompositionDependenciesStasher) (\<lambda>dependencies.
     act_bind get_resource (\<lambda>resource. let spec = cos_Composition (rs_Spec resource) in
       if co_Plug spec \<noteq> None then
         act_try (WACPlug (cx_wacPool cx) (lib_json_text (cx_lib cx)) (cx_base64 cx) dependencies) act_fail
           (stash_Store ComponentStasher)
       else if co_WAC spec \<noteq> '''' then
         act_try (WACCompose (cx_wacPool cx) (lib_json_text (cx_lib cx)) (cx_base64 cx) (co_WAC spec) dependencies) act_fail
           (stash_Store ComponentStasher)
       else mark_as ''ComponentPushed'' CFalse ''Invalid'' ''one of .spec[plug, wac] is required''))"

text \<open>As for config stores, the child component is not among them.\<close>

definition CompositionConditions :: "string list" where
  "CompositionConditions = [''RepositoryReady'', ''DependenciesResolved'', ''ComponentPushed'']"

definition Composition_ComponentLike :: "GroupVersionKind go \<Rightarrow> Composition component_like" where
  "Composition_ComponentLike gvk = \<lparr>ck_Meta = rs_Meta, ck_GVK = gvk,
     ck_GetGenericComponentSpec = (\<lambda>r. cos_Generic (rs_Spec r)),
     ck_GetGenericComponentStatus = (\<lambda>r. cst_Generic (rs_Status r)),
     ck_put_status = (\<lambda>st r. r\<lparr>rs_Status := (rs_Status r)\<lparr>cst_Generic := st\<rparr>\<rparr>)\<rparr>"

definition Composition_GetRepositoryReference :: "Composition \<Rightarrow> RepositoryReference" where
  "Composition_GetRepositoryReference r = gs_RepositoryRef (cos_Generic (rs_Spec r))"

text \<open>How the children of a request are managed: the three sets of dependencies and the component itself.\<close>

type_synonym ('c, 'w) manage_set = "'c list \<Rightarrow> 'w \<Rightarrow> 'w \<times> ((string \<times> ObjectMeta option) list \<times> gerr option)"

record 'w composition_children =
  cc_ConfigStores :: "(ObjectMeta \<times> ConfigStoreSpec, 'w) manage_set"
  cc_Components :: "(ObjectMeta \<times> ComponentSpec, 'w) manage_set"
  cc_Compositions :: "(ObjectMeta \<times> CompositionSpec, 'w) manage_set"
  cc_Component :: "(ObjectMeta \<times> ComponentSpec) option \<Rightarrow> 'w \<Rightarrow> 'w \<times> (Component option \<times> gerr option) go"

definition ManageDependencies ::
    "((Composition, 'kc, 'd, 't, 'w, unit) handler list \<Rightarrow> (Composition, 'kc, 'd, 't, 'w, unit) handler) \<Rightarrow>
     'w composition_children \<Rightarrow> string \<Rightarrow> (Composition, 'kc, 'd, 't, 'w, unit) handler" where
  "ManageDependencies al cc childLabelKey = al
     [child_set_reconciler (ManageConfigStore_DesiredChildren childLabelKey) (cc_ConfigStores cc) (ReflectChildren ''ConfigStore''),
      child_set_reconciler (ManageOci_DesiredChildren childLabelKey) (cc_Components cc) (ReflectChildren ''Component''),
      child_set_reconciler (ManageComposition_DesiredChildren childLabelKey) (cc_Compositions cc) (ReflectChildren ''Composition'')]"

definition CompositionReconciler ::
    "((Composition, 'kc, 'd, 't, 'w, unit) handler list \<Rightarrow> (Composition, 'kc, 'd, 't, 'w, unit) handler) \<Rightarrow>
     ((Composition, 'kc, 'd, 't, 'w, unit) handler list \<Rightarrow> (Composition, 'kc, 'd, 't, 'w, unit) handler) \<Rightarrow>
     ('kc, 'd, 't, 'desc, 'sec, 'w) cluster \<Rightarrow> GroupVersionKind go \<Rightarrow> 'w composition_children \<Rightarrow>
     (Composition, 'kc, 'd, 't, 'w, unit) handler" where
  "CompositionReconciler sq al cx gvk cc = (let ck = Composition_ComponentLike gvk;
       childLabelKey = ''wa8s.reconciler.io/composition'' in
     sq [al [ManageDependencies al cc childLabelKey,
             ResolveDependencies sq cx,
             ReflectDependenciesStatus cx,
             ResolveRepository cx rs_Meta gvk Composition_GetRepositoryReference ''RepositoryReady'',
             child_reconciler (ComponentChild_DesiredChild ck childLabelKey) (cc_Component cc)
               (ComponentChild_Reflect cx rs_Meta ''ChildComponent'')],
         ComposeComponents cx,
         PushComponent cx ''ComponentPushed'',
         ReflectComponentableStatus cx ck])"

end
