(* ===== verification/Lifecycle_Client.thy ===== *)
theory Lifecycle_Client
  imports Services_Api "HOL-Library.AList"
begin

text \<open>
  The client of a service lifecycle (\<^verbatim>\<open>integrations/services/lifecycle/lifecycle.go\<close>): four requests whose
  arguments travel in the query of the URL.  The part of \<^verbatim>\<open>net/url\<close> the client uses is modelled on bytes;
  parsing the address and the request itself are parameters.
\<close>

section \<open>Query strings\<close>

text \<open>\<^verbatim>\<open>QueryEscape\<close>: letters, digits and four marks stay, a space becomes a plus, the rest is hexadecimal.\<close>

definition unreserved :: "char \<Rightarrow> bool" where
  "unreserved c \<longleftrightarrow> (CHR ''a'' \<le> c \<and> c \<le> CHR ''z'') \<or> (CHR ''A'' \<le> c \<and> c \<le> CHR ''Z'') \<or> (CHR ''0'' \<le> c \<and> c \<le> CHR ''9'') \<or>
     c \<in> set ''-_.~''"

definition upperhex :: "nat \<Rightarrow> char" where
  "upperhex n = ''0123456789ABCDEF'' ! n"

definition escape_byte :: "char \<Rightarrow> string" where
  "escape_byte c = (if unreserved c then [c] else if c = CHR '' '' then ''+''
     else [CHR ''%'', upperhex (of_char c div 16), upperhex (of_char c mod 16)])"

definition QueryEscape :: "string \<Rightarrow> string" where
  "QueryEscape s = concat (map escape_byte s)"

definition unhex :: "char \<Rightarrow> nat option" where
  "unhex c = (if CHR ''0'' \<le> c \<and> c \<le> CHR ''9'' then Some (of_char c - 48)
     else if CHR ''a'' \<le> c \<and> c \<le> CHR ''f'' then Some (of_char c - 97 + 10)
     else if CHR ''A'' \<le> c \<and> c \<le> CHR ''F'' then Some (of_char c - 65 + 10) else None)"

fun QueryUnescape :: "string \<Rightarrow> string option" where
  "QueryUnescape [] = Some []"
| "QueryUnescape (c # cs) =
     (if c = CHR ''%'' then (case cs of
        a # b # r \<Rightarrow> (case (unhex a, unhex b) of
            (Some x, Some y) \<Rightarrow> map_option (Cons (char_of (16 * x + y))) (QueryUnescape r)
          | _ \<Rightarrow> None)
      | _ \<Rightarrow> None)
      else map_option (Cons (if c = CHR ''+'' then CHR '' '' else c)) (QueryUnescape cs))"

text \<open>\<^verbatim>\<open>strings.Cut\<close>: the text before and after the first occurrence of a byte.\<close>

fun cut :: "char \<Rightarrow> string \<Rightarrow> string \<times> string" where
  "cut sep [] = ([], [])"
| "cut sep (c # cs) = (if c = sep then ([], cs) else let (a, b) = cut sep cs in (c # a, b))"

lemma length_cut: "length (snd (cut sep s)) \<le> length s - 1"
  by (induction s) (auto simp: Let_def case_prod_unfold)

text \<open>\<^verbatim>\<open>Values\<close> is a map from keys to lists of values.\<close>

type_synonym url_values = "(string \<times> string list) list"

definition values_of :: "url_values \<Rightarrow> string \<Rightarrow> string list" where
  "values_of m k = (case map_of m k of None \<Rightarrow> [] | Some vs \<Rightarrow> vs)"

definition Values_Set :: "string \<Rightarrow> string \<Rightarrow> url_values \<Rightarrow> url_values" where
  "Values_Set k v m = AList.update k [v] m"

definition Values_Add :: "string \<Rightarrow> string \<Rightarrow> url_values \<Rightarrow> url_values" where
  "Values_Add k v m = AList.update k (values_of m k @ [v]) m"

definition query_pair :: "string \<Rightarrow> string \<Rightarrow> string" where
  "query_pair k v = QueryEscape k @ ''='' @ QueryEscape v"

definition Values_Encode :: "url_values \<Rightarrow> string" where
  "Values_Encode m = join ''&'' (concat (map (\<lambda>(k, vs). map (query_pair k) vs) (sort_key fst m)))"

text \<open>\<^verbatim>\<open>ParseQuery\<close> skips what it cannot read; \<^verbatim>\<open>Query\<close> drops its error.\<close>

definition add_pair :: "string \<Rightarrow> url_values \<Rightarrow> url_values" where
  "add_pair part m =
     (if CHR '';'' \<in> set part \<or> part = '''' then m else
      let (k, v) = cut (CHR ''='') part in
      case (QueryUnescape k, QueryUnescape v) of (Some k, Some v) \<Rightarrow> Values_Add k v m | _ \<Rightarrow> m)"

function parse_query :: "string \<Rightarrow> url_values \<Rightarrow> url_values" where
  "parse_query q m = (if q = '''' then m else let (part, rest) = cut (CHR ''&'') q in parse_query rest (add_pair part m))"
  by pat_completeness auto
termination
proof (relation "measure (\<lambda>(q, m). length q)")
  fix q :: string and m :: url_values and x part rest
  assume "q \<noteq> ''''" "x = cut (CHR ''&'') q" "(part, rest) = x"
  with length_cut [of "CHR ''&''" q] show "((rest, add_pair part m), (q, m)) \<in> measure (\<lambda>(q, m). length q)"
    by (cases q) (auto dest!: arg_cong [of _ _ snd])
qed simp

declare parse_query.simps [simp del]

definition ParseQuery :: "string \<Rightarrow> url_values" where
  "ParseQuery q = parse_query q []"

section \<open>The client\<close>

text \<open>\<open>u_Rest\<close> is what the client never touches: scheme, user, host and fragment.\<close>

record url =
  u_Rest :: string
  u_Path :: string
  u_RawQuery :: string

text \<open>\<open>ht_Parse\<close> is \<^verbatim>\<open>url.Parse\<close>, \<open>ht_Get\<close> is \<^verbatim>\<open>http.Get\<close> of the written URL, which returns the status code.\<close>

record 'w http =
  ht_Parse :: "string \<Rightarrow> url go"
  ht_Get :: "url \<Rightarrow> 'w \<Rightarrow> 'w \<times> int go"

definition with_query :: "url \<Rightarrow> string \<Rightarrow> url_values \<Rightarrow> url" where
  "with_query u path q = u\<lparr>u_Path := path, u_RawQuery := Values_Encode q\<rparr>"

definition checked_get :: "'w http \<Rightarrow> url \<Rightarrow> 'w \<Rightarrow> 'w \<times> unit go" where
  "checked_get h u w = (let (w', resp) = ht_Get h u w in
     (w', bind_go resp (\<lambda>code. if code < 200 \<or> code \<ge> 300 then Fail (Text (''server returned http '' @ fmt_d code)) else Ret ())))"

definition lifecycle_call :: "'w http \<Rightarrow> string \<Rightarrow> string \<Rightarrow> (url_values \<Rightarrow> url_values) \<Rightarrow> 'w \<Rightarrow> 'w \<times> unit go" where
  "lifecycle_call h address path args w = (case ht_Parse h address of
     Ret u \<Rightarrow> checked_get h (with_query u path (args (ParseQuery (u_RawQuery u)))) w
   | Fail err \<Rightarrow> (w, Fail err)
   | Panic m \<Rightarrow> (w, Panic m))"

definition Provision_args :: "string \<Rightarrow> string \<Rightarrow> string option \<Rightarrow> ServiceInstanceRequest list \<Rightarrow> url_values \<Rightarrow> url_values" where
  "Provision_args instanceId type tier requests q =
     fold (\<lambda>r. Values_Add ''request'' (srq_Key r @ ''='' @ srq_Value r)) requests
       ((case tier of None \<Rightarrow> id | Some t \<Rightarrow> Values_Set ''tier'' t)
         (Values_Set ''type'' type (Values_Set ''instance-id'' instanceId q)))"

definition Provision :: "'w http \<Rightarrow> string \<Rightarrow> string \<Rightarrow> string \<Rightarrow> string option \<Rightarrow> ServiceInstanceRequest list \<Rightarrow> 'w \<Rightarrow> 'w \<times> unit go" where
  "Provision h address instanceId type tier requests =
     lifecycle_call h address ''/provision'' (Provision_args instanceId type tier requests)"

definition Destroy :: "'w http \<Rightarrow> string \<Rightarrow> string \<Rightarrow> bool option \<Rightarrow> 'w \<Rightarrow> 'w \<times> unit go" where
  "Destroy h address instanceId retain = lifecycle_call h address ''/destroy'' (\<lambda>q.
     (case retain of None \<Rightarrow> id | Some b \<Rightarrow> Values_Set ''retain'' (if b then ''true'' else ''false''))
       (Values_Set ''instance-id'' instanceId q))"

definition Bind_args :: "string \<Rightarrow> string \<Rightarrow> string list \<Rightarrow> url_values \<Rightarrow> url_values" where
  "Bind_args bindingId instanceId scopes q =
     fold (Values_Add ''scopes'') scopes (Values_Set ''instance-id'' instanceId (Values_Set ''binding-id'' bindingId q))"

definition Bind :: "'w http \<Rightarrow> string \<Rightarrow> string \<Rightarrow> string \<Rightarrow> string list \<Rightarrow> 'w \<Rightarrow> 'w \<times> unit go" where
  "Bind h address bindingId instanceId scopes = lifecycle_call h address ''/bind'' (Bind_args bindingId instanceId scopes)"

definition Unbind_args :: "string \<Rightarrow> string \<Rightarrow> url_values \<Rightarrow> url_values" where
  "Unbind_args bindingId instanceId q = Values_Set ''instance-id'' instanceId (Values_Set ''binding-id'' bindingId q)"

definition Unbind :: "'w http \<Rightarrow> string \<Rightarrow> string \<Rightarrow> string \<Rightarrow> 'w \<Rightarrow> 'w \<times> unit go" where
  "Unbind h address bindingId instanceId = lifecycle_call h address ''/unbind'' (Unbind_args bindingId instanceId)"

section \<open>Escaping is undone by unescaping\<close>

lemma unhex_upperhex: "n < 16 \<Longrightarrow> unhex (upperhex n) = Some n"
proof -
  assume "n < 16"
  then have "n \<in> set [0..<16]" by simp
  moreover have "\<forall>n \<in> set [0..<16]. unhex (upperhex n) = Some n" by code_simp
  ultimately show ?thesis by blast
qed

lemma unreserved_plain: "unreserved c \<Longrightarrow> c \<noteq> CHR ''%'' \<and> c \<noteq> CHR ''+'' \<and> c \<noteq> CHR ''&'' \<and> c \<noteq> CHR ''='' \<and> c \<noteq> CHR '';''"
  by (auto simp: unreserved_def less_eq_char_def)

lemma unescape_byte: "QueryUnescape (escape_byte c @ s) = map_option (Cons c) (QueryUnescape s)"
proof -
  have "(of_char c :: nat) < 256" by simp
  then have h: "of_char c div (16 :: nat) < 16" "of_char c mod (16 :: nat) < 16" by (auto intro: less_mult_imp_div_less)
  have "char_of (16 * (of_char c div (16 :: nat)) + of_char c mod 16) = c" by simp
  with h show ?thesis
    using unreserved_plain [of c] by (simp add: escape_byte_def unhex_upperhex)
qed

lemma unescape_escape: "QueryUnescape (QueryEscape s) = Some s"
  by (induction s) (simp_all add: QueryEscape_def unescape_byte)

lemma upperhex_plain: "n < 16 \<Longrightarrow> upperhex n \<notin> set ''&=;''"
proof -
  assume "n < 16"
  then have "n \<in> set [0..<16]" by simp
  moreover have "\<forall>n \<in> set [0..<16]. upperhex n \<notin> set ''&=;''" by code_simp
  ultimately show ?thesis by blast
qed

lemma escape_plain: "x \<in> set (QueryEscape s) \<Longrightarrow> x \<notin> set ''&=;''"
proof -
  have "x \<notin> set ''&=;''" if "x \<in> set (escape_byte c)" for c
  proof -
    have "(of_char c :: nat) < 256" by simp
    then have "of_char c div (16 :: nat) < 16" "of_char c mod (16 :: nat) < 16" by (auto intro: less_mult_imp_div_less)
    from upperhex_plain [OF this(1)] upperhex_plain [OF this(2)] that show ?thesis
      using unreserved_plain [of c] by (auto simp: escape_byte_def split: if_splits)
  qed
  then show "x \<in> set (QueryEscape s) \<Longrightarrow> x \<notin> set ''&=;''" unfolding QueryEscape_def by auto
qed

section \<open>Encoding is undone by parsing\<close>

lemma cut_at: "sep \<notin> set a \<Longrightarrow> cut sep (a @ sep # b) = (a, b)" "sep \<notin> set a \<Longrightarrow> cut sep a = (a, [])"
  by (induction a) auto

lemma query_pair_plain: "CHR ''&'' \<notin> set (query_pair k v)" "CHR '';'' \<notin> set (query_pair k v)" "query_pair k v \<noteq> []"
  using escape_plain by (auto simp: query_pair_def)

lemma add_query_pair: "add_pair (query_pair k v) = Values_Add k v"
proof (rule ext)
  fix m
  have "cut (CHR ''='') (query_pair k v) = (QueryEscape k, QueryEscape v)"
    unfolding query_pair_def append_Cons append_Nil using escape_plain by (intro cut_at(1)) auto
  then show "add_pair (query_pair k v) m = Values_Add k v m"
    using query_pair_plain [of k v] by (simp add: add_pair_def unescape_escape)
qed

lemma parse_join:
  "(\<And>p. p \<in> set parts \<Longrightarrow> CHR ''&'' \<notin> set p \<and> p \<noteq> []) \<Longrightarrow> parse_query (join ''&'' parts) m = fold add_pair parts m"
proof (induction "''&''" parts arbitrary: m rule: join.induct)
  case 1
  show ?case by (simp add: parse_query.simps)
next
  case (2 x)
  then show ?case by (simp add: parse_query.simps [of x] parse_query.simps [of "[]"] cut_at)
next
  case (3 x y xs)
  have "cut (CHR ''&'') (x @ CHR ''&'' # join ''&'' (y # xs)) = (x, join ''&'' (y # xs))"
    using 3(2) [of x] by (intro cut_at(1)) auto
  with 3 show ?case by (simp add: parse_query.simps [of "x @ _"])
qed

lemma values_of_update: "values_of (AList.update k vs m) k' = (if k' = k then vs else values_of m k')"
  by (simp add: values_of_def update_conv')

lemma values_of_Add: "values_of (Values_Add k v m) k' = (if k' = k then values_of m k @ [v] else values_of m k')"
  by (simp add: Values_Add_def values_of_update)

lemma values_of_Set: "values_of (Values_Set k v m) k' = (if k' = k then [v] else values_of m k')"
  by (simp add: Values_Set_def values_of_update)

lemma values_of_fold: "values_of (fold (\<lambda>(k, v). Values_Add k v) ps m) k = values_of m k @ map snd (filter (\<lambda>p. fst p = k) ps)"
  by (induction ps arbitrary: m) (auto simp: values_of_Add)

definition pairs_of :: "url_values \<Rightarrow> (string \<times> string) list" where
  "pairs_of m = concat (map (\<lambda>(k, vs). map (Pair k) vs) m)"

lemma values_of_pairs: "distinct (map fst m) \<Longrightarrow> map snd (filter (\<lambda>p. fst p = k) (pairs_of m)) = values_of m k"
proof (induction m)
  case (Cons x m)
  obtain k' vs where x: "x = (k', vs)" by (cases x)
  have other: "k \<notin> fst ` set m \<Longrightarrow> filter (\<lambda>p. fst p = k) (pairs_of m) = []"
    by (auto simp: pairs_of_def filter_empty_conv image_iff)
  have here: "filter (\<lambda>p. fst p = k) (map (Pair k') vs) = (if k' = k then map (Pair k') vs else [])" by (induction vs) auto
  from Cons x other show ?case
    by (auto simp: pairs_of_def values_of_def here comp_def)
qed (simp add: pairs_of_def values_of_def)

lemma values_of_sorted: "distinct (map fst m) \<Longrightarrow> values_of (sort_key fst m) k = values_of m k"
proof -
  assume d: "distinct (map fst m)"
  have "distinct (map fst (sort_key fst m))"
    using d by (simp add: distinct_map)
  with d have "map_of (sort_key fst m) = map_of m" by (simp add: map_of_inject_set)
  then show ?thesis by (simp add: values_of_def)
qed

lemma Values_Encode_pairs: "Values_Encode m = join ''&'' (map (\<lambda>(k, v). query_pair k v) (pairs_of (sort_key fst m)))"
  by (simp add: Values_Encode_def pairs_of_def map_concat comp_def case_prod_unfold)

lemma parse_encode:
  assumes "distinct (map fst m)"
  shows "values_of (ParseQuery (Values_Encode m)) k = values_of m k"
proof -
  have "ParseQuery (Values_Encode m) = fold add_pair (map (\<lambda>(k, v). query_pair k v) (pairs_of (sort_key fst m))) []"
    unfolding ParseQuery_def Values_Encode_pairs by (rule parse_join) (auto simp: query_pair_plain)
  also have "\<dots> = fold (\<lambda>(k, v). Values_Add k v) (pairs_of (sort_key fst m)) []"
    by (simp add: fold_map comp_def case_prod_unfold add_query_pair)
  finally show ?thesis
    using assms by (simp add: values_of_fold values_of_pairs values_of_sorted distinct_map) (simp add: values_of_def)
qed

text \<open>Keys stay distinct, whatever was parsed.\<close>

lemma distinct_Values [simp]:
  "distinct (map fst m) \<Longrightarrow> distinct (map fst (Values_Add k v m))" "distinct (map fst m) \<Longrightarrow> distinct (map fst (Values_Set k v m))"
  by (simp_all add: Values_Add_def Values_Set_def distinct_update)

lemma distinct_parse: "distinct (map fst m) \<Longrightarrow> distinct (map fst (parse_query q m))"
proof (induction q m rule: parse_query.induct)
  case (1 q m)
  have "distinct (map fst (add_pair part m))" for part
    using 1(2) by (auto simp: add_pair_def Let_def split: option.split prod.split)
  with 1 show ?case by (auto simp: parse_query.simps [of q] split: prod.split)
qed

lemma distinct_ParseQuery: "distinct (map fst (ParseQuery q))"
  by (simp add: ParseQuery_def distinct_parse)

lemma values_of_adds:
  "values_of (fold (\<lambda>x. Values_Add k (f x)) xs m) k' = (if k' = k then values_of m k @ map f xs else values_of m k')"
  by (induction xs arbitrary: m) (auto simp: values_of_Add)

lemma distinct_adds [simp]: "distinct (map fst m) \<Longrightarrow> distinct (map fst (fold (\<lambda>x. Values_Add k (f x)) xs m))"
  by (induction xs arbitrary: m) auto

lemma distinct_args:
  assumes "distinct (map fst m)"
  shows "distinct (map fst (Provision_args i type tier requests m))" "distinct (map fst (Bind_args b i scopes m))"
    "distinct (map fst (Unbind_args b i m))"
    "distinct (map fst ((case retain of None \<Rightarrow> id | Some r \<Rightarrow> Values_Set ''retain'' (v r)) m))"
  using assms distinct_adds [where f = "\<lambda>x. x" and k = "''scopes''"]
  by (auto simp: Provision_args_def Bind_args_def Unbind_args_def split: option.split)

lemma values_of_args:
  "values_of (Provision_args i type tier requests m) k =
    (if k = ''request'' then values_of m k @ map (\<lambda>r. srq_Key r @ ''='' @ srq_Value r) requests
     else if k = ''tier'' then (case tier of None \<Rightarrow> values_of m k | Some t \<Rightarrow> [t])
     else if k = ''type'' then [type] else if k = ''instance-id'' then [i] else values_of m k)"
  "values_of (Bind_args b i scopes m) k =
    (if k = ''scopes'' then values_of m k @ scopes else if k = ''instance-id'' then [i] else if k = ''binding-id'' then [b] else values_of m k)"
  "values_of (Unbind_args b i m) k = (if k = ''instance-id'' then [i] else if k = ''binding-id'' then [b] else values_of m k)"
  using values_of_adds [where f = "\<lambda>x. x" and k = "''scopes''"]
  by (auto simp: Provision_args_def Bind_args_def Unbind_args_def values_of_Set values_of_adds split: option.split)

lemma lifecycle_call_reads:
  assumes "ht_Parse h address = Ret u" "distinct (map fst (args (ParseQuery (u_RawQuery u))))"
    "\<And>k. values_of (args (ParseQuery (u_RawQuery u))) k = f k"
  shows "\<exists>q. lifecycle_call h address path args w = checked_get h (u\<lparr>u_Path := path, u_RawQuery := q\<rparr>) w \<and>
    (\<forall>k. values_of (ParseQuery q) k = f k)"
  using assms by (intro exI [of _ "Values_Encode (args (ParseQuery (u_RawQuery u)))"])
    (simp add: lifecycle_call_def with_query_def parse_encode)

section \<open>The properties of the client\<close>

text \<open>C26: what a lifecycle service reads from a request is what the client was given: with an address that can be
  parsed, each of the four calls is one request to its path on the host of the address, and parsing its query gives
  back every argument, byte for byte and in order, beside what the query of the address says of other keys.\<close>

theorem lifecycle_requests_readable:
  assumes "ht_Parse h address = Ret u"
  defines "old \<equiv> values_of (ParseQuery (u_RawQuery u))"
  shows "(\<exists>q. Provision h address i type tier requests w = checked_get h (u\<lparr>u_Path := ''/provision'', u_RawQuery := q\<rparr>) w \<and>
      (\<forall>k. values_of (ParseQuery q) k =
        (if k = ''request'' then old k @ map (\<lambda>r. srq_Key r @ ''='' @ srq_Value r) requests
         else if k = ''tier'' then (case tier of None \<Rightarrow> old k | Some t \<Rightarrow> [t])
         else if k = ''type'' then [type] else if k = ''instance-id'' then [i] else old k))) \<and>
    (\<exists>q. Destroy h address i retain w = checked_get h (u\<lparr>u_Path := ''/destroy'', u_RawQuery := q\<rparr>) w \<and>
      (\<forall>k. values_of (ParseQuery q) k =
        (if k = ''retain'' then (case retain of None \<Rightarrow> old k | Some b \<Rightarrow> [if b then ''true'' else ''false''])
         else if k = ''instance-id'' then [i] else old k))) \<and>
    (\<exists>q. Bind h address b i scopes w = checked_get h (u\<lparr>u_Path := ''/bind'', u_RawQuery := q\<rparr>) w \<and>
      (\<forall>k. values_of (ParseQuery q) k = (if k = ''scopes'' then old k @ scopes else if k = ''instance-id'' then [i]
         else if k = ''binding-id'' then [b] else old k))) \<and>
    (\<exists>q. Unbind h address b i w = checked_get h (u\<lparr>u_Path := ''/unbind'', u_RawQuery := q\<rparr>) w \<and>
      (\<forall>k. values_of (ParseQuery q) k = (if k = ''instance-id'' then [i] else if k = ''binding-id'' then [b] else old k)))"
proof -
  note d = distinct_args [OF distinct_ParseQuery, where q1 = "u_RawQuery u"]
  note reads = lifecycle_call_reads [OF assms(1)]
  show ?thesis
    unfolding Provision_def Destroy_def Bind_def Unbind_def old_def
    by (intro conjI reads)
      (use d in \<open>simp_all only: values_of_args\<close>, auto simp: values_of_Set distinct_args distinct_Values distinct_ParseQuery split: option.split)
qed

definition demo_http :: "(url list) http" where
  "demo_http = \<lparr>ht_Parse = (\<lambda>a. if a = '''' then Fail (Text ''empty url'') else Ret \<lparr>u_Rest = a, u_Path = '''', u_RawQuery = ''a=1''\<rparr>),
     ht_Get = (\<lambda>u w. (w @ [u], Ret 204))\<rparr>"

lemma lifecycle_requests_readable_witness:
  "\<exists>q. Bind demo_http ''http://db'' ''b 1'' ''i&1'' [''read'', ''write=all''] [] = ([\<lparr>u_Rest = ''http://db'', u_Path = ''/bind'', u_RawQuery = q\<rparr>], Ret ()) \<and>
     values_of (ParseQuery q) ''scopes'' = [''read'', ''write=all''] \<and> values_of (ParseQuery q) ''instance-id'' = [''i&1''] \<and>
     values_of (ParseQuery q) ''a'' = [''1'']"
proof -
  have p: "ht_Parse demo_http ''http://db'' = Ret \<lparr>u_Rest = ''http://db'', u_Path = '''', u_RawQuery = ''a=1''\<rparr>" by (simp add: demo_http_def)
  have a: "values_of (ParseQuery ''a=1'') ''a'' = [''1'']" "values_of (ParseQuery ''a=1'') ''scopes'' = []" by code_simp+
  from lifecycle_requests_readable [OF p, THEN conjunct2, THEN conjunct2, THEN conjunct1, of "''b 1''" "''i&1''" "[''read'', ''write=all'']" "[]"]
  show ?thesis by (auto simp: a checked_get_def demo_http_def)
qed

text \<open>\<open>checked_get\<close> returns nil exactly for a response of the 2xx class.\<close>

lemma checked_get_Ret:
  "snd (checked_get h u w) = Ret () \<longleftrightarrow> (\<exists>code. snd (ht_Get h u w) = Ret code \<and> 200 \<le> code \<and> code < 300)"
  by (cases "snd (ht_Get h u w)") (auto simp: checked_get_def case_prod_unfold Let_def split: if_splits)

end
