(* ===== verification/Service_Controllers.thy ===== *)
theory Service_Controllers
  imports Compose_Controllers Lifecycle_Client
begin

text \<open>
  The controllers of service bindings, instances and clients
  (\<^verbatim>\<open>integrations/services/internal/controllers\<close>).  While an object is being deleted the runtime calls
  the sub reconcilers with \<^verbatim>\<open>SyncDuringFinalization\<close> and the \<^verbatim>\<open>Finalize\<close> methods instead of \<^verbatim>\<open>Sync\<close>; the
  two sequences are separate definitions here.  How a child is created or updated is the parameter
  \<open>manage\<close> of its sub reconciler; \<^verbatim>\<open>rtime.RetrieveNow\<close> is the same for a whole request.
\<close>

section \<open>What the controllers read\<close>

text \<open>An object with the generation and the conditions of its status.\<close>

record 'o observed =
  ob_Status :: apis_Status
  ob_Object :: 'o

text \<open>\<open>sx_UpdateSecret\<close> and \<open>sx_ClearFinalizer\<close> write one secret, \<open>sx_Secrets\<close> and \<open>sx_ApiSecrets\<close> list the
  secrets with a label, from the cache and from the API server; an object is its metadata and data.\<close>

record secret =
  se_Meta :: ObjectMeta
  se_Data :: "string \<rightharpoonup> string"

record 'w services =
  sx_Http :: "'w http"
  sx_Now :: int
  sx_ServiceInstance :: "string \<Rightarrow> string \<Rightarrow> ServiceInstance observed go"
  sx_ServiceLifecycle :: "string \<Rightarrow> string \<Rightarrow> ServiceLifecycle observed go"
  sx_ClusterServiceLifecycle :: "string \<Rightarrow> ClusterServiceLifecycle observed go"
  sx_Bindings :: "string \<Rightarrow> 'w \<Rightarrow> ServiceBinding list go"
  sx_Instances :: "string \<Rightarrow> 'w \<Rightarrow> ServiceInstance list go"
  sx_TrackObject :: "ObjectMeta \<Rightarrow> unit go"

section \<open>Clocks\<close>

text \<open>\<^verbatim>\<open>Time.Add\<close>, and \<^verbatim>\<open>Time.Sub\<close>, which saturates at the largest and the smallest duration.\<close>

definition time_Add :: "int \<Rightarrow> duration \<Rightarrow> int" where
  "time_Add t d = t + sint d"

definition time_Sub :: "int \<Rightarrow> int \<Rightarrow> duration" where
  "time_Sub t u = word_of_int (max (- (2 ^ 63)) (min (2 ^ 63 - 1) (t - u)))"

section \<open>Errors of children\<close>

text \<open>The check of a child before its status is used: observed, and ready.\<close>

definition child_ready :: "cond_lib \<Rightarrow> string \<Rightarrow> string \<Rightarrow> string \<Rightarrow> int \<Rightarrow> apis_Status \<Rightarrow>
    ('r, 'kc, 'd, 't, 'w, unit) handler" where
  "child_ready cl conditionType waiting notReady generation status =
     (if generation \<noteq> as_ObservedGeneration status
      then stop_with conditionType CUnknown ''Blocked'' waiting ErrGenerationMismatch
      else let ready = cl_Get cl status ''Ready'' in
        if cl_IsTrue cl ready then act_ret ()
        else stop_with conditionType (if cl_IsFalse cl (initializing ready) then CFalse else CUnknown) ''NotReady''
               notReady ErrDurable)"

section \<open>Bindings\<close>

definition ServiceInstanceConditions :: "string list" where
  "ServiceInstanceConditions = [''LifecycleReady'', ''Provisioned'']"

definition ServiceInstanceStatus_InitializeConditions :: "cond_lib \<Rightarrow> apis_Status \<Rightarrow> apis_Status" where
  "ServiceInstanceStatus_InitializeConditions cl = cl_Initialize cl ServiceInstanceConditions"

definition fetch_lifecycle :: "'w services \<Rightarrow> string \<Rightarrow> ServiceLifecycleReference \<Rightarrow> ServiceLifecycle observed go" where
  "fetch_lifecycle sx namespace ref = (if slr_Kind ref = ''ClusterServiceLifecycle''
     then sx_ClusterServiceLifecycle sx (slr_Name ref) else sx_ServiceLifecycle sx namespace (slr_Name ref))"

text \<open>The first half of \<^verbatim>\<open>ResolveServiceInstanceId\<close>: the instance, ready and defaulted, and its id.\<close>

definition resolve_instance :: "('kc, 'd, 't, 'desc, 'sec, 'w) cluster \<Rightarrow> 'w services \<Rightarrow> ServiceBinding \<Rightarrow>
    (ServiceBinding, 'kc, 'd, 't, 'w, ServiceInstance) handler" where
  "resolve_instance cx sx resource = (let cl = cx_conds cx; name = sir_Name (sb_Ref (rs_Spec resource)) in
     act_try (sx_ServiceInstance sx (om_Namespace (rs_Meta resource)) name)
       (\<lambda>err. if IsNotFound err
          then stop_with ''InstanceReady'' CFalse ''NotFound'' (''ServiceInstance '' @ name @ '' not found'') ErrDurable
          else act_fail err)
       (\<lambda>instance. let name = om_Name (rs_Meta (ob_Object instance)) in
          if om_Generation (rs_Meta (ob_Object instance)) \<noteq> as_ObservedGeneration (ob_Status instance)
          then stop_with ''InstanceReady'' CUnknown ''Blocked'' (''waiting for ServiceInstance '' @ name @ '' to reconcile'') ErrGenerationMismatch
          else let ready = cl_Get cl (ServiceInstanceStatus_InitializeConditions cl (ob_Status instance)) ''Ready'' in
            if \<not> cl_IsTrue cl ready then (case ready of
                None \<Rightarrow> act_lift (Panic ''nil pointer dereference'')
              | Some r \<Rightarrow> stop_with ''InstanceReady'' CUnknown ''NotReady'' (cn_Reason r @ '': '' @ cn_Message r) ErrDurable)
            else act_try (ServiceInstance_Default (cx_ctx cx) (ob_Object instance)) act_fail (\<lambda>instance.
              let instanceId = sis_ServiceInstanceId (rs_Status instance) in
              act_then (if instanceId = '''' then mark_as ''InstanceReady'' CUnknown ''MissingServiceInstanceId''
                          ''the ServiceInstance status ServiceInstanceId is required'' else act_ret ())
              (act_then (stash_Store ServiceInstanceIdStasher instanceId)
              (act_then (mark_as ''InstanceReady'' CTrue ''Ready'' '''')
                (act_ret instance))))))"

definition ResolveServiceInstanceId :: "('kc, 'd, 't, 'desc, 'sec, 'w) cluster \<Rightarrow> 'w services \<Rightarrow>
    (ServiceBinding, 'kc, 'd, 't, 'w, unit) handler" where
  "ResolveServiceInstanceId cx sx = act_bind get_resource (\<lambda>resource.
     act_bind (resolve_instance cx sx resource) (\<lambda>instance. let lifecycleRef = si_Ref (rs_Spec instance) in
     act_then (stash_Store ServiceLifecycleReferenceStasher lifecycleRef)
     (act_try (fetch_lifecycle sx (om_Namespace (rs_Meta resource)) lifecycleRef)
       (\<lambda>err. if IsNotFound err
          then stop_with ''InstanceReady'' CFalse ''NotFound'' (slr_Kind lifecycleRef @ '' '' @ slr_Name lifecycleRef @ '' not found'') ErrDurable
          else act_fail err)
       (\<lambda>lifecycle.
          if om_Generation (rs_Meta (ob_Object lifecycle)) \<noteq> as_ObservedGeneration (ob_Status lifecycle)
          then stop_with ''InstanceReady'' CUnknown ''Blocked''
                 (''waiting for '' @ slr_Kind lifecycleRef @ '' '' @ slr_Name lifecycleRef @ '' to reconcile'') ErrGenerationMismatch
          else let address = sls_URL (rs_Status (ob_Object lifecycle)) in
            act_then (if address = '''' then mark_as ''InstanceReady'' CUnknown ''MissingURL''
                        (''the '' @ slr_Kind lifecycleRef @ '' status URL is required'') else act_ret ())
              (stash_Store ServiceLifecycleAddressStasher address)))))"

definition ServiceCredentialFinalizer :: string where
  "ServiceCredentialFinalizer = ''services.wa8s.reconciler.io/finalizer''"

definition ServiceBindingSecret_DesiredChild :: "ServiceBinding \<Rightarrow> secret option go" where
  "ServiceBindingSecret_DesiredChild resource = (let m = rs_Meta resource in
     Ret (Some \<lparr>se_Meta = blank_meta\<lparr>om_Namespace := om_Namespace m, om_Name := ''service-binding-'' @ om_UID m,
        om_Labels := [''services.wa8s.reconciler.io/type'' \<mapsto> ''binding'', ''services.wa8s.reconciler.io/id'' \<mapsto> om_UID m],
        om_Finalizers := [ServiceCredentialFinalizer]\<rparr>, se_Data = Map.empty\<rparr>))"

definition MergeSecret :: "secret \<Rightarrow> secret \<Rightarrow> secret" where
  "MergeSecret current desired = current\<lparr>se_Meta := (se_Meta current)\<lparr>om_Labels := om_Labels (se_Meta desired)\<rparr>\<rparr>"

definition ServiceBindingSecret_Reflect :: "'k option \<Rightarrow> gerr option \<Rightarrow> (ServiceBinding, 'kc, 'd, 't, 'w, unit) handler" where
  "ServiceBindingSecret_Reflect ch err = (case err of
     Some e \<Rightarrow> act_then
       (if IsInvalid e then mark_as ''Secret'' CFalse ''Invalid'' (ReasonForError e)
        else if IsAlreadyExists e then mark_as ''Secret'' CFalse ''AlreadyExists'' (ReasonForError e)
        else mark_as ''Secret'' CUnknown ''Unknown'' '''')
       (act_fail (errors_Join [e, ErrTransient]))
   | None \<Rightarrow> (case ch of
       None \<Rightarrow> stop_with ''Secret'' CFalse ''Missing'' '''' ErrDurable
     | Some _ \<Rightarrow> act_bind get_resource (\<lambda>parent.
         act_then (stash_Store ServiceBindingIdStasher (om_UID (rs_Meta parent)))
           (mark_as ''Secret'' CTrue ''Created'' ''''))))"


text \<open>\<^verbatim>\<open>ManageServiceBinding\<close> while the binding is not deleted: bound once, unbound once its lifetime is over.\<close>

definition ManageServiceBinding_Sync :: "('kc, 'd, 't, 'desc, 'sec, 'w) cluster \<Rightarrow> 'w services \<Rightarrow>
    (ServiceBinding, 'kc, 'd, 't, 'w, unit) handler" where
  "ManageServiceBinding_Sync cx sx = act_bind get_resource (\<lambda>resource.
     if sbs_ServiceBindingId (rs_Status resource) \<noteq> '''' then
       (if sbs_Expired (rs_Status resource) then mark_as ''Bound'' CFalse ''Expired'' ''''
        else if om_CreationTimestamp (rs_Meta resource) < time_Add (sx_Now sx) (- 1 * sb_Duration (rs_Spec resource)) then
          act_bind (stash_RetrieveOrDie ServiceLifecycleAddressStasher) (\<lambda>address.
          act_bind (stash_RetrieveOrDie ServiceBindingIdStasher) (\<lambda>bindingId.
          act_bind (stash_RetrieveOrDie ServiceInstanceIdStasher) (\<lambda>instanceId.
          act_world_try (Unbind (sx_Http sx) address bindingId instanceId)
            (\<lambda>err. act_then (eventf ''ExpireFailed'' (cx_errText cx err)) (act_fail err))
            (\<lambda>_. act_then (eventf ''Expired'' '''')
               (act_then (mark_as ''Bound'' CFalse ''Expired'' '''')
                  (set_resource (\<lambda>r. r\<lparr>rs_Status := (rs_Status r)\<lparr>sbs_Expired := True\<rparr>\<rparr>)))))))
        else mark_as ''Bound'' CTrue ''Bound'' '''')
     else
       act_bind (stash_RetrieveOrDie ServiceLifecycleAddressStasher) (\<lambda>address.
       act_bind (stash_RetrieveOrDie ServiceBindingIdStasher) (\<lambda>bindingId.
       act_bind (stash_RetrieveOrDie ServiceInstanceIdStasher) (\<lambda>instanceId.
       act_world_try (Bind (sx_Http sx) address bindingId instanceId (sb_Scopes (rs_Spec resource)))
         (\<lambda>err. act_then (eventf ''BindingFailed'' (cx_errText cx err)) (act_fail err))
         (\<lambda>_. act_then (eventf ''Bound'' '''')
           (act_then (set_resource (\<lambda>r. r\<lparr>rs_Status := (rs_Status r)
                \<lparr>sbs_Binding := ''service-binding-'' @ bindingId, sbs_ServiceBindingId := bindingId\<rparr>\<rparr>))
           (act_then (mark_as ''Bound'' CTrue ''Bound'' '''')
              (act_fail ErrUpdateStatusBeforeContinuingReconcile))))))))"

text \<open>The instance id of the finalizing call is the binding id, as in the source.\<close>

definition ManageServiceBinding_Finalize :: "('kc, 'd, 't, 'desc, 'sec, 'w) cluster \<Rightarrow> 'w services \<Rightarrow>
    (ServiceBinding, 'kc, 'd, 't, 'w, unit) handler" where
  "ManageServiceBinding_Finalize cx sx = act_bind get_resource (\<lambda>resource.
     if sbs_ServiceBindingId (rs_Status resource) = '''' \<or> sbs_Expired (rs_Status resource) then act_ret ()
     else act_bind (stash_RetrieveOrDie ServiceLifecycleAddressStasher) (\<lambda>address.
       let bindingId = sbs_ServiceBindingId (rs_Status resource);
           instanceId = sbs_ServiceBindingId (rs_Status resource) in
       act_world_try (Unbind (sx_Http sx) address bindingId instanceId)
         (\<lambda>err. act_then (eventf ''UnbindFailed'' (cx_errText cx err)) (act_fail err))
         (\<lambda>_. eventf ''Unbound'' '''')))"

definition component_ref :: "string \<Rightarrow> string \<Rightarrow> string \<Rightarrow> string \<Rightarrow> ComponentReference" where
  "component_ref apiVersion kind namespace name =
     \<lparr>cr_APIVersion = apiVersion, cr_Kind = kind, cr_Namespace = namespace, cr_Name = name\<rparr>"

text \<open>A dependency on one of the cluster components the installation brings along.\<close>

definition installed :: "string \<Rightarrow> string \<Rightarrow> GenericCompositionSpec CompositionDependency" where
  "installed component name =
     CompositionDependency component (Some (component_ref '''' ''ClusterComponent'' '''' name)) None None None"

definition client_composition :: "ServiceLifecycleReference \<Rightarrow> string \<Rightarrow> GenericCompositionSpec" where
  "client_composition lifecycleRef bindingId = GenericCompositionSpec '''' None
     [CompositionDependency ''componentized:service-lifecycle-client''
        (Some (component_ref ''services.wa8s.reconciler.io/v1alpha1'' (slr_Kind lifecycleRef) (slr_Namespace lifecycleRef) (slr_Name lifecycleRef)))
        None None None,
      CompositionDependency ''componentized:service-credentials'' None None None
        (Some (GenericCompositionSpec '''' None
          [installed ''componentized:credential-config'' ''wa8s-services-credential-config'',
           installed ''componentized:credential-store'' ''wa8s-services-credential-store'',
           CompositionDependency ''componentized:binding-id'' None
             (Some \<lparr>gcs_Values = [\<lparr>vl_Name = ''binding-id'', vl_Value = bindingId, vl_ValueFrom = None\<rparr>], gcs_ValuesFrom = []\<rparr>)
             None None]))]"

definition ConfigureClient_DesiredChild :: "ServiceLifecycleReference \<Rightarrow> ServiceBinding \<Rightarrow> (ObjectMeta \<times> CompositionSpec) option go" where
  "ConfigureClient_DesiredChild lifecycleRef resource = (let m = rs_Meta resource in
     Ret (Some (child_meta m ''services.wa8s.reconciler.io/service-binding'' '''' (om_Name m @ ''-''),
       \<lparr>cos_Generic = blank_component_spec,
        cos_Composition = client_composition lifecycleRef (sbs_ServiceBindingId (rs_Status resource))\<rparr>)))"

definition ConfigureClient_Reflect :: "cond_lib \<Rightarrow> Composition observed option \<Rightarrow> gerr option \<Rightarrow>
    (ServiceBinding, 'kc, 'd, 't, 'w, unit) handler" where
  "ConfigureClient_Reflect cl ch err = (case err of
     Some e \<Rightarrow> child_failed ''ClientReady'' e
   | None \<Rightarrow> (case ch of
       None \<Rightarrow> stop_with ''ClientReady'' CFalse ''Missing'' '''' ErrDurable
     | Some c \<Rightarrow> let nm = om_Name (rs_Meta (ob_Object c)); gen = cst_Generic (rs_Status (ob_Object c)) in
         act_then (child_ready cl ''ClientReady'' (''waiting for client Composition '' @ nm @ '' to reconcile'')
           (''client Composition '' @ nm @ '' is not ready'') (om_Generation (rs_Meta (ob_Object c))) (ob_Status c))
         (if gst_Image gen = ''''
          then stop_with ''ClientReady'' CFalse ''ImageMissing'' (''client Composition '' @ nm @ '' is missing image'') ErrDurable
          else act_then (set_resource (\<lambda>r. r\<lparr>rs_Status := (rs_Status r)\<lparr>sbs_Component := gen\<rparr>\<rparr>))
                 (mark_as ''ClientReady'' CTrue ''Ready'' ''''))))"

definition ConfigureClientComponent :: "cond_lib \<Rightarrow>
    ((ObjectMeta \<times> CompositionSpec) option \<Rightarrow> 'w \<Rightarrow> 'w \<times> (Composition observed option \<times> gerr option) go) \<Rightarrow>
    (ServiceBinding, 'kc, 'd, 't, 'w, unit) handler" where
  "ConfigureClientComponent cl manage = act_bind (stash_RetrieveOrDie ServiceLifecycleReferenceStasher) (\<lambda>lifecycleRef.
     child_reconciler (ConfigureClient_DesiredChild lifecycleRef) manage (ConfigureClient_Reflect cl))"

text \<open>\<open>next_request\<close> is the result both requeueing sub reconcilers return.\<close>

definition next_request :: "duration \<Rightarrow> Result" where
  "next_request after = (if sint after > 0 then \<lparr>res_Requeue = False, res_RequeueAfter = after\<rparr>
     else \<lparr>res_Requeue = True, res_RequeueAfter = 0\<rparr>)"

definition ExpirationRequeue :: "'w services \<Rightarrow> (ServiceBinding, 'kc, 'd, 't, 'w, unit) handler" where
  "ExpirationRequeue sx = act_bind get_resource (\<lambda>resource.
     if sbs_Expired (rs_Status resource) then requeue \<lparr>res_Requeue = False, res_RequeueAfter = 0\<rparr>
     else let expiration = time_Add (om_CreationTimestamp (rs_Meta resource)) (sb_Duration (rs_Spec resource)) in
       act_then (set_resource (\<lambda>r. r\<lparr>rs_Status := (rs_Status r)\<lparr>sbs_ExpiresAfter := expiration\<rparr>\<rparr>))
         (requeue (next_request (time_Sub expiration (sx_Now sx)))))"

definition ServiceBindingConditions :: "string list" where
  "ServiceBindingConditions = [''InstanceReady'', ''Secret'', ''Bound'', ''ClientReady'', ''ChildComponent'']"

definition ServiceBinding_ComponentLike :: "GroupVersionKind go \<Rightarrow> ServiceBinding component_like" where
  "ServiceBinding_ComponentLike gvk = \<lparr>ck_Meta = rs_Meta, ck_GVK = gvk,
     ck_GetGenericComponentSpec = (\<lambda>r. blank_component_spec), ck_GetGenericComponentStatus = (\<lambda>r. sbs_Component (rs_Status r)),
     ck_put_status = (\<lambda>st r. r\<lparr>rs_Status := (rs_Status r)\<lparr>sbs_Component := st\<rparr>\<rparr>)\<rparr>"

text \<open>How the children of a binding are managed: the secret, the client composition and the component.\<close>

record 'w binding_children =
  bc_Secret :: "secret option \<Rightarrow> 'w \<Rightarrow> 'w \<times> (secret option \<times> gerr option) go"
  bc_Composition :: "(ObjectMeta \<times> CompositionSpec) option \<Rightarrow> 'w \<Rightarrow> 'w \<times> (Composition observed option \<times> gerr option) go"
  bc_Component :: "(ObjectMeta \<times> ComponentSpec) option \<Rightarrow> 'w \<Rightarrow> 'w \<times> (Component option \<times> gerr option) go"

definition ServiceBindingReconciler ::
    "((ServiceBinding, 'kc, 'd, 't, 'w, unit) handler list \<Rightarrow> (ServiceBinding, 'kc, 'd, 't, 'w, unit) handler) \<Rightarrow>
     ('kc, 'd, 't, 'desc, 'sec, 'w) cluster \<Rightarrow> 'w services \<Rightarrow> GroupVersionKind go \<Rightarrow> 'w binding_children \<Rightarrow>
     (ServiceBinding, 'kc, 'd, 't, 'w, unit) handler" where
  "ServiceBindingReconciler sq cx sx gvk bc = sq
     [ResolveServiceInstanceId cx sx,
      child_reconciler ServiceBindingSecret_DesiredChild (bc_Secret bc) ServiceBindingSecret_Reflect,
      ManageServiceBinding_Sync cx sx,
      ConfigureClientComponent (cx_conds cx) (bc_Composition bc),
      ExpirationRequeue sx,
      child_reconciler (ComponentChild_DesiredChild (ServiceBinding_ComponentLike gvk) ''services.wa8s.reconciler.io/service-binding'')
        (bc_Component bc) (ComponentChild_Reflect cx rs_Meta ''ChildComponent'')]"

definition ServiceBindingFinalizer ::
    "((ServiceBinding, 'kc, 'd, 't, 'w, unit) handler list \<Rightarrow> (ServiceBinding, 'kc, 'd, 't, 'w, unit) handler) \<Rightarrow>
     ('kc, 'd, 't, 'desc, 'sec, 'w) cluster \<Rightarrow> 'w services \<Rightarrow> (ServiceBinding, 'kc, 'd, 't, 'w, unit) handler" where
  "ServiceBindingFinalizer sq cx sx = sq [ResolveServiceInstanceId cx sx, ManageServiceBinding_Finalize cx sx]"

section \<open>Instances\<close>

definition ServiceLifecycleConditions :: "string list" where
  "ServiceLifecycleConditions = [''ComponentReady'', ''LifecycleReady'', ''ClientReady'']"

definition ServiceLifecycleStatus_InitializeConditions :: "cond_lib \<Rightarrow> apis_Status \<Rightarrow> apis_Status" where
  "ServiceLifecycleStatus_InitializeConditions cl = cl_Initialize cl ServiceLifecycleConditions"

definition default_lifecycle :: "ctx \<Rightarrow> ServiceLifecycleReference \<Rightarrow> ServiceLifecycle \<Rightarrow> ServiceLifecycle go" where
  "default_lifecycle c ref r = (if slr_Kind ref = ''ClusterServiceLifecycle''
     then ClusterServiceLifecycle_Default c r else ServiceLifecycle_Default c r)"

definition ResolveServiceLifecycle :: "('kc, 'd, 't, 'desc, 'sec, 'w) cluster \<Rightarrow> 'w services \<Rightarrow>
    (ServiceInstance, 'kc, 'd, 't, 'w, unit) handler" where
  "ResolveServiceLifecycle cx sx = act_bind get_resource (\<lambda>resource.
     let cl = cx_conds cx; lifecycleRef = si_Ref (rs_Spec resource); what = slr_Kind lifecycleRef @ '' '' @ slr_Name lifecycleRef in
     act_try (fetch_lifecycle sx (om_Namespace (rs_Meta resource)) lifecycleRef)
       (\<lambda>err. if IsNotFound err
          then stop_with ''LifecycleReady'' CFalse ''ServiceLifecycleNotFound'' (what @ '' not found'') ErrDurable
          else act_fail err)
       (\<lambda>lifecycle.
          if om_Generation (rs_Meta (ob_Object lifecycle)) \<noteq> as_ObservedGeneration (ob_Status lifecycle)
          then stop_with ''LifecycleReady'' CUnknown ''Blocked'' (''waiting for '' @ what @ '' to reconcile'') ErrGenerationMismatch
          else let ready = cl_Get cl (ServiceLifecycleStatus_InitializeConditions cl (ob_Status lifecycle)) ''Ready'' in
            if \<not> cl_IsTrue cl ready then (case ready of
                None \<Rightarrow> act_lift (Panic ''nil pointer dereference'')
              | Some r \<Rightarrow> stop_with ''LifecycleReady'' (if cl_IsFalse cl ready then CFalse else CUnknown) ''ServiceLifecycleNotReady''
                  (cn_Reason r @ '': '' @ cn_Message r) ErrDurable)
            else act_try (default_lifecycle (cx_ctx cx) lifecycleRef (ob_Object lifecycle)) act_fail (\<lambda>lifecycle.
              let address = sls_URL (rs_Status lifecycle) in
              act_then (if address = '''' then mark_as ''LifecycleReady'' CUnknown ''MissingURL''
                          (''the '' @ slr_Kind lifecycleRef @ '' status URL is required'') else act_ret ())
              (act_then (stash_Store ServiceLifecycleAddressStasher address)
                (mark_as ''LifecycleReady'' CTrue ''Ready'' '''')))))"

definition ManageServiceInstance_Sync :: "('kc, 'd, 't, 'desc, 'sec, 'w) cluster \<Rightarrow> 'w services \<Rightarrow>
    (ServiceInstance, 'kc, 'd, 't, 'w, unit) handler" where
  "ManageServiceInstance_Sync cx sx = act_bind get_resource (\<lambda>resource.
     if sis_ServiceInstanceId (rs_Status resource) \<noteq> '''' then mark_as ''Provisioned'' CTrue ''Provisioned'' ''''
     else act_bind (stash_RetrieveOrDie ServiceLifecycleAddressStasher) (\<lambda>address.
       let instanceId = om_UID (rs_Meta resource); spec = rs_Spec resource;
           tier = (if si_Tier spec \<noteq> '''' then Some (si_Tier spec) else None) in
       act_world_try (Provision (sx_Http sx) address instanceId (si_Type spec) tier (si_Requests spec))
         (\<lambda>err. act_then (eventf ''ProvisionFailed'' (cx_errText cx err)) (act_fail err))
         (\<lambda>_. act_then (eventf ''Provisioned'' '''')
           (act_then (set_resource (\<lambda>r. r\<lparr>rs_Status := (rs_Status r)\<lparr>sis_ServiceInstanceId := instanceId\<rparr>\<rparr>))
           (act_then (mark_as ''Provisioned'' CTrue ''Provisioned'' '''')
              (act_fail ErrUpdateStatusBeforeContinuingReconcile))))))"

text \<open>\<open>clear\<close> is \<^verbatim>\<open>ClearCondition\<close> of the finalizer condition.\<close>

definition ManageServiceInstance_Finalize :: "('kc, 'd, 't, 'desc, 'sec, 'w) cluster \<Rightarrow> 'w services \<Rightarrow> unit go \<Rightarrow>
    (ServiceInstance, 'kc, 'd, 't, 'w, unit) handler" where
  "ManageServiceInstance_Finalize cx sx clear = act_bind get_resource (\<lambda>resource.
     if sis_ServiceInstanceId (rs_Status resource) = '''' then act_ret ()
     else act_registry_try (sx_Bindings sx (om_Namespace (rs_Meta resource))) act_fail (\<lambda>items.
       case find (\<lambda>b. sir_Name (sb_Ref (rs_Spec b)) = om_Name (rs_Meta resource)) items of
         Some serviceBinding \<Rightarrow> act_try (sx_TrackObject sx (rs_Meta serviceBinding)) act_fail (\<lambda>_.
           stop_with ''Finalizer'' CFalse ''ServiceBindingExists''
             (''deletion blocked by ServiceBinding '' @ om_Name (rs_Meta serviceBinding)) ErrDurable)
       | None \<Rightarrow> act_bind (stash_RetrieveOrDie ServiceLifecycleAddressStasher) (\<lambda>address.
           act_world_try (Destroy (sx_Http sx) address (sis_ServiceInstanceId (rs_Status resource)) (Some False))
             (\<lambda>err. act_then (eventf ''DestroyFailed'' (cx_errText cx err))
                (stop_with ''Finalizer'' CFalse ''DestroyFailed'' (cx_errText cx err) ErrDurable))
             (\<lambda>_. act_try clear act_fail (\<lambda>_. eventf ''Destroyed'' '''')))))"

definition ServiceInstanceReconciler ::
    "((ServiceInstance, 'kc, 'd, 't, 'w, unit) handler list \<Rightarrow> (ServiceInstance, 'kc, 'd, 't, 'w, unit) handler) \<Rightarrow>
     ('kc, 'd, 't, 'desc, 'sec, 'w) cluster \<Rightarrow> 'w services \<Rightarrow> (ServiceInstance, 'kc, 'd, 't, 'w, unit) handler" where
  "ServiceInstanceReconciler sq cx sx = sq [ResolveServiceLifecycle cx sx, ManageServiceInstance_Sync cx sx]"

definition ServiceInstanceFinalizer ::
    "((ServiceInstance, 'kc, 'd, 't, 'w, unit) handler list \<Rightarrow> (ServiceInstance, 'kc, 'd, 't, 'w, unit) handler) \<Rightarrow>
     ('kc, 'd, 't, 'desc, 'sec, 'w) cluster \<Rightarrow> 'w services \<Rightarrow> unit go \<Rightarrow> (ServiceInstance, 'kc, 'd, 't, 'w, unit) handler" where
  "ServiceInstanceFinalizer sq cx sx clear = sq [ResolveServiceLifecycle cx sx, ManageServiceInstance_Finalize cx sx clear]"

section \<open>Clients\<close>

definition client_labels :: "ServiceClient \<Rightarrow> string \<rightharpoonup> string" where
  "client_labels resource = (om_Labels (rs_Meta resource))(''services.wa8s.reconciler.io/service-client'' \<mapsto> om_Name (rs_Meta resource))"

text \<open>One round of the loop over the known bindings: pruned, or kept with new labels; \<open>current\<close> is the youngest.\<close>

definition stamp_step :: "int \<Rightarrow> ServiceClient \<Rightarrow> ServiceBinding \<Rightarrow> ServiceBinding option \<times> ServiceBinding list \<Rightarrow>
    ServiceBinding option \<times> ServiceBinding list" where
  "stamp_step now resource ch acc = (case acc of (current, desired) \<Rightarrow>
     let ch = ch\<lparr>rs_Meta := (rs_Meta ch)\<lparr>om_Labels := client_labels resource\<rparr>\<rparr> in
     if sbs_Expired (rs_Status ch) \<or>
        time_Add (om_CreationTimestamp (rs_Meta ch)) (sc_Duration (rs_Spec resource) + 5 * minute) < now
     then (current, desired)
     else ((case current of
              None \<Rightarrow> Some ch
            | Some c \<Rightarrow> if om_CreationTimestamp (rs_Meta c) < om_CreationTimestamp (rs_Meta ch) then Some ch else Some c),
           desired @ [ch]))"

definition new_binding :: "ServiceClient \<Rightarrow> ServiceBinding" where
  "new_binding resource = \<lparr>rs_Meta = blank_meta\<lparr>om_Namespace := om_Namespace (rs_Meta resource),
       om_GenerateName := om_Name (rs_Meta resource) @ ''-'', om_Labels := client_labels resource\<rparr>,
     rs_Spec = \<lparr>sb_Ref = sc_Ref (rs_Spec resource), sb_Scopes = sc_Scopes (rs_Spec resource), sb_Duration = sc_Duration (rs_Spec resource)\<rparr>,
     rs_Status = \<lparr>sbs_Component = \<lparr>gst_Image = '''', gst_WIT = None, gst_Trace = []\<rparr>, sbs_ServiceBindingId = '''',
       sbs_Binding = '''', sbs_ExpiresAfter = zero_time, sbs_Expired = False\<rparr>\<rparr>"

definition in_sync :: "int \<Rightarrow> ServiceClient \<Rightarrow> ServiceBinding \<Rightarrow> bool" where
  "in_sync now resource c \<longleftrightarrow> sb_Ref (rs_Spec c) = sc_Ref (rs_Spec resource) \<and> sb_Scopes (rs_Spec c) = sc_Scopes (rs_Spec resource) \<and>
     sb_Duration (rs_Spec c) = sc_Duration (rs_Spec resource) \<and>
     time_Add (om_CreationTimestamp (rs_Meta c)) (sc_Duration (rs_Spec resource) - sc_RenewBefore (rs_Spec resource)) > now"

definition Stamp_DesiredChildren :: "int \<Rightarrow> ServiceBinding list \<Rightarrow> ServiceClient \<Rightarrow> ServiceBinding list" where
  "Stamp_DesiredChildren now known resource = (case fold (stamp_step now resource) known (None, []) of (current, desired) \<Rightarrow>
     (case current of
        Some c \<Rightarrow> if in_sync now resource c then desired else desired @ [new_binding resource]
      | None \<Rightarrow> desired @ [new_binding resource]))"

definition Stamp_IdentifyChild :: "ServiceBinding \<Rightarrow> string" where
  "Stamp_IdentifyChild ch = (if om_CreationTimestamp (rs_Meta ch) = zero_time then ''current'' else om_UID (rs_Meta ch))"

definition MergeBinding :: "ServiceBinding \<Rightarrow> ServiceBinding \<Rightarrow> ServiceBinding" where
  "MergeBinding current desired = current\<lparr>rs_Meta := (rs_Meta current)\<lparr>om_Labels := om_Labels (rs_Meta desired)\<rparr>\<rparr>"

text \<open>The youngest child of the result.\<close>

fun youngest :: "ServiceBinding observed option list \<Rightarrow> ServiceBinding observed option \<Rightarrow> ServiceBinding observed option" where
  "youngest [] current = current"
| "youngest (None # cs) current = youngest cs current"
| "youngest (Some ch # cs) current = youngest cs (case current of
     None \<Rightarrow> Some ch
   | Some c \<Rightarrow> if om_CreationTimestamp (rs_Meta (ob_Object c)) < om_CreationTimestamp (rs_Meta (ob_Object ch)) then Some ch else Some c)"

definition Stamp_Reflect :: "cond_lib \<Rightarrow> ServiceBinding observed option list \<Rightarrow> gerr option \<Rightarrow>
    (ServiceClient, 'kc, 'd, 't, 'w, unit) handler" where
  "Stamp_Reflect cl children err = (case err of
     Some e \<Rightarrow> child_failed ''Bound'' e
   | None \<Rightarrow> (case youngest children None of
       None \<Rightarrow> stop_with ''Bound'' CFalse ''Missing'' '''' ErrDurable
     | Some c \<Rightarrow> let current = ob_Object c; nm = om_Name (rs_Meta current); st = rs_Status current in
         act_then (set_resource (\<lambda>r. r\<lparr>rs_Status := (rs_Status r)\<lparr>scs_RenewsAfter := time_Add (om_CreationTimestamp (rs_Meta current))
           (sc_Duration (rs_Spec r) - sc_RenewBefore (rs_Spec r))\<rparr>\<rparr>))
         (act_then (child_ready cl ''Bound'' (''waiting for ServiceBinding '' @ nm @ '' to reconcile'')
           (''ServiceBinding '' @ nm @ '' is not ready'') (om_Generation (rs_Meta current)) (ob_Status c))
         (if gst_Image (sbs_Component st) = ''''
          then stop_with ''Bound'' CFalse ''ImageMissing'' (''ServiceBinding '' @ nm @ '' is missing image'') ErrDurable
          else act_then (mark_as ''Bound'' CTrue ''Ready'' '''')
            (set_resource (\<lambda>r. r\<lparr>rs_Status := (rs_Status r)\<lparr>scs_Component := sbs_Component st,
               scs_ServiceBindingId := sbs_ServiceBindingId st, scs_ExpiresAfter := sbs_ExpiresAfter st\<rparr>\<rparr>))))))"

definition StampServiceBinding :: "cond_lib \<Rightarrow> 'w services \<Rightarrow> ('w \<Rightarrow> ServiceBinding list go) \<Rightarrow>
    (ServiceBinding list \<Rightarrow> 'w \<Rightarrow> 'w \<times> (ServiceBinding observed option list \<times> gerr option) go) \<Rightarrow>
    (ServiceClient, 'kc, 'd, 't, 'w, unit) handler" where
  "StampServiceBinding cl sx known manage = act_bind get_resource (\<lambda>resource.
     act_registry_try known act_fail (\<lambda>ks.
     act_bind (act_world (manage (Stamp_DesiredChildren (sx_Now sx) ks resource))) (\<lambda>(children, err).
       Stamp_Reflect cl children err)))"

definition RenewRequeue :: "'w services \<Rightarrow> (ServiceClient, 'kc, 'd, 't, 'w, unit) handler" where
  "RenewRequeue sx = act_bind get_resource (\<lambda>resource.
     requeue (next_request (time_Sub (scs_RenewsAfter (rs_Status resource)) (sx_Now sx))))"

definition ServiceClientConditions :: "string list" where
  "ServiceClientConditions = [''Bound'', ''ChildComponent'']"

definition ServiceClient_ComponentLike :: "GroupVersionKind go \<Rightarrow> ServiceClient component_like" where
  "ServiceClient_ComponentLike gvk = \<lparr>ck_Meta = rs_Meta, ck_GVK = gvk,
     ck_GetGenericComponentSpec = (\<lambda>r. blank_component_spec), ck_GetGenericComponentStatus = (\<lambda>r. scs_Component (rs_Status r)),
     ck_put_status = (\<lambda>st r. r\<lparr>rs_Status := (rs_Status r)\<lparr>scs_Component := st\<rparr>\<rparr>)\<rparr>"

definition ServiceClientReconciler ::
    "((ServiceClient, 'kc, 'd, 't, 'w, unit) handler list \<Rightarrow> (ServiceClient, 'kc, 'd, 't, 'w, unit) handler) \<Rightarrow>
     ('kc, 'd, 't, 'desc, 'sec, 'w) cluster \<Rightarrow> 'w services \<Rightarrow> GroupVersionKind go \<Rightarrow> ('w \<Rightarrow> ServiceBinding list go) \<Rightarrow>
     (ServiceBinding list \<Rightarrow> 'w \<Rightarrow> 'w \<times> (ServiceBinding observed option list \<times> gerr option) go) \<Rightarrow>
     ((ObjectMeta \<times> ComponentSpec) option \<Rightarrow> 'w \<Rightarrow> 'w \<times> (Component option \<times> gerr option) go) \<Rightarrow>
     (ServiceClient, 'kc, 'd, 't, 'w, unit) handler" where
  "ServiceClientReconciler sq cx sx gvk known bindings component = sq
     [StampServiceBinding (cx_conds cx) sx known bindings,
      RenewRequeue sx,
      child_reconciler (ComponentChild_DesiredChild (ServiceClient_ComponentLike gvk) ''services.wa8s.reconciler.io/service-client'')
        component (ComponentChild_Reflect cx rs_Meta ''ChildComponent'')]"

end
