(* ===== verification/Service_Lifecycles.thy ===== *)
theory Service_Lifecycles
  imports Service_Controllers
begin

text \<open>
  The controller of service lifecycles (\<^verbatim>\<open>servicelifecycle_controller.go\<close>): a composition of the lifecycle
  component with its host, an HTTP trigger that serves it, and the component clients get.  Lifecycles
  and cluster lifecycles share it; a cluster lifecycle has no namespace, and its children are made in the one of the
  installation.  As for bindings, the sequence during finalization is a definition of its own.
\<close>

section \<open>Deletion\<close>

text \<open>\<open>gvk\<close> and \<open>namespaced\<close> are what the API machinery says of the kind, \<open>clear\<close> is \<^verbatim>\<open>ClearCondition\<close> of the finalizer
  condition.  The instances are those of the lifecycle's namespace, all of them for a cluster lifecycle.\<close>

definition refers_to :: "string \<Rightarrow> bool \<Rightarrow> ServiceLifecycle \<Rightarrow> ServiceInstance \<Rightarrow> bool" where
  "refers_to kind namespaced resource serviceInstance \<longleftrightarrow> (let ref = si_Ref (rs_Spec serviceInstance) in
     slr_Name ref = om_Name (rs_Meta resource) \<and> slr_Kind ref = kind \<and>
     (\<not> namespaced \<or> slr_Namespace ref = om_Namespace (rs_Meta resource)))"

fun blocking_instance :: "('kc, 'd, 't, 'desc, 'sec, 'w) cluster \<Rightarrow> 'w services \<Rightarrow> string \<Rightarrow> bool \<Rightarrow> ServiceInstance list \<Rightarrow>
    unit go \<Rightarrow> (ServiceLifecycle, 'kc, 'd, 't, 'w, unit) handler" where
  "blocking_instance cx sx kind namespaced [] clear = act_lift clear"
| "blocking_instance cx sx kind namespaced (i # items) clear = act_bind get_resource (\<lambda>resource.
     act_try (ServiceInstance_Default (cx_ctx cx) i) act_fail (\<lambda>serviceInstance.
       if refers_to kind namespaced resource serviceInstance
       then act_try (sx_TrackObject sx (rs_Meta serviceInstance)) act_fail (\<lambda>_.
         mark_as ''Finalizer'' CFalse ''ServiceInstanceExists'' (''deletion blocked by ServiceInstance '' @
           (if om_Namespace (rs_Meta resource) = '''' then om_Namespace (rs_Meta serviceInstance) @ ''/'' else '''') @
           om_Name (rs_Meta serviceInstance)))
       else blocking_instance cx sx kind namespaced items clear))"

definition CheckForInstances_Finalize :: "('kc, 'd, 't, 'desc, 'sec, 'w) cluster \<Rightarrow> 'w services \<Rightarrow> GroupVersionKind go \<Rightarrow> bool go \<Rightarrow>
    unit go \<Rightarrow> (ServiceLifecycle, 'kc, 'd, 't, 'w, unit) handler" where
  "CheckForInstances_Finalize cx sx gvk namespaced clear = act_bind get_resource (\<lambda>resource.
     act_try gvk act_fail (\<lambda>gvk. act_try namespaced act_fail (\<lambda>namespaced.
     act_registry_try (sx_Instances sx (om_Namespace (rs_Meta resource))) act_fail (\<lambda>items.
       blocking_instance cx sx (gvk_Kind gvk) namespaced items clear))))"

section \<open>The children\<close>

definition default_namespace :: "ctx \<Rightarrow> ObjectMeta \<Rightarrow> ObjectMeta" where
  "default_namespace c m = (if om_Namespace m = '''' then m\<lparr>om_Namespace := Namespace c\<rparr> else m)"

definition lifecycle_composition :: "ComponentReference \<Rightarrow> GenericCompositionSpec" where
  "lifecycle_composition ref = GenericCompositionSpec '''' None
     [installed ''componentized:services-host'' ''wa8s-services-lifecycle-host-http'',
      CompositionDependency ''componentized:services-lifecycle'' None None None
        (Some (GenericCompositionSpec '''' None
          [CompositionDependency ''componentized:services-lifecycle'' (Some ref) None None None,
           installed ''componentized:services-credential-admin'' ''wa8s-services-credential-admin''])),
      installed ''componentized:logging'' ''wa8s-services-logging'']"

definition LifecycleComposition_DesiredChild :: "ctx \<Rightarrow> string \<Rightarrow> ServiceLifecycle \<Rightarrow> (ObjectMeta \<times> CompositionSpec) option go" where
  "LifecycleComposition_DesiredChild c childLabelKey resource = (let m = rs_Meta resource in
     Ret (Some (default_namespace c (child_meta m childLabelKey '''' (om_Name m @ ''-'')),
       \<lparr>cos_Generic = blank_component_spec, cos_Composition = lifecycle_composition (gc_Ref (sl_Container (rs_Spec resource)))\<rparr>)))"

definition LifecycleComposition_Reflect :: "cond_lib \<Rightarrow> Composition observed option \<Rightarrow> gerr option \<Rightarrow>
    (ServiceLifecycle, 'kc, 'd, 't, 'w, unit) handler" where
  "LifecycleComposition_Reflect cl ch err = (case err of
     Some e \<Rightarrow> child_failed ''ComponentReady'' e
   | None \<Rightarrow> (case ch of
       None \<Rightarrow> stop_with ''ComponentReady'' CFalse ''Missing'' '''' ErrDurable
     | Some c \<Rightarrow> let nm = om_Name (rs_Meta (ob_Object c)) in
         act_then (stash_Store ServiceLifecycleCompositionStasher nm)
         (act_then (child_ready cl ''ComponentReady'' (''waiting for Composition '' @ nm @ '' to reconcile'')
           (''child Composition '' @ nm @ '' is not ready'') (om_Generation (rs_Meta (ob_Object c))) (ob_Status c))
         (if gst_Image (cst_Generic (rs_Status (ob_Object c))) = ''''
          then stop_with ''ComponentReady'' CFalse ''ImageMissing'' (''child Composition '' @ nm @ '' is missing image'') ErrDurable
          else mark_as ''ComponentReady'' CTrue ''Ready'' ''''))))"

definition LifecycleTrigger_DesiredChild :: "ctx \<Rightarrow> string \<Rightarrow> string \<Rightarrow> ServiceLifecycle \<Rightarrow> (ObjectMeta \<times> HttpTriggerSpec) option go" where
  "LifecycleTrigger_DesiredChild c childLabelKey composition resource = (let m = rs_Meta resource; spec = sl_Container (rs_Spec resource) in
     Ret (Some (default_namespace c (child_meta m childLabelKey (om_Name m @ ''-lifecycle'') ''''),
       \<lparr>ht_Container = \<lparr>gc_Generic = gc_Generic spec, gc_Ref = component_ref '''' ''Composition'' '''' composition,
          gc_ServiceAccountRef = gc_ServiceAccountRef spec, gc_HostCapabilities = gc_HostCapabilities spec\<rparr>\<rparr>)))"

definition LifecycleTrigger_Reflect :: "cond_lib \<Rightarrow> HttpTrigger observed option \<Rightarrow> gerr option \<Rightarrow>
    (ServiceLifecycle, 'kc, 'd, 't, 'w, unit) handler" where
  "LifecycleTrigger_Reflect cl ch err = (case err of
     Some e \<Rightarrow>
       if IsAlreadyExists e then stop_with ''LifecycleReady'' CFalse ''AlreadyExists'' (ReasonForError e) ErrDurable
       else child_failed ''LifecycleReady'' e
   | None \<Rightarrow> (case ch of
       None \<Rightarrow> stop_with ''LifecycleReady'' CFalse ''Missing'' '''' ErrDurable
     | Some c \<Rightarrow> let nm = om_Name (rs_Meta (ob_Object c)); url = hts_URL (rs_Status (ob_Object c)) in
         act_then (child_ready cl ''LifecycleReady'' (''waiting for HttpTrigger '' @ nm @ '' to reconcile'')
           (''child HttpTrigger '' @ nm @ '' is not ready'') (om_Generation (rs_Meta (ob_Object c))) (ob_Status c))
         (if url = '''' then stop_with ''LifecycleReady'' CFalse ''URLMissing'' (''HttpTrigger '' @ nm @ '' is missing url'') ErrDurable
          else act_then (set_resource (\<lambda>r. r\<lparr>rs_Status := (rs_Status r)\<lparr>sls_URL := url\<rparr>\<rparr>))
                 (mark_as ''LifecycleReady'' CTrue ''Ready'' ''''))))"

definition HttpTriggerChildReconciler :: "('kc, 'd, 't, 'desc, 'sec, 'w) cluster \<Rightarrow> string \<Rightarrow>
    ((ObjectMeta \<times> HttpTriggerSpec) option \<Rightarrow> 'w \<Rightarrow> 'w \<times> (HttpTrigger observed option \<times> gerr option) go) \<Rightarrow>
    (ServiceLifecycle, 'kc, 'd, 't, 'w, unit) handler" where
  "HttpTriggerChildReconciler cx childLabelKey manage = act_bind (stash_RetrieveOrDie ServiceLifecycleCompositionStasher) (\<lambda>composition.
     child_reconciler (LifecycleTrigger_DesiredChild (cx_ctx cx) childLabelKey composition) manage (LifecycleTrigger_Reflect (cx_conds cx)))"

text \<open>The component of the clients.  Without an image the mark goes to another condition and the request goes on, as in
  the source.\<close>

definition ClientComponent_Sync :: "('kc, 'd, 't, 'desc, 'sec, 'w) cluster \<Rightarrow> (ServiceLifecycle, 'kc, 'd, 't, 'w, unit) handler" where
  "ClientComponent_Sync cx = act_bind get_resource (\<lambda>resource.
     let ref = sl_ClientRef (rs_Spec resource); what = cr_Kind ref @ '' '' @ cr_Name ref in
     act_try (ResolveComponentReference cx ref)
       (\<lambda>err. if IsNotFound err then stop_with ''ClientReady'' CFalse ''ComponentNotFound'' (what @ '' not found'') ErrDurable else act_fail err)
       (\<lambda>component. act_try (GenericComponentSpec_Default (cx_ctx cx) (rs_Spec component)) act_fail (\<lambda>_.
          act_then (child_ready (cx_conds cx) ''ClientReady'' (''waiting for '' @ what @ '' to reconcile'') (what @ '' is not ready'')
            (om_Generation (rs_Meta component)) (cdk_Status (rs_Status component)))
          (act_then (set_resource (\<lambda>r. r\<lparr>rs_Status := (rs_Status r)\<lparr>sls_Component := cdk_Generic (rs_Status component)\<rparr>\<rparr>))
            (if gst_Image (cdk_Generic (rs_Status component)) = ''''
             then mark_as ''ComponentReady'' CFalse ''ImageMissing'' (what @ '' is missing image'')
             else mark_as ''ClientReady'' CTrue ''Ready'' '''')))))"

section \<open>The reconcilers\<close>

text \<open>\<open>own\<close> is the status of the lifecycle itself: with a finalizer condition the children are left alone.\<close>

definition genericServiceLifecycleReconciler ::
    "((ServiceLifecycle, 'kc, 'd, 't, 'w, unit) handler list \<Rightarrow> (ServiceLifecycle, 'kc, 'd, 't, 'w, unit) handler) \<Rightarrow>
     ('kc, 'd, 't, 'desc, 'sec, 'w) cluster \<Rightarrow> string \<Rightarrow> apis_Status \<Rightarrow>
     ((ObjectMeta \<times> CompositionSpec) option \<Rightarrow> 'w \<Rightarrow> 'w \<times> (Composition observed option \<times> gerr option) go) \<Rightarrow>
     ((ObjectMeta \<times> HttpTriggerSpec) option \<Rightarrow> 'w \<Rightarrow> 'w \<times> (HttpTrigger observed option \<times> gerr option) go) \<Rightarrow>
     (ServiceLifecycle, 'kc, 'd, 't, 'w, unit) handler" where
  "genericServiceLifecycleReconciler sq cx childLabelKey own compose serve =
     sq [act_ret (),
         if cl_Get (cx_conds cx) own ''Finalizer'' = None
         then sq [child_reconciler (LifecycleComposition_DesiredChild (cx_ctx cx) childLabelKey) compose (LifecycleComposition_Reflect (cx_conds cx)),
                  HttpTriggerChildReconciler cx childLabelKey serve,
                  ClientComponent_Sync cx]
         else act_ret ()]"

definition ServiceLifecycleReconciler ::
    "((ServiceLifecycle, 'kc, 'd, 't, 'w, unit) handler list \<Rightarrow> (ServiceLifecycle, 'kc, 'd, 't, 'w, unit) handler) \<Rightarrow>
     ('kc, 'd, 't, 'desc, 'sec, 'w) cluster \<Rightarrow> apis_Status \<Rightarrow>
     ((ObjectMeta \<times> CompositionSpec) option \<Rightarrow> 'w \<Rightarrow> 'w \<times> (Composition observed option \<times> gerr option) go) \<Rightarrow>
     ((ObjectMeta \<times> HttpTriggerSpec) option \<Rightarrow> 'w \<Rightarrow> 'w \<times> (HttpTrigger observed option \<times> gerr option) go) \<Rightarrow>
     (ServiceLifecycle, 'kc, 'd, 't, 'w, unit) handler" where
  "ServiceLifecycleReconciler sq cx = genericServiceLifecycleReconciler sq cx ''services.wa8s.reconciler.io/service-lifecycle''"

definition ClusterServiceLifecycleReconciler ::
    "((ServiceLifecycle, 'kc, 'd, 't, 'w, unit) handler list \<Rightarrow> (ServiceLifecycle, 'kc, 'd, 't, 'w, unit) handler) \<Rightarrow>
     ('kc, 'd, 't, 'desc, 'sec, 'w) cluster \<Rightarrow> apis_Status \<Rightarrow>
     ((ObjectMeta \<times> CompositionSpec) option \<Rightarrow> 'w \<Rightarrow> 'w \<times> (Composition observed option \<times> gerr option) go) \<Rightarrow>
     ((ObjectMeta \<times> HttpTriggerSpec) option \<Rightarrow> 'w \<Rightarrow> 'w \<times> (HttpTrigger observed option \<times> gerr option) go) \<Rightarrow>
     (ServiceLifecycle, 'kc, 'd, 't, 'w, unit) handler" where
  "ClusterServiceLifecycleReconciler sq cx = genericServiceLifecycleReconciler sq cx ''services.wa8s.reconciler.io/cluster-service-lifecycle''"

text \<open>What decides that a deleted lifecycle may go.\<close>

definition ReadyToClearFinalizer :: "cond_lib \<Rightarrow> apis_Status \<Rightarrow> bool" where
  "ReadyToClearFinalizer cl own \<longleftrightarrow> cl_Get cl own ''Finalizer'' = None"

end
