(* ===== verification/Service_Definitions.thy ===== *)
theory Service_Definitions
  imports Service_Lifecycles
begin

text \<open>
  The controllers of service resource definitions (\<^verbatim>\<open>serviceresourcedefinition_controller.go\<close>).  A definition
  owns a cluster lifecycle, the two custom resource definitions of its instances and of its clients and a component
  duck for the clients; once both kinds are established it runs the controllers of the custom kinds in a manager of its
  own.  Those turn a custom instance into a service instance and a custom client into a service client.
\<close>

section \<open>Types\<close>

record CustomResourceDefinitionNames =
  crn_Plural :: string
  crn_Singular :: string
  crn_Kind :: string
  crn_ListKind :: string
  crn_Categories :: "string list"
  crn_ShortNames :: "string list"

text \<open>\<open>crd_Rest\<close> is what the embedded file says of scope and versions; the controllers do not touch it.\<close>

record 'v CustomResourceDefinition =
  crd_Meta :: ObjectMeta
  crd_Group :: string
  crd_Names :: CustomResourceDefinitionNames
  crd_Conversion :: string
  crd_Rest :: 'v

record DuckSpec =
  dk_Group :: string
  dk_Version :: string
  dk_Kind :: string

record ServiceInstanceDuckSpec =
  sid_Type :: string
  sid_Tier :: string
  sid_Requests :: "ServiceInstanceRequest list"

record ServiceInstanceDuckStatus =
  sids_ServiceInstanceId :: string

type_synonym ServiceInstanceDuck = "(ServiceInstanceDuckSpec, ServiceInstanceDuckStatus) resource"

record ServiceClientDuckStatus =
  scds_Component :: GenericComponentStatus
  scds_ServiceBindingId :: string
  scds_Binding :: string
  scds_RenewsAfter :: int
  scds_ExpiresAfter :: int

type_synonym ServiceClientDuck = "(ServiceClientSpec, ServiceClientDuckStatus) resource"

definition ServiceResourceDefinitionConditions :: "string list" where
  "ServiceResourceDefinitionConditions =
     [''LifecycleReady'', ''InstanceDefinitionReady'', ''ClientDefinitionReady'', ''ClientComponentDuckReady'', ''ReconcilerRunning'']"

definition ServiceInstanceDuckConditions :: "string list" where
  "ServiceInstanceDuckConditions = [''ServiceInstanceReady'']"

definition ServiceClientDuckConditions :: "string list" where
  "ServiceClientDuckConditions = [''ServiceClientReady'', ''ChildComponent'']"

text \<open>
  What the controllers rely on: the kind in the details of an API error, \<^verbatim>\<open>strcase.KebabCase\<close>, the two embedded
  definitions, and the metadata of the objects that carry all labels of a selector, the second list in a namespace.
\<close>

record ('v, 'w) definitions =
  dx_DetailsKind :: "gerr \<Rightarrow> string"
  dx_KebabCase :: "string \<Rightarrow> string"
  dx_InstanceCRD :: "'v CustomResourceDefinition"
  dx_ClientCRD :: "'v CustomResourceDefinition"
  dx_Lifecycles :: "(string \<rightharpoonup> string) \<Rightarrow> 'w \<Rightarrow> ObjectMeta list go"
  dx_Instances :: "string \<Rightarrow> (string \<rightharpoonup> string) \<Rightarrow> 'w \<Rightarrow> ObjectMeta list go"

definition definition_label :: string where
  "definition_label = ''services.wa8s.reconciler.io/service-resource-definition''"

definition definition_type_label :: string where
  "definition_type_label = ''services.wa8s.reconciler.io/service-resource-definition-type''"

section \<open>How a child is reflected\<close>

text \<open>These controllers report a rejected child in the condition and go on; only an unknown error ends the request,
  quietly.  \<^verbatim>\<open>err.(apierrs.APIStatus)\<close> holds for an error of the API server itself, not for one that wraps it.\<close>

definition child_unknown :: "string \<Rightarrow> ('r, 'kc, 'd, 't, 'w, unit) handler" where
  "child_unknown conditionType = stop_with conditionType CUnknown ''Unknown'' '''' ErrQuiet"

fun details_of :: "(gerr \<Rightarrow> string) \<Rightarrow> gerr \<Rightarrow> (string \<times> string) go" where
  "details_of kind (ApiErr r k name) = Ret (kind (ApiErr r k name), name)"
| "details_of kind err = Panic ''interface conversion: error is not errors.APIStatus''"

definition child_rejected :: "('v, 'w) definitions \<Rightarrow> string \<Rightarrow> gerr \<Rightarrow> ('r, 'kc, 'd, 't, 'w, unit) handler" where
  "child_rejected dx conditionType err =
     (if IsInvalid err then mark_as conditionType CFalse ''Invalid'' (ReasonForError err)
      else if IsAlreadyExists err then act_bind (act_lift (details_of (dx_DetailsKind dx) err)) (\<lambda>(kind, name).
        mark_as conditionType CFalse ''AlreadyExists'' (''another '' @ kind @ '' already exists with name '' @ name))
      else child_unknown conditionType)"

text \<open>The check of a child that exists: the generation is not looked at here, and a child that is not ready only leaves
  its mark.\<close>

definition when_ready :: "cond_lib \<Rightarrow> string \<Rightarrow> string \<Rightarrow> apis_Status \<Rightarrow>
    ('r, 'kc, 'd, 't, 'w, unit) handler \<Rightarrow> ('r, 'kc, 'd, 't, 'w, unit) handler" where
  "when_ready cl conditionType notReady status act = (let ready = cl_Get cl status ''Ready'' in
     if cl_IsTrue cl ready then act
     else mark_as conditionType (if cl_IsFalse cl ready then CFalse else CUnknown) ''NotReady'' notReady)"

section \<open>The children of a definition\<close>

definition SRD_Lifecycle_DesiredChild :: "ctx \<Rightarrow> ServiceResourceDefinition \<Rightarrow> (ObjectMeta \<times> ServiceLifecycleSpec) option go" where
  "SRD_Lifecycle_DesiredChild c resource = (let m = rs_Meta resource in
     Ret (Some ((child_meta m definition_label '''' (om_Name m @ ''-''))\<lparr>om_Namespace := Namespace c\<rparr>, srd_Lifecycle (rs_Spec resource))))"

definition SRD_Lifecycle_Reflect :: "cond_lib \<Rightarrow> ClusterServiceLifecycle observed option \<Rightarrow> gerr option \<Rightarrow>
    (ServiceResourceDefinition, 'kc, 'd, 't, 'w, unit) handler" where
  "SRD_Lifecycle_Reflect cl ch err = (case err of
     Some e \<Rightarrow> if IsInvalid e then mark_as ''LifecycleReady'' CFalse ''Invalid'' (ReasonForError e) else child_unknown ''LifecycleReady''
   | None \<Rightarrow> (case ch of
       None \<Rightarrow> mark_as ''LifecycleReady'' CFalse ''Missing'' ''''
     | Some c \<Rightarrow> when_ready cl ''LifecycleReady'' (''child ClusterServiceLifecycle '' @ om_Name (rs_Meta (ob_Object c)) @ '' is not ready'')
         (ob_Status c) (mark_as ''LifecycleReady'' CTrue ''Ready'' '''')))"

text \<open>The two custom resource definitions differ in the names, in the value of one label and in the embedded file.\<close>

definition definition_crd :: "string \<Rightarrow> ServiceResourceDefinitionNames \<Rightarrow> 'v CustomResourceDefinition \<Rightarrow> ServiceResourceDefinition \<Rightarrow>
    'v CustomResourceDefinition" where
  "definition_crd what names base resource = base
     \<lparr>crd_Meta := (crd_Meta base)\<lparr>om_Name := srn_Plural names @ ''.'' @ srd_Group (rs_Spec resource),
        om_Labels := (om_Labels (crd_Meta base))(definition_label \<mapsto> om_Name (rs_Meta resource), definition_type_label \<mapsto> what)\<rparr>,
      crd_Group := srd_Group (rs_Spec resource),
      crd_Names := \<lparr>crn_Plural = srn_Plural names, crn_Singular = ToLower (srn_Kind names), crn_Kind = srn_Kind names,
        crn_ListKind = srn_Kind names @ ''List'', crn_Categories = srn_Categories names, crn_ShortNames = srn_ShortNames names\<rparr>,
      crd_Conversion := ''None''\<rparr>"

definition SRD_Instance_DesiredChild :: "('v, 'w) definitions \<Rightarrow> ServiceResourceDefinition \<Rightarrow> 'v CustomResourceDefinition option go" where
  "SRD_Instance_DesiredChild dx resource =
     Ret (Some (definition_crd ''instance'' (srd_InstanceNames (rs_Spec resource)) (dx_InstanceCRD dx) resource))"

definition SRD_Client_DesiredChild :: "('v, 'w) definitions \<Rightarrow> ServiceResourceDefinition \<Rightarrow> 'v CustomResourceDefinition option go" where
  "SRD_Client_DesiredChild dx resource =
     Ret (Some (definition_crd ''client'' (srd_ClientNames (rs_Spec resource)) (dx_ClientCRD dx) resource))"

text \<open>Which definitions in the cluster are the child: a missing label reads as the empty string.\<close>

definition label_value :: "ObjectMeta \<Rightarrow> string \<Rightarrow> string" where
  "label_value m k = (case om_Labels m k of None \<Rightarrow> '''' | Some v \<Rightarrow> v)"

definition SRD_Instance_OurChild :: "ServiceResourceDefinition \<Rightarrow> ObjectMeta \<Rightarrow> bool" where
  "SRD_Instance_OurChild resource m \<longleftrightarrow>
     label_value m definition_label = om_Name (rs_Meta resource) \<and> label_value m definition_type_label = ''instance''"

definition SRD_Client_OurChild :: "ServiceResourceDefinition \<Rightarrow> ObjectMeta \<Rightarrow> bool" where
  "SRD_Client_OurChild resource m \<longleftrightarrow>
     label_value m definition_label = om_Name (rs_Meta resource) \<and> label_value m definition_type_label = ''client''"

text \<open>\<^verbatim>\<open>MergeBeforeUpdate\<close>: labels and spec of the desired definition.\<close>

definition MergeCRD :: "'v CustomResourceDefinition \<Rightarrow> 'v CustomResourceDefinition \<Rightarrow> 'v CustomResourceDefinition" where
  "MergeCRD current desired = desired\<lparr>crd_Meta := (crd_Meta current)\<lparr>om_Labels := om_Labels (crd_Meta desired)\<rparr>\<rparr>"

text \<open>A definition comes back with its name and the conditions of its status; the first \<open>Established\<close> counts.\<close>

definition established_status :: "condition list \<Rightarrow> string" where
  "established_status cs = (case List.find (\<lambda>c. cn_Type c = ''Established'') cs of None \<Rightarrow> '''' | Some c \<Rightarrow> cn_Status c)"

definition SRD_Definition_Reflect :: "('v, 'w) definitions \<Rightarrow> string \<Rightarrow> (string \<times> condition list) option \<Rightarrow> gerr option \<Rightarrow>
    (ServiceResourceDefinition, 'kc, 'd, 't, 'w, unit) handler" where
  "SRD_Definition_Reflect dx conditionType ch err = (case err of
     Some e \<Rightarrow> child_rejected dx conditionType e
   | None \<Rightarrow> (case ch of
       None \<Rightarrow> mark_as conditionType CFalse ''Missing'' ''''
     | Some (name, cs) \<Rightarrow>
         if established_status cs \<noteq> ''True''
         then mark_as conditionType (if established_status cs = ''False'' then CFalse else CUnknown) ''NotEstablished''
           (''child CustomResourceDefinition '' @ name @ '' is not established'')
         else mark_as conditionType CTrue ''Established'' ''''))"

definition SRD_Duck_DesiredChild :: "ServiceResourceDefinition \<Rightarrow> (ObjectMeta \<times> DuckSpec) option go" where
  "SRD_Duck_DesiredChild resource = (let names = srd_ClientNames (rs_Spec resource); g = srd_Group (rs_Spec resource) in
     Ret (Some ((child_meta (rs_Meta resource) definition_label (srn_Plural names @ ''.'' @ g) '''')\<lparr>om_Namespace := ''''\<rparr>,
       \<lparr>dk_Group = g, dk_Version = ''v1alpha1'', dk_Kind = srn_Kind names\<rparr>)))"

definition SRD_Duck_Reflect :: "('v, 'w) definitions \<Rightarrow> cond_lib \<Rightarrow> (string \<times> apis_Status) option \<Rightarrow> gerr option \<Rightarrow>
    (ServiceResourceDefinition, 'kc, 'd, 't, 'w, unit) handler" where
  "SRD_Duck_Reflect dx cl ch err = (case err of
     Some e \<Rightarrow> child_rejected dx ''ClientComponentDuckReady'' e
   | None \<Rightarrow> (case ch of
       None \<Rightarrow> mark_as ''ClientComponentDuckReady'' CFalse ''Missing'' ''''
     | Some (name, status) \<Rightarrow> when_ready cl ''ClientComponentDuckReady'' (''child ComponentDuck '' @ name @ '' is not ready'')
         status (mark_as ''ClientComponentDuckReady'' CTrue ''Ready'' '''')))"

section \<open>The manager of the custom kinds\<close>

text \<open>
  The sub manager of \<^verbatim>\<open>reconciler.io/ducks\<close> is a parameter: it gets the kinds it caches and the controllers it runs.
  \<open>own\<close> is the status of the definition before the request; a condition marked in this request is newer.
\<close>

datatype duck_controller =
    InstanceController GroupVersionKind string
  | ClientController GroupVersionKind string

definition condition_holds :: "cond_lib \<Rightarrow> apis_Status \<Rightarrow> string \<Rightarrow> mark list \<Rightarrow> bool" where
  "condition_holds cl own conditionType marks = (case filter (\<lambda>m. mk_Type m = conditionType) marks of
     [] \<Rightarrow> cl_IsTrue cl (cl_Get cl own conditionType)
   | ms \<Rightarrow> mk_Status (last ms) = CTrue)"

definition DefinitionsEstablished_Sync :: "cond_lib \<Rightarrow> apis_Status \<Rightarrow> (ServiceResourceDefinition, 'kc, 'd, 't, 'w, unit) handler" where
  "DefinitionsEstablished_Sync cl own s =
     (if \<not> condition_holds cl own ''InstanceDefinitionReady'' (rx_Marks s) then act_fail ErrUpdateStatusBeforeContinuingReconcile s
      else if \<not> condition_holds cl own ''ClientDefinitionReady'' (rx_Marks s) then act_fail ErrUpdateStatusBeforeContinuingReconcile s
      else act_ret () s)"

definition LocalTypes :: "ServiceResourceDefinition \<Rightarrow> (string \<times> string) list" where
  "LocalTypes resource = (let spec = rs_Spec resource; g = srd_Group spec in
     [(g, srn_Kind (srd_InstanceNames spec)), (g, srn_Kind (srd_InstanceNames spec) @ ''List''),
      (g, srn_Kind (srd_ClientNames spec)), (g, srn_Kind (srd_ClientNames spec) @ ''List'')])"

definition SetupWithSubManager :: "ServiceResourceDefinition \<Rightarrow> duck_controller list" where
  "SetupWithSubManager resource = (let spec = rs_Spec resource; nm = om_Name (rs_Meta resource);
       gvk = (\<lambda>names. \<lparr>gvk_Group = srd_Group spec, gvk_Version = ''v1alpha1'', gvk_Kind = srn_Kind names\<rparr>) in
     [InstanceController (gvk (srd_InstanceNames spec)) nm, ClientController (gvk (srd_ClientNames spec)) nm])"

definition ServiceResourceDefinitionDuckSubReconciler ::
    "((ServiceResourceDefinition, 'kc, 'd, 't, 'w, unit) handler list \<Rightarrow> (ServiceResourceDefinition, 'kc, 'd, 't, 'w, unit) handler) \<Rightarrow>
     cond_lib \<Rightarrow> apis_Status \<Rightarrow>
     ((string \<times> string) list \<Rightarrow> duck_controller list \<Rightarrow> (ServiceResourceDefinition, 'kc, 'd, 't, 'w, unit) handler) \<Rightarrow>
     (ServiceResourceDefinition, 'kc, 'd, 't, 'w, unit) handler" where
  "ServiceResourceDefinitionDuckSubReconciler sq cl own submanager = sq
     [DefinitionsEstablished_Sync cl own,
      act_bind get_resource (\<lambda>resource. submanager (LocalTypes resource) (SetupWithSubManager resource)),
      mark_as ''ReconcilerRunning'' CTrue ''Running'' '''']"

text \<open>While a definition is being deleted the last of the three reports that the manager was shut down.\<close>

definition ReconcilerRunning_Finalize :: "(ServiceResourceDefinition, 'kc, 'd, 't, 'w, unit) handler" where
  "ReconcilerRunning_Finalize = mark_as ''ReconcilerRunning'' CTrue ''Shutdown'' ''''"

text \<open>How the four children are created or updated.\<close>

record ('v, 'w) definition_children =
  dc_Lifecycle :: "(ObjectMeta \<times> ServiceLifecycleSpec) option \<Rightarrow> 'w \<Rightarrow> 'w \<times> (ClusterServiceLifecycle observed option \<times> gerr option) go"
  dc_Instance :: "'v CustomResourceDefinition option \<Rightarrow> 'w \<Rightarrow> 'w \<times> ((string \<times> condition list) option \<times> gerr option) go"
  dc_Client :: "'v CustomResourceDefinition option \<Rightarrow> 'w \<Rightarrow> 'w \<times> ((string \<times> condition list) option \<times> gerr option) go"
  dc_Duck :: "(ObjectMeta \<times> DuckSpec) option \<Rightarrow> 'w \<Rightarrow> 'w \<times> ((string \<times> apis_Status) option \<times> gerr option) go"

definition ServiceResourceDefinitionReconciler ::
    "((ServiceResourceDefinition, 'kc, 'd, 't, 'w, unit) handler list \<Rightarrow> (ServiceResourceDefinition, 'kc, 'd, 't, 'w, unit) handler) \<Rightarrow>
     ('kc, 'd, 't, 'desc, 'sec, 'w) cluster \<Rightarrow> ('v, 'w) definitions \<Rightarrow> apis_Status \<Rightarrow> ('v, 'w) definition_children \<Rightarrow>
     ((string \<times> string) list \<Rightarrow> duck_controller list \<Rightarrow> (ServiceResourceDefinition, 'kc, 'd, 't, 'w, unit) handler) \<Rightarrow>
     (ServiceResourceDefinition, 'kc, 'd, 't, 'w, unit) handler" where
  "ServiceResourceDefinitionReconciler sq cx dx own children submanager = sq
     [child_reconciler (SRD_Lifecycle_DesiredChild (cx_ctx cx)) (dc_Lifecycle children) (SRD_Lifecycle_Reflect (cx_conds cx)),
      child_reconciler (SRD_Instance_DesiredChild dx) (dc_Instance children) (SRD_Definition_Reflect dx ''InstanceDefinitionReady''),
      child_reconciler (SRD_Client_DesiredChild dx) (dc_Client children) (SRD_Definition_Reflect dx ''ClientDefinitionReady''),
      child_reconciler SRD_Duck_DesiredChild (dc_Duck children) (SRD_Duck_Reflect dx (cx_conds cx)),
      ServiceResourceDefinitionDuckSubReconciler sq (cx_conds cx) own submanager]"

section \<open>Custom instances\<close>

text \<open>A child whose desired state depends on a list of other objects.\<close>

definition listing_child_reconciler :: "('r \<Rightarrow> 'w \<Rightarrow> 'c option go) \<Rightarrow> ('c option \<Rightarrow> 'w \<Rightarrow> 'w \<times> ('k option \<times> gerr option) go) \<Rightarrow>
    ('k option \<Rightarrow> gerr option \<Rightarrow> ('r, 'kc, 'd, 't, 'w, unit) handler) \<Rightarrow> ('r, 'kc, 'd, 't, 'w, unit) handler" where
  "listing_child_reconciler desired manage reflect = act_bind get_resource (\<lambda>resource.
     act_registry_try (desired resource) act_fail (\<lambda>c.
     act_bind (act_world (manage c)) (\<lambda>(k, err). reflect k err)))"

definition kind_label :: "('v, 'w) definitions \<Rightarrow> GroupVersionKind \<Rightarrow> string" where
  "kind_label dx gvk = gvk_Group gvk @ ''/'' @ dx_KebabCase dx (gvk_Kind gvk)"

definition InstanceDuck_DesiredChild :: "('v, 'w) definitions \<Rightarrow> GroupVersionKind \<Rightarrow> string \<Rightarrow> ServiceInstanceDuck \<Rightarrow> 'w \<Rightarrow>
    (ObjectMeta \<times> ServiceInstanceSpec) option go" where
  "InstanceDuck_DesiredChild dx gvk definitionName resource w =
     bind_go (dx_Lifecycles dx [definition_label \<mapsto> definitionName] w) (\<lambda>lifecycles.
     if length lifecycles \<noteq> 1 then Fail (Text ''failed to find ClusterServiceLifecycle'') else
     let lifecycleName = om_Name (lifecycles ! 0); m = rs_Meta resource; spec = rs_Spec resource in
     Ret (Some (blank_meta\<lparr>om_Namespace := om_Namespace m, om_GenerateName := om_Name m @ ''-'',
         om_Labels := (om_Labels m)(definition_label \<mapsto> definitionName, ''services.wa8s.reconciler.io/service-instance-duck'' \<mapsto> om_Name m,
           kind_label dx gvk \<mapsto> om_Name m)\<rparr>,
       \<lparr>si_Ref = \<lparr>slr_Kind = ''ClusterServiceLifecycle'', slr_Namespace = '''', slr_Name = lifecycleName\<rparr>,
        si_Type = sid_Type spec, si_Tier = sid_Tier spec, si_Requests = sid_Requests spec\<rparr>)))"

definition InstanceDuck_Reflect :: "('v, 'w) definitions \<Rightarrow> cond_lib \<Rightarrow> ServiceInstance observed option \<Rightarrow> gerr option \<Rightarrow>
    (ServiceInstanceDuck, 'kc, 'd, 't, 'w, unit) handler" where
  "InstanceDuck_Reflect dx cl ch err = (case err of
     Some e \<Rightarrow> child_rejected dx ''ServiceInstanceReady'' e
   | None \<Rightarrow> (case ch of
       None \<Rightarrow> mark_as ''ServiceInstanceReady'' CFalse ''Missing'' ''''
     | Some c \<Rightarrow> when_ready cl ''ServiceInstanceReady'' (''child ServiceInstance '' @ om_Name (rs_Meta (ob_Object c)) @ '' is not ready'') (ob_Status c)
         (act_then (set_resource (\<lambda>r. r\<lparr>rs_Status := \<lparr>sids_ServiceInstanceId = sis_ServiceInstanceId (rs_Status (ob_Object c))\<rparr>\<rparr>))
            (mark_as ''ServiceInstanceReady'' CTrue ''Ready'' ''''))))"

definition ServiceInstanceDuckReconciler ::
    "((ServiceInstanceDuck, 'kc, 'd, 't, 'w, unit) handler list \<Rightarrow> (ServiceInstanceDuck, 'kc, 'd, 't, 'w, unit) handler) \<Rightarrow>
     ('v, 'w) definitions \<Rightarrow> cond_lib \<Rightarrow> GroupVersionKind \<Rightarrow> string \<Rightarrow>
     ((ObjectMeta \<times> ServiceInstanceSpec) option \<Rightarrow> 'w \<Rightarrow> 'w \<times> (ServiceInstance observed option \<times> gerr option) go) \<Rightarrow>
     (ServiceInstanceDuck, 'kc, 'd, 't, 'w, unit) handler" where
  "ServiceInstanceDuckReconciler sq dx cl gvk definitionName manage =
     sq [listing_child_reconciler (InstanceDuck_DesiredChild dx gvk definitionName) manage (InstanceDuck_Reflect dx cl)]"

section \<open>Custom clients\<close>

definition instance_selector :: "string \<Rightarrow> string \<Rightarrow> string \<rightharpoonup> string" where
  "instance_selector definitionName instanceName =
     [definition_label \<mapsto> definitionName, ''services.wa8s.reconciler.io/service-instance-duck'' \<mapsto> instanceName]"

definition ClientDuck_DesiredChild :: "('v, 'w) definitions \<Rightarrow> GroupVersionKind \<Rightarrow> string \<Rightarrow> ServiceClientDuck \<Rightarrow> 'w \<Rightarrow>
    (ObjectMeta \<times> ServiceClientSpec) option go" where
  "ClientDuck_DesiredChild dx gvk definitionName resource w =
     bind_go (dx_Instances dx (om_Namespace (rs_Meta resource))
       (instance_selector definitionName (sir_Name (sc_Ref (rs_Spec resource)))) w) (\<lambda>instances.
     if length instances \<noteq> 1 then Fail (Text ''failed to find ServiceInstance'') else
     let m = rs_Meta resource in
     Ret (Some (blank_meta\<lparr>om_Namespace := om_Namespace m, om_GenerateName := om_Name m @ ''-'',
         om_Labels := (om_Labels m)(''services.wa8s.reconciler.io/service-client-duck'' \<mapsto> om_Name m, kind_label dx gvk \<mapsto> om_Name m)\<rparr>,
       (rs_Spec resource)\<lparr>sc_Ref := \<lparr>sir_Name = om_Name (instances ! 0)\<rparr>\<rparr>)))"

definition ClientDuck_put_trace :: "ComponentSpan list \<Rightarrow> ServiceClientDuck \<Rightarrow> ServiceClientDuck" where
  "ClientDuck_put_trace trace r = r\<lparr>rs_Status := (rs_Status r)\<lparr>scds_Component := (scds_Component (rs_Status r))\<lparr>gst_Trace := trace\<rparr>\<rparr>\<rparr>"

definition ClientDuck_Reflect :: "('kc, 'd, 't, 'desc, 'sec, 'w) cluster \<Rightarrow> ('v, 'w) definitions \<Rightarrow> ServiceClient observed option \<Rightarrow>
    gerr option \<Rightarrow> (ServiceClientDuck, 'kc, 'd, 't, 'w, unit) handler" where
  "ClientDuck_Reflect cx dx ch err = (case err of
     Some e \<Rightarrow> child_rejected dx ''ServiceClientReady'' e
   | None \<Rightarrow> (case ch of
       None \<Rightarrow> mark_as ''ServiceClientReady'' CFalse ''Missing'' ''''
     | Some c \<Rightarrow> let k = ob_Object c; st = rs_Status k in
         when_ready (cx_conds cx) ''ServiceClientReady'' (''child ServiceClient '' @ om_Name (rs_Meta k) @ '' is not ready'') (ob_Status c)
         (act_then (set_resource (\<lambda>r. r\<lparr>rs_Status := \<lparr>scds_Component = scs_Component st, scds_ServiceBindingId = scs_ServiceBindingId st,
             scds_Binding = scs_Binding st, scds_RenewsAfter = scs_RenewsAfter st, scds_ExpiresAfter = scs_ExpiresAfter st\<rparr>\<rparr>))
         (act_bind (act_lift (SynthesizeSpan (digest_part (cx_lib cx)) (cx_GVKFor cx ''ServiceClient'' ('''', ''''))
             (rs_Meta k) (ComponentLike (scs_Component st)))) (\<lambda>span.
          act_then (set_resource (ClientDuck_put_trace [span]))
          (act_bind get_resource (\<lambda>parent. let (hasCycle, sanitizedTrace) = DetectTraceCycle [span] (rs_Meta parent) in
             if hasCycle
             then act_then (mark_as ''ServiceClientReady'' CFalse ''CycleDetected'' cycle_message)
               (act_then (set_resource (ClientDuck_put_trace sanitizedTrace)) (act_fail ErrDurable))
             else mark_as ''ServiceClientReady'' CTrue ''Ready'' '''')))))))"

definition ServiceClientDuck_ComponentLike :: "GroupVersionKind go \<Rightarrow> ServiceClientDuck component_like" where
  "ServiceClientDuck_ComponentLike gvk = \<lparr>ck_Meta = rs_Meta, ck_GVK = gvk,
     ck_GetGenericComponentSpec = (\<lambda>r. blank_component_spec), ck_GetGenericComponentStatus = (\<lambda>r. scds_Component (rs_Status r)),
     ck_put_status = (\<lambda>st r. r\<lparr>rs_Status := (rs_Status r)\<lparr>scds_Component := st\<rparr>\<rparr>)\<rparr>"

definition ServiceClientDuckReconciler ::
    "((ServiceClientDuck, 'kc, 'd, 't, 'w, unit) handler list \<Rightarrow> (ServiceClientDuck, 'kc, 'd, 't, 'w, unit) handler) \<Rightarrow>
     ('kc, 'd, 't, 'desc, 'sec, 'w) cluster \<Rightarrow> ('v, 'w) definitions \<Rightarrow> GroupVersionKind \<Rightarrow> GroupVersionKind go \<Rightarrow> string \<Rightarrow>
     ((ObjectMeta \<times> ServiceClientSpec) option \<Rightarrow> 'w \<Rightarrow> 'w \<times> (ServiceClient observed option \<times> gerr option) go) \<Rightarrow>
     ((ObjectMeta \<times> ComponentSpec) option \<Rightarrow> 'w \<Rightarrow> 'w \<times> (Component option \<times> gerr option) go) \<Rightarrow>
     (ServiceClientDuck, 'kc, 'd, 't, 'w, unit) handler" where
  "ServiceClientDuckReconciler sq cx dx gvk gvkFor definitionName manage component = sq
     [listing_child_reconciler (ClientDuck_DesiredChild dx gvk definitionName) manage (ClientDuck_Reflect cx dx),
      child_reconciler (ComponentChild_DesiredChild (ServiceClientDuck_ComponentLike gvkFor) (kind_label dx gvk))
        component (ComponentChild_Reflect cx rs_Meta ''ChildComponent'')]"

end
