(* ===== verification/Knative_Api.thy ===== *)
theory Knative_Api
  imports Containers_Api
begin

text \<open>
  The \<^verbatim>\<open>ServiceTrigger\<close> of the Knative integration
  (\<^verbatim>\<open>integrations/knative/apis/knative/v1alpha1\<close>): a generic container with the configuration and the
  route of a Knative service, which the webhook neither defaults nor validates.  Their types are
  parameters here.
\<close>

record ('conf, 'route) ServiceTriggerSpec =
  stt_Container :: GenericContainerSpec
  stt_ConfigurationSpec :: 'conf
  stt_RouteSpec :: 'route

record ('confst, 'routest) ServiceTriggerStatus =
  stts_Container :: GenericContainerStatus
  stts_Annotations :: "string \<rightharpoonup> string"
  stts_ConfigurationStatusFields :: 'confst
  stts_RouteStatusFields :: 'routest

type_synonym ('conf, 'route, 'st) ServiceTrigger = "(('conf, 'route) ServiceTriggerSpec, 'st) resource"

definition ServiceTriggerSpec_Default ::
    "ctx \<Rightarrow> ('conf, 'route) ServiceTriggerSpec \<Rightarrow> ('conf, 'route) ServiceTriggerSpec go" where
  "ServiceTriggerSpec_Default c r =
     bind_go (GenericContainerSpec_Default c (stt_Container r)) (\<lambda>g. Ret (r\<lparr>stt_Container := g\<rparr>))"

definition ServiceTriggerSpec_Validate ::
    "ctx \<Rightarrow> path \<Rightarrow> ('conf, 'route) ServiceTriggerSpec \<Rightarrow> field_error list go" where
  "ServiceTriggerSpec_Validate c p r = cat_errs [GenericContainerSpec_Validate c p (stt_Container r)]"

definition ServiceTrigger_Default :: "ctx \<Rightarrow> ('conf, 'route, 'st) ServiceTrigger \<Rightarrow> ('conf, 'route, 'st) ServiceTrigger go" where
  "ServiceTrigger_Default c r = (let c = StashResource c (rs_Meta r) in
     bind_go (ServiceTriggerSpec_Default c (rs_Spec r)) (\<lambda>s. Ret (r\<lparr>rs_Spec := s\<rparr>)))"

definition ServiceTrigger_Validate :: "ctx \<Rightarrow> path \<Rightarrow> ('conf, 'route, 'st) ServiceTrigger \<Rightarrow> field_error list go" where
  "ServiceTrigger_Validate c p r = cat_errs [
     Ret (ValidateCommonAnnotations p (rs_Meta r)),
     ServiceTriggerSpec_Validate c (child p ''spec'') (rs_Spec r)]"

definition ServiceTrigger_ValidateCreate :: "ctx \<Rightarrow> ('conf, 'route, 'st) ServiceTrigger \<Rightarrow> unit go" where
  "ServiceTrigger_ValidateCreate c obj = bind_go (ServiceTrigger_Default c obj) (\<lambda>obj.
     bind_go (ServiceTrigger_Validate (StashResource c (rs_Meta obj)) (new_path '''') obj) to_aggregate)"

definition ServiceTrigger_ValidateUpdate :: "ctx \<Rightarrow> ('conf, 'route, 'st) ServiceTrigger \<Rightarrow> ('conf, 'route, 'st) ServiceTrigger \<Rightarrow> unit go" where
  "ServiceTrigger_ValidateUpdate c oldObj newObj = bind_go (ServiceTrigger_Default c oldObj) (\<lambda>oldObj. bind_go (ServiceTrigger_Default c newObj) (\<lambda>newObj.
     bind_go (ServiceTrigger_Validate (StashResource c (rs_Meta newObj)) (new_path '''') newObj) to_aggregate))"

interpretation service_trigger_spec: validated ServiceTriggerSpec_Default ServiceTriggerSpec_Validate
  by (rule wrapped_validated [OF container_spec.validated_axioms ServiceTriggerSpec_Default_def _ _
        ServiceTriggerSpec_Validate_def]) auto

interpretation service_trigger: admitted_kind ServiceTrigger_Default rs_Meta ServiceTrigger_Validate
  ServiceTrigger_ValidateCreate
  by (rule admitted_kindI [OF service_trigger_spec.validated_axioms])
    (simp_all add: ServiceTrigger_Default_def ServiceTrigger_Validate_def ServiceTrigger_ValidateCreate_def admit_def)

end
