(* ===== verification/Trigger_Controllers.thy ===== *)
theory Trigger_Controllers
  imports Core_Rules Knative_Api
begin

text \<open>
  The controllers of the cron, HTTP and wRPC triggers (\<^verbatim>\<open>internal/controllers/*trigger_controller.go\<close>) and of
  the Knative service triggers (\<^verbatim>\<open>integrations/knative/internal/controllers\<close>).  The Kubernetes objects they
  manage are records of the fields the code reads or writes.  A trigger has a container image as a
  child and, once that has an image, the workload that runs it and the service in front of it.
\<close>

section \<open>Workloads\<close>

text \<open>A probe is the name of the port a TCP check connects to.\<close>

record container_port =
  po_Name :: string
  po_Protocol :: string
  po_ContainerPort :: int

record pod_container =
  pc_Name :: string
  pc_Image :: string
  pc_Command :: "string list"
  pc_Args :: "string list"
  pc_Ports :: "container_port list"
  pc_ReadinessProbe :: "string option"
  pc_LivenessProbe :: "string option"
  pc_StartupProbe :: "string option"

record CronJobSpec =
  cj_Schedule :: string
  cj_TimeZone :: "string option"
  cj_JobLabels :: "string \<rightharpoonup> string"
  cj_PodLabels :: "string \<rightharpoonup> string"
  cj_RestartPolicy :: string
  cj_Containers :: "pod_container list"

record DeploymentSpec =
  dp_Selector :: "string \<rightharpoonup> string"
  dp_PodLabels :: "string \<rightharpoonup> string"
  dp_Containers :: "pod_container list"

record DeploymentStatus =
  ds_ObservedGeneration :: int
  ds_ReadyReplicas :: int
  ds_UpdatedReplicas :: int

record service_port =
  sp_Protocol :: string
  sp_Port :: int
  sp_TargetPort :: string

record ServiceSpec =
  svc_Type :: string
  svc_Selector :: "string \<rightharpoonup> string"
  svc_Ports :: "service_port list"
  svc_ClusterIP :: string
  svc_ClusterIPs :: "string list"

text \<open>What the runtime answers for a managed child.\<close>

type_synonym ('spec, 'k, 'w) child_manager = "(ObjectMeta \<times> 'spec) option \<Rightarrow> 'w \<Rightarrow> 'w \<times> ('k option \<times> gerr option) go"

section \<open>The container image\<close>

definition CronTrigger_Container :: "CronTrigger container_like" where
  "CronTrigger_Container = \<lparr>kc_Meta = rs_Meta, kc_GetGenericContainerSpec = (\<lambda>r. ct_Container (rs_Spec r)),
     kc_put_status = (\<lambda>st r. r\<lparr>rs_Status := \<lparr>gct_Component = st\<rparr>\<rparr>)\<rparr>"

definition HttpTrigger_Container :: "HttpTrigger container_like" where
  "HttpTrigger_Container = \<lparr>kc_Meta = rs_Meta, kc_GetGenericContainerSpec = (\<lambda>r. ht_Container (rs_Spec r)),
     kc_put_status = (\<lambda>st r. r\<lparr>rs_Status := (rs_Status r)\<lparr>hts_Container := \<lparr>gct_Component = st\<rparr>\<rparr>\<rparr>)\<rparr>"

definition WrpcTrigger_Container :: "WrpcTrigger container_like" where
  "WrpcTrigger_Container = \<lparr>kc_Meta = rs_Meta, kc_GetGenericContainerSpec = (\<lambda>r. wt_Container (rs_Spec r)),
     kc_put_status = (\<lambda>st r. r\<lparr>rs_Status := (rs_Status r)\<lparr>wts_Container := \<lparr>gct_Component = st\<rparr>\<rparr>\<rparr>)\<rparr>"

type_synonym ('conf, 'route, 'confst, 'routest) KnativeTrigger =
  "('conf, 'route, ('confst, 'routest) ServiceTriggerStatus) ServiceTrigger"

definition ServiceTrigger_Container :: "('conf, 'route, 'confst, 'routest) KnativeTrigger container_like" where
  "ServiceTrigger_Container = \<lparr>kc_Meta = rs_Meta, kc_GetGenericContainerSpec = (\<lambda>r. stt_Container (rs_Spec r)),
     kc_put_status = (\<lambda>st r. r\<lparr>rs_Status := (rs_Status r)\<lparr>stts_Container := \<lparr>gct_Component = st\<rparr>\<rparr>\<rparr>)\<rparr>"

definition ComponentContainerImageChildReconciler :: "('kc, 'd, 't, 'desc, 'sec, 'w) cluster \<Rightarrow> 'r container_like \<Rightarrow> string \<Rightarrow>
    string \<Rightarrow> ImageReference \<Rightarrow> (ComponentContainerImageSpec, image_child, 'w) child_manager \<Rightarrow> ('r, 'kc, 'd, 't, 'w, unit) handler" where
  "ComponentContainerImageChildReconciler cx k conditionType childLabelKey imageRef manage =
     child_reconciler (ContainerImageChild_DesiredChild k childLabelKey imageRef) manage (ContainerImageChild_Reflect cx k conditionType)"

definition runtime_image :: "string \<Rightarrow> ImageReference" where
  "runtime_image name = \<lparr>ir_Kind = ''ClusterImage'', ir_Namespace = '''', ir_Name = name\<rparr>"

section \<open>Conditions\<close>

definition CronTriggerConditions :: "string list" where
  "CronTriggerConditions = [''ComponentContainerImageReady'', ''CronJobReady'']"

definition HttpTriggerConditions :: "string list" where
  "HttpTriggerConditions = [''ComponentContainerImageReady'', ''DeploymentReady'', ''ServiceReady'']"

definition WrpcTriggerConditions :: "string list" where
  "WrpcTriggerConditions = [''ComponentContainerImageReady'', ''DeploymentReady'', ''ServiceReady'']"

definition ServiceTriggerConditions :: "string list" where
  "ServiceTriggerConditions = [''ComponentContainerImageReady'', ''ServiceReady'']"

section \<open>Cron triggers\<close>

definition cron_container :: "CronTrigger \<Rightarrow> pod_container" where
  "cron_container resource = \<lparr>pc_Name = ''task'', pc_Image = gst_Image (gct_Component (rs_Status resource)), pc_Command = [''wasmtime''],
     pc_Args = [''run''] @ HostCapabilities_WasmtimeArgs (gc_HostCapabilities (ct_Container (rs_Spec resource))) @
       [''-Opooling-allocator=n'', ''/component.wasm''],
     pc_Ports = [], pc_ReadinessProbe = None, pc_LivenessProbe = None, pc_StartupProbe = None\<rparr>"

definition CronJob_DesiredChild :: "string \<Rightarrow> CronTrigger \<Rightarrow> (ObjectMeta \<times> CronJobSpec) option go" where
  "CronJob_DesiredChild childLabelKey resource = (let m = rs_Meta resource;
       labels = (om_Labels m)(childLabelKey \<mapsto> om_Name m) in
     if gst_Image (gct_Component (rs_Status resource)) = '''' then Ret None
     else Ret (Some (child_meta m childLabelKey '''' (om_Name m @ ''-''),
       \<lparr>cj_Schedule = ct_Schedule (rs_Spec resource), cj_TimeZone = ct_TimeZone (rs_Spec resource),
        cj_JobLabels = labels, cj_PodLabels = labels, cj_RestartPolicy = ct_RestartPolicy (rs_Spec resource),
        cj_Containers = [cron_container resource]\<rparr>)))"

definition CronJob_Reflect :: "'k option \<Rightarrow> gerr option \<Rightarrow> ('r, 'kc, 'd, 't, 'w, unit) handler" where
  "CronJob_Reflect ch err = (case err of
     Some e \<Rightarrow> if IsInvalid e then mark_as ''CronJobReady'' CFalse ''Invalid'' (ReasonForError e)
               else mark_as ''CronJobReady'' CUnknown ''Unknown'' ''''
   | None \<Rightarrow> (case ch of
       None \<Rightarrow> mark_as ''CronJobReady'' CFalse ''Missing'' ''''
     | Some _ \<Rightarrow> mark_as ''CronJobReady'' CTrue ''Created'' ''''))"

text \<open>This reflection has no result of its own: what the runtime returns for the error of the child afterwards is
  \<open>surface\<close>.\<close>

definition CronJobChildReconciler :: "string \<Rightarrow> (CronJobSpec, 'k, 'w) child_manager \<Rightarrow> (gerr \<Rightarrow> gerr option) \<Rightarrow>
    (CronTrigger, 'kc, 'd, 't, 'w, unit) handler" where
  "CronJobChildReconciler childLabelKey manage surface =
     child_reconciler (CronJob_DesiredChild childLabelKey) manage (\<lambda>ch err. act_then (CronJob_Reflect ch err)
       (case Option.bind err surface of None \<Rightarrow> act_ret () | Some e \<Rightarrow> act_fail e))"

definition CronTriggerReconciler ::
    "((CronTrigger, 'kc, 'd, 't, 'w, unit) handler list \<Rightarrow> (CronTrigger, 'kc, 'd, 't, 'w, unit) handler) \<Rightarrow>
     ('kc, 'd, 't, 'desc, 'sec, 'w) cluster \<Rightarrow> (ComponentContainerImageSpec, image_child, 'w) child_manager \<Rightarrow>
     (CronJobSpec, 'k, 'w) child_manager \<Rightarrow> (gerr \<Rightarrow> gerr option) \<Rightarrow> (CronTrigger, 'kc, 'd, 't, 'w, unit) handler" where
  "CronTriggerReconciler sq cx img job surface = (let childLabelKey = ''containers.wa8s.reconciler.io/cron-trigger'' in
     sq [ComponentContainerImageChildReconciler cx CronTrigger_Container ''ComponentContainerImageReady'' childLabelKey
           (runtime_image ''wasmtime'') img,
         CronJobChildReconciler childLabelKey job surface])"

section \<open>HTTP triggers\<close>

text \<open>Both probes and ports of a serving container use its one named port.\<close>

definition serving_container :: "string \<Rightarrow> string \<Rightarrow> string list \<Rightarrow> string list \<Rightarrow> int \<Rightarrow> pod_container" where
  "serving_container name img command args port = \<lparr>pc_Name = name, pc_Image = img, pc_Command = command, pc_Args = args,
     pc_Ports = [\<lparr>po_Name = name, po_Protocol = ''TCP'', po_ContainerPort = port\<rparr>],
     pc_ReadinessProbe = Some name, pc_LivenessProbe = Some name, pc_StartupProbe = Some name\<rparr>"

definition trigger_deployment :: "string \<Rightarrow> ObjectMeta \<Rightarrow> pod_container \<Rightarrow> ObjectMeta \<times> DeploymentSpec" where
  "trigger_deployment childLabelKey m container = (child_meta m childLabelKey '''' (om_Name m @ ''-''),
     \<lparr>dp_Selector = [childLabelKey \<mapsto> om_Name m], dp_PodLabels = [childLabelKey \<mapsto> om_Name m], dp_Containers = [container]\<rparr>)"

definition HttpDeployment_DesiredChild :: "string \<Rightarrow> HttpTrigger \<Rightarrow> (ObjectMeta \<times> DeploymentSpec) option go" where
  "HttpDeployment_DesiredChild childLabelKey resource = (let img = gst_Image (gct_Component (hts_Container (rs_Status resource))) in
     if img = '''' then Ret None
     else Ret (Some (trigger_deployment childLabelKey (rs_Meta resource)
       (serving_container ''http'' img [''wasmtime'']
         ([''serve''] @ HostCapabilities_WasmtimeArgs (gc_HostCapabilities (ht_Container (rs_Spec resource))) @
          [''-Scli'', ''-Opooling-allocator=n'', ''--addr=0.0.0.0:8080'', ''/component.wasm'']) 8080))))"

type_synonym deployment = "(DeploymentSpec, DeploymentStatus) resource"

definition Deployment_Reflect :: "string \<Rightarrow> deployment option \<Rightarrow> gerr option \<Rightarrow> ('r, 'kc, 'd, 't, 'w, unit) handler" where
  "Deployment_Reflect conditionType ch err = (case err of
     Some e \<Rightarrow> child_failed conditionType e
   | None \<Rightarrow> (case ch of
       None \<Rightarrow> stop_with conditionType CFalse ''Missing'' '''' ErrDurable
     | Some c \<Rightarrow>
         if om_Generation (rs_Meta c) \<noteq> ds_ObservedGeneration (rs_Status c)
         then stop_with conditionType CUnknown ''Blocked'' (''waiting for Deployment '' @ om_Name (rs_Meta c) @ '' to reconcile'') ErrGenerationMismatch
         else if ds_ReadyReplicas (rs_Status c) > 0 \<and> ds_UpdatedReplicas (rs_Status c) > 0
         then mark_as conditionType CTrue ''Ready'' ''''
         else mark_as conditionType CUnknown ''NotReady'' (''Deployment '' @ om_Name (rs_Meta c) @ '' is not ready'')))"

definition trigger_service :: "string \<Rightarrow> ObjectMeta \<Rightarrow> int \<Rightarrow> string \<Rightarrow> ObjectMeta \<times> ServiceSpec" where
  "trigger_service childLabelKey m port target = (child_meta m childLabelKey (om_Name m @ ''-trigger'') '''',
     \<lparr>svc_Type = ''ClusterIP'', svc_Selector = [childLabelKey \<mapsto> om_Name m],
      svc_Ports = [\<lparr>sp_Protocol = ''TCP'', sp_Port = port, sp_TargetPort = target\<rparr>], svc_ClusterIP = '''', svc_ClusterIPs = []\<rparr>)"

definition HttpService_DesiredChild :: "string \<Rightarrow> HttpTrigger \<Rightarrow> (ObjectMeta \<times> ServiceSpec) option go" where
  "HttpService_DesiredChild childLabelKey resource =
     (if gst_Image (gct_Component (hts_Container (rs_Status resource))) = '''' then Ret None
      else Ret (Some (trigger_service childLabelKey (rs_Meta resource) 80 ''http'')))"

text \<open>The addresses of a service are kept: the desired one takes them over before it is merged.\<close>

definition HarmonizeService :: "ObjectMeta \<times> ServiceSpec \<Rightarrow> ObjectMeta \<times> ServiceSpec \<Rightarrow> ObjectMeta \<times> ServiceSpec" where
  "HarmonizeService current desired = (fst desired, (snd desired)
     \<lparr>svc_ClusterIP := svc_ClusterIP (snd current), svc_ClusterIPs := svc_ClusterIPs (snd current)\<rparr>)"

definition Service_Reflect :: "string \<Rightarrow> (ObjectMeta \<Rightarrow> 'r \<Rightarrow> 'r) \<Rightarrow> (ObjectMeta \<times> ServiceSpec) option \<Rightarrow> gerr option \<Rightarrow>
    ('r, 'kc, 'd, 't, 'w, unit) handler" where
  "Service_Reflect conditionType put_url ch err = (case err of
     Some e \<Rightarrow>
       (if IsInvalid e then stop_with conditionType CFalse ''Invalid'' (ReasonForError e) (errors_Join [e, ErrTransient])
        else if IsAlreadyExists e then stop_with conditionType CFalse ''AlreadyExists'' (ReasonForError e) ErrDurable
        else stop_with conditionType CUnknown ''Unknown'' (ReasonForError e) (errors_Join [e, ErrTransient]))
   | None \<Rightarrow> (case ch of
       None \<Rightarrow> stop_with conditionType CFalse ''Missing'' '''' ErrDurable
     | Some c \<Rightarrow> act_then (set_resource (put_url (fst c))) (mark_as conditionType CTrue ''Created'' '''')))"

definition http_url :: "ObjectMeta \<Rightarrow> HttpTrigger \<Rightarrow> HttpTrigger" where
  "http_url m r = r\<lparr>rs_Status := (rs_Status r)\<lparr>hts_URL := ''http://'' @ om_Name m @ ''.'' @ om_Namespace m @ ''.svc.cluster.local''\<rparr>\<rparr>"

definition HttpTriggerReconciler ::
    "((HttpTrigger, 'kc, 'd, 't, 'w, unit) handler list \<Rightarrow> (HttpTrigger, 'kc, 'd, 't, 'w, unit) handler) \<Rightarrow>
     ('kc, 'd, 't, 'desc, 'sec, 'w) cluster \<Rightarrow> (ComponentContainerImageSpec, image_child, 'w) child_manager \<Rightarrow>
     (DeploymentSpec, deployment, 'w) child_manager \<Rightarrow> (ServiceSpec, ObjectMeta \<times> ServiceSpec, 'w) child_manager \<Rightarrow>
     (HttpTrigger, 'kc, 'd, 't, 'w, unit) handler" where
  "HttpTriggerReconciler sq cx img deploy serve = (let childLabelKey = ''containers.wa8s.reconciler.io/http-trigger'' in
     sq [ComponentContainerImageChildReconciler cx HttpTrigger_Container ''ComponentContainerImageReady'' childLabelKey
           (runtime_image ''wasmtime'') img,
         child_reconciler (HttpDeployment_DesiredChild childLabelKey) deploy (Deployment_Reflect ''DeploymentReady''),
         child_reconciler (HttpService_DesiredChild childLabelKey) serve (Service_Reflect ''ServiceReady'' http_url)])"

section \<open>wRPC triggers\<close>

text \<open>As for HTTP, with the other runtime, which is told the address it imports from and exports to.\<close>

definition wrpcPort :: int where
  "wrpcPort = 7761"

definition WrpcDeployment_DesiredChild :: "string \<Rightarrow> int \<Rightarrow> WrpcTrigger \<Rightarrow> (ObjectMeta \<times> DeploymentSpec) option go" where
  "WrpcDeployment_DesiredChild childLabelKey port resource = (let img = gst_Image (gct_Component (wts_Container (rs_Status resource))) in
     if img = '''' then Ret None
     else Ret (Some (trigger_deployment childLabelKey (rs_Meta resource)
       (serving_container ''wrpc'' img [''wrpc-wasmtime'']
         ([''tcp'', ''serve''] @ HostCapabilities_WrpcWasmtimeArgs (gc_HostCapabilities (wt_Container (rs_Spec resource))) @
          [''--import=0.0.0.0:'' @ fmt_d port, ''--export=0.0.0.0:'' @ fmt_d port, ''/component.wasm'']) port))))"

definition WrpcService_DesiredChild :: "string \<Rightarrow> int \<Rightarrow> WrpcTrigger \<Rightarrow> (ObjectMeta \<times> ServiceSpec) option go" where
  "WrpcService_DesiredChild childLabelKey port resource =
     (if gst_Image (gct_Component (wts_Container (rs_Status resource))) = '''' then Ret None
      else Ret (Some (trigger_service childLabelKey (rs_Meta resource) port ''wrpc'')))"

definition wrpc_url :: "int \<Rightarrow> ObjectMeta \<Rightarrow> WrpcTrigger \<Rightarrow> WrpcTrigger" where
  "wrpc_url port m r = r\<lparr>rs_Status := (rs_Status r)
     \<lparr>wts_URL := om_Name m @ ''.'' @ om_Namespace m @ ''.svc.cluster.local:'' @ fmt_d port\<rparr>\<rparr>"

definition WrpcDeployment_Reflect :: "deployment option \<Rightarrow> gerr option \<Rightarrow> (WrpcTrigger, 'kc, 'd, 't, 'w, unit) handler" where
  "WrpcDeployment_Reflect = Deployment_Reflect ''DeploymentReady''"

definition WrpcService_Reflect :: "int \<Rightarrow> (ObjectMeta \<times> ServiceSpec) option \<Rightarrow> gerr option \<Rightarrow> (WrpcTrigger, 'kc, 'd, 't, 'w, unit) handler" where
  "WrpcService_Reflect port = Service_Reflect ''ServiceReady'' (wrpc_url port)"

definition WrpcTriggerReconciler ::
    "((WrpcTrigger, 'kc, 'd, 't, 'w, unit) handler list \<Rightarrow> (WrpcTrigger, 'kc, 'd, 't, 'w, unit) handler) \<Rightarrow>
     ('kc, 'd, 't, 'desc, 'sec, 'w) cluster \<Rightarrow> (ComponentContainerImageSpec, image_child, 'w) child_manager \<Rightarrow>
     (DeploymentSpec, deployment, 'w) child_manager \<Rightarrow> (ServiceSpec, ObjectMeta \<times> ServiceSpec, 'w) child_manager \<Rightarrow>
     (WrpcTrigger, 'kc, 'd, 't, 'w, unit) handler" where
  "WrpcTriggerReconciler sq cx img deploy serve = (let childLabelKey = ''containers.wa8s.reconciler.io/wrpc-trigger'' in
     sq [ComponentContainerImageChildReconciler cx WrpcTrigger_Container ''ComponentContainerImageReady'' childLabelKey
           (runtime_image ''wrpc'') img,
         child_reconciler (WrpcDeployment_DesiredChild childLabelKey wrpcPort) deploy WrpcDeployment_Reflect,
         child_reconciler (WrpcService_DesiredChild childLabelKey wrpcPort) serve (WrpcService_Reflect wrpcPort)])"

end
