(* ===== verification/Knative_Controllers.thy ===== *)
theory Knative_Controllers
  imports Trigger_Controllers "HOL-Library.Sublist"
begin

text \<open>
  The controller of the Knative service triggers
  (\<^verbatim>\<open>integrations/knative/internal/controllers/servicetrigger_controller.go\<close>), and the regular expression
  that chooses the annotations it hands down.
\<close>

section \<open>Regular expressions\<close>

text \<open>The expressions the source uses, matched by derivatives; \<^verbatim>\<open>MatchString\<close> looks for a match anywhere in the text.\<close>

datatype regexp = Zero | One | Chars "char \<Rightarrow> bool" | Seq regexp regexp | Alt regexp regexp | Star regexp

primrec nullable :: "regexp \<Rightarrow> bool" where
  "nullable Zero = False"
| "nullable One = True"
| "nullable (Chars p) = False"
| "nullable (Seq r s) = (nullable r \<and> nullable s)"
| "nullable (Alt r s) = (nullable r \<or> nullable s)"
| "nullable (Star r) = True"

primrec deriv :: "char \<Rightarrow> regexp \<Rightarrow> regexp" where
  "deriv ch Zero = Zero"
| "deriv ch One = Zero"
| "deriv ch (Chars p) = (if p ch then One else Zero)"
| "deriv ch (Seq r s) = (if nullable r then Alt (Seq (deriv ch r) s) (deriv ch s) else Seq (deriv ch r) s)"
| "deriv ch (Alt r s) = Alt (deriv ch r) (deriv ch s)"
| "deriv ch (Star r) = Seq (deriv ch r) (Star r)"

definition accepts :: "regexp \<Rightarrow> string \<Rightarrow> bool" where
  "accepts r s = nullable (fold deriv s r)"

definition MatchString :: "regexp \<Rightarrow> string \<Rightarrow> bool" where
  "MatchString r s = list_ex (accepts r) (sublists s)"

definition opt :: "regexp \<Rightarrow> regexp" where
  "opt r = Alt One r"

primrec literal :: "string \<Rightarrow> regexp" where
  "literal '''' = One"
| "literal (ch # s) = Seq (Chars (\<lambda>x. x = ch)) (literal s)"

text \<open>\<^verbatim>\<open>([^/]*\.)?knative\.dev(/.*)?\<close>; a dot does not match a line break.\<close>

definition knative_pattern :: regexp where
  "knative_pattern = Seq (opt (Seq (Star (Chars (\<lambda>x. x \<noteq> CHR ''/''))) (literal ''.'')))
     (Seq (literal ''knative.dev'') (opt (Seq (literal ''/'') (Star (Chars (\<lambda>x. x \<noteq> CHR 0x0A))))))"

definition filterMap :: "(string \<rightharpoonup> string) \<Rightarrow> regexp list \<Rightarrow> (string \<rightharpoonup> string)" where
  "filterMap data patterns k = (if list_ex (\<lambda>p. MatchString p k) patterns then data k else None)"

section \<open>The service\<close>

text \<open>
  The spec of a Knative service embeds a pod spec whose container without a name the code completes
  through the dies: \<open>edit\<close> applies a change to that container, adding it where there is none.
\<close>

record ('conf, 'route) knative_spec =
  kn_Configuration :: 'conf
  kn_Route :: 'route

record ('confst, 'routest) knative_status =
  kns_Status :: apis_Status
  kns_Annotations :: "string \<rightharpoonup> string"
  kns_ConfigurationStatusFields :: 'confst
  kns_RouteStatusFields :: 'routest

definition user_container :: "string \<Rightarrow> HostCapabilities \<Rightarrow> pod_container \<Rightarrow> pod_container" where
  "user_container img caps d = d\<lparr>pc_Name := ''user-container'', pc_Image := img, pc_Command := [''wasmtime''],
     pc_Args := [''serve''] @ HostCapabilities_WasmtimeArgs caps @
       [''-Scli'', ''-Opooling-allocator=n'', ''--addr=0.0.0.0:'' @ fmt_d 8080, ''/component.wasm''],
     pc_Ports := [\<lparr>po_Name = '''', po_Protocol = '''', po_ContainerPort = 8080\<rparr>]\<rparr>"

definition KnativeService_DesiredChild :: "((pod_container \<Rightarrow> pod_container) \<Rightarrow> 'conf \<Rightarrow> 'conf) \<Rightarrow> string \<Rightarrow>
    ('conf, 'route, 'confst, 'routest) KnativeTrigger \<Rightarrow> (ObjectMeta \<times> ('conf, 'route) knative_spec) option go" where
  "KnativeService_DesiredChild edit childLabelKey resource = (let m = rs_Meta resource;
       img = gst_Image (gct_Component (stts_Container (rs_Status resource))) in
     if img = '''' then Ret None
     else Ret (Some ((child_meta m childLabelKey (om_Name m) '''')
         \<lparr>om_Annotations := filterMap (om_Annotations m) [knative_pattern]\<rparr>,
       \<lparr>kn_Configuration = edit (user_container img (gc_HostCapabilities (stt_Container (rs_Spec resource))))
          (stt_ConfigurationSpec (rs_Spec resource)),
        kn_Route = stt_RouteSpec (rs_Spec resource)\<rparr>)))"

text \<open>The two annotations Knative writes itself are carried over; a missing one becomes blank.\<close>

definition HarmonizeKnative :: "ObjectMeta \<times> 'spec \<Rightarrow> ObjectMeta \<times> 'spec \<Rightarrow> ObjectMeta \<times> 'spec" where
  "HarmonizeKnative current desired = (let old = \<lambda>k. case om_Annotations (fst current) k of None \<Rightarrow> '''' | Some v \<Rightarrow> v in
     ((fst desired)\<lparr>om_Annotations := (om_Annotations (fst desired))
        (''serving.knative.dev/creator'' \<mapsto> old ''serving.knative.dev/creator'',
         ''serving.knative.dev/lastModifier'' \<mapsto> old ''serving.knative.dev/lastModifier'')\<rparr>, snd desired))"

definition MergeKnative :: "ObjectMeta \<times> 'spec \<Rightarrow> ObjectMeta \<times> 'spec \<Rightarrow> ObjectMeta \<times> 'spec" where
  "MergeKnative current desired = ((fst current)
     \<lparr>om_Annotations := om_Annotations (fst desired), om_Labels := om_Labels (fst desired)\<rparr>, snd desired)"

definition put_knative_status :: "('confst, 'routest) knative_status \<Rightarrow>
    ('conf, 'route, 'confst, 'routest) KnativeTrigger \<Rightarrow> ('conf, 'route, 'confst, 'routest) KnativeTrigger" where
  "put_knative_status st r = r\<lparr>rs_Status := (rs_Status r)\<lparr>stts_Annotations := kns_Annotations st,
     stts_ConfigurationStatusFields := kns_ConfigurationStatusFields st, stts_RouteStatusFields := kns_RouteStatusFields st\<rparr>\<rparr>"

definition default_reason :: "string \<Rightarrow> condition \<Rightarrow> string" where
  "default_reason fallback ready = (if cn_Reason ready = '''' then fallback else cn_Reason ready)"

text \<open>The condition of the child is passed on, with a reason where it has none.\<close>

definition pass_on :: "string \<Rightarrow> condition \<Rightarrow> ('r, 'kc, 'd, 't, 'w, unit) handler" where
  "pass_on conditionType ready =
     (if cn_Status ready = ''True'' then mark_as conditionType CTrue (default_reason ''Ready'' ready) (cn_Message ready)
      else if cn_Status ready = ''False'' then mark_as conditionType CFalse (default_reason ''NotReady'' ready) (cn_Message ready)
      else mark_as conditionType CUnknown (default_reason ''Unknown'' ready) (cn_Message ready))"

type_synonym ('spec, 'confst, 'routest) knative_service = "('spec, ('confst, 'routest) knative_status) resource"

definition KnativeService_Reflect :: "('kc, 'd, 't, 'desc, 'sec, 'w) cluster \<Rightarrow> ('spec, 'confst, 'routest) knative_service option \<Rightarrow>
    gerr option \<Rightarrow> (('conf, 'route, 'confst, 'routest) KnativeTrigger, 'kc, 'd, 't, 'w, unit) handler" where
  "KnativeService_Reflect cx ch err = act_bind get_resource (\<lambda>parent. case err of
     Some e \<Rightarrow>
       (if IsInvalid e then stop_with ''ServiceReady'' CFalse ''Invalid'' (cx_errText cx e) (errors_Join [e, ErrDurable])
        else if IsAlreadyExists e then stop_with ''ServiceReady'' CFalse ''AlreadyExists''
               (''another Service already exists with name '' @ om_Name (rs_Meta parent)) (errors_Join [e, ErrDurable])
        else stop_with ''ServiceReady'' CUnknown ''Unknown'' '''' (errors_Join [e, ErrTransient]))
   | None \<Rightarrow> (case ch of
       None \<Rightarrow> stop_with ''ServiceReady'' CFalse ''Missing'' '''' ErrDurable
     | Some c \<Rightarrow> let st = kns_Status (rs_Status c) in
         if om_Generation (rs_Meta c) \<noteq> as_ObservedGeneration st
         then stop_with ''ServiceReady'' CUnknown ''Blocked'' (''waiting for Deployment '' @ om_Name (rs_Meta c) @ '' to reconcile'') ErrGenerationMismatch
         else act_then (pass_on ''ServiceReady'' (case cl_Get (cx_conds cx) st ''Ready'' of
                None \<Rightarrow> \<lparr>cn_Type = '''', cn_Status = '''', cn_Reason = ''Unknown'', cn_Message = ''''\<rparr> | Some r \<Rightarrow> r))
           (set_resource (put_knative_status (rs_Status c)))))"

definition ServiceTriggerReconciler ::
    "((('conf, 'route, 'confst, 'routest) KnativeTrigger, 'kc, 'd, 't, 'w, unit) handler list \<Rightarrow>
       (('conf, 'route, 'confst, 'routest) KnativeTrigger, 'kc, 'd, 't, 'w, unit) handler) \<Rightarrow>
     ('kc, 'd, 't, 'desc, 'sec, 'w) cluster \<Rightarrow> ((pod_container \<Rightarrow> pod_container) \<Rightarrow> 'conf \<Rightarrow> 'conf) \<Rightarrow>
     (ComponentContainerImageSpec, image_child, 'w) child_manager \<Rightarrow>
     (('conf, 'route) knative_spec, (('conf, 'route) knative_spec, 'confst, 'routest) knative_service, 'w) child_manager \<Rightarrow>
     (('conf, 'route, 'confst, 'routest) KnativeTrigger, 'kc, 'd, 't, 'w, unit) handler" where
  "ServiceTriggerReconciler sq cx edit img serve = (let childLabelKey = ''knative.wa8s.reconciler.io/service-trigger'' in
     sq [ComponentContainerImageChildReconciler cx ServiceTrigger_Container ''ComponentContainerImageReady'' childLabelKey
           (runtime_image ''wasmtime'') img,
         child_reconciler (KnativeService_DesiredChild edit childLabelKey) serve (KnativeService_Reflect cx)])"

end
