(* ===== verification/Host_Args.thy ===== *)
theory Host_Args
  imports Containers_Api
begin

text \<open>
  What the wasmtime arguments grant.  The runtime reads capabilities off the argument list, so the list must not say
  more than the spec: the properties read the arguments back and compare.  Wasmtime itself is not part of the repository: how
  it reads an argument is a parameter, and what its command line documents is the hypothesis \<open>documented\<close>.
\<close>

section \<open>Reading arguments back\<close>

text \<open>The parser of the runtime: the options in the text of one \<^verbatim>\<open>-S\<close>, and the name and the value in a text \<^verbatim>\<open>NAME[=VALUE]\<close>.\<close>

record cli =
  cli_Options :: "string \<Rightarrow> string list"
  cli_Pair :: "string \<Rightarrow> string \<times> string option"

fun commas :: "string \<Rightarrow> string list" where
  "commas [] = [[]]"
| "commas (ch # s) = (case commas s of [] \<Rightarrow> [] | p # ps \<Rightarrow> if ch = CHR '','' then [] # p # ps else (ch # p) # ps)"

text \<open>\<^verbatim>\<open>-S\<close> takes options separated by commas, \<^verbatim>\<open>-S KEY[=VAL[,..]]\<close>; a name ends at the first equals sign.\<close>

definition documented :: "cli \<Rightarrow> bool" where
  "documented w \<longleftrightarrow> (\<forall>s. cli_Options w s = commas s) \<and> (\<forall>n v. CHR ''='' \<notin> set n \<longrightarrow>
     cli_Pair w n = (n, None) \<and> cli_Pair w (n @ CHR ''='' # v) = (n, Some v))"

definition wasi_options :: "cli \<Rightarrow> string list \<Rightarrow> string list" where
  "wasi_options w args = concat (map (\<lambda>a. if prefix ''-S'' a then cli_Options w (drop 2 a) else []) args)"

definition option_names :: "cli \<Rightarrow> string list \<Rightarrow> string set" where
  "option_names w args = (\<lambda>opt. fst (cli_Pair w opt)) ` set (wasi_options w args)"

definition env_args :: "cli \<Rightarrow> string list \<Rightarrow> (string \<times> string option) list" where
  "env_args w args = List.map_filter (\<lambda>a. if prefix ''--env='' a then Some (cli_Pair w (drop 6 a)) else None) args"

definition config_of :: "cli \<Rightarrow> string \<Rightarrow> (string \<times> string option) option" where
  "config_of w opt = (case cli_Pair w opt of (n, v) \<Rightarrow> if n = ''config-var'' then map_option (cli_Pair w) v else None)"

definition config_args :: "cli \<Rightarrow> string list \<Rightarrow> (string \<times> string option) list" where
  "config_args w args = List.map_filter (config_of w) (wasi_options w args)"

definition env_vars :: "HostCapabilities \<Rightarrow> HostEnvVar list" where
  "env_vars h = (case cap_Env h of None \<Rightarrow> [] | Some e \<Rightarrow> he_Vars e)"

definition config_vars :: "HostCapabilities \<Rightarrow> HostConfigVar list" where
  "config_vars h = (case cap_Config h of None \<Rightarrow> [] | Some e \<Rightarrow> hc_Vars e)"

section \<open>Texts\<close>

lemma commas_not_Nil [simp]: "commas s \<noteq> []"
  by (induction s) (auto split: list.split)

lemma no_comma: "CHR '','' \<notin> set s \<Longrightarrow> commas s = [s]"
  by (induction s) auto

lemma piece_no_comma: "p \<in> set (commas s) \<Longrightarrow> CHR '','' \<notin> set p"
proof (induction s arbitrary: p)
  case (Cons ch s)
  then show ?case by (cases "commas s") (auto split: if_splits)
qed simp

lemma commas_prefix: "CHR '','' \<notin> set n \<Longrightarrow> commas (n @ s) = (n @ hd (commas s)) # tl (commas s)"
proof (induction n)
  case (Cons ch n)
  then show ?case by (cases "commas s") auto
qed simp

lemma in_map_filter: "y \<in> set (List.map_filter f xs) \<Longrightarrow> \<exists>x \<in> set xs. f x = Some y"
  by (auto simp: List.map_filter_def)

lemma at_equals: "CHR ''='' \<notin> set (takeWhile (\<lambda>ch. ch \<noteq> CHR ''='') s)"
  by (auto dest: set_takeWhileD)

lemma pair_eq:
  assumes "documented w"
  shows "cli_Pair w s = (takeWhile (\<lambda>ch. ch \<noteq> CHR ''='') s,
    case dropWhile (\<lambda>ch. ch \<noteq> CHR ''='') s of [] \<Rightarrow> None | _ # v \<Rightarrow> Some v)"
proof (cases "dropWhile (\<lambda>ch. ch \<noteq> CHR ''='') s")
  case Nil
  then have no: "CHR ''='' \<notin> set s" by (auto simp: dropWhile_eq_Nil_conv)
  with assms have "cli_Pair w s = (s, None)" by (simp add: documented_def)
  moreover have "takeWhile (\<lambda>ch. ch \<noteq> CHR ''='') s = s" using no by (auto simp: takeWhile_eq_all_conv)
  ultimately show ?thesis by (simp only: Nil list.case)
next
  case (Cons ch v)
  then have "ch = CHR ''=''" using hd_dropWhile [of "\<lambda>ch. ch \<noteq> CHR ''=''" s] by simp
  with Cons have "s = takeWhile (\<lambda>ch. ch \<noteq> CHR ''='') s @ CHR ''='' # v"
    using takeWhile_dropWhile_id [of "\<lambda>ch. ch \<noteq> CHR ''=''" s] by simp
  moreover have "cli_Pair w (n @ CHR ''='' # v) = (n, Some v)" if "CHR ''='' \<notin> set n" for n
    using assms that by (simp add: documented_def)
  ultimately show ?thesis using Cons at_equals by (metis (mono_tags, lifting) list.simps(5))
qed

lemma pair_name: "documented w \<Longrightarrow> CHR ''='' \<notin> set (fst (cli_Pair w s))"
  by (simp add: pair_eq at_equals)

lemma pair_set: "documented w \<Longrightarrow> set (fst (cli_Pair w s)) \<subseteq> set s"
  "documented w \<Longrightarrow> snd (cli_Pair w s) = Some v \<Longrightarrow> set v \<subseteq> set s"
  by (auto simp: pair_eq dest: set_takeWhileD split: list.splits)
    (metis list.set_intros(2) set_dropWhileD)

lemma pair_append: "documented w \<Longrightarrow> CHR ''='' \<notin> set n \<Longrightarrow> cli_Pair w (n @ CHR ''='' # v) = (n, Some v)"
  "documented w \<Longrightarrow> CHR ''='' \<notin> set n \<Longrightarrow> cli_Pair w n = (n, None)"
  by (simp_all add: documented_def)

section \<open>The options of the arguments\<close>

lemma wasi_options_append [simp]: "wasi_options w (xs @ ys) = wasi_options w xs @ wasi_options w ys"
  by (simp add: wasi_options_def)

lemma env_args_append [simp]: "env_args w (xs @ ys) = env_args w xs @ env_args w ys"
  by (simp add: env_args_def List.map_filter_def)

lemma config_args_append [simp]: "config_args w (xs @ ys) = config_args w xs @ config_args w ys"
  by (simp add: config_args_def List.map_filter_def)

lemma args_Nil [simp]: "wasi_options w [] = []" "env_args w [] = []" "config_args w [] = []"
  by (simp_all add: wasi_options_def env_args_def config_args_def List.map_filter_def)

lemma env_var_options [simp]: "wasi_options w (concat (map HostEnvVar_WasmtimeArgs vs)) = []"
  by (induction vs) (auto simp: wasi_options_def HostEnvVar_WasmtimeArgs_def split: option.split)

text \<open>What a configuration variable becomes: the text up to the first comma is its option, and every text
  behind a comma is another one.\<close>

definition config_text :: "HostConfigVar \<Rightarrow> string" where
  "config_text v = hcv_Name v @ ''='' @ hcv_Value v"

lemma config_var_options:
  assumes "documented w"
  shows "wasi_options w (HostConfigVar_WasmtimeArgs v) = (''config-var='' @ hd (commas (config_text v))) # tl (commas (config_text v))"
proof -
  have "cli_Options w (''config-var='' @ config_text v) = commas (''config-var='' @ config_text v)"
    using assms unfolding documented_def by blast
  then show ?thesis
    using commas_prefix [of "''config-var=''" "config_text v"]
    by (simp add: wasi_options_def HostConfigVar_WasmtimeArgs_def config_text_def)
qed

lemma flag_options:
  assumes "documented w" "CHR '','' \<notin> set opt"
  shows "wasi_options w [''-S'' @ opt] = [opt]"
  using assms by (simp add: wasi_options_def documented_def no_comma)

lemmas flags [simp] = flag_options [of _ "''inherit-env=y''", simplified] flag_options [of _ "''config=y''", simplified]
  flag_options [of _ "''inherit-network=y''", simplified] flag_options [of _ "''allow-ip-name-lookup=y''", simplified]

text \<open>What the spec asks for, and what the commas of its configuration variables bring in.\<close>

definition asked_options :: "HostCapabilities \<Rightarrow> string set" where
  "asked_options h = {n. n = ''inherit-env'' \<and> (\<exists>e. cap_Env h = Some e \<and> he_Inherit e)} \<union>
     {n. n = ''config'' \<and> cap_Config h \<noteq> None \<or> n = ''config-var'' \<and> config_vars h \<noteq> []} \<union>
     {n. n = ''inherit-network'' \<and> (\<exists>e. cap_Network h = Some e \<and> hn_Inherit e) \<or>
        n = ''allow-ip-name-lookup'' \<and> (\<exists>e. cap_Network h = Some e \<and> hn_IPNameLookup e)}"

definition smuggled_options :: "cli \<Rightarrow> HostCapabilities \<Rightarrow> string set" where
  "smuggled_options w h = {fst (cli_Pair w opt) | opt v. v \<in> set (config_vars h) \<and> opt \<in> set (tl (commas (config_text v)))}"

lemma option_names_append [simp]: "option_names w (xs @ ys) = option_names w xs \<union> option_names w ys"
  "option_names w [] = {}" "option_names w (concat (map HostEnvVar_WasmtimeArgs vs)) = {}"
  by (simp_all add: option_names_def image_Un)

lemma flag_names:
  assumes "documented w"
  shows "option_names w [''-Sinherit-env=y''] = {''inherit-env''}" "option_names w [''-Sconfig=y''] = {''config''}"
    "option_names w [''-Sinherit-network=y''] = {''inherit-network''}" "option_names w [''-Sallow-ip-name-lookup=y''] = {''allow-ip-name-lookup''}"
  using assms by (simp_all add: option_names_def pair_eq)

lemma config_var_names:
  assumes "documented w"
  shows "option_names w (HostConfigVar_WasmtimeArgs v) =
    insert ''config-var'' ((\<lambda>opt. fst (cli_Pair w opt)) ` set (tl (commas (config_text v))))"
  unfolding option_names_def config_var_options [OF assms] using pair_append(1) [OF assms, of "''config-var''"] by simp

lemma config_vars_names:
  assumes "documented w"
  shows "option_names w (concat (map HostConfigVar_WasmtimeArgs vs)) = (if vs = [] then {} else {''config-var''}) \<union>
    {fst (cli_Pair w opt) | opt v. v \<in> set vs \<and> opt \<in> set (tl (commas (config_text v)))}"
  by (induction vs) (auto simp: config_var_names [OF assms])

lemma names_parts:
  assumes "documented w"
  shows "option_names w (case cap_Env h of None \<Rightarrow> [] | Some e \<Rightarrow> HostEnv_WasmtimeArgs e) =
      {n. n = ''inherit-env'' \<and> (\<exists>e. cap_Env h = Some e \<and> he_Inherit e)}"
    "option_names w (case cap_Config h of None \<Rightarrow> [] | Some e \<Rightarrow> HostConfig_WasmtimeArgs e) =
      {n. n = ''config'' \<and> cap_Config h \<noteq> None \<or> n = ''config-var'' \<and> config_vars h \<noteq> []} \<union> smuggled_options w h"
    "option_names w (case cap_Network h of None \<Rightarrow> [] | Some e \<Rightarrow> HostNetwork_WasmtimeArgs e) =
      {n. n = ''inherit-network'' \<and> (\<exists>e. cap_Network h = Some e \<and> hn_Inherit e) \<or>
        n = ''allow-ip-name-lookup'' \<and> (\<exists>e. cap_Network h = Some e \<and> hn_IPNameLookup e)}"
  using flag_names [OF assms] option_names_append(1) [of w "[''-Sinherit-network=y'']" "[''-Sallow-ip-name-lookup=y'']"]
    option_names_append(1) [of w "[''-Sconfig=y'']"]
  by (auto simp: HostEnv_WasmtimeArgs_def HostConfig_WasmtimeArgs_def HostNetwork_WasmtimeArgs_def config_vars_names [OF assms]
      config_vars_def smuggled_options_def simp del: append_Cons append_Nil map_concat concat_map_singleton split: option.split)

lemma smuggled_option:
  "v \<in> set (config_vars h) \<Longrightarrow> opt \<in> set (tl (commas (config_text v))) \<Longrightarrow> fst (cli_Pair w opt) \<in> smuggled_options w h"
  by (auto simp: smuggled_options_def)


text \<open>The arguments themselves: a variable is never one of the four flags.\<close>

lemma not_variable:
  "\<not> prefix ''--env='' a \<Longrightarrow> a \<notin> set (concat (map HostEnvVar_WasmtimeArgs vs))"
  "\<not> prefix ''-Sconfig-var='' a \<Longrightarrow> a \<notin> set (concat (map HostConfigVar_WasmtimeArgs ws))"
  by (auto simp: HostEnvVar_WasmtimeArgs_def HostConfigVar_WasmtimeArgs_def split: option.splits)

lemma granted_flags:
  "''-Sinherit-env=y'' \<in> set (HostCapabilities_WasmtimeArgs h) \<longleftrightarrow> (\<exists>e. cap_Env h = Some e \<and> he_Inherit e)"
  "''-Sconfig=y'' \<in> set (HostCapabilities_WasmtimeArgs h) \<longleftrightarrow> cap_Config h \<noteq> None"
  "''-Sinherit-network=y'' \<in> set (HostCapabilities_WasmtimeArgs h) \<longleftrightarrow> (\<exists>n. cap_Network h = Some n \<and> hn_Inherit n)"
  "''-Sallow-ip-name-lookup=y'' \<in> set (HostCapabilities_WasmtimeArgs h) \<longleftrightarrow> (\<exists>n. cap_Network h = Some n \<and> hn_IPNameLookup n)"
  by (cases "cap_Env h"; cases "cap_Config h"; cases "cap_Network h";
      auto simp: HostCapabilities_WasmtimeArgs_def HostEnv_WasmtimeArgs_def HostConfig_WasmtimeArgs_def
      HostNetwork_WasmtimeArgs_def simp del: set_concat simp: not_variable)+

lemma options_granted:
  assumes "documented w"
  shows "option_names w (HostCapabilities_WasmtimeArgs h) = asked_options h \<union> smuggled_options w h"
  unfolding HostCapabilities_WasmtimeArgs_def option_names_append(1) names_parts [OF assms] asked_options_def by (simp only: Un_ac)

section \<open>Properties\<close>


text \<open>The webhook admits such a variable: it grants the network although the spec asks for none.\<close>

definition comma_capabilities :: HostCapabilities where
  "comma_capabilities = \<lparr>cap_Env = None, cap_Config = Some \<lparr>hc_Vars = [\<lparr>hcv_Name = ''a'', hcv_Value = ''x,inherit-network=y''\<rparr>]\<rparr>,
     cap_Network = None\<rparr>"

theorem comma_grants_network:
  assumes "documented w"
  shows "HostCapabilities_Validate c p comma_capabilities = Ret [] \<and> ''inherit-network'' \<notin> asked_options comma_capabilities \<and>
    ''inherit-network'' \<in> option_names w (HostCapabilities_WasmtimeArgs comma_capabilities)"
proof (intro conjI)
  show "HostCapabilities_Validate c p comma_capabilities = Ret []"
    by (simp add: HostCapabilities_Validate_rule capabilities_rule_def comma_capabilities_def)
  show "''inherit-network'' \<notin> asked_options comma_capabilities"
    by (simp add: asked_options_def comma_capabilities_def)
  let ?v = "\<lparr>hcv_Name = ''a'', hcv_Value = ''x,inherit-network=y''\<rparr>"
  have "tl (commas (config_text ?v)) = [''inherit-network=y'']" by (simp add: config_text_def)
  moreover have "fst (cli_Pair w ''inherit-network=y'') = ''inherit-network''" by (simp add: pair_eq [OF assms])
  moreover have "?v \<in> set (config_vars comma_capabilities)" by (simp add: comma_capabilities_def config_vars_def)
  ultimately have "''inherit-network'' \<in> smuggled_options w comma_capabilities"
    using smuggled_option [of ?v comma_capabilities "''inherit-network=y''" w] by (simp only: list.set_intros(1))
  then show "''inherit-network'' \<in> option_names w (HostCapabilities_WasmtimeArgs comma_capabilities)"
    unfolding options_granted [OF assms] by (rule UnI2)
qed

lemma env_var_args:
  assumes "documented w"
  shows "env_args w (HostEnvVar_WasmtimeArgs v) = [cli_Pair w (case hev_Value v of None \<Rightarrow> hev_Name v | Some x \<Rightarrow> hev_Name v @ ''='' @ x)]"
  by (cases "hev_Value v") (simp_all add: HostEnvVar_WasmtimeArgs_def env_args_def List.map_filter_def)

lemma env_vars_args:
  assumes "documented w"
  shows "env_args w (concat (map HostEnvVar_WasmtimeArgs vs)) = map (\<lambda>v. (hev_Name v, hev_Value v)) vs \<longleftrightarrow>
    (\<forall>v \<in> set vs. CHR ''='' \<notin> set (hev_Name v))"
proof (induction vs)
  case (Cons v vs)
  have "env_args w (HostEnvVar_WasmtimeArgs v) = [(hev_Name v, hev_Value v)] \<longleftrightarrow> CHR ''='' \<notin> set (hev_Name v)"
    using pair_name [OF assms, of "case hev_Value v of None \<Rightarrow> hev_Name v | Some x \<Rightarrow> hev_Name v @ ''='' @ x"] pair_append [OF assms]
    by (cases "hev_Value v") (auto simp: env_var_args [OF assms])
  with Cons show ?case using env_var_args [OF assms, of v] by simp
qed simp

lemma config_arg_clean:
  assumes "documented w" "(n, x) \<in> set (config_args w args)"
  shows "CHR ''='' \<notin> set n \<and> CHR '','' \<notin> set n \<and> (\<forall>v. x = Some v \<longrightarrow> CHR '','' \<notin> set v)"
proof -
  from assms(2) obtain opt kv where opt: "opt \<in> set (wasi_options w args)" "snd (cli_Pair w opt) = Some kv" "cli_Pair w kv = (n, x)"
    by (auto simp: config_args_def config_of_def split: prod.splits if_splits dest!: in_map_filter)
  from opt(1) assms(1) have "CHR '','' \<notin> set opt"
    by (auto simp: wasi_options_def documented_def dest: piece_no_comma split: if_splits)
  with pair_set(2) [OF assms(1) opt(2)] have "CHR '','' \<notin> set kv" by blast
  with pair_set [OF assms(1), of kv] pair_name [OF assms(1), of kv] opt(3) show ?thesis by auto
qed

lemma config_vars_args:
  assumes "documented w" "\<forall>v \<in> set vs. CHR ''='' \<notin> set (hcv_Name v) \<and> CHR '','' \<notin> set (hcv_Name v) \<and> CHR '','' \<notin> set (hcv_Value v)"
  shows "config_args w (concat (map HostConfigVar_WasmtimeArgs vs)) = map (\<lambda>v. (hcv_Name v, Some (hcv_Value v))) vs"
  using assms(2)
proof (induction vs)
  case (Cons v vs)
  then have "commas (config_text v) = [config_text v]" by (intro no_comma) (simp add: config_text_def)
  moreover have "cli_Pair w (''config-var'' @ CHR ''='' # config_text v) = (''config-var'', Some (config_text v))"
    by (rule pair_append(1) [OF assms(1)]) simp
  moreover have "cli_Pair w (config_text v) = (hcv_Name v, Some (hcv_Value v))"
    using Cons.prems pair_append(1) [OF assms(1)] by (simp add: config_text_def)
  ultimately have "config_args w (HostConfigVar_WasmtimeArgs v) = [(hcv_Name v, Some (hcv_Value v))]"
    by (simp add: config_args_def config_of_def List.map_filter_def config_var_options [OF assms(1)])
  with Cons show ?case by simp
qed simp

lemma other_args:
  assumes "documented w"
  shows "env_args w (HostCapabilities_WasmtimeArgs h) = env_args w (concat (map HostEnvVar_WasmtimeArgs (env_vars h)))"
    "config_args w (HostCapabilities_WasmtimeArgs h) = config_args w (concat (map HostConfigVar_WasmtimeArgs (config_vars h)))"
proof -
  have no_env: "env_args w (concat (map HostConfigVar_WasmtimeArgs vs)) = []" for vs
    by (induction vs) (auto simp: HostConfigVar_WasmtimeArgs_def env_args_def List.map_filter_def)
  have no_config: "config_args w (concat (map HostEnvVar_WasmtimeArgs vs)) = []" for vs
    by (simp add: config_args_def List.map_filter_def)
  have flag: "config_of w opt = None" if "takeWhile (\<lambda>ch. ch \<noteq> CHR ''='') opt \<noteq> ''config-var''" for opt
    using that by (simp add: config_of_def pair_eq [OF assms])
  have flag_args: "config_args w (a # as) = config_args w as" "env_args w (a # as) = env_args w as"
    if "a \<in> {''-Sinherit-env=y'', ''-Sconfig=y'', ''-Sinherit-network=y'', ''-Sallow-ip-name-lookup=y''}" for a as
  proof -
    have "wasi_options w (a # as) = wasi_options w [a] @ wasi_options w as" using wasi_options_append [of w "[a]" as] by simp
    with that flags [OF assms] show "config_args w (a # as) = config_args w as"
      by (auto simp: config_args_def List.map_filter_def flag)
    show "env_args w (a # as) = env_args w as" using that by (auto simp: env_args_def List.map_filter_def)
  qed
  show "env_args w (HostCapabilities_WasmtimeArgs h) = env_args w (concat (map HostEnvVar_WasmtimeArgs (env_vars h)))"
    "config_args w (HostCapabilities_WasmtimeArgs h) = config_args w (concat (map HostConfigVar_WasmtimeArgs (config_vars h)))"
    by (cases "cap_Env h"; cases "cap_Config h"; cases "cap_Network h";
        simp add: HostCapabilities_WasmtimeArgs_def HostEnv_WasmtimeArgs_def HostConfig_WasmtimeArgs_def
        HostNetwork_WasmtimeArgs_def env_vars_def config_vars_def flag_args no_env no_config)+
qed

text \<open>C25: the variables of the spec are exactly those the runtime reads off the command line, in order, with a
  variable without a value told apart from one with a blank value, if and only if no name contains an equals sign and no
  name or value of a configuration variable a comma.\<close>

theorem WasmtimeArgs_roundtrip:
  assumes "documented w"
  shows "(env_args w (HostCapabilities_WasmtimeArgs h) = map (\<lambda>v. (hev_Name v, hev_Value v)) (env_vars h) \<longleftrightarrow>
      (\<forall>v \<in> set (env_vars h). CHR ''='' \<notin> set (hev_Name v))) \<and>
    (config_args w (HostCapabilities_WasmtimeArgs h) = map (\<lambda>v. (hcv_Name v, Some (hcv_Value v))) (config_vars h) \<longleftrightarrow>
      (\<forall>v \<in> set (config_vars h). CHR ''='' \<notin> set (hcv_Name v) \<and> CHR '','' \<notin> set (hcv_Name v) \<and> CHR '','' \<notin> set (hcv_Value v)))"
proof -
  have "CHR ''='' \<notin> set (hcv_Name v) \<and> CHR '','' \<notin> set (hcv_Name v) \<and> CHR '','' \<notin> set (hcv_Value v)"
    if "config_args w (HostCapabilities_WasmtimeArgs h) = map (\<lambda>v. (hcv_Name v, Some (hcv_Value v))) (config_vars h)"
      "v \<in> set (config_vars h)" for v
  proof -
    have "(hcv_Name v, Some (hcv_Value v)) \<in> set (config_args w (HostCapabilities_WasmtimeArgs h))" using that by simp
    from config_arg_clean [OF assms this] show ?thesis by simp
  qed
  with config_vars_args [OF assms, of "config_vars h"] show ?thesis
    unfolding other_args [OF assms] env_vars_args [OF assms] by blast
qed

section \<open>A concrete reader\<close>

definition demo_cli :: cli where
  "demo_cli = \<lparr>cli_Options = commas, cli_Pair = (\<lambda>s. (takeWhile (\<lambda>ch. ch \<noteq> CHR ''='') s,
     case dropWhile (\<lambda>ch. ch \<noteq> CHR ''='') s of [] \<Rightarrow> None | _ # v \<Rightarrow> Some v))\<rparr>"

lemma demo_documented: "documented demo_cli"
proof -
  have "takeWhile (\<lambda>ch. ch \<noteq> CHR ''='') n = n" "dropWhile (\<lambda>ch. ch \<noteq> CHR ''='') n = []"
    "takeWhile (\<lambda>ch. ch \<noteq> CHR ''='') (n @ CHR ''='' # v) = n" "dropWhile (\<lambda>ch. ch \<noteq> CHR ''='') (n @ CHR ''='' # v) = CHR ''='' # v"
    if "CHR ''='' \<notin> set n" for n v using that by (induction n) auto
  note cut = this
  show ?thesis unfolding documented_def demo_cli_def cli.select_convs by (intro conjI allI impI; simp only: cut list.case simp_thms)
qed

definition demo_capabilities :: HostCapabilities where
  "demo_capabilities = \<lparr>cap_Env = Some \<lparr>he_Inherit = True, he_Vars = [\<lparr>hev_Name = ''A'', hev_Value = Some ''x=y''\<rparr>,
        \<lparr>hev_Name = ''B'', hev_Value = None\<rparr>]\<rparr>,
      cap_Config = Some \<lparr>hc_Vars = [\<lparr>hcv_Name = ''k'', hcv_Value = ''''\<rparr>]\<rparr>, cap_Network = None\<rparr>"


lemma comma_grants_network_witness:
  "''inherit-network'' \<in> option_names demo_cli (HostCapabilities_WasmtimeArgs comma_capabilities)"
  using comma_grants_network [OF demo_documented] by blast

lemma WasmtimeArgs_roundtrip_witness:
  "env_args demo_cli (HostCapabilities_WasmtimeArgs demo_capabilities) = [(''A'', Some ''x=y''), (''B'', None)] \<and>
   config_args demo_cli (HostCapabilities_WasmtimeArgs demo_capabilities) = [(''k'', Some '''')]"
proof -
  have v: "env_vars demo_capabilities = [\<lparr>hev_Name = ''A'', hev_Value = Some ''x=y''\<rparr>, \<lparr>hev_Name = ''B'', hev_Value = None\<rparr>]"
    "config_vars demo_capabilities = [\<lparr>hcv_Name = ''k'', hcv_Value = ''''\<rparr>]"
    by (simp_all add: demo_capabilities_def env_vars_def config_vars_def)
  from WasmtimeArgs_roundtrip [OF demo_documented, of demo_capabilities] show ?thesis by (simp add: v)
qed

end
