(* ===== verification/Core_Progress.thy ===== *)
theory Core_Progress
  imports Core_Rules
begin

text \<open>
  When a request of a component, an image or a config store returns nil: what \<^verbatim>\<open>Core_Rules\<close> says of a request
  that returns nil is not said of requests that never do.  A step \<open>runs\<close> to a postcondition when it returns nil and ends there.
\<close>

section \<open>Steps that return nil\<close>

definition runs :: "('s, 'a) act \<Rightarrow> ('a \<Rightarrow> 's \<Rightarrow> bool) \<Rightarrow> 's \<Rightarrow> bool" where
  "runs m Q = wpe m Q (\<lambda>_. False)"

lemma runs_Ret: "runs m Q s \<Longrightarrow> m s = (s', g) \<Longrightarrow> \<exists>x. g = Ret x \<and> Q x s'"
  by (cases g) (simp_all add: runs_def wpe_def)

lemma runs_mono: "runs m Q s \<Longrightarrow> (\<And>x s'. Q x s' \<Longrightarrow> Q' x s') \<Longrightarrow> runs m Q' s"
  unfolding runs_def by (erule wpe_mono)

lemma runs_sequence:
  assumes "sequences sq"
  shows "runs (sq []) Q s = Q () s" "runs (sq (r # rs)) Q s = runs r (\<lambda>_. runs (sq rs) Q) s"
  by (simp_all add: runs_def wpe_sequence [OF assms])

lemma runs_always:
  assumes "calls_all al"
  shows "runs (al []) Q s = Q () s" "runs r (\<lambda>_. runs (al rs) Q) s \<Longrightarrow> runs (al (r # rs)) Q s"
  unfolding runs_def by (simp add: wpe_always(1) [OF assms]) (simp only: wpe_always(2) [OF assms], erule wpe_mono, simp_all)

lemma runs_bind: "runs (act_bind m f) Q s = runs m (\<lambda>x. runs (f x) Q) s"
  by (simp add: runs_def wpe_bind)

lemma runs_extend_trace:
  assumes "span = Ret sp" "\<not> fst (DetectTraceCycle ((case st_Trace (rx_Stash s) of None \<Rightarrow> [] | Some x \<Rightarrow> x) @ [sp]) obj)"
    and "Q () (s\<lparr>rx_Stash := (rx_Stash s)\<lparr>st_Trace := Some ((case st_Trace (rx_Stash s) of None \<Rightarrow> [] | Some x \<Rightarrow> x) @ [sp])\<rparr>\<rparr>)"
  shows "runs (extend_trace span obj ct msg reflect) Q s"
  unfolding runs_def wpe_extend_trace [OF assms(1)] Let_def using assms(2,3) by simp

section \<open>Repositories and credentials\<close>

text \<open>The repository a reference names is observed, ready and gives a key chain.\<close>

definition repository_at :: "('kc, 'd, 't, 'desc, 'sec, 'w) cluster \<Rightarrow> string \<Rightarrow> RepositoryReference \<Rightarrow> 'kc \<Rightarrow>
    apis_Status Repository \<Rightarrow> bool" where
  "repository_at cx ns ref kc r \<longleftrightarrow> (\<exists>r0. fetch_repository cx ns ref = Ret r0 \<and>
     om_Generation (rs_Meta r0) = as_ObservedGeneration (rs_Status r0) \<and>
     cl_IsTrue (cx_conds cx) (cl_Get (cx_conds cx) (RepositoryStatus_InitializeConditions (cx_conds cx) (rs_Status r0)) ''Ready'') \<and>
     default_repository (cx_ctx cx) ref r0 = Ret r \<and> repository_keychain cx (rs_Spec r) = Ret kc)"

text \<open>And its template gives a resource a tag.\<close>

definition usable :: "('kc, 'd, 't, 'desc, 'sec, 'w) cluster \<Rightarrow> GroupVersionKind go \<Rightarrow> ObjectMeta \<Rightarrow> RepositoryReference \<Rightarrow>
    'kc \<Rightarrow> 't \<Rightarrow> bool" where
  "usable cx gvk m ref kc tag \<longleftrightarrow> (\<exists>r. repository_at cx (om_Namespace m) ref kc r \<and>
     template_tag cx (rps_Template (rs_Spec r)) m gvk = Ret tag)"

lemma usable_target: "usable cx gvk m ref kc tag \<Longrightarrow> target_tag cx gvk m ref tag"
  by (auto simp: usable_def repository_at_def target_tag_def)

text \<open>The key chain after another one was stashed.\<close>

definition merged :: "('kc, 'd, 't, 'desc, 'sec, 'w) cluster \<Rightarrow> 'kc \<Rightarrow> 'kc option \<Rightarrow> 'kc" where
  "merged cx kc before = (case before of None \<Rightarrow> kc | Some k \<Rightarrow> cx_MultiKeychain cx kc k)"

lemma runs_use_repository:
  assumes "repository_at cx ns ref kc r"
    and "Q r (s\<lparr>rx_Stash := (rx_Stash s)\<lparr>st_Keychain := Some (merged cx kc (st_Keychain (rx_Stash s)))\<rparr>\<rparr>)"
  shows "runs (use_repository cx ct ns ref) Q s"
  using assms
  by (auto simp: runs_def repository_at_def use_repository_def check_ready_def stash_keychain_def merged_def wpe_simps stashers Let_def)

lemma runs_ResolveRepository:
  assumes "usable cx gvk (meta (rx_Resource s)) (rr (rx_Resource s)) kc tag"
    and "Q () (s\<lparr>rx_Stash := (rx_Stash s)\<lparr>st_Keychain := Some (merged cx kc (st_Keychain (rx_Stash s))), st_Tag := Some tag\<rparr>,
      rx_Marks := rx_Marks s @ [Mark ct CTrue ''Ready'' '''']\<rparr>)"
  shows "runs (ResolveRepository cx meta gvk rr ct) Q s"
proof -
  from assms(1) obtain r where "repository_at cx (om_Namespace (meta (rx_Resource s))) (rr (rx_Resource s)) kc r"
    "template_tag cx (rps_Template (rs_Spec r)) (meta (rx_Resource s)) gvk = Ret tag" by (auto simp: usable_def)
  with assms(2) show ?thesis
    unfolding ResolveRepository_def runs_bind
    by (simp add: runs_def wpe_simps) (fold runs_def, rule runs_use_repository, assumption, simp add: runs_def wpe_simps stashers)
qed

text \<open>The credentials of the service account of the resource, if it names one, go before those of its repository.\<close>

definition credentials :: "('kc, 'd, 't, 'desc, 'sec, 'w) cluster \<Rightarrow> ServiceAccountReference option \<Rightarrow> 'kc \<Rightarrow> 'kc \<Rightarrow> bool" where
  "credentials cx account before kc \<longleftrightarrow> (case account of None \<Rightarrow> kc = before
     | Some ref \<Rightarrow> \<exists>k. KeychainForServiceAccountRef (cx_ServiceAccount cx) (cx_Secret cx) (cx_FromPullSecrets cx) ref = Ret k \<and>
         kc = cx_MultiKeychain cx k before)"

lemma runs_ResolveKeychain:
  assumes "credentials cx (sar (rx_Resource s)) before kc" "st_Keychain (rx_Stash s) = Some before"
    and "Q () (s\<lparr>rx_Stash := (rx_Stash s)\<lparr>st_Keychain := Some kc\<rparr>\<rparr>)"
  shows "runs (ResolveKeychain cx sar ct) Q s"
proof (cases "sar (rx_Resource s)")
  case None
  with assms have "Q () (s\<lparr>rx_Stash := (rx_Stash s)\<lparr>st_Keychain := st_Keychain (rx_Stash s)\<rparr>\<rparr>)"
    by (simp only: credentials_def option.case)
  with None show ?thesis by (simp add: runs_def ResolveKeychain_def wpe_simps)
next
  case (Some ref)
  with assms show ?thesis
    by (auto simp: runs_def credentials_def ResolveKeychain_def stash_keychain_def wpe_simps stashers)
qed

section \<open>Components\<close>

text \<open>The component another one refers to can be traced without a cycle and publishes an image.\<close>

definition component_found :: "('kc, 'd, 't, 'desc, 'sec, 'w) cluster \<Rightarrow> Component \<Rightarrow> bool" where
  "component_found cx r \<longleftrightarrow> (cs_OCI (rs_Spec r) = None \<longrightarrow> (\<exists>ref c sp. cs_Ref (rs_Spec r) = Some ref \<and>
     ResolveComponentReference cx ref = Ret c \<and> duck_span cx ref c = Ret sp \<and> \<not> fst (DetectTraceCycle [sp] (rs_Meta r)) \<and>
     gst_Image (cdk_Generic (rs_Status c)) \<noteq> ''''))"

text \<open>A component can be copied: its repository is usable, its source is found, and the registries take the copy.\<close>

definition copyable :: "('kc, 'd, 't, 'desc, 'sec, 'w) cluster \<Rightarrow> GroupVersionKind go \<Rightarrow> Component \<Rightarrow> 'w \<Rightarrow> bool" where
  "copyable cx gvk r w \<longleftrightarrow> component_found cx r \<and> (\<exists>kc0 kc tag src w1 d cfg.
     usable cx gvk (rs_Meta r) (Component_GetRepositoryReference r) kc0 tag \<and>
     credentials cx (Component_GetServiceAccountReference r) kc0 kc \<and> component_source cx (rs_Spec r) kc w src \<and>
     Copy (cx_lib cx) (cx_remote cx) kc (RefDigest src) tag w = (w1, Ret d) \<and>
     PullConfig (cx_lib cx) (cx_remote cx) kc d w1 = Ret cfg)"

lemma runs_CopyComponent:
  assumes "st_Keychain (rx_Stash s) = Some kc" "st_Tag (rx_Stash s) = Some tag" "st_Trace (rx_Stash s) = None"
    and "component_found cx (rx_Resource s)" "component_source cx (rs_Spec (rx_Resource s)) kc (rx_World s) src"
    and "Copy (cx_lib cx) (cx_remote cx) kc (RefDigest src) tag (rx_World s) = (w1, Ret d)"
    and "PullConfig (cx_lib cx) (cx_remote cx) kc d w1 = Ret cfg"
    and "\<And>s'. st_Digest (rx_Stash s') = Some d \<Longrightarrow> Q () s'"
  shows "runs (CopyComponent cx) Q s"
proof (cases "cs_OCI (rs_Spec (rx_Resource s))")
  case (Some oci)
  with assms show ?thesis by (auto simp: runs_def CopyComponent_def component_source_def wpe_simps stashers)
next
  case None
  with assms(4,5) obtain ref c sp where "cs_Ref (rs_Spec (rx_Resource s)) = Some ref" "ResolveComponentReference cx ref = Ret c"
    "duck_span cx ref c = Ret sp" "\<not> fst (DetectTraceCycle [sp] (rs_Meta (rx_Resource s)))" "gst_Image (cdk_Generic (rs_Status c)) \<noteq> ''''"
    "\<not> cl_IsFalse (cx_conds cx) (cl_Get (cx_conds cx) (cdk_Status (rs_Status c)) ''Ready'')"
    "\<not> cl_IsUnknown (cx_conds cx) (cl_Get (cx_conds cx) (cdk_Status (rs_Status c)) ''Ready'')"
    "lib_NewDigest (cx_lib cx) (gst_Image (cdk_Generic (rs_Status c))) = Ret src"
    by (auto simp: component_found_def component_source_def)
  with None assms show ?thesis
    by (simp add: runs_def CopyComponent_def referenced_source_def wpe_simps stashers wpe_extend_trace [OF refl] Let_def)
qed

lemma runs_ReflectComponentableStatus:
  "st_Digest (rx_Stash s) = Some d \<Longrightarrow> runs (ReflectComponentableStatus cx ck) (\<lambda>_ _. True) s"
  by (simp add: runs_def ReflectComponentableStatus_def wpe_simps stashers)

lemma component_progress:
  assumes "sequences sq" "calls_all al" "copyable cx gvk (rx_Resource s) (rx_World s)"
    and "st_Keychain (rx_Stash s) = None" "st_Trace (rx_Stash s) = None"
  shows "runs (genericComponentReconciler sq al cx gvk) (\<lambda>_ _. True) s"
proof -
  from assms(3) obtain kc0 kc tag src w1 d cfg where found: "component_found cx (rx_Resource s)"
    and repo: "usable cx gvk (rs_Meta (rx_Resource s)) (Component_GetRepositoryReference (rx_Resource s)) kc0 tag"
    and creds: "credentials cx (Component_GetServiceAccountReference (rx_Resource s)) kc0 kc"
    and src: "component_source cx (rs_Spec (rx_Resource s)) kc (rx_World s) src"
    and copy: "Copy (cx_lib cx) (cx_remote cx) kc (RefDigest src) tag (rx_World s) = (w1, Ret d)"
    and cfg: "PullConfig (cx_lib cx) (cx_remote cx) kc d w1 = Ret cfg"
    unfolding copyable_def by blast
  show ?thesis
    unfolding genericComponentReconciler_def runs_sequence [OF assms(1)]
    by (rule runs_always(2) [OF assms(2)], rule runs_ResolveRepository, rule repo, rule runs_always(2) [OF assms(2)],
        rule runs_ResolveKeychain, simp, rule creds, simp add: merged_def assms(4), unfold runs_always(1) [OF assms(2)],
        rule runs_CopyComponent, simp, simp, simp add: assms(5), simp add: found, simp, rule src, simp, rule copy, rule cfg,
        erule runs_ReflectComponentableStatus)
qed

section \<open>Images\<close>

text \<open>The same for an image.\<close>

definition image_copyable :: "('kc, 'd, 't, 'desc, 'sec, 'w) cluster \<Rightarrow> GroupVersionKind go \<Rightarrow> image_object \<Rightarrow> 'w \<Rightarrow> bool" where
  "image_copyable cx gvk r w \<longleftrightarrow> (\<exists>kc0 kc tag src w1 d.
     usable cx gvk (rs_Meta r) (Image_GetRepositoryReference r) kc0 tag \<and>
     credentials cx (Image_GetServiceAccountReference r) kc0 kc \<and>
     ResolveDigest (cx_lib cx) (cx_remote cx) kc (is_Image (rs_Spec r)) w = Ret src \<and>
     Copy (cx_lib cx) (cx_remote cx) kc (RefDigest src) tag w = (w1, Ret d))"

lemma image_progress:
  assumes "sequences sq" "calls_all al" "image_copyable cx gvk (rx_Resource s) (rx_World s)" "st_Keychain (rx_Stash s) = None"
  shows "runs (genericImageReconciler sq al cx gvk) (\<lambda>_ _. True) s"
proof -
  from assms(3) obtain kc0 kc tag src w1 d where
    repo: "usable cx gvk (rs_Meta (rx_Resource s)) (Image_GetRepositoryReference (rx_Resource s)) kc0 tag"
    and creds: "credentials cx (Image_GetServiceAccountReference (rx_Resource s)) kc0 kc"
    and src: "ResolveDigest (cx_lib cx) (cx_remote cx) kc (is_Image (rs_Spec (rx_Resource s))) (rx_World s) = Ret src"
    and copy: "Copy (cx_lib cx) (cx_remote cx) kc (RefDigest src) tag (rx_World s) = (w1, Ret d)"
    unfolding image_copyable_def by blast
  have copied: "runs (CopyImage cx) (\<lambda>_ _. True) t"
    if "st_Keychain (rx_Stash t) = Some kc" "st_Tag (rx_Stash t) = Some tag" "rx_Resource t = rx_Resource s" "rx_World t = rx_World s" for t
    using that src copy by (simp add: runs_def CopyImage_def wpe_simps stashers)
  show ?thesis
    unfolding genericImageReconciler_def runs_sequence [OF assms(1)]
    by (rule runs_always(2) [OF assms(2)], rule runs_ResolveRepository, rule repo, rule runs_always(2) [OF assms(2)],
        rule runs_ResolveKeychain, simp, rule creds, simp add: merged_def assms(4), unfold runs_always(1) [OF assms(2)], simp add: copied)
qed

section \<open>Config stores\<close>

text \<open>Every config map and every key the spec names is there.\<close>

definition collectable :: "('kc, 'd, 't, 'desc, 'sec, 'w) cluster \<Rightarrow> string \<Rightarrow> GenericConfigStoreSpec \<Rightarrow> bool" where
  "collectable cx ns spec \<longleftrightarrow> (\<forall>v \<in> set (gcs_ValuesFrom spec). returns (cx_ConfigMap cx ns (vsf_Name v))) \<and>
     (\<forall>v \<in> set (gcs_Values spec). value_of cx ns v \<noteq> None)"

lemma runs_collect_values_from:
  "\<forall>v \<in> set vs. returns (cx_ConfigMap cx ns (vsf_Name v)) \<Longrightarrow> (\<And>c. Q c s) \<Longrightarrow> runs (collect_values_from cx ns vs config) Q s"
proof (induction vs arbitrary: config)
  case (Cons v vs)
  then obtain data where "cx_ConfigMap cx ns (vsf_Name v) = Ret data" by (auto elim: returnsE)
  with Cons show ?case by (simp add: runs_def config_map_def wpe_simps)
qed (simp add: runs_def wpe_simps)

lemma runs_collect_values:
  "\<forall>v \<in> set vs. value_of cx ns v \<noteq> None \<Longrightarrow> (\<And>c. Q c s) \<Longrightarrow> runs (collect_values cx ns vs config) Q s"
proof (induction vs arbitrary: config)
  case (Cons v vs)
  then show ?case
    by (auto simp: runs_def config_map_def wpe_simps value_of_def split: option.splits go.splits)
qed (simp add: runs_def wpe_simps)

lemma runs_CollectConfig:
  assumes "collectable cx (om_Namespace (rs_Meta (rx_Resource s))) (css_Store (rs_Spec (rx_Resource s)))"
    and "Q () (s\<lparr>rx_Stash := (rx_Stash s)
        \<lparr>st_ConfigStore := Some (configured cx (om_Namespace (rs_Meta (rx_Resource s))) (css_Store (rs_Spec (rx_Resource s))))\<rparr>,
      rx_Marks := rx_Marks s @ [Mark ''ConfigResolved'' CTrue ''Resolved'' '''']\<rparr>)"
  shows "runs (CollectConfig cx) Q s"
proof -
  let ?ns = "om_Namespace (rs_Meta (rx_Resource s))" and ?spec = "css_Store (rs_Spec (rx_Resource s))"
  from assms(1) have c: "\<forall>v \<in> set (gcs_ValuesFrom ?spec). returns (cx_ConfigMap cx ?ns (vsf_Name v))"
    "\<forall>v \<in> set (gcs_Values ?spec). value_of cx ?ns v \<noteq> None" by (simp_all add: collectable_def)
  have "runs (collect_values cx ?ns (gcs_Values ?spec) c) (\<lambda>x. runs (act_then (stash_Store ConfigStoreStasher x)
      (mark_as ''ConfigResolved'' CTrue ''Resolved'' [])) (\<lambda>_ _. True)) s" for c
    by (rule runs_collect_values [OF c(2)]) (simp add: runs_def wpe_simps)
  then have "runs (CollectConfig cx) (\<lambda>_ _. True) s"
    using runs_collect_values_from [OF c(1)] by (simp add: CollectConfig_def Let_def runs_bind) (simp add: runs_def wpe_simps)
  moreover obtain s' g where run: "CollectConfig cx s = (s', g)" by (cases "CollectConfig cx s")
  ultimately have "g = Ret ()" using runs_Ret by fastforce
  with run CollectConfig_config [of cx s s'] assms(2) show ?thesis by (auto simp: runs_def wpe_def)
qed

text \<open>The child component is there after it was managed, or is not needed.\<close>

definition child_made :: "'r component_like \<Rightarrow> string \<Rightarrow>
    ((ObjectMeta \<times> ComponentSpec) option \<Rightarrow> 'w \<Rightarrow> 'w \<times> (Component option \<times> gerr option) go) \<Rightarrow> 'r \<Rightarrow> 'w \<Rightarrow> 'w \<Rightarrow> bool" where
  "child_made ck key manage r w w1 \<longleftrightarrow> (\<exists>c k. ComponentChild_DesiredChild ck key r = Ret c \<and> manage c w = (w1, Ret (k, None)) \<and>
     (k = None \<longrightarrow> \<not> ChildComponentShouldExist (ck_Meta ck r)))"

lemma runs_component_child:
  assumes "child_made ck key manage (rx_Resource s) (rx_World s) w1"
    and "\<And>mk. Q () (s\<lparr>rx_World := w1, rx_Marks := rx_Marks s @ [mk]\<rparr>)"
  shows "runs (child_reconciler (ComponentChild_DesiredChild ck key) manage (ComponentChild_Reflect cx (ck_Meta ck) ct)) Q s"
  using assms by (auto simp: runs_def child_made_def child_reconciler_def ComponentChild_Reflect_def wpe_simps split: option.split)

lemma runs_PushComponent:
  assumes "st_Component (rx_Stash s) = Some component" "st_Tag (rx_Stash s) = Some tag" "st_Keychain (rx_Stash s) = Some kc"
    and "Push (cx_lib cx) (cx_remote cx) (ExtractWIT (cx_witToolsPool cx)) kc (RefTag tag) component (rx_World s) = (w, Ret (d, cfg))"
    and "\<And>s'. st_Digest (rx_Stash s') = Some d \<Longrightarrow> Q () s'"
  shows "runs (PushComponent cx ct) Q s"
  using assms by (simp add: runs_def PushComponent_def wpe_simps stashers)

text \<open>A config store can be built: what it names is there, its repository is usable, its child can be managed, the plugin
  makes a component of it and the registry takes it.\<close>

definition buildable :: "('kc, 'd, 't, 'desc, 'sec, 'w) cluster \<Rightarrow> GroupVersionKind go \<Rightarrow>
    ((ObjectMeta \<times> ComponentSpec) option \<Rightarrow> 'w \<Rightarrow> 'w \<times> (Component option \<times> gerr option) go) \<Rightarrow> ConfigStore \<Rightarrow> 'w \<Rightarrow> bool" where
  "buildable cx gvk manage r w \<longleftrightarrow> collectable cx (om_Namespace (rs_Meta r)) (css_Store (rs_Spec r)) \<and> (\<exists>kc tag w1 component w2 d cfg.
     usable cx gvk (rs_Meta r) (ConfigStore_GetRepositoryReference r) kc tag \<and>
     child_made (ConfigStore_ComponentLike gvk) ''wa8s.reconciler.io/config-store'' manage r w w1 \<and>
     ComponentizeConfigStore (cx_staticConfigPool cx) (lib_json_text (cx_lib cx))
       (cx_entries cx (configured cx (om_Namespace (rs_Meta r)) (css_Store (rs_Spec r)))) = Ret component \<and>
     Push (cx_lib cx) (cx_remote cx) (ExtractWIT (cx_witToolsPool cx)) kc (RefTag tag) component w1 = (w2, Ret (d, cfg)))"

lemma configstore_progress:
  assumes "sequences sq" "calls_all al" "buildable cx gvk manage (rx_Resource s) (rx_World s)" "st_Keychain (rx_Stash s) = None"
  shows "runs (ConfigStoreReconciler sq al cx gvk manage) (\<lambda>_ _. True) s"
proof -
  let ?r = "rx_Resource s" and ?ck = "ConfigStore_ComponentLike gvk"
  from assms(3) obtain kc tag w1 component w2 d cfg where
    collect: "collectable cx (om_Namespace (rs_Meta ?r)) (css_Store (rs_Spec ?r))"
    and repo: "usable cx gvk (rs_Meta ?r) (ConfigStore_GetRepositoryReference ?r) kc tag"
    and child: "child_made ?ck ''wa8s.reconciler.io/config-store'' manage ?r (rx_World s) w1"
    and made: "ComponentizeConfigStore (cx_staticConfigPool cx) (lib_json_text (cx_lib cx))
       (cx_entries cx (configured cx (om_Namespace (rs_Meta ?r)) (css_Store (rs_Spec ?r)))) = Ret component"
    and push: "Push (cx_lib cx) (cx_remote cx) (ExtractWIT (cx_witToolsPool cx)) kc (RefTag tag) component w1 = (w2, Ret (d, cfg))"
    unfolding buildable_def by blast
  let ?child = "\<lambda>Q t. runs (child_reconciler (ComponentChild_DesiredChild ?ck ''wa8s.reconciler.io/config-store'') manage
     (ComponentChild_Reflect cx rs_Meta ''ChildComponent'')) Q t"
  have managed: "?child Q t" if "rx_Resource t = ?r" "rx_World t = rx_World s"
    "\<And>mk. Q () (t\<lparr>rx_World := w1, rx_Marks := rx_Marks t @ [mk]\<rparr>)" for Q t
    using runs_component_child [where s = t and ck = ?ck and Q = Q and cx = cx and ct = "''ChildComponent''"] child that
    by (simp add: ConfigStore_ComponentLike_def)
  have built: "runs (ComponentizeConfig cx) (\<lambda>_. runs (PushComponent cx ''ComponentPushed'')
      (\<lambda>_. runs (ReflectComponentableStatus cx ?ck) (\<lambda>_ _. True))) t"
    if "st_ConfigStore (rx_Stash t) = Some (configured cx (om_Namespace (rs_Meta ?r)) (css_Store (rs_Spec ?r)))"
      "st_Tag (rx_Stash t) = Some tag" "st_Keychain (rx_Stash t) = Some kc" "rx_World t = w1" for t
  proof -
    have "runs (PushComponent cx ''ComponentPushed'') (\<lambda>_. runs (ReflectComponentableStatus cx ?ck) (\<lambda>_ _. True))
      (t\<lparr>rx_Stash := (rx_Stash t)\<lparr>st_Component := Some component\<rparr>\<rparr>)"
      by (rule runs_PushComponent [where component = component and tag = tag and kc = kc], use that push in simp_all)
        (rule runs_ReflectComponentableStatus)
    with that made show ?thesis by (simp add: runs_def ComponentizeConfig_def wpe_simps stashers)
  qed
  show ?thesis
    unfolding ConfigStoreReconciler_def Let_def runs_sequence [OF assms(1)]
    by (rule runs_always(2) [OF assms(2)], rule runs_CollectConfig [OF collect], rule runs_always(2) [OF assms(2)],
        rule runs_ResolveRepository, simp, rule repo, rule runs_always(2) [OF assms(2)], rule managed, simp, simp,
        unfold runs_always(1) [OF assms(2)], rule built, simp_all add: merged_def assms(4))
qed

end
