(* ===== verification/Core_Props.thy ===== *)
theory Core_Props
  imports Core_Progress
begin

text \<open>
  The properties of the shared sub reconcilers and of the controllers of components, config stores
  and images, and a concrete cluster they are applied to.
\<close>

lemma wpe_explicit:
  "wpe m Q E s \<Longrightarrow> m s = (s', g) \<Longrightarrow> quiet_go g \<and> (\<forall>x. g = Ret x \<longrightarrow> Q x s') \<and> (\<forall>e. g = Fail e \<longrightarrow> E s')"
  by (cases g) (auto simp: wpe_def)

section \<open>The properties\<close>

text \<open>Resolving a repository marks its condition true exactly when it returns nil, and then the repository
  was found, observed at its generation and ready, its keychain was resolved (and put before one
  that was stashed) and its template gave the tag, both of which are stashed; in every other case
  there is at most one mark, not true, and neither the resource nor the stashed tag is touched.\<close>

theorem ResolveRepository_outcome:
  assumes "calm cx" "quiet_go gvk" "ResolveRepository cx meta gvk rr ct s = (s', g)"
  shows "quiet_go g \<and> rx_Resource s' = rx_Resource s \<and> rx_World s' = rx_World s \<and>
    (g = Ret () \<longrightarrow> (\<exists>r0 r kc tag.
       fetch_repository cx (om_Namespace (meta (rx_Resource s))) (rr (rx_Resource s)) = Ret r0 \<and>
       om_Generation (rs_Meta r0) = as_ObservedGeneration (rs_Status r0) \<and>
       cl_IsTrue (cx_conds cx) (cl_Get (cx_conds cx) (RepositoryStatus_InitializeConditions (cx_conds cx) (rs_Status r0)) ''Ready'') \<and>
       default_repository (cx_ctx cx) (rr (rx_Resource s)) r0 = Ret r \<and> repository_keychain cx (rs_Spec r) = Ret kc \<and>
       template_tag cx (rps_Template (rs_Spec r)) (meta (rx_Resource s)) gvk = Ret tag \<and>
       st_Tag (rx_Stash s') = Some tag \<and>
       st_Keychain (rx_Stash s') = Some (case st_Keychain (rx_Stash s) of None \<Rightarrow> kc | Some k \<Rightarrow> cx_MultiKeychain cx kc k) \<and>
       rx_Marks s' = rx_Marks s @ [Mark ct CTrue ''Ready'' ''''])) \<and>
    (g \<noteq> Ret () \<longrightarrow> st_Tag (rx_Stash s') = st_Tag (rx_Stash s) \<and>
       (\<exists>new. rx_Marks s' = rx_Marks s @ new \<and> length new \<le> 1 \<and> (\<forall>mk \<in> set new. mk_Type mk = ct \<and> mk_Status mk \<noteq> CTrue)))"
proof -
  have "wpe (ResolveRepository cx meta gvk rr ct)
    (\<lambda>_ s'. rx_Resource s' = rx_Resource s \<and> rx_World s' = rx_World s \<and> (\<exists>r0 r kc tag.
       fetch_repository cx (om_Namespace (meta (rx_Resource s))) (rr (rx_Resource s)) = Ret r0 \<and>
       om_Generation (rs_Meta r0) = as_ObservedGeneration (rs_Status r0) \<and>
       cl_IsTrue (cx_conds cx) (cl_Get (cx_conds cx) (RepositoryStatus_InitializeConditions (cx_conds cx) (rs_Status r0)) ''Ready'') \<and>
       default_repository (cx_ctx cx) (rr (rx_Resource s)) r0 = Ret r \<and> repository_keychain cx (rs_Spec r) = Ret kc \<and>
       template_tag cx (rps_Template (rs_Spec r)) (meta (rx_Resource s)) gvk = Ret tag \<and>
       st_Tag (rx_Stash s') = Some tag \<and>
       st_Keychain (rx_Stash s') = Some (case st_Keychain (rx_Stash s) of None \<Rightarrow> kc | Some k \<Rightarrow> cx_MultiKeychain cx kc k) \<and>
       rx_Marks s' = rx_Marks s @ [Mark ct CTrue ''Ready'' '''']))
    (\<lambda>s'. rx_Resource s' = rx_Resource s \<and> rx_World s' = rx_World s \<and> st_Tag (rx_Stash s') = st_Tag (rx_Stash s) \<and>
       (\<exists>new. rx_Marks s' = rx_Marks s @ new \<and> length new \<le> 1 \<and> (\<forall>mk \<in> set new. mk_Type mk = ct \<and> mk_Status mk \<noteq> CTrue))) s"
    by (rule wpe_ResolveRepository [OF assms(1,2)]) (auto simp: Let_def)
  from wpe_explicit [OF this assms(3)] show ?thesis by (cases g) auto
qed

text \<open>An image is resolved beside the resource: the namespace its reference names has no influence on what
  is looked up, although the webhook fills it in and checks it.\<close>

theorem ResolveImage_ignores_namespace:
  "ResolveImage cx meta (\<lambda>r. (ref r)\<lparr>ir_Namespace := ns\<rparr>) reflect ct = ResolveImage cx meta ref reflect ct"
  by (simp add: ResolveImage_def fetch_image_def default_image_def Let_def cong: if_cong)

text \<open>C2: reconciling a component that names a source never panics: every value a step takes from the stash was
  put there before; only the two conditions of the kind are set; and when the request returns nil
  both are true, the source of the spec was copied to the tag of the component in its repository, the status
  publishes the digest of the copy with its imports and exports, and the published trace does not go through the
  component itself; and a fresh request does return nil when the repository is usable, the source is found and ready and
  the registries take the copy.\<close>

theorem component_pipeline_sound:
  assumes "calm cx" "quiet_go gvk" "sequences sq" "calls_all al"
    and "cs_OCI (rs_Spec (rx_Resource s)) \<noteq> None \<or> cs_Ref (rs_Spec (rx_Resource s)) \<noteq> None"
    and "genericComponentReconciler sq al cx gvk s = (s', g)"
  shows "quiet_go g \<and> only_marks (set ComponentConditions) s s' \<and>
    (g = Ret () \<longrightarrow> Mark ''RepositoryReady'' CTrue ''Ready'' '''' \<in> set (rx_Marks s') \<and>
       Mark ''ComponentCopied'' CTrue ''Copied'' '''' \<in> set (rx_Marks s') \<and>
       publishes_copy cx gvk (rx_Resource s) (rx_World s) (rx_World s') (rs_Status (rx_Resource s')) \<and>
       trace_kept (rs_Meta (rx_Resource s)) (st_Trace (rx_Stash s)) (gst_Trace (rs_Status (rx_Resource s')))) \<and>
    (copyable cx gvk (rx_Resource s) (rx_World s) \<and> st_Keychain (rx_Stash s) = None \<and> st_Trace (rx_Stash s) = None \<longrightarrow> g = Ret ())"
  using wpe_explicit [OF wpe_component_pipeline [OF assms(1-5)] assms(6)] runs_Ret [OF component_progress [OF assms(3,4)] assms(6)]
  by (cases g) (auto simp: ComponentConditions_def)

text \<open>C20: the same for images, whatever their source: the image the spec names was copied to the tag of the resource
  in its repository, and the status publishes the digest of the copy; and a fresh request returns nil when its
  repository is usable and the registries take the copy.\<close>

theorem image_pipeline_sound:
  assumes "calm cx" "quiet_go gvk" "sequences sq" "calls_all al" "genericImageReconciler sq al cx gvk s = (s', g)"
  shows "quiet_go g \<and> only_marks (set ImageConditions) s s' \<and>
    (g = Ret () \<longrightarrow> Mark ''RepositoryReady'' CTrue ''Ready'' '''' \<in> set (rx_Marks s') \<and>
       Mark ''ImageCopied'' CTrue ''Copied'' '''' \<in> set (rx_Marks s') \<and>
       publishes_image cx gvk (rx_Resource s) (rx_World s) (rx_World s') (rs_Status (rx_Resource s'))) \<and>
    (image_copyable cx gvk (rx_Resource s) (rx_World s) \<and> st_Keychain (rx_Stash s) = None \<longrightarrow> g = Ret ())"
  using wpe_explicit [OF wpe_image_pipeline [OF assms(1-4)] assms(5)] runs_Ret [OF image_progress [OF assms(3,4)] assms(5)]
  by (cases g) (auto simp: ImageConditions_def)

text \<open>C18: and for config stores, whatever becomes of the child component: what the status publishes was pushed to the
  tag of the store in its repository and is the static configuration made of exactly the values the spec describes;
  besides the conditions of the kind only the one for the child component is set, on which Ready does not depend.  A first
  request returns nil when the repository is ready, the values can be collected, the component can be pushed and its child be made.\<close>

theorem configstore_pipeline_sound:
  assumes "calm cx" "quiet_go gvk" "sequences sq" "calls_all al" "\<And>c w. quiet_go (snd (manage c w))"
    and "ConfigStoreReconciler sq al cx gvk manage s = (s', g)"
  shows "quiet_go g \<and>
    only_marks (insert ''ChildComponent'' (set ConfigStoreConditions)) s s' \<and>
    (g = Ret () \<longrightarrow> Mark ''ComponentPushed'' CTrue ''Pushed'' '''' \<in> set (rx_Marks s') \<and>
       publishes_config cx gvk (rx_Resource s) (rx_World s') (rs_Status (rx_Resource s'))) \<and>
    (buildable cx gvk manage (rx_Resource s) (rx_World s) \<and> st_Keychain (rx_Stash s) = None \<longrightarrow> g = Ret ())"
  using wpe_explicit [OF wpe_configstore_pipeline [OF assms(1-5)] assms(6)] runs_Ret [OF configstore_progress [OF assms(3,4)] assms(6)]
  by (cases g) auto

text \<open>C13: a repository becomes ready exactly when the pull secrets of its service account may push to the tag its template
  gives; whatever the API server and the registry answer the request does not panic, sets only the two conditions of the
  kind, both to true if it returns nil, and changes neither the repository nor the registry.\<close>

theorem repository_ready_iff:
  assumes "calm cx" "quiet_go gvk" "sequences sq" "\<And>tag kc w. quiet_go (checkPush tag kc w)"
    and "genericRepositoryReconciler sq cx gvk checkPush s = (s', g)"
  shows "quiet_go g \<and> (g = Ret () \<longleftrightarrow> may_push cx gvk checkPush (rx_Resource s) (rx_World s)) \<and>
    (g = Ret () \<longrightarrow> rx_Marks s' = rx_Marks s @ repository_marks) \<and> only_marks (set RepositoryConditions) s s' \<and>
    rx_Resource s' = rx_Resource s \<and> rx_World s' = rx_World s"
  using wpe_explicit [OF wpe_repository [OF assms(1-4)] assms(5)]
  by (cases g) (auto simp: repository_marks_def only_marks_def RepositoryConditions_def)

section \<open>A concrete cluster\<close>

definition demo_gvk :: "GroupVersionKind go" where
  "demo_gvk = Ret \<lparr>gvk_Group = ''wa8s.reconciler.io'', gvk_Version = ''v1alpha1'', gvk_Kind = ''Component''\<rparr>"

definition demo_conds :: cond_lib where
  "demo_conds = \<lparr>
     cl_Initialize = (\<lambda>deps st. if find (\<lambda>c. cn_Type c = ''Ready'') (as_Conditions st) = None
        then st\<lparr>as_Conditions := as_Conditions st @ [\<lparr>cn_Type = ''Ready'', cn_Status = ''Unknown'', cn_Reason = ''Initializing'', cn_Message = ''''\<rparr>]\<rparr>
        else st),
     cl_Get = (\<lambda>st t. find (\<lambda>c. cn_Type c = t) (as_Conditions st)),
     cl_IsTrue = (\<lambda>c. case c of None \<Rightarrow> False | Some x \<Rightarrow> cn_Status x = ''True''),
     cl_IsFalse = (\<lambda>c. case c of None \<Rightarrow> False | Some x \<Rightarrow> cn_Status x = ''False''),
     cl_IsUnknown = (\<lambda>c. case c of None \<Rightarrow> True | Some x \<Rightarrow> cn_Status x = ''Unknown'')\<rparr>"

definition demo_ready :: apis_Status where
  "demo_ready = \<lparr>as_ObservedGeneration = 1, as_Conditions = [\<lparr>cn_Type = ''Ready'', cn_Status = ''True'', cn_Reason = ''Ready'', cn_Message = ''''\<rparr>]\<rparr>"

definition demo_named :: "string \<Rightarrow> string \<Rightarrow> ObjectMeta" where
  "demo_named ns n = blank_meta\<lparr>om_Namespace := ns, om_Name := n, om_UID := ''uid-'' @ n, om_Generation := 1\<rparr>"

definition demo_repository :: "string \<Rightarrow> string \<Rightarrow> apis_Status Repository" where
  "demo_repository ns n = \<lparr>rs_Meta = demo_named ns n,
     rs_Spec = \<lparr>rps_Template = ''registry/x'', rps_ServiceAccountRef = \<lparr>sa_Namespace = ''apps'', sa_Name = ''default''\<rparr>\<rparr>,
     rs_Status = demo_ready\<rparr>"

definition any_registry :: "(string, string, string, string, 'w) remote" where
  "any_registry = \<lparr>rm_transport = Ret (), rm_Head = (\<lambda>_ t w. Ret ''sha256:0''),
     rm_Get = (\<lambda>_ d w. Ret (Ret \<lparr>iv_MediaType = Ret ImageManifestMediaType, iv_Layers = Ret [lib_NewLayer demo_lib ''asm'' WasmLayerMediaType],
        iv_RawConfigFile = Ret ''{}''\<rparr>)),
     rm_Push = (\<lambda>_ ref img w. (w, Ret ())), rm_clients = (\<lambda>_. Ret ()), rm_pull_desc = (\<lambda>_ d w. Ret d),
     rm_push_desc = (\<lambda>_ t desc w. (w, Ret ()))\<rparr>"

definition any_cluster :: "(string, string, string, string, string, 'w) cluster" where
  "any_cluster = \<lparr>cx_ctx = sample_ctx, cx_lib = demo_lib, cx_NewDigestStrict = lib_NewDigest demo_lib,
     cx_remote = any_registry, cx_witToolsPool = Ret (\<lambda>f c. Ret ''world root { import a:b/c; }''),
     cx_staticConfigPool = Ret (\<lambda>f c. Ret c), cx_wacPool = Ret (\<lambda>f c. Ret c), cx_base64 = id,
     cx_entries = (\<lambda>m. map (\<lambda>k. (k, the (m k))) (filter (\<lambda>k. m k \<noteq> None) [''a'', ''b'']))
     , cx_conds = demo_conds,
     cx_Repository = (\<lambda>ns n. if n = ''missing'' then Fail (ApiErr NotFound '''' n) else Ret (demo_repository ns n)),
     cx_ClusterRepository = (\<lambda>n. Ret (demo_repository '''' n)),
     cx_Image = (\<lambda>ns n. Fail (ApiErr NotFound '''' n)), cx_ClusterImage = (\<lambda>n. Fail (ApiErr NotFound '''' n)),
     cx_Component = (\<lambda>t k. Fail (ApiErr NotFound '''' (snd k))),
     cx_ConfigMap = (\<lambda>ns n. if n = ''settings'' then Ret (Map.empty(''a'' \<mapsto> ''1'', ''b'' \<mapsto> ''2'')) else Fail (ApiErr NotFound '''' n)),
     cx_ServiceAccount = (\<lambda>ns n. Ret \<lparr>svc_Namespace = ns, svc_ImagePullSecrets = [''pull'']\<rparr>),
     cx_Secret = (\<lambda>ns n. Ret n), cx_FromPullSecrets = (\<lambda>ss. Ret (concat ss)), cx_MultiKeychain = (\<lambda>a b. a @ ''+'' @ b),
     cx_template = (\<lambda>t m. Ret t), cx_GVKFor = (\<lambda>n t. demo_gvk), cx_Convert = (\<lambda>i. NotConverted), cx_errText = (\<lambda>e. ''error'')\<rparr>"

lemma any_calm: "calm any_cluster"
  unfolding calm_def
  by (intro conjI allI)
    (auto simp: any_cluster_def any_registry_def demo_lib_def demo_conds_def demo_gvk_def calm_lib_def calm_remote_def
      calm_view_def initializes_ready_def find_append bare_def split: option.split)

definition demo_cluster :: "(string, string, string, string, string, unit) cluster" where
  "demo_cluster = any_cluster"

lemma demo_calm: "calm demo_cluster"
  by (simp add: demo_cluster_def any_calm)

lemma demo_gvk_quiet: "quiet_go demo_gvk"
  by (simp add: demo_gvk_def)

definition demo_start :: "'r \<Rightarrow> ('r, string, string, string, unit) rstate" where
  "demo_start r = \<lparr>rx_Resource = r, rx_Marks = [], rx_Events = [], rx_Results = [], rx_Stash = empty_stash, rx_World = ()\<rparr>"

definition demo_component :: Component where
  "demo_component = \<lparr>rs_Meta = demo_named ''apps'' ''app'',
     rs_Spec = \<lparr>cs_Generic = \<lparr>gs_RepositoryRef = \<lparr>rr_Kind = ''Repository'', rr_Name = ''default''\<rparr>\<rparr>,
       cs_OCI = Some \<lparr>oci_Image = ''r@sha256:0'', oci_ServiceAccountRef = \<lparr>sa_Namespace = ''apps'', sa_Name = ''puller''\<rparr>\<rparr>,
       cs_Ref = None\<rparr>,
     rs_Status = \<lparr>gst_Image = '''', gst_WIT = None, gst_Trace = []\<rparr>\<rparr>"

definition demo_image_object :: image_object where
  "demo_image_object = \<lparr>rs_Meta = demo_named ''apps'' ''base'',
     rs_Spec = \<lparr>is_RepositoryRef = \<lparr>rr_Kind = ''Repository'', rr_Name = ''default''\<rparr>, is_Image = ''r'',
       is_ServiceAccountRef = \<lparr>sa_Namespace = ''apps'', sa_Name = ''puller''\<rparr>\<rparr>,
     rs_Status = \<lparr>ist_Status = demo_ready, ist_Image = ''''\<rparr>\<rparr>"

definition demo_config_store :: ConfigStore where
  "demo_config_store = \<lparr>rs_Meta = demo_named ''apps'' ''config'',
     rs_Spec = \<lparr>css_Generic = \<lparr>gs_RepositoryRef = \<lparr>rr_Kind = ''Repository'', rr_Name = ''default''\<rparr>\<rparr>,
       css_Store = \<lparr>gcs_Values = [\<lparr>vl_Name = ''b'', vl_Value = ''3'', vl_ValueFrom = None\<rparr>],
         gcs_ValuesFrom = [\<lparr>vsf_Name = ''settings'', vsf_Prefix = ''''\<rparr>]\<rparr>\<rparr>,
     rs_Status = \<lparr>gst_Image = '''', gst_WIT = None, gst_Trace = []\<rparr>\<rparr>"

text \<open>The applications.\<close>

lemma run_split: "snd m = g \<Longrightarrow> m = (fst m, g)"
  by (cases m) simp

lemma ResolveRepository_outcome_witness:
  "\<exists>s' tag. ResolveRepository demo_cluster rs_Meta demo_gvk Component_GetRepositoryReference ''RepositoryReady'' (demo_start demo_component)
      = (s', Ret ()) \<and> st_Tag (rx_Stash s') = Some tag"
proof -
  let ?run = "ResolveRepository demo_cluster rs_Meta demo_gvk Component_GetRepositoryReference ''RepositoryReady'' (demo_start demo_component)"
  have "snd ?run = Ret ()" by code_simp
  note run = run_split [OF this]
  from ResolveRepository_outcome [OF demo_calm demo_gvk_quiet run] run show ?thesis by blast
qed

text \<open>What the runs below have at hand.\<close>

lemmas demo_defs = demo_cluster_def any_cluster_def any_registry_def demo_lib_def demo_conds_def demo_gvk_def demo_ready_def
  demo_named_def demo_repository_def blank_meta_def

lemma demo_usable: "usable demo_cluster demo_gvk (demo_named ''apps'' n) \<lparr>rr_Kind = ''Repository'', rr_Name = ''default''\<rparr> ''pull'' ''registry/x''"
  by (simp add: usable_def repository_at_def fetch_repository_def default_repository_def demo_defs RepositoryStatus_InitializeConditions_def
      Repository_Default_def RepositorySpec_Default_def ServiceAccountReference_Default_def repository_keychain_def KeychainForRepo_def
      KeychainForServiceAccountRef_def template_tag_def ApplyTemplate_def)

lemma demo_account: "KeychainForServiceAccountRef (cx_ServiceAccount demo_cluster) (cx_Secret demo_cluster) (cx_FromPullSecrets demo_cluster) ref =
    Ret ''pull''"
  by (simp add: KeychainForServiceAccountRef_def demo_defs)

lemma demo_copyable: "copyable demo_cluster demo_gvk demo_component ()"
proof -
  have parts: "rs_Meta demo_component = demo_named ''apps'' ''app''"
    "Component_GetRepositoryReference demo_component = \<lparr>rr_Kind = ''Repository'', rr_Name = ''default''\<rparr>"
    by (simp_all add: demo_component_def Component_GetRepositoryReference_def)
  let ?kc = "cx_MultiKeychain demo_cluster ''pull'' ''pull''"
  have "snd (Copy (cx_lib demo_cluster) (cx_remote demo_cluster) ?kc (RefDigest ''r@sha256:0'') ''registry/x'' ()) = Ret ''registry/x@sha256:0''"
    by code_simp
  from run_split [OF this] have copy: "Copy (cx_lib demo_cluster) (cx_remote demo_cluster) ?kc (RefDigest ''r@sha256:0'') ''registry/x'' () =
    ((), Ret ''registry/x@sha256:0'')" by simp
  have "case PullConfig (cx_lib demo_cluster) (cx_remote demo_cluster) ?kc ''registry/x@sha256:0'' () of Ret _ \<Rightarrow> True | _ \<Rightarrow> False"
    by code_simp
  then obtain cfg where "PullConfig (cx_lib demo_cluster) (cx_remote demo_cluster) ?kc ''registry/x@sha256:0'' () = Ret cfg"
    by (auto split: go.splits)
  moreover have "component_found demo_cluster demo_component" by (simp add: component_found_def demo_component_def)
  moreover have "credentials demo_cluster (Component_GetServiceAccountReference demo_component) ''pull'' ?kc"
    by (simp add: credentials_def demo_account Component_GetServiceAccountReference_def demo_component_def)
  moreover have "component_source demo_cluster (rs_Spec demo_component) ?kc () ''r@sha256:0''"
    by (simp add: component_source_def ResolveDigest_def demo_component_def demo_defs)
  ultimately show ?thesis
    unfolding copyable_def parts using demo_usable copy by blast
qed

lemma component_pipeline_sound_witness:
  "\<exists>s'. genericComponentReconciler run_sequence run_always demo_cluster demo_gvk (demo_start demo_component) = (s', Ret ()) \<and>
     publishes_copy demo_cluster demo_gvk demo_component () () (rs_Status (rx_Resource s')) \<and>
     \<not> fst (DetectTraceCycle (gst_Trace (rs_Status (rx_Resource s'))) (rs_Meta demo_component))"
proof -
  let ?run = "genericComponentReconciler run_sequence run_always demo_cluster demo_gvk (demo_start demo_component)"
  have "cs_OCI (rs_Spec (rx_Resource (demo_start demo_component))) \<noteq> None \<or>
      cs_Ref (rs_Spec (rx_Resource (demo_start demo_component))) \<noteq> None"
    by (simp add: demo_start_def demo_component_def)
  note source = this
  obtain s' g where run: "?run = (s', g)" by (cases ?run)
  note * = component_pipeline_sound [OF demo_calm demo_gvk_quiet run_sequence_law run_always_law source run]
  have start: "rx_Resource (demo_start demo_component) = demo_component" "rx_World (demo_start demo_component) = ()"
    "st_Keychain (rx_Stash (demo_start demo_component)) = None" "st_Trace (rx_Stash (demo_start demo_component)) = None"
    by (simp_all add: demo_start_def empty_stash_def)
  with * demo_copyable have "g = Ret ()" by simp
  with * run start show ?thesis by (intro exI [of _ s']) (simp add: trace_kept_def)
qed

lemma image_pipeline_sound_witness:
  "\<exists>s'. genericImageReconciler run_sequence run_always demo_cluster demo_gvk (demo_start demo_image_object) = (s', Ret ()) \<and>
     Mark ''ImageCopied'' CTrue ''Copied'' '''' \<in> set (rx_Marks s')"
proof -
  let ?run = "genericImageReconciler run_sequence run_always demo_cluster demo_gvk (demo_start demo_image_object)"
  have "snd ?run = Ret ()" by code_simp
  note run = run_split [OF this]
  from image_pipeline_sound [OF demo_calm demo_gvk_quiet run_sequence_law run_always_law run] run show ?thesis
    by blast
qed

text \<open>A registry that lets only the first of two key chains push.\<close>

lemma repository_ready_iff_witness:
  "snd (genericRepositoryReconciler run_sequence demo_cluster demo_gvk (\<lambda>tag kc w. if kc = ''pull'' then Ret () else Fail (Text ''denied''))
     (demo_start (demo_repository ''apps'' ''default''))) = Ret () \<and>
   may_push demo_cluster demo_gvk (\<lambda>tag kc w. if kc = ''pull'' then Ret () else Fail (Text ''denied'')) (demo_repository ''apps'' ''default'') ()"
proof -
  let ?check = "\<lambda>tag kc w. if kc = ''pull'' then Ret () else Fail (Text ''denied'')"
  let ?run = "genericRepositoryReconciler run_sequence demo_cluster demo_gvk ?check (demo_start (demo_repository ''apps'' ''default''))"
  have "snd ?run = Ret ()" by code_simp
  note run = run_split [OF this]
  have "quiet_go (?check tag kc w)" for tag :: string and kc and w :: unit by simp
  from repository_ready_iff [OF demo_calm demo_gvk_quiet run_sequence_law this run] run
  have "may_push demo_cluster demo_gvk ?check (rx_Resource (demo_start (demo_repository ''apps'' ''default'')))
     (rx_World (demo_start (demo_repository ''apps'' ''default'')))" by blast
  with \<open>snd ?run = Ret ()\<close> show ?thesis by (simp add: demo_start_def)
qed

text \<open>The child component cannot be managed at the first attempt, and is created at the second.\<close>

definition demo_manage :: "bool \<Rightarrow> (ObjectMeta \<times> ComponentSpec) option \<Rightarrow> unit \<Rightarrow> unit \<times> (Component option \<times> gerr option) go" where
  "demo_manage ok c w = (w, if ok then Ret (Some demo_component, None) else Ret (None, Some (ApiErr AlreadyExists '''' '''')))"

lemma demo_buildable: "buildable demo_cluster demo_gvk (demo_manage True) demo_config_store ()"
proof -
  have parts: "rs_Meta demo_config_store = demo_named ''apps'' ''config''"
    "ConfigStore_GetRepositoryReference demo_config_store = \<lparr>rr_Kind = ''Repository'', rr_Name = ''default''\<rparr>"
    by (simp_all add: demo_config_store_def ConfigStore_GetRepositoryReference_def)
  let ?made = "ComponentizeConfigStore (cx_staticConfigPool demo_cluster) (lib_json_text (cx_lib demo_cluster))
    (cx_entries demo_cluster (configured demo_cluster (om_Namespace (demo_named ''apps'' ''config'')) (css_Store (rs_Spec demo_config_store))))"
  have made: "?made = Ret ''{}''"
    by (simp add: ComponentizeConfigStore_def recovered_def demo_defs)
  let ?push = "Push (cx_lib demo_cluster) (cx_remote demo_cluster) (ExtractWIT (cx_witToolsPool demo_cluster)) ''pull'' (RefTag ''registry/x'') ''{}'' ()"
  have "case snd ?push of Ret _ \<Rightarrow> True | _ \<Rightarrow> False" by code_simp
  then obtain d cfg where "?push = ((), Ret (d, cfg))" by (cases ?push) (auto split: go.splits)
  moreover have "collectable demo_cluster (om_Namespace (demo_named ''apps'' ''config'')) (css_Store (rs_Spec demo_config_store))"
    by (simp add: collectable_def value_of_def demo_config_store_def demo_defs)
  moreover have "child_made (ConfigStore_ComponentLike demo_gvk) ''wa8s.reconciler.io/config-store'' (demo_manage True) demo_config_store () ()"
    by (simp add: child_made_def ComponentChild_DesiredChild_def ConfigStore_ComponentLike_def ChildComponentShouldExist_def
        demo_manage_def demo_config_store_def demo_defs Let_def)
  ultimately show ?thesis
    unfolding buildable_def parts using demo_usable made by blast
qed

lemma configstore_pipeline_sound_witness:
  "\<exists>s' s''. ConfigStoreReconciler run_sequence run_always demo_cluster demo_gvk (demo_manage True) (demo_start demo_config_store)
      = (s', Ret ()) \<and> publishes_config demo_cluster demo_gvk demo_config_store () (rs_Status (rx_Resource s')) \<and>
     fst (ConfigStoreReconciler run_sequence run_always demo_cluster demo_gvk (demo_manage False) (demo_start demo_config_store)) = s'' \<and>
     only_marks (insert ''ChildComponent'' (set ConfigStoreConditions)) (demo_start demo_config_store) s''"
proof -
  let ?run = "\<lambda>ok. ConfigStoreReconciler run_sequence run_always demo_cluster demo_gvk (demo_manage ok) (demo_start demo_config_store)"
  have q: "quiet_go (snd (demo_manage ok c w))" for ok c w by (simp add: demo_manage_def)
  note sound = configstore_pipeline_sound [OF demo_calm demo_gvk_quiet run_sequence_law run_always_law]
  have "?run False = (fst (?run False), snd (?run False))" by simp
  note failed = sound [OF q [of False] this]
  obtain s' g where run: "?run True = (s', g)" by (cases "?run True")
  have start: "rx_Resource (demo_start demo_config_store) = demo_config_store" "rx_World (demo_start demo_config_store) = ()"
    "st_Keychain (rx_Stash (demo_start demo_config_store)) = None" by (simp_all add: demo_start_def empty_stash_def)
  with sound [OF q [of True] run] demo_buildable have "g = Ret ()" by simp
  with sound [OF q [of True] run] run failed start
  show ?thesis by (intro exI [of _ s'] exI [of _ "fst (?run False)"]) simp
qed

text \<open>The collected configuration of the store: the value overrides the config map.\<close>

lemma CollectConfig_lookup_witness:
  "configured demo_cluster ''apps'' (css_Store (rs_Spec demo_config_store)) ''b'' = Some ''3'' \<and>
   (\<exists>s' config. CollectConfig demo_cluster (demo_start demo_config_store) = (s', Ret ()) \<and>
      st_ConfigStore (rx_Stash s') = Some config \<and> config ''b'' = Some ''3'')"
proof -
  have b: "configured demo_cluster ''apps'' (css_Store (rs_Spec demo_config_store)) ''b'' = Some ''3''" by code_simp
  have ns: "om_Namespace (rs_Meta (rx_Resource (demo_start demo_config_store))) = ''apps''"
    "rx_Resource (demo_start demo_config_store) = demo_config_store"
    by (simp_all add: demo_start_def demo_config_store_def demo_named_def)
  have "snd (CollectConfig demo_cluster (demo_start demo_config_store)) = Ret ()" by code_simp
  note run = run_split [OF this]
  from CollectConfig_lookup [OF run] run b ns show ?thesis by auto
qed

end
