(* ===== verification/Compose_Children.thy ===== *)
theory Compose_Children
  imports Compose_Controllers Core_Props
begin

text \<open>
  The children of a composition: those its dependencies ask for are created, every dependency that stands for one is
  made to refer to its own child, and the other references stay as they are.
\<close>

section \<open>The children of a composition\<close>

lemma cd_set_ref [simp]:
  "cd_Component (set_ref kind r d) = cd_Component d" "cd_Config (set_ref kind r d) = cd_Config d"
  "cd_OCI (set_ref kind r d) = cd_OCI d" "cd_Composition (set_ref kind r d) = cd_Composition d"
  "cd_Ref d \<noteq> None \<Longrightarrow> cd_Ref (set_ref kind r d) \<noteq> None"
  by (cases r; cases "snd r"; simp add: set_ref_def)+

text \<open>The references of a dependency after the results of a set of children were reflected.\<close>

definition refer :: "string \<Rightarrow> (string \<times> ObjectMeta option) list \<Rightarrow> 'comp CompositionDependency \<Rightarrow> 'comp CompositionDependency" where
  "refer kind results d = fold (set_ref kind) results d"

lemma fold_map: "fold (\<lambda>r. map (f r)) rs xs = map (\<lambda>x. fold f rs x) xs"
  by (induction rs arbitrary: xs) (simp_all add: comp_def)

lemma refer_simps [simp]:
  "cd_Component (refer kind rs d) = cd_Component d" "cd_Config (refer kind rs d) = cd_Config d"
  "cd_OCI (refer kind rs d) = cd_OCI d" "cd_Composition (refer kind rs d) = cd_Composition d"
  by (induction rs arbitrary: d) (simp_all add: refer_def)

lemma refer_keeps: "cd_Ref d \<noteq> None \<Longrightarrow> cd_Ref (refer kind rs d) \<noteq> None"
  by (induction rs arbitrary: d) (auto simp: refer_def simp del: not_None_eq)

lemma refer_sets: "(cd_Component d, Some m) \<in> set rs \<Longrightarrow> cd_Ref (refer kind rs d) \<noteq> None"
proof (induction rs arbitrary: d)
  case (Cons r rs)
  have rec: "refer kind (r # rs) d = refer kind rs (set_ref kind r d)" by (simp add: refer_def)
  from Cons.prems consider "r = (cd_Component d, Some m)" | "(cd_Component d, Some m) \<in> set rs" by auto
  then show ?case
  proof cases
    case 1
    then show ?thesis unfolding rec by (intro refer_keeps) (simp add: set_ref_def)
  next
    case 2
    with Cons.IH [of "set_ref kind r d"] show ?thesis unfolding rec by simp
  qed
qed simp

text \<open>The metadata and the repository of a composition stay during a request.\<close>

definition same_owner :: "Composition \<Rightarrow> Composition \<Rightarrow> bool" where
  "same_owner r' r \<longleftrightarrow> rs_Meta r' = rs_Meta r \<and> cos_Generic (rs_Spec r') = cos_Generic (rs_Spec r)"

lemma same_owner_refl [simp]: "same_owner r r"
  by (simp add: same_owner_def)

lemma same_owner_trans: "same_owner r'' r' \<Longrightarrow> same_owner r' r \<Longrightarrow> same_owner r'' r"
  by (simp add: same_owner_def)

lemma deps_ReflectChildren:
  "co_Dependencies (cos_Composition (rs_Spec (ReflectChildren kind rs r))) =
     map (refer kind rs) (co_Dependencies (cos_Composition (rs_Spec r)))"
  "co_WAC (cos_Composition (rs_Spec (ReflectChildren kind rs r))) = co_WAC (cos_Composition (rs_Spec r))"
  "co_Plug (cos_Composition (rs_Spec (ReflectChildren kind rs r))) = co_Plug (cos_Composition (rs_Spec r))"
  "same_owner (ReflectChildren kind rs r) r"
  by (simp_all add: ReflectChildren_def put_dependencies_def fold_map refer_def [abs_def] same_owner_def)

text \<open>The children are created: the results name a child for each that is desired, and each child they name is one that was
  desired, in its namespace and known by its identity.\<close>

definition creates :: "(ObjectMeta \<times> 'spec, 'w) manage_set \<Rightarrow> bool" where
  "creates manage \<longleftrightarrow> (\<forall>cs w. (\<forall>c \<in> set cs. \<exists>m. (IdentifyChild (fst c), Some m) \<in> set (fst (snd (manage cs w)))) \<and>
     (\<forall>i m. (i, Some m) \<in> set (fst (snd (manage cs w))) \<longrightarrow> IdentifyChild m = i \<and>
       (\<exists>c \<in> set cs. IdentifyChild (fst c) = i \<and> om_Namespace m = om_Namespace (fst c))))"

lemma createsD:
  "creates manage \<Longrightarrow> c \<in> set cs \<Longrightarrow> \<exists>m. (IdentifyChild (fst c), Some m) \<in> set (fst (snd (manage cs w)))"
  "creates manage \<Longrightarrow> (i, Some m) \<in> set (fst (snd (manage cs w))) \<Longrightarrow>
     IdentifyChild m = i \<and> (\<exists>c \<in> set cs. IdentifyChild (fst c) = i \<and> om_Namespace m = om_Namespace (fst c))"
  unfolding creates_def by blast+

lemma wpe_child_set:
  assumes "\<And>w rs. snd (manage (desired (rx_Resource s)) (rx_World s)) = (rs, None) \<or> (\<exists>e. snd (manage (desired (rx_Resource s)) (rx_World s)) = (rs, Some e)) \<Longrightarrow>
      P (s\<lparr>rx_World := w, rx_Resource := reflect rs (rx_Resource s)\<rparr>)"
  shows "wpe (child_set_reconciler desired manage reflect) (\<lambda>_. P) P s"
proof -
  obtain w rs e where m: "manage (desired (rx_Resource s)) (rx_World s) = (w, rs, e)"
    by (cases "manage (desired (rx_Resource s)) (rx_World s)") auto
  show ?thesis using m assms [of rs w]
    by (cases e) (auto simp: child_set_reconciler_def wpe_simps wpe_world)
qed

lemma IdentifyChild_meta [simp]: "IdentifyChild (dependency_meta parent key component) = component"
  by (simp add: IdentifyChild_def dependency_meta_def)

text \<open>Every dependency for which \<open>sel\<close> holds has its child among the desired ones.\<close>

lemma desired_members:
  assumes "d \<in> set (co_Dependencies (cos_Composition (rs_Spec r)))"
  shows "cd_Config d \<noteq> None \<Longrightarrow> \<exists>c \<in> set (ManageConfigStore_DesiredChildren key r). IdentifyChild (fst c) = cd_Component d"
    "cd_OCI d \<noteq> None \<Longrightarrow> \<exists>c \<in> set (ManageOci_DesiredChildren key r). IdentifyChild (fst c) = cd_Component d"
    "cd_Composition d \<noteq> None \<Longrightarrow> \<exists>c \<in> set (ManageComposition_DesiredChildren key r). IdentifyChild (fst c) = cd_Component d"
  using assms
  by (force simp: ManageConfigStore_DesiredChildren_def ManageOci_DesiredChildren_def ManageComposition_DesiredChildren_def
      map_filter_def)+

text \<open>A dependency whose reference may have been filled in.\<close>

definition same_item :: "'comp CompositionDependency \<Rightarrow> 'comp CompositionDependency \<Rightarrow> bool" where
  "same_item d d' \<longleftrightarrow> cd_Component d' = cd_Component d \<and> cd_Config d' = cd_Config d \<and> cd_OCI d' = cd_OCI d \<and>
     cd_Composition d' = cd_Composition d \<and> (cd_Ref d \<noteq> None \<longrightarrow> cd_Ref d' \<noteq> None)"

lemma same_item_refl: "same_item d d"
  by (simp add: same_item_def)

lemma same_item_refer: "same_item d d' \<Longrightarrow> same_item d (refer kind rs d')"
  by (simp add: same_item_def refer_keeps del: not_None_eq)

text \<open>The request between the sets of children: the names and sources of the dependencies stay, and those
  whose source is among \<open>sels\<close> have a reference.\<close>

definition managed :: "(GenericCompositionSpec CompositionDependency \<Rightarrow> bool) \<Rightarrow> (Composition, 'kc, 'd, 't, 'w) rstate \<Rightarrow>
    (Composition, 'kc, 'd, 't, 'w) rstate \<Rightarrow> bool" where
  "managed has s s' \<longleftrightarrow> rx_Marks s' = rx_Marks s \<and> rx_Stash s' = rx_Stash s \<and> same_owner (rx_Resource s') (rx_Resource s) \<and>
     (\<exists>f. co_Dependencies (cos_Composition (rs_Spec (rx_Resource s'))) = map f (co_Dependencies (cos_Composition (rs_Spec (rx_Resource s)))) \<and>
       (\<forall>d. same_item d (f d))) \<and>
     (\<forall>d \<in> set (co_Dependencies (cos_Composition (rs_Spec (rx_Resource s')))). has d \<longrightarrow> cd_Ref d \<noteq> None) \<and>
     co_WAC (cos_Composition (rs_Spec (rx_Resource s'))) = co_WAC (cos_Composition (rs_Spec (rx_Resource s))) \<and>
     co_Plug (cos_Composition (rs_Spec (rx_Resource s'))) = co_Plug (cos_Composition (rs_Spec (rx_Resource s)))"

lemma managed_step:
  assumes "managed has s s1" "creates manage"
    and "\<And>d. d \<in> set (co_Dependencies (cos_Composition (rs_Spec (rx_Resource s1)))) \<Longrightarrow> gain d \<Longrightarrow>
      \<exists>c \<in> set (desired (rx_Resource s1)). IdentifyChild (fst c) = cd_Component d"
    and stable: "\<And>rs d. has (refer kind rs d) \<longleftrightarrow> has d" "\<And>rs d. gain (refer kind rs d) \<longleftrightarrow> gain d"
  shows "wpe (child_set_reconciler desired manage (ReflectChildren kind)) (\<lambda>_. managed (\<lambda>d. has d \<or> gain d) s) (managed (\<lambda>d. has d \<or> gain d) s) s1"
proof (rule wpe_child_set, goal_cases)
  case (1 w rs)
  then have rs: "fst (snd (manage (desired (rx_Resource s1)) (rx_World s1))) = rs" by auto
  let ?s2 = "s1\<lparr>rx_World := w, rx_Resource := ReflectChildren kind rs (rx_Resource s1)\<rparr>"
  from assms(1) obtain f where f: "co_Dependencies (cos_Composition (rs_Spec (rx_Resource s1))) = map f (co_Dependencies (cos_Composition (rs_Spec (rx_Resource s))))"
    "\<And>d. same_item d (f d)"
    by (auto simp: managed_def)
  have "\<exists>f. co_Dependencies (cos_Composition (rs_Spec (rx_Resource ?s2))) = map f (co_Dependencies (cos_Composition (rs_Spec (rx_Resource s)))) \<and>
       (\<forall>d. same_item d (f d))"
    by (rule exI [of _ "\<lambda>d. refer kind rs (f d)"]) (simp add: deps_ReflectChildren f same_item_refer)
  moreover have "cd_Ref (refer kind rs d) \<noteq> None"
    if d: "d \<in> set (co_Dependencies (cos_Composition (rs_Spec (rx_Resource s1))))" and h: "has d \<or> gain d" for d
  proof (cases "gain d")
    case True
    from assms(3) [OF d True] obtain c where c: "c \<in> set (desired (rx_Resource s1))" "IdentifyChild (fst c) = cd_Component d" by auto
    with createsD(1) [OF assms(2) c(1)] rs obtain m where "(cd_Component d, Some m) \<in> set rs" by metis
    then show ?thesis by (rule refer_sets)
  next
    case False
    with h d assms(1) have "cd_Ref d \<noteq> None" by (auto simp: managed_def)
    then show ?thesis by (rule refer_keeps)
  qed
  moreover have "same_owner (rx_Resource ?s2) (rx_Resource s)"
    using assms(1) same_owner_trans [OF deps_ReflectChildren(4)] by (simp add: managed_def)
  ultimately show ?case
    using assms(1) by (simp add: managed_def deps_ReflectChildren(1-3) stable del: not_None_eq)
qed

lemma wpe_ManageDependencies:
  assumes "calls_all al" "creates (cc_ConfigStores cc)" "creates (cc_Components cc)" "creates (cc_Compositions cc)"
  shows "wpe (ManageDependencies al cc key)
    (\<lambda>_. managed (\<lambda>d. cd_Config d \<noteq> None \<or> cd_OCI d \<noteq> None \<or> cd_Composition d \<noteq> None) s)
    (managed (\<lambda>d. cd_Config d \<noteq> None \<or> cd_OCI d \<noteq> None \<or> cd_Composition d \<noteq> None) s) s"
    (is "wpe _ (\<lambda>_. ?P3) ?P3 s")
proof -
  let ?c1 = "child_set_reconciler (ManageConfigStore_DesiredChildren key) (cc_ConfigStores cc) (ReflectChildren ''ConfigStore'')"
  let ?c2 = "child_set_reconciler (ManageOci_DesiredChildren key) (cc_Components cc) (ReflectChildren ''Component'')"
  let ?c3 = "child_set_reconciler (ManageComposition_DesiredChildren key) (cc_Compositions cc) (ReflectChildren ''Composition'')"
  let ?P1 = "managed (\<lambda>d. False \<or> cd_Config d \<noteq> None) s"
  let ?P2 = "managed (\<lambda>d. (False \<or> cd_Config d \<noteq> None) \<or> cd_OCI d \<noteq> None) s"
  have P0: "managed (\<lambda>d. False) s s"
    by (auto simp: managed_def same_item_refl intro!: exI [of _ "\<lambda>d. d"])
  let ?P3' = "managed (\<lambda>d. ((False \<or> cd_Config d \<noteq> None) \<or> cd_OCI d \<noteq> None) \<or> cd_Composition d \<noteq> None) s"
  have eq: "?P3' = ?P3" by (simp add: disj_assoc)
  have 1: "wpe ?c1 (\<lambda>_. ?P1) ?P1 s" by (rule managed_step [OF P0 assms(2)]) (simp_all add: desired_members)
  have 2: "wpe ?c2 (\<lambda>_. ?P2) ?P2 s1" if "?P1 s1" for s1 by (rule managed_step [OF that assms(3)]) (simp_all add: desired_members)
  have 3: "wpe ?c3 (\<lambda>_. ?P3) ?P3 s2" if "?P2 s2" for s2 unfolding eq [symmetric]
    by (rule managed_step [OF that assms(4)]) (simp_all add: desired_members)
  have 23: "wpe ?c2 (\<lambda>_. wpe ?c3 (\<lambda>_. ?P3) ?P3) (wpe ?c3 (\<lambda>_. ?P3) ?P3) s1" if "?P1 s1" for s1
    using 2 [OF that] by (rule wpe_mono) (erule 3)+
  have nil: "wpe (al []) (\<lambda>_. ?P3) ?P3 = ?P3" using wpe_always(1) [OF assms(1)] by (auto simp: fun_eq_iff)
  show ?thesis
    unfolding ManageDependencies_def wpe_always(2) [OF assms(1)] nil
    using 1 by (rule wpe_mono) (erule 23)+
qed

section \<open>Each dependency and its own child\<close>

text \<open>
  Which component a dependency is resolved from: the one its own reference names, or the child that was created for this very
  dependency.  \<open>child_results\<close> are the results of the three sets of children, managed one after the other.
\<close>

definition child_ref :: "string \<Rightarrow> ObjectMeta \<Rightarrow> ComponentReference" where
  "child_ref kind m = \<lparr>cr_APIVersion = ''wa8s.reconciler.io/v1alpha1'', cr_Kind = kind, cr_Namespace = om_Namespace m, cr_Name = om_Name m\<rparr>"

definition child_results :: "'w composition_children \<Rightarrow> string \<Rightarrow> Composition \<Rightarrow> 'w \<Rightarrow>
    (string \<times> ObjectMeta option) list \<times> (string \<times> ObjectMeta option) list \<times> (string \<times> ObjectMeta option) list" where
  "child_results cc key r w = (let
     (w1, rs1, _) = cc_ConfigStores cc (ManageConfigStore_DesiredChildren key r) w;
     (w2, rs2, _) = cc_Components cc (ManageOci_DesiredChildren key r) w1;
     (_, rs3, _) = cc_Compositions cc (ManageComposition_DesiredChildren key r) w2
   in (rs1, rs2, rs3))"

definition from_child :: "string \<Rightarrow> (string \<times> ObjectMeta option) list \<Rightarrow> Composition \<Rightarrow> 'comp CompositionDependency \<Rightarrow>
    'comp CompositionDependency \<Rightarrow> bool" where
  "from_child kind rs r d item \<longleftrightarrow> (\<exists>m. (cd_Component d, Some m) \<in> set rs \<and> IdentifyChild m = cd_Component d \<and>
     om_Namespace m = om_Namespace (rs_Meta r) \<and> cd_Ref item = Some (child_ref kind m))"

definition own_reference :: "(string \<times> ObjectMeta option) list \<times> (string \<times> ObjectMeta option) list \<times> (string \<times> ObjectMeta option) list \<Rightarrow>
    Composition \<Rightarrow> 'comp CompositionDependency \<Rightarrow> 'comp CompositionDependency \<Rightarrow> bool" where
  "own_reference res r d item \<longleftrightarrow> cd_Component item = cd_Component d \<and> (case res of (rs1, rs2, rs3) \<Rightarrow>
     if cd_Config d \<noteq> None then from_child ''ConfigStore'' rs1 r d item
     else if cd_OCI d \<noteq> None then from_child ''Component'' rs2 r d item
     else if cd_Composition d \<noteq> None then from_child ''Composition'' rs3 r d item
     else cd_Ref item = cd_Ref d)"

text \<open>The items are those of the spec of \<open>r\<close>, in order; when no name occurs twice each of them refers to its own component.\<close>

definition own_items :: "'w composition_children \<Rightarrow> Composition \<Rightarrow> 'w \<Rightarrow> GenericCompositionSpec CompositionDependency list \<Rightarrow> bool" where
  "own_items cc r w items \<longleftrightarrow> (let deps = co_Dependencies (cos_Composition (rs_Spec r)) in
     map cd_Component items = map cd_Component deps \<and>
     (distinct (map cd_Component deps) \<longrightarrow>
        list_all2 (own_reference (child_results cc ''wa8s.reconciler.io/composition'' r w) r) deps items))"

lemma refer_ref:
  "(cd_Ref (refer kind rs d) = cd_Ref d \<and> (\<forall>m. (cd_Component d, Some m) \<notin> set rs)) \<or>
   (\<exists>m. (cd_Component d, Some m) \<in> set rs \<and> cd_Ref (refer kind rs d) = Some (child_ref kind m))"
proof (induction rs rule: rev_induct)
  case (snoc x rs)
  have step: "refer kind (rs @ [x]) d = set_ref kind x (refer kind rs d)" by (simp add: refer_def)
  show ?case
  proof (cases "\<exists>m. x = (cd_Component d, Some m)")
    case True
    then show ?thesis unfolding step by (auto simp: set_ref_def child_ref_def)
  next
    case False
    then have "set_ref kind x (refer kind rs d) = refer kind rs d"
      by (cases x; cases "snd x") (auto simp: set_ref_def)
    with snoc.IH False show ?thesis unfolding step by auto
  qed
qed (simp add: refer_def)

text \<open>What is desired depends on the names and sources of the dependencies alone, which reflection keeps.\<close>

lemma map_filter_map: "List.map_filter f (map g xs) = List.map_filter (\<lambda>x. f (g x)) xs"
  by (induction xs) (simp_all add: List.map_filter_simps split: option.split)

lemma desired_reflected [simp]:
  "ManageOci_DesiredChildren key (ReflectChildren kind rs r) = ManageOci_DesiredChildren key r"
  "ManageComposition_DesiredChildren key (ReflectChildren kind rs r) = ManageComposition_DesiredChildren key r"
  using deps_ReflectChildren(4) [of kind rs r]
  by (simp_all add: ManageOci_DesiredChildren_def ManageComposition_DesiredChildren_def deps_ReflectChildren(1) map_filter_map same_owner_def
      cong: option.case_cong)

definition reflected :: "'w composition_children \<Rightarrow> string \<Rightarrow> (Composition, 'kc, 'd, 't, 'w) rstate \<Rightarrow> (Composition, 'kc, 'd, 't, 'w) rstate \<Rightarrow> bool" where
  "reflected cc key s s' \<longleftrightarrow> (case child_results cc key (rx_Resource s) (rx_World s) of (rs1, rs2, rs3) \<Rightarrow>
     co_Dependencies (cos_Composition (rs_Spec (rx_Resource s'))) =
       map (\<lambda>d. refer ''Composition'' rs3 (refer ''Component'' rs2 (refer ''ConfigStore'' rs1 d)))
         (co_Dependencies (cos_Composition (rs_Spec (rx_Resource s)))))"

lemma wpe_child_set_exact:
  assumes "manage (desired (rx_Resource s)) (rx_World s) = (w, rs, e)" "P (s\<lparr>rx_World := w, rx_Resource := reflect rs (rx_Resource s)\<rparr>)"
  shows "wpe (child_set_reconciler desired manage reflect) (\<lambda>_. P) P s"
  using assms by (cases e) (auto simp: child_set_reconciler_def wpe_simps wpe_world)

lemma wpe_reflected:
  assumes "calls_all al"
  shows "wpe (ManageDependencies al cc key) (\<lambda>_. reflected cc key s) (reflected cc key s) s"
proof -
  let ?r = "rx_Resource s" and ?P = "reflected cc key s"
  obtain w1 rs1 e1 where 1: "cc_ConfigStores cc (ManageConfigStore_DesiredChildren key ?r) (rx_World s) = (w1, rs1, e1)" by (metis prod_cases3)
  obtain w2 rs2 e2 where 2: "cc_Components cc (ManageOci_DesiredChildren key ?r) w1 = (w2, rs2, e2)" by (metis prod_cases3)
  obtain w3 rs3 e3 where 3: "cc_Compositions cc (ManageComposition_DesiredChildren key ?r) w2 = (w3, rs3, e3)" by (metis prod_cases3)
  have res: "child_results cc key ?r (rx_World s) = (rs1, rs2, rs3)" by (simp add: child_results_def 1 2 3)
  have nil: "wpe (al []) (\<lambda>_. ?P) ?P = ?P" using wpe_always(1) [OF assms] by (auto simp: fun_eq_iff)
  show ?thesis
    unfolding ManageDependencies_def wpe_always(2) [OF assms] nil
    by (rule wpe_child_set_exact, rule 1, rule wpe_child_set_exact, simp, rule 2, rule wpe_child_set_exact, simp, rule 3)
      (simp add: reflected_def res deps_ReflectChildren)
qed

lemma wpe_both: "wpe m Q E s \<Longrightarrow> wpe m Q' E' s \<Longrightarrow> wpe m (\<lambda>x s. Q x s \<and> Q' x s) (\<lambda>s. E s \<and> E' s) s"
  by (auto simp: wpe_def split: prod.splits go.splits)

text \<open>The children of other dependencies do not touch a reference.\<close>

lemma others_child:
  assumes "creates manage" "distinct (map cd_Component deps)" "d \<in> set deps" "(cd_Component d, Some m) \<in> set (fst (snd (manage cs w)))"
    and "\<And>c. c \<in> set cs \<Longrightarrow> \<exists>d' \<in> set deps. IdentifyChild (fst c) = cd_Component d' \<and> has d' \<and> om_Namespace (fst c) = ns"
  shows "has d \<and> IdentifyChild m = cd_Component d \<and> om_Namespace m = ns"
proof -
  from createsD(2) [OF assms(1,4)] obtain c where c: "c \<in> set cs" "IdentifyChild (fst c) = cd_Component d" "om_Namespace m = om_Namespace (fst c)"
    and m: "IdentifyChild m = cd_Component d" by blast
  from assms(5) [OF c(1)] c(2,3) obtain d' where d': "d' \<in> set deps" "cd_Component d' = cd_Component d" "has d'" "om_Namespace m = ns" by auto
  with assms(2,3) have "d' = d" by (auto simp: distinct_map dest: inj_onD)
  with d' m show ?thesis by simp
qed

lemma desired_of:
  "c \<in> set (ManageConfigStore_DesiredChildren key r) \<Longrightarrow> \<exists>d \<in> set (co_Dependencies (cos_Composition (rs_Spec r))).
     IdentifyChild (fst c) = cd_Component d \<and> cd_Config d \<noteq> None \<and> om_Namespace (fst c) = om_Namespace (rs_Meta r)"
  "c' \<in> set (ManageOci_DesiredChildren key r) \<Longrightarrow> \<exists>d \<in> set (co_Dependencies (cos_Composition (rs_Spec r))).
     IdentifyChild (fst c') = cd_Component d \<and> cd_OCI d \<noteq> None \<and> om_Namespace (fst c') = om_Namespace (rs_Meta r)"
  "c'' \<in> set (ManageComposition_DesiredChildren key r) \<Longrightarrow> \<exists>d \<in> set (co_Dependencies (cos_Composition (rs_Spec r))).
     IdentifyChild (fst c'') = cd_Component d \<and> cd_Composition d \<noteq> None \<and> om_Namespace (fst c'') = om_Namespace (rs_Meta r)"
  by (auto simp: ManageConfigStore_DesiredChildren_def ManageOci_DesiredChildren_def ManageComposition_DesiredChildren_def
      map_filter_def dependency_meta_def child_meta_def IdentifyChild_def split: option.splits)

lemma reflected_own:
  assumes c: "creates (cc_ConfigStores cc)" "creates (cc_Components cc)" "creates (cc_Compositions cc)"
    and one: "\<And>d. d \<in> set (co_Dependencies (cos_Composition (rs_Spec (rx_Resource s)))) \<Longrightarrow> one_source d"
    and reflected: "reflected cc ''wa8s.reconciler.io/composition'' s s'"
  shows "own_items cc (rx_Resource s) (rx_World s) (co_Dependencies (cos_Composition (rs_Spec (rx_Resource s'))))"
proof -
  let ?key = "''wa8s.reconciler.io/composition''" and ?r = "rx_Resource s"
  let ?deps = "co_Dependencies (cos_Composition (rs_Spec ?r))"
  obtain w1 rs1 e1 where 1: "cc_ConfigStores cc (ManageConfigStore_DesiredChildren ?key ?r) (rx_World s) = (w1, rs1, e1)" by (metis prod_cases3)
  obtain w2 rs2 e2 where 2: "cc_Components cc (ManageOci_DesiredChildren ?key ?r) w1 = (w2, rs2, e2)" by (metis prod_cases3)
  obtain w3 rs3 e3 where 3: "cc_Compositions cc (ManageComposition_DesiredChildren ?key ?r) w2 = (w3, rs3, e3)" by (metis prod_cases3)
  have res: "child_results cc ?key ?r (rx_World s) = (rs1, rs2, rs3)" by (simp add: child_results_def 1 2 3)
  let ?f = "\<lambda>d. refer ''Composition'' rs3 (refer ''Component'' rs2 (refer ''ConfigStore'' rs1 d))"
  have items: "co_Dependencies (cos_Composition (rs_Spec (rx_Resource s'))) = map ?f ?deps"
    using reflected unfolding reflected_def res by (simp only: prod.case)
  have own: "own_reference (rs1, rs2, rs3) ?r d (?f d)" if dist: "distinct (map cd_Component ?deps)" and d: "d \<in> set ?deps" for d
  proof -
    have x1: "cd_Config d \<noteq> None \<and> IdentifyChild m = cd_Component d \<and> om_Namespace m = om_Namespace (rs_Meta ?r)" if "(cd_Component d, Some m) \<in> set rs1" for m
      by (rule others_child [OF c(1) dist d, where cs = "ManageConfigStore_DesiredChildren ?key ?r" and w = "rx_World s"])
        (use that desired_of(1) in \<open>auto simp: 1\<close>)
    have x2: "cd_OCI d \<noteq> None \<and> IdentifyChild m = cd_Component d \<and> om_Namespace m = om_Namespace (rs_Meta ?r)" if "(cd_Component d, Some m) \<in> set rs2" for m
      by (rule others_child [OF c(2) dist d, where cs = "ManageOci_DesiredChildren ?key ?r" and w = w1])
        (use that desired_of(2) in \<open>auto simp: 2\<close>)
    have x3: "cd_Composition d \<noteq> None \<and> IdentifyChild m = cd_Component d \<and> om_Namespace m = om_Namespace (rs_Meta ?r)" if "(cd_Component d, Some m) \<in> set rs3" for m
      by (rule others_child [OF c(3) dist d, where cs = "ManageComposition_DesiredChildren ?key ?r" and w = w2])
        (use that desired_of(3) in \<open>auto simp: 3\<close>)
    have made: "cd_Config d \<noteq> None \<Longrightarrow> \<exists>m. (cd_Component d, Some m) \<in> set rs1" "cd_OCI d \<noteq> None \<Longrightarrow> \<exists>m. (cd_Component d, Some m) \<in> set rs2"
      "cd_Composition d \<noteq> None \<Longrightarrow> \<exists>m. (cd_Component d, Some m) \<in> set rs3"
      using desired_members(1) [OF d, of ?key] createsD(1) [OF c(1), of _ "ManageConfigStore_DesiredChildren ?key ?r" "rx_World s"]
        desired_members(2) [OF d, of ?key] createsD(1) [OF c(2), of _ "ManageOci_DesiredChildren ?key ?r" w1]
        desired_members(3) [OF d, of ?key] createsD(1) [OF c(3), of _ "ManageComposition_DesiredChildren ?key ?r" w2]
      by (fastforce simp: 1 2 3)+
    let ?d1 = "refer ''ConfigStore'' rs1 d" let ?d2 = "refer ''Component'' rs2 ?d1"
    note r1 = refer_ref [of "''ConfigStore''" rs1 d] and r2 = refer_ref [of "''Component''" rs2 ?d1, simplified]
      and r3 = refer_ref [of "''Composition''" rs3 ?d2, simplified]
    from one [OF d] consider "cd_Config d \<noteq> None" "cd_OCI d = None" "cd_Composition d = None"
      | "cd_Config d = None" "cd_OCI d \<noteq> None" "cd_Composition d = None" | "cd_Config d = None" "cd_OCI d = None" "cd_Composition d \<noteq> None"
      | "cd_Config d = None" "cd_OCI d = None" "cd_Composition d = None"
      by (auto simp: one_source_def split: if_splits)
    then show ?thesis
    proof cases
      case 1
      then have "cd_Ref (?f d) = cd_Ref ?d1" using r2 r3 x2 x3 by auto
      with 1 made(1) r1 x1 show ?thesis by (auto simp: own_reference_def from_child_def)
    next
      case 2
      then have "cd_Ref (?f d) = cd_Ref ?d2" using r3 x3 by auto
      with 2 made(2) r2 x2 show ?thesis by (auto simp: own_reference_def from_child_def)
    next
      case 3
      with made(3) r3 x3 show ?thesis by (auto simp: own_reference_def from_child_def)
    next
      case 4
      then have "cd_Ref (?f d) = cd_Ref d" using r1 r2 r3 x1 x2 x3 by auto
      with 4 show ?thesis by (simp add: own_reference_def)
    qed
  qed
  show ?thesis
    unfolding own_items_def Let_def res items
    by (auto simp: list_all2_map2 intro!: own list.rel_refl_strong)
qed

end
