(* ===== verification/Compose_Rules.thy ===== *)
theory Compose_Rules
  imports Compose_Children
begin

text \<open>
  What the controllers of container images and compositions promise: they never panic on a missing
  stashed value, set only their own conditions, publish what they built, and a composition is built
  from its dependencies in the order of its spec.
\<close>

section \<open>Building on a component\<close>

lemma wpe_with_resource [wpe_simps]: "wpe (with_resource x m) Q E s =
    wpe m (\<lambda>y t. Q y (s\<lparr>rx_Stash := rx_Stash t, rx_World := rx_World t\<rparr>))
      (\<lambda>t. E (s\<lparr>rx_Stash := rx_Stash t, rx_World := rx_World t\<rparr>))
      \<lparr>rx_Resource = x, rx_Marks = [], rx_Events = [], rx_Results = [], rx_Stash = rx_Stash s, rx_World = rx_World s\<rparr>"
  by (simp add: wpe_def with_resource_def split: go.split prod.split)

lemma wpe_bind_eta: "wpe (act_bind m f) Q E = wpe m (\<lambda>x. wpe (f x) Q E) E"
  by (simp add: fun_eq_iff wpe_bind)

lemma GenericComponentSpec_Default_Ret:
  obtains spec' where "GenericComponentSpec_Default c spec = Ret spec'"
  using RepositoryReference_Default_returns [of c "gs_RepositoryRef spec"]
  by (auto simp: GenericComponentSpec_Default_def returns_def)

lemma wpe_ready_component:
  assumes "calm cx"
    and "\<And>c0 c tr. ResolveComponentReference cx ref = Ret c0 \<Longrightarrow> rs_Status c = rs_Status c0 \<Longrightarrow>
      gst_Image (cdk_Generic (rs_Status c)) \<noteq> '''' \<Longrightarrow> \<not> fst (DetectTraceCycle tr obj) \<Longrightarrow>
      Q c (s\<lparr>rx_Stash := (rx_Stash s)\<lparr>st_Trace := Some tr\<rparr>\<rparr>)"
    and "\<And>s'. only_marks {ct} s s' \<Longrightarrow> rx_World s' = rx_World s \<Longrightarrow> E s'"
    and "\<And>tr Q' E' t. (\<And>r. Q' () (t\<lparr>rx_Resource := r\<rparr>)) \<Longrightarrow> wpe (reflect tr) Q' E' t"
  shows "wpe (ready_component cx obj reflect ct pos ref) Q E s"
proof (cases "ResolveComponentReference cx ref")
  case (Ret c)
  obtain sp where sp: "duck_span cx ref c = Ret sp" by (rule duck_span_Ret [OF assms(1)])
  obtain spec where spec: "GenericComponentSpec_Default (cx_ctx cx) (rs_Spec c) = Ret spec"
    by (rule GenericComponentSpec_Default_Ret)
  have E1: "E (s\<lparr>rx_Stash := st, rx_Marks := rx_Marks s @ [Mark ct b r m]\<rparr>)" for st b r m
    by (rule assms(3)) simp_all
  have E2: "E (s\<lparr>rx_Stash := st, rx_Marks := rx_Marks s @ [Mark ct b r m], rx_Resource := x\<rparr>)" for st b r m x
    by (rule assms(3)) simp_all
  show ?thesis
    using Ret sp spec assms(2) [OF Ret, of "c\<lparr>rs_Spec := spec\<rparr>"]
    by (auto simp: ready_component_def wpe_simps wpe_extend_trace [OF refl] Let_def E1 intro!: assms(4) E2)
next
  case (Fail e)
  then show ?thesis using assms(3) by (auto simp: ready_component_def wpe_simps Let_def)
next
  case (Panic m)
  with quiet_ResolveComponentReference [OF assms(1), of ref] show ?thesis by simp
qed

lemma wpe_component_keychain:
  assumes "calm cx"
    and "\<And>kc tag. Q kc (s\<lparr>rx_Stash := (rx_Stash s)\<lparr>st_Keychain := Some kc, st_Tag := Some tag\<rparr>\<rparr>)"
    and "\<And>kc tag. E (s\<lparr>rx_Stash := (rx_Stash s)\<lparr>st_Keychain := kc\<rparr>\<rparr>)"
  shows "wpe (component_keychain cx ct ref component) Q E s"
proof -
  have q: "quiet_go (cx_GVKFor cx ''ComponentDuck'' (ComponentReference_TypeMeta ref))"
    by (rule quiet_returns [OF calmD(9) [OF assms(1)]])
  show ?thesis
    unfolding component_keychain_def wpe_simps
    by (rule wpe_ResolveRepository [OF assms(1) q]) (use assms(2,3) in \<open>auto simp: wpe_simps stashers\<close>)
qed

section \<open>Container images\<close>

text \<open>What is pulled for a reference: the digest its component publishes, from the registries \<open>w\<close>.\<close>

definition pulled_component :: "('kc, 'd, 't, 'desc, 'sec, 'w) cluster \<Rightarrow> ComponentReference \<Rightarrow> 'w \<Rightarrow> string \<Rightarrow> WasmConfigFile \<Rightarrow> bool" where
  "pulled_component cx ref w component cfg \<longleftrightarrow> (\<exists>c d kc. ResolveComponentReference cx ref = Ret c \<and>
     lib_NewDigest (cx_lib cx) (gst_Image (cdk_Generic (rs_Status c))) = Ret d \<and>
     Pull (cx_lib cx) (cx_remote cx) kc d w = Ret (component, cfg))"

lemma wpe_ResolveComponent:
  assumes "calm cx"
    and "\<And>s' component cfg. only_marks {''ComponentPulled''} s s' \<Longrightarrow> Mark ''ComponentPulled'' CTrue ''Resolved'' '''' \<in> set (rx_Marks s') \<Longrightarrow>
      st_Component (rx_Stash s') = Some component \<Longrightarrow> st_Config (rx_Stash s') = Some cfg \<Longrightarrow>
      pulled_component cx (cci_Ref (rs_Spec (rx_Resource s))) (rx_World s) component cfg \<Longrightarrow> st_Keychain (rx_Stash s') = None \<Longrightarrow>
      rx_Resource s' = rx_Resource s \<Longrightarrow> rx_World s' = rx_World s \<Longrightarrow> Q () s'"
    and "\<And>s'. only_marks {''ComponentPulled''} s s' \<Longrightarrow> E s'"
  shows "wpe (ResolveComponent cx) Q E s"
proof -
  let ?ref = "cci_Ref (rs_Spec (rx_Resource s))"
  have pull: "wpe (act_then (stash_Clear RepositoryKeychainStasher)
       (act_try (lib_NewDigest (cx_lib cx) img) act_fail (\<lambda>digest.
        act_registry_try (Pull (cx_lib cx) (cx_remote cx) kc digest) act_fail (\<lambda>(componentBytes, config).
        act_then (mark_as ''ComponentPulled'' CTrue ''Resolved'' [])
          (act_then (stash_Store ComponentStasher componentBytes)
             (stash_Store ComponentConfigStasher config)))))) Q E (s\<lparr>rx_Stash := st\<rparr>)"
    if c: "ResolveComponentReference cx ?ref = Ret c" "img = gst_Image (cdk_Generic (rs_Status c))" for img kc st c
  proof -
    have q: "quiet_go (lib_NewDigest (cx_lib cx) img)" by (intro calm_libD calmD assms(1))
    show ?thesis
    proof (cases "lib_NewDigest (cx_lib cx) img")
      case (Ret d)
      have q2: "quiet_go (Pull (cx_lib cx) (cx_remote cx) kc d (rx_World s))" by (intro quiet_Pull calmD assms(1))
      show ?thesis
      proof (cases "Pull (cx_lib cx) (cx_remote cx) kc d (rx_World s)")
        case p: (Ret x)
        obtain component cfg where x: "x = (component, cfg)" by (cases x)
        with p c Ret have "pulled_component cx ?ref (rx_World s) component cfg" by (auto simp: pulled_component_def)
        with Ret p x assms(2) [of _ component cfg] show ?thesis by (simp add: wpe_simps stashers)
      qed (use Ret q2 assms(3) in \<open>simp_all add: wpe_simps stashers\<close>)
    qed (use q assms(3) in \<open>simp_all add: wpe_simps stashers\<close>)
  qed
  have E: "E (s\<lparr>rx_Stash := st\<rparr>)" for st by (rule assms(3)) simp
  have "wpe (ready_component cx (rs_Meta (rx_Resource s)) (\<lambda>sanitized. set_resource (CCI_put_trace sanitized)) ''ComponentPulled'' [] ?ref)
     (\<lambda>component. wpe (component_keychain cx ''ComponentPulled'' ?ref component) (\<lambda>kc. wpe (act_then (stash_Clear RepositoryKeychainStasher)
       (act_try (lib_NewDigest (cx_lib cx) (gst_Image (cdk_Generic (rs_Status component)))) act_fail (\<lambda>digest.
        act_registry_try (Pull (cx_lib cx) (cx_remote cx) kc digest) act_fail (\<lambda>(componentBytes, config).
        act_then (mark_as ''ComponentPulled'' CTrue ''Resolved'' [])
          (act_then (stash_Store ComponentStasher componentBytes)
             (stash_Store ComponentConfigStasher config)))))) Q E) E) E s"
  proof (rule wpe_ready_component [OF assms(1)], goal_cases)
    case (1 c0 c tr)
    then have img: "gst_Image (cdk_Generic (rs_Status c)) = gst_Image (cdk_Generic (rs_Status c0))" by simp
    show ?case
    proof (rule wpe_component_keychain [OF assms(1)], goal_cases)
      case (1 kc tag)
      from pull [OF \<open>ResolveComponentReference cx ?ref = Ret c0\<close> img, where kc = kc and
          st = "(rx_Stash s)\<lparr>st_Trace := Some tr, st_Keychain := Some kc, st_Tag := Some tag\<rparr>"]
      show ?case by simp
    qed (simp add: E)
  qed (simp_all add: assms(3) wpe_set)
  then show ?thesis
    by (simp add: ResolveComponent_def wpe_bind_eta wpe_get Let_def)
qed

lemma image_span_Ret:
  assumes "calm cx"
  obtains sp where "SynthesizeSpan (digest_part (cx_lib cx)) (cx_GVKFor cx n t) m src = Ret sp"
proof -
  obtain g where "cx_GVKFor cx n t = Ret g" by (rule returnsE [OF calmD(9) [OF assms]])
  then show ?thesis using that by (cases src) (simp_all add: SynthesizeSpan_def)
qed

text \<open>The digest a ready image beside the resource publishes.\<close>

definition base_image :: "('kc, 'd, 't, 'desc, 'sec, 'w) cluster \<Rightarrow> string \<Rightarrow> ImageReference \<Rightarrow> 'd \<Rightarrow> bool" where
  "base_image cx ns ref d \<longleftrightarrow> (\<exists>img. fetch_image cx ns ref = Ret img \<and>
     om_Generation (rs_Meta img) = as_ObservedGeneration (ist_Status (rs_Status img)) \<and>
     cl_IsTrue (cx_conds cx) (cl_Get (cx_conds cx) (ImageStatus_InitializeConditions (cx_conds cx) (ist_Status (rs_Status img))) ''Ready'') \<and>
     cx_NewDigestStrict cx (ist_Image (rs_Status img)) = Ret d)"

lemma default_image_status: "default_image c ref img = Ret img' \<Longrightarrow> rs_Status img' = rs_Status img"
  by (auto simp: default_image_def Image_Default_def ClusterImage_Default_def bind_go_eq_Ret Let_def split: if_splits)

lemma wpe_ResolveImage:
  assumes "calm cx" "\<And>tr. returns (reflect tr (rx_Resource s))"
    and "\<And>tr kc d. base_image cx (om_Namespace (meta (rx_Resource s))) (iref (rx_Resource s)) d \<Longrightarrow>
      \<not> fst (DetectTraceCycle tr (meta (rx_Resource s))) \<Longrightarrow>
      Q () (s\<lparr>rx_Stash := (rx_Stash s)\<lparr>st_Trace := Some tr, st_Keychain := Some kc, st_RemoteImage := Some d\<rparr>,
      rx_Marks := rx_Marks s @ [Mark ct CTrue ''Ready'' '''']\<rparr>)"
    and "\<And>s'. only_marks {ct} s s' \<Longrightarrow> E s'"
  shows "wpe (ResolveImage cx meta iref reflect ct) Q E s"
proof -
  let ?ref = "iref (rx_Resource s)" and ?ns = "om_Namespace (meta (rx_Resource s))"
  have q: "quiet_go (fetch_image cx ?ns ?ref)" by (rule calmD(11) [OF assms(1)])
  note ready = wpe_check_ready [OF calmD(5) [OF assms(1)], of "ImageStatus_InitializeConditions (cx_conds cx)" ImageConditions,
      unfolded ImageStatus_InitializeConditions_def, OF refl]
  have E: "E (s\<lparr>rx_Stash := st\<rparr>)" "E (s\<lparr>rx_Stash := st, rx_Marks := rx_Marks s @ [Mark ct a b c]\<rparr>)"
    "E (s\<lparr>rx_Stash := st, rx_Marks := rx_Marks s @ [Mark ct a b c], rx_Resource := x\<rparr>)"
    "E (s\<lparr>rx_Marks := rx_Marks s @ [Mark ct a b c]\<rparr>)" "E s" for st a b c x
    by (rule assms(4); simp)+
  show ?thesis
  proof (cases "fetch_image cx ?ns ?ref")
    case (Ret img)
    obtain sp where sp: "SynthesizeSpan (digest_part (cx_lib cx))
        (cx_GVKFor cx (if ir_Kind ?ref = ''ClusterImage'' then ''ClusterImage'' else ''Image'') ([], []))
        (rs_Meta img) (cx_Convert cx img) = Ret sp" by (rule image_span_Ret [OF assms(1)])
    obtain img' where img': "default_image (cx_ctx cx) ?ref img = Ret img'" by (rule returnsE [OF returns_default_image])
    have rest: "wpe (use_repository cx ct ?ns (is_RepositoryRef (rs_Spec img')))
        (\<lambda>_. wpe (act_try (cx_NewDigestStrict cx (ist_Image (rs_Status img'))) act_fail
          (\<lambda>imageDigest. act_then (stash_Store RemoteImageStasher imageDigest) (mark_as ct CTrue ''Ready'' []))) Q E) E
        (s\<lparr>rx_Stash := (rx_Stash s)\<lparr>st_Trace := Some tr\<rparr>\<rparr>)"
      if tr: "\<not> fst (DetectTraceCycle tr (meta (rx_Resource s)))"
        and ready: "om_Generation (rs_Meta img) = as_ObservedGeneration (ist_Status (rs_Status img))"
          "cl_IsTrue (cx_conds cx) (cl_Get (cx_conds cx) (ImageStatus_InitializeConditions (cx_conds cx) (ist_Status (rs_Status img))) ''Ready'')"
      for tr
    proof (rule wpe_use_repository [OF assms(1)], goal_cases)
      case (1 r0 r kc)
      have "quiet_go (cx_NewDigestStrict cx (ist_Image (rs_Status img')))" by (rule calmD(4) [OF assms(1)])
      moreover have "base_image cx ?ns ?ref d" if "cx_NewDigestStrict cx (ist_Image (rs_Status img')) = Ret d" for d
        using Ret ready that default_image_status [OF img'] by (auto simp: base_image_def)
      ultimately show ?case
        using assms(3) tr E by (cases "cx_NewDigestStrict cx (ist_Image (rs_Status img'))") (simp_all add: wpe_simps stashers)
    next
      case 2
      show ?case by (rule E)
    next
      case (3 mk)
      then show ?case by (intro assms(4)) simp
    qed
    have refl': "wpe (case reflect tr (rx_Resource s) of Ret r \<Rightarrow> set_resource (\<lambda>_. r)
        | Fail err \<Rightarrow> act_lift (Panic (cx_errText cx err)) | Panic m \<Rightarrow> act_lift (Panic m)) (\<lambda>_. E) E
        (s\<lparr>rx_Stash := st, rx_Marks := rx_Marks s @ [Mark ct a b c]\<rparr>)" for tr st a b c
      using assms(2) [of tr] E by (auto simp: returns_def wpe_simps)
    show ?thesis
      using Ret sp img' rest [unfolded ImageStatus_InitializeConditions_def] refl' E
      by (simp add: ResolveImage_def wpe_simps wpe_bind_eta wpe_extend_trace [OF refl] ready ImageStatus_InitializeConditions_def Let_def)
  qed (use q E in \<open>auto simp: ResolveImage_def wpe_simps Let_def\<close>)
qed

text \<open>The library for indexes does not panic either.\<close>

definition calm_index :: "('plat, 'img, 'layer, 'd, 't, 'k, 'w) index_lib \<Rightarrow> bool" where
  "calm_index ix \<longleftrightarrow> (\<forall>k b w. quiet_go (ix_Get ix k b w) \<and> (\<forall>desc. ix_Get ix k b w = Ret desc \<longrightarrow>
       quiet_go (bd_ImageIndex desc) \<and> quiet_go (bd_IndexManifest desc) \<and> (\<forall>d. quiet_go (bd_Image desc d)))) \<and>
     (\<forall>c. quiet_go (tw_header (ix_tar ix) c) \<and> quiet_go (tw_copy (ix_tar ix) c) \<and> quiet_go (tw_close (ix_tar ix) c)) \<and>
     (\<forall>i l. quiet_go (ix_AppendLayers ix i l)) \<and> (\<forall>k t as w. quiet_go (snd (ix_WriteIndex ix k t as w))) \<and>
     (\<forall>as. quiet_go (ix_Digest ix as))"

lemma quiet_AppendComponent:
  assumes "calm_lib lib" "calm_remote rm" "calm_index ix"
  shows "quiet_go (snd (AppendComponent lib rm ix k b t c w))"
proof -
  note ix = assms(3) [unfolded calm_index_def]
  have layer: "quiet_go (componentAsLayer (ix_tar ix) (ix_newLayer ix) c)"
    using ix by (simp add: componentAsLayer_def)
  have entry: "quiet_go (append_entry (bd_Image desc) (ix_AppendLayers ix) l m)" if "ix_Get ix k b w = Ret desc" for desc l m
    using ix that by (simp add: append_entry_def)
  have "quiet_go (appended_images lib ix k b c w)"
    using ix layer entry by (auto simp: appended_images_def intro!: quiet_mapM)
  then show ?thesis
    using ix by (auto simp: AppendComponent_def case_prod_unfold Let_def calm_libD [OF assms(1)] calm_remoteD [OF assms(2)])
qed

lemma wpe_AppendComponent:
  assumes "calm cx" "calm_index ix"
    and "st_Keychain (rx_Stash s) = Some kc" "st_Tag (rx_Stash s) = Some tag" "st_Component (rx_Stash s) = Some component"
      "st_RemoteImage (rx_Stash s) = Some img"
    and "\<And>w d. AppendComponent (cx_lib cx) (cx_remote cx) ix kc (RefDigest img) tag component (rx_World s) = (w, Ret d) \<Longrightarrow>
      Q () (s\<lparr>rx_World := w, rx_Marks := rx_Marks s @ [Mark ''Pushed'' CTrue ''Pushed'' ''''],
        rx_Stash := (rx_Stash s)\<lparr>st_Digest := Some d\<rparr>\<rparr>)"
    and "\<And>w. E (s\<lparr>rx_World := w\<rparr>)"
  shows "wpe (AppendComponent_Sync cx ix) Q E s"
proof -
  let ?run = "AppendComponent (cx_lib cx) (cx_remote cx) ix kc (RefDigest img) tag component (rx_World s)"
  have q: "quiet_go (snd ?run)" by (intro quiet_AppendComponent calmD assms(1,2))
  obtain w g where "?run = (w, g)" by (cases ?run)
  with q assms(3-8) show ?thesis
    by (cases g) (auto simp: AppendComponent_Sync_def wpe_simps stashers)
qed

text \<open>
  A request that began with registries \<open>w\<close> and left \<open>w'\<close> appended the component the spec refers to, pulled at the
  digest this component publishes, to every image of the base image of the spec, and wrote the index of these images to
  the tag of the resource in its repository; the status names the digest of the index and the imports and exports of the
  component.
\<close>

definition publishes_container :: "('kc, 'd, 't, 'desc, 'sec, 'w) cluster \<Rightarrow> GroupVersionKind go \<Rightarrow>
    ('plat, 'img, 'layer, 'd, 't, 'kc, 'w) index_lib \<Rightarrow> ComponentContainerImage \<Rightarrow> 'w \<Rightarrow> 'w \<Rightarrow> GenericComponentStatus \<Rightarrow> bool" where
  "publishes_container cx gvk ix r w w' st \<longleftrightarrow> (\<exists>component cfg img tag kc adds dg d.
     pulled_component cx (cci_Ref (rs_Spec r)) w component cfg \<and>
     base_image cx (om_Namespace (rs_Meta r)) (cci_ImageRef (rs_Spec r)) img \<and>
     target_tag cx gvk (rs_Meta r) (gs_RepositoryRef (cci_Generic (rs_Spec r))) tag \<and>
     index_over (cx_lib cx) ix kc (RefDigest img) component w adds \<and> ix_WriteIndex ix kc tag adds w = (w', Ret ()) \<and>
     ix_Digest ix adds = Ret dg \<and> lib_NewDigest (cx_lib cx) (at_digest (lib_TagRepository (cx_lib cx) tag) dg) = Ret d \<and>
     gst_Image st = lib_DigestName (cx_lib cx) d \<and>
     gst_WIT st = Some \<lparr>wit_Imports = wcc_Imports (wc_Component cfg), wit_Exports = wcc_Exports (wc_Component cfg)\<rparr>)"

lemma publishes_containerI:
  "pulled_component cx (cci_Ref (rs_Spec r)) w component cfg \<Longrightarrow>
   base_image cx (om_Namespace (rs_Meta r)) (cci_ImageRef (rs_Spec r)) img \<Longrightarrow>
   target_tag cx gvk (rs_Meta r) (gs_RepositoryRef (cci_Generic (rs_Spec r))) tag \<Longrightarrow>
   index_over (cx_lib cx) ix kc (RefDigest img) component w adds \<Longrightarrow> ix_WriteIndex ix kc tag adds w = (w', Ret ()) \<Longrightarrow>
   ix_Digest ix adds = Ret dg \<Longrightarrow> lib_NewDigest (cx_lib cx) (at_digest (lib_TagRepository (cx_lib cx) tag) dg) = Ret d \<Longrightarrow>
   publishes_container cx gvk ix r w w' (st\<lparr>gst_Image := lib_DigestName (cx_lib cx) d, gst_Trace := tr,
     gst_WIT := Some \<lparr>wit_Imports = wcc_Imports (wc_Component cfg), wit_Exports = wcc_Exports (wc_Component cfg)\<rparr>\<rparr>)"
  unfolding publishes_container_def
  by (rule exI [of _ component], rule exI [of _ cfg], rule exI [of _ img], rule exI [of _ tag], rule exI [of _ kc],
      rule exI [of _ adds], rule exI [of _ dg], rule exI [of _ d]) simp

lemma only_marks_widen: "only_marks cs s s' \<Longrightarrow> only_marks {c} s' s'' \<Longrightarrow> c \<in> cs \<Longrightarrow> only_marks cs s s''"
  by (auto simp: only_marks_def image_subset_iff)

lemma returns_ReflectTrace: "returns (ReflectTrace (Some ck) patch tr r)"
  by (simp add: ReflectTrace_def returns_def)

lemma keeps_ResolveImage:
  assumes "calm cx" "\<And>tr r. returns (reflect tr r)" "ct \<in> cs"
  shows "keeps (only_marks cs s) (ResolveImage cx meta iref reflect ct)"
  unfolding keeps_def
proof (intro allI impI wpe_ResolveImage [OF assms(1,2)])
  fix s1 assume s1: "only_marks cs s s1"
  { fix tr kc d
    assume "base_image cx (om_Namespace (meta (rx_Resource s1))) (iref (rx_Resource s1)) d"
    show "only_marks cs s (s1\<lparr>rx_Stash := (rx_Stash s1)\<lparr>st_Trace := Some tr, st_Keychain := Some kc, st_RemoteImage := Some d\<rparr>,
      rx_Marks := rx_Marks s1 @ [Mark ct CTrue ''Ready'' '''']\<rparr>)"
      using s1 assms(3) by (auto simp: only_marks_def) }
  fix s' assume "only_marks {ct} s1 s'"
  with s1 assms(3) show "only_marks cs s s'" by (blast intro: only_marks_widen)
qed

lemma wpe_cci_pipeline:
  fixes s :: "(ComponentContainerImage, 'kc, 'd, 't, 'w) rstate"
  assumes "calm cx" "quiet_go gvk" "sequences sq" "calls_all al" "calm_index ix"
  defines "cs \<equiv> set ComponentContainerImageConditions"
  shows "wpe (ComponentContainerImageReconciler sq al cx gvk patch ix)
    (\<lambda>_ s'. only_marks cs s s' \<and> Mark ''ComponentPulled'' CTrue ''Resolved'' '''' \<in> set (rx_Marks s') \<and>
       Mark ''Pushed'' CTrue ''Pushed'' '''' \<in> set (rx_Marks s') \<and>
       publishes_container cx gvk ix (rx_Resource s) (rx_World s) (rx_World s') (rs_Status (rx_Resource s')) \<and>
       \<not> fst (DetectTraceCycle (gst_Trace (rs_Status (rx_Resource s'))) (rs_Meta (rx_Resource s))))
    (only_marks cs s) s"
    (is "wpe _ ?Q ?E s")
proof -
  let ?ck = "ComponentContainerImage_ComponentLike gvk"
  let ?img = "ResolveImage cx rs_Meta ComponentContainerImage_GetImageReference (ReflectTrace (Some ?ck) patch) ''ImageReady''"
  let ?repo = "ResolveRepository cx rs_Meta gvk ComponentContainerImage_GetRepositoryReference ''RepositoryReady''"
  let ?rest = "\<lambda>_. wpe (AppendComponent_Sync cx ix) (\<lambda>_. wpe (ReflectComponentableStatus cx ?ck) ?Q ?E) ?E"
  let ?r = "rx_Resource s"
  let ?I = "\<lambda>component cfg s1. ?E s1 \<and> Mark ''ComponentPulled'' CTrue ''Resolved'' '''' \<in> set (rx_Marks s1) \<and>
      rx_Resource s1 = ?r \<and> rx_World s1 = rx_World s \<and>
      st_Component (rx_Stash s1) = Some component \<and> st_Config (rx_Stash s1) = Some cfg \<and>
      pulled_component cx (cci_Ref (rs_Spec ?r)) (rx_World s) component cfg"
  let ?J = "\<lambda>img s1. st_RemoteImage (rx_Stash s1) = Some img \<and> base_image cx (om_Namespace (rs_Meta ?r)) (cci_ImageRef (rs_Spec ?r)) img \<and>
      (\<exists>tr. st_Trace (rx_Stash s1) = Some tr \<and> \<not> fst (DetectTraceCycle tr (rs_Meta ?r)))"
  have cs: "''ComponentPulled'' \<in> cs" "''ImageReady'' \<in> cs" "''RepositoryReady'' \<in> cs" "''Pushed'' \<in> cs"
    by (simp_all add: cs_def ComponentContainerImageConditions_def)
  have k1: "keeps ?E ?img" by (rule keeps_ResolveImage [OF assms(1) returns_ReflectTrace cs(2)])
  have k2: "keeps ?E ?repo" by (rule keeps_ResolveRepository [OF assms(1,2) cs(3)])
  have rest: "?rest () s1" if I: "?I component cfg s1" and J: "?J img s1"
      and st: "st_Keychain (rx_Stash s1) = Some kc" "st_Tag (rx_Stash s1) = Some tag"
        "target_tag cx gvk (rs_Meta ?r) (gs_RepositoryRef (cci_Generic (rs_Spec ?r))) tag"
    for s1 component cfg kc tag img
  proof (rule wpe_AppendComponent [where component = component and img = img, OF assms(1,5) st(1,2)], goal_cases)
    case (3 w d)
    from AppendComponent_images [OF 3] obtain adds dg where new:
      "index_over (cx_lib cx) ix kc (RefDigest img) component (rx_World s1) adds" "ix_WriteIndex ix kc tag adds (rx_World s1) = (w, Ret ())"
      "ix_Digest ix adds = Ret dg" "lib_NewDigest (cx_lib cx) (at_digest (lib_TagRepository (cx_lib cx) tag) dg) = Ret d" by blast
    have "publishes_container cx gvk ix ?r (rx_World s) w (st\<lparr>gst_Image := lib_DigestName (cx_lib cx) d, gst_Trace := tr,
       gst_WIT := Some \<lparr>wit_Imports = wcc_Imports (wc_Component cfg), wit_Exports = wcc_Exports (wc_Component cfg)\<rparr>\<rparr>)" for st tr
      by (rule publishes_containerI [where component = component and img = img and tag = tag and kc = kc and adds = adds and dg = dg])
        (use I J st new in simp_all)
    note pub = this
    have m: "only_marks cs s (s1\<lparr>rx_World := w, rx_Marks := rx_Marks s1 @ [Mark ''Pushed'' CTrue ''Pushed'' ''''], rx_Stash := st, rx_Resource := r\<rparr>)"
      for st r by (rule only_marks_widen [OF conjunct1 [OF I], of "''Pushed''"]) (simp_all add: cs)
    from I J show ?case
      by (auto simp: wpe_ReflectComponentableStatus ComponentContainerImage_ComponentLike_def pub m)
  next
    case (4 w) show ?case using I by (simp cong: only_marks_cong)
  qed (use I J in simp_all)
  have repo: "wpe ?repo ?rest ?E s1" if I: "?I component cfg s1" and J: "?J img s1" for s1 component cfg img
  proof (rule wpe_target [OF assms(1,2)], goal_cases)
    case (1 kc tag)
    let ?s2 = "s1\<lparr>rx_Stash := (rx_Stash s1)\<lparr>st_Keychain := Some kc, st_Tag := Some tag\<rparr>,
      rx_Marks := rx_Marks s1 @ [Mark ''RepositoryReady'' CTrue ''Ready'' '''']\<rparr>"
    have "?I component cfg ?s2" "?J img ?s2" using I J cs(3) by (auto simp: only_marks_def)
    moreover have "st_Keychain (rx_Stash ?s2) = Some kc" "st_Tag (rx_Stash ?s2) = Some tag" by simp_all
    moreover have "target_tag cx gvk (rs_Meta ?r) (gs_RepositoryRef (cci_Generic (rs_Spec ?r))) tag"
      using 1 I by (simp add: ComponentContainerImage_GetRepositoryReference_def)
    ultimately show ?case by (rule rest)
  next
    case (2 new kc)
    then show ?case using I cs by (auto simp: only_marks_def)
  qed
  have one: "wpe ?repo (\<lambda>_. ?E) ?E s1" if "?E s1" for s1 using k2 that by (simp add: keeps_def)
  have img: "wpe ?img (\<lambda>_. wpe ?repo ?rest ?E) (wpe ?repo (\<lambda>_. ?E) ?E) s1" if I: "?I component cfg s1" for s1 component cfg
  proof (rule wpe_ResolveImage [OF assms(1) returns_ReflectTrace], goal_cases)
    case (1 tr kc d)
    let ?s2 = "s1\<lparr>rx_Stash := (rx_Stash s1)\<lparr>st_Trace := Some tr, st_Keychain := Some kc, st_RemoteImage := Some d\<rparr>,
      rx_Marks := rx_Marks s1 @ [Mark ''ImageReady'' CTrue ''Ready'' '''']\<rparr>"
    have "?I component cfg ?s2" using I cs(2) by (auto simp: only_marks_def)
    moreover have "?J d ?s2" using 1 I by (simp add: ComponentContainerImage_GetImageReference_def)
    ultimately show ?case by (rule repo)
  next
    case (2 s')
    have "?E s'" by (rule only_marks_widen [OF conjunct1 [OF I] 2 cs(2)])
    then show ?case by (rule one)
  qed
  have eta: "wpe (sq []) ?Q ?E = ?Q ()" "wpe (al []) Q' E' = Q' ()" for Q' E'
    using wpe_sequence(1) [OF assms(3)] wpe_always(1) [OF assms(4)] by (auto simp: fun_eq_iff)
  show ?thesis
    unfolding ComponentContainerImageReconciler_def Let_def wpe_sequence(2) [OF assms(3)] wpe_always(2) [OF assms(4)] eta
  proof (rule wpe_ResolveComponent [OF assms(1)], goal_cases)
    case (1 s' component cfg)
    then have "?I component cfg s'" using cs(1) by (auto simp: only_marks_def image_subset_iff)
    then show ?case by (rule img)
  next
    case (2 s')
    then have "?E s'" using cs by (auto simp: only_marks_def image_subset_iff)
    with k1 have "wpe ?img (\<lambda>_. ?E) ?E s'" by (simp add: keeps_def)
    then show ?case by (rule wpe_mono) (auto intro: one)
  qed
qed

section \<open>The dependencies of a composition\<close>

lemma wpe_sequence_list:
  assumes "sequences sq" "I 0 s"
    and "\<And>j s. j < length hs \<Longrightarrow> I j s \<Longrightarrow> wpe (hs ! j) (\<lambda>_. I (Suc j)) E s"
  shows "wpe (sq hs) (\<lambda>_. I (length hs)) E s"
  using assms(2,3)
proof (induction hs arbitrary: I s)
  case (Cons h hs)
  have "wpe h (\<lambda>_. I (Suc 0)) E s" using Cons.prems(1) Cons.prems(2) [of 0] by simp
  then show ?case
    unfolding wpe_sequence(2) [OF assms(1)]
  proof (rule wpe_mono)
    fix s' assume "I (Suc 0) s'"
    from Cons.IH [of "\<lambda>j. I (Suc j)", OF this] Cons.prems(2) [of "Suc j" for j]
    show "wpe (sq hs) (\<lambda>_. I (length (h # hs))) E s'" by simp
  qed
qed (simp add: wpe_sequence(1) [OF assms(1)])

text \<open>What a dependency is resolved to: the component pulled from the registries \<open>w\<close> at the image its reference publishes.\<close>

definition resolved_as :: "('kc, 'd, 't, 'desc, 'sec, 'w) cluster \<Rightarrow> 'w \<Rightarrow> 'comp CompositionDependency \<Rightarrow> 'd ResolvedComponent \<Rightarrow> bool" where
  "resolved_as cx w item rc \<longleftrightarrow> rc_Name rc = cd_Component item \<and> (\<exists>ref c kc cfg. cd_Ref item = Some ref \<and>
     ResolveComponentReference cx ref = Ret c \<and> lib_NewDigest (cx_lib cx) (gst_Image (cdk_Generic (rs_Status c))) = Ret (rc_Image rc) \<and>
     Pull (cx_lib cx) (cx_remote cx) kc (rc_Image rc) w = Ret (rc_Component rc, cfg) \<and>
     gst_WIT (cdk_Generic (rs_Status c)) = Some (rc_WIT rc))"

text \<open>Components that publish an image publish its imports and exports beside it.\<close>

definition publishes_wit :: "('kc, 'd, 't, 'desc, 'sec, 'w) cluster \<Rightarrow> bool" where
  "publishes_wit cx \<longleftrightarrow> (\<forall>t k c. cx_Component cx t k = Ret c \<longrightarrow> gst_Image (cdk_Generic (rs_Status c)) \<noteq> '''' \<longrightarrow>
     gst_WIT (cdk_Generic (rs_Status c)) \<noteq> None)"

lemma publishes_witD:
  "publishes_wit cx \<Longrightarrow> ResolveComponentReference cx ref = Ret c \<Longrightarrow> gst_Image (cdk_Generic (rs_Status c)) \<noteq> '''' \<Longrightarrow>
   \<exists>w. gst_WIT (cdk_Generic (rs_Status c)) = Some w"
proof -
  assume *: "publishes_wit cx" "ResolveComponentReference cx ref = Ret c" "gst_Image (cdk_Generic (rs_Status c)) \<noteq> ''''"
  from *(2) have "cx_Component cx (ComponentReference_TypeMeta ref) (ComponentReference_NamespacedName ref) = Ret c"
    by (auto simp: ResolveComponentReference_def split: go.splits if_splits)
  with * show ?thesis by (simp add: publishes_wit_def del: split_paired_All)
qed

lemma wpe_ResolveDependency:
  assumes "calm cx" "publishes_wit cx" "cd_Ref item = Some ref"
    and "\<And>s' rc. only_marks {''DependenciesResolved''} s s' \<Longrightarrow> rx_Resource s' = rx_Resource s \<Longrightarrow> rx_World s' = rx_World s \<Longrightarrow>
      resolved_as cx (rx_World s) item rc \<Longrightarrow>
      st_Dependencies (rx_Stash s') = Some ((case st_Dependencies (rx_Stash s) of None \<Rightarrow> [] | Some ds \<Rightarrow> ds) @ [rc]) \<Longrightarrow> Q () s'"
    and "\<And>s'. only_marks {''DependenciesResolved''} s s' \<Longrightarrow> E s'"
  shows "wpe (ResolveDependency cx i n item) Q E s"
proof -
  let ?ds = "case st_Dependencies (rx_Stash s) of None \<Rightarrow> [] | Some ds \<Rightarrow> ds"
  let ?pull = "\<lambda>component keychain. act_try (lib_NewDigest (cx_lib cx) (gst_Image (cdk_Generic (rs_Status component)))) act_fail (\<lambda>digest.
     act_registry_try (Pull (cx_lib cx) (cx_remote cx) keychain digest) act_fail (\<lambda>(componentBytes, config).
     act_bind (stash_RetrieveOrEmpty CompositionDependenciesStasher) (\<lambda>dependencies.
     act_bind (act_lift (case gst_WIT (cdk_Generic (rs_Status component)) of
         None \<Rightarrow> Panic ''nil pointer dereference'' | Some w \<Rightarrow> Ret w)) (\<lambda>w.
     act_then (stash_Store CompositionDependenciesStasher (dependencies @
          [\<lparr>rc_Name = cd_Component item, rc_Image = digest, rc_Component = componentBytes, rc_WIT = w\<rparr>]))
       (mark_as ''DependenciesResolved'' CTrue ''Resolved'' (''resolved '' @ fmt_d (int i + 1) @ '' component dependencies''))))))"
  have E: "E (s\<lparr>rx_Stash := st\<rparr>)" for st by (rule assms(5)) simp
  have pull: "wpe (?pull c kc) Q E (s\<lparr>rx_Stash := st\<rparr>)"
    if c: "ResolveComponentReference cx ref = Ret c0" "rs_Status c = rs_Status c0" "gst_Image (cdk_Generic (rs_Status c)) \<noteq> ''''"
      and st: "st_Dependencies st = st_Dependencies (rx_Stash s)" for c0 c kc st
  proof -
    from publishes_witD [OF assms(2) c(1)] c(2,3) obtain w where w: "gst_WIT (cdk_Generic (rs_Status c0)) = Some w" by auto
    have q: "quiet_go (lib_NewDigest (cx_lib cx) (gst_Image (cdk_Generic (rs_Status c0))))" by (intro calm_libD calmD assms(1))
    show ?thesis
    proof (cases "lib_NewDigest (cx_lib cx) (gst_Image (cdk_Generic (rs_Status c0)))")
      case d: (Ret d)
      have q2: "quiet_go (Pull (cx_lib cx) (cx_remote cx) kc d (rx_World s))" by (intro quiet_Pull calmD assms(1))
      show ?thesis
      proof (cases "Pull (cx_lib cx) (cx_remote cx) kc d (rx_World s)")
        case p: (Ret x)
        obtain b cfg where x: "x = (b, cfg)" by (cases x)
        let ?rc = "\<lparr>rc_Name = cd_Component item, rc_Image = d, rc_Component = b, rc_WIT = w\<rparr>"
        have "resolved_as cx (rx_World s) item ?rc"
          unfolding resolved_as_def using assms(3) c(1) d p x w by auto
        with d p x w c(2) st show ?thesis
          by (auto simp: wpe_simps stashers intro!: assms(4) [of _ ?rc])
      qed (use d q2 c(2) E in \<open>simp_all add: wpe_simps\<close>)
    qed (use q c(2) E in \<open>simp_all add: wpe_simps\<close>)
  qed
  have "wpe (ready_component cx (rs_Meta (rx_Resource s)) (\<lambda>sanitized. set_resource (put_component_trace sanitized))
        ''DependenciesResolved'' (position i n) ref)
      (\<lambda>c. wpe (component_keychain cx ''DependenciesResolved'' ref c) (\<lambda>kc. wpe (?pull c kc) Q E) E) E s"
  proof (rule wpe_ready_component [OF assms(1)], goal_cases)
    case (1 c0 c tr)
    show ?case
    proof (rule wpe_component_keychain [OF assms(1)])
      fix kc tag
      have "wpe (?pull c kc) Q E (s\<lparr>rx_Stash := (rx_Stash s)\<lparr>st_Trace := Some tr, st_Keychain := Some kc, st_Tag := Some tag\<rparr>\<rparr>)"
        by (rule pull [OF 1(1-3)]) simp
      then show "wpe (?pull c kc) Q E (s\<lparr>rx_Stash := (rx_Stash s)\<lparr>st_Trace := Some tr\<rparr>,
          rx_Stash := (rx_Stash (s\<lparr>rx_Stash := (rx_Stash s)\<lparr>st_Trace := Some tr\<rparr>\<rparr>))\<lparr>st_Keychain := Some kc, st_Tag := Some tag\<rparr>\<rparr>)"
        by simp
    qed (simp add: E)
  next
    case (2 s')
    then show ?case by (intro assms(5))
  next
    case (3 tr Q' E' t)
    then show ?case by (simp add: wpe_set)
  qed
  then show ?thesis
    by (simp add: ResolveDependency_def wpe_bind_eta wpe_get assms(3))
qed

lemma wpe_ResolveDependencies:
  fixes s :: "(Composition, 'kc, 'd, 't, 'w) rstate"
  defines "items \<equiv> co_Dependencies (cos_Composition (rs_Spec (rx_Resource s)))"
  assumes "calm cx" "publishes_wit cx" "sequences sq" "\<And>d. d \<in> set items \<Longrightarrow> cd_Ref d \<noteq> None" "items \<noteq> []"
    and "st_Dependencies (rx_Stash s) = None"
    and "\<And>s' ds. only_marks {''DependenciesResolved''} s s' \<Longrightarrow> rx_Resource s' = rx_Resource s \<Longrightarrow>
      st_Dependencies (rx_Stash s') = Some ds \<Longrightarrow> list_all2 (resolved_as cx (rx_World s)) items ds \<Longrightarrow> Q () s'"
    and "\<And>s'. only_marks {''DependenciesResolved''} s s' \<Longrightarrow> E s'"
  shows "wpe (ResolveDependencies sq cx) Q E s"
proof -
  let ?cs = "{''DependenciesResolved''}"
  let ?hs = "indexed (\<lambda>i item. ResolveDependency cx i (length items) item) items"
  let ?I = "\<lambda>j s'. only_marks ?cs s s' \<and> rx_Resource s' = rx_Resource s \<and> rx_World s' = rx_World s \<and>
     (case st_Dependencies (rx_Stash s') of None \<Rightarrow> j = 0 | Some ds \<Rightarrow> list_all2 (resolved_as cx (rx_World s)) (take j items) ds)"
  have nth: "?hs ! j = ResolveDependency cx j (length items) (items ! j)" "length ?hs = length items" if "j < length items" for j
    using that by (simp_all add: indexed_def)
  have "wpe (sq ?hs) (\<lambda>_. ?I (length ?hs)) (only_marks ?cs s) s"
  proof (rule wpe_sequence_list [OF assms(4)], goal_cases)
    case 1
    show ?case using assms(7) by simp
  next
    case (2 j s1)
    then have j: "j < length items" by (simp add: indexed_def)
    obtain ref where ref: "cd_Ref (items ! j) = Some ref" using assms(5) [of "items ! j"] j by auto
    show ?case
      unfolding nth(1) [OF j]
    proof (rule wpe_ResolveDependency [OF assms(2,3) ref], goal_cases)
      case (1 s2 rc)
      moreover have "only_marks ?cs s s2" using 2(2) 1(1) by (blast intro: only_marks_trans)
      ultimately show ?case
        using 2(2) j by (auto simp: take_Suc_conv_app_nth intro!: list_all2_appendI split: option.splits)
    next
      case (2 s2)
      with \<open>?I j s1\<close> show ?case by (blast intro: only_marks_trans)
    qed
  qed
  then have "wpe (sq ?hs) Q E s"
  proof (rule wpe_mono)
    fix u s' assume "?I (length ?hs) s'"
    then show "Q u s'"
      using \<open>items \<noteq> []\<close> assms(8) [of s'] by (auto simp: indexed_def split: option.splits)
  next
    fix s' assume "only_marks ?cs s s'"
    then show "E s'" by (rule assms(9))
  qed
  then show ?thesis by (simp add: ResolveDependencies_def wpe_simps Let_def items_def)
qed

section \<open>The pipeline of compositions\<close>

lemma wpe_ReflectDependenciesStatus:
  "wpe (ReflectDependenciesStatus cx) Q E s \<longleftrightarrow>
     Q () (s\<lparr>rx_Resource := (rx_Resource s)\<lparr>rs_Status := (rs_Status (rx_Resource s))\<lparr>cst_Dependencies :=
       map (\<lambda>d. \<lparr>cds_Component = rc_Name d, cds_Image = lib_DigestName (cx_lib cx) (rc_Image d), cds_WIT = rc_WIT d\<rparr>)
         (case st_Dependencies (rx_Stash s) of None \<Rightarrow> [] | Some ds \<Rightarrow> ds)\<rparr>\<rparr>\<rparr>)"
  by (simp add: ReflectDependenciesStatus_def wpe_simps stashers)

text \<open>How a spec composes: plug its dependencies together, or run its wac script.\<close>

definition composes :: "('kc, 'd, 't, 'desc, 'sec, 'w) cluster \<Rightarrow> GenericCompositionSpec \<Rightarrow> 'd ResolvedComponent list \<Rightarrow> string \<Rightarrow> bool" where
  "composes cx spec ds component \<longleftrightarrow>
     (if co_Plug spec \<noteq> None then WACPlug (cx_wacPool cx) (lib_json_text (cx_lib cx)) (cx_base64 cx) ds
      else WACCompose (cx_wacPool cx) (lib_json_text (cx_lib cx)) (cx_base64 cx) (co_WAC spec) ds) = Ret component"

lemma wpe_ComposeComponents:
  assumes "st_Dependencies (rx_Stash s) = Some ds"
    and "co_Plug (cos_Composition (rs_Spec (rx_Resource s))) \<noteq> None \<or> co_WAC (cos_Composition (rs_Spec (rx_Resource s))) \<noteq> ''''"
    and "\<And>component. composes cx (cos_Composition (rs_Spec (rx_Resource s))) ds component \<Longrightarrow>
      Q () (s\<lparr>rx_Stash := (rx_Stash s)\<lparr>st_Component := Some component\<rparr>\<rparr>)"
    and "E s"
  shows "wpe (ComposeComponents cx) Q E s"
proof -
  let ?spec = "cos_Composition (rs_Spec (rx_Resource s))"
  let ?plug = "WACPlug (cx_wacPool cx) (lib_json_text (cx_lib cx)) (cx_base64 cx) ds"
  let ?wac = "WACCompose (cx_wacPool cx) (lib_json_text (cx_lib cx)) (cx_base64 cx) (co_WAC ?spec) ds"
  have "quiet_go ?plug" "quiet_go ?wac" by simp_all
  with assms show ?thesis
    by (cases ?plug; cases ?wac; cases "co_Plug ?spec")
      (simp_all add: ComposeComponents_def composes_def wpe_simps stashers Let_def)
qed

definition CompositionMarks :: "string set" where
  "CompositionMarks = insert ''ChildComponent'' (set CompositionConditions)"

lemma CompositionMarks_members [simp]:
  "''DependenciesResolved'' \<in> CompositionMarks" "''RepositoryReady'' \<in> CompositionMarks"
  "''ChildComponent'' \<in> CompositionMarks" "''ComponentPushed'' \<in> CompositionMarks"
  by (simp_all add: CompositionMarks_def CompositionConditions_def)

text \<open>The status of a composition publishes a component that was composed of what the dependencies of the spec of
  \<open>r0\<close> resolved to, each from its own reference or the child created for it, in the order of the spec, and pushed to its tag in
  its repository, and lists them; \<open>w0\<close> are the registries and children the request began with.\<close>

definition publishes_composition :: "('kc, 'd, 't, 'desc, 'sec, 'w) cluster \<Rightarrow> GroupVersionKind go \<Rightarrow> 'w composition_children \<Rightarrow>
    Composition \<Rightarrow> 'w \<Rightarrow> 'w \<Rightarrow> Composition \<Rightarrow> bool" where
  "publishes_composition cx gvk cc r0 w0 w' r \<longleftrightarrow> (\<exists>(items :: GenericCompositionSpec CompositionDependency list) w ds component.
     let spec = cos_Composition (rs_Spec r0) in
     own_items cc r0 w0 items \<and> list_all2 (resolved_as cx w) items ds \<and>
     composes cx spec ds component \<and>
     publishes_push cx gvk (rs_Meta r0) (Composition_GetRepositoryReference r0) component w' (cst_Generic (rs_Status r)) \<and>
     map cds_Component (cst_Dependencies (rs_Status r)) = map cd_Component (co_Dependencies spec) \<and>
     map cds_Image (cst_Dependencies (rs_Status r)) = map (\<lambda>d. lib_DigestName (cx_lib cx) (rc_Image d)) ds)"

lemma resolved_names: "list_all2 (resolved_as cx w) items ds \<Longrightarrow> map rc_Name ds = map cd_Component items"
  by (induction rule: list_all2_induct) (auto simp: resolved_as_def)

lemma composes_cong:
  "co_Plug s' = co_Plug s \<Longrightarrow> co_WAC s' = co_WAC s \<Longrightarrow> composes cx s' ds component = composes cx s ds component"
  by (simp add: composes_def)

text \<open>After the dependencies were resolved.\<close>

definition resolved_state :: "('kc, 'd, 't, 'desc, 'sec, 'w) cluster \<Rightarrow> 'w composition_children \<Rightarrow> GenericCompositionSpec \<Rightarrow> 'd ResolvedComponent list \<Rightarrow>
    (Composition, 'kc, 'd, 't, 'w) rstate \<Rightarrow> (Composition, 'kc, 'd, 't, 'w) rstate \<Rightarrow> bool" where
  "resolved_state cx cc spec ds s s' \<longleftrightarrow> only_marks CompositionMarks s s' \<and> st_Dependencies (rx_Stash s') = Some ds \<and>
     same_owner (rx_Resource s') (rx_Resource s) \<and>
     (\<exists>(items :: GenericCompositionSpec CompositionDependency list) w.
        own_items cc (rx_Resource s) (rx_World s) items \<and> list_all2 (resolved_as cx w) items ds) \<and>
     co_Plug (cos_Composition (rs_Spec (rx_Resource s'))) = co_Plug spec \<and>
     co_WAC (cos_Composition (rs_Spec (rx_Resource s'))) = co_WAC spec"

definition lists_dependencies :: "('kc, 'd, 't, 'desc, 'sec, 'w) cluster \<Rightarrow> 'd ResolvedComponent list \<Rightarrow> Composition \<Rightarrow> bool" where
  "lists_dependencies cx ds r \<longleftrightarrow> cst_Dependencies (rs_Status r) =
     map (\<lambda>d. \<lparr>cds_Component = rc_Name d, cds_Image = lib_DigestName (cx_lib cx) (rc_Image d), cds_WIT = rc_WIT d\<rparr>) ds"

lemma resolved_state_marks:
  assumes "resolved_state cx cc spec ds s s1" "rx_Marks s2 = rx_Marks s1 @ ms" "mk_Type ` set ms \<subseteq> CompositionMarks"
    and "st_Dependencies (rx_Stash s2) = st_Dependencies (rx_Stash s1)" "rs_Spec (rx_Resource s2) = rs_Spec (rx_Resource s1)"
    and "rs_Meta (rx_Resource s2) = rs_Meta (rx_Resource s1)"
  shows "resolved_state cx cc spec ds s s2"
proof -
  from assms(1) obtain new where "rx_Marks s1 = rx_Marks s @ new" "mk_Type ` set new \<subseteq> CompositionMarks"
    by (auto simp: resolved_state_def only_marks_def)
  with assms(2,3) have "only_marks CompositionMarks s s2" by (intro only_marksI [of _ _ "new @ ms"]) auto
  with assms(1,4-6) show ?thesis by (auto simp: resolved_state_def same_owner_def)
qed

lemma wpe_compose_and_push:
  fixes s :: "(Composition, 'kc, 'd, 't, 'w) rstate"
  defines "spec \<equiv> cos_Composition (rs_Spec (rx_Resource s))"
  assumes "calm cx" "resolved_state cx cc spec ds s s1" "lists_dependencies cx ds (rx_Resource s1)"
    and "co_Plug spec \<noteq> None \<or> co_WAC spec \<noteq> ''''" "st_Tag (rx_Stash s1) = Some tag" "st_Keychain (rx_Stash s1) = Some kc"
    and target: "target_tag cx gvk (rs_Meta (rx_Resource s)) (Composition_GetRepositoryReference (rx_Resource s)) tag"
  shows "wpe (ComposeComponents cx) (\<lambda>_. wpe (PushComponent cx ''ComponentPushed'') (\<lambda>_. wpe (ReflectComponentableStatus cx (Composition_ComponentLike gvk))
      (\<lambda>_ s'. only_marks CompositionMarks s s' \<and> publishes_composition cx gvk cc (rx_Resource s) (rx_World s) (rx_World s') (rx_Resource s')) (only_marks CompositionMarks s))
      (only_marks CompositionMarks s)) (only_marks CompositionMarks s) s1"
proof -
  let ?E = "only_marks CompositionMarks s"
  let ?spec = "cos_Composition (rs_Spec (rx_Resource s1))"
  have st: "?E s1" "st_Dependencies (rx_Stash s1) = Some ds" "co_Plug ?spec = co_Plug spec" "co_WAC ?spec = co_WAC spec"
    using assms(3) by (auto simp: resolved_state_def)
  from assms(3) obtain items :: "GenericCompositionSpec CompositionDependency list" and w1 where
    items: "own_items cc (rx_Resource s) (rx_World s) items" "list_all2 (resolved_as cx w1) items ds"
    by (auto simp: resolved_state_def)
  have names: "map rc_Name ds = map cd_Component (co_Dependencies spec)"
    using resolved_names [OF items(2)] items(1) by (simp add: own_items_def spec_def Let_def)
  note pushed = CompositionMarks_members(4)
  show ?thesis
  proof (rule wpe_ComposeComponents [OF st(2)], goal_cases)
    case 1
    show ?case using assms(5) st(3,4) by simp
  next
    case (2 component)
    have comp: "composes cx spec ds component" using 2 unfolding composes_cong [OF st(3,4)] .
    show ?case
    proof (rule wpe_PushComponent [where component = component and tag = tag and kc = kc, OF assms(2)], goal_cases)
      case (4 w d config)
      have "publishes_composition cx gvk cc (rx_Resource s) (rx_World s) w (r\<lparr>rs_Status := (rs_Status (rx_Resource s1))\<lparr>cst_Generic := (cst_Generic (rs_Status (rx_Resource s1)))
          \<lparr>gst_Image := lib_DigestName (cx_lib cx) d, gst_Trace := tr,
           gst_WIT := Some \<lparr>wit_Imports = wcc_Imports (wc_Component config), wit_Exports = wcc_Exports (wc_Component config)\<rparr>\<rparr>\<rparr>\<rparr>)"
        for tr and r :: Composition
        unfolding publishes_composition_def
        by (rule exI [of _ items], rule exI [of _ w1], rule exI [of _ ds], rule exI [of _ component])
          (use items comp publishes_pushI [where tr = tr, OF target 4] assms(4) names in
            \<open>simp add: lists_dependencies_def comp_def spec_def Let_def\<close>)
      with st(1) pushed show ?case
        by (auto simp: wpe_ReflectComponentableStatus Composition_ComponentLike_def only_marks_def)
    next
      case (5 w msg ev)
      show ?case using st(1) pushed by (auto simp: only_marks_def)
    qed (use assms in simp_all)
  qed (rule st(1))
qed

text \<open>Every dependency has a source, as the webhook requires.\<close>

definition sourced :: "'comp CompositionDependency \<Rightarrow> bool" where
  "sourced d \<longleftrightarrow> cd_Ref d \<noteq> None \<or> cd_Config d \<noteq> None \<or> cd_OCI d \<noteq> None \<or> cd_Composition d \<noteq> None"

lemma one_source_sourced: "one_source d \<Longrightarrow> sourced d"
  by (auto simp: one_source_def sourced_def split: if_splits)

lemma managed_refs:
  assumes "managed (\<lambda>d. cd_Config d \<noteq> None \<or> cd_OCI d \<noteq> None \<or> cd_Composition d \<noteq> None) s s'"
    and "\<And>d. d \<in> set (co_Dependencies (cos_Composition (rs_Spec (rx_Resource s)))) \<Longrightarrow> sourced d"
    and "d \<in> set (co_Dependencies (cos_Composition (rs_Spec (rx_Resource s'))))"
  shows "cd_Ref d \<noteq> None"
proof -
  from assms(1,3) obtain f d0 where "d = f d0" "d0 \<in> set (co_Dependencies (cos_Composition (rs_Spec (rx_Resource s))))" "same_item d0 (f d0)"
    by (auto simp: managed_def)
  with assms(1,3) assms(2) [of d0] show ?thesis
    by (auto simp: managed_def sourced_def same_item_def)
qed

lemma managed_names:
  "managed has s s' \<Longrightarrow> map cd_Component (co_Dependencies (cos_Composition (rs_Spec (rx_Resource s')))) =
     map cd_Component (co_Dependencies (cos_Composition (rs_Spec (rx_Resource s))))"
  by (auto simp: managed_def same_item_def)

lemma wpe_managed_dependencies:
  fixes s :: "(Composition, 'kc, 'd, 't, 'w) rstate"
  defines "spec \<equiv> cos_Composition (rs_Spec (rx_Resource s))"
  assumes "calm cx" "publishes_wit cx" "sequences sq"
    and m: "managed (\<lambda>d. cd_Config d \<noteq> None \<or> cd_OCI d \<noteq> None \<or> cd_Composition d \<noteq> None) s s1"
    and own: "own_items cc (rx_Resource s) (rx_World s) (co_Dependencies (cos_Composition (rs_Spec (rx_Resource s1))))"
    and "co_Dependencies spec \<noteq> []" "\<And>d. d \<in> set (co_Dependencies spec) \<Longrightarrow> sourced d" "st_Dependencies (rx_Stash s) = None"
    and "\<And>s2 ds. resolved_state cx cc spec ds s s2 \<Longrightarrow> Q () s2" "\<And>s2. only_marks CompositionMarks s s2 \<Longrightarrow> E s2"
  shows "wpe (ResolveDependencies sq cx) Q E s1"
proof -
  let ?items = "co_Dependencies (cos_Composition (rs_Spec (rx_Resource s1)))"
  have widen: "only_marks CompositionMarks s s2" if "only_marks {''DependenciesResolved''} s1 s2" for s2
    using that m by (auto simp: managed_def only_marks_def image_subset_iff)
  show ?thesis
  proof (rule wpe_ResolveDependencies [OF assms(2-4)], goal_cases)
    case (1 d)
    then show ?case using managed_refs [OF m assms(8) [unfolded spec_def]] by blast
  next
    case 2
    show ?case using managed_names [OF m] assms(7) by (auto simp: spec_def)
  next
    case 3
    show ?case using m assms(9) by (simp add: managed_def)
  next
    case (4 s2 ds)
    have "\<exists>(items :: GenericCompositionSpec CompositionDependency list) w.
        own_items cc (rx_Resource s) (rx_World s) items \<and> list_all2 (resolved_as cx w) items ds"
      using 4(4) own by blast
    with widen [OF 4(1)] 4(2,3) m have "resolved_state cx cc spec ds s s2"
      by (simp add: resolved_state_def managed_def spec_def)
    then show ?case by (rule assms(10))
  next
    case (5 s2)
    then show ?case by (intro assms(11) widen)
  qed
qed

text \<open>The steps of \<^verbatim>\<open>Always\<close> behind the dependencies: they keep what was marked so far, and after the dependencies
  were resolved they lead to a state with a tag and a keychain.\<close>

abbreviation composition_child :: "('kc, 'd, 't, 'desc, 'sec, 'w) cluster \<Rightarrow> GroupVersionKind go \<Rightarrow>
    ((ObjectMeta \<times> ComponentSpec) option \<Rightarrow> 'w \<Rightarrow> 'w \<times> (Component option \<times> gerr option) go) \<Rightarrow> (Composition, 'kc, 'd, 't, 'w, unit) handler" where
  "composition_child cx gvk manage \<equiv> child_reconciler
     (ComponentChild_DesiredChild (Composition_ComponentLike gvk) ''wa8s.reconciler.io/composition'')
     manage (ComponentChild_Reflect cx rs_Meta ''ChildComponent'')"

abbreviation composition_repository :: "('kc, 'd, 't, 'desc, 'sec, 'w) cluster \<Rightarrow> GroupVersionKind go \<Rightarrow>
    (Composition, 'kc, 'd, 't, 'w, unit) handler" where
  "composition_repository cx gvk \<equiv>
     ResolveRepository cx rs_Meta gvk Composition_GetRepositoryReference ''RepositoryReady''"

lemma composition_steps_keep:
  assumes "calm cx" "quiet_go gvk" "\<And>c w. quiet_go (snd (manage c w))"
  shows "keeps (only_marks CompositionMarks s) (ReflectDependenciesStatus cx)"
    "keeps (only_marks CompositionMarks s) (composition_repository cx gvk)"
    "keeps (only_marks CompositionMarks s) (composition_child cx gvk manage)"
  using assms
  by (auto intro!: keeps_ResolveRepository keeps_component_child simp: Composition_ComponentLike_def)
    (auto simp: keeps_def wpe_ReflectDependenciesStatus only_marks_def)

lemma always_fails:
  assumes "calls_all al" "\<And>h. h \<in> set hs \<Longrightarrow> keeps E h"
  shows "E s \<Longrightarrow> wpe (al hs) (\<lambda>_. E) E s"
  by (rule always_keeps [OF assms])

lemma wpe_composition_steps:
  fixes s :: "(Composition, 'kc, 'd, 't, 'w) rstate"
  defines "E \<equiv> only_marks CompositionMarks s"
  assumes "calm cx" "quiet_go gvk" "\<And>c w. quiet_go (snd (manage c w))" "calls_all al" "resolved_state cx cc spec ds s s1"
    and "\<And>s2 tag kc. resolved_state cx cc spec ds s s2 \<Longrightarrow> lists_dependencies cx ds (rx_Resource s2) \<Longrightarrow>
         st_Tag (rx_Stash s2) = Some tag \<Longrightarrow> st_Keychain (rx_Stash s2) = Some kc \<Longrightarrow>
         target_tag cx gvk (rs_Meta (rx_Resource s)) (Composition_GetRepositoryReference (rx_Resource s)) tag \<Longrightarrow> Q () s2"
  shows "wpe (al [ReflectDependenciesStatus cx, composition_repository cx gvk, composition_child cx gvk manage]) Q E s1"
proof -
  let ?kid = "composition_child cx gvk manage"
  note in_marks = CompositionMarks_members(2,3)
  have gvk: "quiet_go (ck_GVK (Composition_ComponentLike gvk))" using assms(3) by (simp add: Composition_ComponentLike_def)
  have kid: "wpe (al [?kid]) Q E s2"
    if r: "resolved_state cx cc spec ds s s2" "lists_dependencies cx ds (rx_Resource s2)" "st_Tag (rx_Stash s2) = Some tag" "st_Keychain (rx_Stash s2) = Some kc"
      "target_tag cx gvk (rs_Meta (rx_Resource s)) (Composition_GetRepositoryReference (rx_Resource s)) tag"
    for s2 tag kc
    unfolding wpe_always(2) [OF assms(5)]
  proof (rule wpe_component_child [OF gvk assms(4)], goal_cases)
    case (1 w mk)
    show ?case
      unfolding wpe_always(1) [OF assms(5)]
      by (rule assms(7), rule resolved_state_marks [OF r(1), of _ "[mk]"]) (use 1 in_marks r in simp_all)
  next
    case (2 s3)
    have "only_marks CompositionMarks s s2" using r(1) by (simp add: resolved_state_def)
    from only_marks_widen [OF this 2 in_marks(2)] show ?case unfolding wpe_always(1) [OF assms(5)] E_def .
  qed
  have fails: "wpe (al [?kid]) (\<lambda>_. E) E s2" if "E s2" for s2
    by (rule always_fails [where E = E, OF assms(5) _ that])
      (use composition_steps_keep(3) [OF assms(2-4)] in \<open>auto simp: E_def\<close>)
  have repo: "wpe (al [composition_repository cx gvk, ?kid]) Q E s2"
    if r: "resolved_state cx cc spec ds s s2" "lists_dependencies cx ds (rx_Resource s2)" for s2
    unfolding wpe_always(2) [OF assms(5), of "composition_repository cx gvk"]
  proof (rule wpe_target [OF assms(2,3)], goal_cases)
    case (1 kc tag)
    then have "target_tag cx gvk (rs_Meta (rx_Resource s)) (Composition_GetRepositoryReference (rx_Resource s)) tag"
      using r(1) by (simp add: resolved_state_def same_owner_def Composition_GetRepositoryReference_def)
    then show ?case
      by (intro kid, intro resolved_state_marks [OF r(1), of _ "[Mark ''RepositoryReady'' CTrue ''Ready'' '''']"]) (use r in_marks in simp_all)
  next
    case (2 new kc)
    show ?case
      by (rule fails) (use 2 in_marks(1) r(1) in \<open>auto simp: resolved_state_def only_marks_def E_def\<close>)
  qed
  have "st_Dependencies (rx_Stash s1) = Some ds" using assms(6) by (simp add: resolved_state_def)
  then show ?thesis
    unfolding wpe_always(2) [OF assms(5), of "ReflectDependenciesStatus cx"] wpe_ReflectDependenciesStatus
    by (intro repo) (use assms(6) in \<open>auto simp: lists_dependencies_def elim: resolved_state_marks [of _ _ _ _ _ _ _ "[]"]\<close>)
qed

lemma wpe_composition_pipeline:
  fixes s :: "(Composition, 'kc, 'd, 't, 'w) rstate"
  defines "spec \<equiv> cos_Composition (rs_Spec (rx_Resource s))"
  assumes "calm cx" "quiet_go gvk" "sequences sq" "calls_all al" "publishes_wit cx"
    and "creates (cc_ConfigStores cc)" "creates (cc_Components cc)" "creates (cc_Compositions cc)" "\<And>c w. quiet_go (snd (cc_Component cc c w))"
    and "co_Dependencies spec \<noteq> []" "\<And>d. d \<in> set (co_Dependencies spec) \<Longrightarrow> one_source d" "co_Plug spec \<noteq> None \<or> co_WAC spec \<noteq> ''''"
    and "st_Dependencies (rx_Stash s) = None"
  shows "wpe (CompositionReconciler sq al cx gvk cc)
    (\<lambda>_ s'. only_marks CompositionMarks s s' \<and> publishes_composition cx gvk cc (rx_Resource s) (rx_World s) (rx_World s') (rx_Resource s')) (only_marks CompositionMarks s) s"
    (is "wpe _ ?Q ?E s")
proof -
  let ?steps = "[ReflectDependenciesStatus cx, composition_repository cx gvk, composition_child cx gvk (cc_Component cc)]"
  let ?build = "\<lambda>_. wpe (ComposeComponents cx) (\<lambda>_. wpe (PushComponent cx ''ComponentPushed'')
      (\<lambda>_. wpe (ReflectComponentableStatus cx (Composition_ComponentLike gvk)) ?Q ?E) ?E) ?E"
  have nil: "wpe (sq []) ?Q ?E = ?Q ()" using wpe_sequence(1) [OF assms(4)] by (auto simp: fun_eq_iff)
  have sourced: "sourced d" if "d \<in> set (co_Dependencies (cos_Composition (rs_Spec (rx_Resource s))))" for d
    using one_source_sourced [OF assms(12)] that by (simp add: spec_def)
  note resolve = wpe_managed_dependencies [where cc = cc, OF assms(2,6,4) _ _ assms(11) [unfolded spec_def] sourced assms(14), folded spec_def]
  have own: "own_items cc (rx_Resource s) (rx_World s) (co_Dependencies (cos_Composition (rs_Spec (rx_Resource s2))))"
    if "reflected cc ''wa8s.reconciler.io/composition'' s s2" for s2
    by (rule reflected_own [OF assms(7-9) _ that], rule assms(12)) (simp add: spec_def)
  have fails: "wpe (al ?steps) (\<lambda>_. ?E) ?E s2" if "?E s2" for s2
    by (rule always_fails [where E = ?E, OF assms(5) _ that])
      (use composition_steps_keep [OF assms(2,3,10)] in auto)
  have builds: "wpe (al ?steps) ?build ?E s2" if "resolved_state cx cc spec ds s s2" for s2 ds
    by (rule wpe_composition_steps [OF assms(2,3,10,5) that])
      (rule wpe_compose_and_push [OF assms(2) _ _ assms(13) [unfolded spec_def]], simp_all add: spec_def)
  show ?thesis
    unfolding CompositionReconciler_def Let_def wpe_sequence(2) [OF assms(4)] nil
      wpe_always(2) [OF assms(5), of "ManageDependencies al cc ''wa8s.reconciler.io/composition''"]
      wpe_always(2) [OF assms(5), of "ResolveDependencies sq cx"]
  proof (rule wpe_mono [OF wpe_both [OF wpe_ManageDependencies [OF assms(5,7-9)] wpe_reflected [OF assms(5)]]], goal_cases)
    case (1 u s2)
    then show ?case by (elim conjE) (rule resolve, assumption, erule own, assumption, erule builds, erule fails)
  next
    case (2 s2)
    then show ?case by (elim conjE) (rule resolve, assumption, erule own, assumption, rule fails, simp add: resolved_state_def, erule fails)
  qed
qed

end
