(* ===== verification/Compose_Progress.thy ===== *)
theory Compose_Progress
  imports Compose_Rules
begin

text \<open>
  When a request of a container image or a composition returns nil: the components it builds on publish what can be
  pulled, their spans close no cycle, and the registry takes what is made of them.
\<close>

section \<open>Components that can be pulled\<close>

text \<open>The component a reference names, with its spec defaulted: observed, ready and with an image.\<close>

definition component_at :: "('kc, 'd, 't, 'desc, 'sec, 'w) cluster \<Rightarrow> ComponentReference \<Rightarrow> ComponentSpan \<Rightarrow> ComponentDuck \<Rightarrow> bool" where
  "component_at cx ref sp c \<longleftrightarrow> (\<exists>c0 spec. ResolveComponentReference cx ref = Ret c0 \<and> duck_span cx ref c0 = Ret sp \<and>
     GenericComponentSpec_Default (cx_ctx cx) (rs_Spec c0) = Ret spec \<and> c = c0\<lparr>rs_Spec := spec\<rparr> \<and>
     om_Generation (rs_Meta c) = as_ObservedGeneration (cdk_Status (rs_Status c)) \<and>
     cl_IsTrue (cx_conds cx) (cl_Get (cx_conds cx) (cdk_Status (rs_Status c)) ''Ready'') \<and> gst_Image (cdk_Generic (rs_Status c)) \<noteq> '''')"

abbreviation trace_before :: "('r, 'kc, 'd, 't, 'w) rstate \<Rightarrow> ComponentSpan list" where
  "trace_before s \<equiv> case st_Trace (rx_Stash s) of None \<Rightarrow> [] | Some tr \<Rightarrow> tr"

lemma runs_ready_component:
  assumes "component_at cx ref sp c" "\<not> fst (DetectTraceCycle (trace_before s @ [sp]) obj)"
    and "Q c (s\<lparr>rx_Stash := (rx_Stash s)\<lparr>st_Trace := Some (trace_before s @ [sp])\<rparr>\<rparr>)"
  shows "runs (ready_component cx obj reflect ct pos ref) Q s"
  using assms
  by (auto simp: runs_def component_at_def ready_component_def wpe_simps wpe_extend_trace [OF refl] Let_def)

lemma runs_get: "runs (act_bind get_resource f) Q s = runs (f (rx_Resource s)) Q s"
  by (simp add: runs_def wpe_bind wpe_get)

lemma runs_component_keychain:
  assumes "usable cx (cx_GVKFor cx ''ComponentDuck'' (ComponentReference_TypeMeta ref)) (rs_Meta c) (ComponentDuck_GetRepositoryReference c) kc tag"
    and "Q kc (s\<lparr>rx_Stash := (rx_Stash s)\<lparr>st_Keychain := Some kc, st_Tag := Some tag\<rparr>\<rparr>)"
  shows "runs (component_keychain cx ct ref c) Q s"
  unfolding component_keychain_def runs_def wpe_simps
  by (fold runs_def, rule runs_ResolveRepository, use assms in \<open>auto simp: runs_def wpe_simps stashers merged_def\<close>)

text \<open>Its image can be pulled with the credentials of its repository.\<close>

definition pullable_at :: "('kc, 'd, 't, 'desc, 'sec, 'w) cluster \<Rightarrow> ComponentReference \<Rightarrow> 'w \<Rightarrow> ComponentSpan \<Rightarrow> ComponentDuck \<Rightarrow>
    'kc \<Rightarrow> 'd \<Rightarrow> string \<Rightarrow> WasmConfigFile \<Rightarrow> bool" where
  "pullable_at cx ref w sp c kc d component cfg \<longleftrightarrow> component_at cx ref sp c \<and>
     (\<exists>tag. usable cx (cx_GVKFor cx ''ComponentDuck'' (ComponentReference_TypeMeta ref)) (rs_Meta c) (ComponentDuck_GetRepositoryReference c) kc tag) \<and>
     lib_NewDigest (cx_lib cx) (gst_Image (cdk_Generic (rs_Status c))) = Ret d \<and>
     Pull (cx_lib cx) (cx_remote cx) kc d w = Ret (component, cfg)"

lemma runs_pullable:
  assumes "pullable_at cx ref w sp c kc d component cfg" "\<not> fst (DetectTraceCycle (trace_before s @ [sp]) obj)"
    and "\<And>tag. runs (m c kc) Q (s\<lparr>rx_Stash := (rx_Stash s)\<lparr>st_Trace := Some (trace_before s @ [sp]), st_Keychain := Some kc, st_Tag := Some tag\<rparr>\<rparr>)"
  shows "runs (act_bind (ready_component cx obj reflect ct pos ref) (\<lambda>c. act_bind (component_keychain cx ct ref c) (m c))) Q s"
proof -
  from assms(1) obtain tag where c: "component_at cx ref sp c"
    "usable cx (cx_GVKFor cx ''ComponentDuck'' (ComponentReference_TypeMeta ref)) (rs_Meta c) (ComponentDuck_GetRepositoryReference c) kc tag"
    by (auto simp: pullable_at_def)
  show ?thesis
    unfolding runs_bind
    by (rule runs_ready_component [OF c(1) assms(2)], rule runs_component_keychain [OF c(2)]) (use assms(3) in simp)
qed

section \<open>Container images\<close>

lemma runs_ResolveComponent:
  assumes "pullable_at cx (cci_Ref (rs_Spec (rx_Resource s))) (rx_World s) sp c kc d component cfg"
    and "\<not> fst (DetectTraceCycle (trace_before s @ [sp]) (rs_Meta (rx_Resource s)))"
    and "\<And>s'. st_Trace (rx_Stash s') = Some (trace_before s @ [sp]) \<Longrightarrow> st_Keychain (rx_Stash s') = None \<Longrightarrow>
      st_Component (rx_Stash s') = Some component \<Longrightarrow> rx_Resource s' = rx_Resource s \<Longrightarrow> rx_World s' = rx_World s \<Longrightarrow> Q () s'"
  shows "runs (ResolveComponent cx) Q s"
proof -
  have "lib_NewDigest (cx_lib cx) (gst_Image (cdk_Generic (rs_Status c))) = Ret d"
    "Pull (cx_lib cx) (cx_remote cx) kc d (rx_World s) = Ret (component, cfg)" using assms(1) by (simp_all add: pullable_at_def)
  note pull = this
  show ?thesis
    unfolding ResolveComponent_def runs_get Let_def
    by (rule runs_pullable [OF assms(1,2)]) (simp add: runs_def wpe_simps stashers pull assms(3))
qed

text \<open>The base image: observed, ready, with a digest, and its repository gives a key chain.\<close>

definition image_at :: "('kc, 'd, 't, 'desc, 'sec, 'w) cluster \<Rightarrow> string \<Rightarrow> ImageReference \<Rightarrow> ComponentSpan \<Rightarrow> 'kc \<Rightarrow> 'd \<Rightarrow> bool" where
  "image_at cx ns ref sp kc d \<longleftrightarrow> (\<exists>img img' r. fetch_image cx ns ref = Ret img \<and>
     SynthesizeSpan (digest_part (cx_lib cx)) (cx_GVKFor cx (if ir_Kind ref = ''ClusterImage'' then ''ClusterImage'' else ''Image'') ('''', ''''))
       (rs_Meta img) (cx_Convert cx img) = Ret sp \<and>
     om_Generation (rs_Meta img) = as_ObservedGeneration (ist_Status (rs_Status img)) \<and>
     cl_IsTrue (cx_conds cx) (cl_Get (cx_conds cx) (ImageStatus_InitializeConditions (cx_conds cx) (ist_Status (rs_Status img))) ''Ready'') \<and>
     default_image (cx_ctx cx) ref img = Ret img' \<and> repository_at cx ns (is_RepositoryRef (rs_Spec img')) kc r \<and>
     cx_NewDigestStrict cx (ist_Image (rs_Status img')) = Ret d)"

lemma runs_ResolveImage:
  assumes "image_at cx (om_Namespace (meta (rx_Resource s))) (iref (rx_Resource s)) sp kc d"
    and "\<not> fst (DetectTraceCycle (trace_before s @ [sp]) (meta (rx_Resource s)))"
    and "\<And>s'. st_Trace (rx_Stash s') = Some (trace_before s @ [sp]) \<Longrightarrow>
      st_Keychain (rx_Stash s') = Some (merged cx kc (st_Keychain (rx_Stash s))) \<Longrightarrow> st_RemoteImage (rx_Stash s') = Some d \<Longrightarrow>
      st_Component (rx_Stash s') = st_Component (rx_Stash s) \<Longrightarrow> rx_Resource s' = rx_Resource s \<Longrightarrow> rx_World s' = rx_World s \<Longrightarrow> Q () s'"
  shows "runs (ResolveImage cx meta iref reflect ct) Q s"
proof -
  let ?ref = "iref (rx_Resource s)" and ?ns = "om_Namespace (meta (rx_Resource s))"
  from assms(1) obtain img img' r where img: "fetch_image cx ?ns ?ref = Ret img"
    "SynthesizeSpan (digest_part (cx_lib cx)) (cx_GVKFor cx (if ir_Kind ?ref = ''ClusterImage'' then ''ClusterImage'' else ''Image'') ('''', ''''))
       (rs_Meta img) (cx_Convert cx img) = Ret sp"
    "om_Generation (rs_Meta img) = as_ObservedGeneration (ist_Status (rs_Status img))"
    "cl_IsTrue (cx_conds cx) (cl_Get (cx_conds cx) (ImageStatus_InitializeConditions (cx_conds cx) (ist_Status (rs_Status img))) ''Ready'')"
    "default_image (cx_ctx cx) ?ref img = Ret img'" "cx_NewDigestStrict cx (ist_Image (rs_Status img')) = Ret d"
    and repo: "repository_at cx ?ns (is_RepositoryRef (rs_Spec img')) kc r"
    unfolding image_at_def by blast
  have rest: "runs (act_bind (use_repository cx ct ?ns (is_RepositoryRef (rs_Spec img')))
      (\<lambda>_. act_try (cx_NewDigestStrict cx (ist_Image (rs_Status img'))) act_fail
        (\<lambda>imageDigest. act_then (stash_Store RemoteImageStasher imageDigest) (mark_as ct CTrue ''Ready'' []))))
      Q (s\<lparr>rx_Stash := (rx_Stash s)\<lparr>st_Trace := Some (trace_before s @ [sp])\<rparr>\<rparr>)"
    unfolding runs_bind
    by (rule runs_use_repository [OF repo]) (simp add: runs_def wpe_simps stashers img(6) assms(3))
  show ?thesis
    using assms(2) img rest
    by (simp add: runs_def ResolveImage_def check_ready_def wpe_simps wpe_extend_trace [OF refl] Let_def)
qed

lemma prefix_no_cycle: "\<not> fst (DetectTraceCycle (xs @ ys) obj) \<Longrightarrow> \<not> fst (DetectTraceCycle xs obj)"
  by (simp add: DetectTraceCycle_spec)

text \<open>A container image can be made: its component and its base can be pulled, neither was built from it, its
  repository is usable, and the registry takes the index.\<close>

definition containable :: "('kc, 'd, 't, 'desc, 'sec, 'w) cluster \<Rightarrow> GroupVersionKind go \<Rightarrow>
    ('plat, 'img, 'layer, 'd, 't, 'kc, 'w) index_lib \<Rightarrow> ComponentContainerImage \<Rightarrow> 'w \<Rightarrow> bool" where
  "containable cx gvk ix r w \<longleftrightarrow> (\<exists>sp1 c kc1 d1 component cfg sp2 kc2 img kc tag w1 d.
     pullable_at cx (cci_Ref (rs_Spec r)) w sp1 c kc1 d1 component cfg \<and>
     image_at cx (om_Namespace (rs_Meta r)) (cci_ImageRef (rs_Spec r)) sp2 kc2 img \<and> \<not> fst (DetectTraceCycle [sp1, sp2] (rs_Meta r)) \<and>
     usable cx gvk (rs_Meta r) (gs_RepositoryRef (cci_Generic (rs_Spec r))) kc tag \<and>
     AppendComponent (cx_lib cx) (cx_remote cx) ix (merged cx kc (Some kc2)) (RefDigest img) tag component w = (w1, Ret d))"

lemma cci_progress:
  assumes "sequences sq" "calls_all al" "containable cx gvk ix (rx_Resource s) (rx_World s)" "st_Trace (rx_Stash s) = None"
  shows "runs (ComponentContainerImageReconciler sq al cx gvk patch ix) (\<lambda>_ _. True) s"
proof -
  let ?r = "rx_Resource s" and ?ck = "ComponentContainerImage_ComponentLike gvk"
  from assms(3) obtain sp1 c kc1 d1 component cfg sp2 kc2 img kc tag w1 d where
    comp: "pullable_at cx (cci_Ref (rs_Spec ?r)) (rx_World s) sp1 c kc1 d1 component cfg"
    and img: "image_at cx (om_Namespace (rs_Meta ?r)) (cci_ImageRef (rs_Spec ?r)) sp2 kc2 img"
    and tr: "\<not> fst (DetectTraceCycle ([sp1] @ [sp2]) (rs_Meta ?r))"
    and repo: "usable cx gvk (rs_Meta ?r) (gs_RepositoryRef (cci_Generic (rs_Spec ?r))) kc tag"
    and app: "AppendComponent (cx_lib cx) (cx_remote cx) ix (merged cx kc (Some kc2)) (RefDigest img) tag component (rx_World s) = (w1, Ret d)"
    unfolding containable_def by auto
  have append: "runs (AppendComponent_Sync cx ix) (\<lambda>_. runs (ReflectComponentableStatus cx ?ck) (\<lambda>_ _. True)) t"
    if "st_Keychain (rx_Stash t) = Some (merged cx kc (Some kc2))" "st_Tag (rx_Stash t) = Some tag"
      "st_Component (rx_Stash t) = Some component" "st_RemoteImage (rx_Stash t) = Some img" "rx_World t = rx_World s" for t
    using that app by (simp add: runs_def AppendComponent_Sync_def ReflectComponentableStatus_def wpe_simps stashers)
  show ?thesis
    unfolding ComponentContainerImageReconciler_def Let_def runs_sequence [OF assms(1)]
  proof (rule runs_always(2) [OF assms(2)], rule runs_ResolveComponent [OF comp], goal_cases)
    case 1
    show ?case using prefix_no_cycle [OF tr] assms(4) by simp
  next
    case (2 s1)
    show ?case
    proof (rule runs_always(2) [OF assms(2)], rule runs_ResolveImage [where sp = sp2 and kc = kc2 and d = img], goal_cases)
      case 1
      show ?case using img 2 by (simp add: ComponentContainerImage_GetImageReference_def)
    next
      case 2
      show ?case using tr \<open>st_Trace (rx_Stash s1) = _\<close> \<open>rx_Resource s1 = _\<close> assms(4) by simp
    next
      case (3 s2)
      show ?case
        by (rule runs_always(2) [OF assms(2)], rule runs_ResolveRepository [where kc = kc and tag = tag],
            unfold runs_always(1) [OF assms(2)]; (rule append)?)
          (use 2 3 repo in \<open>simp_all add: ComponentContainerImage_GetRepositoryReference_def merged_def\<close>)
    qed
  qed
qed

section \<open>Compositions\<close>

text \<open>What a dependency resolves to: the component its reference names can be pulled and publishes its imports and exports.\<close>

definition dependency_at :: "('kc, 'd, 't, 'desc, 'sec, 'w) cluster \<Rightarrow> 'w \<Rightarrow> 'comp CompositionDependency \<Rightarrow>
    ComponentSpan \<times> 'kc \<times> 'd ResolvedComponent \<Rightarrow> bool" where
  "dependency_at cx w item found \<longleftrightarrow> (case found of (sp, kc, rc) \<Rightarrow> rc_Name rc = cd_Component item \<and> (\<exists>ref c cfg. cd_Ref item = Some ref \<and>
     pullable_at cx ref w sp c kc (rc_Image rc) (rc_Component rc) cfg \<and> gst_WIT (cdk_Generic (rs_Status c)) = Some (rc_WIT rc)))"

abbreviation dependencies_before :: "('r, 'kc, 'd, 't, 'w) rstate \<Rightarrow> 'd ResolvedComponent list" where
  "dependencies_before s \<equiv> case st_Dependencies (rx_Stash s) of None \<Rightarrow> [] | Some ds \<Rightarrow> ds"

lemma runs_ResolveDependency:
  assumes "dependency_at cx (rx_World s) item (sp, kc, rc)"
    and "\<not> fst (DetectTraceCycle (trace_before s @ [sp]) (rs_Meta (rx_Resource s)))"
    and "\<And>s'. st_Trace (rx_Stash s') = Some (trace_before s @ [sp]) \<Longrightarrow> st_Keychain (rx_Stash s') = Some kc \<Longrightarrow>
      st_Dependencies (rx_Stash s') = Some (dependencies_before s @ [rc]) \<Longrightarrow> rx_Resource s' = rx_Resource s \<Longrightarrow>
      rx_World s' = rx_World s \<Longrightarrow> Q () s'"
  shows "runs (ResolveDependency cx i n item) Q s"
proof -
  from assms(1) obtain ref c cfg where ref: "cd_Ref item = Some ref" "rc_Name rc = cd_Component item"
    and pull: "pullable_at cx ref (rx_World s) sp c kc (rc_Image rc) (rc_Component rc) cfg"
    and wit: "gst_WIT (cdk_Generic (rs_Status c)) = Some (rc_WIT rc)"
    by (auto simp: dependency_at_def)
  have "\<lparr>rc_Name = cd_Component item, rc_Image = rc_Image rc, rc_Component = rc_Component rc, rc_WIT = rc_WIT rc\<rparr> = rc"
    using ref(2) by simp
  moreover have "lib_NewDigest (cx_lib cx) (gst_Image (cdk_Generic (rs_Status c))) = Ret (rc_Image rc)"
    "Pull (cx_lib cx) (cx_remote cx) kc (rc_Image rc) (rx_World s) = Ret (rc_Component rc, cfg)" using pull by (simp_all add: pullable_at_def)
  ultimately show ?thesis
    unfolding ResolveDependency_def runs_get ref(1) option.case
    by (intro runs_pullable [OF pull assms(2)]) (simp add: runs_def wpe_simps stashers wit assms(3))
qed

lemma runs_sequence_list:
  assumes "sequences sq" "I 0 s" "\<And>j s. j < length hs \<Longrightarrow> I j s \<Longrightarrow> runs (hs ! j) (\<lambda>_. I (Suc j)) s"
  shows "runs (sq hs) (\<lambda>_. I (length hs)) s"
  unfolding runs_def by (rule wpe_sequence_list [OF assms(1), of I, OF assms(2)]) (rule assms(3) [unfolded runs_def])

lemma runs_ResolveDependencies:
  fixes s :: "(Composition, 'kc, 'd, 't, 'w) rstate"
  defines "items \<equiv> co_Dependencies (cos_Composition (rs_Spec (rx_Resource s)))"
  assumes "sequences sq" "list_all2 (dependency_at cx (rx_World s)) items found" "found \<noteq> []"
    and "\<not> fst (DetectTraceCycle (map fst found) (rs_Meta (rx_Resource s)))"
    and "st_Trace (rx_Stash s) = None" "st_Dependencies (rx_Stash s) = None"
    and "\<And>s'. st_Keychain (rx_Stash s') = Some (fst (snd (last found))) \<Longrightarrow>
      st_Dependencies (rx_Stash s') = Some (map (snd \<circ> snd) found) \<Longrightarrow> rx_Resource s' = rx_Resource s \<Longrightarrow>
      rx_World s' = rx_World s \<Longrightarrow> Q () s'"
  shows "runs (ResolveDependencies sq cx) Q s"
proof -
  let ?hs = "indexed (\<lambda>i item. ResolveDependency cx i (length items) item) items"
  let ?I = "\<lambda>j s'. rx_Resource s' = rx_Resource s \<and> rx_World s' = rx_World s \<and> trace_before s' = map fst (take j found) \<and>
     (if j = 0 then st_Dependencies (rx_Stash s') = None
      else st_Dependencies (rx_Stash s') = Some (map (snd \<circ> snd) (take j found)) \<and>
        st_Keychain (rx_Stash s') = Some (fst (snd (last (take j found)))))"
  have len: "length ?hs = length found" using assms(3) by (simp add: indexed_def list_all2_lengthD)
  have "runs (sq ?hs) (\<lambda>_. ?I (length ?hs)) s"
  proof (rule runs_sequence_list [where I = ?I, OF assms(2)], goal_cases)
    case 1
    show ?case using assms(6,7) by simp
  next
    case (2 j s1)
    obtain sp kc rc where f: "found ! j = (sp, kc, rc)" by (cases "found ! j")
    have j: "j < length items" "j < length found" using 2(1) len by (simp_all add: indexed_def)
    have snoc: "take (Suc j) found = take j found @ [(sp, kc, rc)]" using take_Suc_conv_app_nth [OF j(2)] f by simp
    have "\<not> fst (DetectTraceCycle (map fst (take (Suc j) found)) (rs_Meta (rx_Resource s)))"
      using assms(5) prefix_no_cycle [of "map fst (take (Suc j) found)" "map fst (drop (Suc j) found)"]
      by (simp flip: map_append)
    then have "\<not> fst (DetectTraceCycle (trace_before s1 @ [sp]) (rs_Meta (rx_Resource s1)))" using 2(2) snoc by simp
    moreover have "dependency_at cx (rx_World s1) (items ! j) (sp, kc, rc)"
      using list_all2_nthD [OF assms(3) j(1)] f 2(2) by simp
    moreover have "?hs ! j = ResolveDependency cx j (length items) (items ! j)" using j by (simp add: indexed_def)
    ultimately show ?case
      using 2(2) by (simp, intro runs_ResolveDependency) (auto simp: snoc split: if_splits)
  qed
  then have "runs (sq ?hs) Q s"
    by (rule runs_mono) (use assms(4,8) len in auto)
  then show ?thesis unfolding ResolveDependencies_def runs_get Let_def items_def .
qed

lemma child_made_cong:
  "ck_Meta ck r' = ck_Meta ck r \<Longrightarrow> ck_GetGenericComponentSpec ck r' = ck_GetGenericComponentSpec ck r \<Longrightarrow>
   child_made ck key manage r' w w1 = child_made ck key manage r w w1"
  by (simp add: child_made_def ComponentChild_DesiredChild_def Let_def)

lemma runs_ComposeComponents:
  assumes "st_Dependencies (rx_Stash s) = Some ds" "composes cx (cos_Composition (rs_Spec (rx_Resource s))) ds component"
    and "co_Plug (cos_Composition (rs_Spec (rx_Resource s))) \<noteq> None \<or> co_WAC (cos_Composition (rs_Spec (rx_Resource s))) \<noteq> ''''"
    and "Q () (s\<lparr>rx_Stash := (rx_Stash s)\<lparr>st_Component := Some component\<rparr>\<rparr>)"
  shows "runs (ComposeComponents cx) Q s"
  using assms by (auto simp: runs_def ComposeComponents_def composes_def wpe_simps stashers Let_def)

text \<open>
  A composition can be made once its children are managed: every dependency resolves, none was built from the
  composition, its repository is usable, its own child can be managed, the plug or the script composes the
  dependencies, and the registry takes the result with the credentials of the repository before those of the last dependency.
\<close>

definition composable :: "('kc, 'd, 't, 'desc, 'sec, 'w) cluster \<Rightarrow> GroupVersionKind go \<Rightarrow>
    ((ObjectMeta \<times> ComponentSpec) option \<Rightarrow> 'w \<Rightarrow> 'w \<times> (Component option \<times> gerr option) go) \<Rightarrow> Composition \<Rightarrow> 'w \<Rightarrow> bool" where
  "composable cx gvk manage r w \<longleftrightarrow> (\<exists>found kc tag w1 component w2 d cfg.
     list_all2 (dependency_at cx w) (co_Dependencies (cos_Composition (rs_Spec r))) found \<and> found \<noteq> [] \<and>
     \<not> fst (DetectTraceCycle (map fst found) (rs_Meta r)) \<and> usable cx gvk (rs_Meta r) (Composition_GetRepositoryReference r) kc tag \<and>
     child_made (Composition_ComponentLike gvk) ''wa8s.reconciler.io/composition'' manage r w w1 \<and>
     composes cx (cos_Composition (rs_Spec r)) (map (snd \<circ> snd) found) component \<and>
     (co_Plug (cos_Composition (rs_Spec r)) \<noteq> None \<or> co_WAC (cos_Composition (rs_Spec r)) \<noteq> '''') \<and>
     Push (cx_lib cx) (cx_remote cx) (ExtractWIT (cx_witToolsPool cx)) (merged cx kc (Some (fst (snd (last found))))) (RefTag tag)
       component w1 = (w2, Ret (d, cfg)))"

lemma composition_progress:
  assumes "sequences sq" "calls_all al" "creates (cc_ConfigStores cc)" "creates (cc_Components cc)" "creates (cc_Compositions cc)"
    and "ManageDependencies al cc ''wa8s.reconciler.io/composition'' s = (s1, Ret ())"
    and "composable cx gvk (cc_Component cc) (rx_Resource s1) (rx_World s1)"
    and "st_Trace (rx_Stash s) = None" "st_Dependencies (rx_Stash s) = None"
  shows "runs (CompositionReconciler sq al cx gvk cc) (\<lambda>_ _. True) s"
proof -
  let ?r = "rx_Resource s1" and ?ck = "Composition_ComponentLike gvk"
  from assms(7) obtain found kc tag w1 component w2 d cfg where
    deps: "list_all2 (dependency_at cx (rx_World s1)) (co_Dependencies (cos_Composition (rs_Spec ?r))) found" "found \<noteq> []"
      "\<not> fst (DetectTraceCycle (map fst found) (rs_Meta ?r))"
    and repo: "usable cx gvk (rs_Meta ?r) (Composition_GetRepositoryReference ?r) kc tag"
    and child: "child_made ?ck ''wa8s.reconciler.io/composition'' (cc_Component cc) ?r (rx_World s1) w1"
    and comp: "composes cx (cos_Composition (rs_Spec ?r)) (map (snd \<circ> snd) found) component"
      "co_Plug (cos_Composition (rs_Spec ?r)) \<noteq> None \<or> co_WAC (cos_Composition (rs_Spec ?r)) \<noteq> ''''"
    and push: "Push (cx_lib cx) (cx_remote cx) (ExtractWIT (cx_witToolsPool cx)) (merged cx kc (Some (fst (snd (last found))))) (RefTag tag)
       component w1 = (w2, Ret (d, cfg))"
    unfolding composable_def by blast
  let ?dk = "fst (snd (last found))" and ?ds = "map (snd \<circ> snd) found"
  have stash: "rx_Stash s1 = rx_Stash s"
    using wpe_explicit [OF wpe_ManageDependencies [OF assms(2-5)] assms(6)] by (simp add: managed_def)
  have managed: "runs (composition_child cx gvk (cc_Component cc)) Q t"
    if "same_owner (rx_Resource t) ?r" "rx_World t = rx_World s1" "\<And>mk. Q () (t\<lparr>rx_World := w1, rx_Marks := rx_Marks t @ [mk]\<rparr>)" for Q t
  proof -
    have ck: "ck_Meta ?ck = rs_Meta" "ck_GetGenericComponentSpec ?ck = (\<lambda>r. cos_Generic (rs_Spec r))"
      by (simp_all add: Composition_ComponentLike_def)
    have "child_made ?ck ''wa8s.reconciler.io/composition'' (cc_Component cc) (rx_Resource t) (rx_World t) w1"
      using child that(1,2) by (subst child_made_cong [where r = ?r]) (simp_all add: ck same_owner_def)
    then show ?thesis
      by (subst ck(1) [symmetric]) (rule runs_component_child [where Q = Q], assumption, rule that(3))
  qed
  have built: "runs (ComposeComponents cx) (\<lambda>_. runs (PushComponent cx ''ComponentPushed'')
      (\<lambda>_. runs (ReflectComponentableStatus cx ?ck) (\<lambda>_ _. True))) t"
    if "st_Dependencies (rx_Stash t) = Some ?ds" "rs_Spec (rx_Resource t) = rs_Spec ?r" "st_Tag (rx_Stash t) = Some tag"
      "st_Keychain (rx_Stash t) = Some (merged cx kc (Some ?dk))" "rx_World t = w1" for t
  proof (rule runs_ComposeComponents [OF that(1)])
    show "runs (PushComponent cx ''ComponentPushed'') (\<lambda>_. runs (ReflectComponentableStatus cx ?ck) (\<lambda>_ _. True))
      (t\<lparr>rx_Stash := (rx_Stash t)\<lparr>st_Component := Some component\<rparr>\<rparr>)"
      by (rule runs_PushComponent [where component = component and tag = tag and kc = "merged cx kc (Some ?dk)"],
          use that push in simp_all) (rule runs_ReflectComponentableStatus)
  qed (use that comp in simp_all)
  have manage: "runs (ManageDependencies al cc ''wa8s.reconciler.io/composition'') Q s" if "Q () s1" for Q
    using that assms(6) by (simp add: runs_def wpe_def)
  show ?thesis
    unfolding CompositionReconciler_def Let_def runs_sequence [OF assms(1)]
  proof (rule runs_always(2) [OF assms(2)], rule manage, rule runs_always(2) [OF assms(2)],
      rule runs_ResolveDependencies [OF assms(1) deps], goal_cases)
    case (3 s2)
    let ?s3 = "s2\<lparr>rx_Resource := (rx_Resource s2)\<lparr>rs_Status := (rs_Status (rx_Resource s2))\<lparr>cst_Dependencies := map (\<lambda>d.
       \<lparr>cds_Component = rc_Name d, cds_Image = lib_DigestName (cx_lib cx) (rc_Image d), cds_WIT = rc_WIT d\<rparr>) ?ds\<rparr>\<rparr>\<rparr>"
    have "runs (al [composition_repository cx gvk, composition_child cx gvk (cc_Component cc)])
      (\<lambda>_. runs (ComposeComponents cx) (\<lambda>_. runs (PushComponent cx ''ComponentPushed'')
      (\<lambda>_. runs (ReflectComponentableStatus cx ?ck) (\<lambda>_ _. True)))) ?s3"
      by (rule runs_always(2) [OF assms(2)], rule runs_ResolveRepository [where kc = kc and tag = tag],
          use 3 repo in \<open>simp add: Composition_GetRepositoryReference_def\<close>, rule runs_always(2) [OF assms(2)], rule managed,
          use 3 in \<open>simp_all add: same_owner_def runs_always(1) [OF assms(2)]\<close>)
        (rule built, use 3 in \<open>simp_all add: merged_def\<close>)
    then show ?case
      using 3 by (intro runs_always(2) [OF assms(2)]) (simp add: runs_def wpe_ReflectDependenciesStatus)
  qed (use stash assms(8,9) in simp_all)
qed

end
