(* ===== verification/Compose_Props.thy ===== *)
theory Compose_Props
  imports Compose_Progress
begin

text \<open>
  The properties of the controllers of container images and compositions, the admission of the children
  they create, and the concrete runs they are applied to.
\<close>

section \<open>Valid specs stay valid in a child\<close>

text \<open>
  A child is defaulted again, for its own name in the same namespace.  What validation required leaves
  nothing for defaulting to fill in that could break the rules.
\<close>

lemma component_ref_survives:
  assumes "component_ref_rule c m r" "om_Namespace m' = om_Namespace m" "ComponentReference_Default (StashResource c m') r = Ret r'"
  shows "component_ref_rule c m' r'"
  unfolding ComponentReference_admitted [OF assms(3)] using assms(1,2)
  by (auto simp: component_ref_admissible_def component_ref_rule_def in_reach_def
      reference_allowed_def Let_def)

lemma oci_survives:
  assumes "oci_rule c m r" "om_Namespace m' = om_Namespace m" "OCIReference_Default (StashResource c m') r = Ret r'"
  shows "oci_rule c m' r'"
  unfolding OCIReference_admitted [OF assms(3)] using assms(1,2)
  by (auto simp: oci_admissible_def oci_rule_def in_reach_def reference_allowed_def)

lemma value_survives: "value_rule v \<Longrightarrow> Value_Default (StashResource c m) v = Ret v' \<Longrightarrow> v' = v"
  by (cases v) (auto simp: value_rule_def Value_Default_eq ValueFrom_Default_def bind_go_eq_Ret split: option.splits)

lemma mapM_same: "mapM_go f xs = Ret ys \<Longrightarrow> (\<And>x y. x \<in> set xs \<Longrightarrow> f x = Ret y \<Longrightarrow> y = x) \<Longrightarrow> ys = xs"
  by (induction xs arbitrary: ys) (auto simp: bind_go_eq_Ret)

lemma config_survives:
  assumes "config_rule s" "GenericConfigStoreSpec_Default (StashResource c m) s = Ret s'"
  shows "s' = s"
proof -
  from assms(2) obtain vsf vs where "mapM_go (ValuesFrom_Default (StashResource c m)) (gcs_ValuesFrom s) = Ret vsf"
    and "mapM_go (Value_Default (StashResource c m)) (gcs_Values s) = Ret vs" and "s' = s\<lparr>gcs_Values := vs, gcs_ValuesFrom := vsf\<rparr>"
    by (auto simp: GenericConfigStoreSpec_Default_def bind_go_eq_Ret)
  moreover have "vsf = gcs_ValuesFrom s"
    by (rule mapM_same [OF calculation(1)])
      (use assms(1) in \<open>auto simp: config_rule_def list_all_iff ValuesFrom_Default_def bind_go_eq_Ret\<close>)
  moreover have "vs = gcs_Values s"
    by (rule mapM_same [OF calculation(2)])
      (use assms(1) in \<open>auto simp: config_rule_def list_all_iff intro: value_survives\<close>)
  ultimately show ?thesis by simp
qed

lemma dependency_survives:
  assumes "dependency_rule c m d" "om_Namespace m' = om_Namespace m" "CompositionDependency_Default (StashResource c m') f d = Ret d'"
  shows "dependency_rule c m' d'"
proof -
  let ?c = "StashResource c m'"
  from assms(3) obtain ref cfg oci nested where d': "d' = CompositionDependency (cd_Component d) ref cfg oci nested"
    and ref: "option_go (ComponentReference_Default ?c) (cd_Ref d) = Ret ref"
    and cfg: "option_go (GenericConfigStoreSpec_Default ?c) (cd_Config d) = Ret cfg"
    and oci: "option_go (OCIReference_Default ?c) (cd_OCI d) = Ret oci"
    and nested: "option_go f (cd_Composition d) = Ret nested"
    by (auto simp: CompositionDependency_Default_def bind_go_eq_Ret)
  have "pred_option (component_ref_rule c m') ref"
    using ref assms(1,2) component_ref_survives
    by (cases "cd_Ref d") (auto simp: bind_go_eq_Ret dependency_rule_def)
  moreover have "pred_option config_rule cfg"
    using cfg assms(1)
    by (cases "cd_Config d") (auto simp: bind_go_eq_Ret dependency_rule_def dest!: config_survives [rotated])
  moreover have "pred_option (oci_rule c m') oci"
    using oci assms(1,2) oci_survives
    by (cases "cd_OCI d") (auto simp: bind_go_eq_Ret dependency_rule_def)
  moreover have "(ref = None) = (cd_Ref d = None)" "(cfg = None) = (cd_Config d = None)" "(oci = None) = (cd_OCI d = None)"
      "(nested = None) = (cd_Composition d = None)"
    using ref cfg oci nested by (auto simp: option_go_Ret_iff split: option.splits)
  ultimately show ?thesis
    using assms(1) by (simp add: dependency_rule_def d' one_source_def del: not_None_eq)
qed

lemma composition_survives:
  "(\<forall>t. nested_in s t \<longrightarrow> composition_rule c m t) \<Longrightarrow> om_Namespace m' = om_Namespace m \<Longrightarrow>
   GenericCompositionSpec_Default (StashResource c m') s = Ret s' \<Longrightarrow> (\<forall>t. nested_in s' t \<longrightarrow> composition_rule c m' t)"
proof (induction s arbitrary: s')
  case (GenericCompositionSpec wac plug deps)
  let ?s = "GenericCompositionSpec wac plug deps"
  from GenericCompositionSpec.prems(1) have rule: "composition_rule c m ?s"
    and nested: "\<And>d n. d \<in> set deps \<Longrightarrow> cd_Composition d = Some n \<Longrightarrow> \<forall>t. nested_in n t \<longrightarrow> composition_rule c m t"
    unfolding nested_in_unfold [of ?s] by auto
  from GenericCompositionSpec.prems(3) obtain deps' where
    deps: "list_all2 (\<lambda>d d'. CompositionDependency_Default (StashResource c m') (GenericCompositionSpec_Default (StashResource c m')) d = Ret d') deps deps'"
    and s': "s' = GenericCompositionSpec wac (if plug = None \<and> wac = [] then Some CompositionPlug else plug) deps'"
    by (auto simp: bind_go_eq_Ret mapM_go_Ret_iff)
  have survives: "dependency_rule c m' d'" "\<And>n'. cd_Composition d' = Some n' \<Longrightarrow> \<forall>t. nested_in n' t \<longrightarrow> composition_rule c m' t"
    if d': "d' \<in> set deps'" for d'
  proof -
    from list_all2_source [OF deps d'] obtain d where d: "d \<in> set deps"
      and dflt: "CompositionDependency_Default (StashResource c m') (GenericCompositionSpec_Default (StashResource c m')) d = Ret d'" by blast
    have "dependency_rule c m d" using rule d by (auto simp: composition_rule_def list_all_iff)
    from dependency_survives [OF this GenericCompositionSpec.prems(2) dflt] show "dependency_rule c m' d'" .
    fix n' assume "cd_Composition d' = Some n'"
    with dflt obtain n where n: "cd_Composition d = Some n" and "GenericCompositionSpec_Default (StashResource c m') n = Ret n'"
      by (cases "cd_Composition d") (auto simp: CompositionDependency_Default_def bind_go_eq_Ret)
    then show "\<forall>t. nested_in n' t \<longrightarrow> composition_rule c m' t"
      by (intro GenericCompositionSpec.IH [OF d nested_member [OF n] nested [OF d n] GenericCompositionSpec.prems(2)])
  qed
  have "composition_rule c m' s'"
    using rule survives(1) list_all2_lengthD [OF deps] by (auto simp: composition_rule_def s' list_all_iff)
  with survives(2) show ?case
    unfolding nested_in_unfold [of s'] by (auto simp: s')
qed

lemma dependency_meta_allowed:
  "om_Namespace (dependency_meta m key n) = om_Namespace m" "ValidateCommonAnnotations [] (dependency_meta m key n) = []"
  by (simp_all add: dependency_meta_def child_meta_def ValidateCommonAnnotations_no_error dependency_annotation_def
      CreateChildComponentAnnotation_def)

lemma desired_dependency:
  "(m, spec) \<in> set (ManageConfigStore_DesiredChildren key r) \<Longrightarrow> \<exists>d \<in> set (co_Dependencies (cos_Composition (rs_Spec r))).
     m = dependency_meta (rs_Meta r) key (cd_Component d) \<and> cd_Config d = Some (css_Store spec) \<and> css_Generic spec = blank_component_spec"
  "(m, cspec) \<in> set (ManageOci_DesiredChildren key r) \<Longrightarrow> \<exists>d \<in> set (co_Dependencies (cos_Composition (rs_Spec r))).
     m = dependency_meta (rs_Meta r) key (cd_Component d) \<and> cd_OCI d = cs_OCI cspec \<and> cs_OCI cspec \<noteq> None \<and> cs_Ref cspec = None"
  "(m, nspec) \<in> set (ManageComposition_DesiredChildren key r) \<Longrightarrow> \<exists>d \<in> set (co_Dependencies (cos_Composition (rs_Spec r))).
     m = dependency_meta (rs_Meta r) key (cd_Component d) \<and> cd_Composition d = Some (cos_Composition nspec) \<and> cos_Generic nspec = blank_component_spec"
  by (auto simp: ManageConfigStore_DesiredChildren_def ManageOci_DesiredChildren_def ManageComposition_DesiredChildren_def
      map_filter_def split: option.splits)

lemma config_store_admitted:
  assumes "config_rule (css_Store (rs_Spec o'))" "ValidateCommonAnnotations [] (rs_Meta o') = []"
  shows "ConfigStore_ValidateCreate c o' = Ret ()"
proof -
  let ?c = "StashResource c (rs_Meta o')"
  obtain g where g: "GenericComponentSpec_Default ?c (css_Generic (rs_Spec o')) = Ret g"
    using generic_component.dflt_returns [of ?c "css_Generic (rs_Spec o')"] by (auto simp: returns_def)
  obtain st where st: "GenericConfigStoreSpec_Default ?c (css_Store (rs_Spec o')) = Ret st"
    using config_spec.dflt_returns [of ?c "css_Store (rs_Spec o')"] by (auto simp: returns_def)
  have "config_rule st" using config_survives [OF assms(1) st] assms(1) by simp
  then show ?thesis
    using admitted_spec_iff [OF _ _ config_store.obj_create, where sd = ConfigStoreSpec_Default and sv = ConfigStoreSpec_Validate
        and c = c and r = o'] assms(2) GenericComponentSpec_admitted [OF g]
    by (simp add: ConfigStore_Default_def ConfigStore_Validate_def Let_def ConfigStoreSpec_Default_def ConfigStoreSpec_Validate_def
        g st cat_errs_Cons_no_error GenericConfigStoreSpec_Validate_rule)
qed

lemma composition_admitted:
  assumes "\<forall>t. nested_in (cos_Composition (rs_Spec o')) t \<longrightarrow> composition_rule c m t" "om_Namespace (rs_Meta o') = om_Namespace m"
    and "ValidateCommonAnnotations [] (rs_Meta o') = []"
  shows "Composition_ValidateCreate u None c o' = Ret ()"
proof -
  let ?c = "StashResource c (rs_Meta o')"
  obtain g where g: "GenericComponentSpec_Default ?c (cos_Generic (rs_Spec o')) = Ret g"
    using generic_component.dflt_returns [of ?c "cos_Generic (rs_Spec o')"] by (auto simp: returns_def)
  obtain st where st: "GenericCompositionSpec_Default ?c (cos_Composition (rs_Spec o')) = Ret st"
    using composition_body.dflt_returns [of ?c "cos_Composition (rs_Spec o')"] by (auto simp: returns_def)
  have "\<forall>t. nested_in st t \<longrightarrow> composition_rule c (rs_Meta o') t" by (rule composition_survives [OF assms(1,2) st])
  then show ?thesis
    using admitted_spec_iff [OF _ _ composition.obj_create, where sd = CompositionSpec_Default and sv = CompositionSpec_Validate
        and c = c and r = o'] assms(3) GenericComponentSpec_admitted [OF g]
    by (simp add: Composition_Default_def Composition_Validate_def Let_def CompositionSpec_Default_def CompositionSpec_Validate_def
        g st cat_errs_Cons_no_error composition_valid_iff_nested)
qed

text \<open>C14: the webhooks admit every child a validated composition asks for: the config stores, the components and
  the nested compositions, each in the namespace of the composition.\<close>

theorem composition_children_admitted:
  assumes "GenericCompositionSpec_Validate (StashResource c (rs_Meta r)) p (cos_Composition (rs_Spec r)) = Ret []"
  shows "(\<forall>(m, spec) \<in> set (ManageConfigStore_DesiredChildren key r). om_Namespace m = om_Namespace (rs_Meta r) \<and>
       (\<forall>st. ConfigStore_ValidateCreate c \<lparr>rs_Meta = m, rs_Spec = spec, rs_Status = st\<rparr> = Ret ())) \<and>
    (\<forall>(m, spec) \<in> set (ManageOci_DesiredChildren key r). om_Namespace m = om_Namespace (rs_Meta r) \<and>
       (\<forall>st. Component_ValidateCreate c \<lparr>rs_Meta = m, rs_Spec = spec, rs_Status = st\<rparr> = Ret ())) \<and>
    (\<forall>(m, spec) \<in> set (ManageComposition_DesiredChildren key r). om_Namespace m = om_Namespace (rs_Meta r) \<and>
       (\<forall>st u. Composition_ValidateCreate u None c \<lparr>rs_Meta = m, rs_Spec = spec, rs_Status = st\<rparr> = Ret ()))"
proof (intro conjI ballI)
  have rule: "\<forall>t. nested_in (cos_Composition (rs_Spec r)) t \<longrightarrow> composition_rule c (rs_Meta r) t"
    using assms unfolding composition_valid_iff_nested .
  then have deps: "dependency_rule c (rs_Meta r) d" if "d \<in> set (co_Dependencies (cos_Composition (rs_Spec r)))" for d
    using that nested_refl [of "cos_Composition (rs_Spec r)"] by (auto simp: composition_rule_def list_all_iff)
  have nested: "\<forall>t. nested_in n t \<longrightarrow> composition_rule c (rs_Meta r) t"
    if "d \<in> set (co_Dependencies (cos_Composition (rs_Spec r)))" "cd_Composition d = Some n" for d n
    using rule that by (auto intro: nested_step)
  { fix x assume x: "x \<in> set (ManageConfigStore_DesiredChildren key r)"
    show "case x of (m, spec) \<Rightarrow> om_Namespace m = om_Namespace (rs_Meta r) \<and>
        (\<forall>st. ConfigStore_ValidateCreate c \<lparr>rs_Meta = m, rs_Spec = spec, rs_Status = st\<rparr> = Ret ())"
    proof (cases x)
      case (Pair m spec)
      with x obtain d where d: "d \<in> set (co_Dependencies (cos_Composition (rs_Spec r)))" "cd_Config d = Some (css_Store spec)"
        "m = dependency_meta (rs_Meta r) key (cd_Component d)" using desired_dependency(1) by blast
      with deps [OF d(1)] Pair show ?thesis by (simp add: dependency_meta_allowed dependency_rule_def config_store_admitted)
    qed }
  { fix x assume x: "x \<in> set (ManageOci_DesiredChildren key r)"
    show "case x of (m, spec) \<Rightarrow> om_Namespace m = om_Namespace (rs_Meta r) \<and>
        (\<forall>st. Component_ValidateCreate c \<lparr>rs_Meta = m, rs_Spec = spec, rs_Status = st\<rparr> = Ret ())"
    proof (cases x)
      case (Pair m spec)
      with x obtain d where d: "d \<in> set (co_Dependencies (cos_Composition (rs_Spec r)))" "cd_OCI d = cs_OCI spec"
        "cs_OCI spec \<noteq> None" "cs_Ref spec = None" "m = dependency_meta (rs_Meta r) key (cd_Component d)" using desired_dependency(2) by blast
      with deps [OF d(1)] Pair show ?thesis
        by (auto simp: dependency_meta_allowed dependency_rule_def component_admitted component_source_admissible_def
          oci_admissible_def oci_rule_def in_reach_def reference_allowed_def)
    qed }
  fix x assume x: "x \<in> set (ManageComposition_DesiredChildren key r)"
  show "case x of (m, spec) \<Rightarrow> om_Namespace m = om_Namespace (rs_Meta r) \<and>
       (\<forall>st u. Composition_ValidateCreate u None c \<lparr>rs_Meta = m, rs_Spec = spec, rs_Status = st\<rparr> = Ret ())"
  proof (cases x)
    case (Pair m spec)
    with x obtain d where d: "d \<in> set (co_Dependencies (cos_Composition (rs_Spec r)))" "cd_Composition d = Some (cos_Composition spec)"
      "m = dependency_meta (rs_Meta r) key (cd_Component d)" using desired_dependency(3) by blast
    with nested [OF d(1,2)] Pair show ?thesis
      by (simp add: dependency_meta_allowed composition_admitted [where m = "rs_Meta r"])
  qed
qed

section \<open>The properties of the pipelines\<close>

text \<open>C15: reconciling a container image never panics, whatever step fails; it sets only the four conditions of the
  kind; and when it returns nil the layer of the component its spec refers to, pulled at the digest this component publishes, was
  appended to every image of the base image of the spec, for the same platforms - the archive of exactly this component, or no
  layer at all when the archive could not be written - and the index of these images was
  written to the tag of the container image in its repository; the status publishes the digest of this index with the imports and exports of the component, and a trace that does not go through
  the container image itself.  A first request returns nil when the component and the base can be pulled, the repository is
  ready and the registry takes the index.\<close>

theorem cci_pipeline_sound:
  assumes "calm cx" "quiet_go gvk" "sequences sq" "calls_all al" "calm_index ix"
    and "ComponentContainerImageReconciler sq al cx gvk patch ix s = (s', g)"
  shows "quiet_go g \<and> only_marks (set ComponentContainerImageConditions) s s' \<and>
    (g = Ret () \<longrightarrow> Mark ''ComponentPulled'' CTrue ''Resolved'' '''' \<in> set (rx_Marks s') \<and>
       Mark ''Pushed'' CTrue ''Pushed'' '''' \<in> set (rx_Marks s') \<and>
       publishes_container cx gvk ix (rx_Resource s) (rx_World s) (rx_World s') (rs_Status (rx_Resource s')) \<and>
       \<not> fst (DetectTraceCycle (gst_Trace (rs_Status (rx_Resource s'))) (rs_Meta (rx_Resource s)))) \<and>
    (containable cx gvk ix (rx_Resource s) (rx_World s) \<and> st_Trace (rx_Stash s) = None \<longrightarrow> g = Ret ())"
  using wpe_explicit [OF wpe_cci_pipeline [OF assms(1-5)] assms(6)] runs_Ret [OF cci_progress [OF assms(3,4)] assms(6)]
  by (cases g) auto

lemma validated_sources:
  assumes "GenericCompositionSpec_Validate (StashResource c m) p spec = Ret []"
  shows "co_Dependencies spec \<noteq> []" "d \<in> set (co_Dependencies spec) \<Longrightarrow> one_source d" "co_Plug spec \<noteq> None \<or> co_WAC spec \<noteq> ''''"
proof -
  have rule: "composition_rule c m spec"
    using assms unfolding composition_valid_iff_nested using nested_refl by blast
  then show "co_Dependencies spec \<noteq> []" "co_Plug spec \<noteq> None \<or> co_WAC spec \<noteq> ''''"
    by (auto simp: composition_rule_def)
  assume "d \<in> set (co_Dependencies spec)"
  with rule show "one_source d" by (auto simp: composition_rule_def dependency_rule_def list_all_iff)
qed

text \<open>C4: reconciling a composition the webhook validated never panics when the cluster creates the children it asks
  for; it sets only its own conditions; and when it returns nil its status publishes a pushed component that was
  composed, by the plug or the wac script of the spec, of what the dependencies resolved to, in the order of the
  spec, and lists exactly these dependencies; and each dependency was resolved from the component its own reference names or,
  if it describes a config store, an image or a composition, from the child created for this very dependency, unless two
  dependencies share a name.  A first request whose children are managed returns nil when the dependencies
  can be pulled and composed, the repository is ready and the registry takes the result.\<close>

theorem composition_pipeline_sound:
  assumes "calm cx" "quiet_go gvk" "sequences sq" "calls_all al" "publishes_wit cx"
    and "creates (cc_ConfigStores cc)" "creates (cc_Components cc)" "creates (cc_Compositions cc)" "\<And>c w. quiet_go (snd (cc_Component cc c w))"
    and "GenericCompositionSpec_Validate (StashResource c (rs_Meta (rx_Resource s))) p (cos_Composition (rs_Spec (rx_Resource s))) = Ret []"
    and "st_Dependencies (rx_Stash s) = None"
    and "CompositionReconciler sq al cx gvk cc s = (s', g)"
  shows "quiet_go g \<and> only_marks CompositionMarks s s' \<and>
    (g = Ret () \<longrightarrow> publishes_composition cx gvk cc (rx_Resource s) (rx_World s) (rx_World s') (rx_Resource s')) \<and>
    (ManageDependencies al cc ''wa8s.reconciler.io/composition'' s = (s1, Ret ()) \<and> st_Trace (rx_Stash s) = None \<and>
       composable cx gvk (cc_Component cc) (rx_Resource s1) (rx_World s1) \<longrightarrow> g = Ret ())"
  using wpe_explicit [OF wpe_composition_pipeline [OF assms(1-9) validated_sources [OF assms(10)] assms(11)] assms(12)]
    runs_Ret [OF composition_progress [where ?s1.0 = s1, OF assms(3,4,6-8) _ _ _ assms(11)] assms(12)]
  by (cases g) auto

text \<open>C16: without the child of its first dependency the request panics: the children are managed under
  \<^verbatim>\<open>Always\<close>, so that the dependencies are resolved even when creating one of them failed, and
  \<^verbatim>\<open>ResolveDependency\<close> follows the reference the reflection of the child would have set.\<close>

theorem composition_missing_child_panics:
  assumes "sequences sq" "calls_all al" "ManageDependencies al cc ''wa8s.reconciler.io/composition'' s = (s1, g)" "quiet_go g"
    and "co_Dependencies (cos_Composition (rs_Spec (rx_Resource s1))) = item # rest" "cd_Ref item = None"
  shows "snd (CompositionReconciler sq al cx gvk cc s) = Panic ''nil pointer dereference''"
proof -
  let ?hs = "[ReflectDependenciesStatus cx, ResolveRepository cx rs_Meta gvk Composition_GetRepositoryReference ''RepositoryReady'',
     child_reconciler (ComponentChild_DesiredChild (Composition_ComponentLike gvk) ''wa8s.reconciler.io/composition'') (cc_Component cc)
       (ComponentChild_Reflect cx rs_Meta ''ChildComponent'')]"
  let ?m = "ManageDependencies al cc ''wa8s.reconciler.io/composition''"
  have "ResolveDependencies sq cx s1 = (s1, Panic ''nil pointer dereference'')"
    using assms(1,5,6) by (simp add: ResolveDependencies_def ResolveDependency_def sequences_def act_simps act_bind_def Let_def)
  note tail = calls_all_steps(2) [where r = "ResolveDependencies sq cx" and rs = ?hs, OF assms(2) this refl]
  have "snd (al (?m # ResolveDependencies sq cx # ?hs) s) = Panic ''nil pointer dereference''"
    by (cases g) (use assms(4) calls_all_steps [where r = ?m, OF assms(2,3)] in \<open>simp_all add: tail\<close>)
  then show ?thesis
    using assms(1)
    by (cases "al (?m # ResolveDependencies sq cx # ?hs) s")
      (simp add: CompositionReconciler_def Let_def sequences_def act_then_def act_bind_def)
qed

section \<open>Concrete runs\<close>

definition demo_duck :: ComponentDuck where
  "demo_duck = \<lparr>rs_Meta = demo_named ''apps'' ''lib'', rs_Spec = \<lparr>gs_RepositoryRef = \<lparr>rr_Kind = ''Repository'', rr_Name = ''default''\<rparr>\<rparr>,
     rs_Status = \<lparr>cdk_Status = demo_ready, cdk_Generic = \<lparr>gst_Image = ''r@sha256:0'',
       gst_WIT = Some \<lparr>wit_Imports = [], wit_Exports = []\<rparr>, gst_Trace = []\<rparr>\<rparr>\<rparr>"

definition full_cluster :: "(string, string, string, string, string, unit) cluster" where
  "full_cluster = demo_cluster\<lparr>
     cx_ClusterImage := (\<lambda>n. Ret (demo_image_object\<lparr>rs_Status := \<lparr>ist_Status = demo_ready, ist_Image = ''r@sha256:1''\<rparr>\<rparr>)),
     cx_Component := (\<lambda>t k. Ret demo_duck), cx_witToolsPool := Ret (\<lambda>f c. Ret ''w'')\<rparr>"

lemma full_calm: "calm full_cluster"
  using demo_calm by (simp add: calm_def full_cluster_def)

lemma full_publishes_wit: "publishes_wit full_cluster"
  by (simp add: publishes_wit_def full_cluster_def demo_duck_def)

lemma demo_index_calm: "calm_index demo_index"
  by (simp add: calm_index_def demo_index_def)

definition demo_container :: ComponentContainerImage where
  "demo_container = \<lparr>rs_Meta = demo_named ''apps'' ''app'',
     rs_Spec = \<lparr>cci_Generic = \<lparr>gs_RepositoryRef = \<lparr>rr_Kind = ''Repository'', rr_Name = ''default''\<rparr>\<rparr>,
       cci_Ref = \<lparr>cr_APIVersion = ''wa8s.reconciler.io/v1alpha1'', cr_Kind = ''Component'', cr_Namespace = ''apps'', cr_Name = ''lib''\<rparr>,
       cci_ImageRef = \<lparr>ir_Kind = ''ClusterImage'', ir_Namespace = '''', ir_Name = ''wasmtime''\<rparr>\<rparr>,
     rs_Status = \<lparr>gst_Image = '''', gst_WIT = None, gst_Trace = []\<rparr>\<rparr>"

definition no_patch :: "ComponentSpan list \<Rightarrow> 'r \<Rightarrow> 'r go" where
  "no_patch tr r = Ret r"

text \<open>The component \<open>lib\<close> of the cluster can be pulled.\<close>

lemma full_usable: "usable full_cluster (Ret g) (demo_named ''apps'' n) \<lparr>rr_Kind = ''Repository'', rr_Name = ''default''\<rparr> ''pull'' ''registry/x''"
  by (simp add: usable_def repository_at_def fetch_repository_def default_repository_def full_cluster_def demo_defs
      RepositoryStatus_InitializeConditions_def Repository_Default_def RepositorySpec_Default_def ServiceAccountReference_Default_def
      repository_keychain_def KeychainForRepo_def KeychainForServiceAccountRef_def template_tag_def ApplyTemplate_def)

definition full_span :: "string \<Rightarrow> string \<Rightarrow> ComponentSpan" where
  "full_span ns n = ComponentSpan ''sha256:0'' (''uid-'' @ n) ''wa8s.reconciler.io'' ''Component'' ns n [] False"

lemma full_component_at: "component_at full_cluster ref (full_span ''apps'' ''lib'') demo_duck"
proof -
  have "digest_part (cx_lib full_cluster) ''r@sha256:0'' = ''sha256:0''" by code_simp
  then have "duck_span full_cluster ref demo_duck = Ret (full_span ''apps'' ''lib'')"
    by (simp add: duck_span_def SynthesizeSpan_def full_span_def full_cluster_def demo_duck_def demo_defs)
  moreover have "GenericComponentSpec_Default (cx_ctx full_cluster) (rs_Spec demo_duck) = Ret (rs_Spec demo_duck)" by code_simp
  moreover have "ResolveComponentReference full_cluster ref = Ret demo_duck" by (simp add: ResolveComponentReference_def full_cluster_def)
  ultimately show ?thesis
    unfolding component_at_def
    by (intro exI [of _ demo_duck] exI [of _ "rs_Spec demo_duck"]) (simp add: demo_duck_def full_cluster_def demo_defs)
qed

lemma full_pullable_at:
  "\<exists>cfg. pullable_at full_cluster ref () (full_span ''apps'' ''lib'') demo_duck ''pull'' ''r@sha256:0'' ''asm'' cfg"
proof -
  let ?lib = "cx_lib full_cluster"
  have "lib_NewDigest ?lib ''r@sha256:0'' = Ret ''r@sha256:0''" by code_simp
  moreover have "case Pull ?lib (cx_remote full_cluster) ''pull'' ''r@sha256:0'' () of Ret x \<Rightarrow> fst x = ''asm'' | _ \<Rightarrow> False" by code_simp
  then obtain cfg where "Pull ?lib (cx_remote full_cluster) ''pull'' ''r@sha256:0'' () = Ret (''asm'', cfg)"
    by (auto split: go.splits)
  moreover obtain g where "cx_GVKFor full_cluster ''ComponentDuck'' (ComponentReference_TypeMeta ref) = Ret g"
    by (simp add: full_cluster_def demo_defs)
  moreover have "rs_Meta demo_duck = demo_named ''apps'' ''lib''"
    "ComponentDuck_GetRepositoryReference demo_duck = \<lparr>rr_Kind = ''Repository'', rr_Name = ''default''\<rparr>"
    "gst_Image (cdk_Generic (rs_Status demo_duck)) = ''r@sha256:0''"
    by (simp_all add: demo_duck_def ComponentDuck_GetRepositoryReference_def)
  ultimately show ?thesis
    unfolding pullable_at_def using full_component_at full_usable by auto
qed

lemma full_repository_at:
  "\<exists>r. repository_at full_cluster ''apps'' \<lparr>rr_Kind = ''Repository'', rr_Name = ''default''\<rparr> ''pull'' r"
  using full_usable [where n = "''app''"] by (auto simp: usable_def demo_named_def)

lemma full_image_at:
  "image_at full_cluster ''apps'' (cci_ImageRef (rs_Spec demo_container))
     (ComponentSpan '''' ''uid-base'' ''wa8s.reconciler.io'' ''Component'' ''apps'' ''base'' [] False) ''pull'' ''r@sha256:1''"
proof -
  let ?ref = "cci_ImageRef (rs_Spec demo_container)"
  let ?img = "demo_image_object\<lparr>rs_Status := \<lparr>ist_Status = demo_ready, ist_Image = ''r@sha256:1''\<rparr>\<rparr>"
  have fetch: "fetch_image full_cluster ''apps'' ?ref = Ret ?img" by (simp add: fetch_image_def demo_container_def full_cluster_def)
  have "case default_image (cx_ctx full_cluster) ?ref ?img of
      Ret i \<Rightarrow> is_RepositoryRef (rs_Spec i) = \<lparr>rr_Kind = ''Repository'', rr_Name = ''default''\<rparr> \<and>
        cx_NewDigestStrict full_cluster (ist_Image (rs_Status i)) = Ret ''r@sha256:1''
    | _ \<Rightarrow> False" by code_simp
  then obtain i where i: "default_image (cx_ctx full_cluster) ?ref ?img = Ret i"
    "is_RepositoryRef (rs_Spec i) = \<lparr>rr_Kind = ''Repository'', rr_Name = ''default''\<rparr>"
    "cx_NewDigestStrict full_cluster (ist_Image (rs_Status i)) = Ret ''r@sha256:1''" by (auto split: go.splits)
  have "digest_part (cx_lib full_cluster) '''' = ''''" by code_simp
  then have "SynthesizeSpan (digest_part (cx_lib full_cluster)) (cx_GVKFor full_cluster k t) (rs_Meta ?img) (cx_Convert full_cluster ?img) =
      Ret (ComponentSpan '''' ''uid-base'' ''wa8s.reconciler.io'' ''Component'' ''apps'' ''base'' [] False)" for k t
    by (simp add: SynthesizeSpan_def full_cluster_def demo_image_object_def demo_defs)
  moreover from full_repository_at obtain r where
    "repository_at full_cluster ''apps'' \<lparr>rr_Kind = ''Repository'', rr_Name = ''default''\<rparr> ''pull'' r" by blast
  moreover have "om_Generation (rs_Meta ?img) = as_ObservedGeneration (ist_Status (rs_Status ?img))"
    "cl_IsTrue (cx_conds full_cluster) (cl_Get (cx_conds full_cluster)
       (ImageStatus_InitializeConditions (cx_conds full_cluster) (ist_Status (rs_Status ?img))) ''Ready'')" by code_simp+
  ultimately show ?thesis
    unfolding image_at_def using fetch i
    by (intro exI [of _ ?img] exI [of _ i] exI [of _ r]) simp
qed

lemma demo_containable: "containable full_cluster demo_gvk demo_index demo_container ()"
proof -
  let ?append = "AppendComponent (cx_lib full_cluster) (cx_remote full_cluster) demo_index (merged full_cluster ''pull'' (Some ''pull''))
      (RefDigest ''r@sha256:1'') ''registry/x'' ''asm'' ()"
  have "case snd ?append of Ret _ \<Rightarrow> True | _ \<Rightarrow> False" by code_simp
  then obtain d where "?append = ((), Ret d)" by (cases ?append) (auto split: go.splits)
  moreover have "\<not> fst (DetectTraceCycle [full_span ''apps'' ''lib'',
      ComponentSpan '''' ''uid-base'' ''wa8s.reconciler.io'' ''Component'' ''apps'' ''base'' [] False] (rs_Meta demo_container))" by code_simp
  moreover have "rs_Meta demo_container = demo_named ''apps'' ''app''" "om_Namespace (demo_named ''apps'' n) = ''apps''"
    "gs_RepositoryRef (cci_Generic (rs_Spec demo_container)) = \<lparr>rr_Kind = ''Repository'', rr_Name = ''default''\<rparr>" for n
    by (simp_all add: demo_container_def demo_named_def)
  ultimately show ?thesis
    unfolding containable_def demo_gvk_def using full_pullable_at full_image_at full_usable by metis
qed

lemma cci_pipeline_sound_witness:
  "\<exists>s'. ComponentContainerImageReconciler run_sequence run_always full_cluster demo_gvk no_patch demo_index (demo_start demo_container)
      = (s', Ret ()) \<and> publishes_container full_cluster demo_gvk demo_index demo_container () () (rs_Status (rx_Resource s')) \<and>
     gst_Trace (rs_Status (rx_Resource s')) \<noteq> []"
proof -
  let ?run = "ComponentContainerImageReconciler run_sequence run_always full_cluster demo_gvk no_patch demo_index (demo_start demo_container)"
  note * = cci_pipeline_sound [OF full_calm demo_gvk_quiet run_sequence_law run_always_law demo_index_calm prod.collapse [of ?run, symmetric]]
  have start: "rx_Resource (demo_start demo_container) = demo_container" "rx_World (demo_start demo_container) = ()"
    "st_Trace (rx_Stash (demo_start demo_container)) = None" by (simp_all add: demo_start_def empty_stash_def)
  have "snd ?run = Ret ()" using * demo_containable unfolding start by blast
  note run = run_split [OF this]
  have "gst_Trace (rs_Status (rx_Resource (fst ?run))) \<noteq> []" by code_simp
  moreover have "publishes_container full_cluster demo_gvk demo_index demo_container () () (rs_Status (rx_Resource (fst ?run)))"
    using * \<open>snd ?run = Ret ()\<close> unfolding start unit_eq [of "rx_World (fst ?run)"] by blast
  ultimately show ?thesis using run by blast
qed

definition create_all :: "(ObjectMeta \<times> 'spec) list \<Rightarrow> unit \<Rightarrow> unit \<times> ((string \<times> ObjectMeta option) list \<times> gerr option)" where
  "create_all cs w = (w, map (\<lambda>c. (IdentifyChild (fst c), Some ((fst c)\<lparr>om_Name := ''generated-'' @ IdentifyChild (fst c)\<rparr>))) cs, None)"

definition create_none :: "(ObjectMeta \<times> 'spec) list \<Rightarrow> unit \<Rightarrow> unit \<times> ((string \<times> ObjectMeta option) list \<times> gerr option)" where
  "create_none cs w = (w, map (\<lambda>c. (IdentifyChild (fst c), None)) cs, Some (ApiErr AlreadyExists '''' ''''))"

lemma create_all_creates: "creates create_all"
  by (force simp: creates_def create_all_def IdentifyChild_def)

definition demo_composition :: Composition where
  "demo_composition = \<lparr>rs_Meta = demo_named ''apps'' ''both'',
     rs_Spec = \<lparr>cos_Generic = \<lparr>gs_RepositoryRef = \<lparr>rr_Kind = ''Repository'', rr_Name = ''default''\<rparr>\<rparr>,
       cos_Composition = GenericCompositionSpec '''' (Some CompositionPlug)
         [CompositionDependency ''x'' None (Some sample_config) None None,
          CompositionDependency ''y'' (Some \<lparr>cr_APIVersion = ''wa8s.reconciler.io/v1alpha1'', cr_Kind = ''Component'',
             cr_Namespace = ''apps'', cr_Name = ''lib''\<rparr>) None None None]\<rparr>,
     rs_Status = \<lparr>cst_Generic = \<lparr>gst_Image = '''', gst_WIT = None, gst_Trace = []\<rparr>, cst_Dependencies = []\<rparr>\<rparr>"

definition demo_children :: "unit composition_children" where
  "demo_children = \<lparr>cc_ConfigStores = create_all, cc_Components = create_all, cc_Compositions = create_all, cc_Component = demo_manage True\<rparr>"

lemma demo_composition_valid:
  "GenericCompositionSpec_Validate (StashResource sample_ctx (rs_Meta (rx_Resource (demo_start demo_composition)))) (new_path '''')
     (cos_Composition (rs_Spec (rx_Resource (demo_start demo_composition)))) = Ret []"
  by code_simp

text \<open>Its dependencies resolve once its children are created, and the plug composes them.\<close>

lemma demo_dependency_at:
  "cd_Ref item = Some ref \<Longrightarrow> dependency_at full_cluster () item (full_span ''apps'' ''lib'', ''pull'',
     \<lparr>rc_Name = cd_Component item, rc_Image = ''r@sha256:0'', rc_Component = ''asm'', rc_WIT = \<lparr>wit_Imports = [], wit_Exports = []\<rparr>\<rparr>)"
proof -
  have "gst_WIT (cdk_Generic (rs_Status demo_duck)) = Some \<lparr>wit_Imports = [], wit_Exports = []\<rparr>" by (simp add: demo_duck_def)
  then show "cd_Ref item = Some ref \<Longrightarrow> ?thesis" using full_pullable_at [of ref] by (auto simp: dependency_at_def)
qed

lemma demo_composable:
  assumes "same_owner r demo_composition" "list_all (\<lambda>d. cd_Ref d \<noteq> None) (co_Dependencies (cos_Composition (rs_Spec r)))"
    and "map cd_Component (co_Dependencies (cos_Composition (rs_Spec r))) = [''x'', ''y'']" "co_Plug (cos_Composition (rs_Spec r)) \<noteq> None"
  shows "composable full_cluster demo_gvk (demo_manage True) r ()"
proof -
  let ?lib = "cx_lib full_cluster" and ?items = "co_Dependencies (cos_Composition (rs_Spec r))"
  let ?rc = "\<lambda>n. \<lparr>rc_Name = n, rc_Image = ''r@sha256:0'', rc_Component = ''asm'', rc_WIT = \<lparr>wit_Imports = [], wit_Exports = []\<rparr>\<rparr>"
  let ?found = "map (\<lambda>item. (full_span ''apps'' ''lib'', ''pull'', ?rc (cd_Component item))) ?items"
  have two: "\<exists>a b. ?items = [a, b] \<and> cd_Component a = ''x'' \<and> cd_Component b = ''y''" using assms(3) by auto
  have deps: "list_all2 (dependency_at full_cluster ()) ?items ?found"
    unfolding list.rel_map by (rule list.rel_refl_strong) (use assms(2) demo_dependency_at in \<open>auto simp: list_all_iff\<close>)
  have meta: "rs_Meta r = demo_named ''apps'' ''both''" "Composition_GetRepositoryReference r = \<lparr>rr_Kind = ''Repository'', rr_Name = ''default''\<rparr>"
    using assms(1) by (simp_all add: same_owner_def demo_composition_def Composition_GetRepositoryReference_def)
  have "\<not> fst (DetectTraceCycle [full_span ''apps'' ''lib'', full_span ''apps'' ''lib''] (demo_named ''apps'' ''both''))" by code_simp
  with two have cycle: "\<not> fst (DetectTraceCycle (map fst ?found) (rs_Meta r))" by (auto simp: meta)
  let ?push = "\<lambda>c. Push ?lib (cx_remote full_cluster) (ExtractWIT (cx_witToolsPool full_cluster))
      (merged full_cluster ''pull'' (Some ''pull'')) (RefTag ''registry/x'') c ()"
  let ?plug = "WACPlug (cx_wacPool full_cluster) (lib_json_text ?lib) (cx_base64 full_cluster) [?rc ''x'', ?rc ''y'']"
  have "case ?plug of Ret c \<Rightarrow> (case snd (?push c) of Ret _ \<Rightarrow> True | _ \<Rightarrow> False) | _ \<Rightarrow> False" by code_simp
  then obtain c where plug: "?plug = Ret c" and "case snd (?push c) of Ret _ \<Rightarrow> True | _ \<Rightarrow> False" by (cases ?plug) simp_all
  then obtain d where push: "?push c = ((), Ret d)" by (cases "?push c") (auto split: go.splits)
  have comp: "composes full_cluster (cos_Composition (rs_Spec r)) (map (snd \<circ> snd) ?found) c"
    using plug two assms(4) by (auto simp: composes_def)
  have child: "child_made (Composition_ComponentLike demo_gvk) ''wa8s.reconciler.io/composition'' (demo_manage True) r () ()"
    by (simp add: child_made_def ComponentChild_DesiredChild_def Composition_ComponentLike_def ChildComponentShouldExist_def
        demo_manage_def meta demo_defs Let_def)
  have found: "fst (snd (last ?found)) = ''pull''" "?found \<noteq> []" using two by auto
  obtain d1 d2 where d: "d = (d1, d2)" by (cases d)
  have repo: "usable full_cluster demo_gvk (rs_Meta r) (Composition_GetRepositoryReference r) ''pull'' ''registry/x''"
    unfolding meta demo_gvk_def by (rule full_usable)
  show ?thesis
    unfolding composable_def
    by (rule exI [of _ ?found], rule exI [of _ "''pull''"], rule exI [of _ "''registry/x''"], rule exI [of _ "()"], rule exI [of _ c],
        rule exI [of _ "()"], rule exI [of _ d1], rule exI [of _ d2], intro conjI deps found(2) cycle repo child comp disjI1 assms(4))
      (simp only: found(1) push d)
qed

lemma composition_pipeline_sound_witness:
  "\<exists>s'. CompositionReconciler run_sequence run_always full_cluster demo_gvk demo_children (demo_start demo_composition) = (s', Ret ()) \<and>
     map cds_Component (cst_Dependencies (rs_Status (rx_Resource s'))) = [''x'', ''y''] \<and>
     (\<exists>(items :: GenericCompositionSpec CompositionDependency list) w ds m. list_all2 (resolved_as full_cluster w) items ds \<and>
        map cd_Ref items = [Some (child_ref ''ConfigStore'' m), Some \<lparr>cr_APIVersion = ''wa8s.reconciler.io/v1alpha1'',
          cr_Kind = ''Component'', cr_Namespace = ''apps'', cr_Name = ''lib''\<rparr>] \<and> IdentifyChild m = ''x'' \<and> om_Namespace m = ''apps'')"
proof -
  let ?run = "CompositionReconciler run_sequence run_always full_cluster demo_gvk demo_children (demo_start demo_composition)"
  let ?m = "ManageDependencies run_always demo_children ''wa8s.reconciler.io/composition'' (demo_start demo_composition)"
  let ?made = "rx_Resource (fst ?m)"
  have cc: "creates (cc_ConfigStores demo_children)" "creates (cc_Components demo_children)" "creates (cc_Compositions demo_children)"
    by (simp_all add: demo_children_def create_all_creates)
  have q: "quiet_go (snd (cc_Component demo_children c w))" for c w by (simp add: demo_children_def demo_manage_def)
  have d: "st_Dependencies (rx_Stash (demo_start demo_composition)) = None" by (simp add: demo_start_def empty_stash_def)
  note sound = composition_pipeline_sound [where s = "demo_start demo_composition" and c = sample_ctx and p = "new_path ''''" and cc = demo_children,
      OF full_calm demo_gvk_quiet run_sequence_law run_always_law full_publishes_wit cc q demo_composition_valid d prod.collapse [of ?run, symmetric]]
  have deps: "map cd_Component (co_Dependencies (cos_Composition (rs_Spec (rx_Resource (demo_start demo_composition))))) = [''x'', ''y'']"
    by (simp add: demo_start_def demo_composition_def)
  have "snd ?m = Ret ()" "list_all (\<lambda>d. cd_Ref d \<noteq> None) (co_Dependencies (cos_Composition (rs_Spec ?made)))"
    "map cd_Component (co_Dependencies (cos_Composition (rs_Spec ?made))) = [''x'', ''y'']" "co_Plug (cos_Composition (rs_Spec ?made)) \<noteq> None"
    by code_simp+
  note made = this
  have "same_owner ?made demo_composition"
    using wpe_explicit [OF wpe_ManageDependencies [OF run_always_law cc] run_split [OF made(1)]] by (simp add: managed_def demo_start_def)
  note ready = demo_composable [OF this made(2-4)]
  have "ManageDependencies run_always demo_children ''wa8s.reconciler.io/composition'' (demo_start demo_composition) = (fst ?m, Ret ())"
    by (rule run_split [OF made(1)])
  moreover have "st_Trace (rx_Stash (demo_start demo_composition)) = None" by (simp add: demo_start_def empty_stash_def)
  moreover have "composable full_cluster demo_gvk (cc_Component demo_children) ?made (rx_World (fst ?m))"
    using ready by (simp add: demo_children_def)
  ultimately have ok: "snd ?run = Ret ()" using sound by blast
  note run = run_split [OF ok]
  note published = mp [OF conjunct1 [OF conjunct2 [OF conjunct2 [OF sound]]] ok]
  have names: "map cds_Component (cst_Dependencies (rs_Status (rx_Resource (fst ?run)))) = [''x'', ''y'']"
    using published unfolding publishes_composition_def own_items_def deps Let_def by blast
  obtain items :: "GenericCompositionSpec CompositionDependency list" and w ds where
    own: "own_items demo_children (rx_Resource (demo_start demo_composition)) () items" and res: "list_all2 (resolved_as full_cluster w) items ds"
    using published unfolding publishes_composition_def Let_def by auto
  let ?lib = "\<lparr>cr_APIVersion = ''wa8s.reconciler.io/v1alpha1'', cr_Kind = ''Component'', cr_Namespace = ''apps'', cr_Name = ''lib''\<rparr>"
  obtain rs1 rs2 rs3 where results: "child_results demo_children ''wa8s.reconciler.io/composition'' (rx_Resource (demo_start demo_composition)) () = (rs1, rs2, rs3)"
    by (metis prod_cases3)
  from own obtain m where refs: "map cd_Ref items = [Some (child_ref ''ConfigStore'' m), Some ?lib] \<and> IdentifyChild m = ''x'' \<and> om_Namespace m = ''apps''"
    unfolding own_items_def Let_def deps results
    by (auto simp: demo_start_def demo_composition_def own_reference_def from_child_def demo_named_def list_all2_Cons1)
  show ?thesis
    by (rule exI [of _ "fst ?run"], intro conjI run names, rule exI [of _ items], rule exI [of _ w], rule exI [of _ ds], rule exI [of _ m])
      (use res refs in simp)
qed

lemma composition_missing_child_panics_witness:
  "snd (CompositionReconciler run_sequence run_always full_cluster demo_gvk
     (demo_children\<lparr>cc_ConfigStores := create_none\<rparr>) (demo_start demo_composition)) = Panic ''nil pointer dereference''"
proof -
  let ?m = "ManageDependencies run_always (demo_children\<lparr>cc_ConfigStores := create_none\<rparr>) ''wa8s.reconciler.io/composition'' (demo_start demo_composition)"
  let ?deps = "co_Dependencies (cos_Composition (rs_Spec (rx_Resource (fst ?m))))"
  have "case snd ?m of Panic _ \<Rightarrow> False | _ \<Rightarrow> True" by code_simp
  then have q: "quiet_go (snd ?m)" by (cases "snd ?m") simp_all
  have "?deps \<noteq> [] \<and> cd_Ref (hd ?deps) = None" by code_simp
  then have "\<exists>item rest. ?deps = item # rest \<and> cd_Ref item = None" by (cases ?deps) simp_all
  then obtain item rest where "co_Dependencies (cos_Composition (rs_Spec (rx_Resource (fst ?m)))) = item # rest" "cd_Ref item = None"
    by blast
  from composition_missing_child_panics [OF run_sequence_law run_always_law prod.collapse [symmetric] q this] show ?thesis .
qed

lemma composition_children_admitted_witness:
  "let c = hd (ManageConfigStore_DesiredChildren ''k'' demo_composition) in
     ManageConfigStore_DesiredChildren ''k'' demo_composition \<noteq> [] \<and> om_Namespace (fst c) = ''apps'' \<and>
     ConfigStore_ValidateCreate sample_ctx \<lparr>rs_Meta = fst c, rs_Spec = snd c, rs_Status = rs_Status demo_config_store\<rparr> = Ret ()"
proof -
  have "GenericCompositionSpec_Validate (StashResource sample_ctx (rs_Meta demo_composition)) (new_path '''')
     (cos_Composition (rs_Spec demo_composition)) = Ret []" by code_simp
  note conjunct1 [OF composition_children_admitted [OF this, of "''k''"]]
  moreover have "om_Namespace (rs_Meta demo_composition) = ''apps''" by code_simp
  moreover have "ManageConfigStore_DesiredChildren ''k'' demo_composition \<noteq> []"
    by (simp add: ManageConfigStore_DesiredChildren_def demo_composition_def map_filter_def)
  ultimately show ?thesis using hd_in_set by (fastforce simp: split_def Let_def)
qed

end
