(* ===== verification/Trigger_Props.thy ===== *)
theory Trigger_Props
  imports Knative_Controllers Host_Args Compose_Props
begin

text \<open>
  What the trigger controllers promise: well-formed conditions in the order of the kind, workloads that
  run the image of the child and can be reached through their service, children the webhooks admit,
  and which annotations Knative gets to see.
\<close>

section \<open>One mark per child\<close>

text \<open>A handler that reports one condition: with a reason, as the API asks for, whenever it returns nil, and at most
  once when it does not.\<close>

definition reported :: "string list \<Rightarrow> mark list \<Rightarrow> bool" where
  "reported cs new \<longleftrightarrow> map mk_Type new = cs \<and> list_all (\<lambda>mk. mk_Reason mk \<noteq> []) new"

definition one_mark :: "string \<Rightarrow> ('r, 'kc, 'd, 't, 'w, unit) handler \<Rightarrow> bool" where
  "one_mark ct h \<longleftrightarrow> (\<forall>s. wpe h (\<lambda>_ s'. \<exists>new. rx_Marks s' = rx_Marks s @ new \<and> reported [ct] new)
     (\<lambda>s'. \<exists>new. rx_Marks s' = rx_Marks s @ new \<and> (reported [] new \<or> reported [ct] new)) s)"

definition marks_in_order :: "string list \<Rightarrow> ('r, 'kc, 'd, 't, 'w, unit) handler \<Rightarrow> bool" where
  "marks_in_order cs h \<longleftrightarrow> (\<forall>s s' g. h s = (s', g) \<longrightarrow> quiet_go g \<and>
     (\<exists>n new. rx_Marks s' = rx_Marks s @ new \<and> reported (take n cs) new \<and> (g = Ret () \<longrightarrow> n = length cs)))"

lemma reported_append: "reported cs new \<Longrightarrow> reported cs' new' \<Longrightarrow> reported (cs @ cs') (new @ new')"
  by (simp add: reported_def)

lemma reported_simps [simp]: "reported [] new \<longleftrightarrow> new = []" "reported (c # cs) [] = False"
  "reported [ct] [Mark ct' st rs msg] \<longleftrightarrow> ct' = ct \<and> rs \<noteq> []"
  by (auto simp: reported_def)

lemma wpe_marks:
  assumes "sequences sq" "list_all2 one_mark cs hs"
  shows "wpe (sq hs) (\<lambda>_ s'. \<exists>new. rx_Marks s' = rx_Marks s @ new \<and> reported cs new)
     (\<lambda>s'. \<exists>n new. rx_Marks s' = rx_Marks s @ new \<and> reported (take n cs) new) s"
  using assms(2)
proof (induction arbitrary: s rule: list_all2_induct)
  case Nil
  show ?case by (simp add: wpe_sequence [OF assms(1)])
next
  case (Cons c cs h hs)
  from Cons(1) have h: "wpe h (\<lambda>_ s'. \<exists>new. rx_Marks s' = rx_Marks s @ new \<and> reported [c] new)
     (\<lambda>s'. \<exists>new. rx_Marks s' = rx_Marks s @ new \<and> (reported [] new \<or> reported [c] new)) s"
    by (simp add: one_mark_def)
  show ?case unfolding wpe_sequence(2) [OF assms(1)]
  proof (rule wpe_mono [OF h], goal_cases)
    case (1 _ s1)
    then obtain n1 where n1: "rx_Marks s1 = rx_Marks s @ n1" "reported [c] n1" by blast
    show ?case
    proof (rule wpe_mono [OF Cons(3)], goal_cases)
      case (1 _ s2)
      then obtain n2 where n2: "rx_Marks s2 = rx_Marks s1 @ n2" "reported cs n2" by blast
      from reported_append [OF n1(2) n2(2)] n1(1) n2(1) show ?case
        by (intro exI [of _ "n1 @ n2"]) simp
    next
      case (2 s2)
      then obtain k n2 where n2: "rx_Marks s2 = rx_Marks s1 @ n2" "reported (take k cs) n2" by blast
      from reported_append [OF n1(2) n2(2)] n1(1) n2(1) show ?case
        by (intro exI [of _ "Suc k"] exI [of _ "n1 @ n2"]) simp
    qed
  next
    case (2 s1)
    then obtain new where new: "rx_Marks s1 = rx_Marks s @ new" "reported [] new \<or> reported [c] new" by blast
    from new(2) show ?case
    proof
      assume "reported [] new"
      with new(1) show ?thesis by (intro exI [of _ 0] exI [of _ new]) simp
    next
      assume "reported [c] new"
      with new(1) show ?thesis by (intro exI [of _ "Suc 0"] exI [of _ new]) simp
    qed
  qed
qed

lemma marks_in_orderI: "sequences sq \<Longrightarrow> list_all2 one_mark cs hs \<Longrightarrow> marks_in_order cs (sq hs)"
proof -
  assume a: "sequences sq" "list_all2 one_mark cs hs"
  show ?thesis unfolding marks_in_order_def
  proof (intro allI impI)
    fix s s' g assume run: "sq hs s = (s', g)"
    note out = wpe_explicit [OF wpe_marks [OF a, of s] run]
    show "quiet_go g \<and>
       (\<exists>n new. rx_Marks s' = rx_Marks s @ new \<and> reported (take n cs) new \<and> (g = Ret () \<longrightarrow> n = length cs))"
    proof (cases g)
      case (Ret u)
      with out obtain new where "rx_Marks s' = rx_Marks s @ new" "reported cs new" by blast
      with Ret show ?thesis by (intro conjI exI [of _ "length cs"] exI [of _ new]) simp_all
    next
      case (Fail e)
      with out show ?thesis by auto
    qed (use out in simp)
  qed
qed

lemma one_mark_child:
  assumes "\<And>r. quiet_go (desired r)" "\<And>c w. quiet_go (snd (manage c w))" "\<And>k e. one_mark ct (reflect k e)"
  shows "one_mark ct (child_reconciler desired manage reflect)"
  unfolding one_mark_def
proof (rule allI, rule wpe_child_reconciler, goal_cases)
  case (3 s c w' k e)
  show ?case
    using assms(3) [of k e, unfolded one_mark_def, rule_format, of "s\<lparr>rx_World := w'\<rparr>"] by simp
qed (use assms in auto)

lemma one_mark_stop: "reason \<noteq> [] \<Longrightarrow> one_mark ct (stop_with ct st reason msg e)"
  by (auto simp: one_mark_def stop_with_def wpe_simps intro: exI [of _ "[m]" for m])

lemma one_mark_as: "reason \<noteq> [] \<Longrightarrow> one_mark ct (mark_as ct st reason msg)"
  by (auto simp: one_mark_def wpe_simps intro: exI [of _ "[m]" for m])

lemma one_mark_failed: "one_mark ct (child_failed ct e)"
  by (auto simp: one_mark_def wpe_simps intro: exI [of _ "[m]" for m])

lemma one_mark_before_set: "one_mark ct m \<Longrightarrow> one_mark ct (act_then m (set_resource f))"
  unfolding one_mark_def wpe_then
proof (rule allI, erule allE, erule wpe_mono, goal_cases)
  case (1 s x s')
  then show ?case by (simp add: wpe_set)
qed

lemma one_mark_after_set: "one_mark ct m \<Longrightarrow> one_mark ct (act_then (set_resource f) m)"
  unfolding one_mark_def wpe_then wpe_set
proof (rule allI, goal_cases)
  case (1 s)
  then show ?case by (auto dest: spec [of _ "s\<lparr>rx_Resource := f (rx_Resource s)\<rparr>"])
qed

lemma one_mark_then_fail: "one_mark ct m \<Longrightarrow> one_mark ct (act_then m (act_fail e))"
  unfolding one_mark_def wpe_then
proof (rule allI, erule allE, erule wpe_mono, goal_cases)
  case (1 s x s')
  then show ?case by (auto simp: wpe_fail)
qed

lemma one_mark_get: "(\<And>r. one_mark ct (f r)) \<Longrightarrow> one_mark ct (act_bind get_resource f)"
  by (simp add: one_mark_def wpe_simps)

lemmas one_mark_rules = one_mark_stop one_mark_as one_mark_failed one_mark_before_set one_mark_after_set one_mark_then_fail

lemma one_mark_Deployment: "one_mark ct (Deployment_Reflect ct k e)"
  by (auto simp: Deployment_Reflect_def intro!: one_mark_rules split: option.split)

lemma one_mark_Service: "one_mark ct (Service_Reflect ct f k e)"
  by (auto simp: Service_Reflect_def intro!: one_mark_rules split: option.split)

lemma one_mark_CronJob: "one_mark ''CronJobReady'' (act_then (CronJob_Reflect k e) (case p of None \<Rightarrow> act_ret () | Some x \<Rightarrow> act_fail x))"
  by (auto simp: CronJob_Reflect_def one_mark_def wpe_simps intro: exI [of _ "[m]" for m] split: option.split)

lemma one_mark_Knative: "one_mark ''ServiceReady'' (KnativeService_Reflect cx k e)"
  by (auto simp: KnativeService_Reflect_def pass_on_def default_reason_def Let_def intro!: one_mark_get one_mark_rules split: option.split)

lemma act_lift_Ret: "act_bind (act_lift (Ret x)) f = f x"
  by (simp add: fun_eq_iff act_lift_def)

lemma one_mark_image:
  assumes "calm cx" "\<And>c w. quiet_go (snd (manage c w))"
  shows "one_mark ct (ComponentContainerImageChildReconciler cx k ct key ref manage)"
  unfolding ComponentContainerImageChildReconciler_def
proof (rule one_mark_child)
  fix ch e
  have span: "\<exists>sp. SynthesizeSpan f (cx_GVKFor cx n ty) m st = Ret sp" for f n ty m st
    using calmD(9) [OF assms(1), of n ty] by (auto simp: SynthesizeSpan_def case_prod_unfold Let_def elim!: returnsE)
  show "one_mark ct (ContainerImageChild_Reflect cx k ct ch e)"
  proof (cases e)
    case (Some err)
    then show ?thesis by (auto simp: ContainerImageChild_Reflect_def intro!: one_mark_rules)
  next
    case None
    show ?thesis
    proof (cases ch)
      case None
      with \<open>e = None\<close> show ?thesis by (auto simp: ContainerImageChild_Reflect_def intro!: one_mark_rules)
    next
      case (Some c)
      obtain sp where "SynthesizeSpan (digest_part (cx_lib cx)) (cx_GVKFor cx ''ComponentContainerImage'' ('''', ''''))
         (rs_Meta c) (ComponentLike (cdk_Generic (rs_Status c))) = Ret sp" using span by blast
      with Some \<open>e = None\<close> show ?thesis
        by (auto simp: ContainerImageChild_Reflect_def Let_def act_lift_Ret intro!: one_mark_rules)
    qed
  qed
qed (use assms(2) in \<open>simp_all add: ContainerImageChild_DesiredChild_def Let_def\<close>)

section \<open>The properties\<close>

text \<open>The API server rejects a condition without a reason, and what a reader of a status sees is the latest mark of
  each type.\<close>

text \<open>C31: the conditions of every trigger are well formed: whatever the cluster and the children answer, no request
  panics, the conditions it sets are an initial part of those of the kind, each once, in their order
  and with a reason, and all of them when the request returns nil.\<close>

theorem trigger_conditions_well_formed:
  assumes "calm cx" "sequences csq" "sequences hsq" "sequences wsq" "sequences ksq"
    and "\<And>c w. quiet_go (snd (img c w))" "\<And>c w. quiet_go (snd (job c w))" "\<And>c w. quiet_go (snd (deploy c w))"
    and "\<And>c w. quiet_go (snd (serve c w))" "\<And>c w. quiet_go (snd (knative c w))"
  shows "marks_in_order CronTriggerConditions (CronTriggerReconciler csq cx img job surface) \<and>
    marks_in_order HttpTriggerConditions (HttpTriggerReconciler hsq cx img deploy serve) \<and>
    marks_in_order WrpcTriggerConditions (WrpcTriggerReconciler wsq cx img deploy serve) \<and>
    marks_in_order ServiceTriggerConditions (ServiceTriggerReconciler ksq cx edit img knative)"
  unfolding CronTriggerReconciler_def HttpTriggerReconciler_def WrpcTriggerReconciler_def ServiceTriggerReconciler_def Let_def
    WrpcDeployment_Reflect_def WrpcService_Reflect_def
    CronTriggerConditions_def HttpTriggerConditions_def WrpcTriggerConditions_def ServiceTriggerConditions_def CronJobChildReconciler_def
  by (intro conjI marks_in_orderI assms(2-5) list_all2_Cons [THEN iffD2] list_all2_Nil [THEN iffD2] one_mark_image one_mark_child
      one_mark_Deployment one_mark_Service one_mark_CronJob one_mark_Knative assms(1,6-10) TrueI)
    (auto simp: CronJob_DesiredChild_def HttpDeployment_DesiredChild_def HttpService_DesiredChild_def WrpcDeployment_DesiredChild_def
      WrpcService_DesiredChild_def KnativeService_DesiredChild_def Let_def)

section \<open>Workloads\<close>

text \<open>
  A service reaches a deployment when it selects the pods the deployment makes, in the same namespace,
  and every port it serves leads to a port of a container of those pods; the deployment must select its own
  pods, every probe must name a port, and what runs must listen on the ports it declares.
\<close>

definition listens :: "string \<Rightarrow> pod_container \<Rightarrow> bool" where
  "listens flag c \<longleftrightarrow> list_all (\<lambda>p. flag @ fmt_d (po_ContainerPort p) \<in> set (pc_Args c)) (pc_Ports c)"

definition probed :: "pod_container \<Rightarrow> bool" where
  "probed c \<longleftrightarrow> list_all (\<lambda>probe. pred_option (\<lambda>n. n \<in> po_Name ` set (pc_Ports c)) probe)
     [pc_ReadinessProbe c, pc_LivenessProbe c, pc_StartupProbe c]"

definition reaches :: "ObjectMeta \<times> ServiceSpec \<Rightarrow> ObjectMeta \<times> DeploymentSpec \<Rightarrow> bool" where
  "reaches s d \<longleftrightarrow> om_Namespace (fst s) = om_Namespace (fst d) \<and>
     svc_Selector (snd s) \<subseteq>\<^sub>m dp_PodLabels (snd d) \<and> dp_Selector (snd d) \<subseteq>\<^sub>m dp_PodLabels (snd d) \<and>
     list_all (\<lambda>p. list_ex (\<lambda>c. list_ex (\<lambda>q. po_Name q = sp_TargetPort p \<and> po_Protocol q = sp_Protocol p) (pc_Ports c))
       (dp_Containers (snd d))) (svc_Ports (snd s))"

text \<open>The four capability flags of the wasmtime command line, and that all that is read as an option or a variable - \<^verbatim>\<open>-Scli\<close>
  apart - stems from the capabilities, in their order.\<close>

definition capability_arg :: "string \<Rightarrow> bool" where
  "capability_arg a \<longleftrightarrow> prefix ''-S'' a \<and> a \<noteq> ''-Scli'' \<or> prefix ''--env'' a"

definition grants_only :: "HostCapabilities \<Rightarrow> string list \<Rightarrow> bool" where
  "grants_only h args \<longleftrightarrow>
     (''-Sinherit-env=y'' \<in> set args \<longleftrightarrow> (case cap_Env h of None \<Rightarrow> False | Some e \<Rightarrow> he_Inherit e)) \<and>
     (''-Sconfig=y'' \<in> set args \<longleftrightarrow> cap_Config h \<noteq> None) \<and>
     (''-Sinherit-network=y'' \<in> set args \<longleftrightarrow> (case cap_Network h of None \<Rightarrow> False | Some n \<Rightarrow> hn_Inherit n)) \<and>
     (''-Sallow-ip-name-lookup=y'' \<in> set args \<longleftrightarrow> (case cap_Network h of None \<Rightarrow> False | Some n \<Rightarrow> hn_IPNameLookup n)) \<and>
     filter capability_arg args = filter capability_arg (HostCapabilities_WasmtimeArgs h)"

lemma grants_only_args:
  assumes "filter capability_arg pre = []" "filter capability_arg post = []"
  shows "grants_only h (pre @ HostCapabilities_WasmtimeArgs h @ post)"
proof -
  have "{a \<in> set xs. a \<in> {''-Sinherit-env=y'', ''-Sconfig=y'', ''-Sinherit-network=y'', ''-Sallow-ip-name-lookup=y''}} = {}"
    if "filter capability_arg xs = []" for xs
    using that by (auto simp: filter_empty_conv capability_arg_def)
  with assms have "a \<notin> set pre \<union> set post"
    if "a \<in> {''-Sinherit-env=y'', ''-Sconfig=y'', ''-Sinherit-network=y'', ''-Sallow-ip-name-lookup=y''}" for a
    using that by blast
  then show ?thesis
    using granted_flags [of h] unfolding grants_only_def set_append Un_iff by (auto simp: assms split: option.split)
qed

lemma fmt_8080: "fmt_d 8080 = ''8080''"
  by (simp add: fmt_d_def digits.simps) code_simp

lemma if_both: "(P \<Longrightarrow> A) \<Longrightarrow> (\<not> P \<Longrightarrow> B) \<Longrightarrow> if P then A else B"
  by simp

lemma serving_facts:
  "reaches (trigger_service key m p name) (trigger_deployment key m (serving_container name i cmd args q))"
  "probed (serving_container name i cmd args q)"
  "listens flag (serving_container name i cmd args q) \<longleftrightarrow> flag @ fmt_d q \<in> set args"
  "dp_Containers (snd (trigger_deployment key m ct)) = [ct]"
  "pc_Image (serving_container name i cmd args q) = i" "pc_Args (serving_container name i cmd args q) = args"
  by (simp_all add: reaches_def probed_def listens_def serving_container_def trigger_deployment_def trigger_service_def child_meta_def)

lemma cron_workload:
  assumes "gst_Image (gct_Component (rs_Status c)) \<noteq> []"
  shows "\<exists>m spec task. CronJob_DesiredChild key c = Ret (Some (m, spec)) \<and> cj_Containers spec = [task] \<and>
      pc_Image task = gst_Image (gct_Component (rs_Status c)) \<and>
      grants_only (gc_HostCapabilities (ct_Container (rs_Spec c))) (pc_Args task)"
proof -
  have "grants_only hc ([''run''] @ HostCapabilities_WasmtimeArgs hc @ [''-Opooling-allocator=n'', ''/component.wasm''])" for hc
    by (rule grants_only_args) (simp_all add: capability_arg_def)
  then have "grants_only (gc_HostCapabilities (ct_Container (rs_Spec c))) (pc_Args (cron_container c))"
    by (simp only: cron_container_def pod_container.select_convs)
  moreover have "pc_Image (cron_container c) = gst_Image (gct_Component (rs_Status c))" by (simp add: cron_container_def)
  ultimately show ?thesis using assms unfolding CronJob_DesiredChild_def Let_def
    by (intro exI [of _ "cron_container c"] exI conjI) (simp, simp_all)
qed

lemma http_workload:
  assumes "gst_Image (gct_Component (hts_Container (rs_Status h))) \<noteq> []"
  shows "\<exists>d s app. HttpDeployment_DesiredChild key h = Ret (Some d) \<and> HttpService_DesiredChild key h = Ret (Some s) \<and>
      reaches s d \<and> dp_Containers (snd d) = [app] \<and> pc_Image app = gst_Image (gct_Component (hts_Container (rs_Status h))) \<and>
      listens ''--addr=0.0.0.0:'' app \<and> probed app \<and>
      grants_only (gc_HostCapabilities (ht_Container (rs_Spec h))) (pc_Args app)"
proof -
  let ?hc = "gc_HostCapabilities (ht_Container (rs_Spec h))" and ?img = "gst_Image (gct_Component (hts_Container (rs_Status h)))"
  let ?args = "[''serve''] @ HostCapabilities_WasmtimeArgs ?hc @ [''-Scli'', ''-Opooling-allocator=n'', ''--addr=0.0.0.0:8080'', ''/component.wasm'']"
  let ?app = "serving_container ''http'' ?img [''wasmtime''] ?args 8080"
  have "grants_only ?hc ?args" by (rule grants_only_args) (simp_all add: capability_arg_def)
  moreover have "listens ''--addr=0.0.0.0:'' ?app"
  proof -
    have "''--addr=0.0.0.0:'' @ fmt_d 8080 = ''--addr=0.0.0.0:8080''" by (simp add: fmt_8080)
    then show ?thesis unfolding serving_facts set_append by simp
  qed
  ultimately show ?thesis
    using assms by (intro exI [of _ "trigger_deployment key (rs_Meta h) ?app"] exI [of _ "trigger_service key (rs_Meta h) 80 ''http''"]
        exI [of _ ?app]) (simp only: HttpDeployment_DesiredChild_def HttpService_DesiredChild_def Let_def if_False serving_facts simp_thms)
qed

lemma wrpc_workload:
  assumes "gst_Image (gct_Component (wts_Container (rs_Status w))) \<noteq> []"
  shows "\<exists>d s app. WrpcDeployment_DesiredChild key port w = Ret (Some d) \<and> WrpcService_DesiredChild key port w = Ret (Some s) \<and>
      reaches s d \<and> dp_Containers (snd d) = [app] \<and> pc_Image app = gst_Image (gct_Component (wts_Container (rs_Status w))) \<and>
      listens ''--export=0.0.0.0:'' app \<and> probed app \<and>
      grants_only \<lparr>cap_Env = None, cap_Config = None, cap_Network = None\<rparr> (pc_Args app)"
proof -
  let ?img = "gst_Image (gct_Component (wts_Container (rs_Status w)))"
  let ?args = "[''tcp'', ''serve''] @ HostCapabilities_WrpcWasmtimeArgs (gc_HostCapabilities (wt_Container (rs_Spec w))) @
     [''--import=0.0.0.0:'' @ fmt_d port, ''--export=0.0.0.0:'' @ fmt_d port, ''/component.wasm'']"
  let ?app = "serving_container ''wrpc'' ?img [''wrpc-wasmtime''] ?args port"
  have "grants_only \<lparr>cap_Env = None, cap_Config = None, cap_Network = None\<rparr> ?args"
    by (simp add: grants_only_def capability_arg_def HostCapabilities_WrpcWasmtimeArgs_def HostCapabilities_WasmtimeArgs_def)
  moreover have "listens ''--export=0.0.0.0:'' ?app" unfolding serving_facts set_append by simp
  ultimately show ?thesis
    using assms by (intro exI [of _ "trigger_deployment key (rs_Meta w) ?app"] exI [of _ "trigger_service key (rs_Meta w) port ''wrpc''"]
        exI [of _ ?app]) (simp only: WrpcDeployment_DesiredChild_def WrpcService_DesiredChild_def Let_def if_False serving_facts simp_thms)
qed

text \<open>C33: what a trigger runs: nothing while there is no container image; afterwards the image of the status, with
  exactly the capability flags of the spec, and no options or variables but those its capabilities make (none for wRPC; how they
  are read is another matter), listening on the port it declares, and the service in front reaches it.\<close>

theorem trigger_workloads:
  "(if gst_Image (gct_Component (rs_Status c)) = [] then CronJob_DesiredChild key c = Ret None
    else \<exists>m spec task. CronJob_DesiredChild key c = Ret (Some (m, spec)) \<and> cj_Containers spec = [task] \<and>
      pc_Image task = gst_Image (gct_Component (rs_Status c)) \<and>
      grants_only (gc_HostCapabilities (ct_Container (rs_Spec c))) (pc_Args task)) \<and>
   (if gst_Image (gct_Component (hts_Container (rs_Status h))) = []
    then HttpDeployment_DesiredChild key h = Ret None \<and> HttpService_DesiredChild key h = Ret None
    else \<exists>d s app. HttpDeployment_DesiredChild key h = Ret (Some d) \<and> HttpService_DesiredChild key h = Ret (Some s) \<and>
      reaches s d \<and> dp_Containers (snd d) = [app] \<and> pc_Image app = gst_Image (gct_Component (hts_Container (rs_Status h))) \<and>
      listens ''--addr=0.0.0.0:'' app \<and> probed app \<and>
      grants_only (gc_HostCapabilities (ht_Container (rs_Spec h))) (pc_Args app)) \<and>
   (if gst_Image (gct_Component (wts_Container (rs_Status w))) = []
    then WrpcDeployment_DesiredChild key port w = Ret None \<and> WrpcService_DesiredChild key port w = Ret None
    else \<exists>d s app. WrpcDeployment_DesiredChild key port w = Ret (Some d) \<and> WrpcService_DesiredChild key port w = Ret (Some s) \<and>
      reaches s d \<and> dp_Containers (snd d) = [app] \<and> pc_Image app = gst_Image (gct_Component (wts_Container (rs_Status w))) \<and>
      listens ''--export=0.0.0.0:'' app \<and> probed app \<and>
      grants_only \<lparr>cap_Env = None, cap_Config = None, cap_Network = None\<rparr> (pc_Args app))"
  by (intro conjI; rule if_both; (rule cron_workload http_workload wrpc_workload; assumption)?)
    (simp_all only: CronJob_DesiredChild_def HttpDeployment_DesiredChild_def HttpService_DesiredChild_def WrpcDeployment_DesiredChild_def
    WrpcService_DesiredChild_def Let_def if_True simp_thms)

section \<open>Children the webhooks admit\<close>

lemma container_image_admitted:
  assumes "component_ref_rule c m (cci_Ref spec)" "om_Namespace m' = om_Namespace m" "ValidateCommonAnnotations [] m' = []"
    and "cci_ImageRef spec = runtime_image name" "name \<noteq> []"
  shows "ComponentContainerImage_ValidateCreate c \<lparr>rs_Meta = m', rs_Spec = spec, rs_Status = st\<rparr> = Ret ()"
proof -
  let ?c = "StashResource c m'"
  obtain g where g: "GenericComponentSpec_Default ?c (cci_Generic spec) = Ret g"
    using generic_component.dflt_returns [of ?c "cci_Generic spec"] by (auto simp: returns_def)
  obtain ref where ref: "ComponentReference_Default ?c (cci_Ref spec) = Ret ref"
    using component_ref.dflt_returns [of ?c "cci_Ref spec"] by (auto simp: returns_def)
  have valid: "component_ref_rule c m' ref" by (rule component_ref_survives [OF assms(1,2) ref])
  have i: "ImageReference_Default ?c (runtime_image name) = Ret (runtime_image name)"
    "ImageReference_Validate ?c p (runtime_image name) = Ret []" for p
    using assms(5) by (simp_all add: ImageReference_Default_def ImageReference_Validate_def runtime_image_def)
  then show ?thesis
    using admitted_spec_iff [OF _ _ container_image.obj_create, where sd = ComponentContainerImageSpec_Default
        and sv = ComponentContainerImageSpec_Validate and c = c and r = "\<lparr>rs_Meta = m', rs_Spec = spec, rs_Status = st\<rparr>"]
      assms(3-5) GenericComponentSpec_admitted [OF g] valid
    by (simp add: ComponentContainerImage_Default_def ComponentContainerImage_Validate_def Let_def ComponentContainerImageSpec_Default_def
        ComponentContainerImageSpec_Validate_def g ref cat_errs_Cons_no_error ComponentReference_Validate_rule runtime_image_def)
qed

text \<open>The webhook admits the container image of every trigger whose container the trigger's own webhook accepted: it is
  made in the namespace of the trigger, so the component it refers to stays in reach, and its runtime is
  a cluster image.\<close>

theorem trigger_image_admitted:
  assumes "GenericContainerSpec_Validate (StashResource c (kc_Meta k r)) p (kc_GetGenericContainerSpec k r) = Ret []" "name \<noteq> []"
  shows "\<exists>m spec. ContainerImageChild_DesiredChild k key (runtime_image name) r = Ret (Some (m, spec)) \<and>
    om_Namespace m = om_Namespace (kc_Meta k r) \<and> om_Labels m key = Some (om_Name (kc_Meta k r)) \<and>
    (\<forall>st. ComponentContainerImage_ValidateCreate c \<lparr>rs_Meta = m, rs_Spec = spec, rs_Status = st\<rparr> = Ret ())"
proof -
  let ?g = "kc_GetGenericContainerSpec k r"
  have "component_ref_rule c (kc_Meta k r) (gc_Ref ?g)"
    using assms(1) by (simp add: GenericContainerSpec_Validate_def cat_errs_Cons_no_error ComponentReference_Validate_rule)
  moreover have "om_Namespace (child_meta (kc_Meta k r) key [] gen) = om_Namespace (kc_Meta k r)"
    "ValidateCommonAnnotations [] (child_meta (kc_Meta k r) key [] gen) = []"
    "om_Labels (child_meta (kc_Meta k r) key [] gen) key = Some (om_Name (kc_Meta k r))" for gen
    by (simp_all add: child_meta_def ValidateCommonAnnotations_no_error blank_meta_def)
  ultimately show ?thesis
    using container_image_admitted [OF _ _ _ _ assms(2), where spec = "\<lparr>cci_Generic = gc_Generic ?g, cci_Ref = gc_Ref ?g,
      cci_ImageRef = runtime_image name\<rparr>" and c = c and m = "kc_Meta k r"]
    by (simp add: ContainerImageChild_DesiredChild_def Let_def)
qed

section \<open>Annotations for Knative\<close>

text \<open>The texts an expression matches, and that the derivatives decide it.\<close>

primrec lang :: "regexp \<Rightarrow> string set" where
  "lang Zero = {}"
| "lang One = {[]}"
| "lang (Chars p) = {[ch] | ch. p ch}"
| "lang (Seq r s) = {u @ v | u v. u \<in> lang r \<and> v \<in> lang s}"
| "lang (Alt r s) = lang r \<union> lang s"
| "lang (Star r) = {concat us | us. set us \<subseteq> lang r}"

lemma nullable_lang: "nullable r \<longleftrightarrow> [] \<in> lang r"
  by (induction r) (auto intro: exI [of _ "[]"])

lemma concat_Cons:
  assumes "x # w = concat us"
  obtains u vs where "(x # u) \<in> set us" "w = u @ concat vs" "set vs \<subseteq> set us"
  using assms
proof (induction us arbitrary: thesis)
  case (Cons y us)
  show ?case
  proof (cases y)
    case Nil
    from Cons.prems(2) Nil have "x # w = concat us" by simp
    from Cons.IH [OF _ this] obtain u vs where "(x # u) \<in> set us" "w = u @ concat vs" "set vs \<subseteq> set us" by blast
    then show ?thesis by (intro Cons.prems(1) [of u vs]) auto
  next
    case (Cons z u)
    with Cons.prems(2) show ?thesis by (intro Cons.prems(1) [of u us]) auto
  qed
qed simp

lemma deriv_lang: "w \<in> lang (deriv x r) \<longleftrightarrow> x # w \<in> lang r"
proof (induction r arbitrary: w)
  case (Seq r s)
  have "x # w \<in> lang (Seq r s) \<longleftrightarrow> (\<exists>u v. w = u @ v \<and> x # u \<in> lang r \<and> v \<in> lang s) \<or> [] \<in> lang r \<and> x # w \<in> lang s"
    by (auto simp: Cons_eq_append_conv)
  then show ?case by (auto simp: Seq nullable_lang)
next
  case (Star r)
  show ?case
  proof
    assume "w \<in> lang (deriv x (Star r))"
    then obtain u us where "w = u @ concat us" "x # u \<in> lang r" "set us \<subseteq> lang r" by (auto simp: Star)
    then show "x # w \<in> lang (Star r)" by (auto intro!: exI [of _ "(x # u) # us"])
  next
    assume "x # w \<in> lang (Star r)"
    then obtain us where us: "x # w = concat us" "set us \<subseteq> lang r" by auto
    from concat_Cons [OF us(1)] obtain u vs where "(x # u) \<in> set us" "w = u @ concat vs" "set vs \<subseteq> set us" .
    with us(2) have "x # u \<in> lang r" "concat vs \<in> lang (Star r)" by auto
    with \<open>w = u @ concat vs\<close> show "w \<in> lang (deriv x (Star r))" unfolding deriv.simps lang.simps Star by blast
  qed
qed auto

lemma accepts_lang: "accepts r w \<longleftrightarrow> w \<in> lang r"
  unfolding accepts_def by (induction w arbitrary: r) (simp_all add: nullable_lang deriv_lang)

lemma lang_literal: "lang (literal w) = {w}"
  by (induction w) auto

lemma knative_pattern_lang: "w \<in> lang knative_pattern \<Longrightarrow> sublist ''knative.dev'' w"
proof -
  assume "w \<in> lang knative_pattern"
  then obtain u v where w: "w = u @ ''knative.dev'' @ v"
    unfolding knative_pattern_def lang.simps lang_literal by blast
  show ?thesis unfolding w by (rule sublist_appendI)
qed

text \<open>The pattern is not anchored: an annotation is handed down to the Knative service exactly when its key contains
  the domain anywhere, as in \<^verbatim>\<open>example.com/not-knative.device\<close>, and every other one is dropped.\<close>

theorem filterMap_unanchored:
  "filterMap data [knative_pattern] k = (if sublist ''knative.dev'' k then data k else None)"
proof -
  have "accepts knative_pattern ''knative.dev''" by code_simp
  moreover have "sublist ''knative.dev'' w" if "accepts knative_pattern w" for w
    using that knative_pattern_lang by (simp add: accepts_lang)
  ultimately have "MatchString knative_pattern k \<longleftrightarrow> sublist ''knative.dev'' k"
    unfolding MatchString_def list_ex_iff set_sublists_eq by (blast intro: sublist_order.order.trans)
  then show ?thesis by (simp add: filterMap_def)
qed

section \<open>What a request publishes\<close>

lemma bind_Ret: "act_bind m f s = (s', Ret x) \<longleftrightarrow> (\<exists>s1 y. m s = (s1, Ret y) \<and> f y s1 = (s', Ret x))"
  by (auto simp: act_bind_def split: prod.split go.split)

lemma sequence_Ret:
  assumes "sequences sq"
  shows "sq [] s = (s', Ret ()) \<longleftrightarrow> s' = s" "sq (r # rs) s = (s', Ret ()) \<longleftrightarrow> (\<exists>s1. r s = (s1, Ret ()) \<and> sq rs s1 = (s', Ret ()))"
  using assms by (auto simp: sequences_def act_then_def bind_Ret)

lemma child_Ret: "child_reconciler desired manage reflect s = (s', Ret x) \<longleftrightarrow> (\<exists>c w' k err. desired (rx_Resource s) = Ret c \<and>
    manage c (rx_World s) = (w', Ret (k, err)) \<and> reflect k err (s\<lparr>rx_World := w'\<rparr>) = (s', Ret x))"
proof (cases "desired (rx_Resource s)")
  case (Ret c)
  obtain w' g where m: "manage c (rx_World s) = (w', g)" by (cases "manage c (rx_World s)")
  with Ret show ?thesis by (cases g) (auto simp: child_reconciler_def bind_Ret act_simps)
qed (simp_all add: child_reconciler_def bind_Ret act_simps)

lemma stop_not_Ret: "stop_with ct st reason msg e s \<noteq> (s', Ret x)" "child_failed ct e s \<noteq> (s', Ret y)"
  by (simp_all add: stop_with_def child_failed_def act_then_def bind_Ret act_fail_def)

lemma image_Ret:
  assumes "ContainerImageChild_Reflect cx k ct ch err s = (s', Ret ())"
  obtains c span where "ch = Some c" "err = None" "om_Generation (rs_Meta c) = as_ObservedGeneration (cdk_Status (rs_Status c))"
    "cl_IsTrue (cx_conds cx) (cl_Get (cx_conds cx) (cdk_Status (rs_Status c)) ''Ready'')" "gst_Image (cdk_Generic (rs_Status c)) \<noteq> []"
    "rx_Resource s' = kc_put_status k ((cdk_Generic (rs_Status c))\<lparr>gst_Trace := [span]\<rparr>) (rx_Resource s)" "rx_World s' = rx_World s"
  using assms by (auto simp: ContainerImageChild_Reflect_def bind_Ret act_simps Let_def split: option.splits if_splits)

lemma deployment_Ret:
  assumes "Deployment_Reflect ct ch err s = (s', Ret ())"
  obtains d where "ch = Some d" "err = None" "om_Generation (rs_Meta d) = ds_ObservedGeneration (rs_Status d)"
    "rx_Resource s' = rx_Resource s" "rx_World s' = rx_World s"
  using assms by (auto simp: Deployment_Reflect_def stop_not_Ret mark_as_def split: option.splits if_splits)

lemma service_Ret:
  assumes "Service_Reflect ct f ch err s = (s', Ret ())"
  obtains v where "ch = Some v" "err = None" "rx_Resource s' = f (fst v) (rx_Resource s)" "rx_World s' = rx_World s"
  using assms by (auto simp: Service_Reflect_def stop_not_Ret act_then_def bind_Ret set_resource_def mark_as_def split: option.splits if_splits)

text \<open>C32: when a request of an HTTP trigger returns nil, the three children were managed one after the other: the container
  image was observed and ready, the deployment asked for runs the image it published, the deployment
  was observed, and the status holds that image and the address of the service that was answered.\<close>

theorem HttpTrigger_publishes:
  assumes "sequences sq" "HttpTriggerReconciler sq cx img deploy serve s = (s', Ret ())"
  shows "\<exists>ispec w1 c span w2 dspec d w3 sspec v. let key = ''containers.wa8s.reconciler.io/http-trigger'';
      r = kc_put_status HttpTrigger_Container ((cdk_Generic (rs_Status c))\<lparr>gst_Trace := [span]\<rparr>) (rx_Resource s) in
    ContainerImageChild_DesiredChild HttpTrigger_Container key (runtime_image ''wasmtime'') (rx_Resource s) = Ret ispec \<and>
    img ispec (rx_World s) = (w1, Ret (Some c, None)) \<and>
    om_Generation (rs_Meta c) = as_ObservedGeneration (cdk_Status (rs_Status c)) \<and>
    cl_IsTrue (cx_conds cx) (cl_Get (cx_conds cx) (cdk_Status (rs_Status c)) ''Ready'') \<and>
    HttpDeployment_DesiredChild key r = Ret (Some dspec) \<and> deploy (Some dspec) w1 = (w2, Ret (Some d, None)) \<and>
    map pc_Image (dp_Containers (snd dspec)) = [gst_Image (cdk_Generic (rs_Status c))] \<and>
    om_Generation (rs_Meta d) = ds_ObservedGeneration (rs_Status d) \<and>
    HttpService_DesiredChild key r = Ret (Some sspec) \<and> serve (Some sspec) w2 = (w3, Ret (Some v, None)) \<and>
    rx_Resource s' = http_url (fst v) r \<and> rx_World s' = w3"
proof -
  let ?key = "''containers.wa8s.reconciler.io/http-trigger''"
  from assms(2) obtain ispec w1 k1 e1 s1 dc w2 k2 e2 s2 sc w3 k3 e3 where
    1: "ContainerImageChild_DesiredChild HttpTrigger_Container ?key (runtime_image ''wasmtime'') (rx_Resource s) = Ret ispec"
      "img ispec (rx_World s) = (w1, Ret (k1, e1))"
      "ContainerImageChild_Reflect cx HttpTrigger_Container ''ComponentContainerImageReady'' k1 e1 (s\<lparr>rx_World := w1\<rparr>) = (s1, Ret ())"
    and 2: "HttpDeployment_DesiredChild ?key (rx_Resource s1) = Ret dc" "deploy dc (rx_World s1) = (w2, Ret (k2, e2))"
      "Deployment_Reflect ''DeploymentReady'' k2 e2 (s1\<lparr>rx_World := w2\<rparr>) = (s2, Ret ())"
    and 3: "HttpService_DesiredChild ?key (rx_Resource s2) = Ret sc" "serve sc (rx_World s2) = (w3, Ret (k3, e3))"
      "Service_Reflect ''ServiceReady'' http_url k3 e3 (s2\<lparr>rx_World := w3\<rparr>) = (s', Ret ())"
    unfolding HttpTriggerReconciler_def Let_def ComponentContainerImageChildReconciler_def sequence_Ret [OF assms(1)] child_Ret by blast
  from image_Ret [OF 1(3)] obtain c span where c: "k1 = Some c" "e1 = None"
    "om_Generation (rs_Meta c) = as_ObservedGeneration (cdk_Status (rs_Status c))"
    "cl_IsTrue (cx_conds cx) (cl_Get (cx_conds cx) (cdk_Status (rs_Status c)) ''Ready'')" "gst_Image (cdk_Generic (rs_Status c)) \<noteq> []"
    "rx_Resource s1 = kc_put_status HttpTrigger_Container ((cdk_Generic (rs_Status c))\<lparr>gst_Trace := [span]\<rparr>) (rx_Resource s)"
    "rx_World s1 = w1" by (simp, blast)
  from deployment_Ret [OF 2(3)] obtain d where d: "k2 = Some d" "e2 = None" "om_Generation (rs_Meta d) = ds_ObservedGeneration (rs_Status d)"
    "rx_Resource s2 = rx_Resource s1" "rx_World s2 = w2" by (simp, blast)
  from service_Ret [OF 3(3)] obtain v where v: "k3 = Some v" "e3 = None" "rx_Resource s' = http_url (fst v) (rx_Resource s2)" "rx_World s' = w3"
    by (simp, blast)
  have i: "gst_Image (gct_Component (hts_Container (rs_Status (rx_Resource s1)))) = gst_Image (cdk_Generic (rs_Status c))"
    by (simp add: c(6) HttpTrigger_Container_def)
  with 2(1) c(5) obtain app where app: "dc = Some (trigger_deployment ?key (rs_Meta (rx_Resource s1)) app)"
    "pc_Image app = gst_Image (cdk_Generic (rs_Status c))"
    by (auto simp: HttpDeployment_DesiredChild_def Let_def serving_facts)
  obtain dspec where dspec: "dc = Some dspec" "map pc_Image (dp_Containers (snd dspec)) = [gst_Image (cdk_Generic (rs_Status c))]"
    using app by (simp add: serving_facts del: split_paired_Ex)
  obtain sspec where sspec: "sc = Some sspec"
    using i 3(1) c(5) d(4) by (simp add: HttpService_DesiredChild_def del: split_paired_Ex) blast
  show ?thesis unfolding Let_def
    by (rule exI [of _ ispec], rule exI [of _ w1], rule exI [of _ c], rule exI [of _ span], rule exI [of _ w2], rule exI [of _ dspec],
        rule exI [of _ d], rule exI [of _ w3], rule exI [of _ sspec], rule exI [of _ v], unfold c(6) [symmetric], intro conjI)
      (use 1(1,2) 2(1,2) 3(1,2) c(1-4,7) d v dspec sspec in simp_all)
qed

section \<open>A concrete trigger\<close>

definition demo_trigger :: HttpTrigger where
  "demo_trigger = \<lparr>rs_Meta = demo_named ''apps'' ''web'',
     rs_Spec = \<lparr>ht_Container = \<lparr>gc_Generic = \<lparr>gs_RepositoryRef = \<lparr>rr_Kind = ''ClusterRepository'', rr_Name = ''external''\<rparr>\<rparr>,
       gc_Ref = \<lparr>cr_APIVersion = ''wa8s.reconciler.io/v1alpha1'', cr_Kind = ''Component'', cr_Namespace = ''apps'', cr_Name = ''app''\<rparr>,
       gc_ServiceAccountRef = \<lparr>sa_Namespace = ''apps'', sa_Name = ''default''\<rparr>,
       gc_HostCapabilities = \<lparr>cap_Env = None, cap_Config = None, cap_Network = None\<rparr>\<rparr>\<rparr>,
     rs_Status = \<lparr>hts_Container = \<lparr>gct_Component = \<lparr>gst_Image = '''', gst_WIT = None, gst_Trace = []\<rparr>\<rparr>, hts_URL = ''''\<rparr>\<rparr>"

definition demo_image :: "(ComponentContainerImageSpec, image_child, unit) child_manager" where
  "demo_image d w = (w, Ret (map_option (\<lambda>(m, spec). \<lparr>rs_Meta = m\<lparr>om_Generation := 1\<rparr>,
     rs_Spec = spec, rs_Status = \<lparr>cdk_Status = demo_ready, cdk_Generic = \<lparr>gst_Image = ''r@sha256:1'', gst_WIT = None, gst_Trace = []\<rparr>\<rparr>\<rparr>) d, None))"

definition demo_deploy :: "(DeploymentSpec, deployment, unit) child_manager" where
  "demo_deploy d w = (w, Ret (map_option (\<lambda>(m, spec). \<lparr>rs_Meta = m\<lparr>om_Generation := 1\<rparr>, rs_Spec = spec,
     rs_Status = \<lparr>ds_ObservedGeneration = 1, ds_ReadyReplicas = 1, ds_UpdatedReplicas = 1\<rparr>\<rparr>) d, None))"

definition demo_serve :: "(ServiceSpec, ObjectMeta \<times> ServiceSpec, unit) child_manager" where
  "demo_serve d w = (w, Ret (d, None))"

definition nothing :: "('spec, 'k, unit) child_manager" where
  "nothing d w = (w, Ret (None, None))"

lemma trigger_conditions_well_formed_witness:
  "marks_in_order [''ComponentContainerImageReady'', ''CronJobReady'']
     (CronTriggerReconciler run_sequence demo_cluster nothing nothing (\<lambda>_. None)) \<and>
   marks_in_order [''ComponentContainerImageReady'', ''DeploymentReady'', ''ServiceReady'']
     (HttpTriggerReconciler run_sequence demo_cluster nothing nothing nothing)"
proof -
  have q: "quiet_go (snd (nothing c w))" for c w by (simp add: nothing_def)
  from trigger_conditions_well_formed [where img = nothing and job = nothing and deploy = nothing and serve = nothing and knative = nothing,
      OF demo_calm run_sequence_law run_sequence_law run_sequence_law run_sequence_law q q q q q]
  show ?thesis unfolding CronTriggerConditions_def HttpTriggerConditions_def by blast
qed

lemma trigger_image_admitted_witness:
  "\<exists>m spec. ContainerImageChild_DesiredChild HttpTrigger_Container ''k'' (runtime_image ''wasmtime'') demo_trigger = Ret (Some (m, spec)) \<and>
    om_Namespace m = ''apps'' \<and> om_Labels m ''k'' = Some ''web'' \<and>
    ComponentContainerImage_ValidateCreate sample_ctx \<lparr>rs_Meta = m, rs_Spec = spec, rs_Status = sample_status\<rparr> = Ret ()"
proof -
  have v: "GenericContainerSpec_Validate (StashResource sample_ctx (kc_Meta HttpTrigger_Container demo_trigger)) (new_path '''')
     (kc_GetGenericContainerSpec HttpTrigger_Container demo_trigger) = Ret []" by code_simp
  have m: "om_Namespace (kc_Meta HttpTrigger_Container demo_trigger) = ''apps''" "om_Name (kc_Meta HttpTrigger_Container demo_trigger) = ''web''"
    by (simp_all add: HttpTrigger_Container_def demo_trigger_def demo_named_def)
  from trigger_image_admitted [OF v, of "''wasmtime''" "''k''"] show ?thesis unfolding m by simp blast
qed

lemma HttpTrigger_publishes_witness:
  "\<exists>s'. HttpTriggerReconciler run_sequence demo_cluster demo_image demo_deploy demo_serve (demo_start demo_trigger) = (s', Ret ()) \<and>
     hts_URL (rs_Status (rx_Resource s')) = ''http://web-trigger.apps.svc.cluster.local''"
proof -
  let ?run = "HttpTriggerReconciler run_sequence demo_cluster demo_image demo_deploy demo_serve (demo_start demo_trigger)"
  have "snd ?run = Ret ()" by code_simp
  then obtain s' where run: "?run = (s', Ret ())" by (cases ?run) simp
  from HttpTrigger_publishes [OF run_sequence_law run] have "hts_URL (rs_Status (rx_Resource s')) = ''http://web-trigger.apps.svc.cluster.local''"
    by (auto simp: Let_def demo_serve_def HttpService_DesiredChild_def trigger_service_def child_meta_def http_url_def
        HttpTrigger_Container_def demo_start_def demo_trigger_def demo_named_def split: if_splits)
  with run show ?thesis by blast
qed

end
