(* ===== verification/Services_Rules.thy ===== *)
theory Services_Rules
  imports Services_Api Components_Admission
begin

text \<open>
  The contracts of the \<^verbatim>\<open>services\<close> group and what its webhooks accept: renewal periods and their
  overflow, immutability of bindings and instances, and the resource definitions, whose webhook
  breaks the contract of an admitted kind.
\<close>

section \<open>Contracts\<close>

interpretation lifecycle_ref: validated ServiceLifecycleReference_Default ServiceLifecycleReference_Validate
proof unfold_locales
  fix c :: ctx and x y :: ServiceLifecycleReference and p
  show "returns (ServiceLifecycleReference_Default c x)" if "ctx_resource c \<noteq> None"
    using that by (auto simp: ServiceLifecycleReference_Default_def Let_def intro!: returns_bind returns_Retrieve)
  show "returns (ServiceLifecycleReference_Validate c p x)" if "ctx_resource c \<noteq> None"
    unfolding ServiceLifecycleReference_Validate_def by (intro returns_cat_errs) auto
  assume "ServiceLifecycleReference_Default c x = Ret y"
  then show "ServiceLifecycleReference_Default c y = Ret y"
    by (cases "ctx_resource c")
      (auto simp: ServiceLifecycleReference_Default_def RetrieveResource_def Let_def split: if_splits)
qed

interpretation lifecycle_spec: validated ServiceLifecycleSpec_Default ServiceLifecycleSpec_Validate
proof unfold_locales
  fix c :: ctx and x y :: ServiceLifecycleSpec and p
  show "returns (ServiceLifecycleSpec_Default c x)" if "ctx_resource c \<noteq> None"
    using that by (simp add: ServiceLifecycleSpec_Default_def returns_bind container_spec.dflt_returns
        component_ref.dflt_returns)
  show "returns (ServiceLifecycleSpec_Validate c p x)" if "ctx_resource c \<noteq> None"
    unfolding ServiceLifecycleSpec_Validate_def using that
    by (intro returns_cat_errs) (auto intro: container_spec.vld_returns component_ref.vld_returns)
  assume "ServiceLifecycleSpec_Default c x = Ret y"
  then obtain g r where "GenericContainerSpec_Default c (sl_Container x) = Ret g"
    and "ComponentReference_Default c (sl_ClientRef x) = Ret r"
    and "y = x\<lparr>sl_Container := g, sl_ClientRef := r\<rparr>"
    by (auto simp: ServiceLifecycleSpec_Default_def bind_go_eq_Ret)
  then show "ServiceLifecycleSpec_Default c y = Ret y"
    using container_spec.dflt_idem component_ref.dflt_idem by (simp add: ServiceLifecycleSpec_Default_def)
qed

lemma ServiceInstanceReference_Default_id [simp]: "ServiceInstanceReference_Default c = Ret"
  by (simp add: fun_eq_iff ServiceInstanceReference_Default_def)

lemma ServiceInstanceRequest_Default_id [simp]: "ServiceInstanceRequest_Default c = Ret"
  by (simp add: fun_eq_iff ServiceInstanceRequest_Default_def)

lemma ServiceInstanceReference_Validate_returns: "returns (ServiceInstanceReference_Validate c p r)"
  unfolding ServiceInstanceReference_Validate_def by (intro returns_cat_errs) auto

lemma ServiceInstanceRequest_Validate_returns: "returns (ServiceInstanceRequest_Validate c p r)"
  unfolding ServiceInstanceRequest_Validate_def by (intro returns_cat_errs) auto

lemma scopes_returns: "returns (cat_errs (indexed (\<lambda>i s. when_errs (P s) (f i s)) xs))"
  by (intro returns_cat_errs) (auto simp: set_indexed)

interpretation instance_spec: validated ServiceInstanceSpec_Default ServiceInstanceSpec_Validate
proof unfold_locales
  fix c :: ctx and x y :: ServiceInstanceSpec and p
  show "returns (ServiceInstanceSpec_Default c x)" if "ctx_resource c \<noteq> None"
    using that by (simp add: ServiceInstanceSpec_Default_def returns_bind lifecycle_ref.dflt_returns)
  show "returns (ServiceInstanceSpec_Validate c p x)" if "ctx_resource c \<noteq> None"
    unfolding ServiceInstanceSpec_Validate_def using that
    by (intro returns_cat_errs) (auto simp: set_indexed intro: lifecycle_ref.vld_returns
        ServiceInstanceRequest_Validate_returns intro!: returns_cat_errs)
  assume "ServiceInstanceSpec_Default c x = Ret y"
  then obtain r where "ServiceLifecycleReference_Default c (si_Ref x) = Ret r" and "y = x\<lparr>si_Ref := r\<rparr>"
    by (cases x) (auto simp: ServiceInstanceSpec_Default_def bind_go_eq_Ret)
  then show "ServiceInstanceSpec_Default c y = Ret y"
    using lifecycle_ref.dflt_idem by (simp add: ServiceInstanceSpec_Default_def)
qed

lemma ServiceBindingSpec_Default_id [simp]: "ServiceBindingSpec_Default c x = Ret x"
  by (simp add: ServiceBindingSpec_Default_def)

interpretation binding_spec: validated ServiceBindingSpec_Default ServiceBindingSpec_Validate
  by unfold_locales
    (auto simp: ServiceBindingSpec_Validate_def intro!: returns_cat_errs ServiceInstanceReference_Validate_returns
      scopes_returns)

text \<open>The three periods after defaulting.\<close>

definition client_periods :: "ServiceClientSpec \<Rightarrow> duration \<times> duration \<times> 32 word" where
  "client_periods s = (let d = (if sc_Duration s = 0 then 90 * 24 * hour else sc_Duration s) in
     if sc_RenewBefore s \<noteq> 0 then (d, sc_RenewBefore s, sc_RenewBeforePercentage s)
     else (let pct = (if sc_RenewBeforePercentage s = 0 then 33 else sc_RenewBeforePercentage s);
               r = duration_div (d * scast pct) 100
           in (d, if sint r < sint (5 * minute) then 5 * minute else r, pct)))"

lemma ServiceClientSpec_Default_periods:
  "ServiceClientSpec_Default c s = (case client_periods s of (d, r, pct) \<Rightarrow>
     Ret (s\<lparr>sc_Duration := d, sc_RenewBefore := r, sc_RenewBeforePercentage := pct\<rparr>))"
  by (cases s) (simp add: ServiceClientSpec_Default_def client_periods_def Let_def)

lemma five_minutes: "sint (5 * minute) = 300000000000"
  by (simp add: minute_def)

lemma one_hour: "sint hour = 3600000000000"
  by (simp add: hour_def)

lemma client_periods_nonzero:
  assumes "client_periods s = (d, r, pct)"
  shows "d \<noteq> 0" and "r \<noteq> 0"
proof -
  show "d \<noteq> 0"
    using assms by (auto simp: client_periods_def Let_def hour_def split: if_splits)
  have "\<not> sint (0 :: duration) \<ge> sint (5 * minute)" and "5 * minute \<noteq> 0"
    by (simp_all add: five_minutes minute_def)
  then show "r \<noteq> 0"
    using assms by (auto simp: client_periods_def Let_def split: if_splits)
qed

interpretation client_spec: validated ServiceClientSpec_Default ServiceClientSpec_Validate
proof unfold_locales
  fix c :: ctx and x y :: ServiceClientSpec and p
  show "returns (ServiceClientSpec_Default c x)"
    by (simp add: ServiceClientSpec_Default_periods split: prod.split)
  show "returns (ServiceClientSpec_Validate c p x)"
    unfolding ServiceClientSpec_Validate_def
    by (intro returns_cat_errs) (auto intro!: ServiceInstanceReference_Validate_returns scopes_returns)
  assume y: "ServiceClientSpec_Default c x = Ret y"
  obtain d r pct where p: "client_periods x = (d, r, pct)" by (cases "client_periods x") auto
  with y have "y = x\<lparr>sc_Duration := d, sc_RenewBefore := r, sc_RenewBeforePercentage := pct\<rparr>"
    by (simp add: ServiceClientSpec_Default_periods)
  with client_periods_nonzero [OF p] have "client_periods y = (d, r, pct)"
    by (simp add: client_periods_def)
  with y p show "ServiceClientSpec_Default c y = Ret y"
    by (cases x) (auto simp: ServiceClientSpec_Default_periods)
qed

section \<open>Kinds\<close>

interpretation service_lifecycle: admitted_kind ServiceLifecycle_Default rs_Meta ServiceLifecycle_Validate
  ServiceLifecycle_ValidateCreate
  by (rule admitted_kindI [OF lifecycle_spec.validated_axioms])
    (simp_all add: ServiceLifecycle_Default_def ServiceLifecycle_Validate_def ServiceLifecycle_ValidateCreate_def
      admit_def)

interpretation cluster_service_lifecycle: admitted_kind ClusterServiceLifecycle_Default rs_Meta
  ClusterServiceLifecycle_Validate ClusterServiceLifecycle_ValidateCreate
  by (rule admitted_kindI [OF lifecycle_spec.validated_axioms])
    (simp_all add: ClusterServiceLifecycle_Default_def ClusterServiceLifecycle_Validate_def
      ClusterServiceLifecycle_ValidateCreate_def admit_def)

interpretation service_instance: admitted_kind ServiceInstance_Default rs_Meta ServiceInstance_Validate
  ServiceInstance_ValidateCreate
  by (rule admitted_kindI [OF instance_spec.validated_axioms])
    (simp_all add: ServiceInstance_Default_def ServiceInstance_Validate_def ServiceInstance_ValidateCreate_def
      admit_def)

interpretation service_binding: admitted_kind ServiceBinding_Default rs_Meta ServiceBinding_Validate
  ServiceBinding_ValidateCreate
  by (rule admitted_kindI [OF binding_spec.validated_axioms])
    (simp_all add: ServiceBinding_Default_def ServiceBinding_Validate_def ServiceBinding_ValidateCreate_def
      admit_def)

interpretation service_client: admitted_kind ServiceClient_Default rs_Meta ServiceClient_Validate
  ServiceClient_ValidateCreate
  by (rule admitted_kindI [OF client_spec.validated_axioms])
    (simp_all add: ServiceClient_Default_def ServiceClient_Validate_def ServiceClient_ValidateCreate_def
      admit_def)

section \<open>Renewal\<close>

lemma sint_word_of_int_in_range: "- (2 ^ 63) \<le> k \<Longrightarrow> k < 2 ^ 63 \<Longrightarrow> sint (word_of_int k :: duration) = k"
  by (simp add: sint_sbintrunc' signed_take_bit_int_eq_self)

lemma sint_times_in_range: "- (2 ^ 63) \<le> sint (x :: duration) * sint y \<Longrightarrow> sint x * sint y < 2 ^ 63 \<Longrightarrow>
  sint (x * y) = sint x * sint y"
  by (simp add: sint_word_ariths signed_take_bit_int_eq_self)

lemma sint_minus_in_range: "- (2 ^ 63) \<le> sint (x :: duration) - sint y \<Longrightarrow> sint x - sint y < 2 ^ 63 \<Longrightarrow>
  sint (x - y) = sint x - sint y"
  by (simp add: sint_word_ariths signed_take_bit_int_eq_self)

lemma sint_plus_in_range: "- (2 ^ 63) \<le> sint (x :: duration) + sint y \<Longrightarrow> sint x + sint y < 2 ^ 63 \<Longrightarrow>
  sint (x + y) = sint x + sint y"
  by (simp add: sint_word_ariths signed_take_bit_int_eq_self)

lemma sint_scast_pct [simp]: "sint (scast (w :: 32 word) :: duration) = sint w"
  by (rule sint_up_scast) (simp add: is_up)

text \<open>Up to 2.9 years no percentage overflows.\<close>

lemma percentage_exact:
  fixes pct :: "32 word"
  assumes "0 \<le> sint d" and "sint d \<le> 92233720368547758" and "0 \<le> sint pct" and "sint pct \<le> 100"
  shows "sint (duration_div (d * scast pct) 100) = sint d * sint pct div 100"
proof -
  have le: "sint d * sint pct \<le> 92233720368547758 * 100"
    using assms by (intro mult_mono) auto
  have ge: "0 \<le> sint d * sint pct" using assms by simp
  have "sint (d * scast pct) = sint d * sint pct"
    using le ge by (subst sint_times_in_range) simp_all
  moreover have "sint d * sint pct sdiv 100 = sint d * sint pct div 100"
    using ge by (simp add: signed_divide_int_def sgn_if)
  moreover have "sint d * sint pct div 100 \<le> 92233720368547758 * 100 div 100"
    using le by (intro zdiv_mono1) auto
  moreover have "0 \<le> sint d * sint pct div 100"
    using ge by (simp add: pos_imp_zdiv_nonneg_iff)
  ultimately show ?thesis
    unfolding duration_div_def by (subst sint_word_of_int_in_range) simp_all
qed

text \<open>C22: a client that does not say when to renew gets the requested percentage of its duration (33 when
  it names none), but at least five minutes, and this exact as long as the duration is at most
  2.9 years; the result never exceeds the duration, and reaches it exactly when 100 percent are asked
  for.\<close>

theorem ServiceClient_default_renewal:
  assumes "sc_RenewBefore s = 0" and "sint hour \<le> sint (sc_Duration s)"
    and "sint (sc_Duration s) \<le> 92233720368547758"
    and "0 \<le> sint (sc_RenewBeforePercentage s)" and "sint (sc_RenewBeforePercentage s) \<le> 100"
  shows "\<exists>s'. ServiceClientSpec_Default c s = Ret s' \<and> sc_Duration s' = sc_Duration s \<and>
    sint (sc_RenewBefore s') = max (sint (5 * minute)) (sint (sc_Duration s) *
      (if sc_RenewBeforePercentage s = 0 then 33 else sint (sc_RenewBeforePercentage s)) div 100) \<and>
    sint (sc_RenewBefore s') \<le> sint (sc_Duration s) \<and>
    (sc_RenewBefore s' = sc_Duration s \<longleftrightarrow> sint (sc_RenewBeforePercentage s) = 100)"
proof -
  define pct where "pct = (if sc_RenewBeforePercentage s = 0 then 33 else sc_RenewBeforePercentage s)"
  let ?d = "sc_Duration s"
  have pct: "0 \<le> sint pct" "sint pct \<le> 100" using assms by (auto simp: pct_def)
  have d: "?d \<noteq> 0" "0 \<le> sint ?d" using assms(2) by (auto simp: one_hour)
  have exact: "sint (duration_div (?d * scast pct) 100) = sint ?d * sint pct div 100"
    using assms d pct by (intro percentage_exact) auto
  define r where "r = (if sint (duration_div (?d * scast pct) 100) < sint (5 * minute) then 5 * minute
    else duration_div (?d * scast pct) 100)"
  have r: "sint r = max (sint (5 * minute)) (sint ?d * sint pct div 100)"
    by (simp add: r_def exact)
  have "sint ?d * sint pct div 100 \<le> sint ?d * 100 div 100"
    using d pct by (intro zdiv_mono1 mult_left_mono) auto
  then have "sint r \<le> sint ?d" using assms(2) by (simp add: r five_minutes one_hour)
  moreover have "client_periods s = (?d, r, pct)"
    using assms(1) d by (simp add: client_periods_def Let_def pct_def r_def)
  moreover have "(if sc_RenewBeforePercentage s = 0 then 33 else sint (sc_RenewBeforePercentage s)) = sint pct"
    by (simp add: pct_def)
  moreover have "r = ?d \<longleftrightarrow> sint (sc_RenewBeforePercentage s) = 100"
  proof -
    have "r = ?d \<longleftrightarrow> sint r = sint ?d" by (auto intro: signed_word_eqI)
    also have "\<dots> \<longleftrightarrow> sint ?d * sint pct div 100 = sint ?d" using assms(2) by (auto simp: r five_minutes one_hour max_def)
    also have "\<dots> \<longleftrightarrow> sint pct = 100"
    proof
      assume e: "sint ?d * sint pct div 100 = sint ?d"
      show "sint pct = 100"
      proof (rule ccontr)
        assume "sint pct \<noteq> 100"
        then have "sint ?d * sint pct \<le> sint ?d * 99" using pct d by (intro mult_left_mono) auto
        moreover have "sint ?d * 99 < sint ?d * 100" using assms(2) by (simp add: one_hour)
        ultimately have "sint ?d * sint pct < sint ?d * 100" by (rule le_less_trans)
        moreover have "k div 100 < d" if "k < d * 100" for k d :: int using that by presburger
        ultimately have "sint ?d * sint pct div 100 < sint ?d" by blast
        with e show False by simp
      qed
    qed simp
    also have "\<dots> \<longleftrightarrow> sint (sc_RenewBeforePercentage s) = 100" by (auto simp: pct_def)
    finally show ?thesis .
  qed
  ultimately show ?thesis by (simp add: ServiceClientSpec_Default_periods r)
qed

definition sample_client :: "duration \<Rightarrow> duration \<Rightarrow> 32 word \<Rightarrow> ServiceClientSpec" where
  "sample_client d r pct = \<lparr>sc_Ref = \<lparr>sir_Name = ''db''\<rparr>, sc_Scopes = [''read''], sc_Duration = d,
     sc_RenewBefore = r, sc_RenewBeforePercentage = pct\<rparr>"

lemma ServiceClient_default_renewal_witness:
  "\<exists>s'. ServiceClientSpec_Default sample_ctx (sample_client (24 * hour) 0 50) = Ret s' \<and>
     sc_Duration s' = 24 * hour \<and> sint (sc_RenewBefore s') = 43200000000000"
proof -
  have d: "sint (24 * hour) = 86400000000000" and p: "sint (50 :: 32 word) = 50" and n: "(50 :: 32 word) \<noteq> 0"
    by (simp_all add: hour_def)
  show ?thesis
    using ServiceClient_default_renewal [of "sample_client (24 * hour) 0 50" sample_ctx]
    by (auto simp: sample_client_def d p n one_hour five_minutes)
qed

text \<open>The product of the duration and the percentage is not guarded against overflow: a client that asks
  for 100000000000000000 nanoseconds (a little over three years) to be renewed at 100 percent gets
  five minutes.\<close>

theorem ServiceClient_renewal_overflow:
  "ServiceClientSpec_Default c (sample_client 100000000000000000 0 100) =
     Ret (sample_client 100000000000000000 (5 * minute) 100)"
proof -
  have "client_periods (sample_client 100000000000000000 0 100) = (100000000000000000, 5 * minute, 100)"
    by code_simp
  then show ?thesis by (simp add: ServiceClientSpec_Default_periods sample_client_def)
qed

section \<open>What the webhooks accept\<close>

definition scopes_rule :: "string list \<Rightarrow> bool" where
  "scopes_rule scopes \<longleftrightarrow> list_all (\<lambda>s. s \<noteq> []) scopes"

lemma scopes_valid:
  "cat_errs (indexed (\<lambda>i s. when_errs (s = []) [f i s]) xs) = Ret [] \<longleftrightarrow> scopes_rule xs"
  by (simp add: cat_errs_no_error all_indexed scopes_rule_def list_all_length)

lemma ServiceClientSpec_Validate_rule:
  "ServiceClientSpec_Validate c p s = Ret [] \<longleftrightarrow> sir_Name (sc_Ref s) \<noteq> [] \<and> scopes_rule (sc_Scopes s) \<and>
     sint hour \<le> sint (sc_Duration s) \<and> sint (5 * minute) \<le> sint (sc_RenewBefore s) \<and>
     0 \<le> sint (sc_RenewBeforePercentage s) \<and> sint (sc_RenewBeforePercentage s) \<le> 100"
  by (auto simp: ServiceClientSpec_Validate_def ServiceInstanceReference_Validate_def scopes_valid)

lemma service_client_admitted:
  "ServiceClient_ValidateCreate c o' = Ret () \<longleftrightarrow> ValidateCommonAnnotations [] (rs_Meta o') = [] \<and>
     (case client_periods (rs_Spec o') of (d, r, pct) \<Rightarrow>
        sir_Name (sc_Ref (rs_Spec o')) \<noteq> [] \<and> scopes_rule (sc_Scopes (rs_Spec o')) \<and>
        sint hour \<le> sint d \<and> sint (5 * minute) \<le> sint r \<and> 0 \<le> sint pct \<and> sint pct \<le> 100)"
  using admitted_spec_iff [OF _ _ service_client.obj_create, where sd = ServiceClientSpec_Default
      and sv = ServiceClientSpec_Validate and c = c and r = o']
  by (simp add: ServiceClient_Default_def ServiceClient_Validate_def Let_def ServiceClientSpec_Default_periods
      ServiceClientSpec_Validate_rule split: prod.splits)

lemma ServiceBindingSpec_Validate_rule:
  "ServiceBindingSpec_Validate c p s = Ret [] \<longleftrightarrow> sir_Name (sb_Ref s) \<noteq> [] \<and> scopes_rule (sb_Scopes s) \<and>
     sint hour \<le> sint (sb_Duration s)"
  by (auto simp: ServiceBindingSpec_Validate_def ServiceInstanceReference_Validate_def scopes_valid)

lemma ServiceBinding_Default_id [simp]: "ServiceBinding_Default c o' = Ret o'"
  by (simp add: ServiceBinding_Default_def)

text \<open>An update of a service binding is accepted only if it leaves the spec as it is and does not change a
  binding id once set; when it is accepted the new object would also be admitted as a new one.
  Everything else of the status is free.\<close>

theorem ServiceBinding_immutable:
  "ServiceBinding_ValidateUpdate c old new = Ret () \<longleftrightarrow>
     rs_Spec new = rs_Spec old \<and>
     (sbs_ServiceBindingId (rs_Status old) = [] \<or>
      sbs_ServiceBindingId (rs_Status new) = sbs_ServiceBindingId (rs_Status old)) \<and>
     ServiceBinding_ValidateCreate c new = Ret ()"
  by (auto simp: ServiceBinding_ValidateUpdate_def ServiceBinding_ValidateCreate_def)

text \<open>The same holds for service instances, whose references are compared after defaulting both objects.\<close>

theorem ServiceInstance_immutable:
  "ServiceInstance_ValidateUpdate c old new = Ret () \<longleftrightarrow>
     (\<exists>old' new'. ServiceInstance_Default c old = Ret old' \<and> ServiceInstance_Default c new = Ret new' \<and>
        rs_Spec new' = rs_Spec old' \<and>
        (sis_ServiceInstanceId (rs_Status old) = [] \<or>
         sis_ServiceInstanceId (rs_Status new) = sis_ServiceInstanceId (rs_Status old))) \<and>
     ServiceInstance_ValidateCreate c new = Ret ()"
proof -
  obtain old' new' where d: "ServiceInstance_Default c old = Ret old'" "ServiceInstance_Default c new = Ret new'"
    using service_instance.obj_dflt_returns [of c old] service_instance.obj_dflt_returns [of c new]
    by (auto simp: returns_def)
  then have "rs_Status old' = rs_Status old" "rs_Status new' = rs_Status new"
    by (auto simp: ServiceInstance_Default_def bind_go_eq_Ret)
  with d show ?thesis
    by (auto simp: ServiceInstance_ValidateUpdate_def ServiceInstance_ValidateCreate_def)
qed

section \<open>Resource definitions\<close>

definition names_defaulted :: "ServiceResourceDefinitionNames \<Rightarrow> ServiceResourceDefinitionNames" where
  "names_defaulted r = r\<lparr>srn_Categories := srn_Categories r @
     (if ''wa8s'' \<in> set (srn_Categories r) then [] else [''wa8s'']) @
     (if ''wa8s-services'' \<in> set (srn_Categories r) then [] else [''services''])\<rparr>"

lemma names_default: "ServiceResourceDefinitionNames_Default c r = Ret (names_defaulted r)"
  by (simp add: ServiceResourceDefinitionNames_Default_def names_defaulted_def Let_def)

lemma names_blank: "srn_Kind r = [] \<Longrightarrow>
    ServiceResourceDefinitionNames_Validate c p r = Panic ''slice bounds out of range [:1] with length 0''"
  by (simp add: ServiceResourceDefinitionNames_Validate_def cat_errs.simps when_errs_def)

lemma names_present: "srn_Kind r \<noteq> [] \<Longrightarrow> returns (ServiceResourceDefinitionNames_Validate c p r)"
  unfolding ServiceResourceDefinitionNames_Validate_def
  by (intro returns_cat_errs) (auto simp: Suc_le_eq)

text \<open>The webhook of resource definitions is not total: it panics exactly when one of the two kinds is
  blank (and the instance names do not panic first), instead of reporting the missing kind.\<close>

theorem SRD_blank_kind_panics:
  "(\<exists>m. ServiceResourceDefinition_ValidateCreate c o' = Panic m) \<longleftrightarrow>
     srn_Kind (srd_InstanceNames (rs_Spec o')) = [] \<or> srn_Kind (srd_ClientNames (rs_Spec o')) = []"
proof -
  let ?c = "StashResource c (rs_Meta o')"
  obtain l where l: "ServiceLifecycleSpec_Default ?c (srd_Lifecycle (rs_Spec o')) = Ret l"
    using lifecycle_spec.dflt_returns [of ?c "srd_Lifecycle (rs_Spec o')"] by (auto simp: returns_def)
  let ?i = "names_defaulted (srd_InstanceNames (rs_Spec o'))"
    and ?cl = "names_defaulted (srd_ClientNames (rs_Spec o'))"
  have es: "returns (ServiceLifecycleSpec_Validate ?c p l)" for p
    by (rule lifecycle_spec.vld_returns) simp
  have "ServiceResourceDefinition_ValidateCreate c o' = bind_go (cat_errs [
      Ret (ValidateCommonAnnotations (new_path []) (rs_Meta o')),
      cat_errs [ServiceResourceDefinitionNames_Validate ?c (child (child (new_path []) ''spec'') ''instanceNames'') ?i,
        ServiceResourceDefinitionNames_Validate ?c (child (child (new_path []) ''spec'') ''clientNames'') ?cl,
        ServiceLifecycleSpec_Validate ?c (child (child (new_path []) ''spec'') ''lifecycle'') l]]) to_aggregate"
    by (simp add: ServiceResourceDefinition_ValidateCreate_def ServiceResourceDefinition_Default_def
        ServiceResourceDefinition_Validate_def ServiceResourceDefinitionSpec_Default_def
        ServiceResourceDefinitionSpec_Validate_def names_default l Let_def)
  moreover obtain ls where "ServiceLifecycleSpec_Validate ?c (child (child (new_path []) ''spec'') ''lifecycle'') l = Ret ls"
    using es by (auto simp: returns_def)
  moreover have "srn_Kind ?i = srn_Kind (srd_InstanceNames (rs_Spec o'))"
    and "srn_Kind ?cl = srn_Kind (srd_ClientNames (rs_Spec o'))"
    by (simp_all add: names_defaulted_def)
  moreover have "to_aggregate xs \<noteq> Panic m" for xs m by simp
  ultimately show ?thesis
    using names_blank [of ?i ?c] names_blank [of ?cl ?c]
      names_present [of ?i ?c "child (child (new_path []) ''spec'') ''instanceNames''"]
      names_present [of ?cl ?c "child (child (new_path []) ''spec'') ''clientNames''"]
    by (cases "srn_Kind ?i = []"; cases "srn_Kind ?cl = []") (auto simp: cat_errs.simps returns_def)
qed

text \<open>Defaulting the categories is not idempotent: the category that is looked for is not the one that is
  added, so every further defaulting appends it again.\<close>

theorem SRD_categories_grow:
  "ServiceResourceDefinitionNames_Default c r = Ret r' \<Longrightarrow> ''wa8s-services'' \<notin> set (srn_Categories r) \<Longrightarrow>
   \<exists>r''. ServiceResourceDefinitionNames_Default c r' = Ret r'' \<and>
     srn_Categories r'' = srn_Categories r' @ [''services'']"
  by (cases "''wa8s'' \<in> set (srn_Categories r)") (auto simp: ServiceResourceDefinitionNames_Default_def)

lemma SRD_categories_grow_witness:
  "\<exists>r''. ServiceResourceDefinitionNames_Default sample_ctx
      \<lparr>srn_Plural = ''redis'', srn_ShortNames = [], srn_Kind = ''Redis'', srn_Categories = [''wa8s'', ''services'']\<rparr> = Ret r'' \<and>
     srn_Categories r'' = [''wa8s'', ''services'', ''services'']"
proof -
  have "ServiceResourceDefinitionNames_Default sample_ctx
      \<lparr>srn_Plural = ''redis'', srn_ShortNames = [], srn_Kind = ''Redis'', srn_Categories = []\<rparr> =
    Ret \<lparr>srn_Plural = ''redis'', srn_ShortNames = [], srn_Kind = ''Redis'', srn_Categories = [''wa8s'', ''services'']\<rparr>"
    by (simp add: ServiceResourceDefinitionNames_Default_def)
  from SRD_categories_grow [OF this] show ?thesis by simp
qed

end
