(* ===== verification/Service_Bindings.thy ===== *)
theory Service_Bindings
  imports Service_Controllers Compose_Rules Services_Rules
begin

text \<open>
  Service bindings over time.  A binding is bound once, with its own UID, and unbound once its
  lifetime is over; the abstract system of three phases says so, and a refinement mapping takes
  every run of requests of the controller to a run of that system.  The second part is the
  progress of a binding: what the requeueing sub reconciler asks for is enough to expire it.
\<close>

section \<open>Requests on a calm cluster\<close>

definition quiet_services :: "'w services \<Rightarrow> bool" where
  "quiet_services sx \<longleftrightarrow> (\<forall>a. quiet_go (ht_Parse (sx_Http sx) a)) \<and> (\<forall>u w. quiet_go (snd (ht_Get (sx_Http sx) u w))) \<and>
     (\<forall>ns n. quiet_go (sx_ServiceInstance sx ns n)) \<and> (\<forall>ns n. quiet_go (sx_ServiceLifecycle sx ns n)) \<and>
     (\<forall>n. quiet_go (sx_ClusterServiceLifecycle sx n)) \<and> (\<forall>ns w. quiet_go (sx_Bindings sx ns w)) \<and>
     (\<forall>ns w. quiet_go (sx_Instances sx ns w)) \<and> (\<forall>m. quiet_go (sx_TrackObject sx m))"

definition quiet_binding_children :: "'w binding_children \<Rightarrow> bool" where
  "quiet_binding_children bc \<longleftrightarrow> (\<forall>c w. quiet_go (snd (bc_Secret bc c w))) \<and> (\<forall>c w. quiet_go (snd (bc_Composition bc c w))) \<and>
     (\<forall>c w. quiet_go (snd (bc_Component bc c w)))"

lemma quiet_lifecycle_call: "quiet_services sx \<Longrightarrow> quiet_go (snd (lifecycle_call (sx_Http sx) a p args w))"
  by (cases "ht_Parse (sx_Http sx) a")
    (auto simp: quiet_services_def lifecycle_call_def checked_get_def case_prod_unfold Let_def, metis quiet_simps(3))

lemma quiet_calls: "quiet_services sx \<Longrightarrow> quiet_go (snd (Bind (sx_Http sx) a b i sc w))"
  "quiet_services sx \<Longrightarrow> quiet_go (snd (Unbind (sx_Http sx) a b i w))"
  "quiet_services sx \<Longrightarrow> quiet_go (snd (Provision (sx_Http sx) a i ty ti rs w))"
  "quiet_services sx \<Longrightarrow> quiet_go (snd (Destroy (sx_Http sx) a i rt w))"
  by (simp_all add: Bind_def Unbind_def Provision_def Destroy_def quiet_lifecycle_call)

lemma wpe_world_try_quiet:
  assumes "quiet_go (snd (f (rx_World s)))"
    and "\<And>w' x. f (rx_World s) = (w', Ret x) \<Longrightarrow> wpe (k x) Q E (s\<lparr>rx_World := w'\<rparr>)"
    and "\<And>w' e. f (rx_World s) = (w', Fail e) \<Longrightarrow> wpe (h e) Q E (s\<lparr>rx_World := w'\<rparr>)"
  shows "wpe (act_world_try f h k) Q E s"
  using assms by (cases "f (rx_World s)"; cases "snd (f (rx_World s))") (auto simp: wpe_simps)

declare ServiceBindingConditions_def [simp]

text \<open>
  The effect of the sub reconcilers that do not decide about the binding: what it is, and what its
  status says of its phase, stays; \<open>live\<close>, whether the service honours the credentials of this
  binding, does not become true.
\<close>

definition harmless :: "('w \<Rightarrow> bool) \<Rightarrow> (ServiceBinding, 'kc, 'd, 't, 'w) rstate \<Rightarrow> (ServiceBinding, 'kc, 'd, 't, 'w) rstate \<Rightarrow> bool" where
  "harmless live s s' \<longleftrightarrow> (let r = rx_Resource s; r' = rx_Resource s' in
     rs_Meta r' = rs_Meta r \<and> rs_Spec r' = rs_Spec r \<and>
     sbs_ServiceBindingId (rs_Status r') = sbs_ServiceBindingId (rs_Status r) \<and>
     sbs_Binding (rs_Status r') = sbs_Binding (rs_Status r) \<and> sbs_Expired (rs_Status r') = sbs_Expired (rs_Status r) \<and>
     (live (rx_World s') \<longrightarrow> live (rx_World s)) \<and>
     only_marks (set ServiceBindingConditions) s s')"

lemma harmless_refl [simp]: "harmless live s s"
  by (simp add: harmless_def)

lemma harmless_trans: "harmless live s s' \<Longrightarrow> harmless live s' s'' \<Longrightarrow> harmless live s s''"
  by (auto simp: harmless_def Let_def intro: only_marks_trans)

lemma harmless_stash [simp]: "harmless live s (s'\<lparr>rx_Stash := st\<rparr>) = harmless live s s'"
  "harmless live s (s'\<lparr>rx_Results := rs\<rparr>) = harmless live s s'" "harmless live s (s'\<lparr>rx_Events := es\<rparr>) = harmless live s s'"
  by (simp_all add: harmless_def Let_def only_marks_def)

lemma harmless_mark: "harmless live s s' \<Longrightarrow>
    mk_Type ` set new \<subseteq> set ServiceBindingConditions \<Longrightarrow>
  harmless live s (s'\<lparr>rx_Marks := rx_Marks s' @ new\<rparr>)"
  by (erule harmless_trans) (auto simp add: harmless_def Let_def only_marks_def)

lemma harmless_stash_mark: "harmless live s s' \<Longrightarrow>
    mk_Type ` set new \<subseteq> set ServiceBindingConditions \<Longrightarrow>
  harmless live s (s'\<lparr>rx_Stash := st, rx_Marks := rx_Marks s' @ new\<rparr>)"
  using harmless_mark [of live s "s'\<lparr>rx_Stash := st\<rparr>"] by simp

lemma harmless_world: "(live w \<Longrightarrow> live (rx_World s)) \<Longrightarrow> harmless live s (s\<lparr>rx_World := w\<rparr>)"
  by (simp add: harmless_def Let_def only_marks_def)

lemma harmless_status: "harmless live s s' \<Longrightarrow>
  harmless live s (s'\<lparr>rx_Resource := (rx_Resource s')\<lparr>rs_Status := (rs_Status (rx_Resource s'))\<lparr>sbs_Component := c\<rparr>\<rparr>\<rparr>)"
  "harmless live s s' \<Longrightarrow>
  harmless live s (s'\<lparr>rx_Resource := (rx_Resource s')\<lparr>rs_Status := (rs_Status (rx_Resource s'))\<lparr>sbs_ExpiresAfter := t\<rparr>\<rparr>\<rparr>)"
  by (simp_all add: harmless_def Let_def only_marks_def)

lemma returns_Instance_Default: "returns (ServiceInstance_Default c r)"
  by (rule service_instance.obj_dflt_returns)

lemma wpe_resolve_instance:
  assumes "calm cx" "quiet_services sx"
    and "\<And>s' instance. harmless live s s' \<Longrightarrow> st_InstanceId (rx_Stash s') = Some (sis_ServiceInstanceId (rs_Status instance)) \<Longrightarrow> Q instance s'"
    and "\<And>s'. harmless live s s' \<Longrightarrow> E s'"
  shows "wpe (resolve_instance cx sx r) Q E s"
proof (cases "sx_ServiceInstance sx (om_Namespace (rs_Meta r)) (sir_Name (sb_Ref (rs_Spec r)))")
  case (Fail e)
  then show ?thesis using assms(4) by (simp add: resolve_instance_def Let_def wpe_simps harmless_mark)
next
  case (Panic m)
  with assms(2) show ?thesis by (metis quiet_services_def quiet_simps(3))
next
  case (Ret i)
  obtain d where d: "ServiceInstance_Default (cx_ctx cx) (ob_Object i) = Ret d"
    using returns_Instance_Default [of "cx_ctx cx" "ob_Object i"] by (auto elim: returnsE)
  have "cl_Get (cx_conds cx) (ServiceInstanceStatus_InitializeConditions (cx_conds cx) (ob_Status i)) ''Ready'' \<noteq> None"
    using calmD(5) [OF assms(1)] by (simp add: ServiceInstanceStatus_InitializeConditions_def initializes_ready_def)
  with Ret d assms(3,4) show ?thesis
    by (auto simp: resolve_instance_def Let_def wpe_simps harmless_mark harmless_stash_mark stashers)
qed

text \<open>Past the first sub reconciler the three values of the service are stashed.\<close>

definition resolved :: "('r, 'kc, 'd, 't, 'w) rstate \<Rightarrow> bool" where
  "resolved s \<longleftrightarrow> st_InstanceId (rx_Stash s) \<noteq> None \<and> st_LifecycleAddress (rx_Stash s) \<noteq> None \<and> st_LifecycleReference (rx_Stash s) \<noteq> None"

lemma wpe_ResolveServiceInstanceId:
  assumes "calm cx" "quiet_services sx"
    and "\<And>s'. harmless live s s' \<Longrightarrow> resolved s' \<Longrightarrow> Q () s'" "\<And>s'. harmless live s s' \<Longrightarrow> E s'"
  shows "wpe (ResolveServiceInstanceId cx sx) Q E s"
proof -
  let ?r = "rx_Resource s"
  have fetch: "quiet_go (fetch_lifecycle sx ns ref)" for ns ref
    using assms(2) by (simp add: quiet_services_def fetch_lifecycle_def)
  show ?thesis
    unfolding ResolveServiceInstanceId_def wpe_simps
  proof (rule wpe_resolve_instance [OF assms(1,2), where live = live], goal_cases)
    case (1 s' i)
    let ?ref = "si_Ref (rs_Spec i)"
    show ?case
    proof (cases "fetch_lifecycle sx (om_Namespace (rs_Meta ?r)) ?ref")
      case (Panic m)
      with fetch [of "om_Namespace (rs_Meta ?r)" ?ref] show ?thesis by simp
    qed (use 1 assms(3,4) in \<open>auto simp: wpe_simps Let_def harmless_mark harmless_stash_mark stashers resolved_def\<close>)
  qed (use assms(4) in simp)
qed


text \<open>What the decision about the binding did: the four cases in which it is not harmless.\<close>

definition binding_url :: "url \<Rightarrow> string \<Rightarrow> bool" where
  "binding_url u b \<longleftrightarrow> u_Path u = ''/unbind'' \<and> values_of (ParseQuery (u_RawQuery u)) ''binding-id'' = [b]"

text \<open>
  The service as far as one binding is concerned: only a request to \<^verbatim>\<open>/bind\<close> makes its credentials
  valid, and they are not valid after it answered a request to \<^verbatim>\<open>/unbind\<close> that names the binding.
\<close>

definition revocable :: "('w \<Rightarrow> bool) \<Rightarrow> string \<Rightarrow> 'w http \<Rightarrow> bool" where
  "revocable live b h \<longleftrightarrow> (\<forall>u w. u_Path u \<noteq> ''/bind'' \<longrightarrow> live (fst (ht_Get h u w)) \<longrightarrow> live w) \<and>
     (\<forall>u w code. binding_url u b \<longrightarrow> snd (ht_Get h u w) = Ret code \<longrightarrow> 200 \<le> code \<longrightarrow> code < 300 \<longrightarrow> \<not> live (fst (ht_Get h u w)))"

definition harmless_children :: "('w \<Rightarrow> bool) \<Rightarrow> 'w binding_children \<Rightarrow> bool" where
  "harmless_children live bc \<longleftrightarrow> (\<forall>c w. live (fst (bc_Secret bc c w)) \<longrightarrow> live w) \<and>
     (\<forall>c w. live (fst (bc_Composition bc c w)) \<longrightarrow> live w) \<and> (\<forall>c w. live (fst (bc_Component bc c w)) \<longrightarrow> live w)"

lemma Unbind_live:
  assumes "revocable live b h" and "Unbind h a b i w = (w', g)"
  shows "live w' \<Longrightarrow> live w" and "g = Ret () \<Longrightarrow> \<not> live w'"
proof -
  have "(live w' \<longrightarrow> live w) \<and> (g = Ret () \<longrightarrow> \<not> live w')"
  proof (cases "ht_Parse h a")
    case (Ret u)
    from lifecycle_call_reads [where args = "Unbind_args b i" and path = "''/unbind''", OF Ret
        distinct_args(3) [OF distinct_ParseQuery] values_of_args(3), of w]
    obtain q where q: "Unbind h a b i w = checked_get h (u\<lparr>u_Path := ''/unbind'', u_RawQuery := q\<rparr>) w"
      "values_of (ParseQuery q) ''binding-id'' = [b]" by (auto simp: Unbind_def)
    let ?u = "u\<lparr>u_Path := ''/unbind'', u_RawQuery := q\<rparr>"
    have "binding_url ?u b" using q(2) by (simp add: binding_url_def)
    moreover have "u_Path ?u \<noteq> ''/bind''" by simp
    ultimately have r: "live (fst (ht_Get h ?u w)) \<Longrightarrow> live w"
      "snd (ht_Get h ?u w) = Ret code \<Longrightarrow> 200 \<le> code \<Longrightarrow> code < 300 \<Longrightarrow> \<not> live (fst (ht_Get h ?u w))" for code
      using assms(1) unfolding revocable_def by blast+
    have "w' = fst (ht_Get h ?u w)" "g = snd (checked_get h ?u w)"
      using assms(2) q(1) by (auto simp: checked_get_def case_prod_unfold Let_def)
    with r show ?thesis by (auto simp: checked_get_Ret)
  qed (use assms(2) in \<open>auto simp: Unbind_def lifecycle_call_def\<close>)
  then show "live w' \<Longrightarrow> live w" and "g = Ret () \<Longrightarrow> \<not> live w'" by blast+
qed

definition over :: "int \<Rightarrow> ServiceBinding \<Rightarrow> bool" where
  "over now r \<longleftrightarrow> om_CreationTimestamp (rs_Meta r) < time_Add now (- 1 * sb_Duration (rs_Spec r))"

definition decided :: "('w \<Rightarrow> bool) \<Rightarrow> int \<Rightarrow> (ServiceBinding, 'kc, 'd, 't, 'w) rstate \<Rightarrow> (ServiceBinding, 'kc, 'd, 't, 'w) rstate \<Rightarrow> bool" where
  "decided live now s s' \<longleftrightarrow> (let r = rx_Resource s; r' = rx_Resource s'; st = rs_Status r; st' = rs_Status r' in
     rs_Meta r' = rs_Meta r \<and> rs_Spec r' = rs_Spec r \<and>
     only_marks (set ServiceBindingConditions) s s' \<and>
     (sbs_ServiceBindingId st' = sbs_ServiceBindingId st \<and> sbs_Binding st' = sbs_Binding st \<and> sbs_Expired st' = sbs_Expired st \<and>
        (sbs_ServiceBindingId st \<noteq> '''' \<longrightarrow> live (rx_World s') \<longrightarrow> live (rx_World s)) \<or>
      sbs_ServiceBindingId st = '''' \<and> sbs_ServiceBindingId st' = om_UID (rs_Meta r) \<and>
        sbs_Binding st' = ''service-binding-'' @ om_UID (rs_Meta r) \<and> sbs_Expired st' = sbs_Expired st \<or>
      sbs_ServiceBindingId st \<noteq> '''' \<and> \<not> sbs_Expired st \<and> over now r \<and> sbs_ServiceBindingId st' = sbs_ServiceBindingId st \<and>
        sbs_Binding st' = sbs_Binding st \<and> sbs_Expired st' \<and> \<not> live (rx_World s')))"

lemma harmless_decided: "harmless live s s' \<Longrightarrow> decided live now s s'"
  by (auto simp: harmless_def decided_def Let_def)

lemma decided_trans: "harmless live s s' \<Longrightarrow> decided live now s' s'' \<Longrightarrow> decided live now s s''"
  "decided live now s s' \<Longrightarrow> harmless live s' s'' \<Longrightarrow> decided live now s s''"
  by (auto simp: harmless_def decided_def Let_def over_def intro: only_marks_trans)

lemma wpe_ManageServiceBinding:
  assumes "quiet_services sx" "resolved s" "revocable live (om_UID (rs_Meta (rx_Resource s))) (sx_Http sx)"
    and "st_BindingId (rx_Stash s) = Some (om_UID (rs_Meta (rx_Resource s)))"
    and "\<And>s'. decided live (sx_Now sx) s s' \<Longrightarrow> rx_Stash s' = rx_Stash s \<Longrightarrow> Q () s'" "\<And>s'. decided live (sx_Now sx) s s' \<Longrightarrow> E s'"
  shows "wpe (ManageServiceBinding_Sync cx sx) Q E s"
proof -
  obtain i a where cells: "st_InstanceId (rx_Stash s) = Some i" "st_LifecycleAddress (rx_Stash s) = Some a"
    using assms(2) by (auto simp: resolved_def)
  note quiet = quiet_calls(1,2) [OF assms(1)]
  note live = Unbind_live [OF assms(3)]
  have marked: "decided live (sx_Now sx) s (s\<lparr>rx_Marks := rx_Marks s @ [Mark ''Bound'' st reason msg]\<rparr>)" for st reason msg
    by (intro harmless_decided harmless_mark) auto
  let ?r = "rx_Resource s" and ?b = "om_UID (rs_Meta (rx_Resource s))"
  note eff = decided_def Let_def only_marks_def over_def
  consider (new) "sbs_ServiceBindingId (rs_Status ?r) = ''''"
    | (over) "sbs_ServiceBindingId (rs_Status ?r) \<noteq> ''''" "\<not> sbs_Expired (rs_Status ?r)" "over (sx_Now sx) ?r"
    | (other) "sbs_ServiceBindingId (rs_Status ?r) \<noteq> ''''" "sbs_Expired (rs_Status ?r) \<or> \<not> over (sx_Now sx) ?r" by blast
  then show ?thesis
  proof cases
    case new
    then show ?thesis
      using quiet(1) [of a ?b i "sb_Scopes (rs_Spec ?r)" "rx_World s"]
      by (cases "snd (Bind (sx_Http sx) a ?b i (sb_Scopes (rs_Spec ?r)) (rx_World s))")
        (auto simp: ManageServiceBinding_Sync_def wpe_simps stashers cells assms(4) eff intro!: assms(6))
  next
    case over
    show ?thesis
    proof (cases "Unbind (sx_Http sx) a ?b i (rx_World s)")
      case (Pair w' g)
      from over quiet(2) [of a ?b i "rx_World s"] live [OF Pair] show ?thesis
        by (cases g) (auto simp: Pair ManageServiceBinding_Sync_def wpe_simps stashers cells assms(4) eff intro!: assms(5,6))
    qed
  next
    case other
    then show ?thesis
      by (auto simp: ManageServiceBinding_Sync_def wpe_simps stashers marked assms(5) over_def)
  qed
qed


section \<open>A request\<close>

lemma harmless_next:
  "(live w \<Longrightarrow> live (rx_World s)) \<Longrightarrow> mk_Type mk \<in> set ServiceBindingConditions \<Longrightarrow>
   harmless live s (s\<lparr>rx_World := w, rx_Marks := rx_Marks s @ [mk]\<rparr>)"
  using harmless_mark [OF harmless_world [of live w s]] by simp

lemma wpe_ServiceBindingSecret:
  assumes "quiet_binding_children bc" "harmless_children live bc"
    and "\<And>s'. harmless live s s' \<Longrightarrow> rx_Stash s' = (rx_Stash s)\<lparr>st_BindingId := Some (om_UID (rs_Meta (rx_Resource s)))\<rparr> \<Longrightarrow> Q () s'"
    and "\<And>s'. harmless live s s' \<Longrightarrow> E s'"
  shows "wpe (child_reconciler ServiceBindingSecret_DesiredChild (bc_Secret bc) ServiceBindingSecret_Reflect) Q E s"
proof (rule wpe_child_reconciler, goal_cases)
  case (3 c w' k err)
  then have "live w' \<Longrightarrow> live (rx_World s)" using assms(2) unfolding harmless_children_def by (metis fst_conv)
  then show ?case
    using harmless_stash_mark [OF harmless_world [of live w' s]]
    by (auto simp: ServiceBindingSecret_Reflect_def wpe_simps stashers split: option.split intro!: assms(3,4) harmless_next)
next
  case (4 c w' e)
  then have "live w' \<Longrightarrow> live (rx_World s)" using assms(2) unfolding harmless_children_def by (metis fst_conv)
  then show ?case by (intro assms(4) harmless_world) auto
qed (use assms(1) in \<open>auto simp: ServiceBindingSecret_DesiredChild_def Let_def quiet_binding_children_def intro: assms(4)\<close>)

lemma wpe_ConfigureClient:
  assumes "calm cx" "resolved s" "quiet_binding_children bc" "harmless_children live bc"
    and "\<And>s'. harmless live s s' \<Longrightarrow> Q () s'" "\<And>s'. harmless live s s' \<Longrightarrow> E s'"
  shows "wpe (ConfigureClientComponent (cx_conds cx) (bc_Composition bc)) Q E s"
proof -
  have "wpe (child_reconciler (ConfigureClient_DesiredChild ref) (bc_Composition bc) (ConfigureClient_Reflect (cx_conds cx))) Q E s" for ref
  proof (rule wpe_child_reconciler, goal_cases)
    case (3 c w' k err)
    then have "live w' \<Longrightarrow> live (rx_World s)" using assms(4) unfolding harmless_children_def by (metis fst_conv)
    from harmless_next [where live = live and w = w', OF this]
      harmless_mark [OF harmless_status(1) [OF harmless_world [where live = live and w = w', OF this]]]
    show ?case
      by (auto simp: ConfigureClient_Reflect_def child_ready_def wpe_simps Let_def split: option.split intro!: assms(5,6))
  next
    case (4 c w' e)
    then have "live w' \<Longrightarrow> live (rx_World s)" using assms(4) unfolding harmless_children_def by (metis fst_conv)
    then show ?case by (intro assms(6) harmless_world) auto
  qed (use assms(3) in \<open>auto simp: ConfigureClient_DesiredChild_def Let_def quiet_binding_children_def intro: assms(6)\<close>)
  with assms(2) show ?thesis by (auto simp: ConfigureClientComponent_def wpe_simps stashers resolved_def)
qed

lemma wpe_ExpirationRequeue:
  assumes "\<And>s'. harmless live s s' \<Longrightarrow> Q () s'"
  shows "wpe (ExpirationRequeue sx) Q E s"
  using assms harmless_status(2) [OF harmless_refl [of live s]]
  by (auto simp: ExpirationRequeue_def wpe_simps Let_def harmless_def only_marks_def)

lemma wpe_binding_component:
  assumes "quiet_go gvk" "quiet_binding_children bc" "harmless_children live bc" "\<And>s'. harmless live s s' \<Longrightarrow> Q () s'" "\<And>s'. harmless live s s' \<Longrightarrow> E s'"
  shows "wpe (child_reconciler (ComponentChild_DesiredChild (ServiceBinding_ComponentLike gvk) key)
    (bc_Component bc) (ComponentChild_Reflect cx rs_Meta ''ChildComponent'')) Q E s"
proof (rule wpe_child_reconciler, goal_cases)
  case (3 c w' k err)
  then have "live w' \<Longrightarrow> live (rx_World s)" using assms(3) unfolding harmless_children_def by (metis fst_conv)
  from harmless_next [where live = live and w = w', OF this] show ?case
    by (auto simp: ComponentChild_Reflect_def wpe_simps split: option.split intro!: assms(4,5))
next
  case (4 c w' e)
  then have "live w' \<Longrightarrow> live (rx_World s)" using assms(3) unfolding harmless_children_def by (metis fst_conv)
  then show ?case by (intro assms(5) harmless_world) auto
qed (use assms in \<open>auto simp: quiet_binding_children_def ServiceBinding_ComponentLike_def intro: quiet_ComponentChild\<close>)

definition request :: "'r \<Rightarrow> 'w \<Rightarrow> ('r, 'kc, 'd, 't, 'w) rstate" where
  "request r w = \<lparr>rx_Resource = r, rx_Marks = [], rx_Events = [], rx_Results = [], rx_Stash = empty_stash, rx_World = w\<rparr>"

lemma wpe_binding_request:
  assumes "sequences sq" "calm cx" "quiet_services sx" "quiet_go gvk" "quiet_binding_children bc" "harmless_children live bc"
    and "revocable live (om_UID (rs_Meta (rx_Resource s))) (sx_Http sx)"
  shows "wpe (ServiceBindingReconciler sq cx sx gvk bc) (\<lambda>_. decided live (sx_Now sx) s) (decided live (sx_Now sx) s) s"
proof -
  let ?D = "decided live (sx_Now sx) s"
  have rest: "wpe (ConfigureClientComponent (cx_conds cx) (bc_Composition bc)) (\<lambda>_. wpe (ExpirationRequeue sx) (\<lambda>_. wpe (child_reconciler
      (ComponentChild_DesiredChild (ServiceBinding_ComponentLike gvk) key) (bc_Component bc) (ComponentChild_Reflect cx rs_Meta ''ChildComponent''))
      (\<lambda>_. ?D) ?D) ?D) ?D s'" if "?D s'" "resolved s'" for s' key
    using that by (intro wpe_ConfigureClient [OF assms(2) that(2) assms(5,6)] wpe_ExpirationRequeue [where live = live]
        wpe_binding_component [OF assms(4-6)]) (meson decided_trans(2) that(1))+
  have eta: "wpe (sq []) (\<lambda>_. ?D) ?D = ?D" using wpe_sequence(1) [OF assms(1)] by (auto simp: fun_eq_iff)
  show ?thesis
    unfolding ServiceBindingReconciler_def wpe_sequence(2) [OF assms(1)] eta
  proof (rule wpe_ResolveServiceInstanceId [OF assms(2,3), where live = live], goal_cases)
    case (1 s1)
    show ?case
    proof (rule wpe_ServiceBindingSecret [OF assms(5,6)], goal_cases)
      case (1 s2)
      with \<open>harmless live s s1\<close> have h: "harmless live s s2" by (blast intro: harmless_trans)
      then have m: "rs_Meta (rx_Resource s2) = rs_Meta (rx_Resource s)" "rs_Meta (rx_Resource s1) = rs_Meta (rx_Resource s)"
        using \<open>harmless live s s1\<close> by (auto simp: harmless_def Let_def)
      show ?case
        by (rule wpe_ManageServiceBinding [OF assms(3), where live = live], rule_tac [4] rest)
          (use 1 \<open>resolved s1\<close> assms(7) m h in \<open>auto simp: resolved_def intro: decided_trans\<close>)
    qed (use 1 in \<open>auto intro: harmless_decided harmless_trans\<close>)
  qed (auto intro: harmless_decided)
qed


section \<open>Refinement mappings\<close>

text \<open>A mapping of the states of a system to those of its specification that takes steps to steps.\<close>

locale refinement_mapping =
  fixes cstep :: "'c \<Rightarrow> 'c \<Rightarrow> bool" and astep :: "'a \<Rightarrow> 'a \<Rightarrow> bool" and view :: "'c \<Rightarrow> 'a" and inv :: "'c \<Rightarrow> bool"
  assumes inv_step: "inv c \<Longrightarrow> cstep c c' \<Longrightarrow> inv c'"
    and simulates: "inv c \<Longrightarrow> cstep c c' \<Longrightarrow> astep (view c) (view c')"
begin

lemma run_inv: "cstep\<^sup>*\<^sup>* c c' \<Longrightarrow> inv c \<Longrightarrow> inv c'"
  by (induction rule: rtranclp_induct) (auto intro: inv_step)

lemma run_refines: "cstep\<^sup>*\<^sup>* c c' \<Longrightarrow> inv c \<Longrightarrow> astep\<^sup>*\<^sup>* (view c) (view c')"
proof (induction rule: rtranclp_induct)
  case (step c1 c2)
  with simulates [OF run_inv [OF step(1)] step(2)] show ?case by (auto intro: rtranclp.rtrancl_into_rtrancl)
qed simp

text \<open>What the specification keeps along its runs, the system keeps.\<close>

lemma transfer:
  assumes "cstep\<^sup>*\<^sup>* c c'" "inv c" "P (view c)" "\<And>a a'. P a \<Longrightarrow> astep a a' \<Longrightarrow> P a'"
  shows "P (view c')"
  using run_refines [OF assms(1,2)] assms(3,4) by (induction rule: rtranclp_induct) auto

end

section \<open>The phases of a binding\<close>

datatype phase = Unbound | Active | Revoked

record binding_view =
  bv_Phase :: phase
  bv_Deadline :: int
  bv_Clock :: int

text \<open>The specification: time passes, an unbound binding is bound, an active one revoked past its deadline.\<close>

inductive phase_step :: "binding_view \<Rightarrow> binding_view \<Rightarrow> bool" where
  wait: "now \<le> now' \<Longrightarrow> phase_step \<lparr>bv_Phase = p, bv_Deadline = d, bv_Clock = now\<rparr> \<lparr>bv_Phase = p, bv_Deadline = d, bv_Clock = now'\<rparr>"
| bind: "now \<le> now' \<Longrightarrow> phase_step \<lparr>bv_Phase = Unbound, bv_Deadline = d, bv_Clock = now\<rparr> \<lparr>bv_Phase = Active, bv_Deadline = d, bv_Clock = now'\<rparr>"
| revoke: "now \<le> now' \<Longrightarrow> d < now' \<Longrightarrow>
    phase_step \<lparr>bv_Phase = Active, bv_Deadline = d, bv_Clock = now\<rparr> \<lparr>bv_Phase = Revoked, bv_Deadline = d, bv_Clock = now'\<rparr>"

inductive_cases phase_stepE: "phase_step v v'"

lemma phase_step_overdue: "(bv_Phase v = Revoked \<longrightarrow> bv_Deadline v < bv_Clock v) \<Longrightarrow> phase_step v v' \<Longrightarrow>
  bv_Phase v' = Revoked \<longrightarrow> bv_Deadline v' < bv_Clock v'"
  by (auto elim!: phase_stepE)

text \<open>One binding, the rest of the world, and the time of the last request.\<close>

record 'w binding_system =
  bs_Binding :: ServiceBinding
  bs_World :: 'w
  bs_Clock :: int

text \<open>
  What the API server keeps of a request: the status, unless the request panicked or asked not to
  update it.  The spec cannot change (\<open>ServiceBinding_ValidateUpdate\<close>).
\<close>

definition stored :: "ServiceBinding \<Rightarrow> (ServiceBinding, 'kc, 'd, 't, 'w) rstate \<times> unit go \<Rightarrow> ServiceBinding" where
  "stored r result = (case result of
     (s', Ret _) \<Rightarrow> r\<lparr>rs_Status := rs_Status (rx_Resource s')\<rparr>
   | (s', Fail e) \<Rightarrow> if errors_Is e ErrSkipStatusUpdate then r else r\<lparr>rs_Status := rs_Status (rx_Resource s')\<rparr>
   | (s', Panic m) \<Rightarrow> r)"

definition lawful :: "('w \<Rightarrow> bool) \<Rightarrow> string \<Rightarrow> ('kc, 'd, 't, 'desc, 'sec, 'w) cluster \<times> 'w services \<times> 'w binding_children \<Rightarrow> bool" where
  "lawful live b env \<longleftrightarrow> (case env of (cx, sx, bc) \<Rightarrow> calm cx \<and> quiet_services sx \<and> quiet_binding_children bc \<and>
     harmless_children live bc \<and> revocable live b (sx_Http sx))"

text \<open>
  A step is a request of the controller, in any lawful environment of \<open>envs\<close>, or anything else that
  happens to the world and does not make the credentials of the binding valid.
\<close>

inductive binding_step :: "((ServiceBinding, 'kc, 'd, 't, 'w, unit) handler list \<Rightarrow> (ServiceBinding, 'kc, 'd, 't, 'w, unit) handler) \<Rightarrow>
    GroupVersionKind go \<Rightarrow> (('kc, 'd, 't, 'desc, 'sec, 'w) cluster \<times> 'w services \<times> 'w binding_children) set \<Rightarrow> ('w \<Rightarrow> bool) \<Rightarrow>
    'w binding_system \<Rightarrow> 'w binding_system \<Rightarrow> bool"
  for sq gvk envs live where
  reconcile: "(cx, sx, bc) \<in> envs \<Longrightarrow> lawful live (om_UID (rs_Meta r)) (cx, sx, bc) \<Longrightarrow> sequences sq \<Longrightarrow> quiet_go gvk \<Longrightarrow> now \<le> sx_Now sx \<Longrightarrow>
    ServiceBindingReconciler sq cx sx gvk bc (request r w) = (s', g) \<Longrightarrow>
    binding_step sq gvk envs live \<lparr>bs_Binding = r, bs_World = w, bs_Clock = now\<rparr>
      \<lparr>bs_Binding = stored r (s', g), bs_World = rx_World s', bs_Clock = sx_Now sx\<rparr>"
| elsewhere: "(live w' \<longrightarrow> live w) \<Longrightarrow> binding_step sq gvk envs live \<lparr>bs_Binding = r, bs_World = w, bs_Clock = now\<rparr>
      \<lparr>bs_Binding = r, bs_World = w', bs_Clock = now\<rparr>"

definition phase_of :: "ServiceBinding \<Rightarrow> phase" where
  "phase_of r = (if sbs_ServiceBindingId (rs_Status r) = '''' then Unbound
     else if sbs_Expired (rs_Status r) then Revoked else Active)"

definition binding_view_of :: "'w binding_system \<Rightarrow> binding_view" where
  "binding_view_of S = \<lparr>bv_Phase = phase_of (bs_Binding S),
     bv_Deadline = om_CreationTimestamp (rs_Meta (bs_Binding S)) + sint (sb_Duration (rs_Spec (bs_Binding S))), bv_Clock = bs_Clock S\<rparr>"

definition binding_inv :: "('w \<Rightarrow> bool) \<Rightarrow> 'w binding_system \<Rightarrow> bool" where
  "binding_inv live S \<longleftrightarrow> (let r = bs_Binding S; st = rs_Status r in
     0 \<le> sint (sb_Duration (rs_Spec r)) \<and>
     (sbs_ServiceBindingId st = '''' \<and> \<not> sbs_Expired st \<or>
      sbs_ServiceBindingId st = om_UID (rs_Meta r) \<and> sbs_Binding st = ''service-binding-'' @ om_UID (rs_Meta r)) \<and>
     (sbs_Expired st \<longrightarrow> sbs_ServiceBindingId st \<noteq> '''' \<and> \<not> live (bs_World S)))"

lemma over_iff: "0 \<le> sint (sb_Duration (rs_Spec r)) \<Longrightarrow>
  over now r \<longleftrightarrow> om_CreationTimestamp (rs_Meta r) + sint (sb_Duration (rs_Spec r)) < now"
proof -
  let ?d = "sb_Duration (rs_Spec r)"
  assume "0 \<le> sint ?d"
  moreover have "sint ?d < 2 ^ 63" using sint_lt [of ?d] by simp
  ultimately have "sint (0 - ?d) = - sint ?d" using sint_minus_in_range [of 0 ?d] by simp
  then show ?thesis by (auto simp: over_def time_Add_def)
qed

lemma reconcile_cases:
  assumes "lawful live (om_UID (rs_Meta r)) (cx, sx, bc)" "sequences sq" "quiet_go gvk"
    and "ServiceBindingReconciler sq cx sx gvk bc (request r w) = (s', g)"
  shows "decided live (sx_Now sx) (request r w) s'" and "stored r (s', g) \<in> {r, rx_Resource s'}"
proof -
  have "wpe (ServiceBindingReconciler sq cx sx gvk bc) (\<lambda>_. decided live (sx_Now sx) (request r w)) (decided live (sx_Now sx) (request r w)) (request r w)"
    using assms(1-3) by (intro wpe_binding_request) (auto simp: lawful_def request_def)
  with assms(4) show d: "decided live (sx_Now sx) (request r w) s'"
    by (auto simp: wpe_def split: go.splits)
  then have "rs_Meta (rx_Resource s') = rs_Meta r" "rs_Spec (rx_Resource s') = rs_Spec r"
    by (auto simp: decided_def Let_def request_def)
  then show "stored r (s', g) \<in> {r, rx_Resource s'}"
    by (auto simp: stored_def split: go.split)
qed

interpretation binding: refinement_mapping "binding_step sq gvk envs live" phase_step binding_view_of "binding_inv live"
  for sq gvk envs live
proof
  fix S S'
  assume i: "binding_inv live S" and st: "binding_step sq gvk envs live S S'"
  from st have "binding_inv live S' \<and> phase_step (binding_view_of S) (binding_view_of S')"
  proof cases
    case (reconcile cx sx bc r now w s' g)
    note d = reconcile_cases [OF reconcile(4-6,8)]
    from i reconcile(1) have "0 \<le> sint (sb_Duration (rs_Spec r))" by (simp add: binding_inv_def Let_def)
    note over = over_iff [OF this, of "sx_Now sx"]
    from d(2) consider "stored r (s', g) = r" | "stored r (s', g) = rx_Resource s'" by auto
    then show ?thesis
      using d(1) i reconcile(1,2,7) over
      by cases (auto simp: decided_def binding_inv_def binding_view_of_def phase_of_def request_def Let_def intro: phase_step.intros)
  next
    case (elsewhere w' w r now)
    with i show ?thesis by (auto simp: binding_inv_def binding_view_of_def Let_def intro: phase_step.intros)
  qed
  then show "binding_inv live S'" "phase_step (binding_view_of S) (binding_view_of S')" by simp_all
qed


lemma admitted_duration: "ServiceBinding_ValidateCreate c r = Ret () \<Longrightarrow> 0 \<le> sint (sb_Duration (rs_Spec r))"
  using service_binding.create_iff [of c r] one_hour
  by (auto simp: ServiceBinding_Validate_def ServiceBindingSpec_Validate_rule)

text \<open>Once revoked, always revoked.\<close>

lemma phase_step_revoked: "bv_Phase v = Revoked \<Longrightarrow> phase_step v v' \<Longrightarrow> bv_Phase v' = Revoked"
  by (auto elim: phase_stepE)

lemma revoked_iff: "binding_inv live S \<Longrightarrow> bv_Phase (binding_view_of S) = Revoked \<longleftrightarrow> sbs_Expired (rs_Status (bs_Binding S))"
  by (auto simp: binding_inv_def binding_view_of_def phase_of_def Let_def)

text \<open>C7: the controller implements the specification of a binding: from an admitted binding that is not yet
  bound, every run of requests - each with its own view of the cluster and its own outcome of the
  children and the calls - and of other steps is, seen through the status, a run of the three
  phases; a binding is bound at most once and revoked only past its deadline.\<close>

theorem binding_refines_phases:
  assumes "(binding_step sq gvk envs live)\<^sup>*\<^sup>* S S'"
    and "ServiceBinding_ValidateCreate c (bs_Binding S) = Ret ()"
    and "sbs_ServiceBindingId (rs_Status (bs_Binding S)) = ''''" "\<not> sbs_Expired (rs_Status (bs_Binding S))"
  shows "phase_step\<^sup>*\<^sup>* (binding_view_of S) (binding_view_of S')"
proof -
  have "binding_inv live S" using assms(3,4) admitted_duration [OF assms(2)] by (simp add: binding_inv_def Let_def)
  from binding.run_refines [OF assms(1) this] show ?thesis .
qed

text \<open>C9: what holds of a binding at every moment: its id is its own UID once it is set, and the secret it names is
  the one of this id; when the status says expired, the deadline has passed, the service honours
  the credentials no more, and both stay so in every continuation.\<close>

theorem binding_invariant:
  assumes "(binding_step sq gvk envs live)\<^sup>*\<^sup>* S S'"
    and "ServiceBinding_ValidateCreate c (bs_Binding S) = Ret ()"
    and "sbs_ServiceBindingId (rs_Status (bs_Binding S)) = ''''" "\<not> sbs_Expired (rs_Status (bs_Binding S))"
  defines "r \<equiv> bs_Binding S'"
  shows "(sbs_ServiceBindingId (rs_Status r) \<noteq> '''' \<longrightarrow> sbs_ServiceBindingId (rs_Status r) = om_UID (rs_Meta r) \<and>
      sbs_Binding (rs_Status r) = ''service-binding-'' @ om_UID (rs_Meta r)) \<and>
    (sbs_Expired (rs_Status r) \<longrightarrow>
      om_CreationTimestamp (rs_Meta r) + sint (sb_Duration (rs_Spec r)) < bs_Clock S' \<and> \<not> live (bs_World S') \<and>
      (\<forall>S''. (binding_step sq gvk envs live)\<^sup>*\<^sup>* S' S'' \<longrightarrow> sbs_Expired (rs_Status (bs_Binding S'')) \<and> \<not> live (bs_World S'')))"
proof -
  have i: "binding_inv live S" using assms(3,4) admitted_duration [OF assms(2)] by (simp add: binding_inv_def Let_def)
  note i' = binding.run_inv [OF assms(1) i]
  have "bv_Phase (binding_view_of S) = Unbound" using assms(3) by (simp add: binding_view_of_def phase_of_def)
  then have "bv_Phase (binding_view_of S) = Revoked \<longrightarrow> bv_Deadline (binding_view_of S) < bv_Clock (binding_view_of S)" by simp
  from binding.transfer [where P = "\<lambda>v. bv_Phase v = Revoked \<longrightarrow> bv_Deadline v < bv_Clock v", OF assms(1) i this phase_step_overdue]
  have "sbs_Expired (rs_Status r) \<longrightarrow> om_CreationTimestamp (rs_Meta r) + sint (sb_Duration (rs_Spec r)) < bs_Clock S'"
    using revoked_iff [OF i'] by (simp add: binding_view_of_def r_def)
  moreover have "sbs_Expired (rs_Status (bs_Binding S'')) \<and> \<not> live (bs_World S'')"
    if "sbs_Expired (rs_Status r)" "(binding_step sq gvk envs live)\<^sup>*\<^sup>* S' S''" for S''
    using binding.transfer [where P = "\<lambda>v. bv_Phase v = Revoked", OF that(2) i' _ phase_step_revoked] that(1)
      revoked_iff [OF i'] revoked_iff [OF binding.run_inv [OF that(2) i']] binding.run_inv [OF that(2) i']
    by (auto simp: r_def binding_inv_def Let_def)
  ultimately show ?thesis
    using i' by (auto simp: r_def binding_inv_def Let_def)
qed

end
