(* ===== verification/Service_Progress.thy ===== *)
theory Service_Progress
  imports Service_Bindings Compose_Props
begin

text \<open>
  The progress of service bindings: with a service that answers and children that are ready, the
  requests the controller asks for expire a binding, and what happens to an expiry when the client
  composition is not ready.  The second half shows the theorems on a concrete service.
\<close>

section \<open>Requests that find everything ready\<close>

text \<open>The instance and the lifecycle of a binding can be read and are ready.\<close>

definition instance_found :: "('kc, 'd, 't, 'desc, 'sec, 'w) cluster \<Rightarrow> 'w services \<Rightarrow> ServiceBinding \<Rightarrow> bool" where
  "instance_found cx sx r \<longleftrightarrow> (\<exists>i d l. sx_ServiceInstance sx (om_Namespace (rs_Meta r)) (sir_Name (sb_Ref (rs_Spec r))) = Ret i \<and>
     om_Generation (rs_Meta (ob_Object i)) = as_ObservedGeneration (ob_Status i) \<and>
     cl_IsTrue (cx_conds cx) (cl_Get (cx_conds cx) (ServiceInstanceStatus_InitializeConditions (cx_conds cx) (ob_Status i)) ''Ready'') \<and>
     ServiceInstance_Default (cx_ctx cx) (ob_Object i) = Ret d \<and>
     fetch_lifecycle sx (om_Namespace (rs_Meta r)) (si_Ref (rs_Spec d)) = Ret l \<and>
     om_Generation (rs_Meta (ob_Object l)) = as_ObservedGeneration (ob_Status l))"

definition answers_unbind :: "'w http \<Rightarrow> bool" where
  "answers_unbind h \<longleftrightarrow> (\<forall>a b i w. snd (Unbind h a b i w) = Ret ())"

text \<open>The secret and the component are there, the client composition is there and \<open>ok\<close>.\<close>

definition children_found :: "'w binding_children \<Rightarrow> (Composition observed \<Rightarrow> bool) \<Rightarrow> bool" where
  "children_found bc ok \<longleftrightarrow> (\<forall>c w. \<exists>k. snd (bc_Secret bc c w) = Ret (Some k, None)) \<and>
     (\<forall>c w. \<exists>k. snd (bc_Composition bc c w) = Ret (Some k, None) \<and> ok k) \<and>
     (\<forall>c w. \<exists>k. snd (bc_Component bc c w) = Ret (Some k, None))"

definition client_ready :: "cond_lib \<Rightarrow> Composition observed \<Rightarrow> bool" where
  "client_ready cl k \<longleftrightarrow> om_Generation (rs_Meta (ob_Object k)) = as_ObservedGeneration (ob_Status k) \<and>
     cl_IsTrue cl (cl_Get cl (ob_Status k) ''Ready'') \<and> gst_Image (cst_Generic (rs_Status (ob_Object k))) \<noteq> ''''"

definition healthy :: "('kc, 'd, 't, 'desc, 'sec, 'w) cluster \<Rightarrow> 'w services \<Rightarrow> GroupVersionKind go \<Rightarrow> 'w binding_children \<Rightarrow>
    ServiceBinding \<Rightarrow> bool" where
  "healthy cx sx gvk bc r \<longleftrightarrow> instance_found cx sx r \<and> answers_unbind (sx_Http sx) \<and>
     children_found bc (client_ready (cx_conds cx)) \<and> returns gvk"

text \<open>A step of such a request: what counts for the phase and the requeueing stays.\<close>

definition on_track :: "(ServiceBinding, 'kc, 'd, 't, 'w) rstate \<Rightarrow> (ServiceBinding, 'kc, 'd, 't, 'w) rstate \<Rightarrow> bool" where
  "on_track s s' \<longleftrightarrow> rs_Meta (rx_Resource s') = rs_Meta (rx_Resource s) \<and> rs_Spec (rx_Resource s') = rs_Spec (rx_Resource s) \<and>
     sbs_ServiceBindingId (rs_Status (rx_Resource s')) = sbs_ServiceBindingId (rs_Status (rx_Resource s)) \<and>
     sbs_Expired (rs_Status (rx_Resource s')) = sbs_Expired (rs_Status (rx_Resource s)) \<and> rx_Results s' = rx_Results s"

lemma on_track_trans: "on_track s s' \<Longrightarrow> on_track s' s'' \<Longrightarrow> on_track s s''"
  by (simp add: on_track_def)

abbreviation (input) never :: "'s \<Rightarrow> bool" where
  "never \<equiv> \<lambda>s. False"

lemma found_resolve:
  assumes "instance_found cx sx (rx_Resource s)"
    and "\<And>s'. on_track s s' \<Longrightarrow> resolved s' \<Longrightarrow> rx_World s' = rx_World s \<Longrightarrow> Q () s'"
  shows "wpe (ResolveServiceInstanceId cx sx) Q never s"
proof -
  from assms(1) obtain i d l where
    "sx_ServiceInstance sx (om_Namespace (rs_Meta (rx_Resource s))) (sir_Name (sb_Ref (rs_Spec (rx_Resource s)))) = Ret i"
    "om_Generation (rs_Meta (ob_Object i)) = as_ObservedGeneration (ob_Status i)"
    "cl_IsTrue (cx_conds cx) (cl_Get (cx_conds cx) (ServiceInstanceStatus_InitializeConditions (cx_conds cx) (ob_Status i)) ''Ready'')"
    "ServiceInstance_Default (cx_ctx cx) (ob_Object i) = Ret d"
    "fetch_lifecycle sx (om_Namespace (rs_Meta (rx_Resource s))) (si_Ref (rs_Spec d)) = Ret l"
    "om_Generation (rs_Meta (ob_Object l)) = as_ObservedGeneration (ob_Status l)"
    unfolding instance_found_def by blast
  then show ?thesis
    by (auto simp: ResolveServiceInstanceId_def resolve_instance_def wpe_simps Let_def stashers on_track_def resolved_def intro!: assms(2))
qed

lemma found_secret:
  assumes "children_found bc ok" "resolved s"
    and "\<And>s'. on_track s s' \<Longrightarrow> resolved s' \<Longrightarrow> st_BindingId (rx_Stash s') = Some (om_UID (rs_Meta (rx_Resource s))) \<Longrightarrow> Q () s'"
  shows "wpe (child_reconciler ServiceBindingSecret_DesiredChild (bc_Secret bc) ServiceBindingSecret_Reflect) Q never s"
proof -
  have "\<forall>c. \<exists>k. snd (bc_Secret bc c (rx_World s)) = Ret (Some k, None)"
    using assms(1) by (simp add: children_found_def)
  from choice [OF this] obtain k where "\<forall>c. snd (bc_Secret bc c (rx_World s)) = Ret (Some (k c), None)" by blast
  with assms(2) show ?thesis
    by (auto simp: child_reconciler_def ServiceBindingSecret_DesiredChild_def ServiceBindingSecret_Reflect_def wpe_simps Let_def
        stashers on_track_def resolved_def intro!: assms(3))
qed

lemma found_client:
  assumes "children_found bc (client_ready cl)" "resolved s" "\<And>s'. on_track s s' \<Longrightarrow> Q () s'"
  shows "wpe (ConfigureClientComponent cl (bc_Composition bc)) Q never s"
proof -
  have "\<forall>c. \<exists>k. snd (bc_Composition bc c (rx_World s)) = Ret (Some k, None) \<and> client_ready cl k"
    using assms(1) by (simp add: children_found_def)
  from choice [OF this] obtain k where "\<forall>c. snd (bc_Composition bc c (rx_World s)) = Ret (Some (k c), None) \<and> client_ready cl (k c)" by blast
  with assms(2) show ?thesis
    by (auto simp: ConfigureClientComponent_def child_reconciler_def ConfigureClient_DesiredChild_def ConfigureClient_Reflect_def
        child_ready_def client_ready_def wpe_simps Let_def stashers on_track_def resolved_def intro!: assms(3))
qed

lemma found_component:
  assumes "children_found bc ok" "returns gvk" "\<And>s'. on_track s s' \<Longrightarrow> Q () s'"
  shows "wpe (child_reconciler (ComponentChild_DesiredChild (ServiceBinding_ComponentLike gvk) key)
    (bc_Component bc) (ComponentChild_Reflect cx rs_Meta ''ChildComponent'')) Q never s"
proof -
  have "\<forall>c. \<exists>k. snd (bc_Component bc c (rx_World s)) = Ret (Some k, None)"
    using assms(1) by (simp add: children_found_def)
  from choice [OF this] obtain k where "\<forall>c. snd (bc_Component bc c (rx_World s)) = Ret (Some (k c), None)" by blast
  with assms(2) show ?thesis
    by (auto simp: child_reconciler_def ComponentChild_DesiredChild_def ServiceBinding_ComponentLike_def ComponentChild_Reflect_def
        wpe_simps Let_def on_track_def elim!: returnsE intro!: assms(3))
qed

text \<open>The result of such a request for a binding that is bound and not expired.\<close>

definition progressed :: "int \<Rightarrow> ServiceBinding \<Rightarrow> (ServiceBinding, 'kc, 'd, 't, 'w) rstate \<Rightarrow> bool" where
  "progressed now r s' \<longleftrightarrow> rs_Meta (rx_Resource s') = rs_Meta r \<and> rs_Spec (rx_Resource s') = rs_Spec r \<and>
     sbs_ServiceBindingId (rs_Status (rx_Resource s')) = sbs_ServiceBindingId (rs_Status r) \<and>
     sbs_Expired (rs_Status (rx_Resource s')) = over now r \<and>
     rx_Results s' = [if over now r then \<lparr>res_Requeue = False, res_RequeueAfter = 0\<rparr>
       else next_request (time_Sub (time_Add (om_CreationTimestamp (rs_Meta r)) (sb_Duration (rs_Spec r))) now)]"

lemma healthy_request:
  assumes "sequences sq" "healthy cx sx gvk bc r" "phase_of r = Active"
  shows "wpe (ServiceBindingReconciler sq cx sx gvk bc) (\<lambda>_. progressed (sx_Now sx) r) never (request r w)"
proof -
  note h = assms(2) [unfolded healthy_def]
  have eta: "wpe (sq []) (\<lambda>_. P) never = P" for P using wpe_sequence(1) [OF assms(1)] by (auto simp: fun_eq_iff)
  let ?p = "progressed (sx_Now sx) r"
  have rest: "wpe (ConfigureClientComponent (cx_conds cx) (bc_Composition bc)) (\<lambda>_. wpe (ExpirationRequeue sx) (\<lambda>_. wpe (child_reconciler
      (ComponentChild_DesiredChild (ServiceBinding_ComponentLike gvk) key) (bc_Component bc) (ComponentChild_Reflect cx rs_Meta ''ChildComponent''))
      (\<lambda>_. ?p) never) never) never s'"
    if "on_track (request r w) (s'\<lparr>rx_Resource := (rx_Resource s')\<lparr>rs_Status := (rs_Status (rx_Resource s'))\<lparr>sbs_Expired := False\<rparr>\<rparr>\<rparr>)"
      "sbs_Expired (rs_Status (rx_Resource s')) = over (sx_Now sx) r" "resolved s'" for s' key
  proof (rule found_client, goal_cases)
    case (3 s1)
    show ?case
      by (simp add: ExpirationRequeue_def wpe_simps Let_def, intro conjI impI)
        (rule found_component, use 3 that h assms(3) in \<open>auto simp: on_track_def progressed_def request_def\<close>)+
  qed (use h that in auto)
  show ?thesis
    unfolding ServiceBindingReconciler_def wpe_sequence(2) [OF assms(1)] eta
  proof (rule found_resolve, goal_cases)
    case (2 s1)
    show ?case
    proof (rule found_secret, goal_cases)
      case (3 s2)
      note t = on_track_trans [OF 2(1) 3(1)]
      then have st: "sbs_ServiceBindingId (rs_Status (rx_Resource s2)) \<noteq> ''''" "\<not> sbs_Expired (rs_Status (rx_Resource s2))"
        "over (sx_Now sx) (rx_Resource s2) = over (sx_Now sx) r"
        using assms(3) by (auto simp: on_track_def request_def phase_of_def over_def split: if_splits)
      obtain i a where cells: "st_InstanceId (rx_Stash s2) = Some i" "st_LifecycleAddress (rx_Stash s2) = Some a"
        using 3(2) by (auto simp: resolved_def)
      have ok: "snd (Unbind (sx_Http sx) a b i w) = Ret ()" for b w using h by (simp add: answers_unbind_def)
      show ?case
        using st(3)
        by (simp add: ManageServiceBinding_Sync_def wpe_simps stashers cells 3(3) ok st over_def, intro conjI impI)
          (rule rest, use t st 3(2) in \<open>auto simp: on_track_def resolved_def over_def request_def\<close>)+
    qed (use 2 h in auto)
  qed (use h in \<open>auto simp: request_def\<close>)
qed


text \<open>
  What the runtime does with a result: a request with a delay is made again once the delay is over,
  one without at some later time; there may be other requests before.
\<close>

definition requeued :: "(nat \<Rightarrow> int) \<Rightarrow> nat \<Rightarrow> Result list \<Rightarrow> bool" where
  "requeued t n results \<longleftrightarrow> (\<forall>r \<in> set results. (0 < sint (res_RequeueAfter r) \<longrightarrow> (\<exists>m > n. t n + sint (res_RequeueAfter r) \<le> t m)) \<and>
     (res_Requeue r \<longrightarrow> (\<exists>m > n. t n < t m)))"

lemma sint_time_Sub: "- (2 ^ 63) \<le> t - u \<Longrightarrow> t - u < 2 ^ 63 \<Longrightarrow> sint (time_Sub t u) = t - u"
  using sint_word_of_int_in_range [of "t - u"] by (simp add: time_Sub_def min_def max_def)

lemma requeued_next:
  assumes "requeued t n [next_request (time_Sub e (t n))]" "- (2 ^ 63) \<le> e - t n" "e - t n < 2 ^ 63"
  shows "\<exists>m > n. if t n < e then e \<le> t m else t n < t m"
  using assms(1) sint_time_Sub [OF assms(2,3)] by (cases "t n < e") (auto simp: requeued_def next_request_def)

text \<open>C8: a binding that is bound expires: in every sequence of requests that find the instance and the children
  ready and the service answering, and that come back when the controller asked for it, one of them
  revokes the binding.\<close>

theorem binding_expires:
  assumes "sequences sq" and "phase_of (r 0) = Active"
    and "0 \<le> sint (sb_Duration (rs_Spec (r 0)))" "om_CreationTimestamp (rs_Meta (r 0)) \<le> t 0"
    and "\<And>n. sx_Now (sx n) = t n" "\<And>n. healthy (cx n) (sx n) gvk (bc n) (r n)"
    and "\<And>n. r (Suc n) = stored (r n) (ServiceBindingReconciler sq (cx n) (sx n) gvk (bc n) (request (r n) (w n)))"
    and "\<And>n. requeued t n (rx_Results (fst (ServiceBindingReconciler sq (cx n) (sx n) gvk (bc n) (request (r n) (w n)))))"
  shows "\<exists>n. sbs_Expired (rs_Status (r n))"
proof (rule ccontr)
  assume "\<not> ?thesis"
  then have never: "\<not> sbs_Expired (rs_Status (r n))" for n by blast
  let ?run = "\<lambda>n. ServiceBindingReconciler sq (cx n) (sx n) gvk (bc n) (request (r n) (w n))"
  let ?e = "om_CreationTimestamp (rs_Meta (r 0)) + sint (sb_Duration (rs_Spec (r 0)))"
  have step: "progressed (t n) (r n) (fst (?run n)) \<and> r (Suc n) = rx_Resource (fst (?run n))" if "phase_of (r n) = Active" for n
  proof -
    from healthy_request [OF assms(1) assms(6) that, of "w n", unfolded assms(5)]
    have "\<exists>s'. ?run n = (s', Ret ()) \<and> progressed (t n) (r n) s'" by (auto dest: wpe_iff_Ret)
    then show ?thesis using assms(7) [of n] by (auto simp: stored_def progressed_def)
  qed
  have same: "phase_of (r n) = Active \<and> rs_Meta (r n) = rs_Meta (r 0) \<and> rs_Spec (r n) = rs_Spec (r 0)" for n
  proof (induction n)
    case (Suc n)
    with step [of n] never [of "Suc n"] show ?case by (auto simp: progressed_def phase_of_def split: if_splits)
  qed (use assms(2) in simp)
  have early: "t n \<le> ?e \<and> rx_Results (fst (?run n)) = [next_request (time_Sub ?e (t n))]" for n
    using step [of n] never [of "Suc n"] same [of n] over_iff [of "r n" "t n"] assms(3) by (auto simp: progressed_def time_Add_def)
  have "sint (sb_Duration (rs_Spec (r 0))) < 2 ^ 63" using sint_lt [of "sb_Duration (rs_Spec (r 0))"] by simp
  with assms(4) early [of 0] have "\<exists>m > 0. if t 0 < ?e then ?e \<le> t m else t 0 < t m"
    using assms(8) [of 0] by (intro requeued_next) auto
  then obtain m where "if t 0 < ?e then ?e \<le> t m else t 0 < t m" by blast
  with early [of 0] have "?e \<le> t m" by (auto split: if_splits)
  with early [of m] have "t m = ?e" by simp
  with early [of m] assms(8) [of m] obtain k where "?e < t k" using requeued_next [of t m ?e] by auto
  with early [of k] show False by simp
qed


section \<open>Where an expiry gets lost\<close>

lemma sequence_cons: "sequences sq \<Longrightarrow> sq (h # hs) s = act_bind h (\<lambda>_. sq hs) s"
  by (simp add: sequences_def act_then_def)

lemma sequence_last: "sequences sq \<Longrightarrow> fst (sq [h] s) = fst (h s)"
  by (cases "h s"; cases "snd (h s)") (auto simp: sequences_def act_then_def act_bind_def)

lemma overdue_unbound:
  assumes "resolved s" "answers_unbind (sx_Http sx)" "phase_of (rx_Resource s) = Active" "over (sx_Now sx) (rx_Resource s)"
    and "st_BindingId (rx_Stash s) = Some (om_UID (rs_Meta (rx_Resource s)))" "revocable live (om_UID (rs_Meta (rx_Resource s))) (sx_Http sx)"
  shows "wpe (ManageServiceBinding_Sync cx sx)
    (\<lambda>_ s'. resolved s' \<and> \<not> live (rx_World s') \<and> rx_Results s' = rx_Results s \<and> (''Expired'', '''') \<in> set (rx_Events s')) never s"
proof -
  obtain i a where cells: "st_InstanceId (rx_Stash s) = Some i" "st_LifecycleAddress (rx_Stash s) = Some a"
    using assms(1) by (auto simp: resolved_def)
  have st: "sbs_ServiceBindingId (rs_Status (rx_Resource s)) \<noteq> ''''" "\<not> sbs_Expired (rs_Status (rx_Resource s))"
    using assms(3) by (auto simp: phase_of_def split: if_splits)
  let ?u = "Unbind (sx_Http sx) a (om_UID (rs_Meta (rx_Resource s))) i (rx_World s)"
  have ok: "snd ?u = Ret ()" using assms(2) by (simp add: answers_unbind_def)
  then have "\<not> live (fst ?u)" using Unbind_live(2) [OF assms(6), of a i "rx_World s"] by (metis prod.collapse)
  with assms(1,4) show ?thesis
    by (simp add: ManageServiceBinding_Sync_def wpe_simps stashers cells assms(5) ok st over_def resolved_def)
qed

lemma client_not_observed:
  assumes "children_found bc (\<lambda>k. om_Generation (rs_Meta (ob_Object k)) \<noteq> as_ObservedGeneration (ob_Status k))" "resolved s" "harmless_children live bc"
  shows "\<exists>s'. ConfigureClientComponent cl (bc_Composition bc) s = (s', Fail ErrGenerationMismatch) \<and>
    (live (rx_World s') \<longrightarrow> live (rx_World s)) \<and> rx_Results s' = rx_Results s \<and> rx_Events s' = rx_Events s"
proof -
  obtain ref where ref: "st_LifecycleReference (rx_Stash s) = Some ref" using assms(2) by (auto simp: resolved_def)
  obtain c where c: "ConfigureClient_DesiredChild ref (rx_Resource s) = Ret c" by (auto simp: ConfigureClient_DesiredChild_def Let_def)
  obtain w' k where "bc_Composition bc c (rx_World s) = (w', Ret (Some k, None))" and k: "om_Generation (rs_Meta (ob_Object k)) \<noteq> as_ObservedGeneration (ob_Status k)"
    using assms(1) unfolding children_found_def by (metis prod.collapse)
  moreover from this have "live w' \<longrightarrow> live (rx_World s)" using assms(3) unfolding harmless_children_def by (metis fst_conv)
  ultimately show ?thesis
    by (simp add: ConfigureClientComponent_def child_reconciler_def act_bind_def act_simps stashers ref c ConfigureClient_Reflect_def
        child_ready_def stop_with_def Let_def)
qed

text \<open>C27: the expiry of a binding can get lost: when the service unbinds an overdue binding and the client
  composition has not been reconciled yet, the request ends with an error that skips the update of
  the status, so the binding stays active although its credentials are revoked, and no other request
  is asked for.\<close>

theorem expiry_forgotten:
  fixes gvk :: "GroupVersionKind go" and w :: 'w
  assumes "sequences sq" "instance_found cx sx r" "answers_unbind (sx_Http sx)" "phase_of r = Active" "over (sx_Now sx) r"
    and "children_found bc (\<lambda>k. om_Generation (rs_Meta (ob_Object k)) \<noteq> as_ObservedGeneration (ob_Status k))"
    and "harmless_children live bc" "revocable live (om_UID (rs_Meta r)) (sx_Http sx)"
  defines "run \<equiv> ServiceBindingReconciler sq cx sx gvk bc (request r w)"
  shows "stored r run = r \<and> \<not> live (rx_World (fst run)) \<and> (''Expired'', '''') \<in> set (rx_Events (fst run)) \<and> rx_Results (fst run) = []"
proof -
  have "wpe (ResolveServiceInstanceId cx sx) (\<lambda>_ s'. on_track (request r w) s' \<and> resolved s') never (request r w)"
    using assms(2) by (intro found_resolve) (auto simp: request_def)
  then obtain s1 where 1: "ResolveServiceInstanceId cx sx (request r w) = (s1, Ret ())" "on_track (request r w) s1" "resolved s1"
    by (auto dest: wpe_iff_Ret)
  have "wpe (child_reconciler ServiceBindingSecret_DesiredChild (bc_Secret bc) ServiceBindingSecret_Reflect)
     (\<lambda>_ s'. on_track s1 s' \<and> resolved s' \<and> st_BindingId (rx_Stash s') = Some (om_UID (rs_Meta r))) never s1"
    using 1 by (intro found_secret [OF assms(6)]) (auto simp: on_track_def request_def)
  then obtain s2 where 2: "child_reconciler ServiceBindingSecret_DesiredChild (bc_Secret bc) ServiceBindingSecret_Reflect s1 = (s2, Ret ())"
      "on_track s1 s2" "resolved s2" "st_BindingId (rx_Stash s2) = Some (om_UID (rs_Meta r))"
    by (auto dest: wpe_iff_Ret)
  have r2: "rs_Meta (rx_Resource s2) = rs_Meta r" "phase_of (rx_Resource s2) = Active" "over (sx_Now sx) (rx_Resource s2)" "rx_Results s2 = []"
    using on_track_trans [OF 1(2) 2(2)] assms(4,5) by (auto simp: on_track_def request_def phase_of_def over_def split: if_splits)
  with 2(3,4) assms(3,8) overdue_unbound [of s2 sx live cx]
  obtain s3 where 3: "ManageServiceBinding_Sync cx sx s2 = (s3, Ret ())" "resolved s3" "\<not> live (rx_World s3)" "rx_Results s3 = []"
      "(''Expired'', '''') \<in> set (rx_Events s3)"
    by (auto dest: wpe_iff_Ret)
  obtain s4 where 4: "ConfigureClientComponent (cx_conds cx) (bc_Composition bc) s3 = (s4, Fail ErrGenerationMismatch)"
      "\<not> live (rx_World s4)" "rx_Results s4 = []" "rx_Events s4 = rx_Events s3"
    using client_not_observed [OF assms(6) 3(2) assms(7)] 3(3,4) by fastforce
  have "run = (s4, Fail ErrGenerationMismatch)"
    unfolding run_def ServiceBindingReconciler_def
    using 1(1) 2(1) 3(1) 4(1) by (simp add: sequence_cons [OF assms(1)])
  with 3 4 show ?thesis by (simp add: stored_def sentinel_defs)
qed


text \<open>C28: when a bound binding is deleted, the request to unbind it names the binding as the service instance: the query
  has the id of the binding under both keys, whatever the id of the instance is.\<close>

theorem finalizer_names_binding_as_instance:
  fixes w :: 'w
  assumes "sequences sq" "instance_found cx sx r" "phase_of r = Active" "\<And>a. \<exists>u. ht_Parse (sx_Http sx) a = Ret u"
  shows "\<exists>u q. u_Path u = ''/unbind'' \<and> u_RawQuery u = q \<and>
    rx_World (fst (ServiceBindingFinalizer sq cx sx (request r w))) = fst (ht_Get (sx_Http sx) u w) \<and>
    values_of (ParseQuery q) ''instance-id'' = [sbs_ServiceBindingId (rs_Status r)] \<and>
    values_of (ParseQuery q) ''binding-id'' = [sbs_ServiceBindingId (rs_Status r)]"
proof -
  have "wpe (ResolveServiceInstanceId cx sx) (\<lambda>_ s'. on_track (request r w) s' \<and> resolved s' \<and> rx_World s' = rx_World (request r w)) never (request r w)"
    using assms(2) by (intro found_resolve) (auto simp: request_def)
  from wpe_iff_Ret [OF this] obtain s1 where 1: "ResolveServiceInstanceId cx sx (request r w) = (s1, Ret ())" "on_track (request r w) s1" "resolved s1" "rx_World s1 = w"
    by (auto simp: request_def)
  then obtain a where a: "st_LifecycleAddress (rx_Stash s1) = Some a" by (auto simp: resolved_def)
  from assms(4) obtain u where u: "ht_Parse (sx_Http sx) a = Ret u" by blast
  let ?b = "sbs_ServiceBindingId (rs_Status r)" and ?st = "rs_Status (rx_Resource s1)"
  have st: "sbs_ServiceBindingId ?st = ?b" "?b \<noteq> ''''" "\<not> sbs_Expired ?st"
    using 1(2) assms(3) by (auto simp: on_track_def request_def phase_of_def split: if_splits)
  from lifecycle_call_reads [where args = "Unbind_args ?b ?b" and path = "''/unbind''" and w = w, OF u
      distinct_args(3) [OF distinct_ParseQuery] values_of_args(3)]
  obtain q where q: "Unbind (sx_Http sx) a ?b ?b w = checked_get (sx_Http sx) (u\<lparr>u_Path := ''/unbind'', u_RawQuery := q\<rparr>) w"
    "\<forall>k. values_of (ParseQuery q) k = (if k = ''instance-id'' then [?b] else if k = ''binding-id'' then [?b] else values_of (ParseQuery (u_RawQuery u)) k)"
    unfolding Unbind_def by blast
  let ?u = "u\<lparr>u_Path := ''/unbind'', u_RawQuery := q\<rparr>"
  have "rx_World (fst (ManageServiceBinding_Finalize cx sx s1)) = fst (Unbind (sx_Http sx) a ?b ?b w)"
    using st 1(4) a by (cases "Unbind (sx_Http sx) a ?b ?b w"; cases "snd (Unbind (sx_Http sx) a ?b ?b w)")
      (auto simp: ManageServiceBinding_Finalize_def act_bind_def act_simps act_world_try_def act_try_def stashers Let_def)
  also have "\<dots> = fst (ht_Get (sx_Http sx) ?u w)" by (simp add: q(1) checked_get_def case_prod_unfold Let_def)
  finally have "rx_World (fst (ServiceBindingFinalizer sq cx sx (request r w))) = fst (ht_Get (sx_Http sx) ?u w)"
    using 1(1) unfolding ServiceBindingFinalizer_def sequence_cons [OF assms(1), where h = "ResolveServiceInstanceId cx sx"]
    by (simp only: act_bind_simps(1) sequence_last [OF assms(1)])
  moreover have "values_of (ParseQuery q) ''instance-id'' = [?b]" "values_of (ParseQuery q) ''binding-id'' = [?b]" using q(2) by simp_all
  ultimately show ?thesis by (intro exI [of _ ?u] exI [of _ q]) simp
qed


section \<open>A concrete service\<close>

text \<open>A service over the list of the ids it has bound; it reads them from the queries.\<close>

definition demo_service :: "(string list) http" where
  "demo_service = \<lparr>ht_Parse = (\<lambda>a. Ret \<lparr>u_Rest = a, u_Path = '''', u_RawQuery = ''''\<rparr>),
     ht_Get = (\<lambda>u w. let ids = values_of (ParseQuery (u_RawQuery u)) ''binding-id'' in
       if u_Path u = ''/bind'' then (ids @ w, Ret 200)
       else if u_Path u = ''/unbind'' then (filter (\<lambda>b. [b] \<noteq> ids) w, Ret 204) else (w, Ret 204))\<rparr>"

definition demo_live :: "string list \<Rightarrow> bool" where
  "demo_live w \<longleftrightarrow> ''uid-b'' \<in> set w"

definition demo_instance :: ServiceInstance where
  "demo_instance = \<lparr>rs_Meta = demo_named ''apps'' ''db'', rs_Spec = \<lparr>si_Ref = \<lparr>slr_Kind = ''ServiceLifecycle'', slr_Namespace = ''apps'',
     slr_Name = ''db''\<rparr>, si_Type = ''db'', si_Tier = '''', si_Requests = []\<rparr>, rs_Status = \<lparr>sis_ServiceInstanceId = ''uid-db''\<rparr>\<rparr>"

definition demo_lifecycle :: ServiceLifecycle where
  "demo_lifecycle = \<lparr>rs_Meta = demo_named ''apps'' ''db'',
     rs_Spec = \<lparr>sl_Container = \<lparr>gc_Generic = blank_component_spec, gc_Ref = component_ref '''' '''' '''' '''', gc_ServiceAccountRef = \<lparr>sa_Namespace = '''', sa_Name = ''''\<rparr>,
       gc_HostCapabilities = \<lparr>cap_Env = None, cap_Config = None, cap_Network = None\<rparr>\<rparr>, sl_ClientRef = component_ref '''' '''' '''' ''''\<rparr>,
     rs_Status = \<lparr>sls_Component = \<lparr>gst_Image = '''', gst_WIT = None, gst_Trace = []\<rparr>, sls_URL = ''http://db''\<rparr>\<rparr>"

definition demo_services :: "int \<Rightarrow> (string list) services" where
  "demo_services now = \<lparr>sx_Http = demo_service, sx_Now = now,
     sx_ServiceInstance = (\<lambda>ns n. Ret \<lparr>ob_Status = demo_ready, ob_Object = demo_instance\<rparr>),
     sx_ServiceLifecycle = (\<lambda>ns n. Ret \<lparr>ob_Status = demo_ready, ob_Object = demo_lifecycle\<rparr>),
     sx_ClusterServiceLifecycle = (\<lambda>n. Ret \<lparr>ob_Status = demo_ready, ob_Object = demo_lifecycle\<rparr>),
     sx_Bindings = (\<lambda>ns w. Ret []), sx_Instances = (\<lambda>ns w. Ret []), sx_TrackObject = (\<lambda>m. Ret ())\<rparr>"

text \<open>The client composition is reconciled when its generation is 1.\<close>

definition demo_binding_children :: "int \<Rightarrow> (string list) binding_children" where
  "demo_binding_children g = \<lparr>
     bc_Secret = (\<lambda>c w. (w, Ret (Some (the c), None))),
     bc_Composition = (\<lambda>c w. (w, Ret (Some \<lparr>ob_Status = demo_ready, ob_Object = demo_composition
        \<lparr>rs_Meta := (rs_Meta demo_composition)\<lparr>om_Generation := g\<rparr>,
         rs_Status := \<lparr>cst_Generic = \<lparr>gst_Image = ''r@sha256:1'', gst_WIT = None, gst_Trace = []\<rparr>, cst_Dependencies = []\<rparr>\<rparr>\<rparr>, None))),
     bc_Component = (\<lambda>c w. (w, Ret (Some demo_component, None)))\<rparr>"

definition demo_binding :: ServiceBinding where
  "demo_binding = \<lparr>rs_Meta = (demo_named ''apps'' ''b'')\<lparr>om_CreationTimestamp := 0\<rparr>,
     rs_Spec = \<lparr>sb_Ref = \<lparr>sir_Name = ''db''\<rparr>, sb_Scopes = [''read''], sb_Duration = hour\<rparr>,
     rs_Status = \<lparr>sbs_Component = \<lparr>gst_Image = '''', gst_WIT = None, gst_Trace = []\<rparr>, sbs_ServiceBindingId = '''',
       sbs_Binding = '''', sbs_ExpiresAfter = zero_time, sbs_Expired = False\<rparr>\<rparr>"

definition demo_bound :: ServiceBinding where
  "demo_bound = demo_binding\<lparr>rs_Status := (rs_Status demo_binding)\<lparr>sbs_ServiceBindingId := ''uid-b'', sbs_Binding := ''service-binding-uid-b''\<rparr>\<rparr>"

definition demo_request :: "int \<Rightarrow> int \<Rightarrow> ServiceBinding \<Rightarrow> string list \<Rightarrow>
    (ServiceBinding, string, string, string, string list) rstate \<times> unit go" where
  "demo_request g now r w = ServiceBindingReconciler run_sequence any_cluster (demo_services now) demo_gvk (demo_binding_children g) (request r w)"

definition demo_next :: "int \<Rightarrow> (string list) binding_system \<Rightarrow> (string list) binding_system" where
  "demo_next now S = (let result = demo_request 1 now (bs_Binding S) (bs_World S) in
     \<lparr>bs_Binding = stored (bs_Binding S) result, bs_World = rx_World (fst result), bs_Clock = now\<rparr>)"

definition demo_system :: "(string list) binding_system" where
  "demo_system = \<lparr>bs_Binding = demo_binding, bs_World = [], bs_Clock = 0\<rparr>"

text \<open>Past the lifetime of the binding.\<close>

definition demo_late :: int where
  "demo_late = 4000000000000"

definition demo_envs where
  "demo_envs = {(any_cluster :: (string, string, string, string, string, string list) cluster, demo_services now, demo_binding_children 1) | now. True}"

lemma demo_service_revocable: "revocable demo_live ''uid-b'' demo_service"
  by (auto simp: revocable_def demo_live_def demo_service_def binding_url_def Let_def)

lemma demo_quiet_services: "quiet_services (demo_services now)"
  by (simp add: quiet_services_def demo_services_def demo_service_def Let_def)

lemma demo_harmless: "quiet_binding_children (demo_binding_children g)" "harmless_children live (demo_binding_children g)"
  by (simp_all add: quiet_binding_children_def harmless_children_def demo_binding_children_def)

lemma demo_step:
  assumes "om_UID (rs_Meta (bs_Binding S)) = ''uid-b''" "bs_Clock S \<le> now"
  shows "binding_step run_sequence demo_gvk demo_envs demo_live S (demo_next now S)"
proof -
  let ?run = "demo_request 1 now (bs_Binding S) (bs_World S)"
  have "lawful demo_live (om_UID (rs_Meta (bs_Binding S))) (any_cluster, demo_services now, demo_binding_children 1)"
    using demo_service_revocable demo_quiet_services demo_harmless any_calm assms(1)
    by (simp add: lawful_def) (simp add: demo_services_def)
  moreover have "?run = (fst ?run, snd ?run)" by simp
  ultimately have "binding_step run_sequence demo_gvk demo_envs demo_live \<lparr>bs_Binding = bs_Binding S, bs_World = bs_World S, bs_Clock = bs_Clock S\<rparr>
      \<lparr>bs_Binding = stored (bs_Binding S) (fst ?run, snd ?run), bs_World = rx_World (fst ?run), bs_Clock = sx_Now (demo_services now)\<rparr>"
    using assms(2) run_sequence_law demo_gvk_quiet unfolding demo_request_def
    by (intro binding_step.reconcile) (auto simp: demo_envs_def demo_services_def)
  then show ?thesis by (cases S) (simp add: demo_next_def Let_def demo_services_def)
qed

lemma demo_binding_admitted: "ServiceBinding_ValidateCreate sample_ctx demo_binding = Ret ()"
  by code_simp

lemma demo_run: "(binding_step run_sequence demo_gvk demo_envs demo_live)\<^sup>*\<^sup>* demo_system (demo_next demo_late (demo_next 10 demo_system))"
proof -
  have "om_UID (rs_Meta (bs_Binding (demo_next 10 demo_system))) = ''uid-b''" by code_simp
  then have "binding_step run_sequence demo_gvk demo_envs demo_live (demo_next 10 demo_system) (demo_next demo_late (demo_next 10 demo_system))"
    by (rule demo_step) (simp add: demo_next_def demo_late_def Let_def)
  moreover have "binding_step run_sequence demo_gvk demo_envs demo_live demo_system (demo_next 10 demo_system)"
    by (rule demo_step) (simp_all add: demo_system_def demo_binding_def demo_named_def)
  ultimately show ?thesis by (meson converse_rtranclp_into_rtranclp r_into_rtranclp)
qed

lemma demo_unbound: "sbs_ServiceBindingId (rs_Status (bs_Binding demo_system)) = ''''" "\<not> sbs_Expired (rs_Status (bs_Binding demo_system))"
  "ServiceBinding_ValidateCreate sample_ctx (bs_Binding demo_system) = Ret ()"
  using demo_binding_admitted by (simp_all add: demo_system_def demo_binding_def)

lemma demo_views:
  "binding_view_of demo_system = \<lparr>bv_Phase = Unbound, bv_Deadline = 3600000000000, bv_Clock = 0\<rparr>"
  "binding_view_of (demo_next demo_late (demo_next 10 demo_system)) = \<lparr>bv_Phase = Revoked, bv_Deadline = 3600000000000, bv_Clock = demo_late\<rparr>"
  by code_simp+

lemma binding_refines_phases_witness:
  "phase_step\<^sup>*\<^sup>* \<lparr>bv_Phase = Unbound, bv_Deadline = 3600000000000, bv_Clock = 0\<rparr>
     \<lparr>bv_Phase = Revoked, bv_Deadline = 3600000000000, bv_Clock = demo_late\<rparr>"
  using binding_refines_phases [OF demo_run demo_unbound(3,1,2)] unfolding demo_views .

lemma binding_invariant_witness:
  "let S = demo_next demo_late (demo_next 10 demo_system); r = bs_Binding S in
     sbs_Expired (rs_Status r) \<and> sbs_ServiceBindingId (rs_Status r) = ''uid-b'' \<and> om_UID (rs_Meta r) = ''uid-b'' \<and> \<not> demo_live (bs_World S)"
proof -
  have "sbs_Expired (rs_Status (bs_Binding (demo_next demo_late (demo_next 10 demo_system))))"
    "sbs_ServiceBindingId (rs_Status (bs_Binding (demo_next demo_late (demo_next 10 demo_system)))) = ''uid-b''" by code_simp+
  with binding_invariant [OF demo_run demo_unbound(3,1,2)] show ?thesis by (simp add: Let_def)
qed


text \<open>A request before the deadline, then one past it, and again.\<close>

definition demo_time :: "nat \<Rightarrow> int" where
  "demo_time n = (if n = 0 then 10 else demo_late)"

primrec demo_requests :: "nat \<Rightarrow> ServiceBinding" where
  "demo_requests 0 = demo_bound"
| "demo_requests (Suc n) = stored (demo_requests n) (demo_request 1 (demo_time n) (demo_requests n) [''uid-b''])"

lemma demo_found: "instance_found any_cluster (demo_services now) r"
proof -
  let ?i = "\<lparr>ob_Status = demo_ready, ob_Object = demo_instance\<rparr>" and ?l = "\<lparr>ob_Status = demo_ready, ob_Object = demo_lifecycle\<rparr>"
  obtain d where "ServiceInstance_Default (cx_ctx any_cluster) demo_instance = Ret d"
    using returns_Instance_Default [of "cx_ctx any_cluster" demo_instance] by (auto elim: returnsE)
  moreover have "cl_IsTrue (cx_conds (any_cluster :: (string, string, string, string, string, unit) cluster))
      (cl_Get (cx_conds (any_cluster :: (string, string, string, string, string, unit) cluster))
        (ServiceInstanceStatus_InitializeConditions (cx_conds (any_cluster :: (string, string, string, string, string, unit) cluster)) demo_ready) ''Ready'')"
    by code_simp
  ultimately show ?thesis
    unfolding instance_found_def by (intro exI [of _ ?i] exI [of _ d] exI [of _ ?l])
      (simp add: demo_services_def fetch_lifecycle_def any_cluster_def demo_ready_def demo_instance_def demo_lifecycle_def demo_named_def)
qed

lemma demo_answers: "answers_unbind demo_service"
  by (simp add: answers_unbind_def Unbind_def lifecycle_call_def checked_get_def demo_service_def with_query_def Let_def)

lemma demo_healthy: "healthy any_cluster (demo_services now) demo_gvk (demo_binding_children 1) r"
proof -
  have "client_ready demo_conds \<lparr>ob_Status = demo_ready, ob_Object = demo_composition
        \<lparr>rs_Meta := (rs_Meta demo_composition)\<lparr>om_Generation := 1\<rparr>,
         rs_Status := \<lparr>cst_Generic = \<lparr>gst_Image = ''r@sha256:1'', gst_WIT = None, gst_Trace = []\<rparr>, cst_Dependencies = []\<rparr>\<rparr>\<rparr>"
    by code_simp
  with demo_found demo_answers show ?thesis
    by (simp add: healthy_def children_found_def demo_binding_children_def demo_services_def demo_gvk_def any_cluster_def)
qed

lemma demo_first: "rx_Results (fst (demo_request 1 10 demo_bound [''uid-b''])) = [\<lparr>res_Requeue = False, res_RequeueAfter = 3599999999990\<rparr>]"
  by code_simp

lemma demo_second: "rx_Results (fst (demo_request 1 demo_late (demo_requests (Suc 0)) [''uid-b''])) = [\<lparr>res_Requeue = False, res_RequeueAfter = 0\<rparr>]"
  by code_simp

lemma stored_same: "rs_Status (stored r result) = rs_Status r \<Longrightarrow> stored r result = r"
  by (cases r) (auto simp: stored_def split: prod.splits go.splits if_splits)

lemma demo_rest: "let r = demo_requests (Suc (Suc 0)); result = demo_request 1 demo_late r [''uid-b''] in
    rs_Status (stored r result) = rs_Status r \<and> rx_Results (fst result) = [\<lparr>res_Requeue = False, res_RequeueAfter = 0\<rparr>]"
  by code_simp

lemma demo_same: "demo_requests (Suc (Suc n)) = demo_requests (Suc (Suc 0))"
proof (induction n)
  case (Suc n)
  have "demo_requests (Suc (Suc (Suc n))) = stored (demo_requests (Suc (Suc n))) (demo_request 1 demo_late (demo_requests (Suc (Suc n))) [''uid-b''])"
    by (simp add: demo_time_def)
  also have "\<dots> = demo_requests (Suc (Suc 0))" unfolding Suc using demo_rest unfolding Let_def by (blast intro: stored_same)
  finally show ?case .
qed simp

lemma demo_results:
  "rx_Results (fst (demo_request 1 (demo_time n) (demo_requests n) [''uid-b''])) =
     [\<lparr>res_Requeue = False, res_RequeueAfter = if n = 0 then 3599999999990 else 0\<rparr>]"
proof -
  consider "n = 0" | "n = Suc 0" | m where "n = Suc (Suc m)" by (metis old.nat.exhaust)
  then show ?thesis
  proof cases
    case 3
    then show ?thesis using demo_rest unfolding Let_def 3 demo_same [of m] by (simp add: demo_time_def del: demo_requests.simps)
  qed (use demo_first demo_second in \<open>simp_all add: demo_time_def del: demo_requests.simps(2)\<close>)
qed

lemma binding_expires_witness: "\<exists>n. sbs_Expired (rs_Status (demo_requests n))"
proof (rule binding_expires [where t = demo_time and sx = "\<lambda>n. demo_services (demo_time n)" and cx = "\<lambda>n. any_cluster"
      and bc = "\<lambda>n. demo_binding_children 1" and w = "\<lambda>n. [''uid-b'']" and gvk = demo_gvk and sq = run_sequence])
  show "phase_of (demo_requests 0) = Active" by code_simp
  show "0 \<le> sint (sb_Duration (rs_Spec (demo_requests 0)))" "om_CreationTimestamp (rs_Meta (demo_requests 0)) \<le> demo_time 0" by code_simp+
  show "demo_requests (Suc n) = stored (demo_requests n) (ServiceBindingReconciler run_sequence any_cluster (demo_services (demo_time n)) demo_gvk
      (demo_binding_children 1) (request (demo_requests n) [''uid-b'']))" for n
    by (simp add: demo_request_def)
  have "\<exists>m > n. demo_time n + sint (3599999999990 :: duration) \<le> demo_time m" if "n = 0" for n
    using that by (intro exI [of _ "Suc n"]) (simp add: demo_time_def demo_late_def)
  then show "requeued demo_time n (rx_Results (fst (ServiceBindingReconciler run_sequence any_cluster (demo_services (demo_time n)) demo_gvk
      (demo_binding_children 1) (request (demo_requests n) [''uid-b'']))))" for n
    using demo_results [of n] by (simp add: demo_request_def requeued_def)
qed (rule run_sequence_law demo_healthy | simp add: demo_services_def)+


text \<open>The binding is overdue and the client composition has a new generation.\<close>

lemma expiry_forgotten_witness:
  "let result = demo_request 2 demo_late demo_bound [''uid-b''] in
     stored demo_bound result = demo_bound \<and> \<not> demo_live (rx_World (fst result)) \<and> rx_Results (fst result) = []"
proof -
  have 1: "phase_of demo_bound = Active" "over (sx_Now (demo_services demo_late)) demo_bound" by code_simp+
  have 2: "answers_unbind (sx_Http (demo_services demo_late))" "revocable demo_live (om_UID (rs_Meta demo_bound)) (sx_Http (demo_services demo_late))"
    using demo_answers demo_service_revocable
    by (simp_all add: demo_services_def demo_bound_def demo_binding_def demo_named_def)
  have "children_found (demo_binding_children 2) (\<lambda>k. om_Generation (rs_Meta (ob_Object k)) \<noteq> as_ObservedGeneration (ob_Status k))"
    by (simp add: children_found_def demo_binding_children_def demo_ready_def)
  from expiry_forgotten [OF run_sequence_law demo_found 2(1) 1 this demo_harmless(2) 2(2)] show ?thesis
    by (simp add: demo_request_def Let_def)
qed

lemma finalizer_names_binding_as_instance_witness:
  "\<exists>u. u_Path u = ''/unbind'' \<and> values_of (ParseQuery (u_RawQuery u)) ''instance-id'' = [''uid-b''] \<and>
     rx_World (fst (ServiceBindingFinalizer run_sequence any_cluster (demo_services 10) (request demo_bound [''uid-b'']))) =
       fst (ht_Get demo_service u [''uid-b'']) \<and> sis_ServiceInstanceId (rs_Status demo_instance) = ''uid-db''"
proof -
  have "phase_of demo_bound = Active" by code_simp
  moreover have "\<exists>u. ht_Parse (sx_Http (demo_services 10)) a = Ret u" for a by (simp add: demo_services_def demo_service_def)
  moreover have "sbs_ServiceBindingId (rs_Status demo_bound) = ''uid-b''" "sx_Http (demo_services 10) = demo_service"
    by (simp_all add: demo_bound_def demo_services_def)
  moreover have "sis_ServiceInstanceId (rs_Status demo_instance) = ''uid-db''" by (simp add: demo_instance_def)
  ultimately show ?thesis
    using finalizer_names_binding_as_instance [OF run_sequence_law demo_found [of 10 demo_bound], of "[''uid-b'']"] by auto
qed

end
