(* ===== verification/Service_Clients.thy ===== *)
theory Service_Clients
  imports Service_Progress
begin

text \<open>
  The bindings a service client stamps, and the deletion of service instances: which bindings are kept,
  when a new one is created, and that no instance is destroyed while a binding refers to it.
\<close>

section \<open>Stamped bindings\<close>

definition relabelled :: "ServiceClient \<Rightarrow> ServiceBinding \<Rightarrow> ServiceBinding" where
  "relabelled resource b = b\<lparr>rs_Meta := (rs_Meta b)\<lparr>om_Labels :=
     (om_Labels (rs_Meta resource))(''services.wa8s.reconciler.io/service-client'' \<mapsto> om_Name (rs_Meta resource))\<rparr>\<rparr>"

text \<open>A binding is pruned once it is expired, or five minutes past the lifetime the client asks for.\<close>

definition pruned :: "int \<Rightarrow> ServiceClient \<Rightarrow> ServiceBinding \<Rightarrow> bool" where
  "pruned now resource b \<longleftrightarrow> sbs_Expired (rs_Status b) \<or>
     time_Add (om_CreationTimestamp (rs_Meta b)) (sc_Duration (rs_Spec resource) + 5 * minute) < now"

definition created :: "ServiceBinding \<Rightarrow> int" where
  "created b = om_CreationTimestamp (rs_Meta b)"

definition kept :: "int \<Rightarrow> ServiceClient \<Rightarrow> ServiceBinding list \<Rightarrow> ServiceBinding list" where
  "kept now resource known = map (relabelled resource) (filter (\<lambda>b. \<not> pruned now resource b) known)"

lemma created_relabelled [simp]: "created (relabelled r b) = created b"
  by (simp add: created_def relabelled_def)

text \<open>The current binding: the youngest of a list, the first one of several.\<close>

definition current_of :: "ServiceBinding list \<Rightarrow> ServiceBinding option" where
  "current_of bs = find (\<lambda>b. \<forall>c \<in> set bs. created c \<le> created b) bs"

lemma current_of_Nil [simp]: "current_of [] = None"
  by (simp add: current_of_def)

lemma current_of_youngest: "current_of bs = Some c \<Longrightarrow> c \<in> set bs \<and> (\<forall>b \<in> set bs. created b \<le> created c)"
  by (auto simp: current_of_def find_Some_iff)

lemma current_of_None [simp]: "current_of bs = None \<longleftrightarrow> bs = []"
proof (cases "bs = []")
  case False
  then have "Max (created ` set bs) \<in> created ` set bs" by simp
  then obtain b where "b \<in> set bs" "created b = Max (created ` set bs)" by auto
  then have "b \<in> set bs \<and> (\<forall>c \<in> set bs. created c \<le> created b)" by simp
  then show ?thesis by (auto simp: current_of_def find_None_iff)
qed simp

lemma current_of_snoc:
  "current_of (bs @ [b]) = (case current_of bs of None \<Rightarrow> Some b | Some c \<Rightarrow> if created c < created b then Some b else Some c)"
proof (cases "current_of bs")
  case None
  then have "bs = []" by simp
  then show ?thesis by (simp add: current_of_def)
next
  case (Some c)
  let ?P = "\<lambda>x. \<forall>y \<in> set bs. created y \<le> created x" and ?P' = "\<lambda>x. \<forall>y \<in> set (bs @ [b]). created y \<le> created x"
  note c = current_of_youngest [OF Some]
  have app: "current_of (bs @ [b]) = (case find ?P' bs of None \<Rightarrow> find ?P' [b] | Some x \<Rightarrow> Some x)"
    by (simp only: current_of_def find_append)
  show ?thesis
  proof (cases "created c < created b")
    case True
    then have "find ?P' bs = None" using c by (auto simp: find_None_iff not_le intro: le_less_trans)
    moreover have "?P' b" using c True by auto
    ultimately show ?thesis using Some True app by simp
  next
    case False
    then have "find ?P' bs = find ?P bs" using c by (intro find_cong) (auto intro: order_trans [of "created b" "created c"])
    then show ?thesis using Some False app by (simp add: current_of_def)
  qed
qed

lemma stamp_step_eq:
  "stamp_step now r b (cur, des) = (if pruned now r b then (cur, des)
     else (case cur of None \<Rightarrow> Some (relabelled r b)
       | Some c \<Rightarrow> if created c < created b then Some (relabelled r b) else Some c, des @ [relabelled r b]))"
  by (simp add: stamp_step_def pruned_def relabelled_def created_def client_labels_def Let_def split: option.split)

lemma stamp_fold:
  "fold (stamp_step now r) known (current_of des, des) = (current_of (des @ kept now r known), des @ kept now r known)"
proof (induction known arbitrary: des)
  case (Cons b known)
  have "stamp_step now r b (current_of des, des) =
      (if pruned now r b then (current_of des, des) else (current_of (des @ [relabelled r b]), des @ [relabelled r b]))"
    by (simp add: stamp_step_eq current_of_snoc split: option.split)
  with Cons.IH [of des] Cons.IH [of "des @ [relabelled r b]"] show ?case by (simp add: kept_def)
qed (simp add: kept_def)

lemma stamp_desired:
  "Stamp_DesiredChildren now known r = kept now r known @
     (if \<exists>c. current_of (kept now r known) = Some c \<and> in_sync now r c then [] else [new_binding r])"
  using stamp_fold [of now r known "[]"] by (simp add: Stamp_DesiredChildren_def split: option.split)

lemma new_not_pruned: "created (new_binding r) = zero_time"
  by (simp add: created_def new_binding_def blank_meta_def)

text \<open>A binding that asks for exactly what the client asks for, still to be created.\<close>

definition asks_for :: "ServiceClient \<Rightarrow> ServiceBinding \<Rightarrow> bool" where
  "asks_for r b \<longleftrightarrow> rs_Spec b = \<lparr>sb_Ref = sc_Ref (rs_Spec r), sb_Scopes = sc_Scopes (rs_Spec r), sb_Duration = sc_Duration (rs_Spec r)\<rparr> \<and>
     om_Namespace (rs_Meta b) = om_Namespace (rs_Meta r) \<and> om_Name (rs_Meta b) = '''' \<and> om_GenerateName (rs_Meta b) = om_Name (rs_Meta r) @ ''-'' \<and>
     om_Labels (rs_Meta b) = (om_Labels (rs_Meta r))(''services.wa8s.reconciler.io/service-client'' \<mapsto> om_Name (rs_Meta r)) \<and>
     created b = zero_time \<and> \<not> sbs_Expired (rs_Status b)"

text \<open>C10: what a client asks for at any moment: every known binding that is neither expired nor long past its
  lifetime stays, with the labels of the client and otherwise as it is, in order; and exactly one binding is added, as the spec
  of the client says, if and only if the current one - the first of the youngest that stay - is missing, has another
  reference, other scopes or another duration, or has reached its time of renewal.\<close>

theorem stamped_bindings:
  "\<exists>b. asks_for r b \<and> Stamp_DesiredChildren now known r = kept now r known @
     (if \<exists>c. current_of (kept now r known) = Some c \<and> sb_Ref (rs_Spec c) = sc_Ref (rs_Spec r) \<and>
         sb_Scopes (rs_Spec c) = sc_Scopes (rs_Spec r) \<and> sb_Duration (rs_Spec c) = sc_Duration (rs_Spec r) \<and>
         now < time_Add (created c) (sc_Duration (rs_Spec r) - sc_RenewBefore (rs_Spec r))
      then [] else [b])"
proof (intro exI conjI)
  show "asks_for r (new_binding r)"
    by (simp add: asks_for_def new_binding_def blank_meta_def client_labels_def created_def)
qed (simp add: stamp_desired in_sync_def created_def)

lemma never_in_sync:
  assumes "0 \<le> sint (sc_Duration (rs_Spec r))" "sint (sc_Duration (rs_Spec r)) \<le> sint (sc_RenewBefore (rs_Spec r))" "created b \<le> now"
  shows "\<not> in_sync now r b" and "time_Add (created b) (sc_Duration (rs_Spec r) - sc_RenewBefore (rs_Spec r)) \<le> now"
proof -
  let ?d = "sc_Duration (rs_Spec r)" and ?b = "sc_RenewBefore (rs_Spec r)"
  have "sint ?b < 2 ^ 63" using sint_lt [of ?b] by simp
  with assms(1,2) have "sint (?d - ?b) = sint ?d - sint ?b" by (intro sint_minus_in_range) auto
  with assms(2,3) show "time_Add (created b) (?d - ?b) \<le> now" by (simp add: time_Add_def)
  then show "\<not> in_sync now r b" by (simp add: in_sync_def created_def)
qed

lemma overdue_request: "t \<le> now \<Longrightarrow> next_request (time_Sub t now) = \<lparr>res_Requeue = True, res_RequeueAfter = 0\<rparr>"
  using sint_word_of_int_in_range [of "max (- (2 ^ 63)) (t - now)"] by (simp add: next_request_def time_Sub_def min_def max_def)

text \<open>A client whose renewal period is not shorter than its duration is admitted, and from then on every request
  stamps another binding, whatever bindings there are, and asks for the next request at once.\<close>

theorem client_renewal_loop:
  assumes "ServiceClient_ValidateCreate c o' = Ret ()" "ServiceClient_Default c o' = Ret r"
    and "sint (sc_Duration (rs_Spec r)) \<le> sint (sc_RenewBefore (rs_Spec r))" "list_all (\<lambda>b. created b \<le> now) known"
    and "created b \<le> now" "scs_RenewsAfter (rs_Status (rx_Resource s)) = time_Add (created b) (sc_Duration (rs_Spec r) - sc_RenewBefore (rs_Spec r))"
  shows "Stamp_DesiredChildren now known r = kept now r known @ [new_binding r] \<and>
    RenewRequeue (sx\<lparr>sx_Now := now\<rparr>) s = (s\<lparr>rx_Results := rx_Results s @ [\<lparr>res_Requeue = True, res_RequeueAfter = 0\<rparr>]\<rparr>, Ret ())"
proof -
  obtain d rb pct where p: "client_periods (rs_Spec o') = (d, rb, pct)" by (cases "client_periods (rs_Spec o')") auto
  with assms(2) have "sc_Duration (rs_Spec r) = d"
    by (auto simp: ServiceClient_Default_def Let_def ServiceClientSpec_Default_periods)
  with assms(1) p one_hour have d: "0 \<le> sint (sc_Duration (rs_Spec r))" by (simp add: service_client_admitted)
  note never = never_in_sync [OF d assms(3)]
  have "\<not> in_sync now r c" if "current_of (kept now r known) = Some c" for c
    using current_of_youngest [OF that] assms(4) by (intro never(1)) (auto simp: kept_def list_all_iff)
  then have "Stamp_DesiredChildren now known r = kept now r known @ [new_binding r]" by (auto simp: stamp_desired)
  moreover from overdue_request [OF never(2) [OF assms(5)]] assms(6)
  have "RenewRequeue (sx\<lparr>sx_Now := now\<rparr>) s = (s\<lparr>rx_Results := rx_Results s @ [\<lparr>res_Requeue = True, res_RequeueAfter = 0\<rparr>]\<rparr>, Ret ())"
    by (simp add: RenewRequeue_def act_bind_def act_simps)
  ultimately show ?thesis by blast
qed

definition demo_client :: ServiceClient where
  "demo_client = \<lparr>rs_Meta = demo_named ''apps'' ''c'', rs_Spec = \<lparr>sc_Ref = \<lparr>sir_Name = ''db''\<rparr>, sc_Scopes = [''read''], sc_Duration = hour,
       sc_RenewBefore = hour, sc_RenewBeforePercentage = 0\<rparr>,
     rs_Status = \<lparr>scs_Component = \<lparr>gst_Image = '''', gst_WIT = None, gst_Trace = []\<rparr>, scs_ServiceBindingId = '''', scs_Binding = '''',
       scs_RenewsAfter = 0, scs_ExpiresAfter = 0\<rparr>\<rparr>"

lemma client_renewal_loop_witness:
  "ServiceClient_ValidateCreate sample_ctx demo_client = Ret () \<and>
   Stamp_DesiredChildren 10 [demo_bound] demo_client = kept 10 demo_client [demo_bound] @ [new_binding demo_client]"
proof -
  have p: "client_periods (rs_Spec demo_client) = (hour, hour, 0)"
    by (simp add: client_periods_def demo_client_def hour_def)
  have v: "ServiceClient_ValidateCreate sample_ctx demo_client = Ret ()"
    using one_hour five_minutes by (simp add: service_client_admitted p)
      (simp add: demo_client_def scopes_rule_def ValidateCommonAnnotations_def demo_named_def blank_meta_def)
  have d: "ServiceClient_Default sample_ctx demo_client = Ret demo_client"
    by (simp add: ServiceClient_Default_def Let_def ServiceClientSpec_Default_periods p) (simp add: demo_client_def)
  have c: "created demo_bound = 0" by (simp add: created_def demo_bound_def demo_binding_def)
  have le: "sint (sc_Duration (rs_Spec demo_client)) \<le> sint (sc_RenewBefore (rs_Spec demo_client))" by (simp add: demo_client_def)
  have "scs_RenewsAfter (rs_Status (rx_Resource (demo_start demo_client))) =
      time_Add (created demo_bound) (sc_Duration (rs_Spec demo_client) - sc_RenewBefore (rs_Spec demo_client))"
    by (simp add: demo_start_def c time_Add_def) (simp add: demo_client_def)
  from client_renewal_loop [OF v d le _ _ this, of 10 "[demo_bound]"] v c show ?thesis by simp
qed

section \<open>The deletion of instances\<close>

text \<open>A sub reconciler that changes neither the object nor the world, however it ends.\<close>

definition reads :: "('r, 'kc, 'd, 't, 'w, 'a) handler \<Rightarrow> bool" where
  "reads m \<longleftrightarrow> (\<forall>s. rx_World (fst (m s)) = rx_World s \<and> rx_Resource (fst (m s)) = rx_Resource s)"

named_theorems reads_rules \<open>sub reconcilers that only read\<close>

lemma reads_bind [reads_rules]: "reads m \<Longrightarrow> (\<And>x. reads (f x)) \<Longrightarrow> reads (act_bind m f)"
  unfolding reads_def act_bind_def by (auto split: prod.split go.split) (metis fst_conv)+

lemma reads_then [reads_rules]: "reads m \<Longrightarrow> reads n \<Longrightarrow> reads (act_then m n)"
  by (simp add: act_then_def reads_bind)

lemma reads_try [reads_rules]: "(\<And>e. reads (h e)) \<Longrightarrow> (\<And>x. reads (k x)) \<Longrightarrow> reads (act_try g h k)"
  by (cases g) (simp_all add: reads_def)

lemma reads_basic [reads_rules]: "reads (act_ret x)" "reads (act_fail e)" "reads (act_lift g)" "reads get_resource" "reads (mark_as t st reason msg)"
  "reads (eventf reason msg)" "reads (stash_Store sh v)" "reads (stash_RetrieveOrDie sh)" "reads (stop_with ct st reason msg e)"
  by (simp_all add: reads_def act_simps stop_with_def act_bind_def)

lemma reads_if [reads_rules]: "(b \<Longrightarrow> reads m) \<Longrightarrow> (\<not> b \<Longrightarrow> reads n) \<Longrightarrow> reads (if b then m else n)"
  by simp

lemma reads_option [reads_rules]: "reads m \<Longrightarrow> (\<And>x. reads (f x)) \<Longrightarrow> reads (case p of None \<Rightarrow> m | Some x \<Rightarrow> f x)"
  by (cases p) auto

lemma reads_ResolveServiceLifecycle: "reads (ResolveServiceLifecycle cx sx)"
  unfolding ResolveServiceLifecycle_def Let_def by (intro reads_rules)

text \<open>The step that destroys, wherever the request stands.\<close>

lemma destroys_unused:
  assumes same: "rx_World s1 = w" "rx_Resource s1 = r" and f: "ManageServiceInstance_Finalize cx sx clear s1 = f"
  defines "i \<equiv> sis_ServiceInstanceId (rs_Status r)"
    and "unused \<equiv> \<lambda>items. list_all (\<lambda>b. sir_Name (sb_Ref (rs_Spec b)) \<noteq> om_Name (rs_Meta r)) items"
  shows "(rx_World (fst f) = w \<or> (\<exists>items a. sx_Bindings sx (om_Namespace (rs_Meta r)) w = Ret items \<and> unused items \<and>
      rx_World (fst f) = fst (Destroy (sx_Http sx) a i (Some False) w))) \<and>
    (snd f = Ret () \<longrightarrow> i = '''' \<or> (\<exists>items a. sx_Bindings sx (om_Namespace (rs_Meta r)) w = Ret items \<and> unused items \<and>
      Destroy (sx_Http sx) a i (Some False) w = (rx_World (fst f), Ret ())))"
proof (cases "i = ''''")
  case True
  then show ?thesis by (simp add: f [symmetric] ManageServiceInstance_Finalize_def act_bind_def act_simps same i_def)
next
  case i: False
  show ?thesis
  proof (cases "sx_Bindings sx (om_Namespace (rs_Meta r)) w")
    case (Ret items)
    note simps = f [symmetric] ManageServiceInstance_Finalize_def act_bind_def act_simps same act_registry_try_def act_try_def Ret stashers stop_with_def
    show ?thesis
    proof (cases "find (\<lambda>b. sir_Name (sb_Ref (rs_Spec b)) = om_Name (rs_Meta r)) items")
      case (Some b)
      with i show ?thesis by (cases "sx_TrackObject sx (rs_Meta b)") (simp_all add: simps i_def)
    next
      case None
      then have u: "unused items" by (auto simp: unused_def list_all_iff find_None_iff)
      show ?thesis
      proof (cases "st_LifecycleAddress (rx_Stash s1)")
        case (Some a)
        with i None u show ?thesis
          by (cases "Destroy (sx_Http sx) a i (Some False) w"; cases "snd (Destroy (sx_Http sx) a i (Some False) w)"; cases clear)
            (auto simp: simps act_world_try_def i_def intro!: exI [of _ a])
      qed (use i None u in \<open>simp add: simps i_def\<close>)
    qed
  qed (use i in \<open>simp_all add: f [symmetric] ManageServiceInstance_Finalize_def act_bind_def act_simps same act_registry_try_def act_try_def i_def\<close>)
qed

text \<open>C29: an instance is destroyed only when no binding of its namespace refers to it: deleting one leaves the world as
  it is, or it found no such binding and made exactly one request, to destroy its own id without
  retaining the data; and it ends without an error only after that request was answered.\<close>

theorem instance_destroyed_only_unused:
  assumes "sequences sq" "ServiceInstanceFinalizer sq cx sx clear (request r w) = (s', g)"
  defines "i \<equiv> sis_ServiceInstanceId (rs_Status r)"
    and "unused \<equiv> \<lambda>items. list_all (\<lambda>b. sir_Name (sb_Ref (rs_Spec b)) \<noteq> om_Name (rs_Meta r)) items"
  shows "(rx_World s' = w \<or> (\<exists>items a. sx_Bindings sx (om_Namespace (rs_Meta r)) w = Ret items \<and> unused items \<and>
      rx_World s' = fst (Destroy (sx_Http sx) a i (Some False) w))) \<and>
    (g = Ret () \<longrightarrow> i = '''' \<or> (\<exists>items a. sx_Bindings sx (om_Namespace (rs_Meta r)) w = Ret items \<and> unused items \<and>
      Destroy (sx_Http sx) a i (Some False) w = (rx_World s', Ret ())))"
proof -
  let ?f = "ManageServiceInstance_Finalize cx sx clear"
  obtain s1 g1 where 1: "ResolveServiceLifecycle cx sx (request r w) = (s1, g1)" by (cases "ResolveServiceLifecycle cx sx (request r w)")
  then have same: "rx_World s1 = w" "rx_Resource s1 = r"
    using reads_ResolveServiceLifecycle [of cx sx] unfolding reads_def by (metis fst_conv request_def rstate.select_convs(1,6))+
  have last: "fst (sq [?f] s1) = fst (?f s1)" "snd (sq [?f] s1) = Ret () \<Longrightarrow> snd (?f s1) = Ret ()"
    using assms(1) by (auto simp: sequence_last sequences_def act_then_def act_bind_def split: prod.splits go.splits)
  note finalize = destroys_unused [OF same refl, where cx = cx and sx = sx and clear = clear, folded i_def unused_def]
  show ?thesis
  proof (cases g1)
    case (Ret x)
    with assms(2) 1 have "sq [?f] s1 = (s', g)"
      by (simp add: ServiceInstanceFinalizer_def sequence_cons [OF assms(1), where h = "ResolveServiceLifecycle cx sx"])
    with last finalize show ?thesis by auto
  qed (use assms(2) 1 same in \<open>auto simp: ServiceInstanceFinalizer_def sequence_cons [OF assms(1), where h = "ResolveServiceLifecycle cx sx"]\<close>)
qed

lemma instance_destroyed_only_unused_witness:
  "\<exists>a. Destroy demo_service a ''uid-db'' (Some False) [''b''] =
     (rx_World (fst (ServiceInstanceFinalizer run_sequence any_cluster (demo_services 10) (Ret ()) (request demo_instance [''b'']))), Ret ())"
proof -
  let ?run = "ServiceInstanceFinalizer run_sequence (any_cluster :: (string, string, string, string, string, string list) cluster) (demo_services 10) (Ret ())
    (request demo_instance [''b''])"
  have "snd ?run = Ret ()" by code_simp
  note sound = instance_destroyed_only_unused [OF run_sequence_law run_split [OF this]]
  from mp [OF conjunct2 [OF sound] refl] show ?thesis
    by (auto simp: demo_services_def demo_instance_def)
qed

end
