(* ===== verification/Lifecycle_Rules.thy ===== *)
theory Lifecycle_Rules
  imports Service_Lifecycles Trigger_Props Service_Clients
begin

text \<open>
  What the controllers of the services integration ask other controllers for: the webhooks admit the compositions and the
  triggers of lifecycles and of bindings, a lifecycle is kept while an instance refers to it, and what it publishes.
\<close>

section \<open>Compositions made by controllers\<close>

lemma composition_create_iff:
  assumes "GenericCompositionSpec_Default (StashResource c m) s = Ret s'" "ValidateCommonAnnotations [] m = []"
  shows "Composition_ValidateCreate u None c \<lparr>rs_Meta = m, rs_Spec = \<lparr>cos_Generic = g, cos_Composition = s\<rparr>, rs_Status = st\<rparr> = Ret () \<longleftrightarrow>
    (\<forall>t. nested_in s' t \<longrightarrow> composition_rule c m t)"
proof -
  let ?c = "StashResource c m"
  obtain g' where g: "GenericComponentSpec_Default ?c g = Ret g'"
    using generic_component.dflt_returns [of ?c g] by (auto simp: returns_def)
  show ?thesis
    using admitted_spec_iff [OF _ _ composition.obj_create, where sd = CompositionSpec_Default and sv = CompositionSpec_Validate
        and c = c and r = "\<lparr>rs_Meta = m, rs_Spec = \<lparr>cos_Generic = g, cos_Composition = s\<rparr>, rs_Status = st\<rparr>"]
      assms GenericComponentSpec_admitted [OF g]
    by (simp add: Composition_Default_def Composition_Validate_def Let_def CompositionSpec_Default_def CompositionSpec_Validate_def
        g cat_errs_Cons_no_error composition_valid_iff_nested)
qed

text \<open>The references to installed components default to valid ones.\<close>

definition installed_ref :: "string \<Rightarrow> ComponentReference" where
  "installed_ref name = component_ref ''wa8s.reconciler.io/v1alpha1'' ''ClusterComponent'' '''' name"

lemma installed_default [simp]: "name \<noteq> [] \<Longrightarrow> CompositionDependency_Default (StashResource c m) f (installed component name) =
    Ret (CompositionDependency component (Some (installed_ref name)) None None None)"
  by (simp add: CompositionDependency_Default_def installed_def installed_ref_def component_ref_def ComponentReference_Default_def
      APIVersionForKind_def Let_def)

lemma installed_rule [simp]: "name \<noteq> [] \<Longrightarrow> component_ref_rule c m (installed_ref name)"
  by (simp add: component_ref_rule_def installed_ref_def component_ref_def)

lemma ref_default_Ret: obtains ref' where "ComponentReference_Default (StashResource c m) ref = Ret ref'"
  using component_ref.dflt_returns [of "StashResource c m" ref] by (auto simp: returns_def)

lemma reference_default: "ComponentReference_Default (StashResource c m) ref = Ret ref' \<Longrightarrow>
  CompositionDependency_Default (StashResource c m) f (CompositionDependency n (Some ref) None None None) =
    Ret (CompositionDependency n (Some ref') None None None)"
  by (simp add: CompositionDependency_Default_def)

lemma nested_default: "CompositionDependency_Default c f (CompositionDependency n None None None (Some k)) =
    bind_go (f k) (\<lambda>k'. Ret (CompositionDependency n None None None (Some k')))"
  by (cases "f k") (simp_all add: CompositionDependency_Default_def)

lemma config_default: "CompositionDependency_Default c f (CompositionDependency n None (Some k) None None) =
    bind_go (GenericConfigStoreSpec_Default c k) (\<lambda>k'. Ret (CompositionDependency n None (Some k') None None))"
  by (cases "GenericConfigStoreSpec_Default c k") (simp_all add: CompositionDependency_Default_def)

lemma nested_unfold: "(\<forall>t. nested_in (GenericCompositionSpec w p ds) t \<longrightarrow> P t) \<longleftrightarrow> P (GenericCompositionSpec w p ds) \<and>
    (\<forall>d \<in> set ds. pred_option (\<lambda>s. \<forall>t. nested_in s t \<longrightarrow> P t) (cd_Composition d))"
  unfolding nested_in_unfold [of "GenericCompositionSpec w p ds"] by (auto simp: pred_option_def elem_set)

lemma composition_rule_eq: "composition_rule c m (GenericCompositionSpec w p ds) \<longleftrightarrow>
    (p = None) \<noteq> (w = []) \<and> 2 \<le> length ds \<and> list_all (dependency_rule c m) ds"
  by (simp add: composition_rule_def)

lemma lifecycle_composition_admitted:
  assumes "component_ref_admissible c m ref" "ValidateCommonAnnotations [] m = []"
  shows "Composition_ValidateCreate u None c
    \<lparr>rs_Meta = m, rs_Spec = \<lparr>cos_Generic = g, cos_Composition = lifecycle_composition ref\<rparr>, rs_Status = st\<rparr> = Ret ()"
proof -
  obtain ref' where ref': "ComponentReference_Default (StashResource c m) ref = Ret ref'" by (rule ref_default_Ret)
  have rule: "component_ref_rule c m ref'" using assms(1) ComponentReference_admitted [OF ref'] by simp
  let ?inner = "GenericCompositionSpec '''' (Some CompositionPlug)
     [CompositionDependency ''componentized:services-lifecycle'' (Some ref') None None None,
      CompositionDependency ''componentized:services-credential-admin'' (Some (installed_ref ''wa8s-services-credential-admin'')) None None None]"
  let ?outer = "GenericCompositionSpec '''' (Some CompositionPlug)
     [CompositionDependency ''componentized:services-host'' (Some (installed_ref ''wa8s-services-lifecycle-host-http'')) None None None,
      CompositionDependency ''componentized:services-lifecycle'' None None None (Some ?inner),
      CompositionDependency ''componentized:logging'' (Some (installed_ref ''wa8s-services-logging'')) None None None]"
  have "GenericCompositionSpec_Default (StashResource c m) (lifecycle_composition ref) = Ret ?outer"
    by (simp add: lifecycle_composition_def reference_default [OF ref'] nested_default)
  moreover have "\<forall>t. nested_in ?outer t \<longrightarrow> composition_rule c m t"
    using rule by (simp add: nested_unfold composition_rule_eq dependency_rule_def one_source_def)
  ultimately show ?thesis using composition_create_iff [OF _ assms(2)] by blast
qed

text \<open>The client of a binding, which refers to the lifecycle and to the binding's own id.\<close>

lemma client_composition_admitted:
  assumes "slr_Kind ref \<noteq> []" "om_Name m = []" "ValidateCommonAnnotations [] m = []"
  shows "Composition_ValidateCreate u None c
      \<lparr>rs_Meta = m, rs_Spec = \<lparr>cos_Generic = g, cos_Composition = client_composition ref i\<rparr>, rs_Status = st\<rparr> = Ret () \<longleftrightarrow>
    slr_Name ref \<noteq> [] \<and> (prefix ''Cluster'' (slr_Kind ref) \<or> reference_allowed c (om_Namespace m) (slr_Namespace ref))"
proof -
  let ?ref = "component_ref ''services.wa8s.reconciler.io/v1alpha1'' (slr_Kind ref) (slr_Namespace ref) (slr_Name ref)"
  obtain ref' where ref': "ComponentReference_Default (StashResource c m) ?ref = Ret ref'" by (rule ref_default_Ret)
  have rule: "component_ref_rule c m ref' \<longleftrightarrow> slr_Name ref \<noteq> [] \<and>
      (prefix ''Cluster'' (slr_Kind ref) \<or> reference_allowed c (om_Namespace m) (slr_Namespace ref))"
    using assms(1,2) ComponentReference_admitted [OF ref'] by (auto simp: component_ref_admissible_def component_ref_def)
  let ?config = "\<lparr>gcs_Values = [\<lparr>vl_Name = ''binding-id'', vl_Value = i, vl_ValueFrom = None\<rparr>], gcs_ValuesFrom = []\<rparr>"
  let ?inner = "GenericCompositionSpec '''' (Some CompositionPlug)
     [CompositionDependency ''componentized:credential-config'' (Some (installed_ref ''wa8s-services-credential-config'')) None None None,
      CompositionDependency ''componentized:credential-store'' (Some (installed_ref ''wa8s-services-credential-store'')) None None None,
      CompositionDependency ''componentized:binding-id'' None (Some ?config) None None]"
  let ?outer = "GenericCompositionSpec '''' (Some CompositionPlug)
     [CompositionDependency ''componentized:service-lifecycle-client'' (Some ref') None None None,
      CompositionDependency ''componentized:service-credentials'' None None None (Some ?inner)]"
  have config: "GenericConfigStoreSpec_Default (StashResource c m) ?config = Ret ?config"
    by (simp add: GenericConfigStoreSpec_Default_def Value_Default_def)
  have dflt: "GenericCompositionSpec_Default (StashResource c m) (client_composition ref i) = Ret ?outer"
    by (simp add: client_composition_def reference_default [OF ref'] nested_default config_default config)
  have nested: "(\<forall>t. nested_in ?outer t \<longrightarrow> composition_rule c m t) \<longleftrightarrow> component_ref_rule c m ref'"
    by (simp add: nested_unfold composition_rule_eq dependency_rule_def one_source_def config_rule_def value_rule_def)
  show ?thesis unfolding composition_create_iff [OF dflt assms(3)] nested rule ..
qed

text \<open>C37: the client composition of a binding is admitted exactly when the reference of its instance names a cluster lifecycle or a
  lifecycle in reach of the binding's namespace; nothing else the binding holds, its id included, can make the webhook
  reject it.\<close>

theorem client_composition_admitted_iff:
  assumes "slr_Kind ref \<noteq> []" "slr_Name ref \<noteq> []"
  shows "\<exists>m spec. ConfigureClient_DesiredChild ref r = Ret (Some (m, spec)) \<and> om_Namespace m = om_Namespace (rs_Meta r) \<and>
    (\<forall>u st. Composition_ValidateCreate u None c \<lparr>rs_Meta = m, rs_Spec = spec, rs_Status = st\<rparr> = Ret () \<longleftrightarrow>
      prefix ''Cluster'' (slr_Kind ref) \<or> reference_allowed c (om_Namespace (rs_Meta r)) (slr_Namespace ref))"
proof -
  let ?m = "child_meta (rs_Meta r) ''services.wa8s.reconciler.io/service-binding'' '''' (om_Name (rs_Meta r) @ ''-'')"
  have "om_Name ?m = []" "ValidateCommonAnnotations [] ?m = []" "om_Namespace ?m = om_Namespace (rs_Meta r)"
    by (simp_all add: child_meta_def ValidateCommonAnnotations_no_error blank_meta_def)
  then show ?thesis
    using assms(2) by (simp add: ConfigureClient_DesiredChild_def Let_def client_composition_admitted [OF assms(1)])
qed

section \<open>The children of a lifecycle\<close>

lemma http_trigger_admitted:
  assumes "component_ref_admissible c m (gc_Ref g)" "reference_allowed c (om_Namespace m) (sa_Namespace (gc_ServiceAccountRef g))"
    and "capabilities_rule (gc_HostCapabilities g)" "ValidateCommonAnnotations [] m = []"
  shows "HttpTrigger_ValidateCreate c \<lparr>rs_Meta = m, rs_Spec = \<lparr>ht_Container = g\<rparr>, rs_Status = st\<rparr> = Ret ()"
proof -
  let ?c = "StashResource c m"
  define g1 where "g1 = (if gs_RepositoryRef (gc_Generic g) = \<lparr>rr_Kind = '''', rr_Name = ''''\<rparr>
     then (gc_Generic g)\<lparr>gs_RepositoryRef := \<lparr>rr_Kind = ''ClusterRepository'', rr_Name = ''external''\<rparr>\<rparr> else gc_Generic g)"
  obtain g2 where g2: "GenericComponentSpec_Default ?c g1 = Ret g2"
    using generic_component.dflt_returns [of ?c g1] by (auto simp: returns_def)
  obtain ref' where ref': "ComponentReference_Default ?c (gc_Ref g) = Ret ref'" by (rule ref_default_Ret)
  have "component_ref_rule c m ref'" using assms(1) ComponentReference_admitted [OF ref'] by simp
  moreover obtain sa where "ServiceAccountReference_Default ?c (gc_ServiceAccountRef g) = Ret sa"
    and "\<And>p. ServiceAccountReference_Validate ?c p sa = Ret []"
    using ServiceAccountReference_admitted [of c m "gc_ServiceAccountRef g"] assms(2) by (simp add: ServiceAccountReference_Default_stashed)
  ultimately show ?thesis
    using admitted_spec_iff [OF _ _ http_trigger.obj_create, where sd = HttpTriggerSpec_Default and sv = HttpTriggerSpec_Validate
        and c = c and r = "\<lparr>rs_Meta = m, rs_Spec = \<lparr>ht_Container = g\<rparr>, rs_Status = st\<rparr>"]
      assms(3,4) GenericComponentSpec_admitted [OF g2] g2 ref'
    by (simp add: HttpTrigger_Default_def HttpTrigger_Validate_def HttpTriggerSpec_Default_def HttpTriggerSpec_Validate_def
        GenericContainerSpec_Default_def GenericContainerSpec_Validate_def Let_def g1_def [symmetric] cat_errs_Cons_no_error
        ComponentReference_Validate_rule HostCapabilities_Validate_rule)
qed

lemma child_meta_simps [simp]: "om_Namespace (child_meta m key n gen) = om_Namespace m" "om_Name (child_meta m key n gen) = n"
  by (simp_all add: child_meta_def)

lemma default_namespace_simps [simp]:
  "om_Namespace (default_namespace c m) = (if om_Namespace m = [] then Namespace c else om_Namespace m)"
  "om_Name (default_namespace c m) = om_Name m" "ValidateCommonAnnotations p (default_namespace c m) = ValidateCommonAnnotations p m"
  by (simp_all add: default_namespace_def ValidateCommonAnnotations_def)

lemma in_reach_allowed: "in_reach c m ns \<Longrightarrow> reference_allowed c (if om_Namespace m = [] then Namespace c else om_Namespace m) ns"
  by (auto simp: in_reach_def reference_allowed_def)

text \<open>C36: the webhooks admit what a lifecycle asks for: when its own spec was accepted, so are the composition that hosts it and the
  trigger that serves that composition, both in one namespace, which is the installation's for a cluster lifecycle.\<close>

theorem lifecycle_children_admitted:
  assumes "ServiceLifecycleSpec_Validate (StashResource c (rs_Meta r)) p (rs_Spec r) = Ret []" "composition \<noteq> []"
  shows "\<exists>m1 s1 m2 s2. LifecycleComposition_DesiredChild c key r = Ret (Some (m1, s1)) \<and>
    LifecycleTrigger_DesiredChild c key composition r = Ret (Some (m2, s2)) \<and>
    om_Namespace m1 = (if om_Namespace (rs_Meta r) = [] then Namespace c else om_Namespace (rs_Meta r)) \<and>
    om_Namespace m2 = om_Namespace m1 \<and> om_Namespace m1 \<noteq> [] \<and>
    (\<forall>u st. Composition_ValidateCreate u None c \<lparr>rs_Meta = m1, rs_Spec = s1, rs_Status = st\<rparr> = Ret ()) \<and>
    (\<forall>st. HttpTrigger_ValidateCreate c \<lparr>rs_Meta = m2, rs_Spec = s2, rs_Status = st\<rparr> = Ret ())"
proof -
  let ?m = "\<lambda>n gen. default_namespace c (child_meta (rs_Meta r) key n gen)" and ?g = "sl_Container (rs_Spec r)"
  have m: "om_Namespace (?m n gen) = (if om_Namespace (rs_Meta r) = [] then Namespace c else om_Namespace (rs_Meta r))"
    "ValidateCommonAnnotations [] (?m n gen) = []" for n gen
    by (simp_all add: child_meta_def ValidateCommonAnnotations_no_error blank_meta_def)
  from assms(1) have ref: "component_ref_rule c (rs_Meta r) (gc_Ref ?g)" and caps: "capabilities_rule (gc_HostCapabilities ?g)"
    and sa: "in_reach c (rs_Meta r) (sa_Namespace (gc_ServiceAccountRef ?g))"
    by (auto simp: ServiceLifecycleSpec_Validate_def GenericContainerSpec_Validate_def cat_errs_Cons_no_error ComponentReference_Validate_rule
        HostCapabilities_Validate_rule ServiceAccountReference_Validate_def in_reach_def Let_def split: if_splits)
  have "component_ref_admissible c (?m n gen) (gc_Ref ?g)" for n gen
    using ref in_reach_allowed [of c "rs_Meta r"] by (auto simp: component_ref_admissible_def component_ref_rule_def m Let_def)
  note comp = lifecycle_composition_admitted [OF this m(2)]
  have trig: "HttpTrigger_ValidateCreate c \<lparr>rs_Meta = ?m n gen, rs_Spec = \<lparr>ht_Container = \<lparr>gc_Generic = gen1,
      gc_Ref = component_ref '''' ''Composition'' '''' composition, gc_ServiceAccountRef = gc_ServiceAccountRef ?g,
      gc_HostCapabilities = gc_HostCapabilities ?g\<rparr>\<rparr>, rs_Status = st\<rparr> = Ret ()" for n gen gen1 st
  proof (rule http_trigger_admitted)
    show "component_ref_admissible c (?m n gen) (gc_Ref \<lparr>gc_Generic = gen1, gc_Ref = component_ref '''' ''Composition'' '''' composition,
        gc_ServiceAccountRef = gc_ServiceAccountRef ?g, gc_HostCapabilities = gc_HostCapabilities ?g\<rparr>)"
      using assms(2) by (simp add: component_ref_admissible_def component_ref_def APIVersionForKind_def reference_allowed_def m)
  qed (use caps in_reach_allowed [OF sa] m in simp_all)
  show ?thesis
    by (simp add: comp trig LifecycleComposition_DesiredChild_def LifecycleTrigger_DesiredChild_def Let_def)
qed

section \<open>Deleting a lifecycle\<close>

lemma blocking_instance_run:
  assumes "blocking_instance cx sx kind namespaced items clear s = (s', g)"
  shows "rx_Resource s' = rx_Resource s \<and> rx_World s' = rx_World s \<and>
    (rx_Marks s' = rx_Marks s \<or> g = Ret () \<and> (\<exists>msg. rx_Marks s' = rx_Marks s @ [Mark ''Finalizer'' CFalse ''ServiceInstanceExists'' msg]) \<and>
      (\<exists>i \<in> set items. \<exists>d. ServiceInstance_Default (cx_ctx cx) i = Ret d \<and> refers_to kind namespaced (rx_Resource s) d)) \<and>
    (g = Ret () \<and> rx_Marks s' = rx_Marks s \<longrightarrow> clear = Ret () \<and>
      (\<forall>i \<in> set items. \<exists>d. ServiceInstance_Default (cx_ctx cx) i = Ret d \<and> \<not> refers_to kind namespaced (rx_Resource s) d))"
  using assms
proof (induction items)
  case Nil
  then show ?case by (auto simp: act_lift_def)
next
  case (Cons i items)
  obtain d where d: "ServiceInstance_Default (cx_ctx cx) i = Ret d"
    using returns_Instance_Default [of "cx_ctx cx" i] by (auto simp: returns_def)
  show ?case
  proof (cases "refers_to kind namespaced (rx_Resource s) d")
    case True
    with Cons(2) d show ?thesis
      by (cases "sx_TrackObject sx (rs_Meta d)") (auto simp: act_bind_def get_resource_def act_fail_def mark_as_def)
  next
    case False
    with Cons(2) d have "blocking_instance cx sx kind namespaced items clear s = (s', g)"
      by (simp add: act_bind_def get_resource_def)
    from Cons(1) [OF this] d False show ?thesis by auto
  qed
qed

text \<open>C35: a deleted lifecycle is kept as long as an instance refers to it: the check ends without an error and without blocking
  only when the instances of its namespace (of all namespaces for a cluster lifecycle) were listed, none of them
  refers to it once defaulted, and the condition that blocks the deletion was cleared; it blocks only when one does.\<close>

theorem lifecycle_kept_while_used:
  assumes "CheckForInstances_Finalize cx sx gvk namespaced clear (request r w) = (s', g)"
  shows "rx_World s' = w \<and> rx_Resource s' = r \<and>
    (g = Ret () \<and> rx_Marks s' = [] \<longrightarrow> clear = Ret () \<and> (\<exists>k nsd items. gvk = Ret k \<and> namespaced = Ret nsd \<and>
      sx_Instances sx (om_Namespace (rs_Meta r)) w = Ret items \<and>
      (\<forall>i \<in> set items. \<exists>d. ServiceInstance_Default (cx_ctx cx) i = Ret d \<and> \<not> refers_to (gvk_Kind k) nsd r d))) \<and>
    (rx_Marks s' \<noteq> [] \<longrightarrow> g = Ret () \<and> (\<exists>msg. rx_Marks s' = [Mark ''Finalizer'' CFalse ''ServiceInstanceExists'' msg]) \<and>
      (\<exists>k nsd items i d. gvk = Ret k \<and> namespaced = Ret nsd \<and> sx_Instances sx (om_Namespace (rs_Meta r)) w = Ret items \<and>
        i \<in> set items \<and> ServiceInstance_Default (cx_ctx cx) i = Ret d \<and> refers_to (gvk_Kind k) nsd r d))"
proof (cases "\<exists>k nsd items. gvk = Ret k \<and> namespaced = Ret nsd \<and> sx_Instances sx (om_Namespace (rs_Meta r)) w = Ret items")
  case True
  then obtain k nsd items where ok: "gvk = Ret k" "namespaced = Ret nsd" "sx_Instances sx (om_Namespace (rs_Meta r)) w = Ret items" by blast
  with assms have "blocking_instance cx sx (gvk_Kind k) nsd items clear (request r w) = (s', g)"
    by (simp add: CheckForInstances_Finalize_def act_bind_def get_resource_def request_def act_registry_try_def)
  from blocking_instance_run [OF this] ok show ?thesis by (auto simp: request_def)
next
  case False
  then have "snd (CheckForInstances_Finalize cx sx gvk namespaced clear (request r w)) \<noteq> Ret () \<and>
      fst (CheckForInstances_Finalize cx sx gvk namespaced clear (request r w)) = request r w"
    by (cases gvk; cases namespaced; cases "sx_Instances sx (om_Namespace (rs_Meta r)) w")
      (auto simp: CheckForInstances_Finalize_def act_bind_def get_resource_def request_def act_registry_try_def act_fail_def)
  with assms show ?thesis by (simp add: request_def)
qed

section \<open>What a lifecycle publishes\<close>

lemma child_ready_Ret: "child_ready cl ct waiting notReady gen st s = (s', Ret ()) \<longleftrightarrow>
    s' = s \<and> gen = as_ObservedGeneration st \<and> cl_IsTrue cl (cl_Get cl st ''Ready'')"
  by (auto simp: child_ready_def Let_def act_ret_def stop_not_Ret)

lemma retrieve_Ret: "stash_RetrieveOrDie sh s = (s1, Ret v) \<longleftrightarrow> s1 = s \<and> sh_get sh (rx_Stash s) = Some v"
  by (auto simp: stash_RetrieveOrDie_def split: option.splits)

lemma composition_Ret:
  assumes "LifecycleComposition_Reflect cl ch err s = (s', Ret ())"
  obtains c where "ch = Some c" "err = None" "om_Generation (rs_Meta (ob_Object c)) = as_ObservedGeneration (ob_Status c)"
    "cl_IsTrue cl (cl_Get cl (ob_Status c) ''Ready'')" "gst_Image (cst_Generic (rs_Status (ob_Object c))) \<noteq> []"
    "rx_Resource s' = rx_Resource s" "rx_World s' = rx_World s" "rx_Marks s' = rx_Marks s @ [Mark ''ComponentReady'' CTrue ''Ready'' '''']"
    "st_LifecycleComposition (rx_Stash s') = Some (om_Name (rs_Meta (ob_Object c)))"
  using assms by (auto simp: LifecycleComposition_Reflect_def stop_not_Ret act_then_def bind_Ret Let_def child_ready_Ret stash_Store_def
      mark_as_def stashers split: option.splits if_splits)

lemma trigger_Ret:
  assumes "LifecycleTrigger_Reflect cl ch err s = (s', Ret ())"
  obtains c where "ch = Some c" "err = None" "om_Generation (rs_Meta (ob_Object c)) = as_ObservedGeneration (ob_Status c)"
    "cl_IsTrue cl (cl_Get cl (ob_Status c) ''Ready'')" "hts_URL (rs_Status (ob_Object c)) \<noteq> []"
    "rx_Resource s' = (rx_Resource s)\<lparr>rs_Status := (rs_Status (rx_Resource s))\<lparr>sls_URL := hts_URL (rs_Status (ob_Object c))\<rparr>\<rparr>"
    "rx_World s' = rx_World s" "rx_Marks s' = rx_Marks s @ [Mark ''LifecycleReady'' CTrue ''Ready'' '''']"
  using assms by (auto simp: LifecycleTrigger_Reflect_def stop_not_Ret act_then_def bind_Ret Let_def child_ready_Ret set_resource_def
      mark_as_def split: option.splits if_splits)

lemma client_Ret:
  assumes "ClientComponent_Sync cx s = (s', Ret ())"
  obtains d where "ResolveComponentReference cx (sl_ClientRef (rs_Spec (rx_Resource s))) = Ret d"
    "om_Generation (rs_Meta d) = as_ObservedGeneration (cdk_Status (rs_Status d))"
    "cl_IsTrue (cx_conds cx) (cl_Get (cx_conds cx) (cdk_Status (rs_Status d)) ''Ready'')"
    "rx_Resource s' = (rx_Resource s)\<lparr>rs_Status := (rs_Status (rx_Resource s))\<lparr>sls_Component := cdk_Generic (rs_Status d)\<rparr>\<rparr>"
    "rx_World s' = rx_World s"
    "map mk_Type (rx_Marks s') = map mk_Type (rx_Marks s) @ [if gst_Image (cdk_Generic (rs_Status d)) = [] then ''ComponentReady'' else ''ClientReady'']"
    "map mk_Status (rx_Marks s') = map mk_Status (rx_Marks s) @ [if gst_Image (cdk_Generic (rs_Status d)) = [] then CFalse else CTrue]"
  using assms by (auto simp: ClientComponent_Sync_def bind_Ret get_resource_def act_then_def act_try_def act_fail_def stop_not_Ret Let_def
      child_ready_Ret set_resource_def mark_as_def split: go.splits if_splits)

text \<open>C34: when a request of a lifecycle returns nil, its composition is ready with an image, the trigger serves exactly that composition, is
  ready and has an address, and the client component is ready; the status holds the address and the client.  A
  client without an image does not stop the request: no condition then says that the client is ready, the one of the
  composition, true before, is set to false instead.\<close>

theorem lifecycle_publishes:
  assumes "sequences sq" "cl_Get (cx_conds cx) own ''Finalizer'' = None"
    and "genericServiceLifecycleReconciler sq cx key own compose serve (request r w) = (s', Ret ())"
  shows "\<exists>c w1 t w2 d. let ready = (\<lambda>gen st. gen = as_ObservedGeneration st \<and> cl_IsTrue (cx_conds cx) (cl_Get (cx_conds cx) st ''Ready''));
      name = om_Name (rs_Meta (ob_Object c)); img = gst_Image (cdk_Generic (rs_Status d)) in
    bind_go (LifecycleComposition_DesiredChild (cx_ctx cx) key r) (\<lambda>desired. Ret (compose desired w)) = Ret (w1, Ret (Some c, None)) \<and>
    ready (om_Generation (rs_Meta (ob_Object c))) (ob_Status c) \<and> gst_Image (cst_Generic (rs_Status (ob_Object c))) \<noteq> [] \<and>
    bind_go (LifecycleTrigger_DesiredChild (cx_ctx cx) key name r) (\<lambda>desired. Ret (serve desired w1)) = Ret (w2, Ret (Some t, None)) \<and>
    ready (om_Generation (rs_Meta (ob_Object t))) (ob_Status t) \<and> hts_URL (rs_Status (ob_Object t)) \<noteq> [] \<and>
    ResolveComponentReference cx (sl_ClientRef (rs_Spec r)) = Ret d \<and> ready (om_Generation (rs_Meta d)) (cdk_Status (rs_Status d)) \<and>
    rs_Status (rx_Resource s') = \<lparr>sls_Component = cdk_Generic (rs_Status d), sls_URL = hts_URL (rs_Status (ob_Object t))\<rparr> \<and> rx_World s' = w2 \<and>
    map mk_Type (rx_Marks s') = [''ComponentReady'', ''LifecycleReady'', if img = [] then ''ComponentReady'' else ''ClientReady''] \<and>
    map mk_Status (rx_Marks s') = [CTrue, CTrue, if img = [] then CFalse else CTrue]"
proof -
  let ?A = "child_reconciler (LifecycleComposition_DesiredChild (cx_ctx cx) key) compose (LifecycleComposition_Reflect (cx_conds cx))"
  from assms(3) have "sq [?A, HttpTriggerChildReconciler cx key serve, ClientComponent_Sync cx] (request r w) = (s', Ret ())"
    by (simp add: genericServiceLifecycleReconciler_def assms(2) sequence_Ret [OF assms(1)] act_ret_def)
  then obtain s1 s2 where A: "?A (request r w) = (s1, Ret ())" and B: "HttpTriggerChildReconciler cx key serve s1 = (s2, Ret ())"
    and 3: "ClientComponent_Sync cx s2 = (s', Ret ())"
    unfolding sequence_Ret [OF assms(1)] by blast
  from A obtain dc w1 k1 e1 where 1: "LifecycleComposition_DesiredChild (cx_ctx cx) key r = Ret dc" "compose dc w = (w1, Ret (k1, e1))"
      "LifecycleComposition_Reflect (cx_conds cx) k1 e1 ((request r w)\<lparr>rx_World := w1\<rparr>) = (s1, Ret ())"
    unfolding child_Ret by (simp add: request_def) blast
  from B obtain comp dt w2 k2 e2 where 2: "st_LifecycleComposition (rx_Stash s1) = Some comp"
      "LifecycleTrigger_DesiredChild (cx_ctx cx) key comp (rx_Resource s1) = Ret dt"
      "serve dt (rx_World s1) = (w2, Ret (k2, e2))" "LifecycleTrigger_Reflect (cx_conds cx) k2 e2 (s1\<lparr>rx_World := w2\<rparr>) = (s2, Ret ())"
    unfolding HttpTriggerChildReconciler_def bind_Ret retrieve_Ret child_Ret by (auto simp: stashers)
  from composition_Ret [OF 1(3)] obtain c where c: "k1 = Some c" "e1 = None" "om_Generation (rs_Meta (ob_Object c)) = as_ObservedGeneration (ob_Status c)"
    "cl_IsTrue (cx_conds cx) (cl_Get (cx_conds cx) (ob_Status c) ''Ready'')" "gst_Image (cst_Generic (rs_Status (ob_Object c))) \<noteq> []"
    "rx_Resource s1 = r" "rx_World s1 = w1" "rx_Marks s1 = [Mark ''ComponentReady'' CTrue ''Ready'' '''']"
    "comp = om_Name (rs_Meta (ob_Object c))" using 2(1) by (simp add: request_def) metis
  from trigger_Ret [OF 2(4)] obtain t where t: "k2 = Some t" "e2 = None" "om_Generation (rs_Meta (ob_Object t)) = as_ObservedGeneration (ob_Status t)"
    "cl_IsTrue (cx_conds cx) (cl_Get (cx_conds cx) (ob_Status t) ''Ready'')" "hts_URL (rs_Status (ob_Object t)) \<noteq> []"
    "rx_Resource s2 = r\<lparr>rs_Status := (rs_Status r)\<lparr>sls_URL := hts_URL (rs_Status (ob_Object t))\<rparr>\<rparr>"
    "rx_World s2 = w2" "rx_Marks s2 = [Mark ''ComponentReady'' CTrue ''Ready'' '''', Mark ''LifecycleReady'' CTrue ''Ready'' '''']"
    using c(6,8) by simp metis
  obtain d where d: "ResolveComponentReference cx (sl_ClientRef (rs_Spec r)) = Ret d"
    "om_Generation (rs_Meta d) = as_ObservedGeneration (cdk_Status (rs_Status d))"
    "cl_IsTrue (cx_conds cx) (cl_Get (cx_conds cx) (cdk_Status (rs_Status d)) ''Ready'')"
    "rs_Status (rx_Resource s') = \<lparr>sls_Component = cdk_Generic (rs_Status d), sls_URL = hts_URL (rs_Status (ob_Object t))\<rparr>" "rx_World s' = w2"
    "map mk_Type (rx_Marks s') = [''ComponentReady'', ''LifecycleReady'', if gst_Image (cdk_Generic (rs_Status d)) = [] then ''ComponentReady'' else ''ClientReady'']"
    "map mk_Status (rx_Marks s') = [CTrue, CTrue, if gst_Image (cdk_Generic (rs_Status d)) = [] then CFalse else CTrue]"
  proof (rule client_Ret [OF 3], goal_cases)
    case (1 d)
    have spec: "rs_Spec (rx_Resource s2) = rs_Spec r" by (simp add: t(6))
    show ?case by (rule that [of d], use 1(2) spec in simp, rule 1(3), rule 1(4), simp add: 1(5) t(6),
          simp only: 1(6) t(7), simp only: 1(7) t(8), simp, simp only: 1(8) t(8), simp)
  qed
  show ?thesis unfolding Let_def
    by (rule exI [of _ c], rule exI [of _ w1], rule exI [of _ t], rule exI [of _ w2], rule exI [of _ d], intro conjI)
      (use 1(1,2) 2(2,3) c t d in simp_all)
qed

section \<open>A concrete lifecycle\<close>

definition used_lifecycle :: ServiceLifecycle where
  "used_lifecycle = demo_lifecycle\<lparr>rs_Spec := \<lparr>sl_Container = \<lparr>gc_Generic = \<lparr>gs_RepositoryRef = \<lparr>rr_Kind = ''Repository'', rr_Name = ''default''\<rparr>\<rparr>,
       gc_Ref = component_ref ''wa8s.reconciler.io/v1alpha1'' ''Component'' ''apps'' ''db-lifecycle'',
       gc_ServiceAccountRef = \<lparr>sa_Namespace = ''apps'', sa_Name = ''default''\<rparr>,
       gc_HostCapabilities = \<lparr>cap_Env = None, cap_Config = None, cap_Network = None\<rparr>\<rparr>,
     sl_ClientRef = component_ref ''wa8s.reconciler.io/v1alpha1'' ''Component'' ''apps'' ''db-client''\<rparr>\<rparr>"

definition using_services :: "(string list) services" where
  "using_services = (demo_services 0)\<lparr>sx_Instances := (\<lambda>ns w. Ret [demo_instance])\<rparr>"

definition demo_compose :: "(ObjectMeta \<times> CompositionSpec) option \<Rightarrow> string list \<Rightarrow>
    string list \<times> (Composition observed option \<times> gerr option) go" where
  "demo_compose d w = (w, Ret (map_option (\<lambda>(m, spec). \<lparr>ob_Status = demo_ready, ob_Object = \<lparr>rs_Meta = m\<lparr>om_Name := ''db-x'', om_Generation := 1\<rparr>,
     rs_Spec = spec, rs_Status = \<lparr>cst_Generic = \<lparr>gst_Image = ''r@sha256:1'', gst_WIT = None, gst_Trace = []\<rparr>, cst_Dependencies = []\<rparr>\<rparr>\<rparr>) d, None))"

definition demo_trigger_child :: "(ObjectMeta \<times> HttpTriggerSpec) option \<Rightarrow> string list \<Rightarrow>
    string list \<times> (HttpTrigger observed option \<times> gerr option) go" where
  "demo_trigger_child d w = (w, Ret (map_option (\<lambda>(m, spec). \<lparr>ob_Status = demo_ready, ob_Object = \<lparr>rs_Meta = m\<lparr>om_Generation := 1\<rparr>,
     rs_Spec = spec, rs_Status = \<lparr>hts_Container = \<lparr>gct_Component = \<lparr>gst_Image = ''r@sha256:1'', gst_WIT = None, gst_Trace = []\<rparr>\<rparr>,
       hts_URL = ''http://db-lifecycle-trigger.apps.svc.cluster.local''\<rparr>\<rparr>\<rparr>) d, None))"

definition duck_cluster :: "(string, string, string, string, string, string list) cluster" where
  "duck_cluster = any_cluster\<lparr>cx_Component := (\<lambda>t k. Ret demo_duck)\<rparr>"

lemma client_composition_admitted_iff_witness:
  "\<exists>m spec. ConfigureClient_DesiredChild \<lparr>slr_Kind = ''ServiceLifecycle'', slr_Namespace = ''other'', slr_Name = ''db''\<rparr> demo_binding = Ret (Some (m, spec)) \<and>
    Composition_ValidateCreate (\<lambda>_::unit. Inr []) None sample_ctx \<lparr>rs_Meta = m, rs_Spec = spec, rs_Status = rs_Status demo_composition\<rparr> \<noteq> Ret ()"
proof -
  have "\<not> prefix ''Cluster'' ''ServiceLifecycle''" by simp
  moreover have "\<not> reference_allowed sample_ctx (om_Namespace (rs_Meta demo_binding)) ''other''" by code_simp
  ultimately show ?thesis
    using client_composition_admitted_iff [where ref = "\<lparr>slr_Kind = ''ServiceLifecycle'', slr_Namespace = ''other'', slr_Name = ''db''\<rparr>"
        and r = demo_binding and c = sample_ctx] by simp blast
qed

lemma lifecycle_children_admitted_witness:
  "\<exists>m1 s1 m2 s2. LifecycleComposition_DesiredChild sample_ctx ''k'' used_lifecycle = Ret (Some (m1, s1)) \<and>
    LifecycleTrigger_DesiredChild sample_ctx ''k'' ''db-x'' used_lifecycle = Ret (Some (m2, s2)) \<and> om_Namespace m1 = om_Namespace m2 \<and>
    Composition_ValidateCreate (\<lambda>_::unit. Inr []) None sample_ctx \<lparr>rs_Meta = m1, rs_Spec = s1, rs_Status = rs_Status demo_composition\<rparr> = Ret () \<and>
    HttpTrigger_ValidateCreate sample_ctx \<lparr>rs_Meta = m2, rs_Spec = s2, rs_Status = rs_Status demo_trigger\<rparr> = Ret ()"
proof -
  have ok: "ServiceLifecycleSpec_Validate (StashResource sample_ctx (rs_Meta used_lifecycle)) (new_path '''') (rs_Spec used_lifecycle) = Ret []"
    by code_simp
  have name: "''db-x'' \<noteq> []" by simp
  show ?thesis using lifecycle_children_admitted [OF ok name, of "''k''", where 'a = unit] by metis
qed

lemma lifecycle_kept_while_used_witness:
  "let s' = fst (CheckForInstances_Finalize any_cluster using_services (Ret \<lparr>gvk_Group = ''services.wa8s.reconciler.io'', gvk_Version = ''v1alpha1'',
       gvk_Kind = ''ServiceLifecycle''\<rparr>) (Ret True) (Ret ()) (request used_lifecycle [''x''])) in
     rx_World s' = [''x''] \<and> (\<exists>msg. rx_Marks s' = [Mark ''Finalizer'' CFalse ''ServiceInstanceExists'' msg])"
proof -
  let ?run = "CheckForInstances_Finalize any_cluster using_services (Ret \<lparr>gvk_Group = ''services.wa8s.reconciler.io'', gvk_Version = ''v1alpha1'',
       gvk_Kind = ''ServiceLifecycle''\<rparr>) (Ret True) (Ret ()) (request used_lifecycle [''x''])"
  have "?run = (fst ?run, snd ?run)" by simp
  from lifecycle_kept_while_used [OF this] have "rx_World (fst ?run) = [''x'']"
    "rx_Marks (fst ?run) \<noteq> [] \<Longrightarrow> \<exists>msg. rx_Marks (fst ?run) = [Mark ''Finalizer'' CFalse ''ServiceInstanceExists'' msg]"
    by blast+
  moreover have "rx_Marks (fst ?run) \<noteq> []" by code_simp
  ultimately show ?thesis unfolding Let_def by blast
qed

lemma lifecycle_publishes_witness:
  "\<exists>s'. ServiceLifecycleReconciler run_sequence duck_cluster \<lparr>as_ObservedGeneration = 1, as_Conditions = []\<rparr> demo_compose demo_trigger_child
      (request used_lifecycle []) = (s', Ret ()) \<and>
    sls_Component (rs_Status (rx_Resource s')) = cdk_Generic (rs_Status demo_duck) \<and> rx_World s' = [] \<and>
    map mk_Type (rx_Marks s') = [''ComponentReady'', ''LifecycleReady'', ''ClientReady'']"
proof -
  let ?run = "ServiceLifecycleReconciler run_sequence duck_cluster \<lparr>as_ObservedGeneration = 1, as_Conditions = []\<rparr> demo_compose demo_trigger_child
      (request used_lifecycle [])"
  have "snd ?run = Ret ()" by code_simp
  then have run: "?run = (fst ?run, Ret ())" by (simp add: prod_eq_iff)
  have world: "rx_World (fst ?run) = []" by code_simp
  have own: "cl_Get (cx_conds duck_cluster) \<lparr>as_ObservedGeneration = 1, as_Conditions = []\<rparr> ''Finalizer'' = None" by code_simp
  have duck: "ResolveComponentReference duck_cluster (sl_ClientRef (rs_Spec used_lifecycle)) = Ret demo_duck"
    by (simp add: ResolveComponentReference_def duck_cluster_def used_lifecycle_def component_ref_def Let_def)
  note pub = lifecycle_publishes [OF run_sequence_law own run [unfolded ServiceLifecycleReconciler_def], unfolded Let_def, folded ServiceLifecycleReconciler_def]
  then obtain t and d :: ComponentDuck where "ResolveComponentReference duck_cluster (sl_ClientRef (rs_Spec used_lifecycle)) = Ret d"
      "rs_Status (rx_Resource (fst ?run)) = \<lparr>sls_Component = cdk_Generic (rs_Status d), sls_URL = t\<rparr>"
      "map mk_Type (rx_Marks (fst ?run)) = [''ComponentReady'', ''LifecycleReady'', if gst_Image (cdk_Generic (rs_Status d)) = [] then ''ComponentReady'' else ''ClientReady'']"
    by (elim exE conjE) (rule that, assumption+)
  moreover have "gst_Image (cdk_Generic (rs_Status demo_duck)) \<noteq> []" by (simp add: demo_duck_def)
  ultimately show ?thesis using run world duck by (intro exI [of _ "fst ?run"]) simp
qed

end
