(* ===== verification/Definition_Rules.thy ===== *)
theory Definition_Rules
  imports Service_Definitions Lifecycle_Rules
begin

text \<open>
  What the controllers of resource definitions promise: the controllers of the custom kinds run exactly when both
  kinds are established, their conditions are well formed, the service instance of a custom instance is
  admitted and found again by custom clients, and a custom client publishes what its service client publishes.
\<close>

section \<open>A request of a definition\<close>

lemma sequence_single: "sequences sq \<Longrightarrow> sq [h] = h"
  by (rule ext) (simp add: sequences_def act_then_def act_bind_def split: prod.split go.split)

lemma sequence_more: "sequences sq \<Longrightarrow> sq (h # h' # hs) s =
    (case h s of (s1, Ret u) \<Rightarrow> sq (h' # hs) s1 | (s1, Fail e) \<Rightarrow> (s1, Fail e) | (s1, Panic p) \<Rightarrow> (s1, Panic p))"
  unfolding sequences_def by (simp add: act_then_def act_bind_def split: prod.split go.split)

text \<open>A child that was managed without an error leaves one mark and nothing else.\<close>

definition marked :: "string \<Rightarrow> bool \<Rightarrow> ('r, 'kc, 'd, 't, 'w) rstate \<Rightarrow> ('r, 'kc, 'd, 't, 'w) rstate \<times> unit go \<Rightarrow> bool" where
  "marked ct ok s result \<longleftrightarrow> (\<exists>mk. mk_Type mk = ct \<and> (mk_Status mk = CTrue \<longleftrightarrow> ok) \<and> result = (s\<lparr>rx_Marks := rx_Marks s @ [mk]\<rparr>, Ret ()))"

definition established :: "(string \<times> condition list) option \<Rightarrow> bool" where
  "established ch = (case ch of None \<Rightarrow> False | Some (name, cs) \<Rightarrow> established_status cs = ''True'')"

lemma request_simps [simp]: "rx_Resource (request r w) = r" "rx_World (request r w) = w" "rx_Marks (request r w) = []"
  by (simp_all add: request_def)

lemma markedI: "mk_Type mk = ct \<Longrightarrow> (mk_Status mk = CTrue \<longleftrightarrow> ok) \<Longrightarrow> marked ct ok s (s\<lparr>rx_Marks := rx_Marks s @ [mk]\<rparr>, Ret ())"
  by (auto simp: marked_def)

lemma marked_as: "ok = (st = CTrue) \<Longrightarrow> marked ct ok s (mark_as ct st rs msg s)"
  by (simp add: mark_as_def markedI)

lemma marked_when_ready: "marked ct (cl_IsTrue cl (cl_Get cl st ''Ready'')) s (when_ready cl ct msg st (mark_as ct CTrue rs m) s)"
  by (simp add: when_ready_def Let_def marked_as)

lemma marked_lifecycle: "marked ''LifecycleReady'' (case ch of None \<Rightarrow> False | Some c \<Rightarrow> cl_IsTrue cl (cl_Get cl (ob_Status c) ''Ready'')) s
    (SRD_Lifecycle_Reflect cl ch None s)"
  by (cases ch) (simp_all add: SRD_Lifecycle_Reflect_def marked_when_ready marked_as)

lemma marked_definition: "marked ct (established ch) s (SRD_Definition_Reflect dx ct ch None s)"
  by (cases ch) (auto simp: SRD_Definition_Reflect_def established_def intro!: marked_as)

lemma marked_duck: "marked ''ClientComponentDuckReady'' (case ch of None \<Rightarrow> False | Some (name, st) \<Rightarrow> cl_IsTrue cl (cl_Get cl st ''Ready'')) s
    (SRD_Duck_Reflect dx cl ch None s)"
  by (cases ch) (auto simp: SRD_Duck_Reflect_def marked_when_ready intro!: marked_as)

lemma child_marked:
  assumes "desired (rx_Resource s) = Ret c" "manage c (rx_World s) = (w', Ret (k, None))"
    and "\<And>s. marked ct ok s (reflect k None s)"
  shows "\<exists>mk. mk_Type mk = ct \<and> (mk_Status mk = CTrue \<longleftrightarrow> ok) \<and>
    child_reconciler desired manage reflect s = (s\<lparr>rx_World := w', rx_Marks := rx_Marks s @ [mk]\<rparr>, Ret ())"
proof -
  have "child_reconciler desired manage reflect s = reflect k None (s\<lparr>rx_World := w'\<rparr>)"
    using assms(1,2) by (simp add: child_reconciler_def act_bind_def get_resource_def act_lift_def act_world_def)
  with assms(3) [of "s\<lparr>rx_World := w'\<rparr>"] show ?thesis by (auto simp: marked_def)
qed

text \<open>The last sub reconciler goes on only when both definitions are established.\<close>

lemma wait_for_definitions:
  assumes "sequences sq"
  shows "ServiceResourceDefinitionDuckSubReconciler sq cl own submanager s =
    (if condition_holds cl own ''InstanceDefinitionReady'' (rx_Marks s) \<and> condition_holds cl own ''ClientDefinitionReady'' (rx_Marks s)
     then act_then (submanager (LocalTypes (rx_Resource s)) (SetupWithSubManager (rx_Resource s)))
            (mark_as ''ReconcilerRunning'' CTrue ''Running'' '''') s
     else (s, Fail ErrUpdateStatusBeforeContinuingReconcile))"
  by (simp add: ServiceResourceDefinitionDuckSubReconciler_def sequence_more [OF assms] sequence_single [OF assms]
      DefinitionsEstablished_Sync_def act_ret_def act_fail_def act_then_def act_bind_def get_resource_def)

text \<open>C38: once the cluster has taken the four children of a definition, its request is determined: the conditions of
  the children are true exactly when lifecycle and duck are ready and the custom resource definitions
  established, and the manager of the custom kinds is started, with the two kinds of the spec, exactly when both
  definitions are established; otherwise the request ends before it, and the status is written first.\<close>

theorem definition_request:
  fixes cx :: "('kc, 'd, 't, 'desc, 'sec, 'w) cluster"
    and sq :: "(ServiceResourceDefinition, 'kc, 'd, 't, 'w, unit) handler list \<Rightarrow> (ServiceResourceDefinition, 'kc, 'd, 't, 'w, unit) handler"
  assumes "sequences sq"
    and "SRD_Lifecycle_DesiredChild (cx_ctx cx) r = Ret dl" "dc_Lifecycle children dl w = (w1, Ret (l, None))"
    and "dc_Instance children (Some (definition_crd ''instance'' (srd_InstanceNames (rs_Spec r)) (dx_InstanceCRD dx) r)) w1 = (w2, Ret (i, None))"
    and "dc_Client children (Some (definition_crd ''client'' (srd_ClientNames (rs_Spec r)) (dx_ClientCRD dx) r)) w2 = (w3, Ret (k, None))"
    and "SRD_Duck_DesiredChild r = Ret dd" "dc_Duck children dd w3 = (w4, Ret (d, None))"
  shows "\<exists>s4. rx_World s4 = w4 \<and> rx_Resource s4 = r \<and> map mk_Type (rx_Marks s4) = take 4 ServiceResourceDefinitionConditions \<and>
    map (\<lambda>m. mk_Status m = CTrue) (rx_Marks s4) =
      [case l of None \<Rightarrow> False | Some c \<Rightarrow> cl_IsTrue (cx_conds cx) (cl_Get (cx_conds cx) (ob_Status c) ''Ready''),
       established i, established k, case d of None \<Rightarrow> False | Some (name, st) \<Rightarrow> cl_IsTrue (cx_conds cx) (cl_Get (cx_conds cx) st ''Ready'')] \<and>
    ServiceResourceDefinitionReconciler sq cx dx own children submanager (request r w) =
      (if established i \<and> established k
       then act_then (submanager (LocalTypes r) (SetupWithSubManager r)) (mark_as ''ReconcilerRunning'' CTrue ''Running'' '''') s4
       else (s4, Fail ErrUpdateStatusBeforeContinuingReconcile))"
proof -
  let ?s = "request r w :: (ServiceResourceDefinition, 'kc, 'd, 't, 'w) rstate"
  have d1: "SRD_Lifecycle_DesiredChild (cx_ctx cx) (rx_Resource ?s) = Ret dl" "dc_Lifecycle children dl (rx_World ?s) = (w1, Ret (l, None))"
    using assms(2,3) by simp_all
  obtain m1 where m1: "mk_Type m1 = ''LifecycleReady''"
      "mk_Status m1 = CTrue \<longleftrightarrow> (case l of None \<Rightarrow> False | Some c \<Rightarrow> cl_IsTrue (cx_conds cx) (cl_Get (cx_conds cx) (ob_Status c) ''Ready''))"
      "child_reconciler (SRD_Lifecycle_DesiredChild (cx_ctx cx)) (dc_Lifecycle children) (SRD_Lifecycle_Reflect (cx_conds cx)) ?s =
        (?s\<lparr>rx_World := w1, rx_Marks := [m1]\<rparr>, Ret ())"
    using child_marked [where s = ?s and desired = "SRD_Lifecycle_DesiredChild (cx_ctx cx)" and c = dl and manage = "dc_Lifecycle children"
        and reflect = "SRD_Lifecycle_Reflect (cx_conds cx)", OF d1 marked_lifecycle] by auto
  let ?s1 = "?s\<lparr>rx_World := w1, rx_Marks := [m1]\<rparr>"
  have d2: "SRD_Instance_DesiredChild dx (rx_Resource ?s1) = Ret (Some (definition_crd ''instance'' (srd_InstanceNames (rs_Spec r)) (dx_InstanceCRD dx) r))"
    "dc_Instance children (Some (definition_crd ''instance'' (srd_InstanceNames (rs_Spec r)) (dx_InstanceCRD dx) r)) (rx_World ?s1) = (w2, Ret (i, None))"
    using assms(4) by (simp_all add: SRD_Instance_DesiredChild_def)
  obtain m2 where m2: "mk_Type m2 = ''InstanceDefinitionReady''" "mk_Status m2 = CTrue \<longleftrightarrow> established i"
      "child_reconciler (SRD_Instance_DesiredChild dx) (dc_Instance children) (SRD_Definition_Reflect dx ''InstanceDefinitionReady'') ?s1 =
        (?s\<lparr>rx_World := w2, rx_Marks := [m1, m2]\<rparr>, Ret ())"
    using child_marked [where s = ?s1 and desired = "SRD_Instance_DesiredChild dx" and manage = "dc_Instance children"
        and reflect = "SRD_Definition_Reflect dx ''InstanceDefinitionReady''", OF d2 marked_definition] by auto
  let ?s2 = "?s\<lparr>rx_World := w2, rx_Marks := [m1, m2]\<rparr>"
  have d3: "SRD_Client_DesiredChild dx (rx_Resource ?s2) = Ret (Some (definition_crd ''client'' (srd_ClientNames (rs_Spec r)) (dx_ClientCRD dx) r))"
    "dc_Client children (Some (definition_crd ''client'' (srd_ClientNames (rs_Spec r)) (dx_ClientCRD dx) r)) (rx_World ?s2) = (w3, Ret (k, None))"
    using assms(5) by (simp_all add: SRD_Client_DesiredChild_def)
  obtain m3 where m3: "mk_Type m3 = ''ClientDefinitionReady''" "mk_Status m3 = CTrue \<longleftrightarrow> established k"
      "child_reconciler (SRD_Client_DesiredChild dx) (dc_Client children) (SRD_Definition_Reflect dx ''ClientDefinitionReady'') ?s2 =
        (?s\<lparr>rx_World := w3, rx_Marks := [m1, m2, m3]\<rparr>, Ret ())"
    using child_marked [where s = ?s2 and desired = "SRD_Client_DesiredChild dx" and manage = "dc_Client children"
        and reflect = "SRD_Definition_Reflect dx ''ClientDefinitionReady''", OF d3 marked_definition] by auto
  let ?s3 = "?s\<lparr>rx_World := w3, rx_Marks := [m1, m2, m3]\<rparr>"
  have d4: "SRD_Duck_DesiredChild (rx_Resource ?s3) = Ret dd" "dc_Duck children dd (rx_World ?s3) = (w4, Ret (d, None))"
    using assms(6,7) by simp_all
  obtain m4 where m4: "mk_Type m4 = ''ClientComponentDuckReady''"
      "mk_Status m4 = CTrue \<longleftrightarrow> (case d of None \<Rightarrow> False | Some (name, st) \<Rightarrow> cl_IsTrue (cx_conds cx) (cl_Get (cx_conds cx) st ''Ready''))"
      "child_reconciler SRD_Duck_DesiredChild (dc_Duck children) (SRD_Duck_Reflect dx (cx_conds cx)) ?s3 =
        (?s\<lparr>rx_World := w4, rx_Marks := [m1, m2, m3, m4]\<rparr>, Ret ())"
    using child_marked [where s = ?s3 and desired = SRD_Duck_DesiredChild and c = dd and manage = "dc_Duck children"
        and reflect = "SRD_Duck_Reflect dx (cx_conds cx)", OF d4 marked_duck] by auto
  let ?s4 = "?s\<lparr>rx_World := w4, rx_Marks := [m1, m2, m3, m4]\<rparr>"
  let ?tail = "ServiceResourceDefinitionDuckSubReconciler sq (cx_conds cx) own submanager"
  have run: "ServiceResourceDefinitionReconciler sq cx dx own children submanager ?s = ?tail ?s4"
    by (simp only: ServiceResourceDefinitionReconciler_def sequence_more [OF assms(1)] sequence_single [OF assms(1)] m1(3) m2(3) m3(3) m4(3)
        prod.case go.case)
  have holds: "condition_holds (cx_conds cx) own ''InstanceDefinitionReady'' [m1, m2, m3, m4] \<longleftrightarrow> established i"
    "condition_holds (cx_conds cx) own ''ClientDefinitionReady'' [m1, m2, m3, m4] \<longleftrightarrow> established k"
    using m1 m2 m3 m4 by (simp_all add: condition_holds_def)
  show ?thesis
    by (rule exI [of _ ?s4]) (use run m1 m2 m3 m4 in \<open>simp add: wait_for_definitions [OF assms(1)] holds request_def ServiceResourceDefinitionConditions_def\<close>)
qed

section \<open>Rejected children\<close>

text \<open>A rejected child of a definition is reported and the request goes on, an unknown error ends it quietly; the
  request panics exactly on an error that says that the name is taken without being an error of the API server
  itself, because the details are read by a type assertion.\<close>

theorem rejected_child_outcome:
  "case snd (SRD_Definition_Reflect dx ct ch (Some e) s) of
     Ret _ \<Rightarrow> IsInvalid e \<or> (IsAlreadyExists e \<and> (\<exists>r k n. e = ApiErr r k n))
   | Fail e' \<Rightarrow> e' = ErrQuiet \<and> \<not> IsInvalid e \<and> \<not> IsAlreadyExists e
   | Panic _ \<Rightarrow> IsAlreadyExists e \<and> \<not> (\<exists>r k n. e = ApiErr r k n)"
proof (cases e)
  case (ApiErr r k n)
  then show ?thesis
    by (auto simp: SRD_Definition_Reflect_def child_rejected_def child_unknown_def stop_with_def act_then_def act_bind_def mark_as_def
        act_fail_def act_lift_def)
qed (auto simp: SRD_Definition_Reflect_def child_rejected_def child_unknown_def stop_with_def act_then_def act_bind_def mark_as_def
        act_fail_def act_lift_def)

section \<open>Conditions\<close>

text \<open>No error hides that a name is taken behind another one.\<close>

definition plain_rejections :: "('c \<Rightarrow> 'w \<Rightarrow> 'w \<times> ('k option \<times> gerr option) go) \<Rightarrow> bool" where
  "plain_rejections manage \<longleftrightarrow> (\<forall>c w. quiet_go (snd (manage c w)) \<and>
     (\<forall>w' k e. manage c w = (w', Ret (k, Some e)) \<longrightarrow> IsAlreadyExists e \<longrightarrow> (\<exists>r kd n. e = ApiErr r kd n)))"

lemma plain_quiet: "plain_rejections manage \<Longrightarrow> quiet_go (snd (manage c w))"
  by (simp add: plain_rejections_def)

lemma plain_api: "plain_rejections manage \<Longrightarrow> manage c w = (w', Ret (k, Some x)) \<Longrightarrow> IsAlreadyExists x \<Longrightarrow> \<exists>r kd n. x = ApiErr r kd n"
  by (auto simp: plain_rejections_def)

lemma one_mark_managed:
  assumes "\<And>r. quiet_go (desired r)" "\<And>c w. quiet_go (snd (manage c w))"
    and "\<And>c w w' k e. manage c w = (w', Ret (k, e)) \<Longrightarrow> one_mark ct (reflect k e)"
  shows "one_mark ct (child_reconciler desired manage reflect)"
  unfolding one_mark_def
proof (rule allI, rule wpe_child_reconciler, goal_cases)
  case (3 s c w' k e)
  from assms(3) [OF this, unfolded one_mark_def, rule_format, of "s\<lparr>rx_World := w'\<rparr>"] show ?case by simp
qed (use assms in auto)

lemma one_mark_unknown: "one_mark ct (child_unknown ct)"
  by (simp add: child_unknown_def one_mark_stop)

lemma one_mark_rejected: "(IsAlreadyExists e \<Longrightarrow> \<exists>r k n. e = ApiErr r k n) \<Longrightarrow> one_mark ct (child_rejected dx ct e)"
  by (cases e) (auto simp: child_rejected_def act_lift_Ret one_mark_unknown intro!: one_mark_as split: if_splits)

lemma one_mark_when_ready: "one_mark ct act \<Longrightarrow> one_mark ct (when_ready cl ct msg st act)"
  by (simp add: when_ready_def Let_def one_mark_as)

lemma one_mark_SRD_Lifecycle: "one_mark ''LifecycleReady'' (SRD_Lifecycle_Reflect cl ch e)"
  by (auto simp: SRD_Lifecycle_Reflect_def intro!: one_mark_when_ready one_mark_as one_mark_unknown split: option.split)

lemma one_mark_SRD_Definition:
  "(\<And>x. e = Some x \<Longrightarrow> IsAlreadyExists x \<Longrightarrow> \<exists>r k n. x = ApiErr r k n) \<Longrightarrow> one_mark ct (SRD_Definition_Reflect dx ct ch e)"
  by (cases e) (auto simp: SRD_Definition_Reflect_def intro!: one_mark_rejected one_mark_as split: option.split)

lemma one_mark_SRD_Duck:
  "(\<And>x. e = Some x \<Longrightarrow> IsAlreadyExists x \<Longrightarrow> \<exists>r k n. x = ApiErr r k n) \<Longrightarrow> one_mark ''ClientComponentDuckReady'' (SRD_Duck_Reflect dx cl ch e)"
  by (cases e) (auto simp: SRD_Duck_Reflect_def intro!: one_mark_rejected one_mark_when_ready one_mark_as split: option.split)

lemma one_mark_InstanceDuck:
  "(\<And>x. e = Some x \<Longrightarrow> IsAlreadyExists x \<Longrightarrow> \<exists>r k n. x = ApiErr r k n) \<Longrightarrow> one_mark ''ServiceInstanceReady'' (InstanceDuck_Reflect dx cl ch e)"
  by (cases e) (auto simp: InstanceDuck_Reflect_def intro!: one_mark_rejected one_mark_when_ready one_mark_after_set one_mark_as split: option.split)

lemma one_mark_set_fail: "reason \<noteq> [] \<Longrightarrow> one_mark ct (act_then (mark_as ct st reason msg) (act_then (set_resource f) (act_fail e)))"
  by (auto simp: one_mark_def wpe_simps intro: exI [of _ "[m]" for m])

lemma one_mark_span:
  assumes "calm cx" "\<And>sp. one_mark ct (h sp)"
  shows "one_mark ct (act_bind (act_lift (SynthesizeSpan f (cx_GVKFor cx n ty) m st)) h)"
proof -
  have "\<exists>sp. SynthesizeSpan f (cx_GVKFor cx n ty) m st = Ret sp"
    using calmD(9) [OF assms(1), of n ty] by (auto simp: SynthesizeSpan_def case_prod_unfold Let_def elim!: returnsE)
  with assms(2) show ?thesis by (auto simp: act_lift_Ret)
qed

lemma one_mark_ClientDuck:
  "calm cx \<Longrightarrow> (\<And>x. e = Some x \<Longrightarrow> IsAlreadyExists x \<Longrightarrow> \<exists>r k n. x = ApiErr r k n) \<Longrightarrow>
    one_mark ''ServiceClientReady'' (ClientDuck_Reflect cx dx ch e)"
  by (cases e) (auto simp: ClientDuck_Reflect_def Let_def case_prod_unfold intro!: one_mark_rejected one_mark_when_ready one_mark_after_set
      one_mark_span one_mark_set_fail one_mark_get one_mark_as split: option.split)

lemma one_mark_component:
  assumes "quiet_go (ck_GVK ck)" "\<And>c w. quiet_go (snd (manage c w))"
  shows "one_mark ct (child_reconciler (ComponentChild_DesiredChild ck key) manage (ComponentChild_Reflect cx meta ct))"
  by (rule one_mark_child) (use assms in \<open>auto simp: ComponentChild_Reflect_def ComponentChild_DesiredChild_def Let_def intro!: one_mark_get one_mark_then_fail one_mark_as
      split: option.split\<close>)

text \<open>Listing the objects a child depends on.\<close>

lemma one_mark_listing:
  assumes "\<And>r w. quiet_go (desired r w)" "plain_rejections manage"
    and "\<And>k e. (\<And>x. e = Some x \<Longrightarrow> IsAlreadyExists x \<Longrightarrow> \<exists>r k n. x = ApiErr r k n) \<Longrightarrow> one_mark ct (reflect k e)"
  shows "one_mark ct (listing_child_reconciler desired manage reflect)"
  unfolding one_mark_def
proof (rule allI, goal_cases)
  case (1 s)
  let ?Q = "\<lambda>_ s'. \<exists>new. rx_Marks s' = rx_Marks s @ new \<and> reported [ct] new"
  let ?E = "\<lambda>s'. \<exists>new. rx_Marks s' = rx_Marks s @ new \<and> (reported [] new \<or> reported [ct] new)"
  show ?case
  proof (cases "desired (rx_Resource s) (rx_World s)")
    case (Ret c)
    obtain w' g where m: "manage c (rx_World s) = (w', g)" by (cases "manage c (rx_World s)")
    with assms(2) have q: "quiet_go g" by (metis plain_rejections_def snd_conv)
    show ?thesis
    proof (cases g)
      case (Ret p)
      obtain k e where p: "p = (k, e)" by (cases p)
      have "one_mark ct (reflect k e)"
        by (rule assms(3)) (use assms(2) m Ret p in \<open>auto simp: plain_rejections_def\<close>)
      from this [unfolded one_mark_def, rule_format, of "s\<lparr>rx_World := w'\<rparr>"]
      have "wpe (reflect k e) ?Q ?E (s\<lparr>rx_World := w'\<rparr>)" by simp
      with \<open>desired _ _ = Ret c\<close> m Ret p show ?thesis
        by (simp add: listing_child_reconciler_def wpe_simps act_registry_try_def wpe_def act_bind_def act_try_def act_world_def get_resource_def)
    next
      case (Fail e)
      with \<open>desired _ _ = Ret c\<close> m show ?thesis
        by (simp add: listing_child_reconciler_def act_registry_try_def wpe_def act_bind_def act_try_def act_world_def get_resource_def)
    qed (use q in simp)
  next
    case (Fail e)
    then show ?thesis
      by (simp add: listing_child_reconciler_def act_registry_try_def wpe_def act_bind_def act_try_def act_fail_def get_resource_def)
  next
    case (Panic p)
    with assms(1) [of "rx_Resource s" "rx_World s"] show ?thesis by simp
  qed
qed

text \<open>The sub manager reports nothing in the conditions of the definition.\<close>

definition silent :: "('r, 'kc, 'd, 't, 'w, unit) handler \<Rightarrow> bool" where
  "silent h \<longleftrightarrow> (\<forall>s. wpe h (\<lambda>_ s'. rx_Marks s' = rx_Marks s) (\<lambda>s'. rx_Marks s' = rx_Marks s) s)"

lemma one_mark_silent:
  assumes "silent h" "one_mark ct m" shows "one_mark ct (act_then h m)"
  unfolding one_mark_def wpe_then
proof (rule allI, goal_cases)
  case (1 s)
  show ?case
  proof (rule wpe_mono [OF assms(1) [unfolded silent_def, rule_format, of s]], goal_cases)
    case (1 _ s')
    with assms(2) [unfolded one_mark_def, rule_format, of s'] show ?case by simp
  qed simp
qed

lemma silent_established: "silent (DefinitionsEstablished_Sync cl own)"
  by (simp add: silent_def DefinitionsEstablished_Sync_def wpe_def act_fail_def act_ret_def)

lemma silent_get: "(\<And>r. silent (f r)) \<Longrightarrow> silent (act_bind get_resource f)"
  by (simp add: silent_def wpe_simps)

lemma one_mark_DuckSub:
  assumes "sequences sq" "\<And>t c. silent (submanager t c)"
  shows "one_mark ''ReconcilerRunning'' (ServiceResourceDefinitionDuckSubReconciler sq cl own submanager)"
proof -
  have "sq [a, b, c] = act_then a (act_then b c)" for a b c
    using assms(1) sequence_single [OF assms(1), of c] by (simp add: sequences_def)
  then show ?thesis
    unfolding ServiceResourceDefinitionDuckSubReconciler_def
    by (simp only:) (intro one_mark_silent silent_established silent_get assms(2) one_mark_as, simp)
qed

text \<open>The conditions of a definition, of a custom instance and of a custom client are well formed: whatever children
  and cluster answer, no request panics as long as no rejection is wrapped, the conditions it sets are an initial
  part of those of the kind, each once, in their order and with a reason, and all of them when the request returns nil.\<close>

theorem definition_conditions_well_formed:
  assumes "calm cx" "sequences sq" "sequences isq" "sequences csq"
    and "plain_rejections (dc_Lifecycle children)" "plain_rejections (dc_Instance children)" "plain_rejections (dc_Client children)"
    and "plain_rejections (dc_Duck children)" "\<And>t c. silent (submanager t c)"
    and "\<And>l w. quiet_go (dx_Lifecycles dx l w)" "\<And>n l w. quiet_go (dx_Instances dx n l w)"
    and "plain_rejections provide" "plain_rejections stamp" "quiet_go gvkFor" "\<And>c w. quiet_go (snd (component c w))"
  shows "marks_in_order ServiceResourceDefinitionConditions (ServiceResourceDefinitionReconciler sq cx dx own children submanager) \<and>
    marks_in_order ServiceInstanceDuckConditions (ServiceInstanceDuckReconciler isq dx cl gvk name provide) \<and>
    marks_in_order ServiceClientDuckConditions (ServiceClientDuckReconciler csq cx dx gvk gvkFor name stamp component)"
proof (intro conjI)
  show "marks_in_order ServiceResourceDefinitionConditions (ServiceResourceDefinitionReconciler sq cx dx own children submanager)"
    unfolding ServiceResourceDefinitionConditions_def ServiceResourceDefinitionReconciler_def
    by (intro marks_in_orderI assms(2) list_all2_Cons [THEN iffD2] list_all2_Nil [THEN iffD2] conjI TrueI one_mark_DuckSub assms(9)
        one_mark_managed one_mark_SRD_Lifecycle one_mark_SRD_Definition one_mark_SRD_Duck)
      (auto simp: SRD_Lifecycle_DesiredChild_def SRD_Instance_DesiredChild_def SRD_Client_DesiredChild_def SRD_Duck_DesiredChild_def Let_def
        intro: plain_quiet assms(5-8) plain_api [OF assms(6)] plain_api [OF assms(7)] plain_api [OF assms(8)])
  show "marks_in_order ServiceInstanceDuckConditions (ServiceInstanceDuckReconciler isq dx cl gvk name provide)"
    unfolding ServiceInstanceDuckConditions_def ServiceInstanceDuckReconciler_def
    by (intro marks_in_orderI assms(3) list_all2_Cons [THEN iffD2] list_all2_Nil [THEN iffD2] conjI TrueI one_mark_listing assms(12) one_mark_InstanceDuck)
      (auto simp: InstanceDuck_DesiredChild_def Let_def assms(10))
  show "marks_in_order ServiceClientDuckConditions (ServiceClientDuckReconciler csq cx dx gvk gvkFor name stamp component)"
    unfolding ServiceClientDuckConditions_def ServiceClientDuckReconciler_def
    by (intro marks_in_orderI assms(4) list_all2_Cons [THEN iffD2] list_all2_Nil [THEN iffD2] conjI TrueI one_mark_listing assms(13)
        one_mark_ClientDuck assms(1) one_mark_component assms(15))
      (auto simp: ClientDuck_DesiredChild_def Let_def assms(11,14) ServiceClientDuck_ComponentLike_def)
qed

section \<open>The lifecycle of a definition\<close>

lemma valid_component_ref_default: "component_ref_rule c m ref \<Longrightarrow> ComponentReference_Default c' ref = Ret ref"
  by (auto simp: component_ref_rule_def in_reach_def ComponentReference_Default_def Let_def)

lemma valid_repository_default: "RepositoryReference_Validate c p ref = Ret [] \<Longrightarrow> RepositoryReference_Default c' ref = Ret ref"
  by (auto simp: RepositoryReference_Validate_def RepositoryReference_Default_def Let_def split: if_splits)

lemma everywhere_in_reach: "om_Namespace m = [] \<or> om_Namespace m = Namespace c \<Longrightarrow> in_reach c m ns \<longleftrightarrow> ns \<noteq> []"
  by (auto simp: in_reach_def)

lemma valid_lifecycle_spec:
  assumes "ServiceLifecycleSpec_Validate (StashResource c m) p spec = Ret []"
  shows "ServiceLifecycleSpec_Default c' spec = Ret spec \<and>
    (om_Namespace m' = [] \<or> om_Namespace m' = Namespace c \<longrightarrow> ServiceLifecycleSpec_Validate (StashResource c m') p' spec = Ret [])"
proof -
  let ?g = "sl_Container spec"
  from assms have r: "RepositoryReference_Validate (StashResource c m) (child p ''repositoryRef'') (gs_RepositoryRef (gc_Generic ?g)) = Ret []"
    "component_ref_rule c m (gc_Ref ?g)" "capabilities_rule (gc_HostCapabilities ?g)" "in_reach c m (sa_Namespace (gc_ServiceAccountRef ?g))"
    "sa_Name (gc_ServiceAccountRef ?g) \<noteq> []" "component_ref_rule c m (sl_ClientRef spec)"
    by (auto simp: ServiceLifecycleSpec_Validate_def GenericContainerSpec_Validate_def GenericComponentSpec_Validate_def cat_errs_Cons_no_error
        ComponentReference_Validate_rule HostCapabilities_Validate_rule ServiceAccountReference_Validate_def in_reach_def Let_def split: if_splits)
  then have named: "gs_RepositoryRef (gc_Generic ?g) \<noteq> \<lparr>rr_Kind = [], rr_Name = []\<rparr>"
    by (auto simp: RepositoryReference_Validate_def)
  have ns: "sa_Namespace (gc_ServiceAccountRef ?g) \<noteq> []" using r(4) by (simp add: in_reach_def)
  have "ServiceLifecycleSpec_Default c' spec = Ret spec"
    using r(5) ns named by (simp add: ServiceLifecycleSpec_Default_def GenericContainerSpec_Default_def GenericComponentSpec_Default_def Let_def
        valid_component_ref_default [OF r(2)] valid_component_ref_default [OF r(6)] valid_repository_default [OF r(1)]
        ServiceAccountReference_Default_def HostCapabilities_Default_id)
  moreover have "ServiceLifecycleSpec_Validate (StashResource c m') p' spec = Ret []" if "om_Namespace m' = [] \<or> om_Namespace m' = Namespace c"
  proof -
    have "component_ref_rule c m' (gc_Ref ?g)" "component_ref_rule c m' (sl_ClientRef spec)"
      using r(2,6) everywhere_in_reach [OF that] by (auto simp: component_ref_rule_def in_reach_def)
    moreover have "RepositoryReference_Validate (StashResource c m') p'' (gs_RepositoryRef (gc_Generic ?g)) = Ret []" for p''
      using r(1) by (auto simp: RepositoryReference_Validate_def)
    ultimately show ?thesis
      using r(3,5) ns that by (auto simp: ServiceLifecycleSpec_Validate_def GenericContainerSpec_Validate_def GenericComponentSpec_Validate_def
          cat_errs_Cons_no_error ComponentReference_Validate_rule HostCapabilities_Validate_rule ServiceAccountReference_Validate_def Let_def)
  qed
  ultimately show ?thesis by blast
qed

text \<open>The lifecycle made for a definition the webhook admitted passes the webhook of lifecycles, in the namespace of the
  installation as the controller asks for and without one as the API server stores a cluster scoped object, and
  carries the label by which the controllers of the custom instances find it.\<close>

theorem definition_lifecycle_admitted:
  assumes "ServiceResourceDefinition_ValidateCreate c r0 = Ret ()" "ServiceResourceDefinition_Default c r0 = Ret r"
  shows "\<exists>m spec. SRD_Lifecycle_DesiredChild c r = Ret (Some (m, spec)) \<and> om_Namespace m = Namespace c \<and>
    (\<forall>ns st. ns \<in> {[], Namespace c} \<longrightarrow>
      ClusterServiceLifecycle_ValidateCreate c \<lparr>rs_Meta = m\<lparr>om_Namespace := ns\<rparr>, rs_Spec = spec, rs_Status = st\<rparr> = Ret ()) \<and>
    [definition_label \<mapsto> om_Name (rs_Meta r)] \<subseteq>\<^sub>m om_Labels m"
proof -
  let ?m = "(child_meta (rs_Meta r) definition_label '''' (om_Name (rs_Meta r) @ ''-''))\<lparr>om_Namespace := Namespace c\<rparr>"
  from assms have "ServiceLifecycleSpec_Validate (StashResource c (rs_Meta r)) (child (child (new_path []) ''spec'') ''lifecycle'') (srd_Lifecycle (rs_Spec r)) = Ret []"
    by (auto simp: ServiceResourceDefinition_ValidateCreate_def bind_to_aggregate_Ret ServiceResourceDefinition_Validate_def
        ServiceResourceDefinitionSpec_Validate_def)
  note valid = valid_lifecycle_spec [OF this]
  have "ClusterServiceLifecycle_ValidateCreate c \<lparr>rs_Meta = ?m\<lparr>om_Namespace := ns\<rparr>, rs_Spec = srd_Lifecycle (rs_Spec r), rs_Status = st\<rparr> = Ret ()"
    if "ns = [] \<or> ns = Namespace c" for ns st
  proof -
    have "ServiceLifecycleSpec_Validate (StashResource c (?m\<lparr>om_Namespace := ns\<rparr>)) p' (srd_Lifecycle (rs_Spec r)) = Ret []" for p'
      using that by (intro valid [THEN conjunct2, rule_format]) simp
    moreover have "ValidateCommonAnnotations p' (?m\<lparr>om_Namespace := ns\<rparr>) = []" for p'
      by (simp add: ValidateCommonAnnotations_no_error child_meta_def blank_meta_def)
    ultimately show ?thesis
      by (simp add: ClusterServiceLifecycle_ValidateCreate_def ClusterServiceLifecycle_Default_def ClusterServiceLifecycle_Validate_def Let_def
          bind_to_aggregate_Ret valid)
  qed
  then show ?thesis
    by (auto simp: SRD_Lifecycle_DesiredChild_def Let_def child_meta_def map_le_def)
qed

section \<open>Custom instances\<close>

lemma request_defaults: "mapM_go (ServiceInstanceRequest_Default c) rs = Ret rs"
  by (induction rs) (simp_all add: ServiceInstanceRequest_Default_id)

lemma instance_admitted: "ServiceInstance_ValidateCreate c \<lparr>rs_Meta = m, rs_Spec = \<lparr>si_Ref = \<lparr>slr_Kind = ''ClusterServiceLifecycle'', slr_Namespace = '''',
      slr_Name = l\<rparr>, si_Type = ty, si_Tier = tier, si_Requests = rs\<rparr>, rs_Status = st\<rparr> = Ret () \<longleftrightarrow>
    ValidateCommonAnnotations [] m = [] \<and> l \<noteq> [] \<and> ty \<noteq> [] \<and> (\<forall>q \<in> set rs. srq_Key q \<noteq> [] \<and> srq_Value q \<noteq> [])"
proof -
  have requests: "(\<forall>y \<in> set (indexed (\<lambda>i v. ServiceInstanceRequest_Validate c' (f i) v) rs). y = Ret []) \<longleftrightarrow>
      (\<forall>q \<in> set rs. srq_Key q \<noteq> [] \<and> srq_Value q \<noteq> [])" for c' f
    unfolding all_indexed by (simp add: ServiceInstanceRequest_Validate_def all_set_conv_all_nth)
  show ?thesis
    by (simp add: ServiceInstance_ValidateCreate_def ServiceInstance_Default_def ServiceInstanceSpec_Default_def ServiceLifecycleReference_Default_def
        request_defaults Let_def bind_to_aggregate_Ret ServiceInstance_Validate_def ServiceInstanceSpec_Validate_def
        ServiceLifecycleReference_Validate_def ValidateCommonAnnotations_no_error cat_errs_no_error [of "indexed _ _"] requests)
qed

text \<open>C40: the service instance made for a custom instance: it is in the same namespace and refers to the one lifecycle of the
  definition, the webhook admits it exactly when the custom instance names a type and complete requests, it
  keeps that lifecycle from being deleted, and the labels custom clients select by are on it, unless the label of
  the custom kind is the one of the definition.\<close>

theorem custom_instance_child:
  assumes "dx_Lifecycles dx [definition_label \<mapsto> name] w = Ret [l]"
  shows "\<exists>m spec. InstanceDuck_DesiredChild dx gvk name r w = Ret (Some (m, spec)) \<and> om_Namespace m = om_Namespace (rs_Meta r) \<and>
    (\<forall>c st. ServiceInstance_ValidateCreate c \<lparr>rs_Meta = m, rs_Spec = spec, rs_Status = st\<rparr> = Ret () \<longleftrightarrow>
      om_Name l \<noteq> [] \<and> sid_Type (rs_Spec r) \<noteq> [] \<and> (\<forall>q \<in> set (sid_Requests (rs_Spec r)). srq_Key q \<noteq> [] \<and> srq_Value q \<noteq> [])) \<and>
    (\<forall>c st lifecycle. rs_Meta lifecycle = l \<longrightarrow> (\<exists>d. ServiceInstance_Default c \<lparr>rs_Meta = m, rs_Spec = spec, rs_Status = st\<rparr> = Ret d \<and>
      refers_to ''ClusterServiceLifecycle'' False lifecycle d)) \<and>
    (kind_label dx gvk \<noteq> definition_label \<longrightarrow> instance_selector name (om_Name (rs_Meta r)) \<subseteq>\<^sub>m om_Labels m)"
proof -
  let ?m = "blank_meta\<lparr>om_Namespace := om_Namespace (rs_Meta r), om_GenerateName := om_Name (rs_Meta r) @ ''-'',
      om_Labels := (om_Labels (rs_Meta r))(definition_label \<mapsto> name, ''services.wa8s.reconciler.io/service-instance-duck'' \<mapsto> om_Name (rs_Meta r),
        kind_label dx gvk \<mapsto> om_Name (rs_Meta r))\<rparr>"
  have "ValidateCommonAnnotations [] ?m = []" by (simp add: ValidateCommonAnnotations_no_error blank_meta_def)
  moreover have "instance_selector name (om_Name (rs_Meta r)) \<subseteq>\<^sub>m om_Labels ?m" if "kind_label dx gvk \<noteq> definition_label"
    using that by (auto simp: map_le_def instance_selector_def definition_label_def)
  ultimately show ?thesis
    using assms by (simp add: InstanceDuck_DesiredChild_def Let_def instance_admitted ServiceInstance_Default_def ServiceInstanceSpec_Default_def
        ServiceLifecycleReference_Default_def request_defaults refers_to_def)
qed

section \<open>Custom clients\<close>

lemma listing_Ret: "listing_child_reconciler desired manage reflect s = (s', Ret x) \<longleftrightarrow> (\<exists>c w' k err. desired (rx_Resource s) (rx_World s) = Ret c \<and>
    manage c (rx_World s) = (w', Ret (k, err)) \<and> reflect k err (s\<lparr>rx_World := w'\<rparr>) = (s', Ret x))"
proof (cases "desired (rx_Resource s) (rx_World s)")
  case (Ret c)
  obtain w' g where m: "manage c (rx_World s) = (w', g)" by (cases "manage c (rx_World s)")
  with Ret show ?thesis
    by (cases g) (auto simp: listing_child_reconciler_def bind_Ret get_resource_def act_registry_try_def act_try_def act_world_def)
qed (auto simp: listing_child_reconciler_def bind_Ret get_resource_def act_registry_try_def act_try_def act_fail_def)

lemma component_child_Ret:
  assumes "child_reconciler (ComponentChild_DesiredChild ck key) manage (ComponentChild_Reflect cx meta ct) s = (s', Ret ())"
  shows "\<exists>mk. rx_Marks s' = rx_Marks s @ [mk] \<and> mk_Type mk = ct \<and> rx_Resource s' = rx_Resource s"
  using assms unfolding child_Ret
  by (elim exE conjE) (auto simp: ComponentChild_Reflect_def bind_Ret get_resource_def act_then_def act_fail_def mark_as_def split: option.splits if_splits)

lemma rejected_Ret:
  assumes "child_rejected dx ct err s = (s', Ret ())"
  shows "\<exists>mk. rx_Marks s' = rx_Marks s @ [mk] \<and> mk_Type mk = ct \<and> mk_Status mk = CFalse \<and> rx_Resource s' = rx_Resource s"
  using assms by (auto simp: child_rejected_def child_unknown_def stop_not_Ret mark_as_def bind_Ret act_lift_def split: if_splits go.splits)

lemma when_ready_Ret:
  assumes "when_ready cl ct msg st act s = (s', Ret ())"
  shows "(cl_IsTrue cl (cl_Get cl st ''Ready'') \<and> act s = (s', Ret ())) \<or>
    (\<not> cl_IsTrue cl (cl_Get cl st ''Ready'') \<and> (\<exists>mk. mk_Type mk = ct \<and> mk_Status mk \<noteq> CTrue \<and> s' = s\<lparr>rx_Marks := rx_Marks s @ [mk]\<rparr>))"
proof (cases "cl_IsTrue cl (cl_Get cl st ''Ready'')")
  case False
  with assms show ?thesis
    by (intro disjI2 conjI exI [of _ "Mark ct (if cl_IsFalse cl (cl_Get cl st ''Ready'') then CFalse else CUnknown) ''NotReady'' msg"])
      (auto simp: when_ready_def Let_def mark_as_def)
qed (use assms in \<open>simp add: when_ready_def Let_def\<close>)

lemma if_else_mono: "if b then P else Q \<Longrightarrow> (Q \<Longrightarrow> R) \<Longrightarrow> if b then P else R"
  by (cases b) simp_all

lemma client_duck_Ret:
  assumes "ClientDuck_Reflect cx dx ch e s = (s', Ret ())"
  shows "\<exists>mk. rx_Marks s' = rx_Marks s @ [mk] \<and> mk_Type mk = ''ServiceClientReady'' \<and>
    (mk_Status mk = CTrue \<longleftrightarrow> e = None \<and> (\<exists>c. ch = Some c \<and> cl_IsTrue (cx_conds cx) (cl_Get (cx_conds cx) (ob_Status c) ''Ready''))) \<and>
    (if mk_Status mk = CTrue then e = None \<and> (\<exists>c span. ch = Some c \<and> cl_IsTrue (cx_conds cx) (cl_Get (cx_conds cx) (ob_Status c) ''Ready'') \<and>
        SynthesizeSpan (digest_part (cx_lib cx)) (cx_GVKFor cx ''ServiceClient'' ('''', '''')) (rs_Meta (ob_Object c))
          (ComponentLike (scs_Component (rs_Status (ob_Object c)))) = Ret span \<and>
        om_UID (rs_Meta (rx_Resource s)) \<notin> span_uids span \<and>
        rs_Status (rx_Resource s') = (let st = rs_Status (ob_Object c) in \<lparr>scds_Component = (scs_Component st)\<lparr>gst_Trace := [span]\<rparr>,
          scds_ServiceBindingId = scs_ServiceBindingId st, scds_Binding = scs_Binding st, scds_RenewsAfter = scs_RenewsAfter st,
          scds_ExpiresAfter = scs_ExpiresAfter st\<rparr>))
     else rx_Resource s' = rx_Resource s)"
proof (cases e)
  case (Some x)
  with assms have "child_rejected dx ''ServiceClientReady'' x s = (s', Ret ())" by (simp add: ClientDuck_Reflect_def)
  from rejected_Ret [OF this] obtain mk where "rx_Marks s' = rx_Marks s @ [mk]" "mk_Type mk = ''ServiceClientReady''" "mk_Status mk = CFalse"
    "rx_Resource s' = rx_Resource s" by blast
  with Some show ?thesis by (intro exI [of _ mk]) simp
next
  case None
  show ?thesis
  proof (cases ch)
    case None
    with assms \<open>e = None\<close> show ?thesis
      by (intro exI [of _ "Mark ''ServiceClientReady'' CFalse ''Missing'' ''''"]) (auto simp: ClientDuck_Reflect_def mark_as_def)
  next
    case (Some c)
    note run = assms [unfolded ClientDuck_Reflect_def \<open>e = None\<close> Some Let_def, simplified option.case]
    from when_ready_Ret [OF run] show ?thesis
    proof (elim disjE exE conjE, goal_cases)
      case 1
      then show ?case
        unfolding act_then_def bind_Ret
        by (intro exI [of _ "Mark ''ServiceClientReady'' CTrue ''Ready'' ''''"])
          (clarsimp simp: set_resource_def bind_Ret act_lift_def get_resource_def mark_as_def act_fail_def ClientDuck_put_trace_def
            DetectTraceCycle_spec act_then_def \<open>e = None\<close> Some Let_def split: if_splits go.splits prod.splits)
    next
      case (2 mk)
      then show ?case by (intro exI [of _ mk]) (simp add: Some)
    qed
  qed
qed

text \<open>C39: a request of a custom client that returns nil asked for a service client of the one service instance that carries the
  name of the custom instance, with the rest of the spec unchanged.  It reports that client as ready exactly when the client was
  made without an error and is ready, and then the status is that of the client with a trace of the client alone, and the custom
  client does not occur in it; when it does not, because the client is rejected, missing or not ready, the status is left as it
  was.\<close>

theorem custom_client_publishes:
  assumes "sequences sq" "ServiceClientDuckReconciler sq cx dx gvk gvkFor name stamp component (request r w) = (s', Ret ())"
  shows "\<exists>i m w1 k e mk1 mk2. dx_Instances dx (om_Namespace (rs_Meta r)) (instance_selector name (sir_Name (sc_Ref (rs_Spec r)))) w = Ret [i] \<and>
    om_Namespace m = om_Namespace (rs_Meta r) \<and>
    stamp (Some (m, (rs_Spec r)\<lparr>sc_Ref := \<lparr>sir_Name = om_Name i\<rparr>\<rparr>)) w = (w1, Ret (k, e)) \<and>
    rx_Marks s' = [mk1, mk2] \<and> mk_Type mk1 = ''ServiceClientReady'' \<and> mk_Type mk2 = ''ChildComponent'' \<and>
    (mk_Status mk1 = CTrue \<longleftrightarrow> e = None \<and> (\<exists>c. k = Some c \<and> cl_IsTrue (cx_conds cx) (cl_Get (cx_conds cx) (ob_Status c) ''Ready''))) \<and>
    (if mk_Status mk1 = CTrue then e = None \<and> (\<exists>c span. k = Some c \<and> cl_IsTrue (cx_conds cx) (cl_Get (cx_conds cx) (ob_Status c) ''Ready'') \<and>
        SynthesizeSpan (digest_part (cx_lib cx)) (cx_GVKFor cx ''ServiceClient'' ('''', '''')) (rs_Meta (ob_Object c))
          (ComponentLike (scs_Component (rs_Status (ob_Object c)))) = Ret span \<and>
        om_UID (rs_Meta r) \<notin> span_uids span \<and>
        rs_Status (rx_Resource s') = (let st = rs_Status (ob_Object c) in \<lparr>scds_Component = (scs_Component st)\<lparr>gst_Trace := [span]\<rparr>,
          scds_ServiceBindingId = scs_ServiceBindingId st, scds_Binding = scs_Binding st, scds_RenewsAfter = scs_RenewsAfter st,
          scds_ExpiresAfter = scs_ExpiresAfter st\<rparr>))
     else rs_Status (rx_Resource s') = rs_Status r)"
proof -
  from assms(2) obtain s1 where A: "listing_child_reconciler (ClientDuck_DesiredChild dx gvk name) stamp (ClientDuck_Reflect cx dx) (request r w) = (s1, Ret ())"
    and B: "child_reconciler (ComponentChild_DesiredChild (ServiceClientDuck_ComponentLike gvkFor) (kind_label dx gvk)) component
      (ComponentChild_Reflect cx rs_Meta ''ChildComponent'') s1 = (s', Ret ())"
    unfolding ServiceClientDuckReconciler_def sequence_Ret [OF assms(1)] by blast
  from A obtain d w1 k e where 1: "ClientDuck_DesiredChild dx gvk name r w = Ret d" "stamp d w = (w1, Ret (k, e))"
    "ClientDuck_Reflect cx dx k e ((request r w)\<lparr>rx_World := w1\<rparr>) = (s1, Ret ())"
    unfolding listing_Ret by auto
  from 1(1) obtain i m where i: "dx_Instances dx (om_Namespace (rs_Meta r)) (instance_selector name (sir_Name (sc_Ref (rs_Spec r)))) w = Ret [i]"
      "d = Some (m, (rs_Spec r)\<lparr>sc_Ref := \<lparr>sir_Name = om_Name i\<rparr>\<rparr>)" "om_Namespace m = om_Namespace (rs_Meta r)"
    by (auto simp: ClientDuck_DesiredChild_def bind_go_eq_Ret Let_def length_Suc_conv split: if_splits)
  from component_child_Ret [OF B] obtain mk2 where 2: "rx_Marks s' = rx_Marks s1 @ [mk2]" "mk_Type mk2 = ''ChildComponent''" "rx_Resource s' = rx_Resource s1"
    by blast
  have req: "rx_Marks ((request r w)\<lparr>rx_World := w1\<rparr>) = []" "rx_Resource ((request r w)\<lparr>rx_World := w1\<rparr>) = r" by simp_all
  from client_duck_Ret [OF 1(3), unfolded req append_Nil] obtain mk1 where mk1: "rx_Marks s1 = [mk1]" "mk_Type mk1 = ''ServiceClientReady''"
    "mk_Status mk1 = CTrue \<longleftrightarrow> e = None \<and> (\<exists>c. k = Some c \<and> cl_IsTrue (cx_conds cx) (cl_Get (cx_conds cx) (ob_Status c) ''Ready''))"
    and st: "if mk_Status mk1 = CTrue then e = None \<and> (\<exists>c span. k = Some c \<and> cl_IsTrue (cx_conds cx) (cl_Get (cx_conds cx) (ob_Status c) ''Ready'') \<and>
        SynthesizeSpan (digest_part (cx_lib cx)) (cx_GVKFor cx ''ServiceClient'' ('''', '''')) (rs_Meta (ob_Object c))
          (ComponentLike (scs_Component (rs_Status (ob_Object c)))) = Ret span \<and>
        om_UID (rs_Meta r) \<notin> span_uids span \<and>
        rs_Status (rx_Resource s1) = (let st = rs_Status (ob_Object c) in \<lparr>scds_Component = (scs_Component st)\<lparr>gst_Trace := [span]\<rparr>,
          scds_ServiceBindingId = scs_ServiceBindingId st, scds_Binding = scs_Binding st, scds_RenewsAfter = scs_RenewsAfter st,
          scds_ExpiresAfter = scs_ExpiresAfter st\<rparr>))
     else rx_Resource s1 = r"
    by (elim exE conjE) (rule that)
  have "rx_Resource s1 = r \<Longrightarrow> rs_Status (rx_Resource s1) = rs_Status r" by simp
  from st this have st: "if mk_Status mk1 = CTrue then e = None \<and> (\<exists>c span. k = Some c \<and> cl_IsTrue (cx_conds cx) (cl_Get (cx_conds cx) (ob_Status c) ''Ready'') \<and>
        SynthesizeSpan (digest_part (cx_lib cx)) (cx_GVKFor cx ''ServiceClient'' ('''', '''')) (rs_Meta (ob_Object c))
          (ComponentLike (scs_Component (rs_Status (ob_Object c)))) = Ret span \<and>
        om_UID (rs_Meta r) \<notin> span_uids span \<and>
        rs_Status (rx_Resource s1) = (let st = rs_Status (ob_Object c) in \<lparr>scds_Component = (scs_Component st)\<lparr>gst_Trace := [span]\<rparr>,
          scds_ServiceBindingId = scs_ServiceBindingId st, scds_Binding = scs_Binding st, scds_RenewsAfter = scs_RenewsAfter st,
          scds_ExpiresAfter = scs_ExpiresAfter st\<rparr>))
     else rs_Status (rx_Resource s1) = rs_Status r"
    by (rule if_else_mono)
  show ?thesis
    by (rule exI [of _ i], rule exI [of _ m], rule exI [of _ w1], rule exI [of _ k], rule exI [of _ e],
        rule exI [of _ mk1], rule exI [of _ mk2],
        intro conjI mk1(3) st [folded 2(3)]) (use mk1(1,2) 1(2) i 2(1,2) in simp_all)
qed

section \<open>A concrete definition\<close>

definition demo_names :: "string \<Rightarrow> string \<Rightarrow> ServiceResourceDefinitionNames" where
  "demo_names plural kind = \<lparr>srn_Plural = plural, srn_ShortNames = [], srn_Kind = kind, srn_Categories = []\<rparr>"

definition demo_definition :: ServiceResourceDefinition where
  "demo_definition = \<lparr>rs_Meta = demo_named '''' ''valkey'', rs_Spec = \<lparr>srd_Group = ''db.example'', srd_InstanceNames = demo_names ''valkeys'' ''Valkey'',
     srd_ClientNames = demo_names ''valkeyclients'' ''ValkeyClient'', srd_Lifecycle = rs_Spec demo_lifecycle\<rparr>, rs_Status = ()\<rparr>"

definition demo_crd :: "unit CustomResourceDefinition" where
  "demo_crd = \<lparr>crd_Meta = blank_meta, crd_Group = '''', crd_Names = \<lparr>crn_Plural = '''', crn_Singular = '''', crn_Kind = '''', crn_ListKind = '''',
     crn_Categories = [], crn_ShortNames = []\<rparr>, crd_Conversion = '''', crd_Rest = ()\<rparr>"

definition demo_definitions :: "(unit, string list) definitions" where
  "demo_definitions = \<lparr>dx_DetailsKind = (\<lambda>e. ''kind''), dx_KebabCase = ToLower, dx_InstanceCRD = demo_crd, dx_ClientCRD = demo_crd,
     dx_Lifecycles = (\<lambda>l w. Ret [demo_named '''' ''valkey-x'']), dx_Instances = (\<lambda>n l w. Ret [demo_named n ''main-x''])\<rparr>"

definition demo_definition_children :: "(unit, string list) definition_children" where
  "demo_definition_children = \<lparr>
     dc_Lifecycle = (\<lambda>d w. (w, Ret (Some \<lparr>ob_Status = demo_ready, ob_Object = demo_lifecycle\<rparr>, None))),
     dc_Instance = (\<lambda>d w. (w @ map (\<lambda>c. om_Name (crd_Meta c)) (case d of None \<Rightarrow> [] | Some c \<Rightarrow> [c]),
       Ret (Some (''i'', [\<lparr>cn_Type = ''Established'', cn_Status = ''True'', cn_Reason = '''', cn_Message = ''''\<rparr>]), None))),
     dc_Client = (\<lambda>d w. (w @ map (\<lambda>c. om_Name (crd_Meta c)) (case d of None \<Rightarrow> [] | Some c \<Rightarrow> [c]),
       Ret (Some (''c'', [\<lparr>cn_Type = ''Established'', cn_Status = ''True'', cn_Reason = '''', cn_Message = ''''\<rparr>]), None))),
     dc_Duck = (\<lambda>d w. (w, Ret (Some (''d'', demo_ready), None)))\<rparr>"

definition demo_manager :: "(string \<times> string) list \<Rightarrow> duck_controller list \<Rightarrow>
    (ServiceResourceDefinition, string, string, string, string list, unit) handler" where
  "demo_manager types controllers s = (s\<lparr>rx_World := rx_World s @ map snd types\<rparr>, Ret ())"

definition demo_gvk_of :: "string \<Rightarrow> GroupVersionKind" where
  "demo_gvk_of kind = \<lparr>gvk_Group = ''db.example'', gvk_Version = ''v1alpha1'', gvk_Kind = kind\<rparr>"

definition demo_custom_instance :: ServiceInstanceDuck where
  "demo_custom_instance = \<lparr>rs_Meta = demo_named ''apps'' ''main'', rs_Spec = \<lparr>sid_Type = ''valkey'', sid_Tier = '''', sid_Requests = []\<rparr>,
     rs_Status = \<lparr>sids_ServiceInstanceId = ''''\<rparr>\<rparr>"

definition demo_custom_client :: ServiceClientDuck where
  "demo_custom_client = \<lparr>rs_Meta = (demo_named ''apps'' ''web'')\<lparr>om_UID := ''uid-web''\<rparr>, rs_Spec = \<lparr>sc_Ref = \<lparr>sir_Name = ''main''\<rparr>, sc_Scopes = [], sc_Duration = hour,
       sc_RenewBefore = 5 * minute, sc_RenewBeforePercentage = 33\<rparr>,
     rs_Status = \<lparr>scds_Component = \<lparr>gst_Image = '''', gst_WIT = None, gst_Trace = []\<rparr>, scds_ServiceBindingId = '''', scds_Binding = '''',
       scds_RenewsAfter = 0, scds_ExpiresAfter = 0\<rparr>\<rparr>"

definition demo_stamp :: "(ObjectMeta \<times> ServiceClientSpec) option \<Rightarrow> string list \<Rightarrow> string list \<times> (ServiceClient observed option \<times> gerr option) go" where
  "demo_stamp d w = (w, Ret (map_option (\<lambda>(m, spec). \<lparr>ob_Status = demo_ready, ob_Object = \<lparr>rs_Meta = m\<lparr>om_Name := ''web-x'', om_UID := ''uid-x''\<rparr>, rs_Spec = spec,
     rs_Status = \<lparr>scs_Component = \<lparr>gst_Image = ''r@sha256:1'', gst_WIT = None, gst_Trace = []\<rparr>, scs_ServiceBindingId = ''uid-b'', scs_Binding = '''',
       scs_RenewsAfter = 7, scs_ExpiresAfter = 9\<rparr>\<rparr>\<rparr>) d, None))"

definition demo_component_made :: "(ObjectMeta \<times> ComponentSpec) option \<Rightarrow> string list \<Rightarrow> string list \<times> (Component option \<times> gerr option) go" where
  "demo_component_made d w = (w, Ret (map_option (\<lambda>(m, spec). \<lparr>rs_Meta = m, rs_Spec = spec,
     rs_Status = \<lparr>gst_Image = '''', gst_WIT = None, gst_Trace = []\<rparr>\<rparr>) d, None))"

lemma definition_request_witness:
  "\<exists>s4. rx_World s4 = [''valkeys.db.example'', ''valkeyclients.db.example''] \<and>
     ServiceResourceDefinitionReconciler run_sequence any_cluster demo_definitions demo_ready demo_definition_children demo_manager (request demo_definition []) =
       act_then (demo_manager (LocalTypes demo_definition) (SetupWithSubManager demo_definition)) (mark_as ''ReconcilerRunning'' CTrue ''Running'' '''') s4"
proof -
  let ?cx = "any_cluster :: (string, string, string, string, string, string list) cluster"
  let ?up = "Some (''i'', [\<lparr>cn_Type = ''Established'', cn_Status = ''True'', cn_Reason = '''', cn_Message = ''''\<rparr>])"
  let ?up' = "Some (''c'', [\<lparr>cn_Type = ''Established'', cn_Status = ''True'', cn_Reason = '''', cn_Message = ''''\<rparr>])"
  obtain dl dd where d: "SRD_Lifecycle_DesiredChild (cx_ctx ?cx) demo_definition = Ret dl" "SRD_Duck_DesiredChild demo_definition = Ret dd"
    by (simp add: SRD_Lifecycle_DesiredChild_def SRD_Duck_DesiredChild_def Let_def)
  have c: "dc_Lifecycle demo_definition_children dl [] = ([], Ret (Some \<lparr>ob_Status = demo_ready, ob_Object = demo_lifecycle\<rparr>, None))"
    "dc_Instance demo_definition_children (Some (definition_crd ''instance'' (srd_InstanceNames (rs_Spec demo_definition)) (dx_InstanceCRD demo_definitions)
       demo_definition)) [] = ([''valkeys.db.example''], Ret (?up, None))"
    "dc_Client demo_definition_children (Some (definition_crd ''client'' (srd_ClientNames (rs_Spec demo_definition)) (dx_ClientCRD demo_definitions)
       demo_definition)) [''valkeys.db.example''] = ([''valkeys.db.example'', ''valkeyclients.db.example''], Ret (?up', None))"
    "dc_Duck demo_definition_children dd [''valkeys.db.example'', ''valkeyclients.db.example''] =
      ([''valkeys.db.example'', ''valkeyclients.db.example''], Ret (Some (''d'', demo_ready), None))"
    by (simp_all add: demo_definition_children_def definition_crd_def demo_definition_def demo_names_def)
  have "established ?up" "established ?up'" by (simp_all add: established_def established_status_def)
  with definition_request [where cx = ?cx and own = demo_ready and submanager = demo_manager, OF run_sequence_law d(1) c(1-3) d(2) c(4)]
  show ?thesis by (simp only: simp_thms if_True) blast
qed

lemma definition_conditions_well_formed_witness:
  "marks_in_order [''LifecycleReady'', ''InstanceDefinitionReady'', ''ClientDefinitionReady'', ''ClientComponentDuckReady'', ''ReconcilerRunning'']
     (ServiceResourceDefinitionReconciler run_sequence any_cluster demo_definitions demo_ready demo_definition_children demo_manager)"
proof -
  have plain: "plain_rejections (dc_Lifecycle demo_definition_children)" "plain_rejections (dc_Instance demo_definition_children)"
    "plain_rejections (dc_Client demo_definition_children)" "plain_rejections (dc_Duck demo_definition_children)" "plain_rejections demo_stamp"
    "plain_rejections (\<lambda>c w. (w, Ret (None, None)))"
    by (simp_all add: plain_rejections_def demo_definition_children_def demo_stamp_def)
  have quiet: "\<And>t c. silent (demo_manager t c)" "\<And>l w. quiet_go (dx_Lifecycles demo_definitions l w)" "\<And>n l w. quiet_go (dx_Instances demo_definitions n l w)"
    "quiet_go (Ret (demo_gvk_of ''ValkeyClient''))" "\<And>c w. quiet_go (snd (demo_component_made c w))"
    by (simp_all add: silent_def demo_manager_def wpe_def demo_definitions_def demo_component_made_def)
  from definition_conditions_well_formed [where own = demo_ready, OF any_calm run_sequence_law run_sequence_law run_sequence_law plain(1-4) quiet(1-3) plain(6,5) quiet(4,5), THEN conjunct1]
  show ?thesis unfolding ServiceResourceDefinitionConditions_def .
qed

lemma custom_instance_child_witness:
  "\<exists>m spec. InstanceDuck_DesiredChild demo_definitions (demo_gvk_of ''Valkey'') ''valkey'' demo_custom_instance [] = Ret (Some (m, spec)) \<and>
     ServiceInstance_ValidateCreate sample_ctx \<lparr>rs_Meta = m, rs_Spec = spec, rs_Status = \<lparr>sis_ServiceInstanceId = ''''\<rparr>\<rparr> = Ret ()"
proof -
  have l: "dx_Lifecycles demo_definitions [definition_label \<mapsto> ''valkey''] [] = Ret [demo_named '''' ''valkey-x'']"
    by (simp add: demo_definitions_def)
  have ok: "om_Name (demo_named '''' ''valkey-x'') \<noteq> []" "sid_Type (rs_Spec demo_custom_instance) \<noteq> []" "sid_Requests (rs_Spec demo_custom_instance) = []"
    by (simp_all add: demo_named_def demo_custom_instance_def)
  from custom_instance_child [OF l, of "demo_gvk_of ''Valkey''" demo_custom_instance] ok show ?thesis by auto
qed

lemma custom_client_publishes_witness:
  "\<exists>s' span. ServiceClientDuckReconciler run_sequence any_cluster demo_definitions (demo_gvk_of ''ValkeyClient'') (Ret (demo_gvk_of ''ValkeyClient'')) ''valkey''
      demo_stamp demo_component_made (request demo_custom_client []) = (s', Ret ()) \<and>
    gst_Trace (scds_Component (rs_Status (rx_Resource s'))) = [span] \<and> ''uid-web'' \<notin> span_uids span \<and> scds_ExpiresAfter (rs_Status (rx_Resource s')) = 9"
proof -
  let ?run = "ServiceClientDuckReconciler run_sequence any_cluster demo_definitions (demo_gvk_of ''ValkeyClient'') (Ret (demo_gvk_of ''ValkeyClient'')) ''valkey''
      demo_stamp demo_component_made (request demo_custom_client [])"
  have "snd ?run = Ret ()" by code_simp
  then have run: "?run = (fst ?run, Ret ())" by (simp add: prod_eq_iff)
  have true: "mk_Status (hd (rx_Marks (fst ?run))) = CTrue" by code_simp
  from custom_client_publishes [OF run_sequence_law run]
  obtain span where "gst_Trace (scds_Component (rs_Status (rx_Resource (fst ?run)))) = [span]" "''uid-web'' \<notin> span_uids span"
      "scds_ExpiresAfter (rs_Status (rx_Resource (fst ?run))) = 9"
    using true by (elim exE conjE) (auto simp: demo_stamp_def demo_custom_client_def Let_def)
  with run show ?thesis by blast
qed

definition demo_admitted_definition :: ServiceResourceDefinition where
  "demo_admitted_definition = demo_definition\<lparr>rs_Spec := (rs_Spec demo_definition)\<lparr>srd_Lifecycle := rs_Spec used_lifecycle\<rparr>\<rparr>"

lemma definition_lifecycle_admitted_witness:
  "\<exists>r m spec. ServiceResourceDefinition_Default sample_ctx demo_admitted_definition = Ret r \<and> SRD_Lifecycle_DesiredChild sample_ctx r = Ret (Some (m, spec)) \<and>
     ClusterServiceLifecycle_ValidateCreate sample_ctx \<lparr>rs_Meta = m\<lparr>om_Namespace := []\<rparr>, rs_Spec = spec, rs_Status = rs_Status demo_lifecycle\<rparr> = Ret ()"
proof -
  have ok: "ServiceResourceDefinition_ValidateCreate sample_ctx demo_admitted_definition = Ret ()" by code_simp
  then obtain r where r: "ServiceResourceDefinition_Default sample_ctx demo_admitted_definition = Ret r"
    by (auto simp: ServiceResourceDefinition_ValidateCreate_def bind_go_eq_Ret)
  from definition_lifecycle_admitted [OF ok r] r show ?thesis by blast
qed

end
