(* ===== verification/Service_Credentials.thy ===== *)
theory Service_Credentials
  imports Service_Clients
begin

text \<open>
  The HTTP server the lifecycle services call to publish, fetch and destroy the credentials of a
  binding (\<^verbatim>\<open>services_webhook.go\<close>).  The API client and the JSON library are parameters; a response is
  its status code, its content type and its body.
\<close>

section \<open>The handlers\<close>

text \<open>\<open>kx_List\<close> lists the secrets with an id in the cache, \<open>kx_ApiList\<close> at the API server; \<open>kx_Encode\<close> is what
  \<^verbatim>\<open>json.Encoder\<close> writes for a map, \<open>kx_Decode\<close> is \<^verbatim>\<open>json.Unmarshal\<close> into one.\<close>

record 'w secret_client =
  kx_List :: "string \<Rightarrow> 'w \<Rightarrow> secret list go"
  kx_ApiList :: "string \<Rightarrow> 'w \<Rightarrow> secret list go"
  kx_Update :: "secret \<Rightarrow> 'w \<Rightarrow> 'w \<times> unit go"
  kx_ClearFinalizer :: "secret \<Rightarrow> string \<Rightarrow> 'w \<Rightarrow> 'w \<times> unit go"
  kx_Encode :: "(string \<rightharpoonup> string) \<Rightarrow> string go"
  kx_Decode :: "string \<Rightarrow> (string \<rightharpoonup> string) go"

record credentials_request =
  rq_ServiceId :: string
  rq_ServiceCredentials :: string

record response =
  rp_Code :: int
  rp_ContentType :: string
  rp_Body :: string

definition plain :: "int \<Rightarrow> response" where
  "plain code = \<lparr>rp_Code = code, rp_ContentType = '''', rp_Body = ''''\<rparr>"

definition ErrUnknownSecret :: gerr where
  "ErrUnknownSecret = Sentinel ''unknown secret''"

definition loadSecret :: "'w secret_client \<Rightarrow> string \<Rightarrow> 'w \<Rightarrow> secret option go" where
  "loadSecret kx i w = bind_go (kx_List kx i w) (\<lambda>items. case items of
     [s] \<Rightarrow> Ret (Some s)
   | _ \<Rightarrow> bind_go (kx_ApiList kx i w) (\<lambda>items. case items of [s] \<Rightarrow> Ret (Some s) | _ \<Rightarrow> Ret None))"

definition retrieveCredentials :: "'w secret_client \<Rightarrow> string \<Rightarrow> 'w \<Rightarrow> (string \<rightharpoonup> string) go" where
  "retrieveCredentials kx i w = bind_go (loadSecret kx i w) (\<lambda>secret. case secret of
     None \<Rightarrow> Fail ErrUnknownSecret | Some s \<Rightarrow> Ret (se_Data s))"

definition updateCredentials :: "'w secret_client \<Rightarrow> string \<Rightarrow> (string \<rightharpoonup> string) \<Rightarrow> 'w \<Rightarrow> 'w \<times> unit go" where
  "updateCredentials kx i creds w = (case loadSecret kx i w of
     Ret (Some s) \<Rightarrow> kx_Update kx (s\<lparr>se_Data := creds\<rparr>) w
   | Ret None \<Rightarrow> (w, Fail ErrUnknownSecret)
   | Fail err \<Rightarrow> (w, Fail err)
   | Panic m \<Rightarrow> (w, Panic m))"

definition deleteCredentials :: "'w secret_client \<Rightarrow> string \<Rightarrow> 'w \<Rightarrow> 'w \<times> unit go" where
  "deleteCredentials kx i w = (case loadSecret kx i w of
     Ret (Some s) \<Rightarrow> kx_ClearFinalizer kx s ServiceCredentialFinalizer w
   | Ret None \<Rightarrow> (w, Ret ())
   | Fail err \<Rightarrow> (w, Fail err)
   | Panic m \<Rightarrow> (w, Panic m))"

text \<open>An encoding error comes after the header of the content type was added.\<close>

definition fetchCredentials :: "'w secret_client \<Rightarrow> credentials_request \<Rightarrow> 'w \<Rightarrow> response go" where
  "fetchCredentials kx r w = (if rq_ServiceId r = '''' then Ret (plain 400)
     else (case retrieveCredentials kx (rq_ServiceId r) w of
       Fail err \<Rightarrow> Ret (plain 500)
     | Panic m \<Rightarrow> Panic m
     | Ret creds \<Rightarrow> (case kx_Encode kx creds of
         Ret body \<Rightarrow> Ret \<lparr>rp_Code = 200, rp_ContentType = ''application/json'', rp_Body = body\<rparr>
       | Fail err \<Rightarrow> Ret ((plain 500)\<lparr>rp_ContentType := ''application/json''\<rparr>)
       | Panic m \<Rightarrow> Panic m)))"

definition publishCredentials :: "'w secret_client \<Rightarrow> credentials_request \<Rightarrow> 'w \<Rightarrow> 'w \<times> response go" where
  "publishCredentials kx r w = (if rq_ServiceId r = '''' then (w, Ret (plain 400))
     else (case kx_Decode kx (rq_ServiceCredentials r) of
       Fail err \<Rightarrow> (w, Ret (plain 400))
     | Panic m \<Rightarrow> (w, Panic m)
     | Ret creds \<Rightarrow> (case updateCredentials kx (rq_ServiceId r) creds w of
         (w', Ret _) \<Rightarrow> (w', Ret (plain 204))
       | (w', Fail err) \<Rightarrow> (w', Ret (plain 500))
       | (w', Panic m) \<Rightarrow> (w', Panic m))))"

definition destroyCredentials :: "'w secret_client \<Rightarrow> credentials_request \<Rightarrow> 'w \<Rightarrow> 'w \<times> response go" where
  "destroyCredentials kx r w = (if rq_ServiceId r = '''' then (w, Ret (plain 400))
     else (case deleteCredentials kx (rq_ServiceId r) w of
         (w', Ret _) \<Rightarrow> (w', Ret (plain 204))
       | (w', Fail err) \<Rightarrow> (w', Ret (plain (if errors_Is err ErrUnknownSecret then 204 else 500)))
       | (w', Panic m) \<Rightarrow> (w', Panic m)))"

text \<open>The routes of the server; any other path is not found, as \<^verbatim>\<open>http.ServeMux\<close> documents it.\<close>

definition servicesWebhooks_Start :: "'w secret_client \<Rightarrow> string \<Rightarrow> credentials_request \<Rightarrow> 'w \<Rightarrow> 'w \<times> response go" where
  "servicesWebhooks_Start kx p r w =
     (if p = ''/services/credentials/fetch'' then (w, fetchCredentials kx r w)
      else if p = ''/services/credentials/publish'' then publishCredentials kx r w
      else if p = ''/services/credentials/destroy'' then destroyCredentials kx r w
      else (w, Ret \<lparr>rp_Code = 404, rp_ContentType = ''text/plain; charset=utf-8'', rp_Body = ''404 page not found'' @ [CHR 0x0A]\<rparr>))"

section \<open>Publishing and fetching\<close>

definition same_key :: "secret \<Rightarrow> secret \<Rightarrow> bool" where
  "same_key s t \<longleftrightarrow> om_Namespace (se_Meta s) = om_Namespace (se_Meta t) \<and> om_Name (se_Meta s) = om_Name (se_Meta t)"

definition has_id :: "string \<Rightarrow> secret \<Rightarrow> bool" where
  "has_id i s \<longleftrightarrow> om_Labels (se_Meta s) ''services.wa8s.reconciler.io/id'' = Some i"

definition same_version :: "secret \<Rightarrow> secret \<Rightarrow> bool" where
  "same_version s t \<longleftrightarrow> same_key s t \<and> om_ResourceVersion (se_Meta s) = om_ResourceVersion (se_Meta t)"

definition reversioned :: "string \<Rightarrow> secret \<Rightarrow> secret" where
  "reversioned v s = s\<lparr>se_Meta := (se_Meta s)\<lparr>om_ResourceVersion := v\<rparr>\<rparr>"

definition replaced :: "secret \<Rightarrow> string \<Rightarrow> secret list \<Rightarrow> secret list" where
  "replaced s v = map (\<lambda>t. if same_key s t then reversioned v s else t)"

text \<open>The API server and its clients, as Kubernetes documents them: a list of the API reader shows the secrets stored by
  their label, a list of the cached client shows those of a cache, which may be old; an update of an object succeeds only while
  the stored one has the same resource version, and replaces it under a new version.\<close>

definition serves :: "('w \<Rightarrow> secret list) \<Rightarrow> ('w \<Rightarrow> secret list) \<Rightarrow> 'w secret_client \<Rightarrow> bool" where
  "serves secrets cached kx \<longleftrightarrow> (\<forall>i w. kx_List kx i w = Ret (filter (has_id i) (cached w))) \<and>
     (\<forall>i w. kx_ApiList kx i w = Ret (filter (has_id i) (secrets w))) \<and>
     (\<forall>s w w'. kx_Update kx s w = (w', Ret ()) \<longrightarrow> (\<exists>t \<in> set (secrets w). same_version s t) \<and> (\<exists>v. secrets w' = replaced s v (secrets w)))"

text \<open>A secret of a cache with the version of the stored one is the stored one.\<close>

definition versioned :: "secret list \<Rightarrow> secret list \<Rightarrow> bool" where
  "versioned old new \<longleftrightarrow> (\<forall>s \<in> set old. \<forall>t \<in> set new. same_version s t \<longrightarrow> s = t)"

definition single :: "'a list \<Rightarrow> 'a option" where
  "single xs = (case xs of [x] \<Rightarrow> Some x | _ \<Rightarrow> None)"

lemma single_Some: "single xs = Some x \<longleftrightarrow> xs = [x]"
  by (auto simp: single_def split: list.splits)

lemma loadSecret_serves: "serves secrets cached kx \<Longrightarrow> loadSecret kx i w =
  Ret (case single (filter (has_id i) (cached w)) of Some s \<Rightarrow> Some s | None \<Rightarrow> single (filter (has_id i) (secrets w)))"
  by (auto simp: loadSecret_def serves_def single_def split: list.split)

lemma filter_replaced:
  assumes "s \<in> set ss" "has_id i s" "\<And>t. t \<in> set ss \<Longrightarrow> same_key s t \<Longrightarrow> t = s"
  shows "filter (has_id j) (replaced (s\<lparr>se_Data := d\<rparr>) v ss) =
    map (\<lambda>t. if t = s then reversioned v (s\<lparr>se_Data := d\<rparr>) else t) (filter (has_id j) ss)"
proof -
  have k: "same_key (s\<lparr>se_Data := d\<rparr>) t \<longleftrightarrow> t = s" if "t \<in> set ss" for t
    using assms(3) [OF that] by (auto simp: same_key_def)
  have h: "has_id j (reversioned v (s\<lparr>se_Data := d\<rparr>)) \<longleftrightarrow> has_id j s" by (simp add: has_id_def reversioned_def)
  have "replaced (s\<lparr>se_Data := d\<rparr>) v ss = map (\<lambda>t. if t = s then reversioned v (s\<lparr>se_Data := d\<rparr>) else t) ss"
    using k by (simp add: replaced_def)
  moreover have "filter (has_id j) (map (\<lambda>t. if t = s then reversioned v (s\<lparr>se_Data := d\<rparr>) else t) ts) =
      map (\<lambda>t. if t = s then reversioned v (s\<lparr>se_Data := d\<rparr>) else t) (filter (has_id j) ts)" for ts
    using h by (induction ts) auto
  ultimately show ?thesis by simp
qed

text \<open>The answer with a map of credentials, and a fetch of those with an id.\<close>

definition answered :: "'w secret_client \<Rightarrow> (string \<rightharpoonup> string) \<Rightarrow> response go" where
  "answered kx creds = (case kx_Encode kx creds of
     Ret body \<Rightarrow> Ret \<lparr>rp_Code = 200, rp_ContentType = ''application/json'', rp_Body = body\<rparr>
   | Fail err \<Rightarrow> Ret ((plain 500)\<lparr>rp_ContentType := ''application/json''\<rparr>) | Panic m \<Rightarrow> Panic m)"

abbreviation fetched :: "'w secret_client \<Rightarrow> string \<Rightarrow> 'w \<Rightarrow> response go" where
  "fetched kx i w \<equiv> snd (servicesWebhooks_Start kx ''/services/credentials/fetch'' \<lparr>rq_ServiceId = i, rq_ServiceCredentials = ''''\<rparr> w)"

lemma fetched_serves: "serves secrets cached kx \<Longrightarrow> i \<noteq> '''' \<Longrightarrow> fetched kx i w =
  (case single (filter (has_id i) (cached w)) of Some s \<Rightarrow> answered kx (se_Data s)
   | None \<Rightarrow> (case single (filter (has_id i) (secrets w)) of Some s \<Rightarrow> answered kx (se_Data s) | None \<Rightarrow> Ret (plain 500)))"
  by (auto simp: servicesWebhooks_Start_def fetchCredentials_def retrieveCredentials_def loadSecret_serves answered_def split: option.split)

text \<open>What an update that succeeds leaves in the store, whichever list it read the secret from.\<close>

lemma update_stored:
  assumes "serves secrets cached kx" "distinct (map (\<lambda>s. (om_Namespace (se_Meta s), om_Name (se_Meta s))) (secrets w))"
    and "versioned (cached w) (secrets w)" "length (filter (has_id i) (secrets w)) \<le> 1" "updateCredentials kx i creds w = (w', Ret ())"
  shows "(\<exists>s. filter (has_id i) (secrets w') = [s] \<and> se_Data s = creds) \<and>
    (\<forall>j. j \<noteq> i \<longrightarrow> filter (has_id j) (secrets w') = filter (has_id j) (secrets w))"
proof -
  from assms(5) obtain s where l: "loadSecret kx i w = Ret (Some s)" and k: "kx_Update kx (s\<lparr>se_Data := creds\<rparr>) w = (w', Ret ())"
    by (auto simp: updateCredentials_def split: go.splits option.splits)
  obtain v t where v: "secrets w' = replaced (s\<lparr>se_Data := creds\<rparr>) v (secrets w)" and t: "t \<in> set (secrets w)" "same_version (s\<lparr>se_Data := creds\<rparr>) t"
    using assms(1) k unfolding serves_def by blast
  from t(2) have sv: "same_version s t" by (simp add: same_version_def same_key_def)
  from l have "filter (has_id i) (cached w) = [s] \<or> filter (has_id i) (secrets w) = [s]"
    by (auto simp: loadSecret_serves [OF assms(1)] single_Some split: option.splits)
  then have in_list: "s \<in> set (cached w) \<or> s \<in> set (secrets w)" and id: "has_id i s" by (auto simp: filter_eq_Cons_iff)
  then have s: "s \<in> set (secrets w)" using assms(3) sv t(1) by (auto simp: versioned_def)
  have uniq: "t = s" if "t \<in> set (secrets w)" "same_key s t" for t
    using that s assms(2) by (auto simp: distinct_map same_key_def dest!: inj_onD)
  have f: "filter (has_id j) (secrets w') = map (\<lambda>t. if t = s then reversioned v (s\<lparr>se_Data := creds\<rparr>) else t) (filter (has_id j) (secrets w))" for j
    unfolding v using s id uniq by (rule filter_replaced)
  have "s \<in> set (filter (has_id i) (secrets w))" using s id by simp
  with assms(4) have "filter (has_id i) (secrets w) = [s]" by (cases "filter (has_id i) (secrets w)") auto
  then have "\<exists>s. filter (has_id i) (secrets w') = [s] \<and> se_Data s = creds" by (simp add: f reversioned_def)
  moreover have "filter (has_id j) (secrets w') = filter (has_id j) (secrets w)" if "j \<noteq> i" for j
    using that id unfolding f by (intro map_idI) (auto simp: has_id_def)
  ultimately show ?thesis by blast
qed

text \<open>C30: credentials published for a binding and what is fetched for it afterwards: once publishing was answered with
  204, the stored secret of that id holds exactly the decoded map and those of other ids are untouched; and as long as nobody writes
  the secrets again, a fetch of the id is answered with the map of the single secret the cache shows for it, which may be an older one,
  and with the encoding of exactly the published map when the cache shows the store, or shows no single secret; a fetch of another
  id is answered as before while the cache stays.\<close>

theorem publish_fetch:
  assumes "serves secrets cached kx" "distinct (map (\<lambda>s. (om_Namespace (se_Meta s), om_Name (se_Meta s))) (secrets w))"
    and "versioned (cached w) (secrets w)" "length (filter (has_id i) (secrets w)) \<le> 1"
    and "servicesWebhooks_Start kx ''/services/credentials/publish'' \<lparr>rq_ServiceId = i, rq_ServiceCredentials = text\<rparr> w = (w', Ret (plain 204))"
  shows "\<exists>creds. kx_Decode kx text = Ret creds \<and>
    (\<exists>s. filter (has_id i) (secrets w') = [s] \<and> se_Data s = creds) \<and>
    (\<forall>j. j \<noteq> i \<longrightarrow> filter (has_id j) (secrets w') = filter (has_id j) (secrets w)) \<and>
    (\<forall>v. secrets v = secrets w' \<longrightarrow>
      fetched kx i v = answered kx (case filter (has_id i) (cached v) of [old] \<Rightarrow> se_Data old | _ \<Rightarrow> creds) \<and>
      (cached v = secrets v \<longrightarrow> fetched kx i v = answered kx creds) \<and>
      (\<forall>j. j \<noteq> i \<longrightarrow> cached v = cached w \<longrightarrow> fetched kx j v = fetched kx j w))"
proof -
  from assms(5) obtain creds where i: "i \<noteq> ''''" and c: "kx_Decode kx text = Ret creds" and u: "updateCredentials kx i creds w = (w', Ret ())"
    by (auto simp: servicesWebhooks_Start_def publishCredentials_def plain_def split: if_splits go.splits prod.splits)
  note stored = update_stored [OF assms(1-4) u]
  then obtain s where s: "filter (has_id i) (secrets w') = [s]" "se_Data s = creds" by blast
  have own: "fetched kx i v = answered kx (case filter (has_id i) (cached v) of [old] \<Rightarrow> se_Data old | _ \<Rightarrow> creds)" if "secrets v = secrets w'" for v
    unfolding fetched_serves [OF assms(1) i] that s(1) using s(2) by (auto simp: single_def split: list.split)
  moreover have "fetched kx i v = answered kx creds" if "secrets v = secrets w'" "cached v = secrets v" for v
    using own [OF that(1)] that s by simp
  moreover have "fetched kx j v = fetched kx j w" if "secrets v = secrets w'" "j \<noteq> i" "cached v = cached w" for v j
  proof (cases "j = ''''")
    case False
    from stored that(2) have "filter (has_id j) (secrets w') = filter (has_id j) (secrets w)" by blast
    then show ?thesis by (simp only: fetched_serves [OF assms(1) False] that)
  qed (simp add: servicesWebhooks_Start_def fetchCredentials_def)
  ultimately show ?thesis using c stored by blast
qed

text \<open>A world that is the secrets stored and those of a cache, and a text with one entry.\<close>

definition demo_client_api :: "(secret list \<times> secret list) secret_client" where
  "demo_client_api = \<lparr>kx_List = (\<lambda>i w. Ret (filter (has_id i) (snd w))), kx_ApiList = (\<lambda>i w. Ret (filter (has_id i) (fst w))),
     kx_Update = (\<lambda>s w. if list_ex (same_version s) (fst w) then ((replaced s ''2'' (fst w), snd w), Ret ()) else (w, Fail (Sentinel ''conflict''))),
     kx_ClearFinalizer = (\<lambda>s f w. (w, Ret ())),
     kx_Encode = (\<lambda>m. case m ''user'' of None \<Rightarrow> Ret ''{}'' | Some u \<Rightarrow> Ret u), kx_Decode = (\<lambda>t. Ret [''user'' \<mapsto> t])\<rparr>"

definition demo_secrets :: "secret list" where
  "demo_secrets = map (\<lambda>b. \<lparr>se_Meta = blank_meta\<lparr>om_Namespace := ''apps'', om_Name := ''service-binding-'' @ b, om_ResourceVersion := ''1'',
     om_Labels := [''services.wa8s.reconciler.io/id'' \<mapsto> b]\<rparr>, se_Data = Map.empty\<rparr>) [''1'', ''2'']"

definition demo_published :: "secret list \<times> secret list" where
  "demo_published = fst (servicesWebhooks_Start demo_client_api ''/services/credentials/publish'' \<lparr>rq_ServiceId = ''1'', rq_ServiceCredentials = ''root''\<rparr> (demo_secrets, []))"

lemma demo_serves: "serves fst snd demo_client_api"
  by (auto simp: serves_def demo_client_api_def list_ex_iff split: if_splits)

text \<open>Published before the cache has the secrets, and read through an empty cache, an old one and one that caught up.\<close>

lemma publish_fetch_witness:
  "fetched demo_client_api ''1'' demo_published = Ret \<lparr>rp_Code = 200, rp_ContentType = ''application/json'', rp_Body = ''root''\<rparr> \<and>
   fetched demo_client_api ''1'' (fst demo_published, demo_secrets) = Ret \<lparr>rp_Code = 200, rp_ContentType = ''application/json'', rp_Body = ''{}''\<rparr> \<and>
   fetched demo_client_api ''1'' (fst demo_published, fst demo_published) = Ret \<lparr>rp_Code = 200, rp_ContentType = ''application/json'', rp_Body = ''root''\<rparr> \<and>
   fetched demo_client_api ''2'' demo_published = fetched demo_client_api ''2'' (demo_secrets, [])"
proof -
  let ?p = "servicesWebhooks_Start demo_client_api ''/services/credentials/publish'' \<lparr>rq_ServiceId = ''1'', rq_ServiceCredentials = ''root''\<rparr> (demo_secrets, [])"
  have d: "distinct (map (\<lambda>s. (om_Namespace (se_Meta s), om_Name (se_Meta s))) (fst (demo_secrets, [])))" by (simp add: demo_secrets_def)
  have v: "versioned (snd (demo_secrets, [])) (fst (demo_secrets, []))" by (simp add: versioned_def)
  have o: "length (filter (has_id ''1'') (fst (demo_secrets, []))) \<le> 1" by (simp add: demo_secrets_def has_id_def)
  have r: "snd ?p = Ret (plain 204)" "snd demo_published = []" by code_simp+
  have a: "answered demo_client_api [''user'' \<mapsto> ''root''] = Ret \<lparr>rp_Code = 200, rp_ContentType = ''application/json'', rp_Body = ''root''\<rparr>"
    "answered demo_client_api Map.empty = Ret \<lparr>rp_Code = 200, rp_ContentType = ''application/json'', rp_Body = ''{}''\<rparr>"
    by (simp_all add: answered_def demo_client_api_def)
  have dec: "kx_Decode demo_client_api ''root'' = Ret [''user'' \<mapsto> ''root'']" by (simp add: demo_client_api_def)
  have old: "\<exists>old. filter (has_id ''1'') demo_secrets = [old] \<and> se_Data old = Map.empty" by (simp add: demo_secrets_def has_id_def)
  from publish_fetch [OF demo_serves d v o run_split [OF r(1)], folded demo_published_def]
  obtain creds where c: "kx_Decode demo_client_api ''root'' = Ret creds" and f: "\<And>v. fst v = fst demo_published \<Longrightarrow>
      fetched demo_client_api ''1'' v = answered demo_client_api (case filter (has_id ''1'') (snd v) of [old] \<Rightarrow> se_Data old | _ \<Rightarrow> creds) \<and>
      (snd v = fst v \<longrightarrow> fetched demo_client_api ''1'' v = answered demo_client_api creds) \<and>
      (\<forall>j. j \<noteq> ''1'' \<longrightarrow> snd v = snd (demo_secrets, []) \<longrightarrow> fetched demo_client_api j v = fetched demo_client_api j (demo_secrets, []))"
    by (elim exE conjE) blast
  from c dec have c: "creds = [''user'' \<mapsto> ''root'']" by simp
  obtain old where old: "filter (has_id ''1'') demo_secrets = [old]" "se_Data old = Map.empty" using old by blast
  note fs = f [of demo_published] f [of "(fst demo_published, demo_secrets)"] f [of "(fst demo_published, fst demo_published)"]
  show ?thesis
  proof (intro conjI)
    show "fetched demo_client_api ''1'' demo_published = Ret \<lparr>rp_Code = 200, rp_ContentType = ''application/json'', rp_Body = ''root''\<rparr>"
      using conjunct1 [OF fs(1) [OF refl]] unfolding r(2) c a(1) [symmetric] by simp
    show "fetched demo_client_api ''1'' (fst demo_published, demo_secrets) = Ret \<lparr>rp_Code = 200, rp_ContentType = ''application/json'', rp_Body = ''{}''\<rparr>"
      using conjunct1 [OF fs(2)] old unfolding a(2) [symmetric] by simp
    show "fetched demo_client_api ''1'' (fst demo_published, fst demo_published) = Ret \<lparr>rp_Code = 200, rp_ContentType = ''application/json'', rp_Body = ''root''\<rparr>"
      using conjunct1 [OF conjunct2 [OF fs(3)]] unfolding c a(1) [symmetric] by simp
    have "''2'' \<noteq> ''1''" by simp
    then show "fetched demo_client_api ''2'' demo_published = fetched demo_client_api ''2'' (demo_secrets, [])"
      using conjunct2 [OF conjunct2 [OF fs(1) [OF refl]]] r(2) by simp
  qed
qed

end
