(* ===== verification/Provenance.thy ===== *)
theory Provenance
  imports Compose_Props
begin

text \<open>
  What holds across the controllers and the registry: what a request published can be pulled again, byte by byte, and
  what a composition resolves for a config store is the configuration its spec describes.
\<close>

section \<open>What was published can be pulled\<close>

text \<open>
  The status names an image from which the component can be pulled out of the registries \<open>w\<close>, and lists the imports and
  exports of the WIT that the tools extract from this component.
\<close>

definition pullable :: "('kc, 'd, 't, 'desc, 'sec, 'w) cluster \<Rightarrow> string \<Rightarrow> 'w \<Rightarrow> GenericComponentStatus \<Rightarrow> bool" where
  "pullable cx component w st \<longleftrightarrow> (\<exists>kc d cfg wit. gst_Image st = lib_DigestName (cx_lib cx) d \<and>
     Pull (cx_lib cx) (cx_remote cx) kc d w = Ret (component, cfg) \<and> ExtractWIT (cx_witToolsPool cx) component = Ret wit \<and>
     gst_WIT st = Some \<lparr>wit_Imports = fst (ImportsExports wit), wit_Exports = snd (ImportsExports wit)\<rparr>)"

text \<open>The configuration that is pushed beside a component survives being printed as JSON.\<close>

definition config_reads_back :: "('kc, 'd, 't, 'desc, 'sec, 'w) cluster \<Rightarrow> string \<Rightarrow> bool" where
  "config_reads_back cx component \<longleftrightarrow>
     (\<forall>img cfg. newWasmImage (cx_lib cx) (ExtractWIT (cx_witToolsPool cx)) component = Ret (img, cfg) \<longrightarrow> reads_back (cx_lib cx) cfg)"

lemma Push_config: "Push lib rm ext opts ref component w = (w', Ret (d, cfg)) \<Longrightarrow> \<exists>img. newWasmImage lib ext component = Ret (img, cfg)"
  by (auto simp: Push_def Let_def bind_go_eq_Ret split: go.splits prod.splits)

lemma published_pullable:
  assumes "publishes_push cx gvk m ref component w st" "static_layers (cx_lib cx)" "push_visible (cx_lib cx) (cx_remote cx)"
    and "config_reads_back cx component"
  shows "pullable cx component w st"
proof -
  from assms(1) obtain kc tag w0 d cfg where
    push: "Push (cx_lib cx) (cx_remote cx) (ExtractWIT (cx_witToolsPool cx)) kc (RefTag tag) component w0 = (w, Ret (d, cfg))"
    and st: "gst_Image st = lib_DigestName (cx_lib cx) d"
      "gst_WIT st = Some \<lparr>wit_Imports = wcc_Imports (wc_Component cfg), wit_Exports = wcc_Exports (wc_Component cfg)\<rparr>"
    unfolding publishes_push_def by blast
  from Push_config [OF push] assms(4) have "reads_back (cx_lib cx) cfg" by (auto simp: config_reads_back_def)
  from push_pull [OF assms(2,3) push this] obtain wit where "Pull (cx_lib cx) (cx_remote cx) kc d w = Ret (component, cfg)"
    and "ExtractWIT (cx_witToolsPool cx) component = Ret wit"
    and "wcc_Imports (wc_Component cfg) = fst (ImportsExports wit)" "wcc_Exports (wc_Component cfg) = snd (ImportsExports wit)"
    by (metis fst_conv snd_conv)
  with st show ?thesis by (auto simp: pullable_def)
qed

lemma configuration_pullable:
  assumes "calm cx" "quiet_go gvk" "sequences sq" "calls_all al" "\<And>c w. quiet_go (snd (manage c w))"
    and "ConfigStoreReconciler sq al cx gvk manage s = (s', Ret ())"
    and "static_layers (cx_lib cx)" "push_visible (cx_lib cx) (cx_remote cx)" "\<And>component. config_reads_back cx component"
  shows "\<exists>component. ComponentizeConfigStore (cx_staticConfigPool cx) (lib_json_text (cx_lib cx))
      (cx_entries cx (configured cx (om_Namespace (rs_Meta (rx_Resource s))) (css_Store (rs_Spec (rx_Resource s))))) = Ret component \<and>
    pullable cx component (rx_World s') (rs_Status (rx_Resource s'))"
  using wpe_explicit [OF wpe_configstore_pipeline [OF assms(1-5)] assms(6)] published_pullable [OF _ assms(7-9)]
  by (auto simp: publishes_config_def)

text \<open>C12: after a request of a config store that returns nil, pulling the image its status names gives back the static
  configuration made of exactly the values its spec describes, and the status lists the imports and exports of this
  component: what the store published is what was configured.\<close>

theorem published_configuration_pullable:
  assumes "calm cx" "quiet_go gvk" "sequences sq" "calls_all al" "\<And>c w. quiet_go (snd (manage c w))"
    and "ConfigStoreReconciler sq al cx gvk manage s = (s', Ret ())"
    and "static_layers (cx_lib cx)" "push_visible (cx_lib cx) (cx_remote cx)" "\<And>component. config_reads_back cx component"
  shows "\<exists>component. ComponentizeConfigStore (cx_staticConfigPool cx) (lib_json_text (cx_lib cx))
      (cx_entries cx (configured cx (om_Namespace (rs_Meta (rx_Resource s))) (css_Store (rs_Spec (rx_Resource s))))) = Ret component \<and>
    pullable cx component (rx_World s') (rs_Status (rx_Resource s'))"
  by (rule configuration_pullable [OF assms])

section \<open>What is built on a published component\<close>

text \<open>A digest names one content, whoever asks for it and whenever; a digest reads back from its name.\<close>

definition content_addressed :: "('d, 't) oci_lib \<Rightarrow> ('d, 't, 'k, 'desc, 'w) remote \<Rightarrow> bool" where
  "content_addressed lib rm \<longleftrightarrow> (\<forall>d d'. lib_NewDigest lib (lib_DigestName lib d) = Ret d' \<longrightarrow> d' = d) \<and>
     (\<forall>k k' d w w' v v'. rm_Get rm k d w = Ret (Ret v) \<longrightarrow> rm_Get rm k' d w' = Ret (Ret v') \<longrightarrow> v' = v)"

lemma Pull_by_view: "Pull lib rm k d w = Ret x \<Longrightarrow> \<exists>v. rm_Get rm k d w = Ret (Ret v)"
  by (auto simp: Pull_def bind_go_eq_Ret)

lemma Pull_once:
  assumes "content_addressed lib rm" "Pull lib rm k d w = Ret x" "Pull lib rm k' d w' = Ret x'"
  shows "x' = x"
proof -
  from Pull_by_view [OF assms(2)] Pull_by_view [OF assms(3)] obtain v v' where
    v: "rm_Get rm k d w = Ret (Ret v)" "rm_Get rm k' d w' = Ret (Ret v')" by blast
  with assms(1) have "v' = v" unfolding content_addressed_def by blast
  with v have "Pull lib rm k' d w' = Pull lib rm k d w" by (simp add: Pull_def)
  with assms(2,3) show ?thesis by simp
qed

text \<open>The bytes pulled at the image a status names are the component this status publishes.\<close>

lemma pulled_is_published:
  assumes "content_addressed (cx_lib cx) (cx_remote cx)" "pullable cx component w st"
    and "lib_NewDigest (cx_lib cx) (gst_Image st) = Ret d" "Pull (cx_lib cx) (cx_remote cx) kc d w' = Ret (bytes, cfg)"
  shows "bytes = component"
proof -
  from assms(2) obtain kc0 d0 cfg0 where "gst_Image st = lib_DigestName (cx_lib cx) d0"
    and p: "Pull (cx_lib cx) (cx_remote cx) kc0 d0 w = Ret (component, cfg0)" by (auto simp: pullable_def)
  with assms(1,3) have "d = d0" by (auto simp: content_addressed_def)
  from Pull_once [OF assms(1) p assms(4) [unfolded this]] show ?thesis by simp
qed

text \<open>C5: a composition that depends on a config store is composed with exactly the configuration of its spec: when
  a request of the store returned nil, and a later request of a composition, at whatever state of the cluster and the
  registries that still shows the status of the store, resolves a dependency on it, then the bytes it stashes to compose with
  are the static configuration made of the values of the spec of the store.\<close>

theorem configuration_reaches_composition:
  assumes "calm cx" "quiet_go gvk" "sequences sq" "calls_all al" "\<And>c w. quiet_go (snd (manage c w))"
    and "ConfigStoreReconciler sq al cx gvk manage s = (s', Ret ())"
    and "static_layers (cx_lib cx)" "push_visible (cx_lib cx) (cx_remote cx)" "\<And>component. config_reads_back cx component"
    and "content_addressed (cx_lib cx) (cx_remote cx)"
    and "calm cy" "publishes_wit cy" "cx_lib cy = cx_lib cx" "cx_remote cy = cx_remote cx"
    and "cd_Ref item = Some ref" "ResolveComponentReference cy ref = Ret c" "cdk_Generic (rs_Status c) = rs_Status (rx_Resource s')"
    and "ResolveDependency cy i n item t = (t', Ret ())"
  shows "\<exists>component rc. ComponentizeConfigStore (cx_staticConfigPool cx) (lib_json_text (cx_lib cx))
      (cx_entries cx (configured cx (om_Namespace (rs_Meta (rx_Resource s))) (css_Store (rs_Spec (rx_Resource s))))) = Ret component \<and>
    st_Dependencies (rx_Stash t') = Some ((case st_Dependencies (rx_Stash t) of None \<Rightarrow> [] | Some ds \<Rightarrow> ds) @ [rc]) \<and>
    rc_Name rc = cd_Component item \<and> rc_Component rc = component \<and> Some (rc_WIT rc) = gst_WIT (rs_Status (rx_Resource s'))"
proof -
  obtain component where
    made: "ComponentizeConfigStore (cx_staticConfigPool cx) (lib_json_text (cx_lib cx))
      (cx_entries cx (configured cx (om_Namespace (rs_Meta (rx_Resource s))) (css_Store (rs_Spec (rx_Resource s))))) = Ret component"
    and kept: "pullable cx component (rx_World s') (rs_Status (rx_Resource s'))"
    using configuration_pullable [OF assms(1-9)] by blast
  have "wpe (ResolveDependency cy i n item)
    (\<lambda>_ t'. \<exists>rc. resolved_as cy (rx_World t) item rc \<and>
      st_Dependencies (rx_Stash t') = Some ((case st_Dependencies (rx_Stash t) of None \<Rightarrow> [] | Some ds \<Rightarrow> ds) @ [rc])) (\<lambda>_. True) t"
    by (rule wpe_ResolveDependency [OF assms(11,12,15)]) blast+
  from wpe_explicit [OF this assms(18)] obtain rc where rc: "resolved_as cy (rx_World t) item rc"
    and stash: "st_Dependencies (rx_Stash t') = Some ((case st_Dependencies (rx_Stash t) of None \<Rightarrow> [] | Some ds \<Rightarrow> ds) @ [rc])"
    by auto
  from rc assms(13-17) obtain kc cfg where "lib_NewDigest (cx_lib cx) (gst_Image (rs_Status (rx_Resource s'))) = Ret (rc_Image rc)"
    and "Pull (cx_lib cx) (cx_remote cx) kc (rc_Image rc) (rx_World t) = Ret (rc_Component rc, cfg)"
    and "gst_WIT (rs_Status (rx_Resource s')) = Some (rc_WIT rc)" "rc_Name rc = cd_Component item"
    by (auto simp: resolved_as_def)
  with made stash pulled_is_published [OF assms(10) kept] show ?thesis by fastforce
qed

text \<open>C6: a container runs what was composed: when a request of a composition returned nil, and a later request of a
  container image that refers to it returns nil, then the images of the index it wrote are those of its base image, each
  with one more layer: the archive of the component composed, by the plug or the script of the spec, of what the
  dependencies of the composition resolved to, each from its own reference or its own child (and no layer when the archive of this
  component could not be written, an error the code drops); and its status publishes the digest of this index.\<close>

theorem container_runs_composition:
  fixes s :: "(Composition, 'kc, 'd, 't, 'w) rstate" and t :: "(ComponentContainerImage, 'kc, 'd, 't, 'w) rstate"
  assumes "calm cx" "quiet_go gvk" "sequences sq" "calls_all al" "publishes_wit cx"
    and "creates (cc_ConfigStores cc)" "creates (cc_Components cc)" "creates (cc_Compositions cc)" "\<And>c w. quiet_go (snd (cc_Component cc c w))"
    and "GenericCompositionSpec_Validate (StashResource ctx (rs_Meta (rx_Resource s))) p (cos_Composition (rs_Spec (rx_Resource s))) = Ret []"
    and "st_Dependencies (rx_Stash s) = None" "CompositionReconciler sq al cx gvk cc s = (s', Ret ())"
    and "static_layers (cx_lib cx)" "push_visible (cx_lib cx) (cx_remote cx)" "\<And>component. config_reads_back cx component"
    and "content_addressed (cx_lib cx) (cx_remote cx)"
    and "calm cy" "quiet_go gvk'" "sequences sq'" "calls_all al'" "calm_index ix" "cx_lib cy = cx_lib cx" "cx_remote cy = cx_remote cx"
    and "ResolveComponentReference cy (cci_Ref (rs_Spec (rx_Resource t))) = Ret c" "cdk_Generic (rs_Status c) = cst_Generic (rs_Status (rx_Resource s'))"
    and "ComponentContainerImageReconciler sq' al' cy gvk' patch ix t = (t', Ret ())"
  shows "\<exists>(items :: GenericCompositionSpec CompositionDependency list) w ds component kc img tag adds dg d.
    own_items cc (rx_Resource s) (rx_World s) items \<and>
    list_all2 (resolved_as cx w) items ds \<and> composes cx (cos_Composition (rs_Spec (rx_Resource s))) ds component \<and>
    base_image cy (om_Namespace (rs_Meta (rx_Resource t))) (cci_ImageRef (rs_Spec (rx_Resource t))) img \<and>
    index_over (cx_lib cx) ix kc (RefDigest img) component (rx_World t) adds \<and>
    ix_WriteIndex ix kc tag adds (rx_World t) = (rx_World t', Ret ()) \<and>
    ix_Digest ix adds = Ret dg \<and> lib_NewDigest (cx_lib cx) (at_digest (lib_TagRepository (cx_lib cx) tag) dg) = Ret d \<and>
    gst_Image (rs_Status (rx_Resource t')) = lib_DigestName (cx_lib cx) d"
proof -
  let ?spec = "cos_Composition (rs_Spec (rx_Resource s))" and ?st = "cst_Generic (rs_Status (rx_Resource s'))"
  have "publishes_composition cx gvk cc (rx_Resource s) (rx_World s) (rx_World s') (rx_Resource s')"
    using wpe_explicit [OF wpe_composition_pipeline [OF assms(1-9) validated_sources [OF assms(10)] assms(11)] assms(12)] by simp
  then obtain items :: "GenericCompositionSpec CompositionDependency list" and w ds component where
    made: "own_items cc (rx_Resource s) (rx_World s) items" "list_all2 (resolved_as cx w) items ds"
      "composes cx ?spec ds component"
    and pushed: "publishes_push cx gvk (rs_Meta (rx_Resource s)) (Composition_GetRepositoryReference (rx_Resource s)) component (rx_World s') ?st"
    unfolding publishes_composition_def Let_def by blast
  note kept = published_pullable [OF pushed assms(13-15)]
  have "publishes_container cy gvk' ix (rx_Resource t) (rx_World t) (rx_World t') (rs_Status (rx_Resource t'))"
    using wpe_explicit [OF wpe_cci_pipeline [OF assms(17-21)] assms(26)] by simp
  then obtain bytes cfg img tag kc adds dg d where
    pulled: "pulled_component cy (cci_Ref (rs_Spec (rx_Resource t))) (rx_World t) bytes cfg"
    and base: "base_image cy (om_Namespace (rs_Meta (rx_Resource t))) (cci_ImageRef (rs_Spec (rx_Resource t))) img"
    and index: "index_over (cx_lib cx) ix kc (RefDigest img) bytes (rx_World t) adds" "ix_WriteIndex ix kc tag adds (rx_World t) = (rx_World t', Ret ())"
      "ix_Digest ix adds = Ret dg" "lib_NewDigest (cx_lib cx) (at_digest (lib_TagRepository (cx_lib cx) tag) dg) = Ret d"
      "gst_Image (rs_Status (rx_Resource t')) = lib_DigestName (cx_lib cx) d"
    unfolding publishes_container_def assms(22) by blast
  from pulled assms(22-25) obtain d0 kc0 where "lib_NewDigest (cx_lib cx) (gst_Image ?st) = Ret d0"
    "Pull (cx_lib cx) (cx_remote cx) kc0 d0 (rx_World t) = Ret (bytes, cfg)" by (auto simp: pulled_component_def)
  from pulled_is_published [OF assms(16) kept this] made base index show ?thesis by blast
qed

section \<open>A registry that can be built on\<close>

text \<open>A registry of one component, which serves it under every digest and refuses to store another.\<close>

definition pub_registry :: "(string, string, string, string, unit) remote" where
  "pub_registry = any_registry\<lparr>rm_Push := (\<lambda>_ ref img w. (w, if wi_layer img = lib_NewLayer demo_lib ''asm'' WasmLayerMediaType
     then Ret () else Fail (Text ''denied'')))\<rparr>"

definition pub_cluster :: "(string, string, string, string, string, unit) cluster" where
  "pub_cluster = full_cluster\<lparr>cx_remote := pub_registry, cx_staticConfigPool := Ret (\<lambda>f c. Ret ''asm''), cx_wacPool := Ret (\<lambda>f c. Ret ''asm''),
     cx_witToolsPool := Ret (\<lambda>f c. if c = ''asm'' then Ret ''world root { import a:b/c; }'' else Fail (Text ''not a component''))\<rparr>"

lemma pub_calm: "calm pub_cluster"
  using full_calm by (auto simp: calm_def calm_remote_def pub_cluster_def full_cluster_def pub_registry_def any_registry_def
      calm_view_def demo_lib_def)

lemma pub_view: "wi_layer img = lib_NewLayer demo_lib ''asm'' WasmLayerMediaType \<Longrightarrow>
   rm_Get pub_registry k d w = Ret (Ret (wasmImage_view demo_lib img))"
  by (simp add: pub_registry_def any_registry_def wasmImage_view_def wasmImage_RawConfigFile_def)
    (simp add: demo_lib_def wasmImage_MediaType_def wasmImage_Layers_def)

lemma pub_parts: "cx_lib pub_cluster = demo_lib" "cx_remote pub_cluster = pub_registry"
  by (simp_all add: pub_cluster_def full_cluster_def demo_cluster_def any_cluster_def)

lemma pub_laws: "static_layers (cx_lib pub_cluster)" "push_visible (cx_lib pub_cluster) (cx_remote pub_cluster)"
    "content_addressed (cx_lib pub_cluster) (cx_remote pub_cluster)"
proof -
  show "static_layers (cx_lib pub_cluster)" by (simp add: pub_parts demo_static_layers)
  have "rm_Push pub_registry k ref img w = (w', Ret ()) \<Longrightarrow> wi_layer img = lib_NewLayer demo_lib ''asm'' WasmLayerMediaType" for k ref img w w'
    by (simp add: pub_registry_def split: if_splits)
  from pub_view [OF this] show "push_visible (cx_lib pub_cluster) (cx_remote pub_cluster)" unfolding push_visible_def pub_parts by blast
  have "rm_Get pub_registry k d w = rm_Get pub_registry k' d w'" for k k' d w w' by (simp add: pub_registry_def any_registry_def)
  moreover have "lib_NewDigest demo_lib (lib_DigestName demo_lib d) = Ret d' \<Longrightarrow> d' = d" for d d'
    by (simp add: demo_lib_def split: if_splits)
  ultimately show "content_addressed (cx_lib pub_cluster) (cx_remote pub_cluster)" unfolding content_addressed_def pub_parts by (metis go.inject(1))
qed

lemma pub_reads_back: "config_reads_back pub_cluster component"
proof -
  have "ImportsExports ''world root { import a:b/c; }'' = ([''a:b/c''], [])" by code_simp
  then show ?thesis
    by (auto simp: config_reads_back_def newWasmImage_def bind_go_eq_Ret pub_cluster_def full_cluster_def demo_cluster_def any_cluster_def
      Extract_def ExtractWIT_def recovered_def demo_lib_def demo_config_def reads_back_def Let_def split: if_splits go.splits)
qed

text \<open>The store of the demonstration, after a request that returned nil.\<close>

abbreviation pub_store :: "(ConfigStore, string, string, string, unit) rstate \<times> unit go" where
  "pub_store \<equiv> ConfigStoreReconciler run_sequence run_always pub_cluster demo_gvk (demo_manage True) (demo_start demo_config_store)"

lemma pub_store_ran: "pub_store = (fst pub_store, Ret ())"
proof -
  have "snd pub_store = Ret ()" by code_simp
  from run_split [OF this] show ?thesis .
qed

lemma demo_manage_quiet: "quiet_go (snd (demo_manage ok c w))"
  by (simp add: demo_manage_def)

lemmas pub_store_laws = pub_calm demo_gvk_quiet run_sequence_law run_always_law demo_manage_quiet pub_store_ran pub_laws(1,2) pub_reads_back

lemma pub_made: "ComponentizeConfigStore (cx_staticConfigPool pub_cluster) text_of es = Ret ''asm''"
  by (simp add: ComponentizeConfigStore_def recovered_def pub_cluster_def)

lemma published_configuration_pullable_witness:
  "pullable pub_cluster ''asm'' () (rs_Status (rx_Resource (fst pub_store)))"
  using published_configuration_pullable [OF pub_store_laws] by (simp add: pub_made)

text \<open>The cluster once the status of the store is on its child.\<close>

definition pub_shown :: "GenericComponentStatus \<Rightarrow> (string, string, string, string, string, unit) cluster" where
  "pub_shown st = pub_cluster\<lparr>cx_Component := (\<lambda>t k. Ret (demo_duck\<lparr>rs_Status := \<lparr>cdk_Status = demo_ready, cdk_Generic = st\<rparr>\<rparr>))\<rparr>"

lemma pub_shown_calm: "calm (pub_shown st)"
  using pub_calm by (simp add: calm_def pub_shown_def)

lemma pub_shown_same: "cx_lib (pub_shown st) = cx_lib pub_cluster" "cx_remote (pub_shown st) = cx_remote pub_cluster"
  by (simp_all add: pub_shown_def)

definition pub_item :: "GenericCompositionSpec CompositionDependency" where
  "pub_item = CompositionDependency ''y'' (Some \<lparr>cr_APIVersion = ''wa8s.reconciler.io/v1alpha1'', cr_Kind = ''Component'',
     cr_Namespace = ''apps'', cr_Name = ''lib''\<rparr>) None None None"

lemma configuration_reaches_composition_witness:
  "\<exists>t' rc. ResolveDependency (pub_shown (rs_Status (rx_Resource (fst pub_store)))) 0 1 pub_item (demo_start demo_composition) = (t', Ret ()) \<and>
     st_Dependencies (rx_Stash t') = Some [rc] \<and> rc_Name rc = ''y'' \<and> rc_Component rc = ''asm''"
proof -
  let ?st = "rs_Status (rx_Resource (fst pub_store))"
  let ?run = "ResolveDependency (pub_shown ?st) 0 1 pub_item (demo_start demo_composition)"
  let ?c = "demo_duck\<lparr>rs_Status := \<lparr>cdk_Status = demo_ready, cdk_Generic = ?st\<rparr>\<rparr>"
  have "snd ?run = Ret ()" by code_simp
  note run = run_split [OF this]
  have item: "cd_Ref pub_item = Some (the (cd_Ref pub_item))" by (simp add: pub_item_def)
  have shown: "ResolveComponentReference (pub_shown ?st) (the (cd_Ref pub_item)) = Ret ?c"
    by (simp add: ResolveComponentReference_def pub_shown_def)
  have "gst_WIT ?st \<noteq> None" by code_simp
  then have wit: "publishes_wit (pub_shown ?st)" by (simp add: publishes_wit_def pub_shown_def)
  have "cdk_Generic (rs_Status ?c) = ?st" by simp
  note * = configuration_reaches_composition [OF pub_store_laws pub_laws(3) pub_shown_calm wit pub_shown_same item shown this run]
  have "st_Dependencies (rx_Stash (demo_start demo_composition)) = None" by (simp add: demo_start_def empty_stash_def)
  with * run show ?thesis by (auto simp: pub_made pub_item_def intro!: exI [of _ "fst ?run"])
qed

lemma pub_composes: "composes pub_cluster spec ds component \<Longrightarrow> component = ''asm''"
  by (auto simp: composes_def WACPlug_def WACCompose_def recovered_def pub_cluster_def split: if_splits)

text \<open>The composition of the demonstration, and a container of it.\<close>

abbreviation pub_composition :: "(Composition, string, string, string, unit) rstate \<times> unit go" where
  "pub_composition \<equiv> CompositionReconciler run_sequence run_always pub_cluster demo_gvk demo_children (demo_start demo_composition)"

lemma container_runs_composition_witness:
  "\<exists>t'. ComponentContainerImageReconciler run_sequence run_always (pub_shown (cst_Generic (rs_Status (rx_Resource (fst pub_composition)))))
       demo_gvk no_patch demo_index (demo_start demo_container) = (t', Ret ()) \<and>
     (\<exists>(kc :: string) img adds. base_image pub_cluster ''apps'' (cci_ImageRef (rs_Spec demo_container)) img \<and>
        index_over demo_lib demo_index kc (RefDigest img) ''asm'' () adds)"
proof -
  let ?st = "cst_Generic (rs_Status (rx_Resource (fst pub_composition)))"
  let ?run = "ComponentContainerImageReconciler run_sequence run_always (pub_shown ?st) demo_gvk no_patch demo_index (demo_start demo_container)"
  let ?c = "demo_duck\<lparr>rs_Status := \<lparr>cdk_Status = demo_ready, cdk_Generic = ?st\<rparr>\<rparr>"
  have "snd pub_composition = Ret ()" by code_simp
  note composed = run_split [OF this]
  have "snd ?run = Ret ()" by code_simp
  note run = run_split [OF this]
  have cc: "creates (cc_ConfigStores demo_children)" "creates (cc_Components demo_children)" "creates (cc_Compositions demo_children)"
    by (simp_all add: demo_children_def create_all_creates)
  have q: "quiet_go (snd (cc_Component demo_children c w))" for c w by (simp add: demo_children_def demo_manage_quiet)
  have d: "st_Dependencies (rx_Stash (demo_start demo_composition)) = None" by (simp add: demo_start_def empty_stash_def)
  have wit: "publishes_wit pub_cluster" using full_publishes_wit by (simp add: publishes_wit_def pub_cluster_def)
  have shown: "ResolveComponentReference (pub_shown ?st) r = Ret ?c" for r
    by (simp add: ResolveComponentReference_def pub_shown_def)
  have st: "cdk_Generic (rs_Status ?c) = ?st" by simp
  note * = container_runs_composition [OF pub_calm demo_gvk_quiet run_sequence_law run_always_law wit cc q demo_composition_valid d composed
      pub_laws(1,2) pub_reads_back pub_laws(3) pub_shown_calm demo_gvk_quiet run_sequence_law run_always_law demo_index_calm pub_shown_same
      shown st run]
  have at: "rx_Resource (demo_start demo_container) = demo_container" "om_Namespace (rs_Meta demo_container) = ''apps''" "rx_World u = ()" for u :: "(ComponentContainerImage, string, string, string, unit) rstate"
    by (simp_all add: demo_start_def demo_container_def demo_named_def)
  from * obtain ds component img adds and kc :: string where
    "composes pub_cluster (cos_Composition (rs_Spec (rx_Resource (demo_start demo_composition)))) ds component"
    "base_image (pub_shown ?st) ''apps'' (cci_ImageRef (rs_Spec demo_container)) img"
    "index_over demo_lib demo_index kc (RefDigest img) component () adds" unfolding at pub_parts by blast
  then have "base_image pub_cluster ''apps'' (cci_ImageRef (rs_Spec demo_container)) img"
    "index_over demo_lib demo_index kc (RefDigest img) ''asm'' () adds"
    using pub_composes by (fastforce simp: base_image_def fetch_image_def pub_shown_def)+
  with run show ?thesis by blast
qed

end
