(* ===== verification/Spec2Isabelle.thy ===== *)
theory Spec2Isabelle
  imports Definition_Rules Services_Rules Service_Credentials Provenance
begin

text \<open>
  wa8s runs WebAssembly components in a Kubernetes cluster.  It is a set of custom resources, of the webhooks that
  default and validate them and of the controllers that reconcile them: components are copied, composed, pushed to OCI
  registries, wrapped into container images and run by triggers; two integrations add Knative services and stateful
  services with lifecycles, instances, bindings and clients.  This development models the Go code under
  \<^verbatim>\<open>src/\<close> that carries this logic, in the order the code is layered.

  \<^bold>\<open>How the code is modelled.\<close>  A Go call ends in \<open>Ret\<close>, in an error (\<open>Fail\<close>) or in a panic (\<open>Panic\<close>), the type \<open>go\<close> of
  \<^verbatim>\<open>Prelude\<close>.  A sub reconciler is a function from a state to a state and such a result (\<open>handler\<close>): the state \<open>rstate\<close> of
  \<^verbatim>\<open>Reconcile\<close> holds the resource, the conditions marked so far, the events, the results asked for, the stash and the world
  \<open>rx_World\<close>, which only the calls that reach outside change.  \<open>child_reconciler\<close> is the runtime's child
  reconciler: \<open>DesiredChild\<close>, the management of the child in the cluster and \<open>Reflect\<close>.  A struct is a record with its fields, a
  pointer an option, a Go map a partial map, \<^verbatim>\<open>time.Duration\<close> a \<open>64 word\<close>.  Definitions have the names of the functions they
  translate, with the receiver type or the role (\<open>DesiredChild\<close>, \<open>Reflect\<close>, \<open>Sync\<close>, \<open>Finalize\<close>) as a prefix or suffix.

  \<^bold>\<open>Parts and theories.\<close>
  \<^item> \<^verbatim>\<open>Prelude\<close>: results, errors as the API machinery classifies them, lists of field errors, strings.
  \<^item> \<^verbatim>\<open>Kube\<close>: object metadata, the object stashed in a context (\<^verbatim>\<open>validation/stash.go\<close>), default namespace and kinds
    (\<^verbatim>\<open>internal/defaults\<close>), common annotations (\<^verbatim>\<open>apis/annotations.go\<close>), and the interfaces of the webhooks as locales:
    \<open>defaulter\<close>, \<open>validated\<close> for a spec, \<open>admitted_kind\<close> for a kind.  Every spec and kind below interprets them.
  \<^item> \<^verbatim>\<open>Registries_Api\<close>, \<^verbatim>\<open>Components_Api\<close>, \<^verbatim>\<open>Containers_Api\<close>, \<^verbatim>\<open>Knative_Api\<close>, \<^verbatim>\<open>Services_Api\<close>: the types and webhooks of the API
    groups (\<^verbatim>\<open>*_types.go\<close>, \<^verbatim>\<open>*_webhook.go\<close>).  \<^verbatim>\<open>Components_Admission\<close>, \<^verbatim>\<open>Host_Args\<close> and \<^verbatim>\<open>Services_Rules\<close> say what they accept, what
    defaulting produces and what host capabilities become on a command line.
  \<^item> \<^verbatim>\<open>Trace\<close>: spans and cycle detection (\<^verbatim>\<open>controllers/duck_controller.go\<close>).  \<^verbatim>\<open>Wit\<close>: imports and exports of a world
    (\<^verbatim>\<open>wit/extract.go\<close>).  \<^verbatim>\<open>Oci\<close>: images, push, pull and copy (\<^verbatim>\<open>registry\<close>).  \<^verbatim>\<open>Plugins\<close>: the calls of the embedded plugins
    (\<^verbatim>\<open>components/components.go\<close>).
  \<^item> \<^verbatim>\<open>Reconcile\<close>: conditions, the stash (locale \<open>stash_cell\<close>, interpreted for every stasher), sentinel errors, sub reconcilers and a
    weakest precondition \<open>wpe\<close> for them.  \<^verbatim>\<open>Duck_Controllers\<close>, \<^verbatim>\<open>Duck_Rules\<close>: the sub reconcilers shared by all controllers.
  \<^item> \<^verbatim>\<open>Core_Controllers\<close>, \<^verbatim>\<open>Core_Rules\<close>, \<^verbatim>\<open>Core_Progress\<close>, \<^verbatim>\<open>Core_Props\<close>: repositories, images, components and config stores
    (\<^verbatim>\<open>internal/controllers\<close>).  \<^verbatim>\<open>Compose_Controllers\<close>, \<^verbatim>\<open>Compose_Children\<close> (what a dependency refers to once its children are managed), \<^verbatim>\<open>Compose_Rules\<close>,
    \<^verbatim>\<open>Compose_Progress\<close>, \<^verbatim>\<open>Compose_Props\<close>: compositions and container images.
    \<^verbatim>\<open>Provenance\<close>: what holds from one controller to the next, through the registry and the status of what was published.
  \<^item> \<^verbatim>\<open>Trigger_Controllers\<close>, \<^verbatim>\<open>Knative_Controllers\<close>, \<^verbatim>\<open>Trigger_Props\<close>: cron, HTTP and wRPC triggers and the Knative trigger.
  \<^item> \<^verbatim>\<open>Lifecycle_Client\<close>: the requests to a lifecycle service (\<^verbatim>\<open>integrations/services/lifecycle\<close>).  \<^verbatim>\<open>Service_Controllers\<close>: the
    controllers of bindings, instances and clients; \<^verbatim>\<open>Service_Bindings\<close> relates bindings over time to an abstract system of three
    phases (locale \<open>refinement_mapping\<close>), \<^verbatim>\<open>Service_Progress\<close> and \<^verbatim>\<open>Service_Clients\<close> are about expiry, stamping and deletion.
    \<^verbatim>\<open>Service_Credentials\<close>: the credentials server (\<^verbatim>\<open>services_webhook.go\<close>).  \<^verbatim>\<open>Service_Lifecycles\<close>, \<^verbatim>\<open>Lifecycle_Rules\<close>: lifecycles.
    \<^verbatim>\<open>Service_Definitions\<close>, \<^verbatim>\<open>Definition_Rules\<close>: resource definitions and the custom kinds they introduce.

  \<^bold>\<open>What the theorems show.\<close>
  \<^item> Admission: no webhook panics (but for one, a finding), defaulting returns and is idempotent, and what is admitted is
    characterised; compositions are validated at every depth.  The children controllers make pass the webhooks of
    their kinds: compositions, container images, triggers, lifecycles, instances.
  \<^item> Each controller: whatever the cluster answers, a request sets only conditions of its kind and does not panic on a missing
    stashed value; a request that returns nil has published what the spec asks for, under the tag of the resource in its
    repository and with the digest that was pushed; conversely a first request of a kind that
    publishes returns nil when what it needs is there (\<open>image_copyable\<close>, \<open>copyable\<close>, \<open>buildable\<close>, \<open>containable\<close>, \<open>composable\<close>);
    cycles of components are found exactly; a
    repository is ready exactly when its credentials may push.
  \<^item> Provenance: what a config store published can be pulled again; what a composition resolves for it is made of exactly the
    configured values; each dependency of a composition is resolved from its own reference or its own child (\<open>own_items\<close>); what a container
    image appends to its base is the archive of what the composition composed of its dependencies (\<open>component_layer\<close>), or
    nothing when the archive could not be written.
  \<^item> Traces, registries, parsing: exact cycle detection, round trips of push and pull, of query strings and of worlds; which options
    and variables wasmtime reads off the command line, and what unescaped commas and equals signs do to them; what is
    fetched after credentials were published, through a cache that may be old.
  \<^item> Services: a run of requests of a binding refines unbound, active, expired; an expired binding has no valid credentials; with
    a service that answers and children that are ready a binding expires; instances and lifecycles are kept while
    they are used; a client asks for one more binding exactly when
    the current one is missing, out of sync or due; the manager of custom kinds is started exactly when they exist.
  \<^item> Where the code deviates from what it means to do, the theorem states what it does.

  \<^bold>\<open>Parameters and hypotheses.\<close>  Code that is not in the repository is an argument: the operations of go-containerregistry and of the
  tar library (\<open>oci_lib\<close>, \<open>remote\<close>, \<open>index_lib\<close>), plugins, templates and key chains (\<open>cluster\<close>), HTTP (\<open>http\<close>), the condition sets of the
  runtime (\<open>cond_lib\<close>), its sequences (\<open>sq\<close>, \<open>al\<close>), how a child is created or updated (\<open>manage\<close>), lists of objects, kebab case, the
  manager of reconciler.io/ducks, how wasmtime reads its command line (\<open>cli\<close>).  What is assumed of them is named: \<open>sequences\<close> and \<open>calls_all\<close> (a sequence stops at the first
  error, the other calls all), \<open>calm\<close> and \<open>quiet_go\<close> (no library call panics, the scheme knows its
  kinds, what is missing is reported by the error of the API server itself), \<open>creates\<close> (a managed child set
  comes back with one object for every desired child and none else, each with the identity and the namespace asked for), \<open>publishes_wit\<close> (a ready component has its WIT), \<open>reads_back\<close> (JSON and times read back as they were
  printed), \<open>static_layers\<close> (a layer is its content), \<open>push_visible\<close> (a registry serves what was pushed), \<open>content_addressed\<close> (a digest
  names one content, for every reader and at any time), \<open>revocable\<close> (after unbinding, credentials are not honoured), \<open>healthy\<close> (instance and children are
  ready and the service answers), \<open>lawful\<close> (every request of a binding runs in a calm environment of this kind), \<open>serves\<close> and \<open>versioned\<close> (the API
  server lists what is stored and an update needs the current resource version; the cached client lists a cache, however old),
  \<open>documented\<close> (\<^verbatim>\<open>-S\<close> of wasmtime takes options separated by commas, a name ends at the first equals sign), \<open>plain_rejections\<close> (a rejection is an error of
  the API server itself), \<open>silent\<close> (the sub manager marks no condition).  A concrete environment in the witnesses satisfies
  each of them.  No fuel is used: recursion on compositions and traces is by size, on lists structural.

  \<^bold>\<open>Not modelled.\<close>  Generated code (\<^verbatim>\<open>zz_generated*\<close>: deep copies, which are the identity on values, and builders for tests), the hooks of the
  builders (\<^verbatim>\<open>*_dies.go\<close>), scheme registration, the manager programs (\<^verbatim>\<open>internal/cmd\<close>: flags and wiring), type
  declarations copied from Knative but for the fields the controller reads or sets, the plugin programs in Rust (wrappers of the wac and
  wit crates) and manifests.  Of the runtime: finalizers and the suppression of transient errors around a controller, and the
  registration of watches.  The text of error messages follows the code; log lines are left out.
\<close>

end
